(* ===== verification/Sir_Prelude.thy ===== *)
theory Sir_Prelude
  imports Main "HOL-Library.Sublist" "HOL-Library.Char_ord" "HOL-Library.List_Lexorder"
begin

text \<open>
  Shared vocabulary of the development: the fragments of Go's standard library the
  sources use on strings, slices and clock readings, the strictness order on verdicts,
  and the generic lemmas every component theory relies on.

  A Go string is a byte sequence; \<^typ>\<open>string\<close> is a list of 8-bit characters, so a Go
  string and a Go byte slice are both modelled as \<^typ>\<open>string\<close> without loss. Functions
  of package \<open>strings\<close> that consult Unicode tables (\<open>ToLower\<close>, \<open>TrimSpace\<close>) are
  modelled on the ASCII range, where Go itself takes a byte-wise fast path; bytes from
  128 upwards are left unchanged.
\<close>

named_theorems go_strings "definitions of the modelled string functions"
named_theorems const_defs "string constants of the sources"

subsection \<open>Clock readings\<close>

text \<open>
  An instant is a number of nanoseconds; 0 stands for Go's zero \<open>time.Time\<close>. A duration
  is a number of nanoseconds as well. Reading the clock is an argument of every operation
  that calls \<open>time.Now\<close>.
\<close>

type_synonym Time = int
type_synonym Duration = int

definition Time_IsZero :: "Time \<Rightarrow> bool" where
  "Time_IsZero t \<longleftrightarrow> t = 0"

definition Second :: Duration where
  "Second = 1000000000"

definition Minute :: Duration where
  "Minute = 60 * Second"

subsection \<open>Strings\<close>

definition em_dash :: string where
  "em_dash = [CHR 0xE2, CHR 0x80, CHR 0x94]"

definition newline :: string where
  "newline = [CHR 0x0A]"

fun strings_HasPrefix :: "string \<Rightarrow> string \<Rightarrow> bool" where
  "strings_HasPrefix s [] = True"
| "strings_HasPrefix [] (p # ps) = False"
| "strings_HasPrefix (c # cs) (p # ps) = (c = p \<and> strings_HasPrefix cs ps)"

definition strings_HasSuffix :: "string \<Rightarrow> string \<Rightarrow> bool" where
  "strings_HasSuffix s suf = strings_HasPrefix (rev s) (rev suf)"

fun strings_Contains :: "string \<Rightarrow> string \<Rightarrow> bool" where
  "strings_Contains [] sub = (sub = [])"
| "strings_Contains (c # cs) sub = (strings_HasPrefix (c # cs) sub \<or> strings_Contains cs sub)"

definition ascii_lower :: "char \<Rightarrow> char" where
  "ascii_lower c =
     (let n = (of_char c :: nat) in if 65 \<le> n \<and> n \<le> 90 then char_of (n + 32) else c)"

definition strings_ToLower :: "string \<Rightarrow> string" where
  "strings_ToLower s = map ascii_lower s"

definition ascii_upper :: "char \<Rightarrow> char" where
  "ascii_upper c =
     (let n = (of_char c :: nat) in if 97 \<le> n \<and> n \<le> 122 then char_of (n - 32) else c)"

definition strings_ToUpper :: "string \<Rightarrow> string" where
  "strings_ToUpper s = map ascii_upper s"

definition ascii_space :: "char \<Rightarrow> bool" where
  "ascii_space c \<longleftrightarrow> (let n = (of_char c :: nat) in n = 32 \<or> (9 \<le> n \<and> n \<le> 13))"

definition strings_TrimSpace :: "string \<Rightarrow> string" where
  "strings_TrimSpace s = rev (dropWhile ascii_space (rev (dropWhile ascii_space s)))"

fun strings_Join :: "string list \<Rightarrow> string \<Rightarrow> string" where
  "strings_Join [] sep = []"
| "strings_Join [x] sep = x"
| "strings_Join (x # y # xs) sep = x @ sep @ strings_Join (y # xs) sep"

lemma HasPrefix_iff_prefix: "strings_HasPrefix s p \<longleftrightarrow> prefix p s"
  by (induction s p rule: strings_HasPrefix.induct) auto

lemma HasSuffix_iff_suffix: "strings_HasSuffix s suf \<longleftrightarrow> suffix suf s"
  by (simp add: strings_HasSuffix_def HasPrefix_iff_prefix suffix_to_prefix)

lemma Contains_iff_sublist: "strings_Contains s sub \<longleftrightarrow> sublist sub s"
proof (induction s)
  case Nil
  then show ?case by simp
next
  case (Cons c cs)
  then show ?case
    by (simp only: strings_Contains.simps HasPrefix_iff_prefix sublist_Cons_right)
qed

lemma Contains_refl [simp]: "strings_Contains s s"
  by (simp add: Contains_iff_sublist)

lemma ascii_lower_idem [simp]: "ascii_lower (ascii_lower c) = ascii_lower c"
  by (auto simp: ascii_lower_def Let_def)

lemma ToLower_idem [simp]: "strings_ToLower (strings_ToLower s) = strings_ToLower s"
  by (simp add: strings_ToLower_def)

lemma length_ToLower [simp]: "length (strings_ToLower s) = length s"
  by (simp add: strings_ToLower_def)

subsection \<open>Slices\<close>

text \<open>\<open>for _, x := range xs { if x == y { return true } }; return false\<close>\<close>

fun slice_contains :: "'a list \<Rightarrow> 'a \<Rightarrow> bool" where
  "slice_contains [] y = False"
| "slice_contains (x # xs) y = (x = y \<or> slice_contains xs y)"

lemma slice_contains_iff [simp]: "slice_contains xs y \<longleftrightarrow> y \<in> set xs"
  by (induction xs) auto

text \<open>The append-if-absent idiom that several packages repeat.\<close>

definition append_unique :: "'a list \<Rightarrow> 'a \<Rightarrow> 'a list" where
  "append_unique xs y = (if slice_contains xs y then xs else xs @ [y])"

lemma set_append_unique [simp]: "set (append_unique xs y) = insert y (set xs)"
  by (auto simp: append_unique_def)

lemma distinct_append_unique [simp]: "distinct (append_unique xs y) \<longleftrightarrow> distinct xs"
  by (simp add: append_unique_def)

lemma append_unique_idem [simp]:
  "append_unique (append_unique xs y) y = append_unique xs y"
  by (simp add: append_unique_def)

lemma length_append_unique_le: "length (append_unique xs y) \<le> Suc (length xs)"
  by (simp add: append_unique_def)

end
