(* ===== verification/Policy_Surface.thy ===== *)
theory Policy_Surface
  imports Sir_Prelude
begin

text \<open>
  Package \<open>pkg/policy\<close>: the closed vocabularies that Go and the Rust oracle share
  (\<open>surface_gen.go\<close>) and the policy-provider types (\<open>provider.go\<close>). Each of these Go
  types is an open string type with named constants, so a value outside the vocabulary is
  representable, as it is in Go.

  The theory ends with the strictness order on verdicts (allow below ask below deny) and
  the interface \<open>verdict_tightening\<close>: an operation on verdicts that never lowers
  strictness. Every layer of the program that may only narrow a decision is shown to
  satisfy it.
\<close>

type_synonym Verb = string
type_synonym Verdict = string
type_synonym PostureState = string
type_synonym ApprovalScope = string

subsection \<open>Verbs\<close>

definition VerbNetLocal :: Verb where
  "VerbNetLocal = ''net_local''"

definition VerbNetAllowlisted :: Verb where
  "VerbNetAllowlisted = ''net_allowlisted''"

definition VerbNetExternal :: Verb where
  "VerbNetExternal = ''net_external''"

definition VerbPushOrigin :: Verb where
  "VerbPushOrigin = ''push_origin''"

definition VerbPushRemote :: Verb where
  "VerbPushRemote = ''push_remote''"

definition VerbRunEphemeral :: Verb where
  "VerbRunEphemeral = ''run_ephemeral''"

definition VerbReadRef :: Verb where
  "VerbReadRef = ''read_ref''"

definition VerbStageWrite :: Verb where
  "VerbStageWrite = ''stage_write''"

definition VerbExecuteDryRun :: Verb where
  "VerbExecuteDryRun = ''execute_dry_run''"

definition VerbDangerousShell :: Verb where
  "VerbDangerousShell = ''dangerous_shell''"

definition VerbRunTests :: Verb where
  "VerbRunTests = ''run_tests''"

definition VerbCommit :: Verb where
  "VerbCommit = ''commit''"

definition VerbListFiles :: Verb where
  "VerbListFiles = ''list_files''"

definition VerbSearchCode :: Verb where
  "VerbSearchCode = ''search_code''"

definition VerbEnvRead :: Verb where
  "VerbEnvRead = ''env_read''"

definition VerbDnsLookup :: Verb where
  "VerbDnsLookup = ''dns_lookup''"

definition VerbPersistence :: Verb where
  "VerbPersistence = ''persistence''"

definition VerbSudo :: Verb where
  "VerbSudo = ''sudo''"

definition VerbDeletePosture :: Verb where
  "VerbDeletePosture = ''delete_posture''"

definition VerbDelegate :: Verb where
  "VerbDelegate = ''delegate''"

definition VerbMcpUnapproved :: Verb where
  "VerbMcpUnapproved = ''mcp_unapproved''"

definition VerbMcpNetworkUnapproved :: Verb where
  "VerbMcpNetworkUnapproved = ''mcp_network_unapproved''"

definition VerbMcpOnboarding :: Verb where
  "VerbMcpOnboarding = ''mcp_onboarding''"

definition VerbMcpBinaryDrift :: Verb where
  "VerbMcpBinaryDrift = ''mcp_binary_drift''"

definition VerbMcpCredentialLeak :: Verb where
  "VerbMcpCredentialLeak = ''mcp_credential_leak''"

definition VerbMcpInjectionDetected :: Verb where
  "VerbMcpInjectionDetected = ''mcp_injection_detected''"

definition VerbCredentialDetected :: Verb where
  "VerbCredentialDetected = ''credential_detected''"

definition VerbElicitationHarvest :: Verb where
  "VerbElicitationHarvest = ''elicitation_harvest''"

definition VerbSirSelf :: Verb where
  "VerbSirSelf = ''sir_self''"

lemmas verb_defs [const_defs] =
  VerbNetLocal_def VerbNetAllowlisted_def VerbNetExternal_def VerbPushOrigin_def
  VerbPushRemote_def VerbRunEphemeral_def VerbReadRef_def VerbStageWrite_def
  VerbExecuteDryRun_def VerbDangerousShell_def VerbRunTests_def VerbCommit_def
  VerbListFiles_def VerbSearchCode_def VerbEnvRead_def VerbDnsLookup_def
  VerbPersistence_def VerbSudo_def VerbDeletePosture_def VerbDelegate_def
  VerbMcpUnapproved_def VerbMcpNetworkUnapproved_def VerbMcpOnboarding_def VerbMcpBinaryDrift_def
  VerbMcpCredentialLeak_def VerbMcpInjectionDetected_def VerbCredentialDetected_def VerbElicitationHarvest_def
  VerbSirSelf_def

definition AllVerbs :: "Verb list" where
  "AllVerbs =
    [VerbNetLocal, VerbNetAllowlisted, VerbNetExternal, VerbPushOrigin,
     VerbPushRemote, VerbRunEphemeral, VerbReadRef, VerbStageWrite,
     VerbExecuteDryRun, VerbDangerousShell, VerbRunTests, VerbCommit,
     VerbListFiles, VerbSearchCode, VerbEnvRead, VerbDnsLookup,
     VerbPersistence, VerbSudo, VerbDeletePosture, VerbDelegate,
     VerbMcpUnapproved, VerbMcpNetworkUnapproved, VerbMcpOnboarding, VerbMcpBinaryDrift,
     VerbMcpCredentialLeak, VerbMcpInjectionDetected, VerbCredentialDetected, VerbElicitationHarvest,
     VerbSirSelf]"

definition ParseVerb :: "string \<Rightarrow> Verb option" where
  "ParseVerb s =
    (if s = VerbNetLocal \<or> s = VerbNetAllowlisted \<or> s = VerbNetExternal
      \<or> s = VerbPushOrigin \<or> s = VerbPushRemote \<or> s = VerbRunEphemeral
      \<or> s = VerbReadRef \<or> s = VerbStageWrite \<or> s = VerbExecuteDryRun
      \<or> s = VerbDangerousShell \<or> s = VerbRunTests \<or> s = VerbCommit
      \<or> s = VerbListFiles \<or> s = VerbSearchCode \<or> s = VerbEnvRead
      \<or> s = VerbDnsLookup \<or> s = VerbPersistence \<or> s = VerbSudo
      \<or> s = VerbDeletePosture \<or> s = VerbDelegate \<or> s = VerbMcpUnapproved
      \<or> s = VerbMcpNetworkUnapproved \<or> s = VerbMcpOnboarding \<or> s = VerbMcpBinaryDrift
      \<or> s = VerbMcpCredentialLeak \<or> s = VerbMcpInjectionDetected \<or> s = VerbCredentialDetected
      \<or> s = VerbElicitationHarvest \<or> s = VerbSirSelf
     then Some s else None)"

subsection \<open>Verdicts, posture states, approval scopes\<close>

definition VerdictAllow :: Verdict where
  "VerdictAllow = ''allow''"

definition VerdictDeny :: Verdict where
  "VerdictDeny = ''deny''"

definition VerdictAsk :: Verdict where
  "VerdictAsk = ''ask''"

lemmas verdict_defs [const_defs] = VerdictAllow_def VerdictDeny_def VerdictAsk_def

definition AllVerdicts :: "Verdict list" where
  "AllVerdicts = [VerdictAllow, VerdictDeny, VerdictAsk]"

definition ParseVerdict :: "string \<Rightarrow> Verdict option" where
  "ParseVerdict s =
    (if s = VerdictAllow \<or> s = VerdictDeny \<or> s = VerdictAsk then Some s else None)"

definition PostureStateNormal :: PostureState where
  "PostureStateNormal = ''normal''"

definition PostureStateElevated :: PostureState where
  "PostureStateElevated = ''elevated''"

definition PostureStateCritical :: PostureState where
  "PostureStateCritical = ''critical''"

lemmas posture_defs [const_defs] =
  PostureStateNormal_def PostureStateElevated_def PostureStateCritical_def

definition AllPostureStates :: "PostureState list" where
  "AllPostureStates = [PostureStateNormal, PostureStateElevated, PostureStateCritical]"

definition ParsePostureState :: "string \<Rightarrow> PostureState option" where
  "ParsePostureState s =
    (if s = PostureStateNormal \<or> s = PostureStateElevated \<or> s = PostureStateCritical
     then Some s else None)"

definition ApprovalScopeSession :: ApprovalScope where
  "ApprovalScopeSession = ''session''"

definition ApprovalScopeTurn :: ApprovalScope where
  "ApprovalScopeTurn = ''turn''"

lemmas scope_defs [const_defs] = ApprovalScopeSession_def ApprovalScopeTurn_def

definition AllApprovalScopes :: "ApprovalScope list" where
  "AllApprovalScopes = [ApprovalScopeSession, ApprovalScopeTurn]"

definition ParseApprovalScope :: "string \<Rightarrow> ApprovalScope option" where
  "ParseApprovalScope s =
    (if s = ApprovalScopeSession \<or> s = ApprovalScopeTurn then Some s else None)"

definition SessionSchemaVersion :: nat where
  "SessionSchemaVersion = 1"

subsection \<open>Policy providers (\<open>provider.go\<close>)\<close>

record PolicyVerdict =
  PV_Provider :: string
  PV_Verdict :: string
  PV_RulesMatched :: "string list"
  PV_Reason :: string
  PV_IsAdvisory :: bool

record PolicyRequest =
  PR_Action :: string
  PR_Target :: string
  PR_ResolvedActor :: string
  PR_AttributionConf :: string
  PR_Taint :: "string list"
  PR_Enforceability :: string
  PR_Mode :: string
  PR_SessionSecret :: bool
  PR_SessionWasSecret :: bool
  PR_SessionUntrustedRead :: bool
  PR_SessionUntrustedThisTurn :: bool

text \<open>The default provider returns no verdict and no error.\<close>

definition NativePolicy_Name :: string where
  "NativePolicy_Name = ''native''"

definition NativePolicy_Evaluate :: "PolicyRequest \<Rightarrow> PolicyVerdict list" where
  "NativePolicy_Evaluate req = []"

subsection \<open>Distinctness of the vocabularies\<close>

lemma distinct_AllVerbs: "distinct AllVerbs"
  by (simp add: AllVerbs_def verb_defs)

lemma verdict_distinct [simp]:
  "VerdictAllow \<noteq> VerdictDeny" "VerdictAllow \<noteq> VerdictAsk" "VerdictDeny \<noteq> VerdictAllow"
  "VerdictDeny \<noteq> VerdictAsk" "VerdictAsk \<noteq> VerdictAllow" "VerdictAsk \<noteq> VerdictDeny"
  by (simp_all add: verdict_defs)

lemma posture_distinct [simp]:
  "PostureStateNormal \<noteq> PostureStateElevated" "PostureStateNormal \<noteq> PostureStateCritical"
  "PostureStateElevated \<noteq> PostureStateNormal" "PostureStateElevated \<noteq> PostureStateCritical"
  "PostureStateCritical \<noteq> PostureStateNormal" "PostureStateCritical \<noteq> PostureStateElevated"
  by (simp_all add: posture_defs)

lemma scope_distinct [simp]:
  "ApprovalScopeSession \<noteq> ApprovalScopeTurn" "ApprovalScopeTurn \<noteq> ApprovalScopeSession"
  "ApprovalScopeTurn \<noteq> []" "ApprovalScopeSession \<noteq> []"
  by (simp_all add: scope_defs)

lemma ParseVerb_set: "ParseVerb s = (if s \<in> set AllVerbs then Some s else None)"
  by (simp add: ParseVerb_def AllVerbs_def)

subsection \<open>Strictness of verdicts\<close>

definition verdict_rank :: "Verdict \<Rightarrow> nat" where
  "verdict_rank v = (if v = VerdictDeny then 2 else if v = VerdictAsk then 1 else 0)"

lemma verdict_rank_simps [simp]:
  "verdict_rank VerdictAllow = 0" "verdict_rank VerdictAsk = 1" "verdict_rank VerdictDeny = 2"
  by (simp_all add: verdict_rank_def)

lemma verdict_rank_le_2 [simp]: "verdict_rank v \<le> 2"
  by (simp add: verdict_rank_def)

lemma verdict_rank_2_iff: "2 \<le> verdict_rank v \<longleftrightarrow> v = VerdictDeny"
  by (simp add: verdict_rank_def)

lemma verdict_rank_pos_iff: "0 < verdict_rank v \<longleftrightarrow> v = VerdictAsk \<or> v = VerdictDeny"
  by (simp add: verdict_rank_def)

text \<open>
  The interface of a layer that may only narrow: whatever its context, the verdict it
  returns is at least as strict as the one it was given.
\<close>

locale verdict_tightening =
  fixes tighten :: "'c \<Rightarrow> Verdict \<Rightarrow> Verdict"
  assumes tightens: "verdict_rank v \<le> verdict_rank (tighten c v)"
begin

lemma deny_kept: "tighten c VerdictDeny = VerdictDeny"
  using tightens [of VerdictDeny c] by (simp add: verdict_rank_2_iff)

lemma ask_not_allowed: "tighten c VerdictAsk \<noteq> VerdictAllow"
proof
  assume "tighten c VerdictAsk = VerdictAllow"
  with tightens [of VerdictAsk c] show False by simp
qed

lemma fold_tightens: "verdict_rank v \<le> verdict_rank (fold tighten cs v)"
proof (induction cs arbitrary: v)
  case Nil
  then show ?case by simp
next
  case (Cons c cs)
  have "verdict_rank v \<le> verdict_rank (tighten c v)" by (rule tightens)
  also have "\<dots> \<le> verdict_rank (fold tighten cs (tighten c v))" by (rule Cons.IH)
  finally show ?case by simp
qed

end

text \<open>Two narrowing layers, one after the other, are a narrowing layer.\<close>

lemma verdict_tightening_comp:
  assumes "verdict_tightening f" and "verdict_tightening g"
  shows "verdict_tightening (\<lambda>(c, d) v. g d (f c v))"
proof (unfold_locales, clarsimp)
  fix v c d
  have "verdict_rank v \<le> verdict_rank (f c v)"
    using assms(1) by (rule verdict_tightening.tightens)
  also have "\<dots> \<le> verdict_rank (g d (f c v))"
    using assms(2) by (rule verdict_tightening.tightens)
  finally show "verdict_rank v \<le> verdict_rank (g d (f c v))" .
qed

end
