(* ===== verification/Detect.thy ===== *)
theory Detect
  imports Policy_Surface
begin

text \<open>
  Package \<open>pkg/detect\<close>: the behaviour-detection taxonomy. A normalised signal is run
  against one ordered rule table; \<open>Classify\<close> returns the first match (possibly with a
  promoted route), \<open>Signals\<close> the identifiers of all matches. The comma-ok results of
  Go are options. The narrative text fields of a catalogue entry (what, why, data left,
  next step) are not modelled; its identifier, title, route and severity are.
\<close>

type_synonym DetectionID = string
type_synonym Severity = string

subsection \<open>Identifiers, severities, routes\<close>

definition SecretToExternalEgress :: DetectionID where
  "SecretToExternalEgress = ''secret_to_external_egress''"

definition SecretToPushRemote :: DetectionID where
  "SecretToPushRemote = ''secret_to_push_remote''"

definition MCPInjectionThenAction :: DetectionID where
  "MCPInjectionThenAction = ''mcp_injection_then_action''"

definition NewMCPServerUsed :: DetectionID where
  "NewMCPServerUsed = ''new_mcp_server_used''"

definition MCPBinaryOrConfigDrift :: DetectionID where
  "MCPBinaryOrConfigDrift = ''mcp_binary_or_config_drift''"

definition AgentPostureTamper :: DetectionID where
  "AgentPostureTamper = ''agent_posture_tamper''"

definition PackageInstallPostureMutation :: DetectionID where
  "PackageInstallPostureMutation = ''package_install_posture_mutation''"

definition HookIntegrityViolation :: DetectionID where
  "HookIntegrityViolation = ''hook_integrity_violation''"

definition RepeatedDeniedIntent :: DetectionID where
  "RepeatedDeniedIntent = ''repeated_denied_intent''"

definition CredentialInToolOutput :: DetectionID where
  "CredentialInToolOutput = ''credential_in_tool_output''"

definition ControlPlaneIntegrityFailure :: DetectionID where
  "ControlPlaneIntegrityFailure = ''control_plane_integrity_failure''"

definition MCPChangeThenPrivilegedUse :: DetectionID where
  "MCPChangeThenPrivilegedUse = ''mcp_change_then_privileged_use''"

lemmas detection_id_defs =
  SecretToExternalEgress_def SecretToPushRemote_def MCPInjectionThenAction_def
  NewMCPServerUsed_def MCPBinaryOrConfigDrift_def AgentPostureTamper_def
  PackageInstallPostureMutation_def HookIntegrityViolation_def RepeatedDeniedIntent_def
  CredentialInToolOutput_def ControlPlaneIntegrityFailure_def MCPChangeThenPrivilegedUse_def

definition SeverityLow :: Severity where
  "SeverityLow = ''LOW''"

definition SeverityMedium :: Severity where
  "SeverityMedium = ''MEDIUM''"

definition SeverityHigh :: Severity where
  "SeverityHigh = ''HIGH''"

datatype Route = RouteSilent | RouteLocal | RouteSIEM | RouteSlack

fun Route_iota :: "Route \<Rightarrow> nat" where
  "Route_iota RouteSilent = 0"
| "Route_iota RouteLocal = 1"
| "Route_iota RouteSIEM = 2"
| "Route_iota RouteSlack = 3"

fun Route_String :: "Route \<Rightarrow> string" where
  "Route_String RouteSilent = ''silent''"
| "Route_String RouteLocal = ''local''"
| "Route_String RouteSIEM = ''siem''"
| "Route_String RouteSlack = ''slack''"

text \<open>Routes are ordered by escalation tier, as the \<open>iota\<close> numbering of the source is.\<close>

instantiation Route :: linorder
begin

definition less_eq_Route :: "Route \<Rightarrow> Route \<Rightarrow> bool" where
  "less_eq_Route a b \<longleftrightarrow> Route_iota a \<le> Route_iota b"

definition less_Route :: "Route \<Rightarrow> Route \<Rightarrow> bool" where
  "less_Route a b \<longleftrightarrow> Route_iota a < Route_iota b"

instance
proof
  fix a b c :: Route
  show "a < b \<longleftrightarrow> a \<le> b \<and> \<not> b \<le> a" and "a \<le> a" and "a \<le> b \<or> b \<le> a"
    by (auto simp: less_eq_Route_def less_Route_def)
  show "a \<le> b \<Longrightarrow> b \<le> c \<Longrightarrow> a \<le> c"
    by (simp add: less_eq_Route_def)
  show "a \<le> b \<Longrightarrow> b \<le> a \<Longrightarrow> a = b"
    by (cases a; cases b) (simp_all add: less_eq_Route_def)
qed

end

subsection \<open>Signals and detections\<close>

record DetectSignal =
  DS_Verb :: string
  DS_Verdict :: string
  DS_AlertType :: string
  DS_Sensitivity :: string
  DS_SecretSession :: bool
  DS_DerivedFromSecret :: bool
  DS_MCPTaint :: bool
  DS_InjectionAlert :: bool
  DS_DenyAll :: bool
  DS_TamperRestored :: bool
  DS_NewMCPServer :: bool
  DS_PostureMutation :: bool
  DS_RepeatedCount :: int
  DS_Unusual :: bool
  DS_RecentMCPChange :: bool
  DS_Suspicious :: bool

record Detection =
  Det_ID :: DetectionID
  Det_Severity :: Severity
  Det_Route :: Route

abbreviation detection :: "DetectionID \<Rightarrow> Severity \<Rightarrow> Route \<Rightarrow> Detection" where
  "detection i sev r \<equiv> \<lparr>Det_ID = i, Det_Severity = sev, Det_Route = r\<rparr>"

definition blocked :: "string \<Rightarrow> bool" where
  "blocked verdict \<longleftrightarrow>
     verdict = ''deny'' \<or> verdict = ''ask'' \<or> verdict = ''would_deny'' \<or> verdict = ''would_ask''"

definition isExternalEgressVerb :: "string \<Rightarrow> bool" where
  "isExternalEgressVerb verb \<longleftrightarrow>
     verb = ''net_external'' \<or> verb = ''dns_lookup'' \<or> verb = ''mcp_network_unapproved''"

definition isPushVerb :: "string \<Rightarrow> bool" where
  "isPushVerb verb \<longleftrightarrow> verb = ''push_remote'' \<or> verb = ''push_origin''"

definition isPrivilegedVerb :: "string \<Rightarrow> bool" where
  "isPrivilegedVerb verb \<longleftrightarrow>
     verb \<in> set [''net_external'', ''net_allowlisted'', ''dns_lookup'',
       ''mcp_network_unapproved'', ''push_origin'', ''push_remote'', ''delegate'',
       ''persistence'', ''sudo'']"

definition isTamperAlert :: "string \<Rightarrow> bool" where
  "isTamperAlert alertType \<longleftrightarrow>
     alertType \<in> set [''hook_tamper'', ''posture_change'', ''posture_change_session_end'',
       ''config_change_posture'', ''sentinel_mutation'']"

definition integrityCritical :: "string \<Rightarrow> bool" where
  "integrityCritical alertType \<longleftrightarrow> alertType = ''hook_tamper'' \<or> alertType = ''sentinel_mutation''"

definition egressRoute :: "DetectSignal \<Rightarrow> Route" where
  "egressRoute s = (if DS_Unusual s \<or> DS_RepeatedCount s \<ge> 1 then RouteSlack else RouteSIEM)"

fun promoteRoute :: "Route \<Rightarrow> Route" where
  "promoteRoute RouteLocal = RouteSIEM"
| "promoteRoute RouteSIEM = RouteSlack"
| "promoteRoute r = r"

subsection \<open>The rule table and its two readings\<close>

text \<open>A rule fires or not: \<open>when c d\<close> is the closure body that every rule shares.\<close>

definition fires_when :: "bool \<Rightarrow> Detection \<Rightarrow> Detection option" where
  "fires_when c d = (if c then Some d else None)"

definition detectionRules :: "(DetectSignal \<Rightarrow> Detection option) list" where
  "detectionRules =
    [\<lambda>s. fires_when (DS_DenyAll s)
           (detection ControlPlaneIntegrityFailure SeverityHigh RouteSlack),
     \<lambda>s. fires_when (isTamperAlert (DS_AlertType s) \<and> \<not> DS_TamperRestored s
             \<and> integrityCritical (DS_AlertType s))
           (detection ControlPlaneIntegrityFailure SeverityHigh RouteSlack),
     \<lambda>s. fires_when (isTamperAlert (DS_AlertType s))
           (detection AgentPostureTamper SeverityHigh RouteSlack),
     \<lambda>s. fires_when (DS_AlertType s = ''credential_in_output'' \<or> DS_AlertType s = ''mcp_credential''
             \<or> DS_Verb s = ''credential_detected'' \<or> DS_Verb s = ''mcp_credential_leak'')
           (detection CredentialInToolOutput SeverityHigh RouteSlack),
     \<lambda>s. fires_when (DS_AlertType s = ''mcp_injection'' \<or> DS_Verb s = ''mcp_injection_detected'')
           (detection MCPInjectionThenAction SeverityHigh RouteSlack),
     \<lambda>s. fires_when ((DS_InjectionAlert s \<or> DS_MCPTaint s) \<and> blocked (DS_Verdict s))
           (detection MCPInjectionThenAction SeverityHigh RouteSlack),
     \<lambda>s. fires_when (DS_RecentMCPChange s \<and> isPrivilegedVerb (DS_Verb s))
           (detection MCPChangeThenPrivilegedUse SeverityHigh RouteSlack),
     \<lambda>s. fires_when (DS_AlertType s = ''mcp_binary_drift'' \<or> DS_Verb s = ''mcp_binary_drift'')
           (detection MCPBinaryOrConfigDrift SeverityHigh RouteSlack),
     \<lambda>s. fires_when (DS_Verb s = ''persistence'' \<and> DS_PostureMutation s)
           (detection PackageInstallPostureMutation SeverityHigh RouteSlack),
     \<lambda>s. fires_when ((DS_SecretSession s \<or> DS_DerivedFromSecret s) \<and> blocked (DS_Verdict s)
             \<and> isExternalEgressVerb (DS_Verb s))
           (detection SecretToExternalEgress SeverityHigh (egressRoute s)),
     \<lambda>s. fires_when ((DS_SecretSession s \<or> DS_DerivedFromSecret s) \<and> blocked (DS_Verdict s)
             \<and> isPushVerb (DS_Verb s))
           (detection SecretToPushRemote SeverityHigh (egressRoute s)),
     \<lambda>s. fires_when (DS_NewMCPServer s \<or> DS_Verb s = ''mcp_onboarding'')
           (detection NewMCPServerUsed SeverityMedium RouteSIEM),
     \<lambda>s. fires_when (DS_RepeatedCount s \<ge> 1 \<and> blocked (DS_Verdict s))
           (detection RepeatedDeniedIntent SeverityLow RouteLocal)]"

fun classify_loop :: "(DetectSignal \<Rightarrow> Detection option) list \<Rightarrow> DetectSignal \<Rightarrow> Detection option" where
  "classify_loop [] s = None"
| "classify_loop (rule # rules) s =
     (case rule s of Some d \<Rightarrow> Some d | None \<Rightarrow> classify_loop rules s)"

definition classifyBase :: "DetectSignal \<Rightarrow> Detection option" where
  "classifyBase s = classify_loop detectionRules s"

definition Classify :: "DetectSignal \<Rightarrow> Detection option" where
  "Classify s =
     (case classifyBase s of
        None \<Rightarrow> None
      | Some d \<Rightarrow> Some (if DS_Suspicious s then d\<lparr>Det_Route := promoteRoute (Det_Route d)\<rparr> else d))"

text \<open>The loop of \<open>Signals\<close>, with its \<open>seen\<close> set kept as the list built so far.\<close>

fun signals_loop ::
  "(DetectSignal \<Rightarrow> Detection option) list \<Rightarrow> DetectSignal \<Rightarrow> DetectionID list \<Rightarrow> DetectionID list"
where
  "signals_loop [] s ids = ids"
| "signals_loop (rule # rules) s ids =
     (case rule s of
        None \<Rightarrow> signals_loop rules s ids
      | Some d \<Rightarrow>
          (if slice_contains ids (Det_ID d) then signals_loop rules s ids
           else signals_loop rules s (ids @ [Det_ID d])))"

definition Signals :: "DetectSignal \<Rightarrow> DetectionID list" where
  "Signals s = signals_loop detectionRules s []"

subsection \<open>The catalogue\<close>

record DetectionMeta =
  Meta_ID :: DetectionID
  Meta_Title :: string
  Meta_BaseRoute :: Route
  Meta_Severity :: Severity

abbreviation meta :: "DetectionID \<Rightarrow> string \<Rightarrow> Route \<Rightarrow> Severity \<Rightarrow> DetectionID \<times> DetectionMeta" where
  "meta i t r sev \<equiv>
     (i, \<lparr>Meta_ID = i, Meta_Title = t, Meta_BaseRoute = r, Meta_Severity = sev\<rparr>)"

definition catalog :: "(DetectionID \<times> DetectionMeta) list" where
  "catalog =
    [meta SecretToExternalEgress ''Secret context attempted external egress'' RouteSIEM SeverityHigh,
     meta SecretToPushRemote ''Secret context attempted a push to a remote'' RouteSIEM SeverityHigh,
     meta MCPInjectionThenAction ''MCP injection followed by an action'' RouteSlack SeverityHigh,
     meta NewMCPServerUsed ''New MCP server exercised'' RouteSIEM SeverityMedium,
     meta MCPBinaryOrConfigDrift ''MCP server binary or config drifted'' RouteSlack SeverityHigh,
     meta AgentPostureTamper ''Agent posture file tampered'' RouteSlack SeverityHigh,
     meta PackageInstallPostureMutation ''Package install mutated posture'' RouteSlack SeverityHigh,
     meta RepeatedDeniedIntent ''Repeated denied intent'' RouteLocal SeverityLow,
     meta CredentialInToolOutput ''Credential detected in tool output'' RouteSlack SeverityHigh,
     meta ControlPlaneIntegrityFailure ''Control-plane integrity failure'' RouteSlack SeverityHigh,
     meta MCPChangeThenPrivilegedUse ''MCP trust change followed by privileged use'' RouteSlack
       SeverityHigh]"

definition orderedIDs :: "DetectionID list" where
  "orderedIDs =
    [SecretToExternalEgress, SecretToPushRemote, MCPInjectionThenAction, NewMCPServerUsed,
     MCPBinaryOrConfigDrift, AgentPostureTamper, PackageInstallPostureMutation,
     RepeatedDeniedIntent, CredentialInToolOutput, ControlPlaneIntegrityFailure,
     MCPChangeThenPrivilegedUse]"

definition AllIDs :: "DetectionID list" where
  "AllIDs = orderedIDs"

definition Lookup :: "DetectionID \<Rightarrow> DetectionMeta option" where
  "Lookup i = map_of catalog i"

definition Catalog :: "DetectionMeta option list" where
  "Catalog = map Lookup orderedIDs"

definition Valid :: "DetectionID \<Rightarrow> bool" where
  "Valid i \<longleftrightarrow> map_of catalog i \<noteq> None"

subsection \<open>Lemmas on the rule loop\<close>

lemma signals_loop_prefix: "\<exists>ys. signals_loop rules s ids = ids @ ys"
proof (induction rules arbitrary: ids)
  case Nil
  then show ?case by simp
next
  case (Cons rule rules)
  have "\<exists>ys. signals_loop rules s (ids @ [i]) = ids @ ys" for i
    using Cons.IH [of "ids @ [i]"] by auto
  with Cons.IH [of ids] show ?case by (auto split: option.splits)
qed

lemma signals_loop_distinct: "distinct ids \<Longrightarrow> distinct (signals_loop rules s ids)"
  by (induction rules arbitrary: ids) (auto split: option.splits)

lemma signals_loop_set:
  "i \<in> set (signals_loop rules s ids) \<longleftrightarrow>
     i \<in> set ids \<or> (\<exists>rule \<in> set rules. \<exists>d. rule s = Some d \<and> Det_ID d = i)"
  by (induction rules arbitrary: ids) (auto split: option.splits)

lemma classify_loop_first:
  "classify_loop rules s = Some d \<Longrightarrow> \<exists>ys. signals_loop rules s [] = Det_ID d # ys"
proof (induction rules)
  case Nil
  then show ?case by simp
next
  case (Cons rule rules)
  then show ?case
    using signals_loop_prefix [of rules s "[Det_ID d]"] by (auto split: option.splits)
qed

lemma classify_loop_None: "classify_loop rules s = None \<longleftrightarrow> (\<forall>rule \<in> set rules. rule s = None)"
  by (induction rules) (auto split: option.splits)

lemma signals_loop_None: "\<forall>rule \<in> set rules. rule s = None \<Longrightarrow> signals_loop rules s ids = ids"
  by (induction rules) auto

lemma classify_loop_fired:
  "classify_loop rules s = Some d \<Longrightarrow> \<exists>rule \<in> set rules. rule s = Some d"
  by (induction rules) (auto split: option.splits)

lemma classify_loop_cong:
  "\<forall>rule \<in> set rules. rule s = rule t \<Longrightarrow> classify_loop rules s = classify_loop rules t"
  by (induction rules) (simp_all split: option.split)

lemma fires_when_Some: "fires_when c d = Some e \<longleftrightarrow> c \<and> e = d"
  by (auto simp: fires_when_def)

lemma promoteRoute_le: "r \<le> promoteRoute r"
  by (cases r) (simp_all add: less_eq_Route_def)

lemma egressRoute_fires [simp]: "egressRoute s \<noteq> RouteSilent" "RouteSilent \<noteq> egressRoute s"
  by (simp_all add: egressRoute_def)

lemma rule_shape:
  assumes "rule \<in> set detectionRules" and "rule s = Some d"
  shows "Det_ID d \<in> set orderedIDs \<and> Det_Route d \<noteq> RouteSilent"
  using assms
  by (auto simp: detectionRules_def fires_when_Some orderedIDs_def)

lemma rules_ignore_suspicion:
  "rule \<in> set detectionRules \<Longrightarrow> rule (s\<lparr>DS_Suspicious := b\<rparr>) = rule s"
  by (auto simp: detectionRules_def egressRoute_def)

lemma orderedIDs_catalog: "map fst catalog = orderedIDs"
  by (simp add: catalog_def orderedIDs_def)

lemma Valid_iff: "Valid i \<longleftrightarrow> i \<in> set orderedIDs"
proof -
  have "Valid i \<longleftrightarrow> i \<in> fst ` set catalog"
    by (simp add: Valid_def map_of_eq_None_iff)
  also have "fst ` set catalog = set orderedIDs"
    by (metis orderedIDs_catalog list.set_map)
  finally show ?thesis .
qed

lemma Classify_Some:
  assumes "Classify s = Some d"
  obtains d0 where "classifyBase s = Some d0" and "Det_ID d = Det_ID d0"
    and "Det_Severity d = Det_Severity d0" and "Det_Route d0 \<le> Det_Route d"
  using assms by (auto simp: Classify_def promoteRoute_le split: option.splits if_splits)

subsection \<open>Properties\<close>

text \<open>The primary detection and the correlation tags never drift apart. When
  \<open>Classify\<close> reports a detection, its identifier is the first of \<open>Signals\<close>; when it
  reports none, \<open>Signals\<close> is empty; the tags never repeat, and each tag is the
  identifier of a rule that fired.\<close>

theorem classify_signals_agree:
  "(case Classify s of Some d \<Rightarrow> \<exists>rest. Signals s = Det_ID d # rest | None \<Rightarrow> Signals s = [])
   \<and> distinct (Signals s)
   \<and> (i \<in> set (Signals s)
        \<longleftrightarrow> (\<exists>rule \<in> set detectionRules. \<exists>d. rule s = Some d \<and> Det_ID d = i))"
proof (intro conjI)
  show "case Classify s of Some d \<Rightarrow> \<exists>rest. Signals s = Det_ID d # rest | None \<Rightarrow> Signals s = []"
  proof (cases "Classify s")
    case None
    then have "\<forall>rule \<in> set detectionRules. rule s = None"
      by (simp add: Classify_def classifyBase_def classify_loop_None split: option.splits)
    with None show ?thesis by (simp add: Signals_def signals_loop_None)
  next
    case (Some d)
    then obtain d0 where "classifyBase s = Some d0" and "Det_ID d = Det_ID d0"
      by (rule Classify_Some)
    with Some show ?thesis
      by (auto simp: classifyBase_def Signals_def dest: classify_loop_first)
  qed
  show "distinct (Signals s)"
    by (simp add: Signals_def signals_loop_distinct)
  show "i \<in> set (Signals s)
        \<longleftrightarrow> (\<exists>rule \<in> set detectionRules. \<exists>d. rule s = Some d \<and> Det_ID d = i)"
    by (simp add: Signals_def signals_loop_set)
qed

text \<open>Soft suspicion only raises visibility. For any signal, the detection reported
  for it when suspicious and when not suspicious has the same identifier and severity,
  and the suspicious one has a route at least as high; a detection that fires is always
  in the catalogue and never routed silently.\<close>

theorem suspicion_only_promotes:
  "(case (Classify (s\<lparr>DS_Suspicious := False\<rparr>), Classify (s\<lparr>DS_Suspicious := True\<rparr>)) of
      (None, None) \<Rightarrow> True
    | (Some d, Some d') \<Rightarrow>
        Det_ID d' = Det_ID d \<and> Det_Severity d' = Det_Severity d \<and> Det_Route d \<le> Det_Route d'
        \<and> Valid (Det_ID d) \<and> RouteSilent < Det_Route d
    | _ \<Rightarrow> False)"
proof -
  have base: "classifyBase (s\<lparr>DS_Suspicious := b\<rparr>) = classifyBase s" for b
    unfolding classifyBase_def by (rule classify_loop_cong) (blast intro: rules_ignore_suspicion)
  have shape: "Det_ID d \<in> set orderedIDs \<and> Det_Route d \<noteq> RouteSilent" if "classifyBase s = Some d" for d
    using that unfolding classifyBase_def by (blast dest: classify_loop_fired rule_shape)
  have silent: "r \<noteq> RouteSilent \<Longrightarrow> RouteSilent < r" for r
    by (cases r) (simp_all add: less_Route_def)
  show ?thesis
    using shape
    by (auto simp: Classify_def base Valid_iff promoteRoute_le silent split: option.splits)
qed

text \<open>The catalogue covers every rule but not every declared identifier:
  \<open>HookIntegrityViolation\<close>, which the hook layer stamps into the ledger, is not a valid
  identifier of the catalogue and no rule reports it.\<close>

theorem hook_integrity_violation_uncatalogued:
  "\<not> Valid HookIntegrityViolation \<and> HookIntegrityViolation \<notin> set AllIDs
   \<and> HookIntegrityViolation \<notin> set (Signals s)"
proof -
  have not_ordered: "HookIntegrityViolation \<notin> set orderedIDs"
    by (simp add: orderedIDs_def detection_id_defs)
  then have "HookIntegrityViolation \<notin> set (Signals s)"
    by (auto simp: Signals_def signals_loop_set dest: rule_shape)
  with not_ordered show ?thesis by (simp add: Valid_iff AllIDs_def)
qed

end
