(* ===== verification/Go_Json.thy ===== *)
theory Go_Json
  imports Sir_Prelude
begin

text \<open>
  JSON values as \<open>encoding/json\<close> delivers them to an \<open>any\<close> or a \<open>map[string]any\<close>, and
  the type assertions the sources apply to them. A number keeps its literal text. An
  object is an association list; the key looked up is the first that matches.
\<close>

datatype json =
    JNull
  | JBool bool
  | JNumber string
  | JString string
  | JArray "json list"
  | JObject "(string \<times> json) list"

type_synonym jsonobj = "(string \<times> json) list"

text \<open>\<open>m[k].(string)\<close> and \<open>m[k].(map[string]any)\<close> in their comma-ok form.\<close>

definition get_string :: "jsonobj \<Rightarrow> string \<Rightarrow> string option" where
  "get_string m k = (case map_of m k of Some (JString s) \<Rightarrow> Some s | _ \<Rightarrow> None)"

definition get_object :: "jsonobj \<Rightarrow> string \<Rightarrow> jsonobj option" where
  "get_object m k = (case map_of m k of Some (JObject obj) \<Rightarrow> Some obj | _ \<Rightarrow> None)"

text \<open>\<open>s, _ := m[k].(string)\<close>: the zero value when the assertion fails.\<close>

definition get_string0 :: "jsonobj \<Rightarrow> string \<Rightarrow> string" where
  "get_string0 m k = (case get_string m k of Some s \<Rightarrow> s | None \<Rightarrow> [])"

end
