(* ===== verification/Sdk_Types.thy ===== *)
theory Sdk_Types
  imports Go_Json
begin

text \<open>
  Package \<open>pkg/sdk\<close>, \<open>types.go\<close>: the wire types of the provider protocol that the
  decision kernel consumes. Pointer fields (\<open>session\<close>, \<open>actor_claim\<close>) are options.
\<close>

definition SchemaSignalV0 :: string where
  "SchemaSignalV0 = ''sir.signal.v0''"

definition SchemaCapabilitiesV0 :: string where
  "SchemaCapabilitiesV0 = ''sir.capabilities.v0''"

definition SchemaEffectReqV0 :: string where
  "SchemaEffectReqV0 = ''sir.effect_request.v0''"

definition SchemaEffectResV0 :: string where
  "SchemaEffectResV0 = ''sir.effect_result.v0''"

definition SchemaProviderV0 :: string where
  "SchemaProviderV0 = ''sir.provider.v0''"

definition ReliabilityDeclaredIntent :: string where
  "ReliabilityDeclaredIntent = ''declared_intent''"

definition ReliabilityMediatedAction :: string where
  "ReliabilityMediatedAction = ''mediated_action''"

definition ReliabilityObservedRuntime :: string where
  "ReliabilityObservedRuntime = ''observed_runtime''"

definition ReliabilityEnforcedBoundary :: string where
  "ReliabilityEnforcedBoundary = ''enforced_boundary''"

definition ReliabilityAdvisorySignal :: string where
  "ReliabilityAdvisorySignal = ''advisory_signal''"

definition ReliabilityUserDecision :: string where
  "ReliabilityUserDecision = ''user_decision''"

definition ReliabilityAdminPolicy :: string where
  "ReliabilityAdminPolicy = ''admin_policy''"

lemmas reliability_defs [const_defs] =
  ReliabilityDeclaredIntent_def ReliabilityMediatedAction_def ReliabilityObservedRuntime_def
  ReliabilityEnforcedBoundary_def ReliabilityAdvisorySignal_def ReliabilityUserDecision_def
  ReliabilityAdminPolicy_def

definition TimingPreExec :: string where
  "TimingPreExec = ''pre_exec''"

definition TimingDuringExec :: string where
  "TimingDuringExec = ''during_exec''"

definition TimingPostExec :: string where
  "TimingPostExec = ''post_exec''"

definition TimingUnknown :: string where
  "TimingUnknown = ''unknown''"

definition EffectRecord :: string where
  "EffectRecord = ''record''"

definition EffectNudge :: string where
  "EffectNudge = ''nudge''"

definition EffectPrompt :: string where
  "EffectPrompt = ''prompt''"

definition EffectBlock :: string where
  "EffectBlock = ''block''"

definition EffectContain :: string where
  "EffectContain = ''contain''"

lemmas effect_defs [const_defs] =
  EffectRecord_def EffectNudge_def EffectPrompt_def EffectBlock_def EffectContain_def

record Source =
  Source_Kind :: string
  Source_Reliability :: string
  Source_Timing :: string
  Source_Provider :: string
  Source_ProviderVersion :: string

record Session =
  Session_TraceID :: string
  Session_SessionID :: string
  Session_TurnID :: string
  Session_SpanID :: string

record ActorClaim =
  Actor_Kind :: string
  Actor_Name :: string
  Actor_PID :: int
  Actor_ProcessTree :: "string list"

record Signal =
  Signal_SchemaVersion :: string
  Signal_SignalID :: string
  Signal_SignalTime :: string
  Signal_Source :: Source
  Signal_Session :: "Session option"
  Signal_ActorClaim :: "ActorClaim option"
  Signal_ActionClaim :: jsonobj
  Signal_Metadata :: jsonobj

record EffectRequest =
  EReq_SchemaVersion :: string
  EReq_EffectID :: string
  EReq_Type :: string
  EReq_Required :: bool
  EReq_FailClosed :: bool
  EReq_Target :: jsonobj

record EffectResult =
  ERes_SchemaVersion :: string
  ERes_EffectID :: string
  ERes_Status :: string
  ERes_Reason :: string
  ERes_Metadata :: jsonobj

record CapabilitiesResponse =
  Cap_SchemaVersion :: string
  Cap_Provider :: string
  Cap_Kind :: string
  Cap_Capabilities :: jsonobj

definition NewEffectResult :: "string \<Rightarrow> string \<Rightarrow> string \<Rightarrow> EffectResult" where
  "NewEffectResult effectID status reason =
     \<lparr>ERes_SchemaVersion = SchemaEffectResV0, ERes_EffectID = effectID, ERes_Status = status,
      ERes_Reason = reason, ERes_Metadata = []\<rparr>"

definition NewCapabilitiesResponse :: "string \<Rightarrow> string \<Rightarrow> jsonobj \<Rightarrow> CapabilitiesResponse" where
  "NewCapabilitiesResponse provider kind caps =
     \<lparr>Cap_SchemaVersion = SchemaCapabilitiesV0, Cap_Provider = provider, Cap_Kind = kind,
      Cap_Capabilities = caps\<rparr>"

lemma reliability_distinct [simp]:
  "ReliabilityEnforcedBoundary \<noteq> []" "ReliabilityObservedRuntime \<noteq> []"
  "ReliabilityDeclaredIntent \<noteq> []" "ReliabilityMediatedAction \<noteq> []"
  "ReliabilityEnforcedBoundary \<noteq> ReliabilityObservedRuntime"
  "ReliabilityEnforcedBoundary \<noteq> ReliabilityDeclaredIntent"
  "ReliabilityEnforcedBoundary \<noteq> ReliabilityMediatedAction"
  "ReliabilityObservedRuntime \<noteq> ReliabilityEnforcedBoundary"
  "ReliabilityObservedRuntime \<noteq> ReliabilityDeclaredIntent"
  "ReliabilityObservedRuntime \<noteq> ReliabilityMediatedAction"
  "ReliabilityDeclaredIntent \<noteq> ReliabilityEnforcedBoundary"
  "ReliabilityDeclaredIntent \<noteq> ReliabilityObservedRuntime"
  "ReliabilityDeclaredIntent \<noteq> ReliabilityMediatedAction"
  "ReliabilityMediatedAction \<noteq> ReliabilityEnforcedBoundary"
  "ReliabilityMediatedAction \<noteq> ReliabilityObservedRuntime"
  "ReliabilityMediatedAction \<noteq> ReliabilityDeclaredIntent"
  by (simp_all add: reliability_defs)

lemma TimingPreExec_nonempty [simp]: "TimingPreExec \<noteq> []"
  by (simp add: TimingPreExec_def)

end
