(* ===== verification/Kernel_Pipeline.thy ===== *)
theory Kernel_Pipeline
  imports Sdk_Types Policy_Surface
begin

text \<open>
  Package \<open>pkg/kernel\<close>, first half of the decision pipeline: the types and constants
  (\<open>types.go\<close>), what each mode can do (\<open>modes.go\<close>), and the stages normalise, attribute,
  enforceability, labels (\<open>pipeline.go\<close>). The kernel's verdict constants are the same
  strings as those of \<open>pkg/policy\<close>, so they are shared.
\<close>

subsection \<open>Constants\<close>

definition ModeObserve :: string where
  "ModeObserve = ''observe''"

definition ModeAdvise :: string where
  "ModeAdvise = ''advise''"

definition ModeHookGate :: string where
  "ModeHookGate = ''hook_gate''"

definition ModeOSObserved :: string where
  "ModeOSObserved = ''os_observed''"

definition ModeMediated :: string where
  "ModeMediated = ''mediated''"

definition ModeContained :: string where
  "ModeContained = ''contained''"

definition ModeManaged :: string where
  "ModeManaged = ''managed''"

lemmas mode_defs [const_defs] =
  ModeObserve_def ModeAdvise_def ModeHookGate_def ModeOSObserved_def ModeMediated_def
  ModeContained_def ModeManaged_def

definition ClassEnforces :: string where
  "ClassEnforces = ''enforces''"

definition ClassDetects :: string where
  "ClassDetects = ''detects''"

definition ClassBlind :: string where
  "ClassBlind = ''blind''"

lemmas class_defs [const_defs] = ClassEnforces_def ClassDetects_def ClassBlind_def

definition ConfHigh :: string where
  "ConfHigh = ''high''"

definition ConfMedium :: string where
  "ConfMedium = ''medium''"

definition ConfLow :: string where
  "ConfLow = ''low''"

definition ConfUnknown :: string where
  "ConfUnknown = ''unknown''"

lemmas conf_defs [const_defs] = ConfHigh_def ConfMedium_def ConfLow_def ConfUnknown_def

definition SpoofingRiskNone :: string where
  "SpoofingRiskNone = ''none''"

definition SpoofingRiskLow :: string where
  "SpoofingRiskLow = ''low''"

definition SpoofingRiskMedium :: string where
  "SpoofingRiskMedium = ''medium''"

definition SpoofingRiskHigh :: string where
  "SpoofingRiskHigh = ''high''"

lemmas spoofing_defs [const_defs] =
  SpoofingRiskNone_def SpoofingRiskLow_def SpoofingRiskMedium_def SpoofingRiskHigh_def

subsection \<open>Types\<close>

record EvasionFlags =
  SpanStripped :: bool
  SpanForged :: bool
  DetachedChild :: bool
  HookMissing :: bool
  RequiredEffectUnavail :: bool
  FailClosed :: bool

record EnforceabilityInput =
  EI_Mode :: string
  EI_Signals :: "Signal list"
  EI_ProviderCapabilities :: "string list"
  EI_ProviderEnforcement :: string
  EI_EnforcedActions :: "string list"
  EI_EvasionFlags :: EvasionFlags

record EnforceabilityResult =
  ER_Class :: string
  ER_Reason :: string

abbreviation enforceability :: "string \<Rightarrow> string \<Rightarrow> EnforceabilityResult" where
  "enforceability c r \<equiv> \<lparr>ER_Class = c, ER_Reason = r\<rparr>"

record AttributedAction =
  AA_ActionID :: string
  AA_Mode :: string
  AA_Signals :: "Signal list"
  AA_Enforceability :: EnforceabilityResult
  AA_Attribution :: string
  AA_ActionType :: string
  AA_Sensitivity :: string
  AA_Labels :: "string list"
  AA_EvasionFlags :: EvasionFlags

record PlannedEffect =
  PE_Type :: string
  PE_Required :: bool
  PE_FailClosed :: bool

abbreviation effect :: "string \<Rightarrow> bool \<Rightarrow> bool \<Rightarrow> PlannedEffect" where
  "effect t r f \<equiv> \<lparr>PE_Type = t, PE_Required = r, PE_FailClosed = f\<rparr>"

subsection \<open>Modes (\<open>modes.go\<close>)\<close>

definition ModeCanBlock :: "string \<Rightarrow> bool" where
  "ModeCanBlock mode \<longleftrightarrow>
     mode = ModeHookGate \<or> mode = ModeMediated \<or> mode = ModeContained \<or> mode = ModeManaged"

fun UnavailableRequiredEffects :: "string \<Rightarrow> PlannedEffect list \<Rightarrow> string list" where
  "UnavailableRequiredEffects mode [] = []"
| "UnavailableRequiredEffects mode (e # es) =
     (if PE_Required e \<and> (PE_Type e = ''block'' \<or> PE_Type e = ''contain'') \<and> \<not> ModeCanBlock mode
      then (PE_Type e @ '' (mode='' @ mode @ '': detection-only, no pre-exec block)'')
             # UnavailableRequiredEffects mode es
      else UnavailableRequiredEffects mode es)"

subsection \<open>Pipeline stages (\<open>pipeline.go\<close>)\<close>

fun hasSignal :: "Signal list \<Rightarrow> string \<Rightarrow> string \<Rightarrow> bool" where
  "hasSignal [] reliability timing = False"
| "hasSignal (s # ss) reliability timing =
     (if reliability \<noteq> [] \<and> Source_Reliability (Signal_Source s) \<noteq> reliability
      then hasSignal ss reliability timing
      else if timing \<noteq> [] \<and> Source_Timing (Signal_Source s) \<noteq> timing
      then hasSignal ss reliability timing
      else True)"

definition providerCan :: "string list \<Rightarrow> string \<Rightarrow> bool" where
  "providerCan caps eff = slice_contains caps eff"

definition actionEnforced :: "string list \<Rightarrow> string \<Rightarrow> bool" where
  "actionEnforced enforcedActions actionType =
     (if enforcedActions = [] then True else slice_contains enforcedActions actionType)"

fun PrimaryActionType :: "Signal list \<Rightarrow> string" where
  "PrimaryActionType [] = ''unknown''"
| "PrimaryActionType (s # ss) =
     (case get_string (Signal_ActionClaim s) ''type'' of
        Some t \<Rightarrow> if t \<noteq> [] then t else PrimaryActionType ss
      | None \<Rightarrow> PrimaryActionType ss)"

definition AnalyzeEnforceability :: "EnforceabilityInput \<Rightarrow> EnforceabilityResult" where
  "AnalyzeEnforceability inp =
    (let ev = EI_EvasionFlags inp; mode = EI_Mode inp; signals = EI_Signals inp in
     if RequiredEffectUnavail ev then
       (if FailClosed ev
        then enforceability ClassEnforces ''required effect unavailable: fail_closed=true denies''
        else enforceability ClassDetects ''required effect unavailable: recorded but not blocked'')
     else if mode = ModeContained \<or> mode = ModeManaged then
       (if hasSignal signals ReliabilityEnforcedBoundary []
        then enforceability ClassEnforces ''enforced-boundary signal proves containment''
        else if providerCan (EI_ProviderCapabilities inp) ''block''
                \<or> providerCan (EI_ProviderCapabilities inp) ''contain'' then
          (if EI_ProviderEnforcement inp = ''real'' then
             (if \<not> actionEnforced (EI_EnforcedActions inp) (PrimaryActionType signals)
              then enforceability ClassDetects
                     (''provider enforces a different action set '' @ em_dash
                      @ '' this action type is observed, not contained'')
              else enforceability ClassEnforces
                     ''provider-backed mode with demonstrated (real) enforcement'')
           else enforceability ClassDetects
                  (''provider declares block/contain but enforcement is simulated/unproven ''
                   @ em_dash @ '' detects only''))
        else enforceability ClassDetects ''contained/managed mode but no capable provider available'')
     else if mode = ModeMediated then
       (if SpanStripped ev \<or> DetachedChild ev then
          (if hasSignal signals ReliabilityObservedRuntime []
           then enforceability ClassDetects ''mediated span severed; runtime signal caught residue''
           else enforceability ClassBlind ''mediated span severed; no fallback'')
        else if hasSignal signals [] TimingPreExec then
          (if EI_ProviderEnforcement inp = ''real''
              \<or> hasSignal signals ReliabilityEnforcedBoundary []
           then enforceability ClassEnforces ''mediated pre-exec control with demonstrated mediation''
           else enforceability ClassDetects
                  (''mediated pre-exec signal declared but mediation unproven '' @ em_dash
                   @ '' detects only''))
        else enforceability ClassDetects ''no pre-exec signal'')
     else if mode = ModeHookGate then
       (if HookMissing ev \<or> SpanStripped ev \<or> SpanForged ev \<or> DetachedChild ev then
          (if hasSignal signals ReliabilityObservedRuntime []
           then enforceability ClassDetects ''hook/span unreliable; fallback observed''
           else enforceability ClassBlind ''hook/span unreliable; no fallback'')
        else if hasSignal signals ReliabilityDeclaredIntent TimingPreExec
        then enforceability ClassEnforces ''cooperative pre-exec hook can gate''
        else enforceability ClassDetects ''no cooperative pre-exec hook'')
     else if mode = ModeOSObserved then
       (if hasSignal signals ReliabilityObservedRuntime []
        then enforceability ClassDetects ''post-hoc or partial runtime observation''
        else enforceability ClassBlind ''no runtime signal'')
     else if mode = ModeObserve \<or> mode = ModeAdvise then
       (if signals \<noteq> []
        then enforceability ClassDetects (mode @ '' mode records/explains but does not enforce'')
        else enforceability ClassBlind ''no signals'')
     else enforceability ClassBlind ''unknown mode'')"

fun attribution_loop :: "Signal list \<Rightarrow> string \<Rightarrow> string" where
  "attribution_loop [] best = best"
| "attribution_loop (s # ss) best =
     (let r = Source_Reliability (Signal_Source s) in
      if r = ReliabilityEnforcedBoundary then ConfHigh
      else if r = ReliabilityMediatedAction \<or> r = ReliabilityDeclaredIntent then
        attribution_loop ss (if best = ConfUnknown \<or> best = ConfLow then ConfMedium else best)
      else if r = ReliabilityObservedRuntime then
        attribution_loop ss (if best = ConfUnknown then ConfLow else best)
      else attribution_loop ss best)"

definition AttributionConfidence :: "Signal list \<Rightarrow> string" where
  "AttributionConfidence signals = attribution_loop signals ConfUnknown"

fun NormalizeSignals :: "Signal list \<Rightarrow> Signal list" where
  "NormalizeSignals [] = []"
| "NormalizeSignals (s # ss) =
     (if Signal_SchemaVersion s \<noteq> SchemaSignalV0 then NormalizeSignals ss
      else if Signal_SignalID s = [] \<or> Source_Kind (Signal_Source s) = [] then NormalizeSignals ss
      else s # NormalizeSignals ss)"

definition sensitivity_order :: "(string \<times> int) list" where
  "sensitivity_order =
     [(''credential'', 3), (''external_network'', 2), (''high'', 2), (''medium'', 1), (''low'', 0)]"

fun sensitivity_loop :: "Signal list \<Rightarrow> string \<Rightarrow> int \<Rightarrow> string" where
  "sensitivity_loop [] best bestRank = best"
| "sensitivity_loop (s # ss) best bestRank =
     (case get_object (Signal_ActionClaim s) ''target'' of
        None \<Rightarrow> sensitivity_loop ss best bestRank
      | Some target \<Rightarrow>
          (let sens = get_string0 target ''sensitivity'' in
           case map_of sensitivity_order sens of
             Some rank \<Rightarrow>
               if rank > bestRank then sensitivity_loop ss sens rank
               else sensitivity_loop ss best bestRank
           | None \<Rightarrow> sensitivity_loop ss best bestRank))"

definition PrimarySensitivity :: "Signal list \<Rightarrow> string" where
  "PrimarySensitivity signals =
     (let best = sensitivity_loop signals [] (-1) in if best = [] then ''low'' else best)"

definition ComputeSpoofingRisk :: "EvasionFlags \<Rightarrow> Signal list \<Rightarrow> string" where
  "ComputeSpoofingRisk flags signals =
     (if SpanForged flags then SpoofingRiskHigh
      else if hasSignal signals ReliabilityEnforcedBoundary [] then SpoofingRiskNone
      else if SpanStripped flags \<or> DetachedChild flags \<or> HookMissing flags then
        (if hasSignal signals ReliabilityObservedRuntime [] then SpoofingRiskMedium
         else SpoofingRiskHigh)
      else if hasSignal signals ReliabilityDeclaredIntent []
              \<or> hasSignal signals ReliabilityMediatedAction [] then SpoofingRiskLow
      else SpoofingRiskHigh)"

fun DisplayTarget :: "Signal list \<Rightarrow> string" where
  "DisplayTarget [] = []"
| "DisplayTarget (s # ss) =
     (case get_object (Signal_ActionClaim s) ''target'' of
        None \<Rightarrow> DisplayTarget ss
      | Some target \<Rightarrow>
          (case get_string target ''display'' of
             Some d \<Rightarrow> if d \<noteq> [] then d else DisplayTarget ss
           | None \<Rightarrow> DisplayTarget ss))"

definition appendUnique :: "string list \<Rightarrow> string \<Rightarrow> string list" where
  "appendUnique ss s = append_unique ss s"

definition claims_agent :: "Signal \<Rightarrow> bool" where
  "claims_agent s \<longleftrightarrow>
     (case Signal_ActorClaim s of Some a \<Rightarrow> Actor_Kind a = ''ai_coding_agent'' | None \<Rightarrow> False)"

definition Labelize :: "string \<Rightarrow> string \<Rightarrow> Signal list \<Rightarrow> string list" where
  "Labelize actionType sensitivity signals =
    (let l0 = (if sensitivity = ''credential'' then [''credential_access''] else []);
         l1 = (if sensitivity = ''external_network'' then l0 @ [''external_egress''] else l0);
         l2 = (if strings_Contains actionType ''shell_exec'' then l1 @ [''shell_execution''] else l1);
         l3 = (if strings_Contains actionType ''file_write'' then l2 @ [''file_mutation''] else l2)
     in if list_ex claims_agent signals then appendUnique l3 ''ai_agent_actor'' else l3)"

subsection \<open>Lemmas on the stages\<close>

lemma class_distinct [simp]:
  "ClassEnforces \<noteq> ClassDetects" "ClassEnforces \<noteq> ClassBlind" "ClassDetects \<noteq> ClassEnforces"
  "ClassDetects \<noteq> ClassBlind" "ClassBlind \<noteq> ClassEnforces" "ClassBlind \<noteq> ClassDetects"
  by (simp_all add: class_defs)

lemma conf_distinct [simp]:
  "ConfHigh \<noteq> ConfMedium" "ConfHigh \<noteq> ConfLow" "ConfHigh \<noteq> ConfUnknown"
  "ConfMedium \<noteq> ConfHigh" "ConfMedium \<noteq> ConfLow" "ConfMedium \<noteq> ConfUnknown"
  "ConfLow \<noteq> ConfHigh" "ConfLow \<noteq> ConfMedium" "ConfLow \<noteq> ConfUnknown"
  "ConfUnknown \<noteq> ConfHigh" "ConfUnknown \<noteq> ConfMedium" "ConfUnknown \<noteq> ConfLow"
  by (simp_all add: conf_defs)

lemma mode_distinct [simp]:
  "ModeContained \<noteq> ModeMediated" "ModeContained \<noteq> ModeHookGate" "ModeContained \<noteq> ModeManaged"
  "ModeManaged \<noteq> ModeMediated" "ModeManaged \<noteq> ModeHookGate" "ModeManaged \<noteq> ModeContained"
  "ModeMediated \<noteq> ModeContained" "ModeMediated \<noteq> ModeManaged" "ModeMediated \<noteq> ModeHookGate"
  "ModeHookGate \<noteq> ModeContained" "ModeHookGate \<noteq> ModeManaged" "ModeHookGate \<noteq> ModeMediated"
  by (simp_all add: mode_defs)

definition has_reliability :: "Signal list \<Rightarrow> string \<Rightarrow> bool" where
  "has_reliability signals r \<longleftrightarrow> (\<exists>s \<in> set signals. Source_Reliability (Signal_Source s) = r)"

lemma has_reliability_simps [simp]:
  "\<not> has_reliability [] r"
  "has_reliability (s # ss) r \<longleftrightarrow> Source_Reliability (Signal_Source s) = r \<or> has_reliability ss r"
  by (auto simp: has_reliability_def)

lemma hasSignal_iff:
  "hasSignal signals rel tim \<longleftrightarrow>
     (\<exists>s \<in> set signals. (rel = [] \<or> Source_Reliability (Signal_Source s) = rel)
        \<and> (tim = [] \<or> Source_Timing (Signal_Source s) = tim))"
  by (induction signals) auto

lemma hasSignal_reliability: "rel \<noteq> [] \<Longrightarrow> hasSignal signals rel [] \<longleftrightarrow> has_reliability signals rel"
  by (simp add: hasSignal_iff has_reliability_def)

lemma NormalizeSignals_filter:
  "NormalizeSignals signals =
     filter (\<lambda>s. Signal_SchemaVersion s = SchemaSignalV0 \<and> Signal_SignalID s \<noteq> []
               \<and> Source_Kind (Signal_Source s) \<noteq> []) signals"
  by (induction signals) auto

lemma NormalizeSignals_idem [simp]: "NormalizeSignals (NormalizeSignals ss) = NormalizeSignals ss"
  by (simp add: NormalizeSignals_filter)

lemma attribution_loop_spec:
  "best \<in> {ConfUnknown, ConfLow, ConfMedium} \<Longrightarrow>
   attribution_loop signals best =
     (if has_reliability signals ReliabilityEnforcedBoundary then ConfHigh
      else if best = ConfMedium \<or> has_reliability signals ReliabilityMediatedAction
              \<or> has_reliability signals ReliabilityDeclaredIntent then ConfMedium
      else if best = ConfLow \<or> has_reliability signals ReliabilityObservedRuntime then ConfLow
      else ConfUnknown)"
proof (induction signals arbitrary: best)
  case Nil
  then show ?case by auto
next
  case (Cons s ss)
  from Cons.prems have "best = ConfUnknown \<or> best = ConfLow \<or> best = ConfMedium" by simp
  then show ?case
    by (elim disjE) (simp_all add: Cons.IH Let_def)
qed

text \<open>The sensitivity rank that a signal's target claims, if it claims a known one.\<close>

definition claimed_sensitivity :: "Signal \<Rightarrow> string option" where
  "claimed_sensitivity s =
     (case get_object (Signal_ActionClaim s) ''target'' of
        None \<Rightarrow> None
      | Some target \<Rightarrow>
          (case map_of sensitivity_order (get_string0 target ''sensitivity'') of
             None \<Rightarrow> None
           | Some _ \<Rightarrow> Some (get_string0 target ''sensitivity'')))"

definition sens_rank :: "string \<Rightarrow> int" where
  "sens_rank s = (case map_of sensitivity_order s of Some r \<Rightarrow> r | None \<Rightarrow> -1)"

lemma sens_rank_simps [simp]:
  "sens_rank ''credential'' = 3" "sens_rank ''external_network'' = 2" "sens_rank ''high'' = 2"
  "sens_rank ''medium'' = 1" "sens_rank ''low'' = 0" "sens_rank [] = -1"
  by (simp_all add: sens_rank_def sensitivity_order_def)

lemma sens_rank_credential: "3 \<le> sens_rank s \<longleftrightarrow> s = ''credential''"
  by (auto simp: sens_rank_def sensitivity_order_def)

lemma claimed_sensitivity_rank: "claimed_sensitivity s = Some v \<Longrightarrow> 0 \<le> sens_rank v"
  by (auto simp: claimed_sensitivity_def sens_rank_def sensitivity_order_def
      split: option.splits if_splits)

lemma sensitivity_loop_step:
  "sensitivity_loop (s # ss) best bestRank =
     (case claimed_sensitivity s of
        Some v \<Rightarrow> if sens_rank v > bestRank then sensitivity_loop ss v (sens_rank v)
                 else sensitivity_loop ss best bestRank
      | None \<Rightarrow> sensitivity_loop ss best bestRank)"
  by (auto simp: claimed_sensitivity_def sens_rank_def Let_def split: option.splits)

declare sensitivity_loop.simps(2) [simp del]

lemma sensitivity_loop_le: "b \<le> sens_rank best \<Longrightarrow> b \<le> sens_rank (sensitivity_loop signals best b)"
  by (induction signals arbitrary: best b)
     (auto simp: sensitivity_loop_step intro: order_trans less_imp_le split: option.split)

lemma sensitivity_loop_upper:
  "b = sens_rank best \<Longrightarrow> s \<in> set signals \<Longrightarrow> claimed_sensitivity s = Some v \<Longrightarrow>
   sens_rank v \<le> sens_rank (sensitivity_loop signals best b)"
proof (induction signals arbitrary: best b)
  case Nil
  then show ?case by simp
next
  case (Cons t ss)
  have keep: "sens_rank v \<le> sens_rank (sensitivity_loop ss u c)"
    if "c = sens_rank u" "s = t \<longrightarrow> sens_rank v \<le> c" for u c
    using that Cons.IH [of c u] Cons.prems(2,3) sensitivity_loop_le [of c u ss] by auto
  show ?case
  proof (cases "claimed_sensitivity t")
    case None
    with Cons.prems have "s \<noteq> t" by auto
    with None keep [of b best] Cons.prems(1) show ?thesis by (simp add: sensitivity_loop_step)
  next
    case (Some w)
    with Cons.prems(3) have w: "s = t \<longrightarrow> w = v" by auto
    show ?thesis
    proof (cases "sens_rank w > b")
      case True
      with Some w keep [of "sens_rank w" w] show ?thesis by (auto simp: sensitivity_loop_step)
    next
      case False
      with Some w keep [of b best] Cons.prems(1) show ?thesis by (auto simp: sensitivity_loop_step)
    qed
  qed
qed

lemma sensitivity_loop_origin:
  "sensitivity_loop signals best b = best
   \<or> (\<exists>s \<in> set signals. claimed_sensitivity s = Some (sensitivity_loop signals best b))"
proof (induction signals arbitrary: best b)
  case Nil
  then show ?case by simp
next
  case (Cons t ss)
  show ?case
    using Cons.IH [of best b] Cons.IH [of "the (claimed_sensitivity t)" "sens_rank (the (claimed_sensitivity t))"]
    by (auto simp: sensitivity_loop_step split: option.split)
qed

lemma Labelize_set:
  "set (Labelize actionType sensitivity signals) =
     (if sensitivity = ''credential'' then {''credential_access''} else {})
     \<union> (if sensitivity = ''external_network'' then {''external_egress''} else {})
     \<union> (if strings_Contains actionType ''shell_exec'' then {''shell_execution''} else {})
     \<union> (if strings_Contains actionType ''file_write'' then {''file_mutation''} else {})
     \<union> (if list_ex claims_agent signals then {''ai_agent_actor''} else {})"
  by (auto simp: Labelize_def Let_def appendUnique_def)

text \<open>What it means for a mode to have demonstrated that it can stop the action.\<close>

definition demonstrated :: "EnforceabilityInput \<Rightarrow> bool" where
  "demonstrated inp \<longleftrightarrow>
    (let ev = EI_EvasionFlags inp; mode = EI_Mode inp; signals = EI_Signals inp;
         boundary = has_reliability signals ReliabilityEnforcedBoundary;
         real = (EI_ProviderEnforcement inp = ''real'') in
     (mode \<in> {ModeContained, ModeManaged} \<and>
        (boundary \<or>
         real \<and> (''block'' \<in> set (EI_ProviderCapabilities inp)
                 \<or> ''contain'' \<in> set (EI_ProviderCapabilities inp))
         \<and> (EI_EnforcedActions inp = []
            \<or> PrimaryActionType signals \<in> set (EI_EnforcedActions inp))))
     \<or> (mode = ModeMediated \<and> \<not> SpanStripped ev \<and> \<not> DetachedChild ev \<and> (real \<or> boundary)
        \<and> (\<exists>s \<in> set signals. Source_Timing (Signal_Source s) = TimingPreExec))
     \<or> (mode = ModeHookGate \<and> \<not> HookMissing ev \<and> \<not> SpanStripped ev \<and> \<not> SpanForged ev
        \<and> \<not> DetachedChild ev
        \<and> (\<exists>s \<in> set signals. Source_Reliability (Signal_Source s) = ReliabilityDeclaredIntent
              \<and> Source_Timing (Signal_Source s) = TimingPreExec)))"

lemma mode_cases [case_names contained mediated hook_gate other]:
  obtains "EI_Mode inp = ModeContained \<or> EI_Mode inp = ModeManaged"
  | "EI_Mode inp = ModeMediated"
  | "EI_Mode inp = ModeHookGate"
  | "EI_Mode inp \<noteq> ModeContained" "EI_Mode inp \<noteq> ModeManaged" "EI_Mode inp \<noteq> ModeMediated"
    "EI_Mode inp \<noteq> ModeHookGate"
  by blast

text \<open>Enforceability classes as a scale: blind, detects, enforces.\<close>

definition class_rank :: "string \<Rightarrow> nat" where
  "class_rank c = (if c = ClassEnforces then 2 else if c = ClassDetects then 1 else 0)"

text \<open>The more evasive of two environments: same required effect, at least the same
  span and hook damage.\<close>

definition more_evasive :: "EvasionFlags \<Rightarrow> EvasionFlags \<Rightarrow> bool" where
  "more_evasive ev ev' \<longleftrightarrow>
     RequiredEffectUnavail ev' = RequiredEffectUnavail ev \<and> FailClosed ev' = FailClosed ev
     \<and> (SpanStripped ev \<longrightarrow> SpanStripped ev') \<and> (SpanForged ev \<longrightarrow> SpanForged ev')
     \<and> (DetachedChild ev \<longrightarrow> DetachedChild ev') \<and> (HookMissing ev \<longrightarrow> HookMissing ev')"

subsection \<open>Properties\<close>

text \<open>Mode honesty. The kernel classifies an action as enforced exactly when a
  required effect is missing under fail-closed, or the mode's own evidence demonstrates
  enforcement: a boundary signal or a real, capable provider covering the action in
  contained and managed mode; an intact span, a pre-exec signal and proven mediation in
  mediated mode; an undamaged hook that declared the action before execution in hook-gate
  mode. No other mode ever claims to enforce.\<close>

theorem enforces_iff_demonstrated:
  "ER_Class (AnalyzeEnforceability inp) = ClassEnforces \<longleftrightarrow>
     (if RequiredEffectUnavail (EI_EvasionFlags inp) then FailClosed (EI_EvasionFlags inp)
      else demonstrated inp)"
proof (cases rule: mode_cases [of inp])
  case contained
  then show ?thesis
    by (auto simp: AnalyzeEnforceability_def demonstrated_def Let_def hasSignal_reliability
        providerCan_def actionEnforced_def)
next
  case mediated
  then show ?thesis
    by (simp add: AnalyzeEnforceability_def demonstrated_def Let_def hasSignal_reliability
        hasSignal_iff [of _ "[]" TimingPreExec])
next
  case hook_gate
  then show ?thesis
    by (simp add: AnalyzeEnforceability_def demonstrated_def Let_def
        hasSignal_iff [of _ ReliabilityDeclaredIntent TimingPreExec])
next
  case other
  then show ?thesis
    by (simp add: AnalyzeEnforceability_def demonstrated_def Let_def)
qed

text \<open>Evasion never strengthens a claim. With the same mode, signals and provider
  evidence, an environment with more span or hook damage is never classified higher on
  the scale blind, detects, enforces.\<close>

theorem evasion_never_raises_class:
  assumes "more_evasive ev ev'"
  shows "class_rank (ER_Class (AnalyzeEnforceability (inp\<lparr>EI_EvasionFlags := ev'\<rparr>)))
       \<le> class_rank (ER_Class (AnalyzeEnforceability (inp\<lparr>EI_EvasionFlags := ev\<rparr>)))"
  using assms
  by (cases rule: mode_cases [of inp])
     (auto simp: AnalyzeEnforceability_def Let_def class_rank_def more_evasive_def)

definition quiet_flags :: EvasionFlags where
  "quiet_flags = \<lparr>SpanStripped = False, SpanForged = False, DetachedChild = False,
     HookMissing = False, RequiredEffectUnavail = False, FailClosed = False\<rparr>"

definition hook_signal :: Signal where
  "hook_signal =
     \<lparr>Signal_SchemaVersion = SchemaSignalV0, Signal_SignalID = ''s1'', Signal_SignalTime = [],
      Signal_Source = \<lparr>Source_Kind = ''hook'', Source_Reliability = ReliabilityDeclaredIntent,
        Source_Timing = TimingPreExec, Source_Provider = [], Source_ProviderVersion = []\<rparr>,
      Signal_Session = None, Signal_ActorClaim = None, Signal_ActionClaim = [],
      Signal_Metadata = []\<rparr>"

theorem evasion_never_raises_class_witness:
  "let inp = \<lparr>EI_Mode = ModeHookGate, EI_Signals = [hook_signal], EI_ProviderCapabilities = [],
              EI_ProviderEnforcement = [], EI_EnforcedActions = [], EI_EvasionFlags = quiet_flags\<rparr>;
       forged = quiet_flags\<lparr>SpanForged := True\<rparr> in
   class_rank (ER_Class (AnalyzeEnforceability (inp\<lparr>EI_EvasionFlags := forged\<rparr>))) = 0
   \<and> class_rank (ER_Class (AnalyzeEnforceability (inp\<lparr>EI_EvasionFlags := quiet_flags\<rparr>))) = 2
   \<and> (0::nat) \<le> 2"
proof -
  have "more_evasive quiet_flags (quiet_flags\<lparr>SpanForged := True\<rparr>)"
    by (simp add: more_evasive_def quiet_flags_def)
  note evasion_never_raises_class [OF this, of
    "\<lparr>EI_Mode = ModeHookGate, EI_Signals = [hook_signal], EI_ProviderCapabilities = [],
      EI_ProviderEnforcement = [], EI_EnforcedActions = [], EI_EvasionFlags = quiet_flags\<rparr>"]
  then show ?thesis
    by (simp add: AnalyzeEnforceability_def Let_def class_rank_def quiet_flags_def hook_signal_def)
qed

text \<open>Attribution confidence is the strongest evidence among the signals, whatever
  their order: high with an enforced boundary, otherwise medium with a mediated or declared
  action, otherwise low with a runtime observation, otherwise unknown.\<close>

theorem attribution_is_strongest_evidence:
  "AttributionConfidence signals =
     (if has_reliability signals ReliabilityEnforcedBoundary then ConfHigh
      else if has_reliability signals ReliabilityMediatedAction
              \<or> has_reliability signals ReliabilityDeclaredIntent then ConfMedium
      else if has_reliability signals ReliabilityObservedRuntime then ConfLow
      else ConfUnknown)"
  by (simp add: AttributionConfidence_def attribution_loop_spec)

text \<open>The primary sensitivity is one that a signal claims (or low when none claims a
  known one) and no signal claims a higher-ranked one; in particular a single credential
  claim among the signals makes the action a credential action.\<close>

theorem primary_sensitivity_is_maximal:
  "(\<forall>s \<in> set signals. \<forall>v. claimed_sensitivity s = Some v \<longrightarrow>
       sens_rank v \<le> sens_rank (PrimarySensitivity signals))
   \<and> (PrimarySensitivity signals = ''low''
      \<or> (\<exists>s \<in> set signals. claimed_sensitivity s = Some (PrimarySensitivity signals)))
   \<and> ((\<exists>s \<in> set signals. claimed_sensitivity s = Some ''credential'')
        \<longleftrightarrow> PrimarySensitivity signals = ''credential'')"
proof -
  let ?r = "sensitivity_loop signals [] (-1)"
  have upper: "sens_rank v \<le> sens_rank ?r" if "s \<in> set signals" "claimed_sensitivity s = Some v" for s v
    using sensitivity_loop_upper [of "-1" "[]", OF _ that] by simp
  have origin: "?r = [] \<or> (\<exists>s \<in> set signals. claimed_sensitivity s = Some ?r)"
    by (rule sensitivity_loop_origin)
  have none: "?r = [] \<Longrightarrow> s \<in> set signals \<Longrightarrow> claimed_sensitivity s = None" for s
    using upper [of s] claimed_sensitivity_rank [of s] by (cases "claimed_sensitivity s") fastforce+
  have cred: "PrimarySensitivity signals = ''credential''"
    if "s \<in> set signals" "claimed_sensitivity s = Some ''credential''" for s
  proof -
    from upper [OF that] have "?r = ''credential''" by (simp add: sens_rank_credential)
    then show ?thesis by (simp add: PrimarySensitivity_def)
  qed
  show ?thesis
    using upper origin none cred
    by (auto simp: PrimarySensitivity_def Let_def split: if_splits)
qed

theorem primary_sensitivity_is_maximal_witness:
  "PrimarySensitivity
     [hook_signal\<lparr>Signal_ActionClaim := [(''target'', JObject [(''sensitivity'', JString ''high'')])]\<rparr>,
      hook_signal\<lparr>Signal_ActionClaim := [(''target'', JObject [(''sensitivity'', JString ''credential'')])]\<rparr>]
     = ''credential''"
  by (rule primary_sensitivity_is_maximal [THEN conjunct2, THEN conjunct2, THEN iffD1])
     (simp add: hook_signal_def claimed_sensitivity_def get_object_def get_string0_def
        get_string_def sensitivity_order_def)

end
