(* ===== verification/Go_Bytes.thy ===== *)
theory Go_Bytes
  imports Sir_Prelude "HOL-Library.Word"
begin

unbundle bit_operations_syntax

text \<open>
  Byte-level parts of Go's standard library that the sources call: \<open>encoding/binary\<close>'s
  big-endian writers and readers, \<open>encoding/hex\<close>, and \<open>crypto/sha256\<close> (FIPS 180-4).
  Bytes are characters; the numeric value of a byte is \<^term>\<open>of_char\<close>.
\<close>

subsection \<open>Big-endian integers\<close>

fun be_bytes :: "nat \<Rightarrow> nat \<Rightarrow> string" where
  "be_bytes 0 n = []"
| "be_bytes (Suc k) n = char_of (n div 256 ^ k) # be_bytes k n"

definition be_value :: "string \<Rightarrow> nat" where
  "be_value bs = foldl (\<lambda>acc c. acc * 256 + of_char c) 0 bs"

text \<open>\<open>binary.BigEndian.PutUint64(buf, uint64(i))\<close> for a Go \<open>int\<close>: two's complement.\<close>

definition put_uint64 :: "int \<Rightarrow> string" where
  "put_uint64 i = be_bytes 8 (nat (i mod 2 ^ 64))"

definition put_uint32 :: "nat \<Rightarrow> string" where
  "put_uint32 n = be_bytes 4 (n mod 2 ^ 32)"

lemma length_be_bytes [simp]: "length (be_bytes k n) = k"
  by (induction k) auto

lemma length_put_uint64 [simp]: "length (put_uint64 i) = 8"
  by (simp add: put_uint64_def)

lemma length_put_uint32 [simp]: "length (put_uint32 n) = 4"
  by (simp add: put_uint32_def)

lemma be_value_acc:
  "foldl (\<lambda>acc c. acc * 256 + of_char c) a bs = a * 256 ^ length bs + be_value bs"
proof (induction bs arbitrary: a)
  case Nil
  then show ?case by (simp add: be_value_def)
next
  case (Cons c cs)
  have "be_value (c # cs) = of_char c * 256 ^ length cs + be_value cs"
    using Cons.IH [of "of_char c"] by (simp add: be_value_def)
  with Cons.IH [of "a * 256 + of_char c"] show ?case
    by (simp add: algebra_simps)
qed

lemma be_value_Nil [simp]: "be_value [] = 0"
  by (simp add: be_value_def)

lemma be_value_Cons: "be_value (c # cs) = of_char c * 256 ^ length cs + be_value cs"
  using be_value_acc [of "of_char c" cs] by (simp add: be_value_def)

lemma be_value_be_bytes: "be_value (be_bytes k n) = n mod 256 ^ k"
proof (induction k)
  case 0
  then show ?case by simp
next
  case (Suc k)
  have "n mod 256 ^ Suc k = (n div 256 ^ k) mod 256 * 256 ^ k + n mod 256 ^ k"
    by (simp add: mod_mult2_eq mult.commute [of 256])
  with Suc show ?case by (simp add: be_value_Cons of_char_of)
qed

lemma be_value_bound: "be_value bs < 256 ^ length bs"
proof (induction bs)
  case Nil
  then show ?case by simp
next
  case (Cons c cs)
  have "(of_char c :: nat) \<le> 255"
    using nat_of_char_less_256 [of c] by linarith
  then have "(of_char c :: nat) * 256 ^ length cs \<le> 255 * 256 ^ length cs"
    by (rule mult_le_mono1)
  with Cons.IH have "of_char c * 256 ^ length cs + be_value cs < 256 * 256 ^ length cs"
    by linarith
  then show ?case by (simp add: be_value_Cons)
qed

lemma be_bytes_inj:
  assumes "be_bytes k m = be_bytes k n" and "m < 256 ^ k" and "n < 256 ^ k"
  shows "m = n"
proof -
  have "m mod 256 ^ k = n mod 256 ^ k"
    using arg_cong [OF assms(1), of be_value] by (simp only: be_value_be_bytes)
  with assms(2,3) show ?thesis by simp
qed

lemma put_uint64_inj:
  assumes "put_uint64 i = put_uint64 j" and "- (2 ^ 63) \<le> i" "i < 2 ^ 63" "- (2 ^ 63) \<le> j" "j < 2 ^ 63"
  shows "i = j"
proof -
  have "nat (i mod 2 ^ 64) = nat (j mod 2 ^ 64)"
    using assms(1) unfolding put_uint64_def
    by (rule be_bytes_inj) (simp_all add: nat_less_iff)
  then have "i mod 2 ^ 64 = j mod 2 ^ 64"
    by (simp add: nat_eq_iff)
  moreover have "\<bar>i - j\<bar> < 2 ^ 64" using assms(2-) by simp
  ultimately show ?thesis
    by (metis mod_eq_dvd_iff zdvd_not_zless abs_dvd_iff dvd_imp_le_int eq_iff_diff_eq_0 linorder_not_less abs_of_nonneg abs_numeral power_abs)
qed

subsection \<open>Length-prefixed fields\<close>

text \<open>
  The framing that the ledger's \<open>writeField\<close> closures and the MSTR/1 frame share: the
  length of the value as a fixed-width big-endian integer, then the value.
\<close>

definition length_prefixed :: "string \<Rightarrow> string" where
  "length_prefixed v = put_uint64 (int (length v)) @ v"

lemma length_length_prefixed [simp]: "length (length_prefixed v) = 8 + length v"
  by (simp add: length_prefixed_def)

lemma length_prefixed_append_inj:
  assumes eq: "length_prefixed v @ r = length_prefixed w @ s"
    and "length v < 2 ^ 63" and "length w < 2 ^ 63"
  shows "v = w \<and> r = s"
proof -
  from eq have hd: "put_uint64 (int (length v)) = put_uint64 (int (length w))"
    and tl: "v @ r = w @ s"
    by (simp_all add: length_prefixed_def)
  have "int (length v) = int (length w)"
    by (rule put_uint64_inj [OF hd]) (use assms(2,3) in simp_all)
  with tl show ?thesis by simp
qed

lemma put_uint64_append_inj:
  assumes eq: "put_uint64 i @ r = put_uint64 j @ s"
    and "- (2 ^ 63) \<le> i" "i < 2 ^ 63" "- (2 ^ 63) \<le> j" "j < 2 ^ 63"
  shows "i = j \<and> r = s"
proof -
  from eq have "put_uint64 i = put_uint64 j" and "r = s"
    by simp_all
  with assms(2-) show ?thesis by (simp add: put_uint64_inj)
qed

subsection \<open>Hexadecimal\<close>

definition hex_digit :: "nat \<Rightarrow> char" where
  "hex_digit n = (if n < 10 then char_of (48 + n) else char_of (87 + n))"

fun hex_EncodeToString :: "string \<Rightarrow> string" where
  "hex_EncodeToString [] = []"
| "hex_EncodeToString (c # cs) =
     hex_digit (of_char c div 16) # hex_digit (of_char c mod 16) # hex_EncodeToString cs"

lemma length_hex [simp]: "length (hex_EncodeToString bs) = 2 * length bs"
  by (induction bs) auto

lemma hex_digit_inj: "m < 16 \<Longrightarrow> n < 16 \<Longrightarrow> hex_digit m = hex_digit n \<Longrightarrow> m = n"
  by (auto simp: hex_digit_def char_of_eq_iff [symmetric] of_char_eq_iff [symmetric]
      simp del: of_char_eq_iff split: if_splits)

lemma hex_inj: "hex_EncodeToString xs = hex_EncodeToString ys \<Longrightarrow> xs = ys"
proof (induction xs arbitrary: ys)
  case Nil
  then show ?case by (cases ys) auto
next
  case (Cons x xs)
  then obtain y ys' where ys: "ys = y # ys'" by (cases ys) auto
  with Cons.prems have d: "hex_digit (of_char x div 16) = hex_digit (of_char y div 16)"
    and m: "hex_digit (of_char x mod 16) = hex_digit (of_char y mod 16)"
    and tl: "hex_EncodeToString xs = hex_EncodeToString ys'"
    by auto
  have "(of_char x :: nat) div 16 = of_char y div 16"
    by (rule hex_digit_inj [OF _ _ d]) (use nat_of_char_less_256 in \<open>simp_all add: less_mult_imp_div_less\<close>)
  moreover have "(of_char x :: nat) mod 16 = of_char y mod 16"
    by (rule hex_digit_inj [OF _ _ m]) simp_all
  ultimately have "(of_char x :: nat) = of_char y"
    by (metis div_mult_mod_eq)
  then have "x = y" by simp
  with Cons.IH [OF tl] ys show ?case by simp
qed

text \<open>\<open>hex.DecodeString\<close> with its error ignored: the bytes before the first bad digit.\<close>

definition hex_value :: "char \<Rightarrow> nat option" where
  "hex_value c =
     (let n = (of_char c :: nat) in
      if 48 \<le> n \<and> n \<le> 57 then Some (n - 48)
      else if 97 \<le> n \<and> n \<le> 102 then Some (n - 87)
      else if 65 \<le> n \<and> n \<le> 70 then Some (n - 55)
      else None)"

fun hex_DecodeString :: "string \<Rightarrow> string" where
  "hex_DecodeString (a # b # cs) =
     (case (hex_value a, hex_value b) of
        (Some x, Some y) \<Rightarrow> char_of (16 * x + y) # hex_DecodeString cs
      | _ \<Rightarrow> [])"
| "hex_DecodeString _ = []"

lemma hex_value_digit: "n < 16 \<Longrightarrow> hex_value (hex_digit n) = Some n"
  by (auto simp: hex_value_def hex_digit_def Let_def)

lemma hex_decode_encode [simp]: "hex_DecodeString (hex_EncodeToString bs) = bs"
proof (induction bs)
  case Nil
  then show ?case by simp
next
  case (Cons c cs)
  have "(of_char c :: nat) div 16 < 16"
    using nat_of_char_less_256 [of c] by (simp add: less_mult_imp_div_less)
  then show ?case
    using Cons by (simp add: hex_value_digit)
qed

subsection \<open>SHA-256\<close>

type_synonym word32 = "32 word"

definition sha_K :: "word32 list" where
  "sha_K =
    [0x428A2F98, 0x71374491, 0xB5C0FBCF, 0xE9B5DBA5, 0x3956C25B, 0x59F111F1, 0x923F82A4, 0xAB1C5ED5,
     0xD807AA98, 0x12835B01, 0x243185BE, 0x550C7DC3, 0x72BE5D74, 0x80DEB1FE, 0x9BDC06A7, 0xC19BF174,
     0xE49B69C1, 0xEFBE4786, 0x0FC19DC6, 0x240CA1CC, 0x2DE92C6F, 0x4A7484AA, 0x5CB0A9DC, 0x76F988DA,
     0x983E5152, 0xA831C66D, 0xB00327C8, 0xBF597FC7, 0xC6E00BF3, 0xD5A79147, 0x06CA6351, 0x14292967,
     0x27B70A85, 0x2E1B2138, 0x4D2C6DFC, 0x53380D13, 0x650A7354, 0x766A0ABB, 0x81C2C92E, 0x92722C85,
     0xA2BFE8A1, 0xA81A664B, 0xC24B8B70, 0xC76C51A3, 0xD192E819, 0xD6990624, 0xF40E3585, 0x106AA070,
     0x19A4C116, 0x1E376C08, 0x2748774C, 0x34B0BCB5, 0x391C0CB3, 0x4ED8AA4A, 0x5B9CCA4F, 0x682E6FF3,
     0x748F82EE, 0x78A5636F, 0x84C87814, 0x8CC70208, 0x90BEFFFA, 0xA4506CEB, 0xBEF9A3F7, 0xC67178F2]"

definition sha_H0 :: "word32 list" where
  "sha_H0 = [0x6A09E667, 0xBB67AE85, 0x3C6EF372, 0xA54FF53A,
             0x510E527F, 0x9B05688C, 0x1F83D9AB, 0x5BE0CD19]"

definition sha_ch :: "word32 \<Rightarrow> word32 \<Rightarrow> word32 \<Rightarrow> word32" where
  "sha_ch x y z = (x AND y) XOR (NOT x AND z)"

definition sha_maj :: "word32 \<Rightarrow> word32 \<Rightarrow> word32 \<Rightarrow> word32" where
  "sha_maj x y z = (x AND y) XOR (x AND z) XOR (y AND z)"

definition sha_big0 :: "word32 \<Rightarrow> word32" where
  "sha_big0 x = word_rotr 2 x XOR word_rotr 13 x XOR word_rotr 22 x"

definition sha_big1 :: "word32 \<Rightarrow> word32" where
  "sha_big1 x = word_rotr 6 x XOR word_rotr 11 x XOR word_rotr 25 x"

definition sha_small0 :: "word32 \<Rightarrow> word32" where
  "sha_small0 x = word_rotr 7 x XOR word_rotr 18 x XOR drop_bit 3 x"

definition sha_small1 :: "word32 \<Rightarrow> word32" where
  "sha_small1 x = word_rotr 17 x XOR word_rotr 19 x XOR drop_bit 10 x"

text \<open>The message is padded with a 1 bit, zeros and its 64-bit bit length.\<close>

definition sha_pad :: "string \<Rightarrow> string" where
  "sha_pad m =
     (let r = length m mod 64
      in m @ [CHR 0x80] @ replicate (if r < 56 then 55 - r else 119 - r) (CHR 0x00)
           @ be_bytes 8 (8 * length m))"

fun sha_words :: "string \<Rightarrow> word32 list" where
  "sha_words (a # b # c # d # rest) = 
     (push_bit 24 (of_char a) OR push_bit 16 (of_char b) OR push_bit 8 (of_char c) OR of_char d)
       # sha_words rest"
| "sha_words _ = []"

text \<open>The message schedule, kept newest word first: the words 2, 7, 15 and 16 back.\<close>

fun sha_schedule :: "nat \<Rightarrow> word32 list \<Rightarrow> word32 list" where
  "sha_schedule 0 ws = ws"
| "sha_schedule (Suc n) ws =
     sha_schedule n
       ((sha_small1 (ws ! 1) + ws ! 6 + sha_small0 (ws ! 14) + ws ! 15) # ws)"

fun sha_round :: "word32 list \<Rightarrow> word32 \<times> word32 \<Rightarrow> word32 list" where
  "sha_round [a, b, c, d, e, f, g, h] (k, w) =
     (let t1 = h + sha_big1 e + sha_ch e f g + k + w;
          t2 = sha_big0 a + sha_maj a b c
      in [t1 + t2, a, b, c, d + t1, e, f, g])"
| "sha_round hs kw = hs"

definition sha_block :: "word32 list \<Rightarrow> word32 list \<Rightarrow> word32 list" where
  "sha_block hs ws =
     map2 (+) hs (foldl sha_round hs (zip sha_K (rev (sha_schedule 48 (rev ws)))))"

function sha_blocks :: "word32 list \<Rightarrow> word32 list \<Rightarrow> word32 list" where
  "sha_blocks hs ws =
     (if ws = [] then hs else sha_blocks (sha_block hs (take 16 ws)) (drop 16 ws))"
  by pat_completeness auto
termination
  by (relation "measure (\<lambda>(hs, ws). length ws)") auto

declare sha_blocks.simps [simp del]

definition sha_word_bytes :: "word32 \<Rightarrow> string" where
  "sha_word_bytes w =
     [char_of (unat (drop_bit 24 w AND 255)), char_of (unat (drop_bit 16 w AND 255)),
      char_of (unat (drop_bit 8 w AND 255)), char_of (unat (w AND 255))]"

definition sha256_Sum256 :: "string \<Rightarrow> string" where
  "sha256_Sum256 m =
     concat (map sha_word_bytes (sha_blocks sha_H0 (sha_words (sha_pad m))))"

text \<open>The length of the padded message is a whole number of 64-byte blocks.\<close>

lemma length_sha_pad: "length (sha_pad m) mod 64 = 0"
proof -
  define q r where "q = length m div 64" and "r = length m mod 64"
  then have m: "length m = 64 * q + r" and "r < 64" by simp_all
  then have "length (sha_pad m) = 64 * (if r < 56 then q + 1 else q + 2)"
    by (simp add: sha_pad_def Let_def flip: r_def)
  then show ?thesis by simp
qed

lemma length_sha_round: "length hs = 8 \<Longrightarrow> length (sha_round hs kw) = 8"
  by (induction hs kw rule: sha_round.induct) (simp_all add: Let_def)

lemma length_sha_block: "length hs = 8 \<Longrightarrow> length (sha_block hs ws) = 8"
proof -
  assume hs: "length hs = 8"
  have "length (foldl sha_round hs kws) = 8" for kws
    by (induction kws rule: rev_induct) (simp_all add: hs length_sha_round)
  with hs show ?thesis by (simp add: sha_block_def)
qed

lemma length_sha_blocks: "length hs = 8 \<Longrightarrow> length (sha_blocks hs ws) = 8"
proof (induction hs ws rule: sha_blocks.induct)
  case (1 hs ws)
  then show ?case
    by (simp add: sha_blocks.simps [of hs ws] length_sha_block)
qed

lemma length_sha256 [simp]: "length (sha256_Sum256 m) = 32"
proof -
  have "length (sha_blocks sha_H0 (sha_words (sha_pad m))) = 8"
    by (rule length_sha_blocks) (simp add: sha_H0_def)
  then show ?thesis
    by (simp add: sha256_Sum256_def sha_word_bytes_def length_concat comp_def sum_list_triv)
qed

end
