(* ===== verification/Kernel_Policy.thy ===== *)
theory Kernel_Policy
  imports Kernel_Pipeline Go_Bytes
begin

text \<open>
  Package \<open>pkg/kernel\<close>, the decision itself: the native rule table and its evaluation
  (\<open>policy.go\<close>), the composition with low attribution confidence and with advisory
  policy providers and the pure entry point \<open>Evaluate\<close> (\<open>kernel.go\<close>), and the evidence
  recorded about providers (\<open>provider_evidence.go\<close>).

  The lemmas show that every layer after the native rules only tightens (they interpret
  \<open>verdict_tightening\<close>), and the properties give the complete condition under which the
  kernel denies, that taint followed by egress is always denied, that advisory providers
  can neither loosen nor deny, and that the planned effects agree with the verdict.
\<close>

subsection \<open>Policy rules (\<open>policy.go\<close>)\<close>

definition sdk_EffectBlock :: string where
  "sdk_EffectBlock = ''block''"

definition sdk_EffectRecord :: string where
  "sdk_EffectRecord = ''record''"

definition sdk_EffectPrompt :: string where
  "sdk_EffectPrompt = ''prompt''"

definition sdk_EffectNudge :: string where
  "sdk_EffectNudge = ''nudge''"

lemmas sdk_effect_defs [const_defs] =
  sdk_EffectBlock_def sdk_EffectRecord_def sdk_EffectPrompt_def sdk_EffectNudge_def

record policyRule =
  Rule_ID :: string
  Rule_match :: "AttributedAction \<Rightarrow> bool"
  Rule_verdict :: string
  Rule_effects :: "PlannedEffect list"

record PolicyResult =
  Res_Verdict :: string
  Res_Rules :: "string list"
  Res_Effects :: "PlannedEffect list"

record AdvisoryRisk =
  Risk_Level :: string
  Risk_Reason :: string

definition hasLabel :: "string list \<Rightarrow> string \<Rightarrow> bool" where
  "hasLabel labels label = slice_contains labels label"

text \<open>The two effect lists that the table repeats: a fail-closed block, and a prompt.\<close>

definition deny_effects :: "PlannedEffect list" where
  "deny_effects = [effect sdk_EffectBlock True True, effect sdk_EffectRecord True False]"

definition ask_effects :: "PlannedEffect list" where
  "ask_effects = [effect sdk_EffectPrompt False False, effect sdk_EffectRecord True False]"

definition initialPolicies :: "policyRule list" where
  "initialPolicies =
   [\<lparr>Rule_ID = ''deny-agent-credential-read'',
     Rule_match = (\<lambda>a. hasLabel (AA_Labels a) ''ai_agent_actor''
                      \<and> hasLabel (AA_Labels a) ''credential_access''),
     Rule_verdict = VerdictDeny, Rule_effects = deny_effects\<rparr>,
    \<lparr>Rule_ID = ''deny-secret-to-egress'',
     Rule_match = (\<lambda>a. hasLabel (AA_Labels a) ''credential_access''
                      \<and> hasLabel (AA_Labels a) ''external_egress''),
     Rule_verdict = VerdictDeny, Rule_effects = deny_effects\<rparr>,
    \<lparr>Rule_ID = ''ask-external-egress'',
     Rule_match = (\<lambda>a. hasLabel (AA_Labels a) ''external_egress''),
     Rule_verdict = VerdictAsk, Rule_effects = ask_effects\<rparr>,
    \<lparr>Rule_ID = ''ask-dangerous-shell'',
     Rule_match = (\<lambda>a. hasLabel (AA_Labels a) ''shell_execution''
                      \<and> hasLabel (AA_Labels a) ''dangerous_shell''),
     Rule_verdict = VerdictAsk, Rule_effects = ask_effects\<rparr>,
    \<lparr>Rule_ID = ''ask-new-mcp-server'',
     Rule_match = (\<lambda>a. AA_ActionType a = ''mcp_trust'' \<or> hasLabel (AA_Labels a) ''new_mcp_server''),
     Rule_verdict = VerdictAsk, Rule_effects = ask_effects\<rparr>,
    \<lparr>Rule_ID = ''ask-cicd-edit'',
     Rule_match = (\<lambda>a. hasLabel (AA_Labels a) ''cicd_edit''),
     Rule_verdict = VerdictAsk, Rule_effects = ask_effects\<rparr>,
    \<lparr>Rule_ID = ''ask-git-hook-tamper'',
     Rule_match = (\<lambda>a. hasLabel (AA_Labels a) ''git_hook_tamper''),
     Rule_verdict = VerdictAsk, Rule_effects = ask_effects\<rparr>,
    \<lparr>Rule_ID = ''deny-sir-config-tamper'',
     Rule_match = (\<lambda>a. hasLabel (AA_Labels a) ''sir_config_tamper''),
     Rule_verdict = VerdictDeny, Rule_effects = deny_effects\<rparr>]"

fun policy_loop :: "policyRule list \<Rightarrow> AttributedAction \<Rightarrow> PolicyResult \<Rightarrow> PolicyResult" where
  "policy_loop [] action result = result"
| "policy_loop (rule # rules) action result =
     (if \<not> Rule_match rule action then policy_loop rules action result
      else
        let result1 = result\<lparr>Res_Rules := Res_Rules result @ [Rule_ID rule]\<rparr> in
        if Rule_verdict rule = VerdictDeny
        then result1\<lparr>Res_Verdict := VerdictDeny, Res_Effects := Rule_effects rule\<rparr>
        else if Res_Verdict result1 \<noteq> VerdictDeny \<and> Rule_verdict rule = VerdictAsk
        then policy_loop rules action
               (result1\<lparr>Res_Verdict := VerdictAsk, Res_Effects := Rule_effects rule\<rparr>)
        else policy_loop rules action result1)"

definition EvaluatePolicy :: "AttributedAction \<Rightarrow> string list \<Rightarrow> PolicyResult" where
  "EvaluatePolicy action priorTaint =
    (let result = \<lparr>Res_Verdict = VerdictAllow, Res_Rules = [],
                   Res_Effects = [effect sdk_EffectRecord True False]\<rparr> in
     if hasLabel priorTaint ''credential_access'' \<and> hasLabel (AA_Labels action) ''external_egress''
     then \<lparr>Res_Verdict = VerdictDeny, Res_Rules = Res_Rules result @ [''deny-secret-to-egress''],
           Res_Effects = [effect sdk_EffectBlock True True, effect sdk_EffectRecord True False]\<rparr>
     else policy_loop initialPolicies action result)"

definition ApplyAdvisoryRisk :: "PolicyResult \<Rightarrow> AdvisoryRisk option \<Rightarrow> PolicyResult" where
  "ApplyAdvisoryRisk result advisory =
    (case advisory of
       None \<Rightarrow> result
     | Some a \<Rightarrow>
         if Risk_Level a = [] \<or> Risk_Level a = ''low'' then result
         else if Risk_Level a = ''high'' \<and> Res_Verdict result = VerdictAllow
         then \<lparr>Res_Verdict = VerdictAsk, Res_Rules = Res_Rules result @ [''advisory-high-risk''],
               Res_Effects = [effect sdk_EffectPrompt False False, effect sdk_EffectRecord True False]\<rparr>
         else result)"

subsection \<open>Labels from the displayed target\<close>

text \<open>
  The four label functions share the shape \<open>for each signal with a target object, if its
  display string contains one of the patterns, add the label and return\<close>; a missing or
  non-string display is the empty string.
\<close>

definition target_matches :: "(string \<Rightarrow> bool) \<Rightarrow> Signal \<Rightarrow> bool" where
  "target_matches p sig \<longleftrightarrow>
     (case get_object (Signal_ActionClaim sig) ''target'' of
        None \<Rightarrow> False
      | Some target \<Rightarrow> p (get_string0 target ''display''))"

definition dangerous_patterns :: "string list" where
  "dangerous_patterns =
     [''rm -rf'', ''chmod 777'', ''chmod 0777'', ''mkfs'', ''dd if='', '':(){:|:&};:'', ''> /dev/sda'']"

definition cicd_paths :: "string list" where
  "cicd_paths =
     [''.github/workflows'', ''.gitlab-ci'', ''Jenkinsfile'', ''.circleci'', ''Makefile'', ''.travis.yml'']"

definition sir_paths :: "string list" where
  "sir_paths = [''.claude/settings'', ''sir.yaml'', ''.sir/'', ''sir-posture'']"

fun ApplyDangerousShellLabel :: "string list \<Rightarrow> Signal list \<Rightarrow> string list" where
  "ApplyDangerousShellLabel labels [] = labels"
| "ApplyDangerousShellLabel labels (sig # sigs) =
     (if target_matches
           (\<lambda>display. list_ex (strings_Contains (strings_ToLower display)) dangerous_patterns) sig
      then appendUnique labels ''dangerous_shell''
      else ApplyDangerousShellLabel labels sigs)"

fun ApplyCICDLabel :: "string list \<Rightarrow> Signal list \<Rightarrow> string list" where
  "ApplyCICDLabel labels [] = labels"
| "ApplyCICDLabel labels (sig # sigs) =
     (if target_matches (\<lambda>display. list_ex (strings_Contains display) cicd_paths) sig
      then appendUnique labels ''cicd_edit''
      else ApplyCICDLabel labels sigs)"

fun ApplyGitHookTamperLabel :: "string list \<Rightarrow> Signal list \<Rightarrow> string list" where
  "ApplyGitHookTamperLabel labels [] = labels"
| "ApplyGitHookTamperLabel labels (sig # sigs) =
     (if target_matches (\<lambda>display. strings_Contains display ''.git/hooks/'') sig
      then appendUnique labels ''git_hook_tamper''
      else ApplyGitHookTamperLabel labels sigs)"

fun ApplySIRTamperLabel :: "string list \<Rightarrow> Signal list \<Rightarrow> string list" where
  "ApplySIRTamperLabel labels [] = labels"
| "ApplySIRTamperLabel labels (sig # sigs) =
     (if target_matches (\<lambda>display. list_ex (strings_Contains display) sir_paths) sig
      then appendUnique labels ''sir_config_tamper''
      else ApplySIRTamperLabel labels sigs)"

subsection \<open>The pure decision function (\<open>kernel.go\<close>)\<close>

definition DecisionClassProceedAndReconcile :: string where
  "DecisionClassProceedAndReconcile = ''proceed_and_reconcile''"

definition DecisionClassBlockAndWait :: string where
  "DecisionClassBlockAndWait = ''block_and_wait''"

definition DecisionClassDenyNow :: string where
  "DecisionClassDenyNow = ''deny_now''"

definition DecisionClassRecordPostHoc :: string where
  "DecisionClassRecordPostHoc = ''record_post_hoc''"

lemmas decision_class_defs [const_defs] =
  DecisionClassProceedAndReconcile_def DecisionClassBlockAndWait_def DecisionClassDenyNow_def
  DecisionClassRecordPostHoc_def

record EvaluationInput =
  In_CaseID :: string
  In_Mode :: string
  In_Signals :: "Signal list"
  In_Evasion :: EvasionFlags
  In_PriorTaint :: "string list"
  In_ProviderCapabilities :: "string list"
  In_ResolvedActorKind :: string
  In_PolicyVerdicts :: "PolicyVerdict list"
  In_ProviderEnforcement :: string
  In_ProviderEnforcedActions :: "string list"

record EvaluationOutput =
  Out_Verdict :: string
  Out_DecisionClass :: string
  Out_Enforceability :: string
  Out_Attribution :: string
  Out_SpoofingRisk :: string
  Out_PolicyRules :: "string list"
  Out_Effects :: "PlannedEffect list"
  Out_ActionType :: string
  Out_Sensitivity :: string
  Out_NewTaint :: "string list"
  Out_ProviderRules :: "string list"

definition cleanDeveloperWorkflowActions :: "string list" where
  "cleanDeveloperWorkflowActions =
     [''file_read'', ''file_write'', ''file_list'', ''run_tests'', ''search_code'', ''vcs_status'',
      ''vcs_diff'', ''vcs_commit'']"

definition isCleanDeveloperWorkflow :: "string list \<Rightarrow> string \<Rightarrow> bool" where
  "isCleanDeveloperWorkflow priorTaint actionType =
     (if hasLabel priorTaint ''credential_access'' then False
      else slice_contains cleanDeveloperWorkflowActions actionType)"

fun compose_loop :: "PolicyVerdict list \<Rightarrow> string \<Rightarrow> string list \<Rightarrow> string \<times> string list" where
  "compose_loop [] verdict providerRules = (verdict, providerRules)"
| "compose_loop (pv # pvs) verdict providerRules =
     (if \<not> PV_IsAdvisory pv then compose_loop pvs verdict providerRules
      else if (PV_Verdict pv = VerdictAsk \<or> PV_Verdict pv = VerdictDeny) \<and> verdict = VerdictAllow
      then compose_loop pvs VerdictAsk
             (providerRules @
               [''policy:'' @ PV_Provider pv
                @ (if PV_RulesMatched pv \<noteq> [] then '':'' @ strings_Join (PV_RulesMatched pv) '','' else [])])
      else compose_loop pvs verdict providerRules)"

definition composePolicyVerdicts ::
  "PolicyVerdict list \<Rightarrow> string \<Rightarrow> string list \<Rightarrow> string \<Rightarrow> string \<times> string list" where
  "composePolicyVerdicts verdicts base priorTaint actionType =
     (if base = VerdictAllow \<and> isCleanDeveloperWorkflow priorTaint actionType then (base, [])
      else compose_loop verdicts base [])"

definition computeNewTaint :: "AttributedAction \<Rightarrow> string list" where
  "computeNewTaint action =
     (if AA_Sensitivity action = ''credential'' then [''credential_access''] else [])"

definition actionID :: "string \<Rightarrow> string" where
  "actionID caseID = ''act-'' @ take 8 (hex_EncodeToString (sha256_Sum256 caseID))"

definition resolveDecisionClass :: "string \<Rightarrow> string \<Rightarrow> string" where
  "resolveDecisionClass verdict enforceabilityClass =
     (if verdict = VerdictDeny then DecisionClassDenyNow
      else if verdict = VerdictAsk then
        (if enforceabilityClass = ClassEnforces then DecisionClassBlockAndWait
         else DecisionClassRecordPostHoc)
      else DecisionClassProceedAndReconcile)"

definition applyLowConfidenceEscalation ::
  "string \<Rightarrow> string list \<Rightarrow> string \<Rightarrow> string \<Rightarrow> string \<times> string list" where
  "applyLowConfidenceEscalation verdict rules attribution sensitivity =
     (if attribution \<noteq> ConfLow \<and> attribution \<noteq> ConfUnknown then (verdict, rules)
      else if (sensitivity = ''credential'' \<or> sensitivity = ''high'' \<or> sensitivity = ''critical'')
              \<and> verdict = VerdictAllow
      then (VerdictAsk, rules @ [''low-confidence-escalation''])
      else (verdict, rules))"

text \<open>The labels that \<open>Evaluate\<close> accumulates, in its order.\<close>

definition evaluate_labels :: "EvaluationInput \<Rightarrow> string list" where
  "evaluate_labels inp =
    (let normalized = NormalizeSignals (In_Signals inp);
         l0 = Labelize (PrimaryActionType normalized) (PrimarySensitivity normalized) normalized;
         l1 = (if In_ResolvedActorKind inp = ''ai_coding_agent''
               then appendUnique l0 ''ai_agent_actor'' else l0);
         l2 = ApplyDangerousShellLabel l1 normalized;
         l3 = ApplyCICDLabel l2 normalized;
         l4 = ApplyGitHookTamperLabel l3 normalized
     in ApplySIRTamperLabel l4 normalized)"

definition evaluate_action :: "EvaluationInput \<Rightarrow> AttributedAction" where
  "evaluate_action inp =
    (let normalized = NormalizeSignals (In_Signals inp) in
     \<lparr>AA_ActionID = actionID (In_CaseID inp), AA_Mode = In_Mode inp, AA_Signals = normalized,
      AA_Enforceability =
        AnalyzeEnforceability
          \<lparr>EI_Mode = In_Mode inp, EI_Signals = normalized,
           EI_ProviderCapabilities = In_ProviderCapabilities inp,
           EI_ProviderEnforcement = In_ProviderEnforcement inp,
           EI_EnforcedActions = In_ProviderEnforcedActions inp,
           EI_EvasionFlags = In_Evasion inp\<rparr>,
      AA_Attribution = AttributionConfidence normalized,
      AA_ActionType = PrimaryActionType normalized,
      AA_Sensitivity = PrimarySensitivity normalized,
      AA_Labels = evaluate_labels inp, AA_EvasionFlags = In_Evasion inp\<rparr>)"

definition Evaluate :: "EvaluationInput \<Rightarrow> EvaluationOutput" where
  "Evaluate inp =
    (let normalized = NormalizeSignals (In_Signals inp);
         action = evaluate_action inp;
         policy = EvaluatePolicy action (In_PriorTaint inp);
         prevVerdict = Res_Verdict policy;
         (verdict1, rules1) = applyLowConfidenceEscalation prevVerdict (Res_Rules policy)
                                (AA_Attribution action) (AA_Sensitivity action);
         (verdict2, providerRules) = composePolicyVerdicts (In_PolicyVerdicts inp) verdict1
                                       (In_PriorTaint inp) (AA_ActionType action);
         effects = (if prevVerdict = VerdictAllow \<and> verdict2 = VerdictAsk
                    then effect ''prompt'' False False # Res_Effects policy
                    else Res_Effects policy)
     in \<lparr>Out_Verdict = verdict2,
         Out_DecisionClass = resolveDecisionClass verdict2 (ER_Class (AA_Enforceability action)),
         Out_Enforceability = ER_Class (AA_Enforceability action),
         Out_Attribution = AA_Attribution action,
         Out_SpoofingRisk = ComputeSpoofingRisk (In_Evasion inp) normalized,
         Out_PolicyRules = rules1 @ providerRules,
         Out_Effects = effects,
         Out_ActionType = AA_ActionType action,
         Out_Sensitivity = AA_Sensitivity action,
         Out_NewTaint = computeNewTaint action,
         Out_ProviderRules = providerRules\<rparr>)"

subsection \<open>Provider evidence (\<open>provider_evidence.go\<close>)\<close>

record ProviderPolicyEvidence =
  PPE_Provider :: string
  PPE_Verdict :: string
  PPE_RulesMatched :: "string list"
  PPE_Reason :: string
  PPE_Used :: bool
  PPE_DecidedBy :: string
  PPE_NativeFloorsBypassed :: bool
  PPE_NativeBaseVerdict :: string
  PPE_FailClosed :: bool
  PPE_FailureReason :: string

definition has_policy_tag :: "string \<Rightarrow> bool" where
  "has_policy_tag rule \<longleftrightarrow> length rule \<ge> length ''policy:'' \<and> take (length ''policy:'') rule = ''policy:''"

fun NativePolicyRules :: "string list \<Rightarrow> string list" where
  "NativePolicyRules [] = []"
| "NativePolicyRules (rule # rules) =
     (if has_policy_tag rule then NativePolicyRules rules else rule # NativePolicyRules rules)"

definition providerVerdictWasUsed :: "PolicyVerdict \<Rightarrow> string \<Rightarrow> string \<Rightarrow> bool" where
  "providerVerdictWasUsed v finalVerdict baseVerdict =
     (if \<not> PV_IsAdvisory v then False
      else if baseVerdict \<noteq> VerdictAllow \<or> finalVerdict \<noteq> VerdictAsk then False
      else PV_Verdict v = VerdictAsk \<or> PV_Verdict v = VerdictDeny)"

definition BuildProviderPolicyEvidence ::
  "PolicyVerdict list \<Rightarrow> string \<Rightarrow> string \<Rightarrow> ProviderPolicyEvidence list" where
  "BuildProviderPolicyEvidence verdicts finalVerdict baseVerdict =
     map (\<lambda>v. \<lparr>PPE_Provider = PV_Provider v, PPE_Verdict = PV_Verdict v,
                PPE_RulesMatched = PV_RulesMatched v, PPE_Reason = PV_Reason v,
                PPE_Used = providerVerdictWasUsed v finalVerdict baseVerdict,
                PPE_DecidedBy = [], PPE_NativeFloorsBypassed = False, PPE_NativeBaseVerdict = [],
                PPE_FailClosed = False, PPE_FailureReason = []\<rparr>) verdicts"

definition DeveloperWorkflowFloorEvidence ::
  "string list \<Rightarrow> string \<Rightarrow> PolicyVerdict list \<Rightarrow> string \<Rightarrow> string \<Rightarrow> string" where
  "DeveloperWorkflowFloorEvidence priorTaint actionType verdicts baseVerdict finalVerdict =
     (if verdicts = [] then []
      else if baseVerdict = VerdictAllow \<and> finalVerdict = VerdictAllow
              \<and> isCleanDeveloperWorkflow priorTaint actionType
      then ''clean '' @ actionType @ '' protected from advisory escalation''
      else if baseVerdict = VerdictDeny then ''not applicable; native SIR deny already applies''
      else ''not applicable'')"

subsection \<open>Lemmas on rules and labels\<close>

lemma hasLabel_iff [simp]: "hasLabel labels l \<longleftrightarrow> l \<in> set labels"
  by (simp add: hasLabel_def)

lemma set_appendUnique [simp]: "set (appendUnique xs y) = insert y (set xs)"
  by (simp add: appendUnique_def)

lemma set_ApplyDangerousShellLabel:
  "set (ApplyDangerousShellLabel labels sigs) =
     set labels \<union> (if list_ex (target_matches (\<lambda>display.
        list_ex (strings_Contains (strings_ToLower display)) dangerous_patterns)) sigs
      then {''dangerous_shell''} else {})"
  by (induction sigs) auto

lemma set_ApplyCICDLabel:
  "set (ApplyCICDLabel labels sigs) =
     set labels \<union> (if list_ex (target_matches (\<lambda>display.
        list_ex (strings_Contains display) cicd_paths)) sigs then {''cicd_edit''} else {})"
  by (induction sigs) auto

lemma set_ApplyGitHookTamperLabel:
  "set (ApplyGitHookTamperLabel labels sigs) =
     set labels \<union> (if list_ex (target_matches (\<lambda>display.
        strings_Contains display ''.git/hooks/'')) sigs then {''git_hook_tamper''} else {})"
  by (induction sigs) auto

lemma set_ApplySIRTamperLabel:
  "set (ApplySIRTamperLabel labels sigs) =
     set labels \<union> (if list_ex (target_matches (\<lambda>display.
        list_ex (strings_Contains display) sir_paths)) sigs then {''sir_config_tamper''} else {})"
  by (induction sigs) auto

lemmas label_sets =
  Labelize_set set_ApplyDangerousShellLabel set_ApplyCICDLabel set_ApplyGitHookTamperLabel
  set_ApplySIRTamperLabel

text \<open>Verdict of the rule loop: a matching deny wins, then a matching ask, then the start.\<close>

lemma policy_loop_verdict:
  "Res_Verdict (policy_loop rules action result) =
     (if (\<exists>r \<in> set rules. Rule_match r action \<and> Rule_verdict r = VerdictDeny)
         \<or> Res_Verdict result = VerdictDeny then VerdictDeny
      else if \<exists>r \<in> set rules. Rule_match r action \<and> Rule_verdict r = VerdictAsk then VerdictAsk
      else Res_Verdict result)"
proof (induction rules arbitrary: result)
  case Nil
  then show ?case by simp
next
  case (Cons r rs)
  consider "\<not> Rule_match r action" | "Rule_match r action" "Rule_verdict r = VerdictDeny"
    | "Rule_match r action" "Rule_verdict r = VerdictAsk"
    | "Rule_match r action" "Rule_verdict r \<noteq> VerdictDeny" "Rule_verdict r \<noteq> VerdictAsk"
    by blast
  then show ?case
    by cases (simp_all add: Let_def Cons.IH cong: if_cong)
qed

text \<open>What the planned effects of a verdict must contain.\<close>

definition effects_agree :: "string \<Rightarrow> PlannedEffect list \<Rightarrow> bool" where
  "effects_agree verdict effects \<longleftrightarrow>
     effect sdk_EffectRecord True False \<in> set effects
     \<and> (verdict = VerdictDeny \<longrightarrow> effect sdk_EffectBlock True True \<in> set effects)
     \<and> (verdict = VerdictAsk \<longrightarrow> effect sdk_EffectPrompt False False \<in> set effects)
     \<and> ((\<exists>e \<in> set effects. PE_Type e = sdk_EffectBlock) \<longrightarrow> verdict = VerdictDeny)"

lemma effects_agree_intros [simp]:
  "effects_agree VerdictDeny deny_effects"
  "effects_agree VerdictAsk ask_effects"
  "effects_agree VerdictAllow [effect sdk_EffectRecord True False]"
  by (simp_all add: effects_agree_def deny_effects_def ask_effects_def sdk_effect_defs)

lemma policy_loop_effects:
  "(\<And>r. r \<in> set rules \<Longrightarrow> Rule_verdict r \<in> {VerdictDeny, VerdictAsk}
        \<and> effects_agree (Rule_verdict r) (Rule_effects r)) \<Longrightarrow>
   Res_Verdict result \<noteq> VerdictDeny \<Longrightarrow> effects_agree (Res_Verdict result) (Res_Effects result) \<Longrightarrow>
   effects_agree (Res_Verdict (policy_loop rules action result))
     (Res_Effects (policy_loop rules action result))"
proof (induction rules arbitrary: result)
  case Nil
  then show ?case by simp
next
  case (Cons r rs)
  have "effects_agree (Rule_verdict r) (Rule_effects r)" "Rule_verdict r \<in> {VerdictDeny, VerdictAsk}"
    using Cons.prems(1) [of r] by simp_all
  moreover have "effects_agree (Res_Verdict (policy_loop rs action res))
     (Res_Effects (policy_loop rs action res))"
    if "Res_Verdict res \<noteq> VerdictDeny" "effects_agree (Res_Verdict res) (Res_Effects res)" for res
    using Cons.IH [OF _ that] Cons.prems(1) by simp
  ultimately show ?case
    using Cons.prems(2,3) by (auto simp: Let_def)
qed

lemma initialPolicies_effects:
  "r \<in> set initialPolicies \<Longrightarrow>
   Rule_verdict r \<in> {VerdictDeny, VerdictAsk} \<and> effects_agree (Rule_verdict r) (Rule_effects r)"
  unfolding initialPolicies_def by auto

lemma EvaluatePolicy_effects:
  "effects_agree (Res_Verdict (EvaluatePolicy action taint)) (Res_Effects (EvaluatePolicy action taint))"
proof -
  let ?start = "\<lparr>Res_Verdict = VerdictAllow, Res_Rules = [],
                 Res_Effects = [effect sdk_EffectRecord True False]\<rparr>"
  have "effects_agree (Res_Verdict (policy_loop initialPolicies action ?start))
     (Res_Effects (policy_loop initialPolicies action ?start))"
    by (rule policy_loop_effects) (use initialPolicies_effects in simp_all)
  moreover have "effects_agree VerdictDeny [effect sdk_EffectBlock True True, effect sdk_EffectRecord True False]"
    using effects_agree_intros(1) by (simp only: deny_effects_def)
  ultimately show ?thesis
    by (cases "''credential_access'' \<in> set taint \<and> ''external_egress'' \<in> set (AA_Labels action)")
       (simp_all only: EvaluatePolicy_def Let_def hasLabel_iff if_True if_False simp_thms PolicyResult.select_convs)
qed

lemma initialPolicies_deny:
  "(\<exists>r \<in> set initialPolicies. Rule_match r action \<and> Rule_verdict r = VerdictDeny) \<longleftrightarrow>
     ''ai_agent_actor'' \<in> set (AA_Labels action) \<and> ''credential_access'' \<in> set (AA_Labels action)
     \<or> ''credential_access'' \<in> set (AA_Labels action) \<and> ''external_egress'' \<in> set (AA_Labels action)
     \<or> ''sir_config_tamper'' \<in> set (AA_Labels action)"
  by (simp add: initialPolicies_def)

lemma initialPolicies_ask:
  "(\<exists>r \<in> set initialPolicies. Rule_match r action \<and> Rule_verdict r = VerdictAsk) \<longleftrightarrow>
     ''external_egress'' \<in> set (AA_Labels action)
     \<or> ''shell_execution'' \<in> set (AA_Labels action) \<and> ''dangerous_shell'' \<in> set (AA_Labels action)
     \<or> (AA_ActionType action = ''mcp_trust'' \<or> ''new_mcp_server'' \<in> set (AA_Labels action))
     \<or> ''cicd_edit'' \<in> set (AA_Labels action) \<or> ''git_hook_tamper'' \<in> set (AA_Labels action)"
  by (simp add: initialPolicies_def)

lemma EvaluatePolicy_verdict:
  "Res_Verdict (EvaluatePolicy action taint) =
    (if ''credential_access'' \<in> set taint \<and> ''external_egress'' \<in> set (AA_Labels action)
        \<or> (\<exists>r \<in> set initialPolicies. Rule_match r action \<and> Rule_verdict r = VerdictDeny)
     then VerdictDeny
     else if \<exists>r \<in> set initialPolicies. Rule_match r action \<and> Rule_verdict r = VerdictAsk
     then VerdictAsk
     else VerdictAllow)"
proof (cases "''credential_access'' \<in> set taint \<and> ''external_egress'' \<in> set (AA_Labels action)")
  case True
  then show ?thesis by (simp add: EvaluatePolicy_def Let_def)
next
  case False
  then show ?thesis
    by (simp only: EvaluatePolicy_def Let_def hasLabel_iff if_False simp_thms policy_loop_verdict
        PolicyResult.select_convs verdict_distinct)
qed

subsection \<open>Layers that only tighten\<close>

lemma compose_loop_verdict:
  "fst (compose_loop pvs verdict rules) =
     (if verdict = VerdictAllow
         \<and> (\<exists>pv \<in> set pvs. PV_IsAdvisory pv \<and> PV_Verdict pv \<in> {VerdictAsk, VerdictDeny})
      then VerdictAsk else verdict)"
  by (induction pvs verdict rules rule: compose_loop.induct) auto

lemma compose_loop_rules_kept:
  "\<exists>new. snd (compose_loop pvs verdict rules) = rules @ new \<and> list_all has_policy_tag new"
proof (induction pvs verdict rules rule: compose_loop.induct)
  case (1 verdict rules)
  then show ?case by simp
next
  case (2 pv pvs verdict rules)
  then show ?case by (auto simp: has_policy_tag_def)
qed

lemma composePolicyVerdicts_verdict:
  "fst (composePolicyVerdicts pvs base taint actionType) =
     (if base = VerdictAllow \<and> \<not> isCleanDeveloperWorkflow taint actionType
         \<and> (\<exists>pv \<in> set pvs. PV_IsAdvisory pv \<and> PV_Verdict pv \<in> {VerdictAsk, VerdictDeny})
      then VerdictAsk else base)"
  by (simp add: composePolicyVerdicts_def compose_loop_verdict)

lemma composePolicyVerdicts_tags:
  "list_all has_policy_tag (snd (composePolicyVerdicts pvs base taint actionType))"
  using compose_loop_rules_kept [of pvs base "[]"] by (auto simp: composePolicyVerdicts_def)

lemma applyLowConfidence_verdict:
  "fst (applyLowConfidenceEscalation verdict rules attribution sensitivity) =
     (if verdict = VerdictAllow \<and> attribution \<in> {ConfLow, ConfUnknown}
         \<and> sensitivity \<in> {''credential'', ''high'', ''critical''}
      then VerdictAsk else verdict)"
  by (simp add: applyLowConfidenceEscalation_def)

interpretation compose: verdict_tightening
  "\<lambda>(pvs, taint, actionType) v. fst (composePolicyVerdicts pvs v taint actionType)"
  by unfold_locales (auto simp: composePolicyVerdicts_verdict)

interpretation low_confidence: verdict_tightening
  "\<lambda>(rules, attribution, sensitivity) v.
     fst (applyLowConfidenceEscalation v rules attribution sensitivity)"
  by unfold_locales (auto simp: applyLowConfidence_verdict)

interpretation advisory_risk: verdict_tightening
  "\<lambda>(result, advisory) v. Res_Verdict (ApplyAdvisoryRisk (result\<lparr>Res_Verdict := v\<rparr>) advisory)"
  by unfold_locales (auto simp: ApplyAdvisoryRisk_def split: option.split)

text \<open>The verdict of \<open>Evaluate\<close>, layer by layer.\<close>

definition native_verdict :: "EvaluationInput \<Rightarrow> string" where
  "native_verdict inp =
     Res_Verdict (EvaluatePolicy (evaluate_action inp) (In_PriorTaint inp))"

lemma Evaluate_verdict:
  "Out_Verdict (Evaluate inp) =
     fst (composePolicyVerdicts (In_PolicyVerdicts inp)
       (fst (applyLowConfidenceEscalation (native_verdict inp) []
          (AA_Attribution (evaluate_action inp)) (AA_Sensitivity (evaluate_action inp))))
       (In_PriorTaint inp) (AA_ActionType (evaluate_action inp)))"
  by (simp add: Evaluate_def native_verdict_def Let_def split_beta applyLowConfidence_verdict)

lemma Evaluate_tightens_native: "verdict_rank (native_verdict inp) \<le> verdict_rank (Out_Verdict (Evaluate inp))"
proof -
  let ?a = "evaluate_action inp"
  let ?v = "fst (applyLowConfidenceEscalation (native_verdict inp) [] (AA_Attribution ?a) (AA_Sensitivity ?a))"
  have "verdict_rank (native_verdict inp) \<le> verdict_rank ?v"
    using low_confidence.tightens [of _ "([], AA_Attribution ?a, AA_Sensitivity ?a)"] by simp
  also have "\<dots> \<le> verdict_rank (Out_Verdict (Evaluate inp))"
    using compose.tightens [of ?v "(In_PolicyVerdicts inp, In_PriorTaint inp, AA_ActionType ?a)"]
    by (simp add: Evaluate_verdict)
  finally show ?thesis .
qed

subsection \<open>Properties\<close>

text \<open>What an input says about the action, read off the normalised signals.\<close>

definition agent_acts :: "EvaluationInput \<Rightarrow> bool" where
  "agent_acts inp \<longleftrightarrow>
     In_ResolvedActorKind inp = ''ai_coding_agent''
     \<or> list_ex claims_agent (NormalizeSignals (In_Signals inp))"

definition target_contains :: "EvaluationInput \<Rightarrow> (string \<Rightarrow> bool) \<Rightarrow> bool" where
  "target_contains inp p \<longleftrightarrow> list_ex (target_matches p) (NormalizeSignals (In_Signals inp))"

definition sensitivity_of :: "EvaluationInput \<Rightarrow> string" where
  "sensitivity_of inp = PrimarySensitivity (NormalizeSignals (In_Signals inp))"

definition action_type_of :: "EvaluationInput \<Rightarrow> string" where
  "action_type_of inp = PrimaryActionType (NormalizeSignals (In_Signals inp))"

definition must_deny :: "EvaluationInput \<Rightarrow> bool" where
  "must_deny inp \<longleftrightarrow>
     sensitivity_of inp = ''external_network'' \<and> ''credential_access'' \<in> set (In_PriorTaint inp)
     \<or> sensitivity_of inp = ''credential'' \<and> agent_acts inp
     \<or> target_contains inp (\<lambda>d. list_ex (strings_Contains d) sir_paths)"

definition must_ask :: "EvaluationInput \<Rightarrow> bool" where
  "must_ask inp \<longleftrightarrow>
     sensitivity_of inp = ''external_network''
     \<or> strings_Contains (action_type_of inp) ''shell_exec''
       \<and> target_contains inp (\<lambda>d. list_ex (strings_Contains (strings_ToLower d)) dangerous_patterns)
     \<or> action_type_of inp = ''mcp_trust''
     \<or> target_contains inp (\<lambda>d. list_ex (strings_Contains d) cicd_paths)
     \<or> target_contains inp (\<lambda>d. strings_Contains d ''.git/hooks/'')"

definition weakly_attributed :: "EvaluationInput \<Rightarrow> bool" where
  "weakly_attributed inp \<longleftrightarrow>
     sensitivity_of inp \<in> {''credential'', ''high'', ''critical''}
     \<and> AttributionConfidence (NormalizeSignals (In_Signals inp)) \<in> {ConfLow, ConfUnknown}"

definition advised_against :: "EvaluationInput \<Rightarrow> bool" where
  "advised_against inp \<longleftrightarrow>
     (\<exists>pv \<in> set (In_PolicyVerdicts inp). PV_IsAdvisory pv \<and> PV_Verdict pv \<in> {VerdictAsk, VerdictDeny})
     \<and> \<not> isCleanDeveloperWorkflow (In_PriorTaint inp) (action_type_of inp)"

lemma evaluate_action_simps [simp]:
  "AA_Labels (evaluate_action inp) = evaluate_labels inp"
  "AA_ActionType (evaluate_action inp) = action_type_of inp"
  "AA_Sensitivity (evaluate_action inp) = sensitivity_of inp"
  "AA_Attribution (evaluate_action inp) = AttributionConfidence (NormalizeSignals (In_Signals inp))"
  by (simp_all add: evaluate_action_def Let_def action_type_of_def sensitivity_of_def)

lemma evaluate_labels_set:
  "set (evaluate_labels inp) =
     (if sensitivity_of inp = ''credential'' then {''credential_access''} else {})
     \<union> (if sensitivity_of inp = ''external_network'' then {''external_egress''} else {})
     \<union> (if strings_Contains (action_type_of inp) ''shell_exec'' then {''shell_execution''} else {})
     \<union> (if strings_Contains (action_type_of inp) ''file_write'' then {''file_mutation''} else {})
     \<union> (if agent_acts inp then {''ai_agent_actor''} else {})
     \<union> (if target_contains inp
             (\<lambda>d. list_ex (strings_Contains (strings_ToLower d)) dangerous_patterns)
          then {''dangerous_shell''} else {})
     \<union> (if target_contains inp (\<lambda>d. list_ex (strings_Contains d) cicd_paths)
          then {''cicd_edit''} else {})
     \<union> (if target_contains inp (\<lambda>d. strings_Contains d ''.git/hooks/'')
          then {''git_hook_tamper''} else {})
     \<union> (if target_contains inp (\<lambda>d. list_ex (strings_Contains d) sir_paths)
          then {''sir_config_tamper''} else {})"
  unfolding evaluate_labels_def Let_def label_sets target_contains_def sensitivity_of_def
    action_type_of_def agent_acts_def
  by (cases "In_ResolvedActorKind inp = ''ai_coding_agent''")
     (simp_all only: if_True if_False simp_thms set_appendUnique Labelize_set, auto)

lemma native_deny_iff:
  "''credential_access'' \<in> set (In_PriorTaint inp) \<and> ''external_egress'' \<in> set (evaluate_labels inp)
     \<or> (\<exists>r \<in> set initialPolicies. Rule_match r (evaluate_action inp) \<and> Rule_verdict r = VerdictDeny)
   \<longleftrightarrow> must_deny inp"
  unfolding initialPolicies_deny evaluate_action_simps must_deny_def
  by (simp add: evaluate_labels_set)

lemma native_ask_iff:
  "(\<exists>r \<in> set initialPolicies. Rule_match r (evaluate_action inp) \<and> Rule_verdict r = VerdictAsk)
   \<longleftrightarrow> must_ask inp"
  unfolding initialPolicies_ask evaluate_action_simps must_ask_def
  by (simp add: evaluate_labels_set)

lemma native_verdict_eq:
  "native_verdict inp =
     (if must_deny inp then VerdictDeny else if must_ask inp then VerdictAsk else VerdictAllow)"
  unfolding native_verdict_def EvaluatePolicy_verdict evaluate_action_simps native_deny_iff
    native_ask_iff ..

lemma Evaluate_verdict_eq:
  "Out_Verdict (Evaluate inp) =
     (if must_deny inp then VerdictDeny
      else if must_ask inp \<or> weakly_attributed inp \<or> advised_against inp then VerdictAsk
      else VerdictAllow)"
  by (auto simp: Evaluate_verdict native_verdict_eq composePolicyVerdicts_verdict
      applyLowConfidence_verdict weakly_attributed_def advised_against_def)

text \<open>C1: the kernel's verdict, in full. An action is denied exactly when it is egress
  from a session tainted by a credential read, a credential access by an agent, or a
  change to sir's own configuration; otherwise it is asked about when it is external
  egress, a dangerous shell command, a new MCP server, a CI file or a git hook, when it is
  sensitive and weakly attributed, or when an advisory provider objects and the
  developer-workflow floor does not protect it; otherwise it is allowed.\<close>

theorem evaluate_verdict_spec:
  "Out_Verdict (Evaluate inp) =
     (if must_deny inp then VerdictDeny
      else if must_ask inp \<or> weakly_attributed inp \<or> advised_against inp then VerdictAsk
      else VerdictAllow)"
  by (rule Evaluate_verdict_eq)

text \<open>C2: secret-to-egress across actions. Once the session's prior taint records a
  credential access, an external-network action is denied immediately with a fail-closed
  block, whatever the mode, the attribution, the actor, the evasion flags and the
  advisory verdicts, and the only native rule recorded is the secret-to-egress rule.\<close>

theorem tainted_egress_always_denied:
  assumes "''credential_access'' \<in> set (In_PriorTaint inp)"
    and "PrimarySensitivity (NormalizeSignals (In_Signals inp)) = ''external_network''"
  shows "Out_Verdict (Evaluate inp) = VerdictDeny
    \<and> Out_DecisionClass (Evaluate inp) = DecisionClassDenyNow
    \<and> Out_PolicyRules (Evaluate inp) = [''deny-secret-to-egress'']
    \<and> Out_Effects (Evaluate inp) = [effect ''block'' True True, effect ''record'' True False]
    \<and> Out_ProviderRules (Evaluate inp) = []"
proof -
  have egress: "''external_egress'' \<in> set (evaluate_labels inp)"
    using assms(2) by (simp add: evaluate_labels_set sensitivity_of_def)
  have none: "compose_loop pvs VerdictDeny rules = (VerdictDeny, rules)" for pvs rules
    by (induction pvs) simp_all
  show ?thesis
    using assms(1) egress
    by (simp add: Evaluate_def EvaluatePolicy_def Let_def applyLowConfidenceEscalation_def
        composePolicyVerdicts_def none resolveDecisionClass_def sdk_effect_defs)
qed

definition egress_input :: EvaluationInput where
  "egress_input =
     \<lparr>In_CaseID = ''c'', In_Mode = ModeObserve,
      In_Signals = [hook_signal\<lparr>Signal_ActionClaim :=
        [(''target'', JObject [(''sensitivity'', JString ''external_network'')])]\<rparr>],
      In_Evasion = quiet_flags, In_PriorTaint = [''credential_access''],
      In_ProviderCapabilities = [], In_ResolvedActorKind = [],
      In_PolicyVerdicts = [\<lparr>PV_Provider = ''opa'', PV_Verdict = VerdictAllow, PV_RulesMatched = [],
                            PV_Reason = [], PV_IsAdvisory = True\<rparr>],
      In_ProviderEnforcement = [], In_ProviderEnforcedActions = []\<rparr>"

theorem tainted_egress_always_denied_witness:
  "Out_Verdict (Evaluate egress_input) = VerdictDeny
   \<and> Out_PolicyRules (Evaluate egress_input) = [''deny-secret-to-egress'']"
proof -
  have "''credential_access'' \<in> set (In_PriorTaint egress_input)"
    by (simp add: egress_input_def)
  moreover have "PrimarySensitivity (NormalizeSignals (In_Signals egress_input)) = ''external_network''"
    by (simp add: egress_input_def hook_signal_def PrimarySensitivity_def sensitivity_loop_step
        claimed_sensitivity_def get_object_def get_string0_def get_string_def sensitivity_order_def)
  ultimately show ?thesis
    using tainted_egress_always_denied [of egress_input] by simp
qed

text \<open>Advisory providers can only tighten. Compared with the same input without
  provider verdicts, the verdict is at least as strict, it is a denial in exactly the same
  cases (so a provider can neither lift nor impose one), nothing else about the decision
  but the class, the extra provider rules and a prompt changes, and on a clean
  developer-workflow action that would be allowed the provider has no influence at all.\<close>

theorem advisory_only_tightens:
  "let base = Evaluate (inp\<lparr>In_PolicyVerdicts := []\<rparr>); out = Evaluate inp in
     verdict_rank (Out_Verdict base) \<le> verdict_rank (Out_Verdict out)
     \<and> (Out_Verdict out = VerdictDeny \<longleftrightarrow> Out_Verdict base = VerdictDeny)
     \<and> Out_Enforceability out = Out_Enforceability base
     \<and> Out_Attribution out = Out_Attribution base
     \<and> Out_NewTaint out = Out_NewTaint base
     \<and> Out_PolicyRules out = Out_PolicyRules base @ Out_ProviderRules out
     \<and> list_all has_policy_tag (Out_ProviderRules out)
     \<and> \<not> (isCleanDeveloperWorkflow (In_PriorTaint inp) (Out_ActionType out)
          \<and> Out_Verdict base = VerdictAllow \<and> out \<noteq> base)"
proof -
  let ?i = "inp\<lparr>In_PolicyVerdicts := []\<rparr>"
  have act: "evaluate_action ?i = evaluate_action inp"
    by (simp add: evaluate_action_def evaluate_labels_def)
  have empty: "composePolicyVerdicts [] v t a = (v, [])" for v t a
    by (simp add: composePolicyVerdicts_def)
  have floor: "composePolicyVerdicts pvs VerdictAllow t a = (VerdictAllow, [])"
    if "isCleanDeveloperWorkflow t a" for pvs t a
    using that by (simp add: composePolicyVerdicts_def)
  let ?lv = "fst (applyLowConfidenceEscalation (native_verdict inp) []
          (AA_Attribution (evaluate_action inp)) (AA_Sensitivity (evaluate_action inp)))"
  have base: "Out_Verdict (Evaluate ?i) = ?lv"
    using act by (simp add: Evaluate_verdict native_verdict_def empty)
  have out: "Out_Verdict (Evaluate inp) = fst (composePolicyVerdicts (In_PolicyVerdicts inp) ?lv
               (In_PriorTaint inp) (AA_ActionType (evaluate_action inp)))"
    by (rule Evaluate_verdict)
  have "verdict_rank (Out_Verdict (Evaluate ?i)) \<le> verdict_rank (Out_Verdict (Evaluate inp))"
    unfolding base out composePolicyVerdicts_verdict by simp
  moreover have "Out_Verdict (Evaluate inp) = VerdictDeny \<longleftrightarrow> Out_Verdict (Evaluate ?i) = VerdictDeny"
    unfolding base out composePolicyVerdicts_verdict by simp
  moreover have "Evaluate inp = Evaluate ?i"
    if "isCleanDeveloperWorkflow (In_PriorTaint inp) (Out_ActionType (Evaluate inp))"
       "Out_Verdict (Evaluate ?i) = VerdictAllow"
    using that act
    by (simp add: Evaluate_def Let_def split_beta empty floor)
  ultimately show ?thesis
    using act composePolicyVerdicts_tags
    by (auto simp: Evaluate_def Let_def split_beta empty)
qed

lemma Evaluate_effects: "effects_agree (Out_Verdict (Evaluate inp)) (Out_Effects (Evaluate inp))"
proof -
  let ?p = "EvaluatePolicy (evaluate_action inp) (In_PriorTaint inp)"
  have agree: "effects_agree (native_verdict inp) (Res_Effects ?p)"
    unfolding native_verdict_def by (rule EvaluatePolicy_effects)
  have verdict: "Out_Verdict (Evaluate inp) = native_verdict inp
     \<or> native_verdict inp = VerdictAllow \<and> Out_Verdict (Evaluate inp) = VerdictAsk"
    by (simp add: Evaluate_verdict composePolicyVerdicts_verdict applyLowConfidence_verdict)
  have effects: "Out_Effects (Evaluate inp) =
     (if native_verdict inp = VerdictAllow \<and> Out_Verdict (Evaluate inp) = VerdictAsk
      then effect ''prompt'' False False # Res_Effects ?p else Res_Effects ?p)"
    by (simp add: Evaluate_def native_verdict_def Let_def split_beta)
  show ?thesis
    using verdict agree by (auto simp: effects effects_agree_def sdk_effect_defs)
qed

text \<open>The planned effects agree with the verdict. Every decision plans a required
  record; a denial plans a required, fail-closed block; a question plans a prompt; and
  only a denial plans a block. The decision class is deny-now exactly for denials, and
  block-and-wait exactly for questions the mode can enforce.\<close>

theorem evaluate_effects_agree:
  "effects_agree (Out_Verdict (Evaluate inp)) (Out_Effects (Evaluate inp))
   \<and> (Out_DecisionClass (Evaluate inp) = DecisionClassDenyNow
        \<longleftrightarrow> Out_Verdict (Evaluate inp) = VerdictDeny)
   \<and> (Out_DecisionClass (Evaluate inp) = DecisionClassBlockAndWait
        \<longleftrightarrow> Out_Verdict (Evaluate inp) = VerdictAsk \<and> Out_Enforceability (Evaluate inp) = ClassEnforces)"
proof -
  have "Out_DecisionClass (Evaluate inp)
     = resolveDecisionClass (Out_Verdict (Evaluate inp)) (Out_Enforceability (Evaluate inp))"
    by (simp add: Evaluate_def Let_def split_beta)
  with Evaluate_effects [of inp] show ?thesis
    by (simp add: resolveDecisionClass_def decision_class_defs)
qed

end
