(* ===== verification/Go_Time.thy ===== *)
theory Go_Time
  imports Sir_Prelude
begin

text \<open>
  Decimal printing (\<open>strconv.Itoa\<close>, the verb \<open>%d\<close>) and the UTC timestamp layout
  \<open>time.RFC3339\<close>. Instants count nanoseconds from Go's zero time, 1 January of year 1, so
  the calendar date is computed by the usual era arithmetic on days shifted to a year
  that starts in March.
\<close>

subsection \<open>Decimal numbers\<close>

definition digit_char :: "nat \<Rightarrow> char" where
  "digit_char n = char_of (48 + n mod 10)"

fun nat_to_string :: "nat \<Rightarrow> string" where
  "nat_to_string n =
     (if n < 10 then [digit_char n] else nat_to_string (n div 10) @ [digit_char n])"

declare nat_to_string.simps [simp del]

definition strconv_Itoa :: "int \<Rightarrow> string" where
  "strconv_Itoa i = (if i < 0 then ''-'' @ nat_to_string (nat (- i)) else nat_to_string (nat i))"

text \<open>The last \<open>w\<close> decimal digits, zero padded.\<close>

fun pad_digits :: "nat \<Rightarrow> nat \<Rightarrow> string" where
  "pad_digits 0 n = []"
| "pad_digits (Suc w) n = pad_digits w (n div 10) @ [digit_char n]"

lemma length_pad_digits [simp]: "length (pad_digits w n) = w"
  by (induction w arbitrary: n) auto

lemma digit_char_inj [simp]: "digit_char m = digit_char n \<longleftrightarrow> m mod 10 = n mod 10"
proof
  assume "digit_char m = digit_char n"
  then have "(of_char (digit_char m) :: nat) = of_char (digit_char n)" by simp
  moreover have "(of_char (digit_char k) :: nat) = 48 + k mod 10" for k
  proof -
    have "48 + k mod 10 < 256" by (rule order_less_trans [of _ 58]) simp_all
    then show ?thesis unfolding digit_char_def by (simp only: of_char_of mod_less)
  qed
  ultimately show "m mod 10 = n mod 10" by simp
qed (simp add: digit_char_def)

lemma pad_digits_inj: "pad_digits w m = pad_digits w n \<longleftrightarrow> m mod 10 ^ w = n mod 10 ^ w"
proof (induction w arbitrary: m n)
  case 0
  then show ?case by simp
next
  case (Suc w)
  have split: "k mod 10 ^ Suc w = 10 * (k div 10 mod 10 ^ w) + k mod 10" for k :: nat
    by (simp add: mod_mult2_eq)
  show ?case
  proof
    assume "pad_digits (Suc w) m = pad_digits (Suc w) n"
    with Suc.IH show "m mod 10 ^ Suc w = n mod 10 ^ Suc w" unfolding split by simp
  next
    assume eq: "m mod 10 ^ Suc w = n mod 10 ^ Suc w"
    then have "m mod 10 ^ Suc w mod 10 = n mod 10 ^ Suc w mod 10" by simp
    then have "m mod 10 = n mod 10" by (simp add: mod_mod_cancel)
    moreover from this eq have "m div 10 mod 10 ^ w = n div 10 mod 10 ^ w" unfolding split by simp
    ultimately show "pad_digits (Suc w) m = pad_digits (Suc w) n" using Suc.IH by simp
  qed
qed

lemma nat_to_string_nonempty [simp]: "nat_to_string n \<noteq> []"
  by (subst nat_to_string.simps) simp

subsection \<open>The proleptic Gregorian calendar\<close>

record CivilDate =
  Civil_Year :: int
  Civil_Month :: int
  Civil_Day :: int

text \<open>\<open>days\<close> counts from 1 January of year 1, which is day 306 after 1 March of year 0.\<close>

definition civil_from_days :: "int \<Rightarrow> CivilDate" where
  "civil_from_days days =
    (let z = days + 306;
         era = z div 146097;
         doe = z mod 146097;
         yoe = (doe - doe div 1460 + doe div 36524 - doe div 146096) div 365;
         doy = doe - (365 * yoe + yoe div 4 - yoe div 100);
         mp = (5 * doy + 2) div 153;
         d = doy - (153 * mp + 2) div 5 + 1;
         m = (if mp < 10 then mp + 3 else mp - 9)
     in \<lparr>Civil_Year = yoe + era * 400 + (if m \<le> 2 then 1 else 0), Civil_Month = m, Civil_Day = d\<rparr>)"

text \<open>\<open>t.UTC().Format(time.RFC3339)\<close> for years 0 to 9999.\<close>

definition Format_RFC3339 :: "Time \<Rightarrow> string" where
  "Format_RFC3339 t =
    (let secs = t div Second;
         c = civil_from_days (secs div 86400);
         s = secs mod 86400
     in pad_digits 4 (nat (Civil_Year c)) @ ''-'' @ pad_digits 2 (nat (Civil_Month c)) @ ''-''
        @ pad_digits 2 (nat (Civil_Day c)) @ ''T'' @ pad_digits 2 (nat (s div 3600)) @ '':''
        @ pad_digits 2 (nat (s mod 3600 div 60)) @ '':'' @ pad_digits 2 (nat (s mod 60)) @ ''Z'')"

lemma length_Format_RFC3339 [simp]: "length (Format_RFC3339 t) = 20"
  by (simp add: Format_RFC3339_def Let_def)

end
