(* ===== verification/Kernel_State.thy ===== *)
theory Kernel_State
  imports Kernel_Policy Kernel_Redact Go_Time
begin

text \<open>
  Package \<open>pkg/kernel\<close>, the stateful orchestrator: session taint (\<open>taint.go\<close>), the bound
  on repeated questions (\<open>friction.go\<close>), and \<open>Process\<close> with the texts it produces
  (\<open>kernel.go\<close>). The two process-wide variables \<open>globalTaint\<close> and \<open>globalFriction\<close> are
  the fields of one state record that every operation takes and returns; each reading of
  the clock is an argument. A run is a sequence of \<open>Process\<close> calls.
\<close>

subsection \<open>Taint (\<open>taint.go\<close>)\<close>

record TaintEntry =
  TE_Scope :: string
  TE_ScopeKind :: string
  TE_TaintKind :: string
  TE_At :: string
  TE_Confidence :: string

record KernelState =
  KS_entries :: "TaintEntry list"
  KS_prompts :: "string \<Rightarrow> Time list"

definition initial_state :: KernelState where
  "initial_state = \<lparr>KS_entries = [], KS_prompts = (\<lambda>_. [])\<rparr>"

definition Taint :: "Time \<Rightarrow> string \<Rightarrow> string \<Rightarrow> string \<Rightarrow> string \<Rightarrow> KernelState \<Rightarrow> KernelState" where
  "Taint now scope scopeKind taintKind confidence st =
     st\<lparr>KS_entries := KS_entries st @
         [\<lparr>TE_Scope = scope, TE_ScopeKind = scopeKind, TE_TaintKind = taintKind,
           TE_At = Format_RFC3339 now, TE_Confidence = confidence\<rparr>]\<rparr>"

fun tainted_in :: "TaintEntry list \<Rightarrow> string \<Rightarrow> string \<Rightarrow> bool" where
  "tainted_in [] scope taintKind = False"
| "tainted_in (e # es) scope taintKind =
     (if TE_TaintKind e = taintKind \<and> (TE_Scope e = scope \<or> scope = []) then True
      else tainted_in es scope taintKind)"

definition IsTainted :: "KernelState \<Rightarrow> string \<Rightarrow> string \<Rightarrow> bool" where
  "IsTainted st scope taintKind = tainted_in (KS_entries st) scope taintKind"

fun TaintScopeFromSignals :: "Signal list \<Rightarrow> string \<times> string" where
  "TaintScopeFromSignals [] = (''global'', ''user_session'')"
| "TaintScopeFromSignals (s # ss) =
     (case Signal_Session s of
        None \<Rightarrow> TaintScopeFromSignals ss
      | Some sess \<Rightarrow>
          if Session_SpanID sess \<noteq> [] then (Session_SpanID sess, ''span'')
          else if Session_SessionID sess \<noteq> [] then (Session_SessionID sess, ''session'')
          else if Session_TraceID sess \<noteq> [] then (Session_TraceID sess, ''trace'')
          else TaintScopeFromSignals ss)"

definition ApplySessionTaint :: "Time \<Rightarrow> AttributedAction \<Rightarrow> KernelState \<Rightarrow> KernelState" where
  "ApplySessionTaint now action st =
     (if AA_Sensitivity action \<noteq> ''credential'' then st
      else case TaintScopeFromSignals (AA_Signals action) of
        (scope, scopeKind) \<Rightarrow> Taint now scope scopeKind ''credential_access'' (AA_Attribution action) st)"

definition SessionHasCredentialTaint :: "KernelState \<Rightarrow> Signal list \<Rightarrow> bool" where
  "SessionHasCredentialTaint st signals =
     (case TaintScopeFromSignals signals of (scope, _) \<Rightarrow> IsTainted st scope ''credential_access'')"

text \<open>The entries that \<open>PersistTaint\<close> writes to disk.\<close>

fun durable_entries :: "TaintEntry list \<Rightarrow> TaintEntry list" where
  "durable_entries [] = []"
| "durable_entries (e # es) =
     (if TE_Confidence e = ConfLow \<or> TE_Confidence e = ConfUnknown then durable_entries es
      else e # durable_entries es)"

subsection \<open>Friction (\<open>friction.go\<close>)\<close>

record FrictionPolicy =
  FP_MaxPromptsPerWindow :: int
  FP_Window :: Duration
  FP_EscalationVerdict :: string

definition defaultFrictionPolicy :: FrictionPolicy where
  "defaultFrictionPolicy =
     \<lparr>FP_MaxPromptsPerWindow = 3, FP_Window = 10 * Minute, FP_EscalationVerdict = VerdictDeny\<rparr>"

definition CheckFriction ::
  "Time \<Rightarrow> string \<Rightarrow> string \<Rightarrow> FrictionPolicy option \<Rightarrow> KernelState \<Rightarrow> string \<times> KernelState" where
  "CheckFriction now scope currentVerdict policy st =
     (if currentVerdict \<noteq> VerdictAsk then (currentVerdict, st)
      else
        let pol = (case policy of None \<Rightarrow> defaultFrictionPolicy | Some p \<Rightarrow> p);
            window = now - FP_Window pol;
            recent = filter (\<lambda>t. t > window) (KS_prompts st scope)
        in if int (length recent) \<ge> FP_MaxPromptsPerWindow pol then (FP_EscalationVerdict pol, st)
           else (currentVerdict, st\<lparr>KS_prompts := (KS_prompts st)(scope := recent @ [now])\<rparr>))"

definition DegradedModeVerdict :: "string \<Rightarrow> string \<Rightarrow> bool \<Rightarrow> string \<times> string" where
  "DegradedModeVerdict mode verdict providerAvailable =
     (if providerAvailable then (verdict, [])
      else if mode = ModeContained \<or> mode = ModeManaged
      then (VerdictDeny, ''required provider unavailable in '' @ mode @ '' mode (fail closed)'')
      else (verdict, ''degraded: provider unavailable; detection-only mode''))"

subsection \<open>Explanations (\<open>kernel.go\<close>)\<close>

definition verdictVerb :: "string \<Rightarrow> string" where
  "verdictVerb verdict =
     (if verdict = VerdictDeny then ''DENIED''
      else if verdict = VerdictAsk then ''ASKED about'' else ''ALLOWED'')"

definition enforcementGuarantee :: "string \<Rightarrow> string" where
  "enforcementGuarantee mode =
     (if mode = ModeObserve then ''records only''
      else if mode = ModeAdvise then ''explains only''
      else if mode = ModeHookGate then ''cooperative hooks only''
      else if mode = ModeOSObserved then ''post-hoc detection''
      else if mode = ModeMediated then ''pre-exec when span intact''
      else if mode = ModeContained then ''provider-backed enforcement''
      else if mode = ModeManaged then ''signed policy + provider health''
      else ''unknown'')"

definition buildExplanation ::
  "AttributedAction \<Rightarrow> string \<Rightarrow> string list \<Rightarrow> EnforceabilityResult \<Rightarrow> PlannedEffect list \<Rightarrow> string" where
  "buildExplanation action verdict rules enf effects =
    (let shown = DisplayTarget (AA_Signals action);
         display = (if shown = [] then AA_ActionType action else shown);
         p0 = [''SIR '' @ verdictVerb verdict @ '' this because:''];
         p1 = (case rules of
                 [] \<Rightarrow> p0
               | r # _ \<Rightarrow> p0 @ [''  Policy rule '' @ [CHR 0x27] @ r @ [CHR 0x27] @ '' matched.'']);
         p2 = (if display \<noteq> []
               then p1 @ [''  Target: '' @ display @ '' (sensitivity: '' @ AA_Sensitivity action @ '')'']
               else p1);
         p3 = p2 @ [''  Enforceability: '' @ ER_Class enf @ '' ('' @ ER_Reason enf @ '')''];
         p4 = (if ER_Class enf \<noteq> ClassEnforces \<and> verdict = VerdictDeny
               then p3 @ [''  Note: SIR can deny cooperatively but cannot block without a pre-exec hook or sandbox provider.'']
               else p3);
         unavail = UnavailableRequiredEffects (AA_Mode action) effects;
         p5 = (if unavail \<noteq> []
               then p4 @ [''  DOWNGRADE: required effect(s) unavailable in '' @ AA_Mode action @ '' mode:'']
                      @ map (\<lambda>u. ''    - '' @ u) unavail
                      @ [''  Run '' @ [CHR 0x27] @ ''sir status'' @ [CHR 0x27]
                         @ '' for the enforcement truth in this mode.'']
               else p4)
     in strings_Join p5 newline)"

definition collectLabels :: "EvaluationOutput \<Rightarrow> string list" where
  "collectLabels out =
     (if Out_Sensitivity out = ''credential'' then [''credential_access''] else [])
     @ (if Out_Sensitivity out = ''external_network'' then [''external_egress''] else [])"

subsection \<open>Process (\<open>kernel.go\<close>)\<close>

record ProviderEvidence =
  PrE_Provider :: string
  PrE_Kind :: string
  PrE_Status :: string
  PrE_Reason :: string
  PrE_Behavior :: string

record Decision =
  Dec_DecisionID :: string
  Dec_Timestamp :: string
  Dec_Mode :: string
  Dec_Verdict :: string
  Dec_DecisionClass :: string
  Dec_PolicyRules :: "string list"
  Dec_Effects :: "PlannedEffect list"
  Dec_Enforceability :: string
  Dec_Attribution :: string
  Dec_ActionType :: string
  Dec_Sensitivity :: string
  Dec_BaseVerdict :: string
  Dec_DeveloperWorkflowFloor :: string
  Dec_ProviderPolicyEvidence :: "ProviderPolicyEvidence list"
  Dec_ProviderEvidence :: "ProviderEvidence list"
  Dec_Explanation :: string

definition decisionID :: "string \<Rightarrow> string \<Rightarrow> string" where
  "decisionID caseID ts = ''dec-'' @ take 12 (hex_EncodeToString (sha256_Sum256 (caseID @ ts)))"

fun collect_taint :: "string \<Rightarrow> TaintEntry list \<Rightarrow> string list \<Rightarrow> string list" where
  "collect_taint scope [] labels = labels"
| "collect_taint scope (e # es) labels =
     (if TE_Scope e = scope \<or> scope = []
      then collect_taint scope es (appendUnique labels (TE_TaintKind e))
      else collect_taint scope es labels)"

definition collectSessionTaint :: "KernelState \<Rightarrow> string \<Rightarrow> string list" where
  "collectSessionTaint st scope = collect_taint scope (KS_entries st) []"

text \<open>One call of \<open>Process\<close>: its arguments and the clock readings it makes, in order.\<close>

record ProcessCall =
  Call_CaseID :: string
  Call_Mode :: string
  Call_Signals :: "Signal list"
  Call_Evasion :: EvasionFlags
  Call_FrictionNow :: Time
  Call_TaintNow :: Time
  Call_StampNow :: Time

definition process_input :: "KernelState \<Rightarrow> ProcessCall \<Rightarrow> EvaluationInput" where
  "process_input st call =
     \<lparr>In_CaseID = Call_CaseID call, In_Mode = Call_Mode call, In_Signals = Call_Signals call,
      In_Evasion = Call_Evasion call,
      In_PriorTaint = collectSessionTaint st (fst (TaintScopeFromSignals (Call_Signals call))),
      In_ProviderCapabilities = [], In_ResolvedActorKind = [], In_PolicyVerdicts = [],
      In_ProviderEnforcement = [], In_ProviderEnforcedActions = []\<rparr>"

definition Process :: "ProcessCall \<Rightarrow> KernelState \<Rightarrow> Decision \<times> KernelState" where
  "Process call st =
    (let scope = fst (TaintScopeFromSignals (Call_Signals call));
         out = Evaluate (process_input st call);
         (verdict, st1) = CheckFriction (Call_FrictionNow call) scope (Out_Verdict out) None st;
         st2 = fold (\<lambda>t s. Taint (Call_TaintNow call) scope ''session'' t (Out_Attribution out) s)
                 (Out_NewTaint out) st1;
         normalized = NormalizeSignals (Call_Signals call);
         enf = AnalyzeEnforceability
                 \<lparr>EI_Mode = Call_Mode call, EI_Signals = normalized, EI_ProviderCapabilities = [],
                  EI_ProviderEnforcement = [], EI_EnforcedActions = [],
                  EI_EvasionFlags = Call_Evasion call\<rparr>;
         explanation = RedactExplanation (buildExplanation
                 \<lparr>AA_ActionID = [], AA_Mode = Call_Mode call, AA_Signals = normalized,
                  AA_Enforceability = \<lparr>ER_Class = [], ER_Reason = []\<rparr>, AA_Attribution = [],
                  AA_ActionType = Out_ActionType out, AA_Sensitivity = Out_Sensitivity out,
                  AA_Labels = collectLabels out,
                  AA_EvasionFlags = \<lparr>SpanStripped = False, SpanForged = False, DetachedChild = False,
                    HookMissing = False, RequiredEffectUnavail = False, FailClosed = False\<rparr>\<rparr>
                 verdict (Out_PolicyRules out) enf (Out_Effects out));
         ts = Format_RFC3339 (Call_StampNow call)
     in (\<lparr>Dec_DecisionID = decisionID (Call_CaseID call) ts, Dec_Timestamp = ts,
          Dec_Mode = Call_Mode call, Dec_Verdict = verdict,
          Dec_DecisionClass = Out_DecisionClass out, Dec_PolicyRules = Out_PolicyRules out,
          Dec_Effects = Out_Effects out, Dec_Enforceability = Out_Enforceability out,
          Dec_Attribution = Out_Attribution out, Dec_ActionType = Out_ActionType out,
          Dec_Sensitivity = Out_Sensitivity out, Dec_BaseVerdict = [],
          Dec_DeveloperWorkflowFloor = [], Dec_ProviderPolicyEvidence = [],
          Dec_ProviderEvidence = [], Dec_Explanation = explanation\<rparr>, st2))"

text \<open>A run: the decisions of successive calls and the final state.\<close>

fun process_run :: "ProcessCall list \<Rightarrow> KernelState \<Rightarrow> Decision list \<times> KernelState" where
  "process_run [] st = ([], st)"
| "process_run (call # calls) st =
     (case Process call st of
        (d, st1) \<Rightarrow> (case process_run calls st1 of (ds, st2) \<Rightarrow> (d # ds, st2)))"

subsection \<open>Explain (\<open>kernel.go\<close>)\<close>

record LedgerEntry =
  LE_EntryID :: string
  LE_CaseID :: string
  LE_Decision :: Decision
  LE_PrevHash :: string
  LE_Hash :: string

definition line :: "string \<Rightarrow> string" where
  "line s = s @ newline"

definition explain_policy_evidence :: "ProviderPolicyEvidence \<Rightarrow> string" where
  "explain_policy_evidence ev =
     line (''  '' @ PPE_Provider ev @ '': '' @ PPE_Verdict ev)
     @ concat (map (\<lambda>rule. line (''    rule: '' @ rule)) (PPE_RulesMatched ev))
     @ (if PPE_Reason ev \<noteq> [] then line (''    reason: '' @ PPE_Reason ev) else [])
     @ line (''    used: '' @ (if PPE_Used ev then ''yes'' else ''no''))"

definition explain_provider_evidence :: "ProviderEvidence \<Rightarrow> string" where
  "explain_provider_evidence ev =
     line (''  '' @ PrE_Provider ev @ '': '' @ (if PrE_Status ev = [] then ''failed'' else PrE_Status ev))
     @ (if PrE_Reason ev \<noteq> [] then line (''    reason: '' @ PrE_Reason ev) else [])
     @ (if PrE_Behavior ev \<noteq> [] then line (''    behavior: '' @ PrE_Behavior ev) else [])"

definition explain_effect :: "PlannedEffect \<Rightarrow> string" where
  "explain_effect e =
     line (''  '' @ PE_Type e
       @ (if PE_Required e
          then '' (required'' @ (if PE_FailClosed e then '', fail_closed'' else []) @ '')''
          else []))"

definition Explain :: "LedgerEntry \<Rightarrow> string" where
  "Explain entry =
    (let d = LE_Decision entry; nativeRules = NativePolicyRules (Dec_PolicyRules d) in
     line (''Decision:       '' @ strings_ToUpper (Dec_Verdict d))
     @ line (''Timestamp:      '' @ Dec_Timestamp d)
     @ line (''Mode:           '' @ Dec_Mode d)
     @ (if LE_CaseID entry \<noteq> [] then line (''Case:           '' @ LE_CaseID entry) else [])
     @ newline
     @ line (''Action type:    '' @ Dec_ActionType d)
     @ line (''Sensitivity:    '' @ Dec_Sensitivity d)
     @ line (''Enforceability: '' @ Dec_Enforceability d @ '' -- '' @ enforcementGuarantee (Dec_Mode d))
     @ line (''Attribution:    '' @ Dec_Attribution d)
     @ (if nativeRules \<noteq> []
        then newline @ line ''Native SIR policy:'' @ concat (map (\<lambda>r. line (''  '' @ r)) nativeRules)
        else newline @ line ''Native SIR policy:'' @ line ''  none'')
     @ (if Dec_ProviderPolicyEvidence d \<noteq> []
        then line ''Policy provider verdicts:''
             @ concat (map explain_policy_evidence (Dec_ProviderPolicyEvidence d))
        else [])
     @ (if Dec_ProviderEvidence d \<noteq> []
        then line ''Provider failures:''
             @ concat (map explain_provider_evidence (Dec_ProviderEvidence d))
        else [])
     @ (if Dec_DeveloperWorkflowFloor d \<noteq> []
        then line ''Developer workflow floor:'' @ line (''  '' @ Dec_DeveloperWorkflowFloor d)
        else [])
     @ (if Dec_Effects d \<noteq> []
        then newline @ line ''Effects planned:'' @ concat (map explain_effect (Dec_Effects d))
        else [])
     @ line ''Final decision:''
     @ line (''  '' @ Dec_Verdict d)
     @ newline @ line (Dec_Explanation d))"

subsection \<open>Lemmas on taint\<close>

lemma tainted_in_iff:
  "tainted_in es scope kind \<longleftrightarrow>
     (\<exists>e \<in> set es. TE_TaintKind e = kind \<and> (TE_Scope e = scope \<or> scope = []))"
  by (induction es) auto

lemma collect_taint_set:
  "set (collect_taint scope es labels) =
     set labels \<union> {TE_TaintKind e |e. e \<in> set es \<and> (TE_Scope e = scope \<or> scope = [])}"
  by (induction es arbitrary: labels) auto

lemma collectSessionTaint_iff: "k \<in> set (collectSessionTaint st scope) \<longleftrightarrow> IsTainted st scope k"
  by (auto simp: collectSessionTaint_def collect_taint_set IsTainted_def tainted_in_iff)

lemma CheckFriction_entries [simp]:
  "KS_entries (snd (CheckFriction now scope v pol st)) = KS_entries st"
  by (simp add: CheckFriction_def Let_def)

lemma Taint_entries:
  "KS_entries (Taint now scope sk k c st) =
     KS_entries st @ [\<lparr>TE_Scope = scope, TE_ScopeKind = sk, TE_TaintKind = k,
                       TE_At = Format_RFC3339 now, TE_Confidence = c\<rparr>]"
  by (simp add: Taint_def)

lemma Evaluate_new_taint:
  "Out_NewTaint (Evaluate inp) =
     (if PrimarySensitivity (NormalizeSignals (In_Signals inp)) = ''credential''
      then [''credential_access''] else [])"
  by (simp add: Evaluate_def Let_def split_beta computeNewTaint_def sensitivity_of_def)

text \<open>What one call does to the taint entries: nothing, or one entry for its scope.\<close>

lemma Process_entries:
  "KS_entries (snd (Process call st)) =
     KS_entries st @
       (if PrimarySensitivity (NormalizeSignals (Call_Signals call)) = ''credential''
        then [\<lparr>TE_Scope = fst (TaintScopeFromSignals (Call_Signals call)), TE_ScopeKind = ''session'',
               TE_TaintKind = ''credential_access'', TE_At = Format_RFC3339 (Call_TaintNow call),
               TE_Confidence = AttributionConfidence (NormalizeSignals (Call_Signals call))\<rparr>]
        else [])"
proof -
  have sig: "In_Signals (process_input st call) = Call_Signals call"
    by (simp add: process_input_def)
  have att: "Out_Attribution (Evaluate (process_input st call))
      = AttributionConfidence (NormalizeSignals (Call_Signals call))"
    by (simp add: Evaluate_def Let_def split_beta sig)
  show ?thesis
    by (simp add: Process_def Let_def split_beta Evaluate_new_taint sig att Taint_entries)
qed

lemma Process_verdict:
  "Dec_Verdict (fst (Process call st)) =
     fst (CheckFriction (Call_FrictionNow call) (fst (TaintScopeFromSignals (Call_Signals call)))
            (Out_Verdict (Evaluate (process_input st call))) None st)"
  by (simp add: Process_def Let_def split_beta)

lemma IsTainted_Process_mono: "IsTainted st scope k \<Longrightarrow> IsTainted (snd (Process call st)) scope k"
  by (auto simp: IsTainted_def tainted_in_iff Process_entries)

lemma IsTainted_run_mono: "IsTainted st scope k \<Longrightarrow> IsTainted (snd (process_run calls st)) scope k"
proof (induction calls arbitrary: st)
  case Nil
  then show ?case by simp
next
  case (Cons call calls)
  from Cons.prems have "IsTainted (snd (Process call st)) scope k" by (rule IsTainted_Process_mono)
  from Cons.IH [OF this] show ?case by (simp add: split_beta)
qed

lemma IsTainted_run:
  "call \<in> set calls \<Longrightarrow>
   PrimarySensitivity (NormalizeSignals (Call_Signals call)) = ''credential'' \<Longrightarrow>
   IsTainted (snd (process_run calls st)) (fst (TaintScopeFromSignals (Call_Signals call)))
     ''credential_access''"
proof (induction calls arbitrary: st)
  case Nil
  then show ?case by simp
next
  case (Cons c calls)
  show ?case
  proof (cases "call = c")
    case True
    with Cons.prems have "IsTainted (snd (Process call st))
       (fst (TaintScopeFromSignals (Call_Signals call))) ''credential_access''"
      by (simp add: IsTainted_def tainted_in_iff Process_entries)
    from IsTainted_run_mono [OF this] True show ?thesis by (simp add: split_beta)
  next
    case False
    with Cons show ?thesis by (simp add: split_beta)
  qed
qed

subsection \<open>The friction bound\<close>

interpretation friction: verdict_tightening
  "\<lambda>(now, scope, st) v. fst (CheckFriction now scope v None st)"
  by unfold_locales (auto simp: CheckFriction_def Let_def defaultFrictionPolicy_def)

interpretation degraded: verdict_tightening
  "\<lambda>(mode, available) v. fst (DegradedModeVerdict mode v available)"
  by unfold_locales (auto simp: DegradedModeVerdict_def verdict_rank_2_iff)

text \<open>The questions that a run puts to the developer in one scope: the clock readings of
  the calls in that scope whose final verdict is ask.\<close>

definition call_scope :: "ProcessCall \<Rightarrow> string" where
  "call_scope call = fst (TaintScopeFromSignals (Call_Signals call))"

fun asked_at :: "string \<Rightarrow> ProcessCall list \<Rightarrow> KernelState \<Rightarrow> Time list" where
  "asked_at scope [] st = []"
| "asked_at scope (call # calls) st =
     (case Process call st of
        (d, st') \<Rightarrow>
          (if call_scope call = scope \<and> Dec_Verdict d = VerdictAsk then [Call_FrictionNow call] else [])
          @ asked_at scope calls st')"

definition asks_in_window :: "Time \<Rightarrow> Time list \<Rightarrow> nat" where
  "asks_in_window t asks = length (filter (\<lambda>a. t - 10 * Minute < a \<and> a \<le> t) asks)"

text \<open>The stored prompts agree with the questions asked so far on every window that a
  later call can look at, and no window holds more than three.\<close>

definition friction_inv :: "Time \<Rightarrow> Time list \<Rightarrow> Time list \<Rightarrow> bool" where
  "friction_inv now prompts asks \<longleftrightarrow>
     (\<forall>w \<ge> now - 10 * Minute. filter (\<lambda>a. a > w) prompts = filter (\<lambda>a. a > w) asks)
     \<and> (\<forall>t. asks_in_window t asks \<le> 3)"

lemma friction_inv_later: "friction_inv t p a \<Longrightarrow> t \<le> now \<Longrightarrow> friction_inv now p a"
  by (simp add: friction_inv_def)

lemma length_filter_mono:
  "(\<And>x. x \<in> set xs \<Longrightarrow> P x \<Longrightarrow> Q x) \<Longrightarrow> length (filter P xs) \<le> length (filter Q xs)"
  by (induction xs) auto

lemma friction_inv_ask:
  assumes inv: "friction_inv now prompts asks"
    and few: "length (filter (\<lambda>a. a > now - 10 * Minute) prompts) < 3"
  shows "friction_inv now (filter (\<lambda>a. a > now - 10 * Minute) prompts @ [now]) (asks @ [now])"
proof -
  let ?recent = "filter (\<lambda>a. a > now - 10 * Minute)"
  have same: "?recent prompts = ?recent asks"
    using inv by (simp add: friction_inv_def)
  have cover: "filter (\<lambda>a. a > w) (?recent asks) = filter (\<lambda>a. a > w) asks"
    if "w \<ge> now - 10 * Minute" for w
    using that by (auto intro: filter_cong)
  have "asks_in_window t (asks @ [now]) \<le> 3" for t
  proof (cases "t < now")
    case True
    with inv show ?thesis by (simp add: friction_inv_def asks_in_window_def)
  next
    case False
    then have "asks_in_window t (asks @ [now]) \<le> length (?recent (asks @ [now]))"
      unfolding asks_in_window_def by (intro length_filter_mono) simp
    also have "\<dots> \<le> 3" using few same by (simp add: Minute_def Second_def)
    finally show ?thesis .
  qed
  with same cover show ?thesis by (simp add: friction_inv_def)
qed

lemma CheckFriction_inv:
  assumes inv: "friction_inv now (KS_prompts st scope) asks"
    and step: "CheckFriction now sc v None st = (v', st')"
  shows "friction_inv now (KS_prompts st' scope)
           (asks @ (if sc = scope \<and> v' = VerdictAsk then [now] else []))"
proof (cases "v = VerdictAsk
    \<and> length (filter (\<lambda>a. a > now - 10 * Minute) (KS_prompts st sc)) < 3")
  case True
  with step have "v' = VerdictAsk" "KS_prompts st' = (KS_prompts st)
      (sc := filter (\<lambda>a. a > now - 10 * Minute) (KS_prompts st sc) @ [now])"
    by (auto simp: CheckFriction_def Let_def defaultFrictionPolicy_def split: if_splits)
  with True inv friction_inv_ask [OF inv] show ?thesis by auto
next
  case False
  with step have "v' \<noteq> VerdictAsk" "st' = st"
    by (auto simp: CheckFriction_def Let_def defaultFrictionPolicy_def not_less split: if_splits)
  with inv show ?thesis by simp
qed

lemma Process_prompts:
  "KS_prompts (snd (Process call st)) =
     KS_prompts (snd (CheckFriction (Call_FrictionNow call) (call_scope call)
       (Out_Verdict (Evaluate (process_input st call))) None st))"
proof -
  have "KS_prompts (fold (\<lambda>t s. Taint now sc k t c s) ts s0) = KS_prompts s0" for now sc k c ts s0
    by (induction ts arbitrary: s0) (simp_all add: Taint_def)
  then show ?thesis by (simp add: Process_def Let_def split_beta call_scope_def)
qed

lemma asked_at_inv:
  assumes "friction_inv t0 (KS_prompts st scope) asks" and "sorted (t0 # map Call_FrictionNow calls)"
  shows "asks_in_window t (asks @ asked_at scope calls st) \<le> 3"
  using assms
proof (induction calls arbitrary: t0 st asks)
  case Nil
  then show ?case by (simp add: friction_inv_def)
next
  case (Cons call calls)
  let ?now = "Call_FrictionNow call"
  obtain v st1 where step: "CheckFriction ?now (call_scope call)
      (Out_Verdict (Evaluate (process_input st call))) None st = (v, st1)"
    by fastforce
  have v: "Dec_Verdict (fst (Process call st)) = v"
    using step by (simp add: Process_verdict call_scope_def)
  have "friction_inv ?now (KS_prompts st scope) asks"
    using Cons.prems friction_inv_later by fastforce
  from CheckFriction_inv [OF this step]
  have "friction_inv ?now (KS_prompts (snd (Process call st)) scope)
     (asks @ (if call_scope call = scope \<and> v = VerdictAsk then [?now] else []))"
    by (simp add: Process_prompts step)
  from Cons.IH [OF this] Cons.prems(2) v show ?case by (simp add: split_beta)
qed

subsection \<open>Concrete calls\<close>

definition demo_call :: "Time \<Rightarrow> string \<Rightarrow> string \<Rightarrow> ProcessCall" where
  "demo_call now span sens =
     \<lparr>Call_CaseID = ''c'', Call_Mode = ModeHookGate,
      Call_Signals = [hook_signal\<lparr>
        Signal_Session := Some \<lparr>Session_TraceID = [], Session_SessionID = ''S'', Session_TurnID = [],
                                Session_SpanID = span\<rparr>,
        Signal_ActionClaim := [(''target'', JObject [(''sensitivity'', JString sens)])]\<rparr>],
      Call_Evasion = quiet_flags, Call_FrictionNow = now, Call_TaintNow = now, Call_StampNow = now\<rparr>"

lemma demo_call_scope [simp]:
  "call_scope (demo_call now span sens) = (if span = [] then ''S'' else span)"
  by (simp add: call_scope_def demo_call_def hook_signal_def)

lemma demo_call_sensitivity [simp]:
  "PrimarySensitivity (NormalizeSignals (Call_Signals (demo_call now span ''credential''))) = ''credential''"
  "PrimarySensitivity (NormalizeSignals (Call_Signals (demo_call now span ''external_network''))) = ''external_network''"
  by (simp_all add: demo_call_def hook_signal_def PrimarySensitivity_def sensitivity_loop_step
      claimed_sensitivity_def get_object_def get_string0_def get_string_def sensitivity_order_def)

lemma demo_call_target: "target_contains (process_input st (demo_call now span sens)) p \<longleftrightarrow> p []"
  by (simp add: target_contains_def target_matches_def process_input_def demo_call_def hook_signal_def
      get_object_def get_string0_def get_string_def)

lemma demo_egress_verdict:
  assumes "\<not> IsTainted st (call_scope (demo_call now span ''external_network'')) ''credential_access''"
  shows "Out_Verdict (Evaluate (process_input st (demo_call now span ''external_network''))) = VerdictAsk"
proof -
  let ?inp = "process_input st (demo_call now span ''external_network'')"
  have sens: "sensitivity_of ?inp = ''external_network''"
    by (simp add: sensitivity_of_def process_input_def)
  have "''credential_access'' \<notin> set (In_PriorTaint ?inp)"
    using assms by (simp only: process_input_def EvaluationInput.select_convs collectSessionTaint_iff
        call_scope_def not_False_eq_True)
  then have "\<not> must_deny ?inp"
    by (simp add: must_deny_def sens demo_call_target sir_paths_def)
  moreover have "must_ask ?inp" by (simp add: must_ask_def sens)
  ultimately show ?thesis by (simp add: Evaluate_verdict_eq)
qed

subsection \<open>Properties\<close>

text \<open>C3: a credential read poisons its scope for good. Whatever happened before and
  in between, once any call of a run accessed a credential, a later external-network call
  in the same taint scope gets the verdict deny from \<open>Process\<close>.\<close>

theorem credential_then_egress_denied:
  assumes "call \<in> set earlier"
    and "PrimarySensitivity (NormalizeSignals (Call_Signals call)) = ''credential''"
    and "PrimarySensitivity (NormalizeSignals (Call_Signals egress)) = ''external_network''"
    and "call_scope egress = call_scope call"
  shows "Dec_Verdict (fst (Process egress (snd (process_run earlier st)))) = VerdictDeny"
proof -
  let ?st = "snd (process_run earlier st)"
  have "IsTainted ?st (call_scope egress) ''credential_access''"
    using IsTainted_run [OF assms(1,2)] assms(4) by (simp add: call_scope_def)
  then have "must_deny (process_input ?st egress)"
    using assms(3) by (simp add: must_deny_def process_input_def sensitivity_of_def
        collectSessionTaint_iff call_scope_def)
  then have "Out_Verdict (Evaluate (process_input ?st egress)) = VerdictDeny"
    by (simp add: Evaluate_verdict_eq)
  then show ?thesis by (simp add: Process_verdict CheckFriction_def)
qed

theorem credential_then_egress_denied_witness:
  "Dec_Verdict (fst (Process (demo_call 3 [] ''external_network'')
     (snd (process_run [demo_call 1 [] ''credential'', demo_call 2 ''x'' ''low''] initial_state)))) = VerdictDeny"
  by (rule credential_then_egress_denied [of "demo_call 1 [] ''credential''"]) simp_all

text \<open>C18: the developer is not nagged forever. In any run of \<open>Process\<close> calls whose clock
  does not go back, no ten-minute window contains more than three questions in one scope,
  however many calls would have asked: the others are denied.\<close>

theorem friction_bounds_questions:
  assumes "sorted (map Call_FrictionNow calls)"
  shows "asks_in_window t (asked_at scope calls initial_state) \<le> 3"
proof (cases calls)
  case Nil
  then show ?thesis by (simp add: asks_in_window_def)
next
  case (Cons c cs)
  have "friction_inv (Call_FrictionNow c) (KS_prompts initial_state scope) []"
    by (simp add: friction_inv_def initial_state_def asks_in_window_def)
  from asked_at_inv [OF this, of calls t] assms Cons show ?thesis by simp
qed

theorem friction_bounds_questions_witness:
  "asks_in_window 5 (asked_at ''S''
     (map (\<lambda>t. demo_call t [] ''external_network'') [1, 2, 3, 4, 5]) initial_state) \<le> 3"
  by (rule friction_bounds_questions) (simp add: demo_call_def)

text \<open>After the pure evaluation, the orchestrator only tightens the verdict, and a
  verdict it changes is a question that became a denial. That denial keeps the decision
  class and the effects of the question: the class is not deny-now and no block is
  planned.\<close>

theorem process_escalation:
  assumes "Dec_Verdict (fst (Process call st)) \<noteq> Out_Verdict (Evaluate (process_input st call))"
  shows "Dec_Verdict (fst (Process call st)) = VerdictDeny
    \<and> Out_Verdict (Evaluate (process_input st call)) = VerdictAsk
    \<and> Dec_DecisionClass (fst (Process call st)) \<in> {DecisionClassBlockAndWait, DecisionClassRecordPostHoc}
    \<and> effects_agree VerdictAsk (Dec_Effects (fst (Process call st)))"
proof -
  let ?out = "Evaluate (process_input st call)"
  have ask: "Out_Verdict ?out = VerdictAsk" and deny: "Dec_Verdict (fst (Process call st)) = VerdictDeny"
    using assms by (auto simp: Process_verdict CheckFriction_def Let_def defaultFrictionPolicy_def
        split: if_splits)
  have "Dec_DecisionClass (fst (Process call st)) = resolveDecisionClass VerdictAsk (Out_Enforceability ?out)"
    and "Dec_Effects (fst (Process call st)) = Out_Effects ?out"
    using ask by (simp_all add: Process_def Let_def split_beta Evaluate_def)
  with ask deny Evaluate_effects [of "process_input st call"] show ?thesis
    by (simp add: resolveDecisionClass_def)
qed

theorem process_escalation_witness:
  "let call = demo_call 4 [] ''external_network'';
       st = initial_state\<lparr>KS_prompts := (\<lambda>_. [1, 2, 3])\<rparr> in
   Dec_Verdict (fst (Process call st)) = VerdictDeny
   \<and> Dec_DecisionClass (fst (Process call st)) \<noteq> DecisionClassDenyNow"
proof -
  let ?call = "demo_call 4 [] ''external_network''"
  let ?st = "initial_state\<lparr>KS_prompts := (\<lambda>_. [1, 2, 3])\<rparr>"
  have ask: "Out_Verdict (Evaluate (process_input ?st ?call)) = VerdictAsk"
    by (rule demo_egress_verdict) (simp add: IsTainted_def initial_state_def)
  moreover have "Dec_Verdict (fst (Process ?call ?st)) = VerdictDeny"
    by (simp add: Process_verdict ask CheckFriction_def defaultFrictionPolicy_def)
       (simp add: demo_call_def Minute_def Second_def)
  ultimately have "Dec_Verdict (fst (Process ?call ?st)) \<noteq> Out_Verdict (Evaluate (process_input ?st ?call))"
    by simp
  from process_escalation [OF this] show ?thesis
    by (auto simp: Let_def decision_class_defs)
qed

text \<open>Taint follows the innermost scope, not the session. A credential read in one
  span and an external-network call in another span of the same session is answered with
  a question, not a denial.\<close>

theorem taint_is_span_scoped:
  "Dec_Verdict (fst (Process (demo_call 2 ''b'' ''external_network'')
     (snd (Process (demo_call 1 ''a'' ''credential'') initial_state)))) = VerdictAsk"
proof -
  let ?st = "snd (Process (demo_call 1 ''a'' ''credential'') initial_state)"
  have entries: "KS_entries ?st = KS_entries initial_state @
      [\<lparr>TE_Scope = ''a'', TE_ScopeKind = ''session'', TE_TaintKind = ''credential_access'',
        TE_At = Format_RFC3339 1,
        TE_Confidence = AttributionConfidence
          (NormalizeSignals (Call_Signals (demo_call 1 ''a'' ''credential'')))\<rparr>]"
    using demo_call_scope [of 1 "''a''" "''credential''"]
    by (simp add: Process_entries call_scope_def) (simp add: demo_call_def)
  have "\<not> IsTainted ?st (call_scope (demo_call 2 ''b'' ''external_network'')) ''credential_access''"
    by (simp add: IsTainted_def tainted_in_iff entries) (simp add: initial_state_def)
  from demo_egress_verdict [OF this]
  have ask: "Out_Verdict (Evaluate (process_input ?st (demo_call 2 ''b'' ''external_network''))) = VerdictAsk" .
  have "length (KS_prompts ?st s) \<le> 1" for s
    by (simp add: Process_prompts CheckFriction_def Let_def initial_state_def)
  then have "length (filter P (KS_prompts ?st s)) < 3" for P s
    using length_filter_le [of P "KS_prompts ?st s"] by (meson le_less_trans one_less_numeral_iff order_trans semiring_norm(77))
  then show ?thesis
    by (simp add: Process_verdict ask CheckFriction_def Let_def defaultFrictionPolicy_def not_le)
qed

end
