(* ===== verification/Session_Lineage.thy ===== *)
theory Session_Lineage
  imports Sir_Prelude "HOL-Library.AList"
begin

text \<open>
  Labels of \<open>pkg/session/lineage.go\<close>: the label type with its lexicographic order, and
  normalisation, merging and comparison of label lists. \<open>sort.Slice\<close> with the three-way
  comparison is sorting by the linear order instantiated here; elements that compare
  equal are equal, so the unstable sort of Go has one possible result.
\<close>

datatype LineageLabel =
  LineageLabel (Sensitivity: string) (Trust: string) (Provenance: string)

instantiation LineageLabel :: linorder
begin

definition less_eq_LineageLabel :: "LineageLabel \<Rightarrow> LineageLabel \<Rightarrow> bool" where
  "less_eq_LineageLabel a b \<longleftrightarrow>
     (if Sensitivity a \<noteq> Sensitivity b then Sensitivity a < Sensitivity b
      else if Trust a \<noteq> Trust b then Trust a < Trust b
      else Provenance a \<le> Provenance b)"

definition less_LineageLabel :: "LineageLabel \<Rightarrow> LineageLabel \<Rightarrow> bool" where
  "less_LineageLabel a b \<longleftrightarrow>
     (if Sensitivity a \<noteq> Sensitivity b then Sensitivity a < Sensitivity b
      else if Trust a \<noteq> Trust b then Trust a < Trust b
      else Provenance a < Provenance b)"

instance
proof
  fix a b c :: LineageLabel
  show "a < b \<longleftrightarrow> a \<le> b \<and> \<not> b \<le> a"
    by (auto simp: less_eq_LineageLabel_def less_LineageLabel_def)
  show "a \<le> a"
    by (simp add: less_eq_LineageLabel_def)
  show "a \<le> b \<Longrightarrow> b \<le> c \<Longrightarrow> a \<le> c"
    by (auto simp: less_eq_LineageLabel_def split: if_splits)
  show "a \<le> b \<Longrightarrow> b \<le> a \<Longrightarrow> a = b"
    by (auto simp: less_eq_LineageLabel_def LineageLabel.expand split: if_splits)
  show "a \<le> b \<or> b \<le> a"
    by (auto simp: less_eq_LineageLabel_def)
qed

end

fun dedupe_loop :: "LineageLabel list \<Rightarrow> LineageLabel list \<Rightarrow> LineageLabel list \<Rightarrow> LineageLabel list" where
  "dedupe_loop [] seen out = out"
| "dedupe_loop (label # labels) seen out =
     (if slice_contains seen label then dedupe_loop labels seen out
      else dedupe_loop labels (label # seen) (out @ [label]))"

definition dedupeLineageLabels :: "LineageLabel list \<Rightarrow> LineageLabel list" where
  "dedupeLineageLabels labels = sort (dedupe_loop labels [] [])"

definition normalizeLineageLabels :: "LineageLabel list \<Rightarrow> LineageLabel list" where
  "normalizeLineageLabels labels = dedupeLineageLabels (sort labels)"

definition mergeLineageLabels :: "LineageLabel list \<Rightarrow> LineageLabel list \<Rightarrow> LineageLabel list" where
  "mergeLineageLabels dst src = dedupeLineageLabels (dst @ src)"

fun same_from :: "LineageLabel list \<Rightarrow> LineageLabel list \<Rightarrow> bool" where
  "same_from (x # xs) (y # ys) = (if x \<noteq> y then False else same_from xs ys)"
| "same_from _ _ = True"

definition sameLineageLabels :: "LineageLabel list \<Rightarrow> LineageLabel list \<Rightarrow> bool" where
  "sameLineageLabels a b = (if length a \<noteq> length b then False else same_from a b)"

definition appendIfMissing :: "string list \<Rightarrow> string \<Rightarrow> string list" where
  "appendIfMissing values value = append_unique values value"

subsection \<open>Lemmas\<close>

lemma dedupe_loop_spec:
  "distinct out \<Longrightarrow> set seen = set out \<Longrightarrow>
   distinct (dedupe_loop labels seen out) \<and> set (dedupe_loop labels seen out) = set out \<union> set labels"
  by (induction labels arbitrary: seen out) auto

lemma dedupe_eq: "dedupeLineageLabels labels = sorted_list_of_set (set labels)"
proof -
  have d: "distinct (dedupe_loop labels [] [])" and s: "set (dedupe_loop labels [] []) = set labels"
    using dedupe_loop_spec [of "[]" "[]" labels] by simp_all
  show ?thesis
    unfolding dedupeLineageLabels_def using d s
    by (metis sorted_list_of_set_sort_remdups distinct_remdups_id)
qed

lemma normalize_eq: "normalizeLineageLabels labels = sorted_list_of_set (set labels)"
  by (simp add: normalizeLineageLabels_def dedupe_eq)

lemma merge_eq: "mergeLineageLabels dst src = sorted_list_of_set (set dst \<union> set src)"
  by (simp add: mergeLineageLabels_def dedupe_eq)

lemma set_merge [simp]: "set (mergeLineageLabels dst src) = set dst \<union> set src"
  by (simp add: merge_eq)

lemma set_normalize [simp]: "set (normalizeLineageLabels labels) = set labels"
  by (simp add: normalize_eq)

lemma same_iff_eq: "sameLineageLabels a b \<longleftrightarrow> a = b"
proof -
  have "length a = length b \<Longrightarrow> same_from a b \<longleftrightarrow> a = b"
    by (induction a b rule: list_induct2) auto
  then show ?thesis by (auto simp: sameLineageLabels_def)
qed

text \<open>Label lists are canonical. Normalising gives the strictly sorted list of the
  labels that occur; two lists with the same labels normalise to the same list, merging is
  union, and the pairwise comparison of normalised lists decides equality of the label
  sets, so the duplicate check of evidence is not fooled by order or repetition.\<close>

theorem lineage_labels_canonical:
  "normalizeLineageLabels labels = sorted_list_of_set (set labels)
   \<and> sorted_wrt (<) (normalizeLineageLabels labels)
   \<and> normalizeLineageLabels (normalizeLineageLabels labels) = normalizeLineageLabels labels
   \<and> mergeLineageLabels (normalizeLineageLabels labels) (normalizeLineageLabels labels')
       = normalizeLineageLabels (labels @ labels')
   \<and> (sameLineageLabels (normalizeLineageLabels labels) (normalizeLineageLabels labels')
        \<longleftrightarrow> set labels = set labels')"
  by (auto simp: normalize_eq merge_eq same_iff_eq dest: sorted_list_of_set_inject)

end
