(* ===== verification/Session_State.thy ===== *)
theory Session_State
  imports Session_Lineage Policy_Surface Go_Bytes Go_Time
begin

text \<open>
  Package \<open>pkg/session\<close>: the session state of one project and the methods that read and
  change it (\<open>session.go\<close>, \<open>session_turns.go\<close>, \<open>session_approvals.go\<close>,
  \<open>session_posture.go\<close>, \<open>hook_integrity.go\<close>, \<open>fingerprint.go\<close>, \<open>lineage.go\<close>). The mutex of
  the Go struct makes each method atomic; it has no counterpart in the record. A Go map
  is an association list (a nil map and an empty one behave alike here), a pointer field
  an option, and a reading of the clock or of the random source an argument.
\<close>

type_synonym 'v smap = "(string \<times> 'v) list"

subsection \<open>State\<close>

record LineageEvidence =
  Ev_ID :: string
  Ev_SourceKind :: string
  Ev_SourceRef :: string
  Ev_Turn :: int
  Ev_Confidence :: string
  Ev_Labels :: "LineageLabel list"
  Ev_RecordedAt :: Time

record DerivedPathRecord =
  DP_EvidenceIDs :: "string list"
  DP_Labels :: "LineageLabel list"
  DP_UpdatedAt :: Time

record ApprovalGrant =
  Grant_Verb :: string
  Grant_Target :: string
  Grant_Scope :: string
  Grant_ExpiresAt :: Time
  Grant_UsesRemaining :: int
  Grant_Reason :: string

record PendingInstall =
  PI_Command :: string
  PI_Manager :: string
  PI_SentinelHashes :: "string smap"
  PI_LockfileHash :: string

record State =
  SchemaVersion :: nat
  SessionID :: string
  ProjectRoot :: string
  StartedAt :: Time
  SecretSession :: bool
  SessionEverSecret :: bool
  SecretSessionSince :: Time
  ApprovalScope :: ApprovalScope
  TurnCounter :: int
  SecretApprovalTurn :: int
  LastToolCallAt :: Time
  RecentlyReadUntrusted :: bool
  SecretFingerprints :: "int smap"
  FingerprintSalt :: string
  DeniedToolUses :: "string list"
  UntrustedContentThisTurn :: bool
  PendingInstall :: "PendingInstall option"
  PostureHashes :: "string smap"
  DenyAll :: bool
  DenyAllReason :: string
  LeaseHash :: string
  GlobalHookHash :: string
  SessionHash :: string
  Posture :: PostureState
  MCPInjectionSignals :: "string list"
  TaintedMCPServers :: "string list"
  AcknowledgedTaintedMCPServers :: "string list"
  PendingInjectionAlert :: bool
  InjectionAlertDetail :: string
  TurnAdvancedByHook :: bool
  InstructionHashes :: "string smap"
  ActiveEvidence :: "LineageEvidence list"
  DerivedFileLineage :: "DerivedPathRecord smap"
  MCPOnboardingCalls :: "int smap"
  ApprovalGrants :: "ApprovalGrant list"
  PromptedIntents :: "int smap"
  DecisionStartedAt :: Time
  ThinkingGuardActive :: bool
  MCPAuthorityChangeAt :: Time
  PendingAutoLeaseHosts :: "Time smap"
  PendingMCPDriftAck :: "string smap"
  AcknowledgedMCPDrift :: "string smap"
  ApprovedEphemeralPackages :: "bool smap"
  PendingEphemeralApproval :: "bool smap"
  ApprovedPushRemotes :: "bool smap"
  PendingPushRemote :: "bool smap"

text \<open>Reading a missing key of a Go map gives the zero value of its element type.\<close>

definition map_get :: "'v \<Rightarrow> 'v smap \<Rightarrow> string \<Rightarrow> 'v" where
  "map_get zero m k = (case map_of m k of Some v \<Rightarrow> v | None \<Rightarrow> zero)"

definition NewState :: "Time \<Rightarrow> Time \<Rightarrow> string \<Rightarrow> State" where
  "NewState unixNano now projectRoot =
     \<lparr>SchemaVersion = SessionSchemaVersion,
      SessionID = take 16 (hex_EncodeToString (sha256_Sum256 (projectRoot @ ''-'' @ strconv_Itoa unixNano))),
      ProjectRoot = projectRoot, StartedAt = now, SecretSession = False, SessionEverSecret = False,
      SecretSessionSince = 0, ApprovalScope = [], TurnCounter = 0, SecretApprovalTurn = 0,
      LastToolCallAt = 0, RecentlyReadUntrusted = False, SecretFingerprints = [],
      FingerprintSalt = [], DeniedToolUses = [], UntrustedContentThisTurn = False,
      PendingInstall = None, PostureHashes = [], DenyAll = False, DenyAllReason = [],
      LeaseHash = [], GlobalHookHash = [], SessionHash = [], Posture = [],
      MCPInjectionSignals = [], TaintedMCPServers = [], AcknowledgedTaintedMCPServers = [],
      PendingInjectionAlert = False, InjectionAlertDetail = [], TurnAdvancedByHook = False,
      InstructionHashes = [], ActiveEvidence = [], DerivedFileLineage = [],
      MCPOnboardingCalls = [], ApprovalGrants = [], PromptedIntents = [], DecisionStartedAt = 0,
      ThinkingGuardActive = False, MCPAuthorityChangeAt = 0, PendingAutoLeaseHosts = [],
      PendingMCPDriftAck = [], AcknowledgedMCPDrift = [], ApprovedEphemeralPackages = [],
      PendingEphemeralApproval = [], ApprovedPushRemotes = [], PendingPushRemote = []\<rparr>"

subsection \<open>Counters and pending approvals (\<open>session.go\<close>)\<close>

definition BumpMCPOnboardingCall :: "string \<Rightarrow> State \<Rightarrow> int \<times> State" where
  "BumpMCPOnboardingCall serverName s =
    (let n = map_get 0 (MCPOnboardingCalls s) serverName + 1 in
     (n, s\<lparr>MCPOnboardingCalls := AList.update serverName n (MCPOnboardingCalls s)\<rparr>))"

definition MCPOnboardingCallCount :: "State \<Rightarrow> string \<Rightarrow> int" where
  "MCPOnboardingCallCount s serverName = map_get 0 (MCPOnboardingCalls s) serverName"

definition RecordPromptedIntent :: "string \<Rightarrow> State \<Rightarrow> int \<times> State" where
  "RecordPromptedIntent key s =
    (let n = map_get 0 (PromptedIntents s) key + 1 in
     (n, s\<lparr>PromptedIntents := AList.update key n (PromptedIntents s)\<rparr>))"

definition PromptCount :: "State \<Rightarrow> string \<Rightarrow> int" where
  "PromptCount s key = map_get 0 (PromptedIntents s) key"

definition autoLeaseMarkWindow :: Duration where
  "autoLeaseMarkWindow = 10 * Minute"

definition MarkPendingAutoLease :: "Time \<Rightarrow> string \<Rightarrow> State \<Rightarrow> State" where
  "MarkPendingAutoLease now host s =
     (if host = [] then s
      else s\<lparr>PendingAutoLeaseHosts := AList.update host now (PendingAutoLeaseHosts s)\<rparr>)"

definition ConsumePendingAutoLease :: "Time \<Rightarrow> string \<Rightarrow> State \<Rightarrow> bool \<times> State" where
  "ConsumePendingAutoLease now host s =
     (if host = [] then (False, s)
      else case map_of (PendingAutoLeaseHosts s) host of
        None \<Rightarrow> (False, s)
      | Some markedAt \<Rightarrow>
          (now - markedAt \<le> autoLeaseMarkWindow,
           s\<lparr>PendingAutoLeaseHosts := AList.delete host (PendingAutoLeaseHosts s)\<rparr>))"

definition MarkPendingMCPDriftAck :: "string \<Rightarrow> string \<Rightarrow> State \<Rightarrow> State" where
  "MarkPendingMCPDriftAck server hash s =
     (if server = [] \<or> hash = [] then s
      else s\<lparr>PendingMCPDriftAck := AList.update server hash (PendingMCPDriftAck s)\<rparr>)"

definition PromotePendingMCPDriftAck :: "string \<Rightarrow> State \<Rightarrow> State" where
  "PromotePendingMCPDriftAck server s =
     (if server = [] then s
      else case map_of (PendingMCPDriftAck s) server of
        None \<Rightarrow> s
      | Some hash \<Rightarrow>
          s\<lparr>PendingMCPDriftAck := AList.delete server (PendingMCPDriftAck s),
            AcknowledgedMCPDrift := AList.update server hash (AcknowledgedMCPDrift s)\<rparr>)"

definition MCPDriftAcknowledged :: "State \<Rightarrow> string \<Rightarrow> string \<Rightarrow> bool" where
  "MCPDriftAcknowledged s server hash =
     (if server = [] \<or> hash = [] then False
      else map_get [] (AcknowledgedMCPDrift s) server = hash)"

definition MarkPendingEphemeralApproval :: "string \<Rightarrow> State \<Rightarrow> State" where
  "MarkPendingEphemeralApproval pkg s =
     (if pkg = [] then s
      else s\<lparr>PendingEphemeralApproval := AList.update pkg True (PendingEphemeralApproval s)\<rparr>)"

definition PromotePendingEphemeralApproval :: "string \<Rightarrow> State \<Rightarrow> State" where
  "PromotePendingEphemeralApproval pkg s =
     (if pkg = [] then s
      else if \<not> map_get False (PendingEphemeralApproval s) pkg then s
      else s\<lparr>PendingEphemeralApproval := AList.delete pkg (PendingEphemeralApproval s),
             ApprovedEphemeralPackages := AList.update pkg True (ApprovedEphemeralPackages s)\<rparr>)"

definition EphemeralApproved :: "State \<Rightarrow> string \<Rightarrow> bool" where
  "EphemeralApproved s pkg =
     (if pkg = [] then False else map_get False (ApprovedEphemeralPackages s) pkg)"

definition MarkPendingPushRemote :: "string \<Rightarrow> State \<Rightarrow> State" where
  "MarkPendingPushRemote remote s =
     (if remote = [] then s
      else s\<lparr>PendingPushRemote := AList.update remote True (PendingPushRemote s)\<rparr>)"

definition PromotePendingPushRemote :: "string \<Rightarrow> State \<Rightarrow> State" where
  "PromotePendingPushRemote remote s =
     (if remote = [] then s
      else if \<not> map_get False (PendingPushRemote s) remote then s
      else s\<lparr>PendingPushRemote := AList.delete remote (PendingPushRemote s),
             ApprovedPushRemotes := AList.update remote True (ApprovedPushRemotes s)\<rparr>)"

definition PushRemoteApproved :: "State \<Rightarrow> string \<Rightarrow> bool" where
  "PushRemoteApproved s remote =
     (if remote = [] then False else map_get False (ApprovedPushRemotes s) remote)"

subsection \<open>Secrets and turns (\<open>session_turns.go\<close>)\<close>

definition TurnGapThreshold :: Duration where
  "TurnGapThreshold = 30 * Second"

definition MarkSecretSession :: "Time \<Rightarrow> State \<Rightarrow> State" where
  "MarkSecretSession now s =
     s\<lparr>SecretSession := True, SessionEverSecret := True,
       SecretSessionSince := (if Time_IsZero (SecretSessionSince s) then now else SecretSessionSince s),
       ApprovalScope := (if ApprovalScope s = [] then ApprovalScopeTurn else ApprovalScope s),
       SecretApprovalTurn := TurnCounter s\<rparr>"

definition MarkSecretSessionWithScope :: "Time \<Rightarrow> ApprovalScope \<Rightarrow> State \<Rightarrow> State" where
  "MarkSecretSessionWithScope now scope s =
    (let s1 = s\<lparr>SecretSession := True, SessionEverSecret := True,
                SecretSessionSince := (if Time_IsZero (SecretSessionSince s) then now
                                       else SecretSessionSince s),
                ApprovalScope := (if ApprovalScope s = [] then ApprovalScopeTurn else ApprovalScope s),
                SecretApprovalTurn := TurnCounter s\<rparr>
     in if scope = ApprovalScopeTurn \<or> scope = ApprovalScopeSession
        then s1\<lparr>ApprovalScope := scope\<rparr> else s1)"

definition clearSecretSessionLocked :: "State \<Rightarrow> State" where
  "clearSecretSessionLocked s =
     s\<lparr>SecretSession := False, SecretSessionSince := 0, ApprovalScope := [], SecretApprovalTurn := 0\<rparr>"

definition downgradeSecretSessionLocked :: "State \<Rightarrow> State" where
  "downgradeSecretSessionLocked s = clearSecretSessionLocked (s\<lparr>SessionEverSecret := True\<rparr>)"

definition clearTurnEvidenceLocked :: "State \<Rightarrow> State" where
  "clearTurnEvidenceLocked s = s\<lparr>ActiveEvidence := [], UntrustedContentThisTurn := False\<rparr>"

text \<open>The conditional at the end of each turn advance.\<close>

definition expire_turn_secret :: "State \<Rightarrow> State" where
  "expire_turn_secret s =
     (if SecretSession s \<and> ApprovalScope s = ApprovalScopeTurn \<and> TurnCounter s > SecretApprovalTurn s
      then downgradeSecretSessionLocked s else s)"

definition MaybeAdvanceTurn :: "Time \<Rightarrow> State \<Rightarrow> State" where
  "MaybeAdvanceTurn now s =
     (if TurnAdvancedByHook s then s\<lparr>TurnAdvancedByHook := False, LastToolCallAt := now\<rparr>
      else
        (if \<not> Time_IsZero (LastToolCallAt s) \<and> now - LastToolCallAt s \<ge> TurnGapThreshold
         then expire_turn_secret (clearTurnEvidenceLocked (s\<lparr>TurnCounter := TurnCounter s + 1\<rparr>))
         else s)\<lparr>LastToolCallAt := now\<rparr>)"

definition AdvanceTurnByHook :: "State \<Rightarrow> State" where
  "AdvanceTurnByHook s =
     expire_turn_secret (clearTurnEvidenceLocked
       (s\<lparr>TurnCounter := TurnCounter s + 1, TurnAdvancedByHook := True\<rparr>))"

definition IncrementTurn :: "State \<Rightarrow> State" where
  "IncrementTurn s = expire_turn_secret (clearTurnEvidenceLocked (s\<lparr>TurnCounter := TurnCounter s + 1\<rparr>))"

definition ClearSecretSession :: "State \<Rightarrow> State" where
  "ClearSecretSession s = clearSecretSessionLocked s"

subsection \<open>Approval grants (\<open>session_approvals.go\<close>)\<close>

definition AddApprovalGrant :: "ApprovalGrant \<Rightarrow> State \<Rightarrow> State" where
  "AddApprovalGrant grant s =
     s\<lparr>ApprovalGrants := ApprovalGrants s @
        [grant\<lparr>Grant_Verb := strings_TrimSpace (Grant_Verb grant),
               Grant_Target := strings_TrimSpace (Grant_Target grant),
               Grant_Scope := (if Grant_Scope grant = [] then ''once'' else Grant_Scope grant)\<rparr>]\<rparr>"

definition grant_expired :: "Time \<Rightarrow> ApprovalGrant \<Rightarrow> bool" where
  "grant_expired now grant \<longleftrightarrow>
     \<not> Time_IsZero (Grant_ExpiresAt grant) \<and> now > Grant_ExpiresAt grant"

definition grant_matches :: "string \<Rightarrow> string \<Rightarrow> ApprovalGrant \<Rightarrow> bool" where
  "grant_matches verb target grant \<longleftrightarrow>
     Grant_Verb grant = verb \<and> (Grant_Target grant = target \<or> Grant_Target grant = ''*'')"

fun has_grant :: "Time \<Rightarrow> string \<Rightarrow> string \<Rightarrow> ApprovalGrant list \<Rightarrow> bool" where
  "has_grant now verb target [] = False"
| "has_grant now verb target (grant # grants) =
     (if grant_expired now grant then has_grant now verb target grants
      else if grant_matches verb target grant then True
      else has_grant now verb target grants)"

definition HasApprovalGrant :: "Time \<Rightarrow> string \<Rightarrow> string \<Rightarrow> State \<Rightarrow> bool" where
  "HasApprovalGrant now verb target s =
     has_grant now (strings_TrimSpace verb) (strings_TrimSpace target) (ApprovalGrants s)"

text \<open>One pass over the grants: the matched grant (as it was found) and those kept.\<close>

fun consume_loop ::
  "Time \<Rightarrow> string \<Rightarrow> string \<Rightarrow> ApprovalGrant option \<Rightarrow> ApprovalGrant list
     \<Rightarrow> ApprovalGrant option \<times> ApprovalGrant list" where
  "consume_loop now verb target matched [] = (matched, [])"
| "consume_loop now verb target matched (grant # grants) =
     (if grant_expired now grant then consume_loop now verb target matched grants
      else if matched = None \<and> grant_matches verb target grant then
        (case consume_loop now verb target (Some grant) grants of
           (m, out) \<Rightarrow>
             (m, (if Grant_UsesRemaining grant > 1
                  then [grant\<lparr>Grant_UsesRemaining := Grant_UsesRemaining grant - 1\<rparr>]
                  else if Grant_UsesRemaining grant = 0 \<and> Grant_Scope grant = ''session''
                  then [grant] else []) @ out))
      else (case consume_loop now verb target matched grants of (m, out) \<Rightarrow> (m, grant # out)))"

definition ConsumeApprovalGrant ::
  "Time \<Rightarrow> string \<Rightarrow> string \<Rightarrow> State \<Rightarrow> ApprovalGrant option \<times> State" where
  "ConsumeApprovalGrant now verb target s =
     (case consume_loop now (strings_TrimSpace verb) (strings_TrimSpace target) None (ApprovalGrants s) of
        (matched, out) \<Rightarrow> (matched, s\<lparr>ApprovalGrants := out\<rparr>))"

subsection \<open>Posture, injection, unlock (\<open>session_posture.go\<close>)\<close>

definition MarkUntrustedRead :: "State \<Rightarrow> State" where
  "MarkUntrustedRead s = s\<lparr>RecentlyReadUntrusted := True\<rparr>"

definition ClearUntrustedRead :: "State \<Rightarrow> State" where
  "ClearUntrustedRead s = s\<lparr>RecentlyReadUntrusted := False\<rparr>"

definition MarkUntrustedContentThisTurn :: "State \<Rightarrow> State" where
  "MarkUntrustedContentThisTurn s = s\<lparr>UntrustedContentThisTurn := True\<rparr>"

definition SetDenyAll :: "string \<Rightarrow> State \<Rightarrow> State" where
  "SetDenyAll reason s = s\<lparr>DenyAll := True, DenyAllReason := reason\<rparr>"

definition SetPendingInstall :: "string \<Rightarrow> string \<Rightarrow> string smap \<Rightarrow> string \<Rightarrow> State \<Rightarrow> State" where
  "SetPendingInstall cmd manager sentinelHashes lockfileHash s =
     s\<lparr>PendingInstall := Some \<lparr>PI_Command = cmd, PI_Manager = manager,
         PI_SentinelHashes = sentinelHashes, PI_LockfileHash = lockfileHash\<rparr>\<rparr>"

definition ClearPendingInstall :: "State \<Rightarrow> State" where
  "ClearPendingInstall s = s\<lparr>PendingInstall := None\<rparr>"

definition postureOrd :: "PostureState \<Rightarrow> int" where
  "postureOrd level =
     (if level = PostureStateCritical then 3
      else if level = PostureStateElevated then 2
      else if level = PostureStateNormal then 1
      else 0)"

definition RaisePosture :: "PostureState \<Rightarrow> State \<Rightarrow> State" where
  "RaisePosture level s =
     (if postureOrd level > postureOrd (Posture s) then s\<lparr>Posture := level\<rparr> else s)"

definition RecordMCPAuthorityChange :: "Time \<Rightarrow> State \<Rightarrow> State" where
  "RecordMCPAuthorityChange now s = s\<lparr>MCPAuthorityChangeAt := now\<rparr>"

definition RecentMCPAuthorityChange :: "Time \<Rightarrow> Duration \<Rightarrow> State \<Rightarrow> bool" where
  "RecentMCPAuthorityChange now window s \<longleftrightarrow>
     \<not> Time_IsZero (MCPAuthorityChangeAt s) \<and> now - MCPAuthorityChangeAt s \<le> window"

definition IsSuspicious :: "State \<Rightarrow> bool" where
  "IsSuspicious s =
     (if RecentlyReadUntrusted s then True
      else if AcknowledgedTaintedMCPServers s \<noteq> [] then True
      else Posture s = PostureStateElevated \<or> Posture s = PostureStateCritical)"

definition isMCPServerTaintedLocked :: "State \<Rightarrow> string \<Rightarrow> bool" where
  "isMCPServerTaintedLocked s serverName = slice_contains (TaintedMCPServers s) serverName"

definition clearAcknowledgedTaintedMCPServerLocked :: "string \<Rightarrow> State \<Rightarrow> State" where
  "clearAcknowledgedTaintedMCPServerLocked serverName s =
     (if AcknowledgedTaintedMCPServers s = [] then s
      else s\<lparr>AcknowledgedTaintedMCPServers :=
              filter (\<lambda>a. a \<noteq> serverName) (AcknowledgedTaintedMCPServers s)\<rparr>)"

definition AddTaintedMCPServer :: "string \<Rightarrow> State \<Rightarrow> State" where
  "AddTaintedMCPServer serverName s =
    (let s1 = clearAcknowledgedTaintedMCPServerLocked serverName s in
     if slice_contains (TaintedMCPServers s1) serverName then s1
     else s1\<lparr>TaintedMCPServers := TaintedMCPServers s1 @ [serverName]\<rparr>)"

definition AcknowledgeTaintedMCPServer :: "string \<Rightarrow> State \<Rightarrow> State" where
  "AcknowledgeTaintedMCPServer serverName s =
     (if \<not> isMCPServerTaintedLocked s serverName then s
      else if slice_contains (AcknowledgedTaintedMCPServers s) serverName then s
      else s\<lparr>AcknowledgedTaintedMCPServers := AcknowledgedTaintedMCPServers s @ [serverName]\<rparr>)"

definition AddMCPInjectionSignal :: "string \<Rightarrow> State \<Rightarrow> State" where
  "AddMCPInjectionSignal pattern s =
     s\<lparr>MCPInjectionSignals := append_unique (MCPInjectionSignals s) pattern\<rparr>"

definition IsMCPServerTainted :: "State \<Rightarrow> string \<Rightarrow> bool" where
  "IsMCPServerTainted s serverName = isMCPServerTaintedLocked s serverName"

definition IsTaintedMCPServerAcknowledged :: "State \<Rightarrow> string \<Rightarrow> bool" where
  "IsTaintedMCPServerAcknowledged s serverName =
     slice_contains (AcknowledgedTaintedMCPServers s) serverName"

definition SetPendingInjectionAlert :: "string \<Rightarrow> State \<Rightarrow> State" where
  "SetPendingInjectionAlert detail s =
     s\<lparr>PendingInjectionAlert := True, InjectionAlertDetail := detail\<rparr>"

definition ClearPendingInjectionAlert :: "State \<Rightarrow> State" where
  "ClearPendingInjectionAlert s = s\<lparr>PendingInjectionAlert := False, InjectionAlertDetail := []\<rparr>"

definition HasTransientRestrictions :: "State \<Rightarrow> bool" where
  "HasTransientRestrictions s \<longleftrightarrow>
     SecretSession s \<or> SessionEverSecret s \<or> RecentlyReadUntrusted s \<or> UntrustedContentThisTurn s
     \<or> SecretFingerprints s \<noteq> [] \<or> PendingInjectionAlert s
     \<or> Posture s = PostureStateElevated \<or> Posture s = PostureStateCritical
     \<or> TaintedMCPServers s \<noteq> [] \<or> MCPInjectionSignals s \<noteq> []"

definition ClearTransientRestrictions :: "State \<Rightarrow> State" where
  "ClearTransientRestrictions s =
     (clearSecretSessionLocked s)\<lparr>
       SessionEverSecret := False, RecentlyReadUntrusted := False, UntrustedContentThisTurn := False,
       SecretFingerprints := [], FingerprintSalt := [], PendingInjectionAlert := False,
       InjectionAlertDetail := [], Posture := PostureStateNormal, TaintedMCPServers := [],
       AcknowledgedTaintedMCPServers := [], MCPInjectionSignals := []\<rparr>"

subsection \<open>Denied tool uses (\<open>hook_integrity.go\<close>)\<close>

definition maxDeniedToolUses :: nat where
  "maxDeniedToolUses = 256"

definition RecordDeniedToolUse :: "string \<Rightarrow> State \<Rightarrow> State" where
  "RecordDeniedToolUse toolUseID s =
     (if toolUseID = [] then s
      else if slice_contains (DeniedToolUses s) toolUseID then s
      else
        let uses = DeniedToolUses s @ [toolUseID] in
        s\<lparr>DeniedToolUses :=
            (if length uses > maxDeniedToolUses then drop (length uses - maxDeniedToolUses) uses
             else uses)\<rparr>)"

definition WasToolUseDenied :: "State \<Rightarrow> string \<Rightarrow> bool" where
  "WasToolUseDenied s toolUseID =
     (if toolUseID = [] then False else slice_contains (DeniedToolUses s) toolUseID)"

subsection \<open>Secret fingerprints (\<open>fingerprint.go\<close>)\<close>

text \<open>\<open>random\<close> is what \<open>rand.Read\<close> puts into the sixteen-byte buffer.\<close>

definition SecretSalt :: "string \<Rightarrow> State \<Rightarrow> string \<times> State" where
  "SecretSalt random s =
    (let s1 = (if FingerprintSalt s = [] then s\<lparr>FingerprintSalt := hex_EncodeToString random\<rparr> else s)
     in (hex_DecodeString (FingerprintSalt s1), s1))"

definition AddSecretFingerprints :: "int smap \<Rightarrow> State \<Rightarrow> State" where
  "AddSecretFingerprints fps s =
     (if fps = [] then s
      else s\<lparr>SecretFingerprints := fold (\<lambda>(h, n) m. AList.update h n m) fps (SecretFingerprints s)\<rparr>)"

definition SecretFingerprintsCopy :: "State \<Rightarrow> int smap" where
  "SecretFingerprintsCopy s = (if SecretFingerprints s = [] then [] else SecretFingerprints s)"

definition FingerprintSaltBytes :: "State \<Rightarrow> string" where
  "FingerprintSaltBytes s =
     (if FingerprintSalt s = [] then [] else hex_DecodeString (FingerprintSalt s))"

subsection \<open>Lineage (\<open>lineage.go\<close>)\<close>

definition evidence_known :: "State \<Rightarrow> string \<Rightarrow> string \<Rightarrow> LineageLabel list \<Rightarrow> bool" where
  "evidence_known s sourceKind sourceRef normalized =
     list_ex (\<lambda>ev. Ev_SourceKind ev = sourceKind \<and> Ev_SourceRef ev = sourceRef
                 \<and> Ev_Turn ev = TurnCounter s \<and> sameLineageLabels (Ev_Labels ev) normalized)
       (ActiveEvidence s)"

definition RecordLineageEvidence ::
  "Time \<Rightarrow> string \<Rightarrow> string \<Rightarrow> string \<Rightarrow> LineageLabel list \<Rightarrow> State \<Rightarrow> State" where
  "RecordLineageEvidence now sourceKind sourceRef confidence labels s =
     (if labels = [] then s
      else
        let normalized = normalizeLineageLabels labels in
        if evidence_known s sourceKind sourceRef normalized then s
        else
          let sum = sha256_Sum256 (sourceKind @ ''|'' @ sourceRef @ ''|'' @ strconv_Itoa (TurnCounter s)
                      @ ''|'' @ strconv_Itoa (int (length (ActiveEvidence s)))) in
          s\<lparr>ActiveEvidence := ActiveEvidence s @
              [\<lparr>Ev_ID = hex_EncodeToString (take 8 sum), Ev_SourceKind = sourceKind,
                Ev_SourceRef = sourceRef, Ev_Turn = TurnCounter s, Ev_Confidence = confidence,
                Ev_Labels = normalized, Ev_RecordedAt = now\<rparr>]\<rparr>)"

definition empty_path_record :: DerivedPathRecord where
  "empty_path_record = \<lparr>DP_EvidenceIDs = [], DP_Labels = [], DP_UpdatedAt = 0\<rparr>"

fun attach_loop :: "LineageEvidence list \<Rightarrow> DerivedPathRecord \<Rightarrow> DerivedPathRecord" where
  "attach_loop [] r = r"
| "attach_loop (ev # evs) r =
     attach_loop evs
       (r\<lparr>DP_EvidenceIDs := appendIfMissing (DP_EvidenceIDs r) (Ev_ID ev),
          DP_Labels := mergeLineageLabels (DP_Labels r) (Ev_Labels ev)\<rparr>)"

definition AttachActiveEvidenceToPath :: "Time \<Rightarrow> string \<Rightarrow> State \<Rightarrow> State" where
  "AttachActiveEvidenceToPath now path s =
     (if path = [] then s
      else if ActiveEvidence s = [] then s
      else
        let r = attach_loop (ActiveEvidence s) (map_get empty_path_record (DerivedFileLineage s) path) in
        s\<lparr>DerivedFileLineage := AList.update path (r\<lparr>DP_UpdatedAt := now\<rparr>) (DerivedFileLineage s)\<rparr>)"

definition AttachLineageLabelsToPath :: "Time \<Rightarrow> string \<Rightarrow> LineageLabel list \<Rightarrow> State \<Rightarrow> State" where
  "AttachLineageLabelsToPath now path labels s =
     (if path = [] \<or> labels = [] then s
      else
        let r = map_get empty_path_record (DerivedFileLineage s) path in
        s\<lparr>DerivedFileLineage := AList.update path
            (r\<lparr>DP_Labels := mergeLineageLabels (DP_Labels r) (normalizeLineageLabels labels),
               DP_UpdatedAt := now\<rparr>)
            (DerivedFileLineage s)\<rparr>)"

definition DerivedLabelsForPath :: "State \<Rightarrow> string \<Rightarrow> LineageLabel list" where
  "DerivedLabelsForPath s path =
     (case map_of (DerivedFileLineage s) path of None \<Rightarrow> [] | Some r \<Rightarrow> DP_Labels r)"

fun derived_labels_loop :: "State \<Rightarrow> string list \<Rightarrow> LineageLabel list \<Rightarrow> LineageLabel list" where
  "derived_labels_loop s [] out = out"
| "derived_labels_loop s (path # paths) out =
     (case map_of (DerivedFileLineage s) path of
        None \<Rightarrow> derived_labels_loop s paths out
      | Some r \<Rightarrow> derived_labels_loop s paths (mergeLineageLabels out (DP_Labels r)))"

definition DerivedLabelsForPaths :: "State \<Rightarrow> string list \<Rightarrow> LineageLabel list" where
  "DerivedLabelsForPaths s paths = derived_labels_loop s paths []"

definition DerivedPaths :: "State \<Rightarrow> string list" where
  "DerivedPaths s = sort (map fst (DerivedFileLineage s))"

fun DeclassifyPath :: "string list \<Rightarrow> State \<Rightarrow> string option \<times> State" where
  "DeclassifyPath [] s = (None, s)"
| "DeclassifyPath (c # cs) s =
     (if c = [] then DeclassifyPath cs s
      else case map_of (DerivedFileLineage s) c of
        Some _ \<Rightarrow> (Some c, s\<lparr>DerivedFileLineage := AList.delete c (DerivedFileLineage s)\<rparr>)
      | None \<Rightarrow> DeclassifyPath cs s)"

subsection \<open>Lemmas\<close>

lemma map_get_update [simp]: "map_get z (AList.update k v m) k' = (if k' = k then v else map_get z m k')"
  by (simp add: map_get_def update_conv')

lemma map_get_delete [simp]: "map_get z (AList.delete k m) k' = (if k' = k then z else map_get z m k')"
  by (simp add: map_get_def delete_conv')

lemma map_of_update_iff [simp]: "map_of (AList.update k v m) k' = (if k' = k then Some v else map_of m k')"
  by (simp add: update_conv')

lemma map_of_delete_iff [simp]: "map_of (AList.delete k m) k' = (if k' = k then None else map_of m k')"
  by (simp add: delete_conv')

lemma attach_loop_labels:
  "set (DP_Labels (attach_loop evs r)) = set (DP_Labels r) \<union> (\<Union>ev \<in> set evs. set (Ev_Labels ev))"
  by (induction evs arbitrary: r) auto

lemma derived_labels_loop_set:
  "set (derived_labels_loop s paths out) = set out \<union> (\<Union>p \<in> set paths. set (DerivedLabelsForPath s p))"
  by (induction paths arbitrary: out) (auto simp: DerivedLabelsForPath_def split: option.splits)

lemma postureOrd_bounds: "0 \<le> postureOrd p \<and> postureOrd p \<le> 3"
  by (simp add: postureOrd_def)

lemma has_grant_iff:
  "has_grant now verb target grants \<longleftrightarrow>
     (\<exists>g \<in> set grants. \<not> grant_expired now g \<and> grant_matches verb target g)"
  by (induction grants) auto

end
