(* ===== verification/Session_Run.thy ===== *)
theory Session_Run
  imports Session_State
begin

text \<open>
  Runs of a session: every state-changing method of \<open>pkg/session\<close> as one operation, a run
  as a sequence of operations from a new state. Three interfaces carry the proofs: a flag
  that only named operations release (\<open>sticky_flag\<close>), an invariant of every operation
  (\<open>run_invariant\<close>), and an approval that exists only after a question was marked and its
  execution observed (\<open>observed_approval\<close>). Each is interpreted on the session's own
  operations, several times.

  Commands of \<open>cmd/sir\<close> that assign fields directly (\<open>sir doctor\<close> resetting \<open>DenyAll\<close>) are
  outside these runs.
\<close>

subsection \<open>Operations\<close>

datatype session_op =
    OpBumpMCPOnboardingCall string
  | OpRecordPromptedIntent string
  | OpMarkPendingAutoLease Time string
  | OpConsumePendingAutoLease Time string
  | OpMarkPendingMCPDriftAck string string
  | OpPromotePendingMCPDriftAck string
  | OpMarkPendingEphemeralApproval string
  | OpPromotePendingEphemeralApproval string
  | OpMarkPendingPushRemote string
  | OpPromotePendingPushRemote string
  | OpMarkSecretSession Time
  | OpMarkSecretSessionWithScope Time ApprovalScope
  | OpMaybeAdvanceTurn Time
  | OpAdvanceTurnByHook
  | OpIncrementTurn
  | OpClearSecretSession
  | OpAddApprovalGrant ApprovalGrant
  | OpConsumeApprovalGrant Time string string
  | OpMarkUntrustedRead
  | OpClearUntrustedRead
  | OpMarkUntrustedContentThisTurn
  | OpSetDenyAll string
  | OpSetPendingInstall string string "string smap" string
  | OpClearPendingInstall
  | OpRaisePosture PostureState
  | OpRecordMCPAuthorityChange Time
  | OpAddTaintedMCPServer string
  | OpAcknowledgeTaintedMCPServer string
  | OpAddMCPInjectionSignal string
  | OpSetPendingInjectionAlert string
  | OpClearPendingInjectionAlert
  | OpClearTransientRestrictions
  | OpRecordDeniedToolUse string
  | OpSecretSalt string
  | OpAddSecretFingerprints "int smap"
  | OpRecordLineageEvidence Time string string string "LineageLabel list"
  | OpAttachActiveEvidenceToPath Time string
  | OpAttachLineageLabelsToPath Time string "LineageLabel list"
  | OpDeclassifyPath "string list"

fun apply_op :: "session_op \<Rightarrow> State \<Rightarrow> State" where
  "apply_op (OpBumpMCPOnboardingCall n) s = snd (BumpMCPOnboardingCall n s)"
| "apply_op (OpRecordPromptedIntent k) s = snd (RecordPromptedIntent k s)"
| "apply_op (OpMarkPendingAutoLease now h) s = MarkPendingAutoLease now h s"
| "apply_op (OpConsumePendingAutoLease now h) s = snd (ConsumePendingAutoLease now h s)"
| "apply_op (OpMarkPendingMCPDriftAck srv h) s = MarkPendingMCPDriftAck srv h s"
| "apply_op (OpPromotePendingMCPDriftAck srv) s = PromotePendingMCPDriftAck srv s"
| "apply_op (OpMarkPendingEphemeralApproval p) s = MarkPendingEphemeralApproval p s"
| "apply_op (OpPromotePendingEphemeralApproval p) s = PromotePendingEphemeralApproval p s"
| "apply_op (OpMarkPendingPushRemote r) s = MarkPendingPushRemote r s"
| "apply_op (OpPromotePendingPushRemote r) s = PromotePendingPushRemote r s"
| "apply_op (OpMarkSecretSession now) s = MarkSecretSession now s"
| "apply_op (OpMarkSecretSessionWithScope now sc) s = MarkSecretSessionWithScope now sc s"
| "apply_op (OpMaybeAdvanceTurn now) s = MaybeAdvanceTurn now s"
| "apply_op OpAdvanceTurnByHook s = AdvanceTurnByHook s"
| "apply_op OpIncrementTurn s = IncrementTurn s"
| "apply_op OpClearSecretSession s = ClearSecretSession s"
| "apply_op (OpAddApprovalGrant g) s = AddApprovalGrant g s"
| "apply_op (OpConsumeApprovalGrant now v t) s = snd (ConsumeApprovalGrant now v t s)"
| "apply_op OpMarkUntrustedRead s = MarkUntrustedRead s"
| "apply_op OpClearUntrustedRead s = ClearUntrustedRead s"
| "apply_op OpMarkUntrustedContentThisTurn s = MarkUntrustedContentThisTurn s"
| "apply_op (OpSetDenyAll r) s = SetDenyAll r s"
| "apply_op (OpSetPendingInstall c m h l) s = SetPendingInstall c m h l s"
| "apply_op OpClearPendingInstall s = ClearPendingInstall s"
| "apply_op (OpRaisePosture p) s = RaisePosture p s"
| "apply_op (OpRecordMCPAuthorityChange now) s = RecordMCPAuthorityChange now s"
| "apply_op (OpAddTaintedMCPServer srv) s = AddTaintedMCPServer srv s"
| "apply_op (OpAcknowledgeTaintedMCPServer srv) s = AcknowledgeTaintedMCPServer srv s"
| "apply_op (OpAddMCPInjectionSignal p) s = AddMCPInjectionSignal p s"
| "apply_op (OpSetPendingInjectionAlert d) s = SetPendingInjectionAlert d s"
| "apply_op OpClearPendingInjectionAlert s = ClearPendingInjectionAlert s"
| "apply_op OpClearTransientRestrictions s = ClearTransientRestrictions s"
| "apply_op (OpRecordDeniedToolUse i) s = RecordDeniedToolUse i s"
| "apply_op (OpSecretSalt r) s = snd (SecretSalt r s)"
| "apply_op (OpAddSecretFingerprints f) s = AddSecretFingerprints f s"
| "apply_op (OpRecordLineageEvidence now k r c ls) s = RecordLineageEvidence now k r c ls s"
| "apply_op (OpAttachActiveEvidenceToPath now p) s = AttachActiveEvidenceToPath now p s"
| "apply_op (OpAttachLineageLabelsToPath now p ls) s = AttachLineageLabelsToPath now p ls s"
| "apply_op (OpDeclassifyPath cs) s = snd (DeclassifyPath cs s)"

inductive reachable :: "State \<Rightarrow> bool" where
  start: "reachable (NewState unixNano now root)"
| step: "reachable s \<Longrightarrow> reachable (apply_op op s)"

lemma reachable_run: "reachable s \<Longrightarrow> reachable (fold apply_op ops s)"
  by (induction ops arbitrary: s) (auto intro: reachable.step)

subsection \<open>Interfaces\<close>

locale run_invariant =
  fixes step :: "'op \<Rightarrow> 's \<Rightarrow> 's" and inv :: "'s \<Rightarrow> bool"
  assumes keeps: "inv s \<Longrightarrow> inv (step op s)"
begin

lemma run_keeps: "inv s \<Longrightarrow> inv (fold step ops s)"
  by (induction ops arbitrary: s) (simp_all add: keeps)

end

locale sticky_flag =
  fixes step :: "'op \<Rightarrow> 's \<Rightarrow> 's" and flag :: "'s \<Rightarrow> bool" and releases :: "'op \<Rightarrow> bool"
  assumes sticks: "flag s \<Longrightarrow> \<not> releases op \<Longrightarrow> flag (step op s)"
begin

lemma run_sticks: "flag s \<Longrightarrow> list_all (\<lambda>op. \<not> releases op) ops \<Longrightarrow> flag (fold step ops s)"
  by (induction ops arbitrary: s) (simp_all add: sticks)

lemma released_only_by: "flag s \<Longrightarrow> \<not> flag (fold step ops s) \<Longrightarrow> list_ex releases ops"
  using run_sticks [of s ops] by (auto simp: list_ex_iff list_all_iff)

end

text \<open>A flag that nothing releases is an invariant.\<close>

sublocale run_invariant \<subseteq> invariant_flag: sticky_flag step inv "\<lambda>_. False"
  by unfold_locales (rule keeps)

locale observed_approval =
  fixes step :: "'op \<Rightarrow> 's \<Rightarrow> 's"
    and marks promotes :: "'op \<Rightarrow> bool"
    and pending approved :: "'s \<Rightarrow> bool"
  assumes pending_by_mark: "pending (step op s) \<Longrightarrow> pending s \<or> marks op"
    and approved_by_promote: "approved (step op s) \<Longrightarrow> approved s \<or> (pending s \<and> promotes op)"
begin

lemma pending_run: "pending (fold step ops s) \<Longrightarrow> \<not> pending s \<Longrightarrow> list_ex marks ops"
proof (induction ops arbitrary: s)
  case Nil
  then show ?case by simp
next
  case (Cons op ops)
  then show ?case using pending_by_mark [of op s] by (cases "pending (step op s)") auto
qed

text \<open>Nothing is approved that was not first marked and later promoted.\<close>

lemma approved_run:
  assumes "approved (fold step ops s)" and "\<not> approved s" and "\<not> pending s"
  shows "\<exists>xs m ys p zs. ops = xs @ m # ys @ p # zs \<and> marks m \<and> promotes p"
  using assms(1)
proof (induction ops rule: rev_induct)
  case Nil
  with assms(2) show ?case by simp
next
  case (snoc op ops)
  then consider "approved (fold step ops s)" | "pending (fold step ops s)" "promotes op"
    using approved_by_promote [of op "fold step ops s"] by auto
  then show ?case
  proof cases
    case 1
    from snoc.IH [OF this] obtain xs m ys p zs
      where "ops = xs @ m # ys @ p # zs" "marks m" "promotes p" by blast
    then show ?thesis by (intro exI [of _ xs] exI [of _ m] exI [of _ ys] exI [of _ p] exI [of _ "zs @ [op]"]) simp
  next
    case 2
    from pending_run [OF 2(1) assms(3)] obtain m where "m \<in> set ops" "marks m"
      by (auto simp: list_ex_iff)
    moreover from this(1) obtain xs ys where "ops = xs @ m # ys" by (auto dest: split_list)
    ultimately show ?thesis
      using 2(2) by (intro exI [of _ xs] exI [of _ m] exI [of _ ys] exI [of _ op] exI [of _ "[]"]) simp
  qed
qed

end

subsection \<open>Interpretations\<close>

lemmas turn_defs =
  MaybeAdvanceTurn_def AdvanceTurnByHook_def IncrementTurn_def ClearSecretSession_def
  expire_turn_secret_def downgradeSecretSessionLocked_def clearSecretSessionLocked_def
  clearTurnEvidenceLocked_def MarkSecretSession_def MarkSecretSessionWithScope_def

lemmas approval_defs =
  BumpMCPOnboardingCall_def RecordPromptedIntent_def MarkPendingAutoLease_def
  ConsumePendingAutoLease_def MarkPendingMCPDriftAck_def PromotePendingMCPDriftAck_def
  MarkPendingEphemeralApproval_def PromotePendingEphemeralApproval_def MarkPendingPushRemote_def
  PromotePendingPushRemote_def AddApprovalGrant_def ConsumeApprovalGrant_def

lemmas posture_op_defs =
  MarkUntrustedRead_def ClearUntrustedRead_def MarkUntrustedContentThisTurn_def SetDenyAll_def
  SetPendingInstall_def ClearPendingInstall_def RaisePosture_def RecordMCPAuthorityChange_def
  AddTaintedMCPServer_def AcknowledgeTaintedMCPServer_def clearAcknowledgedTaintedMCPServerLocked_def
  AddMCPInjectionSignal_def SetPendingInjectionAlert_def ClearPendingInjectionAlert_def
  ClearTransientRestrictions_def RecordDeniedToolUse_def SecretSalt_def AddSecretFingerprints_def

lemmas lineage_op_defs =
  RecordLineageEvidence_def AttachActiveEvidenceToPath_def AttachLineageLabelsToPath_def

lemmas op_defs = turn_defs approval_defs posture_op_defs lineage_op_defs Let_def split_beta

lemma DeclassifyPath_only_lineage:
  "\<exists>l. snd (DeclassifyPath cs s) = s\<lparr>DerivedFileLineage := l\<rparr>"
proof (induction cs)
  case Nil
  then show ?case by (metis DeclassifyPath.simps(1) snd_conv State.surjective State.update_convs(33))
next
  case (Cons c cs)
  then show ?case by (auto split: option.split)
qed

lemma DeclassifyPath_selectors [simp]:
  "SessionEverSecret (snd (DeclassifyPath cs s)) = SessionEverSecret s"
  "SecretSession (snd (DeclassifyPath cs s)) = SecretSession s"
  "ApprovalScope (snd (DeclassifyPath cs s)) = ApprovalScope s"
  "SecretApprovalTurn (snd (DeclassifyPath cs s)) = SecretApprovalTurn s"
  "TurnCounter (snd (DeclassifyPath cs s)) = TurnCounter s"
  "DenyAll (snd (DeclassifyPath cs s)) = DenyAll s"
  "Posture (snd (DeclassifyPath cs s)) = Posture s"
  "TaintedMCPServers (snd (DeclassifyPath cs s)) = TaintedMCPServers s"
  "AcknowledgedTaintedMCPServers (snd (DeclassifyPath cs s)) = AcknowledgedTaintedMCPServers s"
  "DeniedToolUses (snd (DeclassifyPath cs s)) = DeniedToolUses s"
  "ActiveEvidence (snd (DeclassifyPath cs s)) = ActiveEvidence s"
  "SecretFingerprints (snd (DeclassifyPath cs s)) = SecretFingerprints s"
  "PendingEphemeralApproval (snd (DeclassifyPath cs s)) = PendingEphemeralApproval s"
  "ApprovedEphemeralPackages (snd (DeclassifyPath cs s)) = ApprovedEphemeralPackages s"
  "PendingPushRemote (snd (DeclassifyPath cs s)) = PendingPushRemote s"
  "ApprovedPushRemotes (snd (DeclassifyPath cs s)) = ApprovedPushRemotes s"
  "PendingMCPDriftAck (snd (DeclassifyPath cs s)) = PendingMCPDriftAck s"
  "AcknowledgedMCPDrift (snd (DeclassifyPath cs s)) = AcknowledgedMCPDrift s"
  "ApprovalGrants (snd (DeclassifyPath cs s)) = ApprovalGrants s"
  using DeclassifyPath_only_lineage [of cs s] by auto

lemma map_of_fold_update:
  "map_of m k \<noteq> None \<Longrightarrow> map_of (fold (\<lambda>(h, n) m. AList.update h n m) fps m) k \<noteq> None"
  by (induction fps arbitrary: m) auto

interpretation ever_secret: sticky_flag apply_op SessionEverSecret "\<lambda>op. op = OpClearTransientRestrictions"
proof unfold_locales
  fix s :: State and op assume "SessionEverSecret s" "op \<noteq> OpClearTransientRestrictions"
  then show "SessionEverSecret (apply_op op s)"
    by (cases op) (auto simp: op_defs split: option.split)
qed

interpretation deny_all: run_invariant apply_op DenyAll
proof unfold_locales
  fix s :: State and op assume "DenyAll s"
  then show "DenyAll (apply_op op s)"
    by (cases op) (auto simp: op_defs split: option.split)
qed

interpretation posture: sticky_flag apply_op "\<lambda>s. n \<le> postureOrd (Posture s)"
  "\<lambda>op. op = OpClearTransientRestrictions" for n
proof unfold_locales
  fix s :: State and op assume "n \<le> postureOrd (Posture s)" "op \<noteq> OpClearTransientRestrictions"
  then show "n \<le> postureOrd (Posture (apply_op op s))"
    by (cases op) (auto simp: op_defs split: option.split)
qed

interpretation tainted_server: sticky_flag apply_op "\<lambda>s. IsMCPServerTainted s srv"
  "\<lambda>op. op = OpClearTransientRestrictions" for srv
proof unfold_locales
  fix s :: State and op assume "IsMCPServerTainted s srv" "op \<noteq> OpClearTransientRestrictions"
  then show "IsMCPServerTainted (apply_op op s) srv"
    by (cases op) (auto simp: op_defs IsMCPServerTainted_def isMCPServerTaintedLocked_def split: option.split)
qed

interpretation fingerprint: sticky_flag apply_op "\<lambda>s. map_of (SecretFingerprints s) h \<noteq> None"
  "\<lambda>op. op = OpClearTransientRestrictions" for h
proof unfold_locales
  fix s :: State and op
  assume known: "map_of (SecretFingerprints s) h \<noteq> None" and op: "op \<noteq> OpClearTransientRestrictions"
  then show "map_of (SecretFingerprints (apply_op op s)) h \<noteq> None"
    using map_of_fold_update [OF known]
    by (cases op) (auto simp: op_defs split: option.split)
qed

text \<open>Operations that may remove the lineage of a path: declassifying that path.\<close>

definition declassifies :: "string \<Rightarrow> session_op \<Rightarrow> bool" where
  "declassifies path op = (case op of OpDeclassifyPath cs \<Rightarrow> path \<in> set cs | _ \<Rightarrow> False)"

lemma DeclassifyPath_other:
  "path \<notin> set cs \<Longrightarrow> DerivedLabelsForPath (snd (DeclassifyPath cs s)) path = DerivedLabelsForPath s path"
  by (induction cs) (auto simp: DerivedLabelsForPath_def split: option.split)

interpretation path_label: sticky_flag apply_op "\<lambda>s. l \<in> set (DerivedLabelsForPath s path)"
  "declassifies path" for l path
proof unfold_locales
  fix s :: State and op
  assume l: "l \<in> set (DerivedLabelsForPath s path)" and op: "\<not> declassifies path op"
  then show "l \<in> set (DerivedLabelsForPath (apply_op op s) path)"
  proof (cases op)
    case (OpDeclassifyPath cs)
    with l op show ?thesis by (simp add: DeclassifyPath_other declassifies_def)
  qed (auto simp: op_defs DerivedLabelsForPath_def attach_loop_labels map_get_def split: option.splits)
qed

interpretation ephemeral: observed_approval apply_op "\<lambda>op. op = OpMarkPendingEphemeralApproval pkg"
  "\<lambda>op. op = OpPromotePendingEphemeralApproval pkg"
  "\<lambda>s. map_get False (PendingEphemeralApproval s) pkg" "\<lambda>s. EphemeralApproved s pkg" for pkg
proof unfold_locales
  fix s :: State and op
  show "map_get False (PendingEphemeralApproval (apply_op op s)) pkg \<Longrightarrow>
      map_get False (PendingEphemeralApproval s) pkg \<or> op = OpMarkPendingEphemeralApproval pkg"
    by (cases op) (auto simp: op_defs split: option.splits if_splits)
  show "EphemeralApproved (apply_op op s) pkg \<Longrightarrow> EphemeralApproved s pkg
      \<or> map_get False (PendingEphemeralApproval s) pkg \<and> op = OpPromotePendingEphemeralApproval pkg"
    by (cases op) (auto simp: op_defs EphemeralApproved_def split: option.splits if_splits)
qed

interpretation push_remote: observed_approval apply_op "\<lambda>op. op = OpMarkPendingPushRemote r"
  "\<lambda>op. op = OpPromotePendingPushRemote r"
  "\<lambda>s. map_get False (PendingPushRemote s) r" "\<lambda>s. PushRemoteApproved s r" for r
proof unfold_locales
  fix s :: State and op
  show "map_get False (PendingPushRemote (apply_op op s)) r \<Longrightarrow>
      map_get False (PendingPushRemote s) r \<or> op = OpMarkPendingPushRemote r"
    by (cases op) (auto simp: op_defs split: option.splits if_splits)
  show "PushRemoteApproved (apply_op op s) r \<Longrightarrow> PushRemoteApproved s r
      \<or> map_get False (PendingPushRemote s) r \<and> op = OpPromotePendingPushRemote r"
    by (cases op) (auto simp: op_defs PushRemoteApproved_def split: option.splits if_splits)
qed

interpretation drift: observed_approval apply_op "\<lambda>op. op = OpMarkPendingMCPDriftAck srv h"
  "\<lambda>op. op = OpPromotePendingMCPDriftAck srv"
  "\<lambda>s. map_of (PendingMCPDriftAck s) srv = Some h" "\<lambda>s. MCPDriftAcknowledged s srv h" for srv h
proof unfold_locales
  fix s :: State and op
  show "map_of (PendingMCPDriftAck (apply_op op s)) srv = Some h \<Longrightarrow>
      map_of (PendingMCPDriftAck s) srv = Some h \<or> op = OpMarkPendingMCPDriftAck srv h"
    by (cases op) (auto simp: op_defs split: option.splits if_splits)
  show "MCPDriftAcknowledged (apply_op op s) srv h \<Longrightarrow> MCPDriftAcknowledged s srv h
      \<or> map_of (PendingMCPDriftAck s) srv = Some h \<and> op = OpPromotePendingMCPDriftAck srv"
    by (cases op) (auto simp: op_defs MCPDriftAcknowledged_def split: option.splits if_splits)
qed

end
