(* ===== verification/Session_Properties.thy ===== *)
theory Session_Properties
  imports Session_Run
begin

text \<open>
  What holds of every session run: the well-formedness invariant, the monotone taint and
  the events that end it, approvals, grants with a bounded number of uses, the bounded
  memory of denied calls, and the unlock operation.
\<close>

subsection \<open>The invariant\<close>

definition secret_inv :: "State \<Rightarrow> bool" where
  "secret_inv s \<longleftrightarrow>
     (if SecretSession s
      then SessionEverSecret s \<and> ApprovalScope s \<in> {ApprovalScopeTurn, ApprovalScopeSession}
           \<and> SecretApprovalTurn s \<le> TurnCounter s
      else ApprovalScope s = [] \<and> SecretApprovalTurn s = 0)
     \<and> 0 \<le> TurnCounter s"

definition mcp_inv :: "State \<Rightarrow> bool" where
  "mcp_inv s \<longleftrightarrow>
     distinct (TaintedMCPServers s) \<and> distinct (AcknowledgedTaintedMCPServers s)
     \<and> set (AcknowledgedTaintedMCPServers s) \<subseteq> set (TaintedMCPServers s)"

definition denied_inv :: "State \<Rightarrow> bool" where
  "denied_inv s \<longleftrightarrow>
     distinct (DeniedToolUses s) \<and> length (DeniedToolUses s) \<le> maxDeniedToolUses
     \<and> [] \<notin> set (DeniedToolUses s)"

definition evidence_inv :: "State \<Rightarrow> bool" where
  "evidence_inv s \<longleftrightarrow>
     (\<forall>ev \<in> set (ActiveEvidence s). Ev_Turn ev = TurnCounter s \<and> Ev_Labels ev \<noteq> []
        \<and> sorted_wrt (<) (Ev_Labels ev))"

definition path_inv :: "State \<Rightarrow> bool" where
  "path_inv s \<longleftrightarrow> (\<forall>path. sorted_wrt (<) (DerivedLabelsForPath s path))"

definition session_inv :: "State \<Rightarrow> bool" where
  "session_inv s \<longleftrightarrow> secret_inv s \<and> mcp_inv s \<and> denied_inv s \<and> evidence_inv s \<and> path_inv s"

lemma secret_inv_step: "secret_inv s \<Longrightarrow> secret_inv (apply_op op s)"
  by (cases op) (auto simp: secret_inv_def op_defs split: option.split if_splits)

lemma mcp_inv_step: "mcp_inv s \<Longrightarrow> mcp_inv (apply_op op s)"
  by (cases op) (auto simp: mcp_inv_def op_defs isMCPServerTaintedLocked_def split: option.split if_splits)

lemma denied_inv_step: "denied_inv s \<Longrightarrow> denied_inv (apply_op op s)"
proof (cases op)
  case (OpRecordDeniedToolUse i)
  assume inv: "denied_inv s"
  show ?thesis
  proof (cases "i = [] \<or> i \<in> set (DeniedToolUses s)")
    case True
    with inv OpRecordDeniedToolUse show ?thesis by (auto simp: RecordDeniedToolUse_def)
  next
    case False
    with inv OpRecordDeniedToolUse show ?thesis
      by (auto simp: RecordDeniedToolUse_def denied_inv_def Let_def maxDeniedToolUses_def
          dest: in_set_dropD)
  qed
qed (auto simp: denied_inv_def op_defs split: option.split)

lemma merge_sorted: "sorted_wrt (<) (mergeLineageLabels a b)"
  by (simp add: merge_eq)

lemma normalize_sorted: "sorted_wrt (<) (normalizeLineageLabels a)"
  by (simp add: normalize_eq)

lemma normalize_nonempty: "a \<noteq> [] \<Longrightarrow> normalizeLineageLabels a \<noteq> []"
  using set_normalize [of a] by (metis set_empty)

lemma evidence_inv_step: "evidence_inv s \<Longrightarrow> evidence_inv (apply_op op s)"
  by (cases op) (auto simp: evidence_inv_def op_defs normalize_sorted normalize_nonempty
      split: option.split)

lemma attach_loop_sorted: "sorted_wrt (<) (DP_Labels r) \<Longrightarrow> sorted_wrt (<) (DP_Labels (attach_loop evs r))"
  by (induction evs arbitrary: r) (simp_all add: merge_sorted)

lemma DeclassifyPath_labels:
  "DerivedLabelsForPath (snd (DeclassifyPath cs s)) p \<in> {DerivedLabelsForPath s p, []}"
  by (induction cs) (auto simp: DerivedLabelsForPath_def split: option.split)

lemma path_inv_step:
  assumes "path_inv s"
  shows "path_inv (apply_op op s)"
proof -
  have old: "sorted_wrt (<) (DerivedLabelsForPath s p)" for p
    using assms by (simp add: path_inv_def)
  have get: "sorted_wrt (<) (DP_Labels (map_get empty_path_record (DerivedFileLineage s) p))" for p
    using old [of p]
    by (simp add: map_get_def DerivedLabelsForPath_def empty_path_record_def split: option.splits)
  have "sorted_wrt (<) (DerivedLabelsForPath (apply_op op s) p)" for p
  proof (cases op)
    case (OpDeclassifyPath cs)
    with DeclassifyPath_labels [of cs s p] old [of p] show ?thesis by auto
  next
    case (OpAttachActiveEvidenceToPath now path)
    with old [of p] get [of path] show ?thesis
      by (simp add: AttachActiveEvidenceToPath_def DerivedLabelsForPath_def Let_def attach_loop_sorted)
  next
    case (OpAttachLineageLabelsToPath now path ls)
    with old [of p] show ?thesis
      by (simp add: AttachLineageLabelsToPath_def DerivedLabelsForPath_def Let_def merge_sorted)
  qed (use old [of p] in \<open>auto simp: op_defs DerivedLabelsForPath_def split: option.splits\<close>)
  then show ?thesis by (simp add: path_inv_def)
qed

interpretation session_wf: run_invariant apply_op session_inv
  by unfold_locales
     (simp add: session_inv_def secret_inv_step mcp_inv_step denied_inv_step evidence_inv_step path_inv_step)

lemma session_inv_NewState: "session_inv (NewState u now root)"
  by (simp add: session_inv_def secret_inv_def mcp_inv_def denied_inv_def evidence_inv_def path_inv_def
      NewState_def DerivedLabelsForPath_def)

lemma reachable_inv: "reachable s \<Longrightarrow> session_inv s"
  by (induction rule: reachable.induct) (simp_all add: session_inv_NewState session_wf.keeps)

subsection \<open>Grants\<close>

definition unlimited_grant :: "ApprovalGrant \<Rightarrow> bool" where
  "unlimited_grant g \<longleftrightarrow> Grant_UsesRemaining g = 0 \<and> Grant_Scope g = ''session''"

definition grant_budget :: "ApprovalGrant list \<Rightarrow> int" where
  "grant_budget gs = sum_list (map (\<lambda>g. max 1 (Grant_UsesRemaining g)) gs)"

lemma grant_budget_simps [simp]:
  "grant_budget [] = 0"
  "grant_budget (g # gs) = max 1 (Grant_UsesRemaining g) + grant_budget gs"
  "grant_budget (gs @ gs') = grant_budget gs + grant_budget gs'"
  by (simp_all add: grant_budget_def)

lemma grant_budget_nonneg: "0 \<le> grant_budget gs"
  by (induction gs) auto

lemma consume_loop_matched: "fst (consume_loop now v t (Some g) gs) = Some g"
  by (induction gs) (auto simp: split_beta)

lemma consume_loop_result:
  "fst (consume_loop now v t None gs) = find (\<lambda>g. \<not> grant_expired now g \<and> grant_matches v t g) gs"
  by (induction gs) (auto simp: split_beta consume_loop_matched)

lemma consume_loop_budget_le: "grant_budget (snd (consume_loop now v t m gs)) \<le> grant_budget gs"
  by (induction now v t m gs rule: consume_loop.induct) (auto simp: split_beta)

lemma consume_loop_budget:
  "list_all (\<lambda>g. \<not> unlimited_grant g) gs \<Longrightarrow>
   grant_budget (snd (consume_loop now v t None gs))
     + (if fst (consume_loop now v t None gs) = None then 0 else 1) \<le> grant_budget gs"
proof (induction gs)
  case Nil
  then show ?case by simp
next
  case (Cons g gs)
  have "grant_budget (snd (consume_loop now v t (Some g) gs)) \<le> grant_budget gs"
    by (rule consume_loop_budget_le)
  with Cons show ?case
    by (auto simp: split_beta consume_loop_matched unlimited_grant_def)
qed

lemma consume_loop_limited:
  "list_all (\<lambda>g. \<not> unlimited_grant g) gs \<Longrightarrow>
   list_all (\<lambda>g. \<not> unlimited_grant g) (snd (consume_loop now v t m gs))"
  by (induction now v t m gs rule: consume_loop.induct) (auto simp: split_beta unlimited_grant_def)

text \<open>How many of a sequence of attempts are approved.\<close>

fun approvals_used :: "(Time \<times> string \<times> string) list \<Rightarrow> State \<Rightarrow> nat" where
  "approvals_used [] s = 0"
| "approvals_used ((now, verb, target) # rest) s =
     (case ConsumeApprovalGrant now verb target s of
        (matched, s') \<Rightarrow> (if matched = None then 0 else 1) + approvals_used rest s')"

subsection \<open>Memory of denied calls\<close>

definition records_denial :: "session_op \<Rightarrow> bool" where
  "records_denial op = (case op of OpRecordDeniedToolUse i \<Rightarrow> True | _ \<Rightarrow> False)"

definition denied_within :: "nat \<Rightarrow> string \<Rightarrow> State \<Rightarrow> bool" where
  "denied_within n i s \<longleftrightarrow> i \<in> set (take n (rev (DeniedToolUses s)))"

lemma RecordDeniedToolUse_rev:
  "j \<noteq> [] \<Longrightarrow> j \<notin> set (DeniedToolUses s) \<Longrightarrow>
   rev (DeniedToolUses (RecordDeniedToolUse j s)) = take maxDeniedToolUses (j # rev (DeniedToolUses s))"
  by (simp add: RecordDeniedToolUse_def Let_def take_rev maxDeniedToolUses_def)

lemma denied_within_denial:
  assumes "denied_within n i s" and "n < maxDeniedToolUses"
  shows "denied_within (Suc n) i (RecordDeniedToolUse j s)"
proof (cases "j = [] \<or> j \<in> set (DeniedToolUses s)")
  case True
  have "set (take n xs) \<subseteq> set (take (Suc n) xs)" for xs :: "string list"
    by (rule set_take_subset_set_take) simp
  moreover have "RecordDeniedToolUse j s = s"
    using True by (auto simp: RecordDeniedToolUse_def)
  ultimately show ?thesis
    using assms(1) by (auto simp: denied_within_def)
next
  case False
  then have "take (Suc n) (rev (DeniedToolUses (RecordDeniedToolUse j s)))
      = j # take n (rev (DeniedToolUses s))"
    using assms(2) by (simp add: RecordDeniedToolUse_rev min_def Suc_le_eq)
  with assms(1) show ?thesis by (simp add: denied_within_def)
qed

lemma other_ops_keep_denials:
  "\<not> records_denial op \<Longrightarrow> DeniedToolUses (apply_op op s) = DeniedToolUses s"
  by (cases op) (auto simp: records_denial_def op_defs split: option.split)

lemma denied_within_run:
  "denied_within n i s \<Longrightarrow> n + length (filter records_denial ops) \<le> maxDeniedToolUses \<Longrightarrow>
   i \<in> set (DeniedToolUses (fold apply_op ops s))"
proof (induction ops arbitrary: n s)
  case Nil
  then show ?case by (auto simp: denied_within_def dest: in_set_takeD)
next
  case (Cons op ops)
  show ?case
  proof (cases "records_denial op")
    case True
    then obtain j where "op = OpRecordDeniedToolUse j"
      by (auto simp: records_denial_def split: session_op.splits)
    with True Cons.prems denied_within_denial [OF Cons.prems(1)]
    have "denied_within (Suc n) i (apply_op op s)" by simp
    with True Cons.prems(2) Cons.IH show ?thesis by fastforce
  next
    case False
    with Cons.prems(1) have "denied_within n i (apply_op op s)"
      by (simp add: denied_within_def other_ops_keep_denials)
    with False Cons.prems(2) Cons.IH show ?thesis by simp
  qed
qed

subsection \<open>Properties\<close>

text \<open>C19: every reachable session is well formed. The secret flag implies the high-water
  mark and a valid approval scope recorded no later than the current turn, and without it
  scope and turn are reset; acknowledged MCP servers are tainted ones; the denied-call
  memory has at most 256 distinct, non-empty ids; the active evidence belongs to the
  current turn; every label list is strictly sorted.\<close>

theorem reachable_session_inv: "reachable s \<Longrightarrow> session_inv s"
  by (rule reachable_inv)

theorem reachable_session_inv_witness:
  "session_inv (fold apply_op [OpMarkSecretSession 5, OpRecordDeniedToolUse ''t1'', OpAdvanceTurnByHook]
     (NewState 1 1 ''/p''))"
  by (rule reachable_session_inv) (rule reachable_run, rule reachable.start)

text \<open>C20: taint outlives turns. After a session was marked secret, no sequence of
  operations without an unlock clears the high-water mark, whatever turns pass and even if
  the secret flag itself is cleared; an unlock in the sequence is the only way it ends.\<close>

theorem secret_high_water_mark:
  assumes "ops = before @ m # after"
    and "(\<exists>now. m = OpMarkSecretSession now) \<or> (\<exists>now sc. m = OpMarkSecretSessionWithScope now sc)"
    and "\<not> SessionEverSecret (fold apply_op ops s)"
  shows "OpClearTransientRestrictions \<in> set after"
proof -
  let ?s = "fold apply_op (before @ [m]) s"
  have "SessionEverSecret ?s"
    using assms(2) by (auto simp: MarkSecretSession_def MarkSecretSessionWithScope_def Let_def)
  moreover have "\<not> SessionEverSecret (fold apply_op after ?s)"
    using assms(1,3) by simp
  ultimately show ?thesis
    using ever_secret.released_only_by by (fastforce simp: list_ex_iff)
qed

theorem secret_high_water_mark_witness:
  "OpClearTransientRestrictions \<in> set [OpIncrementTurn, OpClearTransientRestrictions]"
  by (rule secret_high_water_mark [where s = "NewState 1 1 []" and before = "[]"
        and m = "OpMarkSecretSession 5"
        and ops = "OpMarkSecretSession 5 # [OpIncrementTurn, OpClearTransientRestrictions]"])
     (simp_all add: ClearTransientRestrictions_def)

text \<open>What a turn boundary does to a secret session. In a reachable session an advance
  of the turn by the hook clears the secret flag exactly when its approval was for the
  turn; a session-wide approval keeps it. Either way the high-water mark is set, the
  turn's evidence is gone and the same-turn untrusted signal is off.\<close>

theorem turn_boundary:
  assumes "reachable s" and "SecretSession s"
  shows "let s' = AdvanceTurnByHook s in
    (SecretSession s' \<longleftrightarrow> ApprovalScope s = ApprovalScopeSession)
    \<and> SessionEverSecret s' \<and> ActiveEvidence s' = [] \<and> \<not> UntrustedContentThisTurn s'
    \<and> TurnCounter s' = TurnCounter s + 1"
proof -
  have "secret_inv s" using reachable_inv [OF assms(1)] by (simp add: session_inv_def)
  with assms(2) show ?thesis
    by (auto simp: secret_inv_def Let_def AdvanceTurnByHook_def expire_turn_secret_def
        downgradeSecretSessionLocked_def clearSecretSessionLocked_def clearTurnEvidenceLocked_def)
qed

theorem turn_boundary_witness:
  "let s = apply_op (OpMarkSecretSession 5) (NewState 1 1 []) in
   SecretSession s \<and> \<not> SecretSession (AdvanceTurnByHook s) \<and> SessionEverSecret (AdvanceTurnByHook s)"
proof -
  let ?s = "apply_op (OpMarkSecretSession 5) (NewState 1 1 [])"
  have secret: "SecretSession ?s" and scope: "ApprovalScope ?s = ApprovalScopeTurn"
    by (simp_all add: MarkSecretSession_def NewState_def)
  have "reachable ?s" by (intro reachable.step reachable.start)
  from turn_boundary [OF this secret] secret scope show ?thesis by (simp add: Let_def)
qed

lemma NewState_unapproved:
  "\<not> EphemeralApproved (NewState u now root) pkg"
  "\<not> map_get False (PendingEphemeralApproval (NewState u now root)) pkg"
  "\<not> PushRemoteApproved (NewState u now root) remote"
  "\<not> map_get False (PendingPushRemote (NewState u now root)) remote"
  "\<not> MCPDriftAcknowledged (NewState u now root) srv h"
  "map_of (PendingMCPDriftAck (NewState u now root)) srv \<noteq> Some h"
  by (auto simp: NewState_def EphemeralApproved_def PushRemoteApproved_def MCPDriftAcknowledged_def
      map_get_def)

text \<open>C21: nothing is reused without an observed approval. In a run from a new session, an
  ephemeral package, a push remote or a drifted MCP binary counts as approved only if its
  question was marked pending by one operation and promoted by a later one; the promotion
  of another package, remote or server never approves it.\<close>

theorem approvals_need_observation:
  "(EphemeralApproved (fold apply_op ops (NewState u now root)) pkg \<longrightarrow>
      (\<exists>xs ys zs. ops = xs @ OpMarkPendingEphemeralApproval pkg # ys
                        @ OpPromotePendingEphemeralApproval pkg # zs))
   \<and> (PushRemoteApproved (fold apply_op ops (NewState u now root)) remote \<longrightarrow>
      (\<exists>xs ys zs. ops = xs @ OpMarkPendingPushRemote remote # ys @ OpPromotePendingPushRemote remote # zs))
   \<and> (MCPDriftAcknowledged (fold apply_op ops (NewState u now root)) srv h \<longrightarrow>
      (\<exists>xs ys zs. ops = xs @ OpMarkPendingMCPDriftAck srv h # ys @ OpPromotePendingMCPDriftAck srv # zs))"
proof (intro conjI impI)
  assume "EphemeralApproved (fold apply_op ops (NewState u now root)) pkg"
  from ephemeral.approved_run [OF this NewState_unapproved(1,2)]
  show "\<exists>xs ys zs. ops = xs @ OpMarkPendingEphemeralApproval pkg # ys
                        @ OpPromotePendingEphemeralApproval pkg # zs" by blast
next
  assume "PushRemoteApproved (fold apply_op ops (NewState u now root)) remote"
  from push_remote.approved_run [OF this NewState_unapproved(3,4)]
  show "\<exists>xs ys zs. ops = xs @ OpMarkPendingPushRemote remote # ys @ OpPromotePendingPushRemote remote # zs"
    by blast
next
  assume "MCPDriftAcknowledged (fold apply_op ops (NewState u now root)) srv h"
  from drift.approved_run [OF this NewState_unapproved(5,6)]
  show "\<exists>xs ys zs. ops = xs @ OpMarkPendingMCPDriftAck srv h # ys @ OpPromotePendingMCPDriftAck srv # zs"
    by blast
qed

theorem approvals_need_observation_witness:
  "\<exists>xs ys zs. [OpMarkPendingEphemeralApproval ''p'', OpIncrementTurn, OpPromotePendingEphemeralApproval ''p'']
     = xs @ OpMarkPendingEphemeralApproval ''p'' # ys @ OpPromotePendingEphemeralApproval ''p'' # zs"
proof -
  let ?ops = "[OpMarkPendingEphemeralApproval ''p'', OpIncrementTurn, OpPromotePendingEphemeralApproval ''p'']"
  have "EphemeralApproved (fold apply_op ?ops (NewState 1 1 [])) ''p''"
    by (simp add: op_defs EphemeralApproved_def NewState_def map_get_def)
  then show ?thesis
    using approvals_need_observation [of ?ops 1 1 "[]" "''p''"] by blast
qed

text \<open>Secret labels follow the data into files. If evidence with a label is recorded,
  and in the same turn it is attached to a path, then the path carries the label after any
  further operations that do not declassify that path: no turn, no unlock and no
  operation on other paths removes it.\<close>

theorem lineage_persists:
  assumes "label \<in> set labels" and "path \<noteq> []"
    and "list_all (\<lambda>op. \<not> declassifies path op) later"
  shows "label \<in> set (DerivedLabelsForPath
     (fold apply_op later (AttachActiveEvidenceToPath now2 path
        (RecordLineageEvidence now1 kind ref conf labels s))) path)"
proof -
  let ?r = "RecordLineageEvidence now1 kind ref conf labels s"
  have "\<exists>ev \<in> set (ActiveEvidence ?r). label \<in> set (Ev_Labels ev)"
  proof (cases "evidence_known s kind ref (normalizeLineageLabels labels)")
    case True
    then obtain ev where "ev \<in> set (ActiveEvidence s)" "Ev_Labels ev = normalizeLineageLabels labels"
      by (auto simp: evidence_known_def list_ex_iff same_iff_eq)
    with True assms(1) show ?thesis
      by (auto simp: RecordLineageEvidence_def Let_def intro!: bexI [of _ ev])
  next
    case False
    with assms(1) show ?thesis by (auto simp: RecordLineageEvidence_def Let_def)
  qed
  then have "label \<in> set (DerivedLabelsForPath (AttachActiveEvidenceToPath now2 path ?r) path)"
    using assms(2)
    by (auto simp: AttachActiveEvidenceToPath_def DerivedLabelsForPath_def Let_def attach_loop_labels)
  from path_label.run_sticks [OF this assms(3)] show ?thesis .
qed

theorem lineage_persists_witness:
  "LineageLabel ''secret'' ''trusted'' ''user'' \<in> set (DerivedLabelsForPath
     (fold apply_op [OpIncrementTurn, OpClearTransientRestrictions, OpDeclassifyPath [''other'']]
       (AttachActiveEvidenceToPath 2 ''out.txt''
         (RecordLineageEvidence 1 ''read'' ''.env'' ''high'' [LineageLabel ''secret'' ''trusted'' ''user'']
           (NewState 1 1 [])))) ''out.txt'')"
  by (rule lineage_persists) (simp_all add: declassifies_def)

text \<open>C22: a grant is not a blank cheque. An attempt is approved exactly when a live grant
  matches it, the grant returned is the first such one, and over any sequence of attempts
  at most as many are approved as the grants have uses, provided no grant is an unlimited
  session grant.\<close>

theorem grants_bounded:
  assumes "list_all (\<lambda>g. \<not> unlimited_grant g) (ApprovalGrants s)"
  shows "int (approvals_used attempts s) \<le> grant_budget (ApprovalGrants s)
    \<and> (fst (ConsumeApprovalGrant now verb target s) \<noteq> None \<longleftrightarrow> HasApprovalGrant now verb target s)"
proof
  show "int (approvals_used attempts s) \<le> grant_budget (ApprovalGrants s)"
    using assms
  proof (induction attempts s rule: approvals_used.induct)
    case (1 s)
    then show ?case by (simp add: grant_budget_nonneg)
  next
    case (2 now verb target rest s)
    let ?v = "strings_TrimSpace verb" and ?t = "strings_TrimSpace target"
    obtain m out where c: "consume_loop now ?v ?t None (ApprovalGrants s) = (m, out)" by fastforce
    then have step: "ConsumeApprovalGrant now verb target s = (m, s\<lparr>ApprovalGrants := out\<rparr>)"
      by (simp add: ConsumeApprovalGrant_def)
    have "list_all (\<lambda>g. \<not> unlimited_grant g) out"
      using consume_loop_limited [OF "2.prems", of now ?v ?t None] c by simp
    then have "int (approvals_used rest (s\<lparr>ApprovalGrants := out\<rparr>)) \<le> grant_budget out"
      using "2.IH" [OF step [symmetric]] by simp
    with consume_loop_budget [OF "2.prems", of now ?v ?t] c step show ?case by (auto split: if_splits)
  qed
  show "fst (ConsumeApprovalGrant now verb target s) \<noteq> None \<longleftrightarrow> HasApprovalGrant now verb target s"
    by (auto simp: ConsumeApprovalGrant_def HasApprovalGrant_def has_grant_iff split_beta
        consume_loop_result find_None_iff)
qed

definition demo_grant :: ApprovalGrant where
  "demo_grant = \<lparr>Grant_Verb = ''net_external'', Grant_Target = ''example.com'', Grant_Scope = ''once'',
     Grant_ExpiresAt = 0, Grant_UsesRemaining = 2, Grant_Reason = []\<rparr>"

theorem grants_bounded_witness:
  "int (approvals_used (replicate 5 (7, ''net_external'', ''example.com''))
     (AddApprovalGrant demo_grant (NewState 1 1 []))) \<le> 2"
proof -
  let ?s = "AddApprovalGrant demo_grant (NewState 1 1 [])"
  have "list_all (\<lambda>g. \<not> unlimited_grant g) (ApprovalGrants ?s)" and "grant_budget (ApprovalGrants ?s) = 2"
    by (simp_all add: AddApprovalGrant_def NewState_def demo_grant_def unlimited_grant_def)
  with grants_bounded [of ?s] show ?thesis by metis
qed

text \<open>A denied call is recognised when its result arrives. A tool use newly recorded as
  denied is still known as denied after any operations of which fewer than 256 record
  further denials; other operations never make the session forget it.\<close>

theorem denied_call_recognised:
  assumes "i \<noteq> []" and "\<not> WasToolUseDenied s i"
    and "length (filter records_denial later) < 256"
  shows "WasToolUseDenied (fold apply_op later (RecordDeniedToolUse i s)) i"
proof -
  have "i \<notin> set (DeniedToolUses s)" using assms(1,2) by (simp add: WasToolUseDenied_def)
  with assms(1) have "denied_within 1 i (RecordDeniedToolUse i s)"
    by (simp add: denied_within_def RecordDeniedToolUse_rev maxDeniedToolUses_def)
  from denied_within_run [OF this, of later] assms show ?thesis
    by (simp add: WasToolUseDenied_def maxDeniedToolUses_def)
qed

theorem denied_call_recognised_witness:
  "WasToolUseDenied (fold apply_op [OpRecordDeniedToolUse ''t2'', OpClearTransientRestrictions]
     (RecordDeniedToolUse ''t1'' (NewState 1 1 []))) ''t1''"
  by (rule denied_call_recognised)
     (simp_all add: WasToolUseDenied_def NewState_def records_denial_def)

text \<open>Unlock clears every transient restriction and nothing durable. After it the
  session reports no transient restriction and is not suspicious, while deny-all, the
  lineage of files, the denied calls, the grants and the observed approvals are as they
  were.\<close>

theorem unlock_is_transient_only:
  "let s' = ClearTransientRestrictions s in
   \<not> HasTransientRestrictions s' \<and> \<not> IsSuspicious s'
   \<and> DenyAll s' = DenyAll s \<and> DerivedFileLineage s' = DerivedFileLineage s
   \<and> DeniedToolUses s' = DeniedToolUses s \<and> ApprovalGrants s' = ApprovalGrants s
   \<and> EphemeralApproved s' = EphemeralApproved s \<and> PushRemoteApproved s' = PushRemoteApproved s
   \<and> MCPDriftAcknowledged s' = MCPDriftAcknowledged s"
  by (simp add: Let_def ClearTransientRestrictions_def HasTransientRestrictions_def IsSuspicious_def
      clearSecretSessionLocked_def fun_eq_iff EphemeralApproved_def PushRemoteApproved_def
      MCPDriftAcknowledged_def)

text \<open>Entering a secret session keeps earlier package approvals. Marking the session
  secret, with either method and any scope, changes neither which ephemeral packages nor
  which push remotes count as approved.\<close>

theorem secret_entry_keeps_approvals:
  "EphemeralApproved (MarkSecretSession now s) = EphemeralApproved s
   \<and> EphemeralApproved (MarkSecretSessionWithScope now scope s) = EphemeralApproved s
   \<and> PushRemoteApproved (MarkSecretSession now s) = PushRemoteApproved s
   \<and> PushRemoteApproved (MarkSecretSessionWithScope now scope s) = PushRemoteApproved s"
  by (simp add: fun_eq_iff EphemeralApproved_def PushRemoteApproved_def MarkSecretSession_def
      MarkSecretSessionWithScope_def Let_def)

text \<open>C23: deny-all is final. Once a session is in deny-all, no sequence of session
  operations, unlock included, leaves it; and posture and MCP taint only rise until an
  unlock.\<close>

theorem deny_all_is_final:
  "(DenyAll s \<longrightarrow> DenyAll (fold apply_op ops s))
   \<and> (OpClearTransientRestrictions \<notin> set ops \<longrightarrow>
        postureOrd (Posture s) \<le> postureOrd (Posture (fold apply_op ops s))
        \<and> set (TaintedMCPServers s) \<subseteq> set (TaintedMCPServers (fold apply_op ops s)))"
proof (intro conjI impI)
  assume "DenyAll s"
  then show "DenyAll (fold apply_op ops s)" by (rule deny_all.run_keeps)
next
  assume "OpClearTransientRestrictions \<notin> set ops"
  then have ops: "list_all (\<lambda>op. op \<noteq> OpClearTransientRestrictions) ops"
    by (auto simp: list_all_iff)
  show "postureOrd (Posture s) \<le> postureOrd (Posture (fold apply_op ops s))"
    by (rule posture.run_sticks [OF _ ops]) simp
  show "set (TaintedMCPServers s) \<subseteq> set (TaintedMCPServers (fold apply_op ops s))"
    using tainted_server.run_sticks [OF _ ops, of s]
    by (auto simp: IsMCPServerTainted_def isMCPServerTaintedLocked_def)
qed

theorem deny_all_is_final_witness:
  "DenyAll (fold apply_op [OpClearTransientRestrictions, OpIncrementTurn]
     (SetDenyAll ''hook tampered'' (NewState 1 1 [])))"
  by (rule deny_all_is_final [THEN conjunct1, THEN mp]) (simp add: SetDenyAll_def)

end
