(* ===== verification/Go_Utf8.thy ===== *)
theory Go_Utf8
  imports Sir_Prelude
begin

text \<open>
  UTF-8 as package \<open>unicode/utf8\<close> decodes it (shortest form, no surrogates, at most
  U+10FFFF), and the coercion that \<open>encoding/json\<close> applies to a string when it writes it:
  every byte that does not belong to a well-formed encoding becomes U+FFFD.
\<close>

definition byte_in :: "nat \<Rightarrow> nat \<Rightarrow> char \<Rightarrow> bool" where
  "byte_in lo hi c \<longleftrightarrow> lo \<le> (of_char c :: nat) \<and> (of_char c :: nat) \<le> hi"

text \<open>Range of the second byte for a leading byte.\<close>

definition second_range :: "char \<Rightarrow> nat \<times> nat" where
  "second_range c =
    (let b = (of_char c :: nat) in
     if b = 0xE0 then (0xA0, 0xBF) else if b = 0xED then (0x80, 0x9F)
     else if b = 0xF0 then (0x90, 0xBF) else if b = 0xF4 then (0x80, 0x8F)
     else (0x80, 0xBF))"

text \<open>Length of the well-formed rune at the start of the text, 0 if there is none.\<close>

definition rune_len :: "string \<Rightarrow> nat" where
  "rune_len s =
    (case s of
       [] \<Rightarrow> 0
     | c # cs \<Rightarrow>
         if byte_in 0 0x7F c then 1
         else if byte_in 0xC2 0xDF c then
           (case cs of c1 # _ \<Rightarrow> if byte_in 0x80 0xBF c1 then 2 else 0 | _ \<Rightarrow> 0)
         else if byte_in 0xE0 0xEF c then
           (case cs of c1 # c2 # _ \<Rightarrow>
              if case second_range c of (lo, hi) \<Rightarrow> byte_in lo hi c1 \<and> byte_in 0x80 0xBF c2 then 3 else 0
            | _ \<Rightarrow> 0)
         else if byte_in 0xF0 0xF4 c then
           (case cs of c1 # c2 # c3 # _ \<Rightarrow>
              if case second_range c of (lo, hi) \<Rightarrow>
                   byte_in lo hi c1 \<and> byte_in 0x80 0xBF c2 \<and> byte_in 0x80 0xBF c3 then 4 else 0
            | _ \<Rightarrow> 0)
         else 0)"

definition replacement_rune :: string where
  "replacement_rune = [CHR 0xEF, CHR 0xBF, CHR 0xBD]"

function utf8_coerce :: "string \<Rightarrow> string" where
  "utf8_coerce [] = []"
| "utf8_coerce (c # cs) =
     (let n = rune_len (c # cs) in
      if n = 0 then replacement_rune @ utf8_coerce cs
      else take n (c # cs) @ utf8_coerce (drop n (c # cs)))"
  by pat_completeness auto

termination by (relation "measure length") auto

function utf8_ValidString :: "string \<Rightarrow> bool" where
  "utf8_ValidString [] = True"
| "utf8_ValidString (c # cs) =
     (let n = rune_len (c # cs) in if n = 0 then False else utf8_ValidString (drop n (c # cs)))"
  by pat_completeness auto

termination by (relation "measure length") auto

declare utf8_coerce.simps(2) [simp del] utf8_ValidString.simps(2) [simp del]

lemma utf8_coerce_valid: "utf8_ValidString s \<Longrightarrow> utf8_coerce s = s"
proof (induction s rule: utf8_coerce.induct)
  case 1
  then show ?case by simp
next
  case (2 c cs)
  then have n: "rune_len (c # cs) \<noteq> 0" and rest: "utf8_ValidString (drop (rune_len (c # cs)) (c # cs))"
    by (simp_all add: utf8_ValidString.simps(2) Let_def split: if_splits)
  from "2.IH"(2) [OF refl n rest] n show ?case
    by (simp only: utf8_coerce.simps(2) Let_def if_False append_take_drop_id)
qed

lemma ascii_valid: "list_all (byte_in 0 0x7F) s \<Longrightarrow> utf8_ValidString s"
  by (induction s) (simp_all add: utf8_ValidString.simps(2) rune_len_def)

end
