(* ===== verification/Ledger.thy ===== *)
theory Ledger
  imports Go_Bytes Go_Utf8 Detect
begin

text \<open>
  Package \<open>pkg/ledger\<close>: the append-only, hash-chained ledger (\<open>ledger.go\<close>,
  \<open>ledger_hash.go\<close>, \<open>ledger_store.go\<close>), detection stamping (\<open>detect.go\<close>) and the queries
  (\<open>ledger_query.go\<close>). The file is the list of its lines; a line is an entry or a text that
  does not parse. Writing an entry passes it through \<open>encoding/json\<close>, which coerces
  strings to UTF-8 and drops the transient fields; the timestamp of an entry is the
  RFC 3339 text under which it is both stored and hashed. The three text redactors of
  \<open>redact.go\<close> are arguments of \<open>Append\<close>: no result depends on what they do. The file lock
  makes \<open>Append\<close> atomic. A line longer than the reader's limit of 1 MiB counts as a text that
  does not parse; entries that are appended are taken to stay below it.
\<close>

subsection \<open>Entries (\<open>ledger.go\<close>)\<close>

record ProviderVerdictRecord =
  PVR_Provider :: string
  PVR_Verdict :: string
  PVR_RulesMatched :: "string list"
  PVR_Reason :: string
  PVR_Used :: bool
  PVR_Authoritative :: bool
  PVR_NativeBaseVerdict :: string
  PVR_FloorsBypassed :: bool
  PVR_FailClosed :: bool

record ProviderFailureRecord =
  PFR_Provider :: string
  PFR_Kind :: string
  PFR_Status :: string
  PFR_Reason :: string
  PFR_Behavior :: string
  PFR_TimedOut :: bool

record Entry =
  L_Index :: int
  L_Timestamp :: string
  L_PrevHash :: string
  L_EntryHash :: string
  L_HashVersion :: int
  L_ToolName :: string
  L_Verb :: string
  L_Target :: string
  L_Sensitivity :: string
  L_Trust :: string
  L_Provenance :: string
  L_Decision :: string
  L_Reason :: string
  L_ContentHash :: string
  L_Preview :: string
  L_Severity :: string
  L_AlertType :: string
  L_DetectionID :: string
  L_DetectionRoute :: string
  L_SignalIDs :: "string list"
  L_Evidence :: string
  L_Agent :: string
  L_DiffSummary :: string
  L_Restored :: bool
  L_LatencyMs :: int
  L_BaseVerdict :: string
  L_ProviderVerdicts :: "ProviderVerdictRecord list"
  L_ProviderFailures :: "ProviderFailureRecord list"

definition legacyHashVersion :: int where
  "legacyHashVersion = 1"

definition currentHashVersion :: int where
  "currentHashVersion = 4"

definition genesis_hash :: string where
  "genesis_hash = replicate 64 (CHR ''0'')"

subsection \<open>Entry hashes (\<open>ledger_hash.go\<close>)\<close>

definition RedactPreview :: "string \<Rightarrow> bool \<Rightarrow> string" where
  "RedactPreview content isSecret =
     (if isSecret then ''[REDACTED - secret-labeled content]''
      else if length content > 80 then take 80 content @ ''...''
      else content)"

definition hashVersionForEntry :: "Entry \<Rightarrow> int" where
  "hashVersionForEntry e = (if L_HashVersion e = 0 then legacyHashVersion else L_HashVersion e)"

definition writeField :: "string \<Rightarrow> string" where
  "writeField v = length_prefixed v"

definition bool_text :: "bool \<Rightarrow> string" where
  "bool_text b = (if b then ''true'' else ''false'')"

text \<open>The bytes fed to the hash by each version.\<close>

definition preimage_V1 :: "Entry \<Rightarrow> string" where
  "preimage_V1 e =
     writeField (L_PrevHash e) @ put_uint64 (L_Index e)
     @ concat (map writeField
         [L_Timestamp e, L_ToolName e, L_Verb e, L_Target e, L_Sensitivity e, L_Trust e,
          L_Provenance e, L_Decision e, L_Reason e, L_ContentHash e, L_Preview e, L_Severity e,
          L_AlertType e])"

definition preimage_V2 :: "Entry \<Rightarrow> string" where
  "preimage_V2 e =
     writeField (L_PrevHash e) @ put_uint64 (L_Index e) @ put_uint64 (hashVersionForEntry e)
     @ concat (map writeField
         [L_Timestamp e, L_ToolName e, L_Verb e, L_Target e, L_Sensitivity e, L_Trust e,
          L_Provenance e, L_Decision e, L_Reason e, L_ContentHash e, L_Preview e, L_Severity e,
          L_AlertType e, L_Evidence e, L_Agent e, L_DiffSummary e, bool_text (L_Restored e)])"

definition preimage_V3 :: "Entry \<Rightarrow> string" where
  "preimage_V3 e =
     writeField (L_PrevHash e) @ put_uint64 (L_Index e) @ put_uint64 (hashVersionForEntry e)
     @ concat (map writeField
         [L_Timestamp e, L_ToolName e, L_Verb e, L_Target e, L_Sensitivity e, L_Trust e,
          L_Provenance e, L_Decision e, L_Reason e, L_ContentHash e, L_Preview e, L_Severity e,
          L_AlertType e, L_DetectionID e, L_Evidence e, L_Agent e, L_DiffSummary e,
          bool_text (L_Restored e)])"

definition preimage_V4 :: "Entry \<Rightarrow> string" where
  "preimage_V4 e =
     writeField (L_PrevHash e) @ put_uint64 (L_Index e) @ put_uint64 (hashVersionForEntry e)
     @ concat (map writeField
         [L_Timestamp e, L_ToolName e, L_Verb e, L_Target e, L_Sensitivity e, L_Trust e,
          L_Provenance e, L_Decision e, L_Reason e, L_ContentHash e, L_Preview e, L_Severity e,
          L_AlertType e, L_DetectionID e, L_Evidence e, L_Agent e, L_DiffSummary e,
          bool_text (L_Restored e)])
     @ put_uint64 (L_LatencyMs e)"

definition hash_preimage :: "Entry \<Rightarrow> string" where
  "hash_preimage e =
    (let v = hashVersionForEntry e in
     if v \<le> legacyHashVersion then preimage_V1 e
     else if v = 2 then preimage_V2 e
     else if v = 3 then preimage_V3 e
     else preimage_V4 e)"

definition computeHash :: "Entry \<Rightarrow> string" where
  "computeHash e = hex_EncodeToString (sha256_Sum256 (hash_preimage e))"

subsection \<open>Detection stamping (\<open>detect.go\<close>)\<close>

definition entryLocalDetection :: "Entry \<Rightarrow> Detection option" where
  "entryLocalDetection e =
     Classify
       \<lparr>DS_Verb = L_Verb e, DS_Verdict = L_Decision e, DS_AlertType = L_AlertType e,
        DS_Sensitivity = L_Sensitivity e, DS_SecretSession = False, DS_DerivedFromSecret = False,
        DS_MCPTaint = False, DS_InjectionAlert = False, DS_DenyAll = False,
        DS_TamperRestored = L_Restored e, DS_NewMCPServer = False, DS_PostureMutation = False,
        DS_RepeatedCount = 0, DS_Unusual = False, DS_RecentMCPChange = False,
        DS_Suspicious = False\<rparr>"

definition stampDetection :: "Entry \<Rightarrow> Entry" where
  "stampDetection entry =
     (if L_DetectionID entry \<noteq> [] then entry
      else case entryLocalDetection entry of
        None \<Rightarrow> entry
      | Some d \<Rightarrow>
          entry\<lparr>L_DetectionID := Det_ID d, L_DetectionRoute := Route_String (Det_Route d),
                L_Severity := (if L_Severity entry = [] then Det_Severity d else L_Severity entry)\<rparr>)"

definition DetectionID_of :: "Entry \<Rightarrow> string" where
  "DetectionID_of e =
     (if L_DetectionID e \<noteq> [] then L_DetectionID e
      else case entryLocalDetection e of Some d \<Rightarrow> Det_ID d | None \<Rightarrow> [])"

subsection \<open>The store (\<open>ledger_store.go\<close>)\<close>

record RedactFns =
  RF_String :: "string \<Rightarrow> string"
  RF_Content :: "string \<Rightarrow> string"
  RF_Evidence :: "string \<Rightarrow> string"

definition sanitizeEntry :: "RedactFns \<Rightarrow> Entry \<Rightarrow> Entry" where
  "sanitizeEntry R entry =
     entry\<lparr>L_Reason := RF_String R (L_Reason entry),
           L_Preview := (if L_Sensitivity entry = ''secret'' then RedactPreview (L_Preview entry) True
                         else RF_Content R (L_Preview entry)),
           L_Evidence := RF_Evidence R (L_Evidence entry),
           L_DiffSummary := RF_String R (L_DiffSummary entry)\<rparr>"

text \<open>An entry after \<open>json.Marshal\<close> and \<open>json.Unmarshal\<close>.\<close>

definition json_verdict :: "ProviderVerdictRecord \<Rightarrow> ProviderVerdictRecord" where
  "json_verdict r =
     r\<lparr>PVR_Provider := utf8_coerce (PVR_Provider r), PVR_Verdict := utf8_coerce (PVR_Verdict r),
       PVR_RulesMatched := map utf8_coerce (PVR_RulesMatched r),
       PVR_Reason := utf8_coerce (PVR_Reason r),
       PVR_NativeBaseVerdict := utf8_coerce (PVR_NativeBaseVerdict r)\<rparr>"

definition json_failure :: "ProviderFailureRecord \<Rightarrow> ProviderFailureRecord" where
  "json_failure r =
     r\<lparr>PFR_Provider := utf8_coerce (PFR_Provider r), PFR_Kind := utf8_coerce (PFR_Kind r),
       PFR_Status := utf8_coerce (PFR_Status r), PFR_Reason := utf8_coerce (PFR_Reason r),
       PFR_Behavior := utf8_coerce (PFR_Behavior r)\<rparr>"

definition json_entry :: "Entry \<Rightarrow> Entry" where
  "json_entry e =
     e\<lparr>L_PrevHash := utf8_coerce (L_PrevHash e), L_EntryHash := utf8_coerce (L_EntryHash e),
       L_ToolName := utf8_coerce (L_ToolName e), L_Verb := utf8_coerce (L_Verb e),
       L_Target := utf8_coerce (L_Target e), L_Sensitivity := utf8_coerce (L_Sensitivity e),
       L_Trust := utf8_coerce (L_Trust e), L_Provenance := utf8_coerce (L_Provenance e),
       L_Decision := utf8_coerce (L_Decision e), L_Reason := utf8_coerce (L_Reason e),
       L_ContentHash := utf8_coerce (L_ContentHash e), L_Preview := utf8_coerce (L_Preview e),
       L_Severity := utf8_coerce (L_Severity e), L_AlertType := utf8_coerce (L_AlertType e),
       L_DetectionID := utf8_coerce (L_DetectionID e), L_DetectionRoute := [], L_SignalIDs := [],
       L_Evidence := utf8_coerce (L_Evidence e), L_Agent := utf8_coerce (L_Agent e),
       L_DiffSummary := utf8_coerce (L_DiffSummary e), L_BaseVerdict := utf8_coerce (L_BaseVerdict e),
       L_ProviderVerdicts := map json_verdict (L_ProviderVerdicts e),
       L_ProviderFailures := map json_failure (L_ProviderFailures e)\<rparr>"

datatype ledger_line = Corrupt | Line Entry

datatype ledger_error =
    CorruptEntry
  | IndexMismatch int int
  | GenesisMismatch
  | ChainBroken int
  | EntryHashMismatch int

fun readAllUnlocked :: "ledger_line list \<Rightarrow> ledger_error + Entry list" where
  "readAllUnlocked [] = Inr []"
| "readAllUnlocked (Corrupt # ls) = Inl CorruptEntry"
| "readAllUnlocked (Line e # ls) =
     (case readAllUnlocked ls of Inl err \<Rightarrow> Inl err | Inr es \<Rightarrow> Inr (e # es))"

text \<open>The entry that \<open>Append\<close> hashes and writes; \<open>now\<close> is the RFC 3339 text of the clock.\<close>

definition chained_entry :: "RedactFns \<Rightarrow> string \<Rightarrow> ledger_line list \<Rightarrow> Entry \<Rightarrow> Entry" where
  "chained_entry R now ls entry =
    (let (prevHash, lastIndex) =
           (case readAllUnlocked ls of
              Inl _ \<Rightarrow> (genesis_hash, -1)
            | Inr es \<Rightarrow> if es \<noteq> [] then (L_EntryHash (last es), L_Index (last es))
                        else (genesis_hash, -1));
         e1 = entry\<lparr>L_Index := lastIndex + 1, L_Timestamp := now, L_PrevHash := prevHash,
                    L_HashVersion := (if L_HashVersion entry = 0 then currentHashVersion
                                      else L_HashVersion entry)\<rparr>;
         e2 = stampDetection (sanitizeEntry R e1)
     in e2\<lparr>L_EntryHash := computeHash e2\<rparr>)"

definition Append :: "RedactFns \<Rightarrow> string \<Rightarrow> Entry \<Rightarrow> ledger_line list \<Rightarrow> ledger_line list" where
  "Append R now entry ls = ls @ [Line (json_entry (chained_entry R now ls entry))]"

fun verify_loop :: "int \<Rightarrow> Entry option \<Rightarrow> Entry list \<Rightarrow> int \<times> ledger_error option" where
  "verify_loop i prev [] = (i, None)"
| "verify_loop i prev (e # es) =
     (if L_Index e \<noteq> i then (i, Some (IndexMismatch i (L_Index e)))
      else if prev = None \<and> L_PrevHash e \<noteq> genesis_hash then (i, Some GenesisMismatch)
      else if prev \<noteq> None \<and> L_PrevHash e \<noteq> L_EntryHash (the prev) then (i, Some (ChainBroken i))
      else if L_EntryHash e \<noteq> computeHash e then (i, Some (EntryHashMismatch i))
      else verify_loop (i + 1) (Some e) es)"

definition Verify :: "ledger_line list \<Rightarrow> int \<times> ledger_error option" where
  "Verify ls =
     (case readAllUnlocked ls of
        Inl err \<Rightarrow> (0, Some err)
      | Inr es \<Rightarrow> if es = [] then (0, None) else verify_loop 0 None es)"

subsection \<open>Queries (\<open>ledger_query.go\<close>)\<close>

definition GetLastEntry :: "ledger_line list \<Rightarrow> ledger_error + Entry option" where
  "GetLastEntry ls =
     (case readAllUnlocked ls of
        Inl err \<Rightarrow> Inl err
      | Inr es \<Rightarrow> Inr (if es = [] then None else Some (last es)))"

text \<open>\<open>None\<close> is the out-of-range error.\<close>

definition GetEntryByIndex :: "ledger_line list \<Rightarrow> int \<Rightarrow> ledger_error + Entry option" where
  "GetEntryByIndex ls index =
     (case readAllUnlocked ls of
        Inl err \<Rightarrow> Inl err
      | Inr es \<Rightarrow> Inr (if index < 0 \<or> index \<ge> int (length es) then None else Some (es ! nat index)))"

definition read_secret :: "Entry \<Rightarrow> bool" where
  "read_secret e \<longleftrightarrow>
     L_Sensitivity e = ''secret'' \<and> (L_Decision e = ''ask'' \<or> L_Decision e = ''allow'')"

definition read_env :: "Entry \<Rightarrow> bool" where
  "read_env e \<longleftrightarrow> L_Verb e = ''env_read'' \<and> (L_Decision e = ''ask'' \<or> L_Decision e = ''allow'')"

text \<open>The backwards scan of \<open>FindCausalSecretRead\<close>. There the inner \<open>None\<close> is Go's nil, and
  the outer \<open>None\<close> the panic on an index past the end.\<close>

fun causal_scan :: "Entry list \<Rightarrow> nat \<Rightarrow> Entry option" where
  "causal_scan entries 0 = None"
| "causal_scan entries (Suc i) =
     (if read_secret (entries ! i) then Some (entries ! i)
      else if read_env (entries ! i) then Some (entries ! i)
      else causal_scan entries i)"

definition FindCausalSecretRead :: "Entry list \<Rightarrow> int \<Rightarrow> Entry option option" where
  "FindCausalSecretRead entries beforeIndex =
     (if beforeIndex > int (length entries) then None
      else Some (causal_scan entries (nat beforeIndex)))"

definition entryIncluded :: "Entry list \<Rightarrow> int \<Rightarrow> bool" where
  "entryIncluded entries index = list_ex (\<lambda>e. L_Index e = index) entries"

fun related_loop :: "Entry list \<Rightarrow> Entry list \<Rightarrow> Entry list" where
  "related_loop [] related = related"
| "related_loop (e # es) related =
     (if read_secret e \<and> \<not> entryIncluded related (L_Index e)
      then related_loop es (related @ [e]) else related_loop es related)"

definition FindRelatedEntries :: "Entry list \<Rightarrow> int \<Rightarrow> Entry list" where
  "FindRelatedEntries entries targetIndex =
     (if targetIndex < 0 \<or> targetIndex \<ge> int (length entries) then []
      else
        let target = entries ! nat targetIndex;
            related = (if L_Decision target = ''deny'' then
                         (case causal_scan entries (nat targetIndex) of
                            Some c \<Rightarrow> [c] | None \<Rightarrow> [])
                       else [])
        in related_loop (take (nat targetIndex) entries) related)"

end
