(* ===== verification/Ledger_Chain.thy ===== *)
theory Ledger_Chain
  imports Ledger
begin

text \<open>
  What the hash chain of the ledger gives: appending keeps a ledger verifiable, the byte
  encoding under the hash is injective on what it covers, and a ledger that verifies with
  the same length and head hash as another agrees with it on every covered field of every
  entry, unless two explicit byte strings collide under SHA-256. The argument about chains
  is made once, in the interface \<open>hash_chain\<close>, and interpreted on the ledger's entries.
\<close>

subsection \<open>Chains\<close>

fun linked :: "('e \<Rightarrow> 'h) \<Rightarrow> ('e \<Rightarrow> 'h) \<Rightarrow> ('e \<Rightarrow> 'h) \<Rightarrow> 'h \<Rightarrow> 'e list \<Rightarrow> bool" where
  "linked prev stored compute h [] = True"
| "linked prev stored compute h (e # es) =
     (prev e = h \<and> stored e = compute e \<and> linked prev stored compute (stored e) es)"

lemma linked_snoc:
  "linked prev stored compute h (es @ [e]) \<longleftrightarrow>
     linked prev stored compute h es \<and> prev e = (if es = [] then h else stored (last es))
     \<and> stored e = compute e"
  by (induction es arbitrary: h) auto

locale hash_chain =
  fixes prev stored compute :: "'e \<Rightarrow> 'h"
    and wf :: "'e \<Rightarrow> bool" and view :: "'e \<Rightarrow> 'v" and collide :: "'e \<Rightarrow> 'e \<Rightarrow> bool"
  assumes compute_view: "wf a \<Longrightarrow> wf b \<Longrightarrow> compute a = compute b \<Longrightarrow> view a = view b \<or> collide a b"
    and view_prev: "view a = view b \<Longrightarrow> prev a = prev b"
begin

lemma same_head_same_views:
  assumes "length xs = length ys" and "linked prev stored compute g xs" and "linked prev stored compute g ys"
    and "list_all wf xs" and "list_all wf ys"
    and "xs \<noteq> []" and "stored (last xs) = stored (last ys)"
    and "\<And>a b. a \<in> set xs \<Longrightarrow> b \<in> set ys \<Longrightarrow> \<not> collide a b"
  shows "map view xs = map view ys"
  using assms
proof (induction xs arbitrary: ys rule: rev_induct)
  case Nil
  then show ?case by simp
next
  case (snoc x xs)
  from snoc.prems(1) obtain ys' y where ys: "ys = ys' @ [y]" by (cases ys rule: rev_exhaust) auto
  have "compute x = compute y"
    using snoc.prems(2,3,7) ys by (simp add: linked_snoc)
  then have view: "view x = view y"
    using compute_view [of x y] snoc.prems(4,5,8) ys by auto
  then have prev: "prev x = prev y" by (rule view_prev)
  have "map view xs = map view ys'"
  proof (cases "xs = []")
    case True
    with snoc.prems(1) ys show ?thesis by simp
  next
    case False
    with snoc.prems ys prev show ?thesis
      by (intro snoc.IH) (auto simp: linked_snoc split: if_splits)
  qed
  with view ys show ?case by simp
qed

end

subsection \<open>The preimage is injective\<close>

text \<open>What the hash of an entry covers: the version when it is written, the link, the
  index, the text fields in order, and the latency from version 4 on.\<close>

definition hashed_fields :: "Entry \<Rightarrow> string list" where
  "hashed_fields e =
    (let v = hashVersionForEntry e in
     [L_Timestamp e, L_ToolName e, L_Verb e, L_Target e, L_Sensitivity e, L_Trust e,
      L_Provenance e, L_Decision e, L_Reason e, L_ContentHash e, L_Preview e, L_Severity e,
      L_AlertType e]
     @ (if v \<le> 1 then []
        else (if v = 2 then [] else [L_DetectionID e])
             @ [L_Evidence e, L_Agent e, L_DiffSummary e, bool_text (L_Restored e)]))"

definition hashed_view :: "Entry \<Rightarrow> int option \<times> string \<times> int \<times> string list \<times> int option" where
  "hashed_view e =
    (let v = hashVersionForEntry e in
     (if v \<le> 1 then None else Some v, L_PrevHash e, L_Index e, hashed_fields e,
      if v \<le> 3 then None else Some (L_LatencyMs e)))"

definition text_limit :: nat where
  "text_limit = 2 ^ 56"

definition int64 :: "int \<Rightarrow> bool" where
  "int64 i \<longleftrightarrow> - (2 ^ 63) \<le> i \<and> i < 2 ^ 63"

text \<open>Entries as Go can hold them: 64-bit integers, texts of representable length, and a
  timestamp text (which starts with a digit, never with a zero byte).\<close>

definition entry_wf :: "Entry \<Rightarrow> bool" where
  "entry_wf e \<longleftrightarrow>
     int64 (L_Index e) \<and> int64 (hashVersionForEntry e) \<and> int64 (L_LatencyMs e)
     \<and> length (L_PrevHash e) < text_limit \<and> list_all (\<lambda>f. length f < text_limit) (hashed_fields e)
     \<and> (\<exists>c cs. L_Timestamp e = c # cs \<and> c \<noteq> CHR 0x00)"

lemma field_inj:
  "writeField v @ r = writeField w @ s \<Longrightarrow> length v < text_limit \<Longrightarrow> length w < text_limit \<Longrightarrow>
   v = w \<and> r = s"
  unfolding writeField_def by (erule length_prefixed_append_inj) (simp_all add: text_limit_def)

lemma int_inj: "put_uint64 i @ r = put_uint64 j @ s \<Longrightarrow> int64 i \<Longrightarrow> int64 j \<Longrightarrow> i = j \<and> r = s"
  unfolding int64_def by (erule put_uint64_append_inj) simp_all

lemma fields_inj:
  "length fs = length gs \<Longrightarrow> list_all (\<lambda>f. length f < text_limit) fs \<Longrightarrow>
   list_all (\<lambda>f. length f < text_limit) gs \<Longrightarrow>
   concat (map writeField fs) @ r = concat (map writeField gs) @ s \<Longrightarrow> fs = gs \<and> r = s"
proof (induction fs gs arbitrary: r s rule: list_induct2)
  case Nil
  then show ?case by simp
next
  case (Cons f fs g gs)
  have "f = g \<and> concat (map writeField fs) @ r = concat (map writeField gs) @ s"
    by (rule field_inj) (use Cons.prems in simp_all)
  with Cons.IH [of r s] Cons.prems show ?case by simp
qed

lemma hash_preimage_shape:
  "hash_preimage e =
     writeField (L_PrevHash e) @ put_uint64 (L_Index e)
     @ (if hashVersionForEntry e \<le> 1 then [] else put_uint64 (hashVersionForEntry e))
     @ concat (map writeField (hashed_fields e))
     @ (if hashVersionForEntry e \<le> 3 then [] else put_uint64 (L_LatencyMs e))"
proof -
  consider "hashVersionForEntry e \<le> 1" | "hashVersionForEntry e = 2" | "hashVersionForEntry e = 3"
    | "hashVersionForEntry e > 3" by linarith
  then show ?thesis
    by cases (simp_all add: hash_preimage_def Let_def legacyHashVersion_def hashed_fields_def
        preimage_V1_def preimage_V2_def preimage_V3_def preimage_V4_def)
qed

lemma put_uint64_hd: "n < text_limit \<Longrightarrow> \<exists>bs. put_uint64 (int n) = CHR 0x00 # bs"
proof -
  assume n: "n < text_limit"
  have eight: "be_bytes 8 m = char_of (m div 256 ^ 7) # be_bytes 7 m" for m
    using be_bytes.simps(2) [of 7 m] by simp
  from n have "nat (int n mod 2 ^ 64) = n" by (simp add: text_limit_def)
  moreover from n have "n div 256 ^ 7 = 0" by (simp add: text_limit_def)
  moreover have "char_of (0 :: nat) = CHR 0x00" by (simp add: char_of_def)
  ultimately show ?thesis
    by (simp only: put_uint64_def eight) simp
qed

text \<open>A version-1 preimage and a later one differ: where the later one writes the length of
  the timestamp, the first writes the timestamp itself.\<close>

lemma version_separates:
  assumes x: "entry_wf x" and y: "entry_wf y"
    and eq: "concat (map writeField (hashed_fields x)) @ r
             = put_uint64 v @ concat (map writeField (hashed_fields y)) @ s"
  shows False
proof -
  obtain c cs where ts: "L_Timestamp x = c # cs" "c \<noteq> CHR 0x00"
    using x by (auto simp: entry_wf_def)
  have fx: "\<exists>fs. hashed_fields x = L_Timestamp x # fs" and fy: "\<exists>fs. hashed_fields y = L_Timestamp y # fs"
    by (simp_all add: hashed_fields_def Let_def)
  then obtain fs gs where f: "hashed_fields x = L_Timestamp x # fs" "hashed_fields y = L_Timestamp y # gs"
    by blast
  have "length (L_Timestamp y) < text_limit" using y f(2) by (simp add: entry_wf_def)
  from put_uint64_hd [OF this] obtain bs where "put_uint64 (int (length (L_Timestamp y))) = CHR 0x00 # bs"
    by blast
  then have "put_uint64 (int (length (L_Timestamp x))) @ (c # cs @ concat (map writeField fs) @ r)
      = put_uint64 v @ (CHR 0x00 # bs @ L_Timestamp y @ concat (map writeField gs) @ s)"
    using eq by (simp add: f ts(1) writeField_def [of "c # cs"] writeField_def [of "L_Timestamp y"]
        length_prefixed_def)
  then have "c # cs @ concat (map writeField fs) @ r
      = CHR 0x00 # bs @ L_Timestamp y @ concat (map writeField gs) @ s"
    by simp
  with ts(2) show False by simp
qed

lemma tail_inj:
  assumes a: "entry_wf a" and b: "entry_wf b"
    and same: "hashVersionForEntry a = hashVersionForEntry b
               \<or> hashVersionForEntry a \<le> 1 \<and> hashVersionForEntry b \<le> 1"
    and eq: "concat (map writeField (hashed_fields a))
               @ (if hashVersionForEntry a \<le> 3 then [] else put_uint64 (L_LatencyMs a))
             = concat (map writeField (hashed_fields b))
               @ (if hashVersionForEntry b \<le> 3 then [] else put_uint64 (L_LatencyMs b))"
  shows "hashed_fields a = hashed_fields b
         \<and> (hashVersionForEntry a \<le> 3 \<or> L_LatencyMs a = L_LatencyMs b)"
proof -
  have "length (hashed_fields a) = length (hashed_fields b)"
    using same by (auto simp: hashed_fields_def Let_def)
  from fields_inj [OF this _ _ eq] a b
  have "hashed_fields a = hashed_fields b"
    and lat: "(if hashVersionForEntry a \<le> 3 then [] else put_uint64 (L_LatencyMs a))
        = (if hashVersionForEntry b \<le> 3 then [] else put_uint64 (L_LatencyMs b))"
    by (auto simp: entry_wf_def)
  moreover have "L_LatencyMs a = L_LatencyMs b" if "put_uint64 (L_LatencyMs a) = put_uint64 (L_LatencyMs b)"
    using int_inj [of "L_LatencyMs a" "[]" "L_LatencyMs b" "[]"] that a b by (simp add: entry_wf_def)
  ultimately show ?thesis using same by (auto split: if_splits)
qed

lemma hash_preimage_inj:
  assumes eq: "hash_preimage a = hash_preimage b" and a: "entry_wf a" and b: "entry_wf b"
  shows "hashed_view a = hashed_view b"
proof -
  let ?v = hashVersionForEntry
  let ?t = "\<lambda>e. concat (map writeField (hashed_fields e)) @ (if ?v e \<le> 3 then [] else put_uint64 (L_LatencyMs e))"
  let ?m = "\<lambda>e. (if ?v e \<le> 1 then [] else put_uint64 (?v e)) @ ?t e"
  have "writeField (L_PrevHash a) @ put_uint64 (L_Index a) @ ?m a
      = writeField (L_PrevHash b) @ put_uint64 (L_Index b) @ ?m b"
    using eq by (simp only: hash_preimage_shape)
  from field_inj [OF this] a b have prev: "L_PrevHash a = L_PrevHash b"
    and "put_uint64 (L_Index a) @ ?m a = put_uint64 (L_Index b) @ ?m b"
    by (simp_all add: entry_wf_def)
  from int_inj [OF this(2)] a b have idx: "L_Index a = L_Index b" and m: "?m a = ?m b"
    by (simp_all add: entry_wf_def)
  consider "?v a \<le> 1" "?v b \<le> 1" | "?v a \<le> 1" "\<not> ?v b \<le> 1" | "\<not> ?v a \<le> 1" "?v b \<le> 1"
    | "\<not> ?v a \<le> 1" "\<not> ?v b \<le> 1" by blast
  then show ?thesis
  proof cases
    case 1
    with m have "?t a = ?t b" by simp
    from tail_inj [OF a b _ this] 1 prev idx show ?thesis by (simp add: hashed_view_def Let_def)
  next
    case 2
    with m have "concat (map writeField (hashed_fields a)) @ []
        = put_uint64 (?v b) @ concat (map writeField (hashed_fields b))
          @ (if ?v b \<le> 3 then [] else put_uint64 (L_LatencyMs b))" by simp
    from version_separates [OF a b this] show ?thesis ..
  next
    case 3
    with m have "concat (map writeField (hashed_fields b)) @ []
        = put_uint64 (?v a) @ concat (map writeField (hashed_fields a))
          @ (if ?v a \<le> 3 then [] else put_uint64 (L_LatencyMs a))" by simp
    from version_separates [OF b a this] show ?thesis ..
  next
    case 4
    with m have "put_uint64 (?v a) @ ?t a = put_uint64 (?v b) @ ?t b" by simp
    moreover have "int64 (?v a)" "int64 (?v b)" using a b by (simp_all add: entry_wf_def)
    ultimately have "?v a = ?v b \<and> ?t a = ?t b" by (rule int_inj)
    then have v: "?v a = ?v b" and t: "?t a = ?t b" by (rule conjunct1, rule conjunct2)
    from tail_inj [OF a b _ t] v prev idx show ?thesis by (auto simp: hashed_view_def Let_def)
  qed
qed

subsection \<open>The ledger as a chain\<close>

text \<open>Two entries collide when their hashed bytes differ and have the same digest.\<close>

definition sha_collision :: "Entry \<Rightarrow> Entry \<Rightarrow> bool" where
  "sha_collision a b \<longleftrightarrow>
     hash_preimage a \<noteq> hash_preimage b
     \<and> sha256_Sum256 (hash_preimage a) = sha256_Sum256 (hash_preimage b)"

interpretation ledger: hash_chain L_PrevHash L_EntryHash computeHash entry_wf hashed_view sha_collision
proof unfold_locales
  fix a b
  assume wf: "entry_wf a" "entry_wf b" and "computeHash a = computeHash b"
  then have "sha256_Sum256 (hash_preimage a) = sha256_Sum256 (hash_preimage b)"
    by (simp add: computeHash_def hex_inj)
  then show "hashed_view a = hashed_view b \<or> sha_collision a b"
    using hash_preimage_inj [OF _ wf] by (auto simp: sha_collision_def)
next
  fix a b
  show "hashed_view a = hashed_view b \<Longrightarrow> L_PrevHash a = L_PrevHash b"
    by (simp add: hashed_view_def Let_def)
qed

definition verified :: "ledger_line list \<Rightarrow> Entry list \<Rightarrow> bool" where
  "verified ls es \<longleftrightarrow> readAllUnlocked ls = Inr es \<and> Verify ls = (int (length es), None)"

lemma index_upt_Cons:
  "map (\<lambda>k. i + int k) [0..<length (x # xs)] = i # map (\<lambda>k. i + 1 + int k) [0..<length xs]"
  by (simp add: upt_conv_Cons map_Suc_upt [symmetric] del: upt_Suc)

lemma verify_loop_ok:
  "verify_loop i prev es = (j, None) \<longleftrightarrow>
     j = i + int (length es) \<and> map L_Index es = map (\<lambda>k. i + int k) [0..<length es]
     \<and> linked L_PrevHash L_EntryHash computeHash (case prev of None \<Rightarrow> genesis_hash | Some e \<Rightarrow> L_EntryHash e) es"
proof (induction es arbitrary: i prev)
  case Nil
  then show ?case by auto
next
  case (Cons e es)
  show ?case
    unfolding index_upt_Cons by (cases prev) (auto simp: Cons.IH)
qed

lemma verified_iff:
  "verified ls es \<longleftrightarrow>
     readAllUnlocked ls = Inr es \<and> map L_Index es = map int [0..<length es]
     \<and> linked L_PrevHash L_EntryHash computeHash genesis_hash es"
  by (cases "es = []") (auto simp: verified_def Verify_def verify_loop_ok cong: map_cong)

lemma Verify_ok: "Verify ls = (n, None) \<Longrightarrow> \<exists>es. verified ls es \<and> n = int (length es)"
  by (auto simp: verified_def Verify_def verify_loop_ok split: sum.splits if_splits)

lemma readAll_append:
  "readAllUnlocked ls = Inr es \<Longrightarrow> readAllUnlocked (ls @ [Line e]) = Inr (es @ [e])"
  by (induction ls arbitrary: es rule: readAllUnlocked.induct) (auto split: sum.splits)

subsection \<open>Appending\<close>

text \<open>The texts of an entry survive the passage through JSON.\<close>

definition utf8_entry :: "Entry \<Rightarrow> bool" where
  "utf8_entry e \<longleftrightarrow>
     list_all utf8_ValidString
       [L_PrevHash e, L_ToolName e, L_Verb e, L_Target e, L_Sensitivity e, L_Trust e,
        L_Provenance e, L_Decision e, L_Reason e, L_ContentHash e, L_Preview e, L_Severity e,
        L_AlertType e, L_DetectionID e, L_Evidence e, L_Agent e, L_DiffSummary e]"

lemma hex_ascii: "utf8_ValidString (hex_EncodeToString bs)"
proof -
  have digit: "byte_in 0 0x7F (hex_digit n)" if "n < 16" for n
    using that by (auto simp: hex_digit_def byte_in_def)
  have "list_all (byte_in 0 0x7F) (hex_EncodeToString bs)"
  proof (induction bs)
    case Nil
    then show ?case by simp
  next
    case (Cons c cs)
    have "(of_char c :: nat) div 16 < 16"
      using nat_of_char_less_256 [of c] by (simp add: less_mult_imp_div_less)
    with Cons digit show ?case by simp
  qed
  then show ?thesis by (rule ascii_valid)
qed

lemma computeHash_cong:
  "hash_preimage a = hash_preimage b \<Longrightarrow> computeHash a = computeHash b"
  by (simp add: computeHash_def)

lemma hash_preimage_EntryHash [simp]: "hash_preimage (e\<lparr>L_EntryHash := h\<rparr>) = hash_preimage e"
  by (simp add: hash_preimage_shape hashed_fields_def hashVersionForEntry_def Let_def)

lemma json_entry_utf8:
  "utf8_entry e \<Longrightarrow> hash_preimage (json_entry e) = hash_preimage e"
  by (simp add: hash_preimage_shape hashed_fields_def hashVersionForEntry_def Let_def json_entry_def
      utf8_entry_def utf8_coerce_valid)

lemma chained_entry_hash:
  "L_EntryHash (chained_entry R now ls entry) = computeHash (chained_entry R now ls entry)"
  by (simp add: chained_entry_def Let_def split_beta computeHash_def)

lemma stamp_sanitize_keep:
  "L_Index (stampDetection (sanitizeEntry R e)) = L_Index e"
  "L_PrevHash (stampDetection (sanitizeEntry R e)) = L_PrevHash e"
  by (simp_all add: stampDetection_def sanitizeEntry_def split: option.split)

lemma chained_entry_link:
  assumes "readAllUnlocked ls = Inr es"
  shows "L_Index (chained_entry R now ls entry) = (if es = [] then 0 else L_Index (last es) + 1)"
    and "L_PrevHash (chained_entry R now ls entry) = (if es = [] then genesis_hash else L_EntryHash (last es))"
  using assms by (simp_all add: chained_entry_def Let_def split_beta stamp_sanitize_keep)

lemma genesis_ascii: "utf8_ValidString genesis_hash"
  by (rule ascii_valid) (simp add: genesis_hash_def list_all_iff byte_in_def)

lemma genesis_facts: "utf8_coerce genesis_hash = genesis_hash" "length genesis_hash = 64"
  by (simp_all add: utf8_coerce_valid genesis_ascii) (simp add: genesis_hash_def)

text \<open>The head of a verified ledger is a hex digest or the genesis text, so it survives JSON.\<close>

lemma verified_head_ascii:
  assumes "verified ls es"
  shows "utf8_ValidString (L_PrevHash (chained_entry R now ls entry))"
proof (cases "es = []")
  case True
  with assms show ?thesis by (simp add: verified_def chained_entry_link genesis_ascii)
next
  case False
  then obtain fs e where es: "es = fs @ [e]" by (cases es rule: rev_exhaust) auto
  with assms have "L_EntryHash e = computeHash e" by (simp add: verified_iff linked_snoc)
  with assms es show ?thesis
    by (simp add: verified_def chained_entry_link computeHash_def hex_ascii)
qed

lemma verify_loop_snoc:
  assumes "map L_Index xs = map (\<lambda>k. i + int k) [0..<length xs]"
    and "linked L_PrevHash L_EntryHash computeHash (case prev of None \<Rightarrow> genesis_hash | Some e \<Rightarrow> L_EntryHash e) xs"
    and "L_Index e = i + int (length xs)"
    and "L_PrevHash e = (if xs = [] then (case prev of None \<Rightarrow> genesis_hash | Some e \<Rightarrow> L_EntryHash e)
                         else L_EntryHash (last xs))"
  shows "verify_loop i prev (xs @ [e]) =
     (if L_EntryHash e = computeHash e then (i + int (length xs) + 1, None)
      else (i + int (length xs), Some (EntryHashMismatch (i + int (length xs)))))"
  using assms
proof (induction xs arbitrary: i prev)
  case Nil
  then show ?case by (cases prev) auto
next
  case (Cons x xs)
  have "verify_loop (i + 1) (Some x) (xs @ [e]) =
     (if L_EntryHash e = computeHash e then (i + 1 + int (length xs) + 1, None)
      else (i + 1 + int (length xs), Some (EntryHashMismatch (i + 1 + int (length xs)))))"
    using Cons.prems unfolding index_upt_Cons by (intro Cons.IH) auto
  then show ?case
    using Cons.prems unfolding index_upt_Cons by (cases prev) (auto simp: algebra_simps)
qed

lemma verify_append:
  assumes ok: "verified ls es"
  shows "Verify (Append R now entry ls) =
    (let e = json_entry (chained_entry R now ls entry) in
     if L_EntryHash e = computeHash e then (int (length es) + 1, None)
     else (int (length es), Some (EntryHashMismatch (int (length es)))))"
proof -
  let ?c = "chained_entry R now ls entry"
  let ?e = "json_entry ?c"
  have read: "readAllUnlocked ls = Inr es" and idx: "map L_Index es = map int [0..<length es]"
    and link: "linked L_PrevHash L_EntryHash computeHash genesis_hash es"
    using ok by (simp_all add: verified_iff)
  have last_idx: "es \<noteq> [] \<Longrightarrow> L_Index (last es) = int (length es) - 1"
  proof -
    assume ne: "es \<noteq> []"
    have "L_Index (last es) = last (map L_Index es)" using ne by (simp add: last_map)
    also have "\<dots> = int (length es - 1)" using ne unfolding idx by (simp add: last_map last_upt)
    finally show ?thesis using ne by (simp add: of_nat_diff Suc_leI)
  qed
  have eidx: "L_Index ?e = int (length es)"
    using last_idx by (simp add: json_entry_def chained_entry_link [OF read])
  have eprev: "L_PrevHash ?e = (if es = [] then genesis_hash else L_EntryHash (last es))"
    using verified_head_ascii [OF ok, of R now entry] chained_entry_link(2) [OF read, of R now entry]
    by (simp add: json_entry_def utf8_coerce_valid)
  show ?thesis
    using verify_loop_snoc [of es 0 None ?e] idx link eidx eprev readAll_append [OF read, of ?e]
    by (simp add: Verify_def Append_def Let_def)
qed

subsection \<open>Concrete entries\<close>

definition demo_redact :: RedactFns where
  "demo_redact = \<lparr>RF_String = (\<lambda>s. s), RF_Content = (\<lambda>s. s), RF_Evidence = (\<lambda>s. s)\<rparr>"

definition demo_now :: string where
  "demo_now = ''2025-01-02T03:04:05Z''"

definition demo_entry :: Entry where
  "demo_entry =
     \<lparr>L_Index = 0, L_Timestamp = [], L_PrevHash = [], L_EntryHash = [], L_HashVersion = 0,
      L_ToolName = ''Read'', L_Verb = ''read_ref'', L_Target = ''a.txt'', L_Sensitivity = [],
      L_Trust = [], L_Provenance = [], L_Decision = ''allow'', L_Reason = [], L_ContentHash = [],
      L_Preview = [], L_Severity = [], L_AlertType = [], L_DetectionID = [], L_DetectionRoute = [],
      L_SignalIDs = [], L_Evidence = [], L_Agent = [], L_DiffSummary = [], L_Restored = False,
      L_LatencyMs = 0, L_BaseVerdict = [], L_ProviderVerdicts = [], L_ProviderFailures = []\<rparr>"

lemma entryLocalDetection_allow:
  "L_Decision e = ''allow'' \<Longrightarrow> L_AlertType e = [] \<Longrightarrow> L_Verb e = ''read_ref'' \<Longrightarrow> entryLocalDetection e = None"
  by (simp add: entryLocalDetection_def Classify_def classifyBase_def detectionRules_def
      fires_when_def isTamperAlert_def integrityCritical_def)

lemma demo_stamp: "stampDetection (sanitizeEntry demo_redact
    (demo_entry\<lparr>L_Index := i, L_Timestamp := t, L_PrevHash := h, L_HashVersion := v, L_Preview := p\<rparr>))
  = demo_entry\<lparr>L_Index := i, L_Timestamp := t, L_PrevHash := h, L_HashVersion := v, L_Preview := p\<rparr>"
proof -
  have "sanitizeEntry demo_redact
    (demo_entry\<lparr>L_Index := i, L_Timestamp := t, L_PrevHash := h, L_HashVersion := v, L_Preview := p\<rparr>)
  = demo_entry\<lparr>L_Index := i, L_Timestamp := t, L_PrevHash := h, L_HashVersion := v, L_Preview := p\<rparr>"
    by (simp add: sanitizeEntry_def demo_redact_def demo_entry_def)
  then show ?thesis
    by (simp add: stampDetection_def entryLocalDetection_allow demo_entry_def)
qed

text \<open>The entry that appending the demo entry (with a preview) to an empty ledger hashes.\<close>

definition demo_chained :: "string \<Rightarrow> Entry" where
  "demo_chained p = demo_entry\<lparr>L_Index := 0, L_Timestamp := demo_now, L_PrevHash := genesis_hash,
     L_HashVersion := 4, L_Preview := p\<rparr>"

lemma demo_chained_entry:
  "chained_entry demo_redact demo_now [] (demo_entry\<lparr>L_Preview := p\<rparr>)
     = (demo_chained p)\<lparr>L_EntryHash := computeHash (demo_chained p)\<rparr>"
proof -
  have "(demo_entry\<lparr>L_Preview := p\<rparr>)\<lparr>L_Index := 0, L_Timestamp := demo_now,
      L_PrevHash := genesis_hash, L_HashVersion := 4\<rparr> = demo_chained p"
    by (simp add: demo_chained_def demo_entry_def)
  with demo_stamp [where i = 0 and t = demo_now and h = genesis_hash and v = 4 and p = p] show ?thesis
    by (simp add: chained_entry_def Let_def currentHashVersion_def demo_chained_def [symmetric])
       (simp add: demo_chained_def demo_entry_def)
qed

subsection \<open>Properties\<close>

text \<open>C27: appending keeps the ledger verifiable. If a ledger verifies with n entries and the texts of the new
  entry as it is stored, after redaction and stamping, are valid UTF-8, then after \<open>Append\<close>, whatever the
  redactors are and whatever hash version the caller chose, it verifies with n + 1 entries. (Valid texts of the
  caller are not enough: a redactor can cut a character in two.)\<close>

theorem append_keeps_verified:
  assumes "Verify ls = (n, None)" and "utf8_entry (chained_entry R now ls entry)"
  shows "Verify (Append R now entry ls) = (n + 1, None)"
proof -
  let ?c = "chained_entry R now ls entry"
  obtain es where es: "verified ls es" "n = int (length es)" using Verify_ok [OF assms(1)] by blast
  have "computeHash (json_entry ?c) = computeHash ?c"
    by (rule computeHash_cong) (rule json_entry_utf8 [OF assms(2)])
  moreover have "L_EntryHash (json_entry ?c) = computeHash ?c"
  proof -
    have "L_EntryHash (json_entry ?c) = utf8_coerce (computeHash ?c)"
      by (simp add: json_entry_def chained_entry_hash)
    then show ?thesis by (simp add: computeHash_def utf8_coerce_valid hex_ascii)
  qed
  ultimately show ?thesis using verify_append [OF es(1), of R now entry] es(2) by (simp add: Let_def)
qed

theorem append_keeps_verified_witness:
  "Verify (Append demo_redact demo_now (demo_entry\<lparr>L_Preview := ''hello''\<rparr>) []) = (1, None)"
proof -
  have "Verify [] = (0, None)" by (simp add: Verify_def)
  moreover have "utf8_entry (chained_entry demo_redact demo_now [] (demo_entry\<lparr>L_Preview := ''hello''\<rparr>))"
    unfolding demo_chained_entry
    by (simp add: utf8_entry_def demo_chained_def demo_entry_def genesis_ascii ascii_valid byte_in_def)
  ultimately show ?thesis
    using append_keeps_verified [of "[]" 0 demo_redact demo_now "demo_entry\<lparr>L_Preview := ''hello''\<rparr>"]
    by simp
qed

text \<open>C26: the chain is tamper evident. Two ledgers of the same length that both verify and
  end in the same entry hash agree on everything the hashes cover, in every entry:
  version, link, index, all text fields and the latency. Any edit, reordering, insertion
  or removal behind that head shows, unless two entries collide under SHA-256.\<close>

theorem ledger_tamper_evident:
  assumes "readAllUnlocked ls = Inr es" and "readAllUnlocked ls' = Inr es'"
    and "Verify ls = (n, None)" and "Verify ls' = (n, None)"
    and "es \<noteq> []" and "L_EntryHash (last es) = L_EntryHash (last es')"
    and "list_all entry_wf es" and "list_all entry_wf es'"
    and "\<forall>a \<in> set es. \<forall>b \<in> set es'. \<not> sha_collision a b"
  shows "map hashed_view es = map hashed_view es'"
proof -
  have v: "verified ls es" "verified ls' es'" and n: "n = int (length es)" "n = int (length es')"
    using Verify_ok [OF assms(3)] Verify_ok [OF assms(4)] assms(1,2) by (auto simp: verified_def)
  then have link: "linked L_PrevHash L_EntryHash computeHash genesis_hash es"
      "linked L_PrevHash L_EntryHash computeHash genesis_hash es'"
    by (simp_all add: verified_iff)
  show ?thesis
    by (rule ledger.same_head_same_views [OF _ link assms(7,8,5,6)]) (use n assms(9) in auto)
qed

lemma demo_verified:
  assumes "hash_preimage e = hash_preimage (demo_chained p)" and "L_Index e = 0"
    and "L_PrevHash e = genesis_hash" and "L_EntryHash e = computeHash (demo_chained p)"
  shows "Verify [Line e] = (1, None)"
  using assms computeHash_cong [OF assms(1)] by (simp add: Verify_def)

theorem ledger_tamper_evident_witness:
  "let e = (demo_chained ''x'')\<lparr>L_EntryHash := computeHash (demo_chained ''x'')\<rparr>;
       e' = e\<lparr>L_BaseVerdict := ''ask''\<rparr> in
   Verify [Line e] = (1, None) \<and> Verify [Line e'] = (1, None)
   \<and> map hashed_view [e] = map hashed_view [e']"
proof -
  let ?e = "(demo_chained ''x'')\<lparr>L_EntryHash := computeHash (demo_chained ''x'')\<rparr>"
  let ?e' = "?e\<lparr>L_BaseVerdict := ''ask''\<rparr>"
  have pre: "hash_preimage ?e = hash_preimage (demo_chained ''x'')"
    "hash_preimage ?e' = hash_preimage (demo_chained ''x'')"
    by (simp_all add: hash_preimage_shape hashed_fields_def hashVersionForEntry_def Let_def)
  have sel: "L_Index ?e = 0" "L_Index ?e' = 0" "L_PrevHash ?e = genesis_hash" "L_PrevHash ?e' = genesis_hash"
    by (simp_all add: demo_chained_def)
  have ver: "Verify [Line ?e] = (1, None)" "Verify [Line ?e'] = (1, None)"
    by (rule demo_verified, use pre sel in simp_all)+
  have wf: "entry_wf ?e" "entry_wf ?e'"
    by (simp_all add: entry_wf_def hashed_fields_def hashVersionForEntry_def Let_def demo_chained_def
        demo_entry_def demo_now_def int64_def text_limit_def genesis_hash_def bool_text_def)
  have "map hashed_view [?e] = map hashed_view [?e']"
    by (rule ledger_tamper_evident [where n = 1 and ls = "[Line ?e]" and ls' = "[Line ?e']"])
       (use ver wf pre in \<open>simp_all add: sha_collision_def\<close>)
  with ver show ?thesis by (simp add: Let_def)
qed

text \<open>What JSON changes, the hash notices. If the stored form of an appended entry is
  not what was hashed, the ledger no longer verifies: the check stops at that entry with a
  hash mismatch, unless the two forms collide. This is what happens to a preview cut at
  byte 80 in the middle of a character.\<close>

theorem lossy_text_breaks_verification:
  assumes "Verify ls = (n, None)"
    and "hash_preimage (json_entry (chained_entry R now ls entry)) \<noteq> hash_preimage (chained_entry R now ls entry)"
  shows "Verify (Append R now entry ls) = (n, Some (EntryHashMismatch n))
    \<or> sha_collision (json_entry (chained_entry R now ls entry)) (chained_entry R now ls entry)"
proof -
  let ?c = "chained_entry R now ls entry"
  obtain es where es: "verified ls es" "n = int (length es)" using Verify_ok [OF assms(1)] by blast
  have stored: "L_EntryHash (json_entry ?c) = computeHash ?c"
  proof -
    have "L_EntryHash (json_entry ?c) = utf8_coerce (computeHash ?c)"
      by (simp add: json_entry_def chained_entry_hash)
    then show ?thesis by (simp add: computeHash_def utf8_coerce_valid hex_ascii)
  qed
  show ?thesis
  proof (cases "computeHash (json_entry ?c) = computeHash ?c")
    case True
    then have "sha256_Sum256 (hash_preimage (json_entry ?c)) = sha256_Sum256 (hash_preimage ?c)"
      by (simp add: computeHash_def hex_inj)
    with assms(2) show ?thesis by (simp add: sha_collision_def)
  next
    case False
    with verify_append [OF es(1), of R now entry] es(2) stored show ?thesis by (simp add: Let_def)
  qed
qed

text \<open>A target whose preview is cut after the first byte of a two-byte letter.\<close>

definition accented_target :: string where
  "accented_target = replicate 79 (CHR ''a'') @ [CHR 0xC3, CHR 0xA9] @ ''.txt''"

lemma accented_preview: "RedactPreview accented_target False = replicate 79 (CHR ''a'') @ [CHR 0xC3] @ ''...''"
  by (simp add: RedactPreview_def accented_target_def)

lemma coerce_prefix: "utf8_coerce (replicate n (CHR ''a'') @ s) = replicate n (CHR ''a'') @ utf8_coerce s"
  by (induction n) (simp_all add: utf8_coerce.simps(2) rune_len_def byte_in_def Let_def)

theorem lossy_text_breaks_verification_witness:
  "let entry = demo_entry\<lparr>L_Preview := RedactPreview accented_target False\<rparr>;
       c = chained_entry demo_redact demo_now [] entry in
   Verify (Append demo_redact demo_now entry []) = (0, Some (EntryHashMismatch 0))
   \<or> sha_collision (json_entry c) c"
proof -
  let ?p = "RedactPreview accented_target False"
  let ?c = "chained_entry demo_redact demo_now [] (demo_entry\<lparr>L_Preview := ?p\<rparr>)"
  have "utf8_coerce ?p \<noteq> ?p"
    unfolding accented_preview coerce_prefix
    by (simp add: utf8_coerce.simps(2) rune_len_def byte_in_def Let_def replacement_rune_def)
  then have "hashed_view (json_entry ?c) \<noteq> hashed_view ?c"
    unfolding demo_chained_entry
    by (simp add: hashed_view_def hashed_fields_def hashVersionForEntry_def Let_def json_entry_def
        demo_chained_def)
  moreover have "entry_wf (json_entry ?c)" "entry_wf ?c"
    unfolding demo_chained_entry accented_preview
    by (simp_all add: entry_wf_def hashed_fields_def hashVersionForEntry_def Let_def demo_chained_def
        demo_entry_def demo_now_def int64_def text_limit_def genesis_facts bool_text_def json_entry_def
        coerce_prefix utf8_coerce.simps(2) rune_len_def byte_in_def replacement_rune_def)
  ultimately have "hash_preimage (json_entry ?c) \<noteq> hash_preimage ?c"
    using hash_preimage_inj by blast
  moreover have "Verify [] = (0, None)" by (simp add: Verify_def)
  ultimately show ?thesis
    using lossy_text_breaks_verification [of "[]" 0] by (simp add: Let_def)
qed

text \<open>The detection that a stored entry reports is the one it had when it was
  written. Sanitising and stamping change neither the identifier reported for an entry nor
  an identifier the caller set, stamping again changes nothing, and an identifier that was
  derived is in the catalogue.\<close>

theorem stamping_is_stable:
  "DetectionID_of (stampDetection (sanitizeEntry R e)) = DetectionID_of e
   \<and> stampDetection (stampDetection e) = stampDetection e
   \<and> (L_DetectionID (stampDetection e) = L_DetectionID e \<or> Valid (L_DetectionID (stampDetection e)))"
proof -
  have valid: "Valid (Det_ID d) \<and> Det_ID d \<noteq> []" if "entryLocalDetection x = Some d" for x d
  proof -
    from that obtain s d0 where "classifyBase s = Some d0" "Det_ID d = Det_ID d0"
      unfolding entryLocalDetection_def by (blast elim: Classify_Some)
    then have "Det_ID d \<in> set orderedIDs"
      unfolding classifyBase_def by (metis classify_loop_fired rule_shape)
    then show ?thesis by (auto simp: Valid_iff orderedIDs_def detection_id_defs)
  qed
  have same: "entryLocalDetection (sanitizeEntry R e) = entryLocalDetection e"
    "L_DetectionID (sanitizeEntry R e) = L_DetectionID e"
    by (simp_all add: entryLocalDetection_def sanitizeEntry_def)
  have "DetectionID_of (stampDetection (sanitizeEntry R e)) = DetectionID_of e"
    using valid by (cases "entryLocalDetection e") (auto simp: DetectionID_of_def stampDetection_def same)
  moreover have "stampDetection (stampDetection e) = stampDetection e"
    using valid by (cases "entryLocalDetection e") (auto simp: stampDetection_def)
  moreover have "L_DetectionID (stampDetection e) = L_DetectionID e \<or> Valid (L_DetectionID (stampDetection e))"
    using valid by (cases "entryLocalDetection e") (auto simp: stampDetection_def)
  ultimately show ?thesis by blast
qed

lemma causal_scan_spec:
  "(case causal_scan entries n of
      None \<Rightarrow> \<forall>i < n. \<not> (read_secret (entries ! i) \<or> read_env (entries ! i))
    | Some e \<Rightarrow> \<exists>i < n. entries ! i = e \<and> (read_secret e \<or> read_env e)
        \<and> (\<forall>j. i < j \<and> j < n \<longrightarrow> \<not> (read_secret (entries ! j) \<or> read_env (entries ! j))))"
  by (induction n) (auto simp: less_Suc_eq split: option.splits)

text \<open>The causal explanation is the latest one. For an index within the ledger,
  \<open>FindCausalSecretRead\<close> returns the last entry before it that read a secret or the
  environment and was not denied, and nothing exactly when there is no such entry.\<close>

theorem causal_read_is_latest:
  assumes "n \<le> length entries"
  shows "\<exists>r. FindCausalSecretRead entries (int n) = Some r \<and>
    (case r of
       None \<Rightarrow> \<forall>i < n. \<not> (read_secret (entries ! i) \<or> read_env (entries ! i))
     | Some e \<Rightarrow> \<exists>i < n. entries ! i = e \<and> (read_secret e \<or> read_env e)
         \<and> (\<forall>j. i < j \<and> j < n \<longrightarrow> \<not> (read_secret (entries ! j) \<or> read_env (entries ! j))))"
  using assms causal_scan_spec [of n entries] by (simp add: FindCausalSecretRead_def)

theorem causal_read_is_latest_witness:
  "FindCausalSecretRead [demo_entry\<lparr>L_Verb := ''env_read''\<rparr>, demo_entry] 2
   = Some (Some (demo_entry\<lparr>L_Verb := ''env_read''\<rparr>))"
proof -
  let ?x = "demo_entry\<lparr>L_Verb := ''env_read''\<rparr>"
  let ?es = "[?x, demo_entry]"
  have sel: "\<not> read_secret demo_entry" "\<not> read_env demo_entry" "read_env ?x"
    by (simp_all add: read_secret_def read_env_def demo_entry_def)
  obtain r where r: "FindCausalSecretRead ?es 2 = Some r" and
    c: "case r of None \<Rightarrow> \<forall>i < 2. \<not> (read_secret (?es ! i) \<or> read_env (?es ! i))
     | Some e \<Rightarrow> \<exists>i < 2. ?es ! i = e \<and> (read_secret e \<or> read_env e)
         \<and> (\<forall>j. i < j \<and> j < 2 \<longrightarrow> \<not> (read_secret (?es ! j) \<or> read_env (?es ! j)))"
    using causal_read_is_latest [of 2 ?es] by auto
  have "r = Some ?x"
  proof (cases r)
    case None
    with c have "\<forall>i < 2. \<not> read_env (?es ! i)" by simp
    then have "\<not> read_env (?es ! 0)" by (rule allE [of _ 0]) (erule mp, rule zero_less_numeral)
    with sel(3) show ?thesis by (simp only: nth_Cons_0 not_True_eq_False)
  next
    case (Some e)
    with c obtain i where "i < 2" and e: "?es ! i = e" "read_secret e \<or> read_env e"
      by (simp only: option.case) blast
    then consider "i = 0" | "i = 1" by linarith
    then show ?thesis
    proof cases
      case 1
      with e(1) Some show ?thesis by simp
    next
      case 2
      with e sel(1,2) show ?thesis by simp
    qed
  qed
  with r show ?thesis by simp
qed

text \<open>A ledger that no longer parses is not repaired by appending. With a corrupt line,
  \<open>Append\<close> ignores the read error and starts a second chain at index 0 with the genesis
  link, and verification reports the corruption before and after.\<close>

theorem append_after_corruption:
  assumes "Corrupt \<in> set ls"
  shows "L_Index (chained_entry R now ls entry) = 0
    \<and> L_PrevHash (chained_entry R now ls entry) = genesis_hash
    \<and> Verify (Append R now entry ls) = (0, Some CorruptEntry)"
proof -
  have read: "readAllUnlocked (ls @ xs) = Inl CorruptEntry" for xs
    using assms by (induction ls rule: readAllUnlocked.induct) auto
  from read [of "[]"] read [of "[Line (json_entry (chained_entry R now ls entry))]"] show ?thesis
    by (simp add: chained_entry_def Let_def stamp_sanitize_keep Append_def Verify_def)
qed

theorem append_after_corruption_witness:
  "Verify (Append demo_redact demo_now demo_entry [Line demo_entry, Corrupt]) = (0, Some CorruptEntry)"
  using append_after_corruption [of "[Line demo_entry, Corrupt]" demo_redact demo_now demo_entry] by simp

end
