(* ===== verification/Go_Json_Text.thy ===== *)
theory Go_Json_Text
  imports Go_Json Go_Utf8 Go_Time
begin

text \<open>
  JSON text as \<open>encoding/json\<close> reads and writes it: a parser with the decoder's grammar
  (strict numbers, no control characters in strings, surrogate escapes, coercion of
  invalid UTF-8, nesting limit 10000) and the encoder's string escaping (HTML characters,
  U+2028 and U+2029 escaped). The parser recurses on a fuel that bounds the number of
  values and members read; the length of the text is enough, since each takes a byte.
\<close>

subsection \<open>Lexical parts\<close>

definition json_space :: "char \<Rightarrow> bool" where
  "json_space c \<longleftrightarrow> (of_char c :: nat) \<in> {9, 10, 13, 32}"

definition skip_ws :: "string \<Rightarrow> string" where
  "skip_ws s = dropWhile json_space s"

definition digit :: "char \<Rightarrow> bool" where
  "digit c \<longleftrightarrow> byte_in 48 57 c"

text \<open>The number grammar: optional minus, an integer without leading zeros, an optional
  fraction and exponent. The result is the literal and the rest.\<close>

definition take_digits :: "string \<Rightarrow> string \<times> string" where
  "take_digits s = (takeWhile digit s, dropWhile digit s)"

definition parse_int_part :: "string \<Rightarrow> (string \<times> string) option" where
  "parse_int_part s =
     (case s of
        c # cs \<Rightarrow> if c = CHR ''0'' then Some (''0'', cs)
                  else if digit c then Some (take_digits s) else None
      | [] \<Rightarrow> None)"

definition parse_frac :: "string \<Rightarrow> (string \<times> string) option" where
  "parse_frac s =
     (case s of
        c # cs \<Rightarrow> if c = CHR ''.'' then
                     (case take_digits cs of (ds, r) \<Rightarrow> if ds = [] then None else Some (c # ds, r))
                   else Some ([], s)
      | [] \<Rightarrow> Some ([], []))"

definition parse_exp :: "string \<Rightarrow> (string \<times> string) option" where
  "parse_exp s =
     (case s of
        c # cs \<Rightarrow>
          if c = CHR ''e'' \<or> c = CHR ''E'' then
            (let (sign, r) = (case cs of
                                d # ds \<Rightarrow> if d = CHR ''+'' \<or> d = CHR ''-'' then ([d], ds) else ([], cs)
                              | [] \<Rightarrow> ([], []));
                 (ds, r') = take_digits r
             in if ds = [] then None else Some (c # sign @ ds, r'))
          else Some ([], s)
      | [] \<Rightarrow> Some ([], []))"

definition parse_number :: "string \<Rightarrow> (string \<times> string) option" where
  "parse_number s =
    (let (sign, s0) = (case s of c # cs \<Rightarrow> if c = CHR ''-'' then ([c], cs) else ([], s) | [] \<Rightarrow> ([], [])) in
     case parse_int_part s0 of
       None \<Rightarrow> None
     | Some (i, s1) \<Rightarrow>
         (case parse_frac s1 of
            None \<Rightarrow> None
          | Some (f, s2) \<Rightarrow>
              (case parse_exp s2 of
                 None \<Rightarrow> None
               | Some (e, s3) \<Rightarrow> Some (sign @ i @ f @ e, s3))))"

definition json_hex_value :: "char \<Rightarrow> nat option" where
  "json_hex_value c =
     (let n = (of_char c :: nat) in
      if 48 \<le> n \<and> n \<le> 57 then Some (n - 48)
      else if 97 \<le> n \<and> n \<le> 102 then Some (n - 87)
      else if 65 \<le> n \<and> n \<le> 70 then Some (n - 55)
      else None)"

definition parse_hex4 :: "string \<Rightarrow> (nat \<times> string) option" where
  "parse_hex4 s =
     (case s of
        a # b # c # d # r \<Rightarrow>
          (case (json_hex_value a, json_hex_value b, json_hex_value c, json_hex_value d) of
             (Some w, Some x, Some y, Some z) \<Rightarrow> Some (((w * 16 + x) * 16 + y) * 16 + z, r)
           | _ \<Rightarrow> None)
      | _ \<Rightarrow> None)"

text \<open>UTF-8 encoding of a code point; a surrogate becomes U+FFFD.\<close>

definition utf8_encode :: "nat \<Rightarrow> string" where
  "utf8_encode r =
     (if r < 0x80 then [char_of r]
      else if r < 0x800 then [char_of (0xC0 + r div 64), char_of (0x80 + r mod 64)]
      else if 0xD800 \<le> r \<and> r \<le> 0xDFFF then replacement_rune
      else if r < 0x10000 then
        [char_of (0xE0 + r div 4096), char_of (0x80 + r div 64 mod 64), char_of (0x80 + r mod 64)]
      else
        [char_of (0xF0 + r div 262144), char_of (0x80 + r div 4096 mod 64),
         char_of (0x80 + r div 64 mod 64), char_of (0x80 + r mod 64)])"

text \<open>A \<open>\u\<close> escape after its four digits: a high surrogate joins a following low one.\<close>

definition unescape_u :: "nat \<Rightarrow> string \<Rightarrow> string \<times> string" where
  "unescape_u r s =
     (if 0xD800 \<le> r \<and> r < 0xDC00 then
        (case s of
           b # u # s' \<Rightarrow>
             (if b = CHR 0x5C \<and> u = CHR ''u'' then
                (case parse_hex4 s' of
                   Some (lo, s'') \<Rightarrow>
                     if 0xDC00 \<le> lo \<and> lo \<le> 0xDFFF
                     then (utf8_encode ((r - 0xD800) * 1024 + (lo - 0xDC00) + 0x10000), s'')
                     else (replacement_rune, s)
                 | None \<Rightarrow> (replacement_rune, s))
              else (replacement_rune, s))
         | _ \<Rightarrow> (replacement_rune, s))
      else (utf8_encode r, s))"

definition simple_escape :: "char \<Rightarrow> char option" where
  "simple_escape c =
     map_of [(CHR 0x22, CHR 0x22), (CHR 0x5C, CHR 0x5C), (CHR ''/'', CHR ''/''),
             (CHR ''b'', CHR 0x08), (CHR ''f'', CHR 0x0C), (CHR ''n'', CHR 0x0A),
             (CHR ''r'', CHR 0x0D), (CHR ''t'', CHR 0x09)] c"

text \<open>The characters of a string up to its closing quote, escapes resolved.\<close>

fun parse_chars :: "nat \<Rightarrow> string \<Rightarrow> (string \<times> string) option" where
  "parse_chars 0 s = None"
| "parse_chars (Suc n) [] = None"
| "parse_chars (Suc n) (c # cs) =
     (if c = CHR 0x22 then Some ([], cs)
      else if byte_in 0 0x1F c then None
      else if c = CHR 0x5C then
        (case cs of
           [] \<Rightarrow> None
         | e # r \<Rightarrow>
             (if e = CHR ''u'' then
                (case parse_hex4 r of
                   None \<Rightarrow> None
                 | Some (code, r1) \<Rightarrow>
                     (case unescape_u code r1 of
                        (txt, r2) \<Rightarrow>
                          (case parse_chars n r2 of
                             None \<Rightarrow> None
                           | Some (rest, r3) \<Rightarrow> Some (txt @ rest, r3))))
              else
                (case simple_escape e of
                   None \<Rightarrow> None
                 | Some d \<Rightarrow>
                     (case parse_chars n r of
                        None \<Rightarrow> None
                      | Some (rest, r1) \<Rightarrow> Some (d # rest, r1)))))
      else
        (case parse_chars n cs of
           None \<Rightarrow> None
         | Some (rest, r) \<Rightarrow> Some (c # rest, r)))"

definition parse_string :: "string \<Rightarrow> (string \<times> string) option" where
  "parse_string s =
     (case parse_chars (Suc (length s)) s of
        None \<Rightarrow> None
      | Some (t, r) \<Rightarrow> Some (utf8_coerce t, r))"

subsection \<open>Values\<close>

definition parse_word :: "string \<Rightarrow> json \<Rightarrow> string \<Rightarrow> (json \<times> string) option" where
  "parse_word w v s = (if strings_HasPrefix s w then Some (v, drop (length w) s) else None)"

definition max_depth :: nat where
  "max_depth = 10000"

fun parse_value :: "nat \<Rightarrow> nat \<Rightarrow> string \<Rightarrow> (json \<times> string) option"
  and parse_elements :: "nat \<Rightarrow> nat \<Rightarrow> string \<Rightarrow> (json list \<times> string) option"
  and parse_members :: "nat \<Rightarrow> nat \<Rightarrow> string \<Rightarrow> ((string \<times> json) list \<times> string) option" where
  "parse_value 0 d s = None"
| "parse_value (Suc n) d s =
     (case skip_ws s of
        [] \<Rightarrow> None
      | c # cs \<Rightarrow>
          if c = CHR ''{'' then
            (if d \<ge> max_depth then None
             else case skip_ws cs of
               [] \<Rightarrow> None
             | e # r \<Rightarrow>
                 if e = CHR ''}'' then Some (JObject [], r)
                 else (case parse_members n (Suc d) cs of
                         None \<Rightarrow> None
                       | Some (ms, r') \<Rightarrow> Some (JObject ms, r')))
          else if c = CHR ''['' then
            (if d \<ge> max_depth then None
             else case skip_ws cs of
               [] \<Rightarrow> None
             | e # r \<Rightarrow>
                 if e = CHR '']'' then Some (JArray [], r)
                 else (case parse_elements n (Suc d) cs of
                         None \<Rightarrow> None
                       | Some (vs, r') \<Rightarrow> Some (JArray vs, r')))
          else if c = CHR 0x22 then
            (case parse_string cs of None \<Rightarrow> None | Some (t, r) \<Rightarrow> Some (JString t, r))
          else if c = CHR ''t'' then parse_word ''true'' (JBool True) (c # cs)
          else if c = CHR ''f'' then parse_word ''false'' (JBool False) (c # cs)
          else if c = CHR ''n'' then parse_word ''null'' JNull (c # cs)
          else
            (case parse_number (c # cs) of None \<Rightarrow> None | Some (t, r) \<Rightarrow> Some (JNumber t, r)))"
| "parse_elements 0 d s = None"
| "parse_elements (Suc n) d s =
     (case parse_value n d s of
        None \<Rightarrow> None
      | Some (v, r) \<Rightarrow>
          (case skip_ws r of
             [] \<Rightarrow> None
           | c # cs \<Rightarrow>
               if c = CHR '']'' then Some ([v], cs)
               else if c = CHR '','' then
                 (case parse_elements n d cs of
                    None \<Rightarrow> None
                  | Some (vs, r') \<Rightarrow> Some (v # vs, r'))
               else None))"
| "parse_members 0 d s = None"
| "parse_members (Suc n) d s =
     (case skip_ws s of
        [] \<Rightarrow> None
      | q # cs \<Rightarrow>
          if q \<noteq> CHR 0x22 then None
          else (case parse_string cs of
                  None \<Rightarrow> None
                | Some (k, r) \<Rightarrow>
                    (case skip_ws r of
                       [] \<Rightarrow> None
                     | c # r1 \<Rightarrow>
                         if c \<noteq> CHR '':'' then None
                         else (case parse_value n d r1 of
                                 None \<Rightarrow> None
                               | Some (v, r2) \<Rightarrow>
                                   (case skip_ws r2 of
                                      [] \<Rightarrow> None
                                    | e # r3 \<Rightarrow>
                                        if e = CHR ''}'' then Some ([(k, v)], r3)
                                        else if e = CHR '','' then
                                          (case parse_members n d r3 of
                                             None \<Rightarrow> None
                                           | Some (ms, r4) \<Rightarrow> Some ((k, v) # ms, r4))
                                        else None)))))"

text \<open>\<open>json.Unmarshal\<close> up to the typed decoding: one value and nothing but space after it.\<close>

definition json_parse :: "string \<Rightarrow> json option" where
  "json_parse s =
     (case parse_value (2 * length s + 2) 0 s of
        None \<Rightarrow> None
      | Some (v, r) \<Rightarrow> if skip_ws r = [] then Some v else None)"

definition json_Valid :: "string \<Rightarrow> bool" where
  "json_Valid s \<longleftrightarrow> json_parse s \<noteq> None"

subsection \<open>Printing\<close>

definition json_hex_digit :: "nat \<Rightarrow> char" where
  "json_hex_digit k = (if k < 10 then char_of (48 + k) else char_of (87 + k))"

definition hex4 :: "nat \<Rightarrow> string" where
  "hex4 n =
     [json_hex_digit (n div 4096 mod 16), json_hex_digit (n div 256 mod 16),
      json_hex_digit (n div 16 mod 16), json_hex_digit (n mod 16)]"

definition escape_char :: "char \<Rightarrow> string" where
  "escape_char c =
    (let n = (of_char c :: nat) in
     if c = CHR 0x22 \<or> c = CHR 0x5C then [CHR 0x5C, c]
     else if n = 8 then [CHR 0x5C, CHR ''b''] else if n = 12 then [CHR 0x5C, CHR ''f'']
     else if n = 10 then [CHR 0x5C, CHR ''n''] else if n = 13 then [CHR 0x5C, CHR ''r'']
     else if n = 9 then [CHR 0x5C, CHR ''t'']
     else if n < 32 \<or> c = CHR ''<'' \<or> c = CHR ''>'' \<or> c = CHR ''&'' then CHR 0x5C # CHR ''u'' # hex4 n
     else [c])"

fun escape_text :: "string \<Rightarrow> string" where
  "escape_text [] = []"
| "escape_text (c # cs) =
     (case (c, cs) of
        (a, b # e # r) \<Rightarrow>
          if a = CHR 0xE2 \<and> b = CHR 0x80 \<and> (e = CHR 0xA8 \<or> e = CHR 0xA9)
          then CHR 0x5C # CHR ''u'' # hex4 (0x2028 + (of_char e - 0xA8)) @ escape_text r
          else escape_char c @ escape_text cs
      | _ \<Rightarrow> escape_char c @ escape_text cs)"

definition print_string :: "string \<Rightarrow> string" where
  "print_string s = CHR 0x22 # escape_text (utf8_coerce s) @ [CHR 0x22]"

fun json_print :: "json \<Rightarrow> string" where
  "json_print JNull = ''null''"
| "json_print (JBool b) = (if b then ''true'' else ''false'')"
| "json_print (JNumber t) = t"
| "json_print (JString s) = print_string s"
| "json_print (JArray vs) = ''['' @ strings_Join (map json_print vs) '','' @ '']''"
| "json_print (JObject ms) =
     ''{'' @ strings_Join (map (\<lambda>m. print_string (fst m) @ '':'' @ json_print (snd m)) ms) '','' @ ''}''"

subsection \<open>Decoding into a struct\<close>

text \<open>Member names match a field without regard to case; the Kelvin sign and the long s
  fold to k and s.\<close>

fun fold_key :: "string \<Rightarrow> string" where
  "fold_key [] = []"
| "fold_key (c # cs) =
     (case cs of
        d # r \<Rightarrow>
          if c = CHR 0xC5 \<and> d = CHR 0xBF then CHR ''s'' # fold_key r
          else (case r of
                  e # r' \<Rightarrow>
                    if c = CHR 0xE2 \<and> d = CHR 0x84 \<and> e = CHR 0xAA then CHR ''k'' # fold_key r'
                    else ascii_lower c # fold_key cs
                | [] \<Rightarrow> ascii_lower c # fold_key cs)
      | [] \<Rightarrow> [ascii_lower c])"

text \<open>The values a struct field receives, in order; a value that is neither an object nor
  null is a type error.\<close>

definition struct_field :: "string \<Rightarrow> json \<Rightarrow> json list option" where
  "struct_field name v =
     (case v of
        JObject ms \<Rightarrow> Some (map snd (filter (\<lambda>m. fold_key (fst m) = fold_key name) ms))
      | JNull \<Rightarrow> Some []
      | _ \<Rightarrow> None)"

fun decode_elements :: "json list \<Rightarrow> string list option" where
  "decode_elements [] = Some []"
| "decode_elements (v # vs) =
     (case (case v of JString s \<Rightarrow> Some s | JNull \<Rightarrow> Some [] | _ \<Rightarrow> None) of
        None \<Rightarrow> None
      | Some s \<Rightarrow> (case decode_elements vs of None \<Rightarrow> None | Some ss \<Rightarrow> Some (s # ss)))"

fun decode_strings :: "json list \<Rightarrow> string list \<Rightarrow> string list option" where
  "decode_strings [] acc = Some acc"
| "decode_strings (v # vs) acc =
     (case (case v of JArray es \<Rightarrow> decode_elements es | JNull \<Rightarrow> Some [] | _ \<Rightarrow> None) of
        None \<Rightarrow> None
      | Some ss \<Rightarrow> decode_strings vs ss)"

fun decode_bool :: "json list \<Rightarrow> bool \<Rightarrow> bool option" where
  "decode_bool [] acc = Some acc"
| "decode_bool (v # vs) acc =
     (case v of JBool b \<Rightarrow> decode_bool vs b | JNull \<Rightarrow> decode_bool vs acc | _ \<Rightarrow> None)"

fun decode_string :: "json list \<Rightarrow> string \<Rightarrow> string option" where
  "decode_string [] acc = Some acc"
| "decode_string (v # vs) acc =
     (case v of JString s \<Rightarrow> decode_string vs s | JNull \<Rightarrow> decode_string vs acc | _ \<Rightarrow> None)"

text \<open>One field of a struct from a text: \<open>None\<close> is the error of \<open>json.Unmarshal\<close>.\<close>

definition unmarshal_field :: "(json list \<Rightarrow> 'a \<Rightarrow> 'a option) \<Rightarrow> 'a \<Rightarrow> string \<Rightarrow> string \<Rightarrow> 'a option" where
  "unmarshal_field decode zero name text =
     (case json_parse text of
        None \<Rightarrow> None
      | Some v \<Rightarrow>
          (case struct_field name v of
             None \<Rightarrow> None
           | Some vs \<Rightarrow> decode vs zero))"

subsection \<open>Quoting\<close>

text \<open>\<open>strconv.Quote\<close>: runes above ASCII are kept, as Go does for the printable ones; a byte
  outside a well-formed encoding is written in hex.\<close>

definition hex2 :: "char \<Rightarrow> string" where
  "hex2 c = CHR 0x5C # CHR ''x'' # drop 2 (hex4 (of_char c))"

definition quote_ascii :: "char \<Rightarrow> string" where
  "quote_ascii c =
    (let n = (of_char c :: nat) in
     if c = CHR 0x22 \<or> c = CHR 0x5C then [CHR 0x5C, c]
     else if 32 \<le> n \<and> n < 127 then [c]
     else if n = 7 then [CHR 0x5C, CHR ''a''] else if n = 8 then [CHR 0x5C, CHR ''b'']
     else if n = 12 then [CHR 0x5C, CHR ''f''] else if n = 10 then [CHR 0x5C, CHR ''n'']
     else if n = 13 then [CHR 0x5C, CHR ''r''] else if n = 9 then [CHR 0x5C, CHR ''t'']
     else if n = 11 then [CHR 0x5C, CHR ''v'']
     else hex2 c)"

function quote_runes :: "string \<Rightarrow> string" where
  "quote_runes [] = []"
| "quote_runes (c # cs) =
     (let n = rune_len (c # cs) in
      if n = 0 then hex2 c @ quote_runes cs
      else if n = 1 then quote_ascii c @ quote_runes cs
      else take n (c # cs) @ quote_runes (drop n (c # cs)))"
  by pat_completeness auto

termination by (relation "measure length") auto

definition strconv_Quote :: "string \<Rightarrow> string" where
  "strconv_Quote s = CHR 0x22 # quote_runes s @ [CHR 0x22]"

end
