(* ===== verification/Core_Fallback.thy ===== *)
theory Core_Fallback
  imports Policy_Surface Go_Json_Text
begin

text \<open>
  Package \<open>pkg/core\<close>, the request and response types (\<open>types.go\<close>) and the decision
  procedure used when the external engine is not installed (\<open>local_fallback*.go\<close>).
  A nil response of a stage (the stage does not apply) is \<open>None\<close>. The lease arrives as JSON
  text and is decoded where the code decodes it. The request caches the decoded
  \<open>forbidden_verbs\<close>; the cache fields are part of the record and \<open>forbiddenVerbs\<close> returns
  the request it leaves behind.
\<close>

subsection \<open>Requests and responses (\<open>types.go\<close>)\<close>

record Label =
  Lb_Sensitivity :: string
  Lb_Trust :: string
  Lb_Provenance :: string

record Intent =
  I_Verb :: Verb
  I_Target :: string
  I_Labels :: "Label list"
  I_DerivedLabels :: "Label list"
  I_IsPosture :: bool
  I_IsSensitive :: bool
  I_IsTripwire :: bool
  I_IsDelegation :: bool

record SessionInfo =
  SI_SecretSession :: bool
  SI_WasSecret :: bool
  SI_RecentlyReadUntrusted :: bool
  SI_UntrustedContentThisTurn :: bool
  SI_DenyAll :: bool
  SI_ApprovalScope :: string
  SI_TurnCounter :: int

record Request =
  Req_Version :: nat
  Req_LeaseJSON :: string
  Req_ToolName :: string
  Req_Intent :: Intent
  Req_Session :: SessionInfo
  Req_PolicyVerdicts :: "PolicyVerdict list"
  forbiddenParsed :: bool
  forbiddenParseErr :: bool
  forbiddenVerbCache :: "Verb list"

record ProviderFailure =
  PF_Provider :: string
  PF_Kind :: string
  PF_Status :: string
  PF_Reason :: string
  PF_Behavior :: string
  PF_TimedOut :: bool

record Response =
  Resp_Decision :: Verdict
  Resp_Reason :: string
  Resp_Risk :: string
  Resp_BaseVerdict :: Verdict
  Resp_ProviderVerdicts :: "PolicyVerdict list"
  Resp_ProviderFailures :: "ProviderFailure list"
  Resp_AuthoritativeActive :: bool
  Resp_AuthoritativeProvider :: string
  Resp_AuthoritativeNativeBase :: string
  Resp_AuthoritativeFloorsBypassed :: bool
  Resp_AuthoritativeFailClosed :: bool

text \<open>\<open>&Response{Decision: d, Reason: r}\<close>\<close>

definition respond :: "Verdict \<Rightarrow> string \<Rightarrow> Response" where
  "respond d r =
     \<lparr>Resp_Decision = d, Resp_Reason = r, Resp_Risk = [], Resp_BaseVerdict = [],
      Resp_ProviderVerdicts = [], Resp_ProviderFailures = [], Resp_AuthoritativeActive = False,
      Resp_AuthoritativeProvider = [], Resp_AuthoritativeNativeBase = [],
      Resp_AuthoritativeFloorsBypassed = False, Resp_AuthoritativeFailClosed = False\<rparr>"

subsection \<open>Label flow (\<open>local_fallback_helpers.go\<close>)\<close>

definition isWriteVerb :: "Verb \<Rightarrow> bool" where
  "isWriteVerb verb \<longleftrightarrow> verb = VerbStageWrite"

fun hasDerivedSecret :: "Label list \<Rightarrow> bool" where
  "hasDerivedSecret [] = False"
| "hasDerivedSecret (label # labels) = (Lb_Sensitivity label = ''secret'' \<or> hasDerivedSecret labels)"

definition sink_trust :: "Verb \<Rightarrow> string" where
  "sink_trust verb =
     (if verb = VerbPushRemote \<or> verb = VerbNetExternal \<or> verb = VerbDnsLookup then ''untrusted''
      else if verb = VerbPushOrigin \<or> verb = VerbNetAllowlisted then ''verified_internal''
      else ''trusted'')"

fun combine_labels :: "Label list \<Rightarrow> string \<Rightarrow> string \<Rightarrow> string \<times> string" where
  "combine_labels [] sens trust = (sens, trust)"
| "combine_labels (label # labels) sens trust =
     combine_labels labels
       (if Lb_Sensitivity label = ''secret'' then ''secret''
        else if sens \<noteq> ''secret'' \<and> Lb_Sensitivity label = ''restricted'' then ''restricted''
        else sens)
       (if Lb_Trust label = ''untrusted'' then ''untrusted''
        else if trust = ''trusted'' \<and> Lb_Trust label = ''verified_origin'' then ''verified_origin''
        else trust)"

definition deniesFlowToVerb :: "Label list \<Rightarrow> Verb \<Rightarrow> bool" where
  "deniesFlowToVerb labels verb =
     (if labels = [] then False
      else
        let sinkTrust = sink_trust verb;
            (combinedSensitivity, combinedTrust) = combine_labels labels ''public'' ''trusted''
        in if (combinedSensitivity = ''secret'' \<or> combinedSensitivity = ''restricted'') \<and> sinkTrust = ''untrusted''
           then True
           else combinedTrust = ''untrusted'' \<and> sinkTrust = ''untrusted'')"

subsection \<open>The lease (\<open>local_fallback_network.go\<close>)\<close>

text \<open>The decoding that the cache stores: the error flag and the verbs.\<close>

definition parse_forbidden :: "string \<Rightarrow> bool \<times> Verb list" where
  "parse_forbidden lease =
     (if lease = [] then (False, [])
      else case unmarshal_field decode_strings [] ''forbidden_verbs'' lease of
        None \<Rightarrow> (True, [])
      | Some verbs \<Rightarrow> (False, verbs))"

definition forbiddenVerbs :: "Request \<Rightarrow> Request \<times> Verb list \<times> bool" where
  "forbiddenVerbs r =
    (let r' =
       (if forbiddenParsed r then r
        else if Req_LeaseJSON r = [] then r\<lparr>forbiddenParsed := True\<rparr>
        else case unmarshal_field decode_strings [] ''forbidden_verbs'' (Req_LeaseJSON r) of
          None \<Rightarrow> r\<lparr>forbiddenParsed := True, forbiddenParseErr := True\<rparr>
        | Some verbs \<Rightarrow> r\<lparr>forbiddenParsed := True, forbiddenVerbCache := verbs\<rparr>)
     in (r', forbiddenVerbCache r', \<not> forbiddenParseErr r'))"

definition leaseForbidsVerb :: "Request \<Rightarrow> Verb \<Rightarrow> bool" where
  "leaseForbidsVerb req verb =
     (case forbiddenVerbs req of
        (_, verbs, ok) \<Rightarrow> if \<not> ok then True else slice_contains verbs verb)"

subsection \<open>Network and publish verbs (\<open>local_fallback_network.go\<close>)\<close>

definition denyFlowResponse :: Response where
  "denyFlowResponse =
     respond VerdictDeny ''Data labels on this action exceed the trust level of the destination.''"

definition untrustedEgressDeny :: "string \<Rightarrow> Response" where
  "untrustedEgressDeny action =
     respond VerdictDeny
       ((if action = ''DNS lookup'' then ''DNS lookup blocked '' else ''External network egress blocked '')
        @ em_dash
        @ '' untrusted content was ingested this session (possible prompt injection); outbound requests are held. Verify intent, then `sir unlock`.'')"

definition untrustedPublishResponse :: "Verb \<Rightarrow> Response" where
  "untrustedPublishResponse verb =
     (if verb = VerbPushOrigin then
        respond VerdictAsk
          ''Code-host publish after untrusted content requires approval. Verify intent, then `sir unlock`.''
      else
        respond VerdictDeny
          (''Code-host publish blocked '' @ em_dash
           @ '' untrusted content was ingested this session (possible prompt injection); outbound publish is held. Verify intent, then `sir unlock`.''))"

definition localEvaluateNetwork :: "Request \<Rightarrow> Label list \<Rightarrow> Response option" where
  "localEvaluateNetwork req effectiveLabels =
    (let verb = I_Verb (Req_Intent req); sess = Req_Session req in
     if verb = VerbNetExternal then
       Some (if deniesFlowToVerb effectiveLabels verb then denyFlowResponse
             else if SI_SecretSession sess then
               respond VerdictDeny ''This session may contain credentials. Network requests to external hosts are blocked.''
             else if leaseForbidsVerb req VerbNetExternal then
               respond VerdictDeny ''Network requests to external hosts are blocked by your security policy.''
             else if SI_RecentlyReadUntrusted sess \<or> SI_UntrustedContentThisTurn sess then
               untrustedEgressDeny ''External network request''
             else respond VerdictAsk ''External network request requires approval.'')
     else if verb = VerbPushRemote then
       Some (if deniesFlowToVerb effectiveLabels verb then denyFlowResponse
             else if SI_SecretSession sess then
               respond VerdictDeny ''This session may contain credentials. Push to unapproved remotes is blocked.''
             else if SI_RecentlyReadUntrusted sess \<or> SI_UntrustedContentThisTurn sess then
               untrustedPublishResponse VerbPushRemote
             else respond VerdictAsk ''Git push to unapproved remote requires approval.'')
     else if verb = VerbPushOrigin then
       (if SI_SecretSession sess then
          Some (respond VerdictAsk ''This session may contain credentials. Push to approved remote requires approval.'')
        else if deniesFlowToVerb effectiveLabels verb then Some denyFlowResponse
        else if SI_WasSecret sess then
          Some (respond VerdictAsk ''This session previously contained credentials. Push to approved remote requires approval.'')
        else if SI_RecentlyReadUntrusted sess \<or> SI_UntrustedContentThisTurn sess then
          Some (untrustedPublishResponse VerbPushOrigin)
        else None)
     else if verb = VerbNetAllowlisted then
       Some (if deniesFlowToVerb effectiveLabels verb then denyFlowResponse
             else respond VerdictAsk
               (''Network request to '' @ I_Target (Req_Intent req)
                @ ''. This host is in your security policy but still requires approval.''))
     else if verb = VerbDnsLookup then
       Some (if deniesFlowToVerb effectiveLabels verb then denyFlowResponse
             else if SI_SecretSession sess then
               respond VerdictDeny (''DNS lookup blocked '' @ em_dash @ '' your session contains credentials.'')
             else if leaseForbidsVerb req VerbDnsLookup then
               respond VerdictDeny ''DNS lookup (outbound request) not allowed by your security policy.''
             else if SI_RecentlyReadUntrusted sess \<or> SI_UntrustedContentThisTurn sess then
               untrustedEgressDeny ''DNS lookup''
             else respond VerdictAsk ''DNS lookup (outbound request) requires approval.'')
     else None)"

subsection \<open>The other stages (\<open>local_fallback_rules.go\<close>)\<close>

definition localEvaluatePreflight :: "Request \<Rightarrow> Response option" where
  "localEvaluatePreflight req =
    (let intent = Req_Intent req; verb = I_Verb intent in
     if SI_DenyAll (Req_Session req) then
       Some (respond VerdictDeny ''session in deny-all mode - security configuration was modified unexpectedly'')
     else if hasDerivedSecret (I_DerivedLabels intent)
             \<and> (verb = VerbStageWrite \<or> verb = VerbCommit \<or> verb = VerbPushOrigin \<or> verb = VerbNetAllowlisted) then
       Some (respond VerdictAsk ''This action touches a file derived from sensitive data and requires approval.'')
     else if hasDerivedSecret (I_DerivedLabels intent)
             \<and> (verb = VerbPushRemote \<or> verb = VerbNetExternal \<or> verb = VerbDnsLookup) then
       Some (respond VerdictDeny ''This action would send a file derived from sensitive data to an untrusted sink.'')
     else if I_IsPosture intent \<and> isWriteVerb verb then
       Some (respond VerdictAsk
         (''This file controls security settings. Approve to let the agent edit it. ('' @ I_Target intent @ '')''))
     else if I_IsSensitive intent \<and> verb = VerbReadRef then
       Some (respond VerdictAsk
         (''This file may contain credentials. Approve to let the agent read it. ('' @ I_Target intent @ '')''))
     else None)"

definition localEvaluateDelegation :: "Request \<Rightarrow> Response option" where
  "localEvaluateDelegation req =
     (if I_Verb (Req_Intent req) \<noteq> VerbDelegate then None
      else if SI_SecretSession (Req_Session req) then
        Some (respond VerdictDeny (''Delegation blocked '' @ em_dash @ '' your session contains credentials.''))
      else if SI_RecentlyReadUntrusted (Req_Session req) then
        Some (respond VerdictAsk ''Untrusted content was read recently. Delegation requires approval.'')
      else if Req_LeaseJSON req \<noteq> [] then
        (case unmarshal_field decode_bool False ''allow_delegation'' (Req_LeaseJSON req) of
           None \<Rightarrow>
             Some (respond VerdictDeny
               (''Delegation denied '' @ em_dash @ '' lease could not be parsed. Run `sir doctor` to investigate.''))
         | Some allowed \<Rightarrow>
             if \<not> allowed then Some (respond VerdictDeny ''Delegation is not allowed by your security policy.'')
             else Some (respond VerdictAllow ''Delegation allowed by your security policy.''))
      else Some (respond VerdictAllow ''Delegation allowed by your security policy.''))"

definition labelIsSensitiveOrUntrusted :: "Label \<Rightarrow> bool" where
  "labelIsSensitiveOrUntrusted label \<longleftrightarrow>
     Lb_Sensitivity label = ''secret'' \<or> Lb_Sensitivity label = ''restricted'' \<or> Lb_Trust label = ''untrusted''"

definition detectionVerbDenies :: "Label list \<Rightarrow> Label list \<Rightarrow> bool" where
  "detectionVerbDenies labels derived =
     (if list_ex labelIsSensitiveOrUntrusted labels then True
      else list_ex labelIsSensitiveOrUntrusted derived)"

definition localEvaluateCommandRisk :: "Request \<Rightarrow> Response option" where
  "localEvaluateCommandRisk req =
    (let verb = I_Verb (Req_Intent req); target = I_Target (Req_Intent req) in
     if verb = VerbRunEphemeral then
       Some (respond VerdictAsk
         (''npx downloads and runs remote code. Approve to proceed. ('' @ target @ '')''))
     else if verb = VerbDangerousShell then
       Some (respond VerdictAsk
         (''This shell command can destructively modify files, disks, permissions, or repository state. Approve to proceed. ('' @
          target @ '')''))
     else if verb = VerbMcpUnapproved then
       Some (respond VerdictAsk
         (''This tool comes from a server sir hasn'' @ [CHR 0x27] @ ''t seen before ('' @ target @
          ''). Approve this call once, or add the server to your MCP config and re-run `sir install` to refresh approved MCP servers.''))
     else if verb = VerbMcpNetworkUnapproved then
       Some (respond VerdictAsk
         (''An MCP tool was called with a URL whose host is not in your approved_hosts list ('' @
          target @
          ''). Approve this call, or run `sir allow-host <host>` to approve the destination. Note: this only sees URLs passed as tool arguments '' @
          em_dash @ '' a malicious MCP can still reach the network on its own.''))
     else if verb = VerbMcpOnboarding then
       Some (respond VerdictAsk
         (''MCP server '' @ strconv_Quote (target) @
          '' is within its onboarding window. Approving surfaces early activity; once the session call threshold or wall-clock window is crossed, this gate stops firing. Friction, not a security block.''))
     else if verb = VerbMcpBinaryDrift then
       Some (respond VerdictAsk
         (''MCP command binary for '' @ strconv_Quote (target) @
          '' changed since you approved it. Approve once to continue, or run `sir mcp revoke` and re-approve after confirming the new binary is intended.''))
     else if verb = VerbEnvRead then
       Some (respond VerdictAsk
         (''Environment variables may contain credentials. Approve to proceed. ('' @ target @
          '')''))
     else if verb = VerbPersistence then
       Some (respond VerdictAsk
         (''This can create scheduled tasks that outlive your session. ('' @ target @ '')''))
     else if verb = VerbSudo then
       Some (respond VerdictAsk
         (''This runs with sudo. Approve to proceed. ('' @ target @ '')''))
     else if verb = VerbSirSelf then
       Some (respond VerdictAsk
         (''This command modifies sir itself. Only you should do this. ('' @ target @ '')''))
     else if verb = VerbDeletePosture then
       Some (respond VerdictAsk
         (''Delete/link targeting a security settings file requires approval. ('' @ target @
          '')''))
     else if verb = VerbMcpCredentialLeak then
       Some (respond VerdictDeny
         (''Credential pattern detected in MCP tool arguments. Blocked. ('' @ target @ '')''))
     else if verb = VerbCredentialDetected \<or> verb = VerbElicitationHarvest \<or> verb = VerbMcpInjectionDetected then
       (if detectionVerbDenies (I_Labels (Req_Intent req)) (I_DerivedLabels (Req_Intent req)) then
          Some (respond VerdictDeny
            (''Detection signal carries sensitive or untrusted data; flow blocked. ('' @ target @ '')''))
        else
          Some (respond VerdictAsk
            (''A security detection signal was raised and needs your review. ('' @ target @ '')'')))
     else None)"

subsection \<open>The decision (\<open>local_fallback.go\<close>)\<close>

definition effective_labels :: "Request \<Rightarrow> Label list" where
  "effective_labels req = I_Labels (Req_Intent req) @ I_DerivedLabels (Req_Intent req)"

definition localEvaluateBase :: "Request \<Rightarrow> Response" where
  "localEvaluateBase req =
    (case localEvaluatePreflight req of Some resp \<Rightarrow> resp | None \<Rightarrow>
     (case localEvaluateNetwork req (effective_labels req) of Some resp \<Rightarrow> resp | None \<Rightarrow>
      (case localEvaluateDelegation req of Some resp \<Rightarrow> resp | None \<Rightarrow>
       (case localEvaluateCommandRisk req of Some resp \<Rightarrow> resp | None \<Rightarrow>
        if deniesFlowToVerb (effective_labels req) (I_Verb (Req_Intent req)) then denyFlowResponse
        else respond VerdictAllow ''Allowed by your security policy.''))))"

definition isLocalCleanDeveloperWorkflow :: "Request \<Rightarrow> bool" where
  "isLocalCleanDeveloperWorkflow req =
     (if SI_SecretSession (Req_Session req) \<or> SI_WasSecret (Req_Session req) then False
      else I_Verb (Req_Intent req) \<in>
        {VerbReadRef, VerbStageWrite, VerbExecuteDryRun, VerbRunTests, VerbCommit, VerbListFiles,
         VerbSearchCode, VerbNetLocal})"

fun join_from :: "string \<Rightarrow> string list \<Rightarrow> string" where
  "join_from out [] = out"
| "join_from out (r # rs) = join_from (out @ '','' @ r) rs"

definition joinPolicyRules :: "string list \<Rightarrow> string" where
  "joinPolicyRules rules = (case rules of [] \<Rightarrow> [] | r # rs \<Rightarrow> join_from r rs)"

fun compose_local :: "PolicyVerdict list \<Rightarrow> Response \<Rightarrow> Response" where
  "compose_local [] out = out"
| "compose_local (pv # pvs) out =
     (if \<not> PV_IsAdvisory pv then compose_local pvs out
      else if Resp_Decision out \<noteq> VerdictAllow then compose_local pvs out
      else if PV_Verdict pv \<noteq> VerdictAsk \<and> PV_Verdict pv \<noteq> VerdictDeny then compose_local pvs out
      else
        compose_local pvs
          (out\<lparr>Resp_Decision := VerdictAsk,
               Resp_Reason :=
                 (if PV_RulesMatched pv \<noteq> [] then
                    Resp_Reason out @ '' [policy:''
                    @ (if PV_Provider pv = [] then ''provider'' else PV_Provider pv)
                    @ '' rules:'' @ joinPolicyRules (PV_RulesMatched pv) @ '']''
                  else Resp_Reason out)\<rparr>))"

definition composeLocalPolicyVerdicts :: "Request \<Rightarrow> Response \<Rightarrow> Response" where
  "composeLocalPolicyVerdicts req base =
     (if Req_PolicyVerdicts req = [] then base
      else if Resp_Decision base = VerdictAllow \<and> isLocalCleanDeveloperWorkflow req then base
      else compose_local (Req_PolicyVerdicts req) base)"

definition localEvaluate :: "Request \<Rightarrow> Response" where
  "localEvaluate req = composeLocalPolicyVerdicts req (localEvaluateBase req)"

end
