(* ===== verification/Core_Properties.thy ===== *)
theory Core_Properties
  imports Core_Fallback
begin

text \<open>
  What the local fallback decides: an abstract verdict function on the session flags, the
  labels and the lease that the staged implementation refines, its behaviour on leases
  that do not parse, its monotonicity in taint, and the narrowing composition with policy
  providers.
\<close>

subsection \<open>Label flow\<close>

lemma hasDerivedSecret_iff: "hasDerivedSecret ls \<longleftrightarrow> (\<exists>l \<in> set ls. Lb_Sensitivity l = ''secret'')"
  by (induction ls) auto

lemma combine_sensitivity:
  "fst (combine_labels ls s t) \<in> {''secret'', ''restricted''} \<longleftrightarrow>
     s \<in> {''secret'', ''restricted''} \<or> (\<exists>l \<in> set ls. Lb_Sensitivity l \<in> {''secret'', ''restricted''})"
  by (induction ls arbitrary: s t) auto

lemma combine_trust:
  "snd (combine_labels ls s t) = ''untrusted'' \<longleftrightarrow>
     t = ''untrusted'' \<or> (\<exists>l \<in> set ls. Lb_Trust l = ''untrusted'')"
  by (induction ls arbitrary: s t) auto

text \<open>Labels that may not reach an untrusted sink.\<close>

definition guarded :: "Label list \<Rightarrow> bool" where
  "guarded ls \<longleftrightarrow> (\<exists>l \<in> set ls. labelIsSensitiveOrUntrusted l)"

lemma guarded_append: "guarded (xs @ ys) \<longleftrightarrow> guarded xs \<or> guarded ys"
  by (auto simp: guarded_def)

lemma guarded_mono: "set xs \<subseteq> set ys \<Longrightarrow> guarded xs \<Longrightarrow> guarded ys"
  by (auto simp: guarded_def)

lemma deniesFlow_iff: "deniesFlowToVerb ls verb \<longleftrightarrow> sink_trust verb = ''untrusted'' \<and> guarded ls"
proof (cases "ls = []")
  case True
  then show ?thesis by (simp add: deniesFlowToVerb_def guarded_def)
next
  case False
  have "fst (combine_labels ls ''public'' ''trusted'') \<in> {''secret'', ''restricted''}
          \<or> snd (combine_labels ls ''public'' ''trusted'') = ''untrusted'' \<longleftrightarrow> guarded ls"
    unfolding combine_sensitivity combine_trust guarded_def labelIsSensitiveOrUntrusted_def by auto
  with False show ?thesis
    by (cases "combine_labels ls ''public'' ''trusted''") (auto simp: deniesFlowToVerb_def Let_def)
qed

lemma detectionVerbDenies_iff: "detectionVerbDenies ls ds \<longleftrightarrow> guarded (ls @ ds)"
  by (auto simp: detectionVerbDenies_def guarded_def list_ex_iff)

lemma derived_secret_guarded: "hasDerivedSecret (I_DerivedLabels (Req_Intent req)) \<Longrightarrow> guarded (effective_labels req)"
  by (auto simp: hasDerivedSecret_iff guarded_def effective_labels_def labelIsSensitiveOrUntrusted_def)

subsection \<open>The verdict as a function of the facts\<close>

definition untrusted_context :: "SessionInfo \<Rightarrow> bool" where
  "untrusted_context s \<longleftrightarrow> SI_RecentlyReadUntrusted s \<or> SI_UntrustedContentThisTurn s"

definition delegation_refused :: "string \<Rightarrow> bool" where
  "delegation_refused lease \<longleftrightarrow>
     lease \<noteq> [] \<and> unmarshal_field decode_bool False ''allow_delegation'' lease \<noteq> Some True"

definition egress_verbs :: "Verb list" where
  "egress_verbs = [VerbNetExternal, VerbPushRemote, VerbDnsLookup]"

definition detection_verbs :: "Verb list" where
  "detection_verbs = [VerbCredentialDetected, VerbElicitationHarvest, VerbMcpInjectionDetected]"

definition approval_verbs :: "Verb list" where
  "approval_verbs =
     [VerbRunEphemeral, VerbDangerousShell, VerbMcpUnapproved, VerbMcpNetworkUnapproved,
      VerbMcpOnboarding, VerbMcpBinaryDrift, VerbEnvRead, VerbPersistence, VerbSudo, VerbSirSelf,
      VerbDeletePosture, VerbNetAllowlisted] @ detection_verbs @ egress_verbs"

definition refused :: "Request \<Rightarrow> bool" where
  "refused req \<longleftrightarrow>
    (let verb = I_Verb (Req_Intent req); s = Req_Session req in
     SI_DenyAll s
     \<or> verb = VerbMcpCredentialLeak
     \<or> verb \<in> set egress_verbs
         \<and> (SI_SecretSession s \<or> guarded (effective_labels req) \<or> untrusted_context s
            \<or> verb \<noteq> VerbPushRemote \<and> leaseForbidsVerb req verb)
     \<or> verb \<in> set detection_verbs \<and> guarded (effective_labels req)
     \<or> verb = VerbDelegate
         \<and> (SI_SecretSession s \<or> \<not> SI_RecentlyReadUntrusted s \<and> delegation_refused (Req_LeaseJSON req)))"

definition questioned :: "Request \<Rightarrow> bool" where
  "questioned req \<longleftrightarrow>
    (let intent = Req_Intent req; verb = I_Verb intent; s = Req_Session req in
     verb \<in> set approval_verbs
     \<or> verb = VerbPushOrigin \<and> (SI_SecretSession s \<or> SI_WasSecret s \<or> untrusted_context s)
     \<or> verb \<in> {VerbStageWrite, VerbCommit, VerbPushOrigin} \<and> hasDerivedSecret (I_DerivedLabels intent)
     \<or> verb = VerbStageWrite \<and> I_IsPosture intent
     \<or> verb = VerbReadRef \<and> I_IsSensitive intent
     \<or> verb = VerbDelegate \<and> SI_RecentlyReadUntrusted s)"

definition fallback_verdict :: "Request \<Rightarrow> Verdict" where
  "fallback_verdict req =
     (if refused req then VerdictDeny else if questioned req then VerdictAsk else VerdictAllow)"

lemma respond_Decision [simp]: "Resp_Decision (respond d r) = d"
  by (simp add: respond_def)

lemma fixed_responses [simp]:
  "Resp_Decision denyFlowResponse = VerdictDeny"
  "Resp_Decision (untrustedEgressDeny a) = VerdictDeny"
  "Resp_Decision (untrustedPublishResponse v) = (if v = VerbPushOrigin then VerdictAsk else VerdictDeny)"
  by (simp_all add: denyFlowResponse_def untrustedEgressDeny_def untrustedPublishResponse_def)

lemmas spec_defs = fallback_verdict_def refused_def questioned_def Let_def approval_verbs_def
  egress_verbs_def detection_verbs_def untrusted_context_def

lemmas stage_defs = localEvaluateBase_def localEvaluatePreflight_def localEvaluateNetwork_def
  localEvaluateDelegation_def localEvaluateCommandRisk_def deniesFlow_iff sink_trust_def isWriteVerb_def
  detectionVerbDenies_iff

definition handled_verbs :: "Verb list" where
  "handled_verbs =
     approval_verbs @ [VerbPushOrigin, VerbStageWrite, VerbCommit, VerbReadRef, VerbDelegate, VerbMcpCredentialLeak]"

lemma base_handled:
  assumes "I_Verb (Req_Intent req) \<in> set handled_verbs"
  shows "Resp_Decision (localEvaluateBase req) = fallback_verdict req"
proof -
  have guard: "guarded (effective_labels req)" if "hasDerivedSecret (I_DerivedLabels (Req_Intent req))"
    using that by (rule derived_secret_guarded)
  have eff: "guarded (I_Labels (Req_Intent req) @ I_DerivedLabels (Req_Intent req)) = guarded (effective_labels req)"
    by (simp add: effective_labels_def)
  from assms show ?thesis
    unfolding handled_verbs_def approval_verbs_def egress_verbs_def detection_verbs_def set_append list.set
    apply (elim UnE insertE emptyE)
    apply (simp_all add: stage_defs spec_defs verb_defs eff delegation_refused_def split: option.split bool.split)
    apply (auto dest: guard)
    done
qed

lemma base_unhandled:
  assumes "I_Verb (Req_Intent req) \<notin> set handled_verbs"
  shows "Resp_Decision (localEvaluateBase req) = fallback_verdict req"
  using assms
  by (simp add: handled_verbs_def stage_defs spec_defs)

lemma base_verdict: "Resp_Decision (localEvaluateBase req) = fallback_verdict req"
  by (cases "I_Verb (Req_Intent req) \<in> set handled_verbs") (auto intro: base_handled base_unhandled)

text \<open>C24: the staged fallback implements the abstract verdict. Preflight, network, delegation
  and command-risk stages together deny exactly the refused requests (deny-all, a leaked
  credential, egress with a secret session, guarded labels, untrusted content or a lease
  that forbids it, detections on guarded data, delegation against the session or the
  lease), ask about the remaining requests that need approval, and allow the rest; in
  particular unknown verbs are allowed.\<close>

theorem fallback_implements_spec:
  "Resp_Decision (localEvaluateBase req) = fallback_verdict req"
  by (rule base_verdict)

subsection \<open>The lease cache\<close>

definition cache_ok :: "Request \<Rightarrow> bool" where
  "cache_ok req \<longleftrightarrow>
     (forbiddenParseErr req, forbiddenVerbCache req) =
       (if forbiddenParsed req then parse_forbidden (Req_LeaseJSON req) else (False, []))"

lemma forbiddenVerbs_parses:
  "cache_ok req \<Longrightarrow> snd (forbiddenVerbs req) =
     (snd (parse_forbidden (Req_LeaseJSON req)), \<not> fst (parse_forbidden (Req_LeaseJSON req)))"
  by (auto simp: cache_ok_def forbiddenVerbs_def parse_forbidden_def Let_def split: if_splits option.split)

lemma forbiddenVerbs_keeps_cache: "cache_ok req \<Longrightarrow> cache_ok (fst (forbiddenVerbs req))"
  by (auto simp: cache_ok_def forbiddenVerbs_def parse_forbidden_def Let_def split: if_splits option.split)

lemma leaseForbids_iff:
  "cache_ok req \<Longrightarrow> leaseForbidsVerb req verb \<longleftrightarrow>
     fst (parse_forbidden (Req_LeaseJSON req)) \<or> verb \<in> set (snd (parse_forbidden (Req_LeaseJSON req)))"
  using forbiddenVerbs_parses [of req] by (auto simp: leaseForbidsVerb_def split: prod.split)

subsection \<open>Composition with providers\<close>

definition objection :: "PolicyVerdict \<Rightarrow> bool" where
  "objection pv \<longleftrightarrow> PV_IsAdvisory pv \<and> (PV_Verdict pv = VerdictAsk \<or> PV_Verdict pv = VerdictDeny)"

lemma compose_local_strict: "Resp_Decision out \<noteq> VerdictAllow \<Longrightarrow> compose_local pvs out = out"
  by (induction pvs) auto

lemma compose_local_decision:
  "Resp_Decision (compose_local pvs out) =
     (if Resp_Decision out = VerdictAllow \<and> list_ex objection pvs then VerdictAsk else Resp_Decision out)"
  by (induction pvs arbitrary: out) (auto simp: objection_def compose_local_strict)

lemma compose_decision:
  "Resp_Decision (composeLocalPolicyVerdicts req base) =
     (if Resp_Decision base = VerdictAllow \<and> \<not> isLocalCleanDeveloperWorkflow req
         \<and> list_ex objection (Req_PolicyVerdicts req)
      then VerdictAsk else Resp_Decision base)"
  by (simp add: composeLocalPolicyVerdicts_def compose_local_decision)

interpretation local_composition: verdict_tightening
  "\<lambda>(req, out) v. Resp_Decision (composeLocalPolicyVerdicts req (out\<lparr>Resp_Decision := v\<rparr>))"
  by unfold_locales (auto simp: compose_decision)

lemma localEvaluate_tightens: "verdict_rank (fallback_verdict req) \<le> verdict_rank (Resp_Decision (localEvaluate req))"
  using local_composition.tightens [of "fallback_verdict req" "(req, localEvaluateBase req)"]
  by (simp add: localEvaluate_def flip: base_verdict)

lemma localEvaluate_decision:
  "Resp_Decision (localEvaluate req) =
     (if fallback_verdict req = VerdictAllow \<and> \<not> isLocalCleanDeveloperWorkflow req
         \<and> list_ex objection (Req_PolicyVerdicts req)
      then VerdictAsk else fallback_verdict req)"
  by (simp add: localEvaluate_def compose_decision base_verdict)

lemma localEvaluate_strict:
  "Resp_Decision (localEvaluateBase req) \<noteq> VerdictAllow \<Longrightarrow> localEvaluate req = localEvaluateBase req"
  by (simp add: localEvaluate_def composeLocalPolicyVerdicts_def compose_local_strict)

text \<open>Policy providers only narrow the fallback. Advisory objections turn an allow into an
  ask, nothing else: a denial and a question are returned unchanged, reason included, no
  provider can cause a denial, non-advisory verdicts are ignored, and clean developer
  work is not escalated.\<close>

theorem fallback_providers_only_narrow:
  "Resp_Decision (localEvaluate req) =
     (if Resp_Decision (localEvaluateBase req) = VerdictAllow \<and> \<not> isLocalCleanDeveloperWorkflow req
         \<and> list_ex objection (Req_PolicyVerdicts req)
      then VerdictAsk else Resp_Decision (localEvaluateBase req))
   \<and> (Resp_Decision (localEvaluateBase req) = VerdictAllow \<or> localEvaluate req = localEvaluateBase req)"
  using localEvaluate_strict [of req] by (auto simp: localEvaluate_def compose_decision)

subsection \<open>Broken leases\<close>

lemma unmarshal_broken: "json_parse lease = None \<Longrightarrow> unmarshal_field decode zero name lease = None"
  by (simp add: unmarshal_field_def)

definition demo_request :: "Verb \<Rightarrow> string \<Rightarrow> Request" where
  "demo_request verb lease =
     \<lparr>Req_Version = 1, Req_LeaseJSON = lease, Req_ToolName = ''Bash'',
      Req_Intent = \<lparr>I_Verb = verb, I_Target = ''example.org'', I_Labels = [], I_DerivedLabels = [],
                    I_IsPosture = False, I_IsSensitive = False, I_IsTripwire = False, I_IsDelegation = False\<rparr>,
      Req_Session = \<lparr>SI_SecretSession = False, SI_WasSecret = False, SI_RecentlyReadUntrusted = False,
                     SI_UntrustedContentThisTurn = False, SI_DenyAll = False, SI_ApprovalScope = [],
                     SI_TurnCounter = 0\<rparr>,
      Req_PolicyVerdicts = [], forbiddenParsed = False, forbiddenParseErr = False, forbiddenVerbCache = []\<rparr>"

lemma demo_cache: "cache_ok (demo_request v l)"
  by (simp add: cache_ok_def demo_request_def)

lemma deny_is_final: "fallback_verdict req = VerdictDeny \<Longrightarrow> Resp_Decision (localEvaluate req) = VerdictDeny"
  by (simp add: localEvaluate_decision)

text \<open>C25: a lease that is not JSON fails closed. With such a lease external requests and DNS
  lookups are denied and delegation is never allowed, whatever the session, the labels
  and the providers say; and a request that was evaluated before gives the same answer,
  since the cached decoding is the decoding.\<close>

theorem broken_lease_fails_closed:
  assumes "cache_ok req" and "Req_LeaseJSON req \<noteq> []" and "json_parse (Req_LeaseJSON req) = None"
  shows "(I_Verb (Req_Intent req) \<in> {VerbNetExternal, VerbDnsLookup} \<longrightarrow>
            Resp_Decision (localEvaluate req) = VerdictDeny)
    \<and> (I_Verb (Req_Intent req) = VerbDelegate \<longrightarrow> Resp_Decision (localEvaluate req) \<noteq> VerdictAllow)
    \<and> cache_ok (fst (forbiddenVerbs req))"
proof (intro conjI impI)
  have forbids: "leaseForbidsVerb req v" for v
    using assms by (simp add: leaseForbids_iff parse_forbidden_def unmarshal_broken)
  have refused: "delegation_refused (Req_LeaseJSON req)"
    using assms by (simp add: delegation_refused_def unmarshal_broken)
  {
    assume "I_Verb (Req_Intent req) \<in> {VerbNetExternal, VerbDnsLookup}"
    then have "fallback_verdict req = VerdictDeny"
      by (elim insertE emptyE) (simp_all add: spec_defs forbids verb_defs)
    then show "Resp_Decision (localEvaluate req) = VerdictDeny" by (rule deny_is_final)
  next
    assume "I_Verb (Req_Intent req) = VerbDelegate"
    then show "Resp_Decision (localEvaluate req) \<noteq> VerdictAllow"
      by (auto simp: localEvaluate_decision spec_defs refused)
  }
  show "cache_ok (fst (forbiddenVerbs req))" using assms(1) by (rule forbiddenVerbs_keeps_cache)
qed

theorem broken_lease_fails_closed_witness:
  "Resp_Decision (localEvaluate (demo_request VerbNetExternal ''{'')) = VerdictDeny
   \<and> Resp_Decision (localEvaluate (demo_request VerbDelegate ''{'')) \<noteq> VerdictAllow"
proof -
  have bad: "json_parse ''{'' = None" by code_simp
  have r: "Req_LeaseJSON (demo_request v l) = l" "I_Verb (Req_Intent (demo_request v l)) = v" for v l
    by (simp_all add: demo_request_def)
  show ?thesis
    using broken_lease_fails_closed [of "demo_request VerbNetExternal ''{''"]
      broken_lease_fails_closed [of "demo_request VerbDelegate ''{''"]
    by (simp add: r bad demo_cache)
qed

subsection \<open>Taint only tightens\<close>

text \<open>The second request differs by more taint: more flags of the session and of the intent,
  more labels.\<close>

definition more_tainted :: "Request \<Rightarrow> Request \<Rightarrow> bool" where
  "more_tainted req req' \<longleftrightarrow>
     I_Verb (Req_Intent req') = I_Verb (Req_Intent req)
     \<and> Req_LeaseJSON req' = Req_LeaseJSON req \<and> Req_PolicyVerdicts req' = Req_PolicyVerdicts req
     \<and> cache_ok req \<and> cache_ok req'
     \<and> set (I_Labels (Req_Intent req)) \<subseteq> set (I_Labels (Req_Intent req'))
     \<and> set (I_DerivedLabels (Req_Intent req)) \<subseteq> set (I_DerivedLabels (Req_Intent req'))
     \<and> (I_IsPosture (Req_Intent req) \<longrightarrow> I_IsPosture (Req_Intent req'))
     \<and> (I_IsSensitive (Req_Intent req) \<longrightarrow> I_IsSensitive (Req_Intent req'))
     \<and> (SI_SecretSession (Req_Session req) \<longrightarrow> SI_SecretSession (Req_Session req'))
     \<and> (SI_WasSecret (Req_Session req) \<longrightarrow> SI_WasSecret (Req_Session req'))
     \<and> (SI_RecentlyReadUntrusted (Req_Session req) \<longrightarrow> SI_RecentlyReadUntrusted (Req_Session req'))
     \<and> (SI_UntrustedContentThisTurn (Req_Session req) \<longrightarrow> SI_UntrustedContentThisTurn (Req_Session req'))
     \<and> (SI_DenyAll (Req_Session req) \<longrightarrow> SI_DenyAll (Req_Session req'))"

lemma more_tainted_labels:
  assumes "more_tainted req req'"
  shows "guarded (effective_labels req) \<longrightarrow> guarded (effective_labels req')"
    and "hasDerivedSecret (I_DerivedLabels (Req_Intent req)) \<longrightarrow> hasDerivedSecret (I_DerivedLabels (Req_Intent req'))"
    and "untrusted_context (Req_Session req) \<longrightarrow> untrusted_context (Req_Session req')"
    and "leaseForbidsVerb req' v = leaseForbidsVerb req v"
  using assms unfolding more_tainted_def effective_labels_def guarded_def hasDerivedSecret_iff untrusted_context_def
  by (auto simp: leaseForbids_iff)

lemma more_tainted_flags:
  assumes "more_tainted req req'"
  shows "I_Verb (Req_Intent req') = I_Verb (Req_Intent req)" "Req_LeaseJSON req' = Req_LeaseJSON req"
    "Req_PolicyVerdicts req' = Req_PolicyVerdicts req"
    "I_IsPosture (Req_Intent req) \<longrightarrow> I_IsPosture (Req_Intent req')"
    "I_IsSensitive (Req_Intent req) \<longrightarrow> I_IsSensitive (Req_Intent req')"
    "SI_SecretSession (Req_Session req) \<longrightarrow> SI_SecretSession (Req_Session req')"
    "SI_WasSecret (Req_Session req) \<longrightarrow> SI_WasSecret (Req_Session req')"
    "SI_RecentlyReadUntrusted (Req_Session req) \<longrightarrow> SI_RecentlyReadUntrusted (Req_Session req')"
    "SI_DenyAll (Req_Session req) \<longrightarrow> SI_DenyAll (Req_Session req')"
  using assms unfolding more_tainted_def by blast+

lemma refused_mono:
  assumes "more_tainted req req'"
    and "I_Verb (Req_Intent req) \<noteq> VerbDelegate
         \<or> SI_RecentlyReadUntrusted (Req_Session req') = SI_RecentlyReadUntrusted (Req_Session req)"
    and "refused req"
  shows "refused req'"
  using assms(2,3) more_tainted_labels(1,3) [OF assms(1)] more_tainted_flags(6,9) [OF assms(1)]
  unfolding refused_def Let_def more_tainted_flags(1,2) [OF assms(1)] more_tainted_labels(4) [OF assms(1)]
  by argo

lemma questioned_mono:
  assumes "more_tainted req req'" and "questioned req"
  shows "questioned req'"
  using assms(2) more_tainted_labels(2,3) [OF assms(1)] more_tainted_flags(4-8) [OF assms(1)]
  unfolding questioned_def Let_def more_tainted_flags(1) [OF assms(1)]
  by argo

lemma clean_antimono:
  "more_tainted req req' \<Longrightarrow> isLocalCleanDeveloperWorkflow req' \<Longrightarrow> isLocalCleanDeveloperWorkflow req"
  using more_tainted_flags(1,6,7) [of req req'] by (auto simp: isLocalCleanDeveloperWorkflow_def split: if_splits)

text \<open>Taint only tightens. Adding labels, or raising any session or intent flag, never
  makes the fallback decide less strictly, providers included. For delegation this is
  stated between sessions with the same record of untrusted reads.\<close>

theorem fallback_taint_monotone:
  assumes "more_tainted req req'"
    and "I_Verb (Req_Intent req) \<noteq> VerbDelegate
         \<or> SI_RecentlyReadUntrusted (Req_Session req') = SI_RecentlyReadUntrusted (Req_Session req)"
  shows "verdict_rank (Resp_Decision (localEvaluate req)) \<le> verdict_rank (Resp_Decision (localEvaluate req'))"
proof -
  have "refused req \<longrightarrow> refused req'" "questioned req \<longrightarrow> questioned req'"
    using refused_mono [OF assms] questioned_mono [OF assms(1)] by blast+
  with clean_antimono [OF assms(1)] more_tainted_flags(3) [OF assms(1)] show ?thesis
    by (cases "refused req'"; cases "questioned req'")
       (auto simp: localEvaluate_decision fallback_verdict_def)
qed

text \<open>Reading untrusted content reopens a delegation that the lease forbids. With a lease
  that does not allow delegation (or does not decode), delegating is denied in a clean
  session, but only asked about once untrusted content was read: the untrusted check comes
  before the lease check. The engine it stands in for checks the lease first.\<close>

theorem forbidden_delegation_reopened:
  assumes "I_Verb (Req_Intent req) = VerbDelegate" and "delegation_refused (Req_LeaseJSON req)"
    and "\<not> SI_DenyAll (Req_Session req)" and "\<not> SI_SecretSession (Req_Session req)"
  shows "Resp_Decision (localEvaluate req) =
    (if SI_RecentlyReadUntrusted (Req_Session req) then VerdictAsk else VerdictDeny)"
  using assms by (simp add: localEvaluate_decision spec_defs verb_defs)

definition no_delegation_lease :: string where
  "no_delegation_lease =
     ''{'' @ [CHR 0x22] @ ''allow_delegation'' @ [CHR 0x22] @ '':false}''"

definition untrusted_request :: "Request \<Rightarrow> Request" where
  "untrusted_request req = req\<lparr>Req_Session := (Req_Session req)\<lparr>SI_RecentlyReadUntrusted := True\<rparr>\<rparr>"

lemma untrusted_request_more_tainted: "more_tainted (demo_request v l) (untrusted_request (demo_request v l))"
  by (simp add: more_tainted_def untrusted_request_def demo_request_def cache_ok_def)

theorem fallback_taint_monotone_witness:
  "verdict_rank (Resp_Decision (localEvaluate (demo_request VerbNetExternal [])))
   \<le> verdict_rank (Resp_Decision (localEvaluate (untrusted_request (demo_request VerbNetExternal []))))"
  by (rule fallback_taint_monotone [OF untrusted_request_more_tainted])
     (simp add: demo_request_def verb_defs)

theorem forbidden_delegation_reopened_witness:
  "Resp_Decision (localEvaluate (demo_request VerbDelegate no_delegation_lease)) = VerdictDeny
   \<and> Resp_Decision (localEvaluate (untrusted_request (demo_request VerbDelegate no_delegation_lease))) = VerdictAsk"
proof -
  have "delegation_refused no_delegation_lease" by code_simp
  then show ?thesis
    using forbidden_delegation_reopened [of "demo_request VerbDelegate no_delegation_lease"]
      forbidden_delegation_reopened [of "untrusted_request (demo_request VerbDelegate no_delegation_lease)"]
    by (simp add: demo_request_def untrusted_request_def)
qed

end
