(* ===== verification/Go_Json_Round.thy ===== *)
theory Go_Json_Round
  imports Go_Json_Text
begin

text \<open>
  Printing and parsing JSON: what \<open>json_print\<close> writes, the parser reads back, in any
  context and with any fuel above the length of the text. Strings have to be valid UTF-8
  (others are coerced when they are written) and numbers have to be plain digits, the only
  ones the sources print.
\<close>

subsection \<open>Escapes\<close>

lemma char_lits:
  "char_of (8 :: nat) = CHR 0x08" "char_of (9 :: nat) = CHR 0x09" "char_of (10 :: nat) = CHR 0x0A"
  "char_of (12 :: nat) = CHR 0x0C" "char_of (13 :: nat) = CHR 0x0D" "char_of (226 :: nat) = CHR 0xE2"
  "char_of (128 :: nat) = CHR 0x80" "char_of (168 :: nat) = CHR 0xA8" "char_of (169 :: nat) = CHR 0xA9"
  by code_simp+

lemma hex_value_json_digit: "n < 16 \<Longrightarrow> json_hex_value (json_hex_digit n) = Some n"
  by (simp add: json_hex_value_def json_hex_digit_def Let_def)

lemma parse_hex4_hex4:
  assumes "n < 65536"
  shows "parse_hex4 (hex4 n @ r) = Some (n, r)"
proof -
  have "((n div 4096 mod 16 * 16 + n div 256 mod 16) * 16 + n div 16 mod 16) * 16 + n mod 16 = n"
  proof -
    define a b k where "a = n div 16" and "b = a div 16" and "k = b div 16"
    have "n div 256 = b" "n div 4096 = k" by (simp_all add: a_def b_def k_def flip: div_mult2_eq)
    moreover have "k < 16" using assms by (simp add: a_def b_def k_def flip: div_mult2_eq)
    moreover have "16 * k + b mod 16 = b" "16 * b + a mod 16 = a" "16 * a + n mod 16 = n"
      by (simp_all add: a_def b_def k_def)
    ultimately show ?thesis by (simp flip: a_def)
  qed
  moreover have "parse_hex4 (hex4 n @ r) =
      Some (((n div 4096 mod 16 * 16 + n div 256 mod 16) * 16 + n div 16 mod 16) * 16 + n mod 16, r)"
    by (simp add: hex4_def parse_hex4_def hex_value_json_digit)
  ultimately show ?thesis by (simp only:)
qed

lemma parse_chars_u:
  assumes "code < 65536" and "unescape_u code s = (txt, s)"
  shows "parse_chars (Suc n) (CHR 0x5C # CHR ''u'' # hex4 code @ s) =
    map_option (\<lambda>(rest, r). (txt @ rest, r)) (parse_chars n s)"
  using parse_hex4_hex4 [OF assms(1), of s] assms(2)
  by (simp add: byte_in_def split: option.split)

lemma parse_chars_escape_char:
  "parse_chars (Suc n) (escape_char c @ s) = map_option (\<lambda>(rest, r). (c # rest, r)) (parse_chars n s)"
proof -
  let ?n = "of_char c :: nat"
  have c: "c = char_of ?n" by simp
  consider (quote) "c = CHR 0x22 \<or> c = CHR 0x5C"
    | (short) "?n \<in> {8, 12, 10, 13, 9}" "c \<noteq> CHR 0x22" "c \<noteq> CHR 0x5C"
    | (u) "?n \<notin> {8, 12, 10, 13, 9}" "c \<noteq> CHR 0x22" "c \<noteq> CHR 0x5C" "?n < 32 \<or> c = CHR ''<'' \<or> c = CHR ''>'' \<or> c = CHR ''&''"
    | (plain) "c \<noteq> CHR 0x22" "c \<noteq> CHR 0x5C" "\<not> ?n < 32" "c \<noteq> CHR ''<'' \<and> c \<noteq> CHR ''>'' \<and> c \<noteq> CHR ''&''"
      "?n \<notin> {8, 12, 10, 13, 9}" by blast
  then show ?thesis
  proof cases
    case quote
    then show ?thesis
      by (auto simp: escape_char_def simple_escape_def byte_in_def split: option.split)
  next
    case short
    then have "c \<in> char_of ` {8 :: nat, 12, 10, 13, 9}" using c by blast
    then have "c \<in> {CHR 0x08, CHR 0x0C, CHR 0x0A, CHR 0x0D, CHR 0x09}" by (auto simp: char_lits)
    then show ?thesis
      by (elim insertE emptyE)
         (simp_all add: escape_char_def simple_escape_def byte_in_def option.case_eq_if map_option_case case_prod_beta)
  next
    case u
    then have small: "?n < 128" by auto
    have "escape_char c = CHR 0x5C # CHR ''u'' # hex4 ?n" using u by (auto simp: escape_char_def Let_def)
    moreover have "unescape_u ?n s = ([c], s)" using small by (simp add: unescape_u_def utf8_encode_def)
    ultimately show ?thesis using parse_chars_u [of ?n s "[c]" n] small by simp
  next
    case plain
    then have "escape_char c = [c]" by (simp add: escape_char_def Let_def)
    with plain show ?thesis by (auto simp: byte_in_def split: option.split)
  qed
qed

lemma escape_char_nonempty: "escape_char c \<noteq> []"
  by (simp add: escape_char_def Let_def)

definition separator :: "string \<Rightarrow> bool" where
  "separator s \<longleftrightarrow> (\<exists>e r. s = CHR 0xE2 # CHR 0x80 # e # r \<and> (e = CHR 0xA8 \<or> e = CHR 0xA9))"

lemma escape_text_plain: "\<not> separator (c # cs) \<Longrightarrow> escape_text (c # cs) = escape_char c @ escape_text cs"
  unfolding escape_text.simps(2) [of c cs]
  by (auto simp: separator_def simp del: escape_text.simps split: list.split)

lemma escape_text_separator:
  "e = CHR 0xA8 \<or> e = CHR 0xA9 \<Longrightarrow>
   escape_text (CHR 0xE2 # CHR 0x80 # e # r) =
     CHR 0x5C # CHR ''u'' # hex4 (0x2028 + (of_char e - 0xA8)) @ escape_text r"
  by simp

lemma parse_chars_separator:
  assumes "e = CHR 0xA8 \<or> e = CHR 0xA9"
  shows "parse_chars (Suc n) (CHR 0x5C # CHR ''u'' # hex4 (0x2028 + (of_char e - 0xA8)) @ s) =
    map_option (\<lambda>(rest, r). (CHR 0xE2 # CHR 0x80 # e # rest, r)) (parse_chars n s)"
proof -
  have "unescape_u (0x2028 + (of_char e - 0xA8)) s = ([CHR 0xE2, CHR 0x80, e], s)"
    using assms by (auto simp: unescape_u_def utf8_encode_def char_lits)
  moreover have "0x2028 + (of_char e - 0xA8 :: nat) < 65536" using assms by auto
  ultimately show ?thesis using parse_chars_u by simp
qed

lemma parse_chars_escape_text:
  "length (escape_text s) < n \<Longrightarrow> parse_chars n (escape_text s @ CHR 0x22 # r) = Some (s, r)"
proof (induction "length s" arbitrary: s n rule: less_induct)
  case less
  obtain m where n: "n = Suc m" using less.prems by (cases n) auto
  show ?case
  proof (cases s)
    case Nil
    then show ?thesis by (simp add: n)
  next
    case (Cons c cs)
    show ?thesis
    proof (cases "separator s")
      case True
      then obtain e t where s: "s = CHR 0xE2 # CHR 0x80 # e # t" "e = CHR 0xA8 \<or> e = CHR 0xA9"
        unfolding separator_def by blast
      have "length (escape_text t) < m" using less.prems unfolding n s(1) escape_text_separator [OF s(2)] by simp
      then have "parse_chars m (escape_text t @ CHR 0x22 # r) = Some (t, r)" by (intro less.hyps) (simp_all add: s)
      then show ?thesis
        unfolding n s(1) escape_text_separator [OF s(2)] append_Cons append_assoc parse_chars_separator [OF s(2)] by simp
    next
      case False
      then have esc: "escape_text s = escape_char c @ escape_text cs" using Cons by (simp add: escape_text_plain del: escape_text.simps)
      have "length (escape_text cs) < m"
        using less.prems escape_char_nonempty [of c] unfolding n esc by (cases "escape_char c") auto
      then have "parse_chars m (escape_text cs @ CHR 0x22 # r) = Some (cs, r)" by (intro less.hyps) (simp_all add: Cons)
      then show ?thesis unfolding n esc append_assoc parse_chars_escape_char by (simp add: Cons)
    qed
  qed
qed

lemma parse_string_escape:
  "utf8_ValidString s \<Longrightarrow> parse_string (escape_text s @ CHR 0x22 # r) = Some (s, r)"
  by (simp add: parse_string_def parse_chars_escape_text utf8_coerce_valid del: parse_chars.simps)

subsection \<open>Values\<close>

definition number_text :: "string \<Rightarrow> bool" where
  "number_text t \<longleftrightarrow> t = ''0'' \<or> (t \<noteq> [] \<and> hd t \<noteq> CHR ''0'' \<and> list_all digit t)"

text \<open>The values that survive printing, and their nesting depth.\<close>

fun printable :: "json \<Rightarrow> bool" where
  "printable JNull = True"
| "printable (JBool b) = True"
| "printable (JNumber t) = number_text t"
| "printable (JString s) = utf8_ValidString s"
| "printable (JArray vs) = (\<forall>v \<in> set vs. printable v)"
| "printable (JObject ms) = (\<forall>m \<in> set ms. utf8_ValidString (fst m) \<and> printable (snd m))"

fun depth :: "json \<Rightarrow> nat" where
  "depth (JArray vs) = Suc (foldr (\<lambda>v. max (depth v)) vs 0)"
| "depth (JObject ms) = Suc (foldr (\<lambda>m. max (depth (snd m))) ms 0)"
| "depth _ = 0"

lemma depth_element: "v \<in> set vs \<Longrightarrow> depth v \<le> foldr (\<lambda>v. max (depth v)) vs 0"
  by (induction vs) auto

lemma depth_member: "m \<in> set ms \<Longrightarrow> depth (snd m) \<le> foldr (\<lambda>m. max (depth (snd m))) ms 0"
  by (induction ms) auto

text \<open>What may follow a value inside an array or object, or at the end.\<close>

definition delimiter :: "string \<Rightarrow> bool" where
  "delimiter s \<longleftrightarrow> s = [] \<or> hd s \<in> {CHR '','', CHR '']'', CHR ''}''}"

lemma delimiter_Cons [simp]:
  "delimiter (CHR '','' # s)" "delimiter (CHR '']'' # s)" "delimiter (CHR ''}'' # s)" "delimiter []"
  by (simp_all add: delimiter_def)

lemma skip_ws_simps [simp]:
  "skip_ws [] = []" "\<not> json_space c \<Longrightarrow> skip_ws (c # cs) = c # cs"
  by (simp_all add: skip_ws_def)

lemma json_space_lits [simp]:
  "\<not> json_space CHR '',''" "\<not> json_space CHR '']''" "\<not> json_space CHR ''}''" "\<not> json_space CHR 0x22"
  "\<not> json_space CHR ''{''" "\<not> json_space CHR ''[''" "\<not> json_space CHR '':''" "\<not> json_space CHR ''t''"
  "\<not> json_space CHR ''f''" "\<not> json_space CHR ''n''"
  by (simp_all add: json_space_def)

lemma digit_not_space: "digit c \<Longrightarrow> \<not> json_space c"
  by (auto simp: digit_def byte_in_def json_space_def)

lemma take_digits_append: "list_all digit t \<Longrightarrow> s = [] \<or> \<not> digit (hd s) \<Longrightarrow> take_digits (t @ s) = (t, s)"
  by (cases s) (auto simp: take_digits_def list_all_iff takeWhile_append dropWhile_append)

lemma parse_frac_none: "delimiter s \<Longrightarrow> parse_frac s = Some ([], s)"
  by (cases s) (auto simp: parse_frac_def delimiter_def)

lemma parse_exp_none: "delimiter s \<Longrightarrow> parse_exp s = Some ([], s)"
  by (cases s) (auto simp: parse_exp_def delimiter_def)

lemma delimiter_not_digit: "delimiter s \<Longrightarrow> s = [] \<or> \<not> digit (hd s)"
  by (auto simp: delimiter_def digit_def byte_in_def)

lemma parse_number_text:
  assumes "number_text t" and "delimiter s"
  shows "parse_number (t @ s) = Some (t, s)"
proof -
  have "\<exists>c cs. t = c # cs \<and> digit c"
    using assms(1) by (cases t) (auto simp: number_text_def digit_def byte_in_def)
  then obtain c cs where t: "t = c # cs" "digit c" by blast
  then have "c \<noteq> CHR ''-''" by (auto simp: digit_def byte_in_def)
  moreover have "parse_int_part (t @ s) = Some (t, s)"
  proof (cases "t = ''0''")
    case True
    then show ?thesis by (simp add: parse_int_part_def)
  next
    case False
    then have "c \<noteq> CHR ''0''" "list_all digit t" using assms(1) t by (auto simp: number_text_def)
    then show ?thesis
      using t take_digits_append [of t s] delimiter_not_digit [OF assms(2)] by (simp add: parse_int_part_def)
  qed
  ultimately show ?thesis
    using t by (simp add: parse_number_def parse_frac_none parse_exp_none assms(2))
qed

lemma print_head:
  assumes "printable v"
  obtains c r where "json_print v = c # r" "\<not> json_space c" "c \<noteq> CHR '']''" "c \<noteq> CHR ''}''"
proof (cases v)
  case (JNumber t)
  with assms obtain c cs where "t = c # cs" "digit c"
    by (cases t) (auto simp: number_text_def digit_def byte_in_def)
  moreover from this have "c \<noteq> CHR '']''" "c \<noteq> CHR ''}''" by (auto simp: digit_def byte_in_def)
  ultimately show ?thesis using JNumber that [of c cs] digit_not_space by simp
next
  case (JBool b)
  then show ?thesis using that by (cases b) auto
qed (use that in \<open>auto simp: print_string_def\<close>)

text \<open>The statement for one value, as the lemmas on elements and members use it.\<close>

definition reads_back :: "json \<Rightarrow> bool" where
  "reads_back v \<longleftrightarrow>
     (\<forall>n d s. d + depth v \<le> max_depth \<longrightarrow> length (json_print v) < n \<longrightarrow> delimiter s \<longrightarrow>
        parse_value n d (json_print v @ s) = Some (v, s))"

lemma reads_backD:
  "reads_back v \<Longrightarrow> d + depth v \<le> max_depth \<Longrightarrow> length (json_print v) < n \<Longrightarrow> delimiter s \<Longrightarrow>
   parse_value n d (json_print v @ s) = Some (v, s)"
  by (simp add: reads_back_def)

lemma parse_elements_print:
  assumes "vs \<noteq> []" and "\<And>v. v \<in> set vs \<Longrightarrow> reads_back v \<and> d + depth v \<le> max_depth"
    and "Suc (length (strings_Join (map json_print vs) '','')) < m"
  shows "parse_elements m d (strings_Join (map json_print vs) '','' @ CHR '']'' # s) = Some (vs, s)"
  using assms
proof (induction vs arbitrary: m)
  case Nil
  then show ?case by simp
next
  case (Cons v vs)
  obtain k where m: "m = Suc k" using Cons.prems(3) by (cases m) auto
  show ?case
  proof (cases vs)
    case Nil
    have "parse_value k d (json_print v @ CHR '']'' # s) = Some (v, CHR '']'' # s)"
      using Cons.prems Nil m by (intro reads_backD) auto
    then show ?thesis using Nil by (simp add: m)
  next
    case (Cons w ws)
    let ?rest = "strings_Join (map json_print vs) '',''"
    have join: "strings_Join (map json_print (v # vs)) '','' = json_print v @ '','' @ ?rest"
      using Cons by simp
    have "parse_value k d (json_print v @ CHR '','' # ?rest @ CHR '']'' # s) =
        Some (v, CHR '','' # ?rest @ CHR '']'' # s)"
      using Cons.prems unfolding m join by (intro reads_backD) auto
    moreover have "parse_elements k d (?rest @ CHR '']'' # s) = Some (vs, s)"
      using Cons.prems \<open>vs = w # ws\<close> unfolding m join by (intro Cons.IH) auto
    ultimately show ?thesis unfolding m join by simp
  qed
qed

definition print_member :: "string \<times> json \<Rightarrow> string" where
  "print_member m = print_string (fst m) @ '':'' @ json_print (snd m)"

lemma parse_members_print:
  assumes "ms \<noteq> []"
    and "\<And>m. m \<in> set ms \<Longrightarrow> utf8_ValidString (fst m) \<and> reads_back (snd m) \<and> d + depth (snd m) \<le> max_depth"
    and "Suc (length (strings_Join (map print_member ms) '','')) < n"
  shows "parse_members n d (strings_Join (map print_member ms) '','' @ CHR ''}'' # s) = Some (ms, s)"
  using assms
proof (induction ms arbitrary: n)
  case Nil
  then show ?case by simp
next
  case (Cons m ms)
  obtain k where n: "n = Suc k" using Cons.prems(3) by (cases n) auto
  obtain key v where m: "m = (key, v)" by (cases m)
  have key: "parse_string (escape_text (utf8_coerce key) @ CHR 0x22 # t) = Some (key, t)" for t
    using Cons.prems(2) [of m] by (simp add: m utf8_coerce_valid parse_string_escape)
  define tail where "tail = (if ms = [] then CHR ''}'' # s
               else CHR '','' # strings_Join (map print_member ms) '','' @ CHR ''}'' # s)"
  have shape: "strings_Join (map print_member (m # ms)) '','' @ CHR ''}'' # s =
      CHR 0x22 # escape_text (utf8_coerce key) @ CHR 0x22 # CHR '':'' # json_print v @ tail"
    by (cases ms) (simp_all add: print_member_def m print_string_def tail_def)
  have "length (json_print v) < k"
    using Cons.prems(3) by (cases ms) (auto simp: n print_member_def m print_string_def)
  then have v: "parse_value k d (json_print v @ tail) = Some (v, tail)"
    using Cons.prems(2) [of m] by (intro reads_backD) (auto simp: m tail_def)
  have rest: "parse_members k d (strings_Join (map print_member ms) '','' @ CHR ''}'' # s) = Some (ms, s)"
    if "ms \<noteq> []"
  proof (rule Cons.IH)
    show "Suc (length (strings_Join (map print_member ms) '','')) < k"
      using Cons.prems(3) that by (cases ms) (auto simp: n)
  qed (use Cons.prems(2) that in auto)
  show ?case unfolding shape n using key v rest by (simp add: m tail_def)
qed

lemma json_print_object:
  "json_print (JObject ms) = CHR ''{'' # strings_Join (map print_member ms) '','' @ [CHR ''}'']"
  by (simp add: print_member_def [abs_def])

lemma print_reads_back: "printable v \<Longrightarrow> reads_back v"
proof (induction v)
  case JNull
  then show ?case by (auto simp: reads_back_def parse_word_def gr0_conv_Suc elim!: less_natE)
next
  case (JBool b)
  then show ?case by (cases b) (auto simp: reads_back_def parse_word_def elim!: less_natE)
next
  case (JNumber t)
  show ?case unfolding reads_back_def
  proof (intro allI impI)
    fix n d s assume n: "length (json_print (JNumber t)) < n" and s: "delimiter s"
    obtain c cs where t: "t = c # cs" "digit c"
      using JNumber by (cases t) (auto simp: number_text_def digit_def byte_in_def)
    moreover have "c \<noteq> CHR ''{''" "c \<noteq> CHR ''[''" "c \<noteq> CHR 0x22" "c \<noteq> CHR ''t''" "c \<noteq> CHR ''f''" "c \<noteq> CHR ''n''"
      using t(2) by (auto simp: digit_def byte_in_def)
    moreover have "parse_number (t @ s) = Some (t, s)" using JNumber s by (intro parse_number_text) auto
    ultimately show "parse_value n d (json_print (JNumber t) @ s) = Some (JNumber t, s)"
      using n digit_not_space [OF t(2)] by (cases n) simp_all
  qed
next
  case (JString x)
  then show ?case
    by (auto simp: reads_back_def print_string_def utf8_coerce_valid parse_string_escape elim!: less_natE)
next
  case (JArray vs)
  show ?case unfolding reads_back_def
  proof (intro allI impI)
    fix n d s assume d: "d + depth (JArray vs) \<le> max_depth" and n: "length (json_print (JArray vs)) < n"
    obtain k where k: "n = Suc k" using n by (cases n) auto
    have deep: "\<not> max_depth \<le> d" using d by auto
    show "parse_value n d (json_print (JArray vs) @ s) = Some (JArray vs, s)"
    proof (cases vs)
      case Nil
      then show ?thesis using deep by (simp add: k)
    next
      case (Cons v ws)
      have "parse_elements k (Suc d) (strings_Join (map json_print vs) '','' @ CHR '']'' # s) = Some (vs, s)"
      proof (rule parse_elements_print)
        fix w assume "w \<in> set vs"
        then show "reads_back w \<and> Suc d + depth w \<le> max_depth"
          using JArray d depth_element [of w vs] by auto
      qed (use n Cons in \<open>auto simp: k\<close>)
      moreover obtain c r where "strings_Join (map json_print vs) '','' = c # r" "\<not> json_space c" "c \<noteq> CHR '']''"
      proof -
        obtain c r where "json_print v = c # r" "\<not> json_space c" "c \<noteq> CHR '']''"
          using JArray.prems Cons by (auto elim: print_head)
        then show ?thesis using that Cons by (cases ws) auto
      qed
      ultimately show ?thesis using deep by (simp add: k)
    qed
  qed
next
  case (JObject ms)
  show ?case unfolding reads_back_def
  proof (intro allI impI)
    fix n d s assume d: "d + depth (JObject ms) \<le> max_depth" and n: "length (json_print (JObject ms)) < n"
    obtain k where k: "n = Suc k" using n by (cases n) auto
    have deep: "\<not> max_depth \<le> d" using d by auto
    show "parse_value n d (json_print (JObject ms) @ s) = Some (JObject ms, s)"
    proof (cases ms)
      case Nil
      then show ?thesis using deep by (simp add: k)
    next
      case (Cons m rest)
      have "parse_members k (Suc d) (strings_Join (map print_member ms) '','' @ CHR ''}'' # s) = Some (ms, s)"
      proof (rule parse_members_print)
        fix m assume m: "m \<in> set ms"
        have "reads_back (snd m)" using JObject.IH [OF m, of "snd m"] JObject.prems m by (cases m) auto
        then show "utf8_ValidString (fst m) \<and> reads_back (snd m) \<and> Suc d + depth (snd m) \<le> max_depth"
          using JObject.prems d m depth_member [OF m] by auto
      qed (use n Cons in \<open>auto simp: k json_print_object simp del: json_print.simps\<close>)
      moreover obtain r where "strings_Join (map print_member ms) '','' = CHR 0x22 # r"
        using that Cons by (cases rest) (auto simp: print_member_def print_string_def)
      ultimately show ?thesis
        using deep unfolding json_print_object by (simp add: k del: json_print.simps)
    qed
  qed
qed

theorem json_parse_print:
  assumes "printable v" and "depth v \<le> max_depth"
  shows "json_parse (json_print v) = Some v"
  using reads_backD [OF print_reads_back [OF assms(1)], of 0 "2 * length (json_print v) + 2" "[]"] assms(2)
  by (simp add: json_parse_def)

end
