(* ===== verification/Core_Wire.thy ===== *)
theory Core_Wire
  imports Core_Properties Go_Json_Round Go_Bytes
begin

text \<open>
  Package \<open>pkg/core\<close>, the bridge to the external engine: the MSTR/1 frames and their JSON
  payload (\<open>protocol_wire_gen.go\<close>), the install-time manifest (\<open>manifest.go\<close>) and
  \<open>Evaluate\<close> (\<open>core.go\<close>). The file system, the engine process and the texts of errors that
  the operating system or the JSON decoder produce come from an environment record; the
  once-per-process integrity check is a cache passed through.
\<close>

subsection \<open>Frames\<close>

definition protocolMagic :: string where
  "protocolMagic = ''MSTR''"

definition protocolVersion :: char where
  "protocolVersion = CHR 0x01"

definition maxFrameBytes :: nat where
  "maxFrameBytes = 10 * 1024 * 1024"

datatype frame_error =
    ResponseTooShort nat
  | InvalidMagic
  | UnsupportedVersion nat
  | FrameTooLarge nat
  | LengthMismatch nat nat

definition encodeFrame :: "string \<Rightarrow> string" where
  "encodeFrame payload =
     protocolMagic @ [protocolVersion] @ put_uint32 (length payload) @ payload"

definition decodeFrame :: "string \<Rightarrow> frame_error + string" where
  "decodeFrame data =
     (if length data < 9 then Inl (ResponseTooShort (length data))
      else if take 4 data \<noteq> protocolMagic then Inl InvalidMagic
      else if data ! 4 \<noteq> protocolVersion then Inl (UnsupportedVersion (of_char (data ! 4)))
      else
        let len = be_value (take 4 (drop 5 data)) in
        if len > maxFrameBytes then Inl (FrameTooLarge len)
        else if len > length data - 9 then Inl (LengthMismatch len (length data - 9))
        else Inr (take len (drop 9 data)))"

subsection \<open>The request payload\<close>

record wireEvalRequest =
  WR_Verb :: string
  WR_Target :: string
  WR_ToolName :: string
  WR_Labels :: "Label list"
  WR_DerivedLabels :: "Label list"
  WR_SessionSecret :: bool
  WR_SessionWasSecret :: bool
  WR_SessionUntrustedRead :: bool
  WR_SessionUntrustedThisTurn :: bool
  WR_IsPostureFile :: bool
  WR_IsSensitivePath :: bool
  WR_IsDelegation :: bool
  WR_IsTripwire :: bool
  WR_PolicyVerdicts :: "PolicyVerdict list"

record wireSessionPayload =
  WS_SecretSession :: bool
  WS_RecentlyReadUntrusted :: bool
  WS_DenyAll :: bool
  WS_ApprovalScope :: string
  WS_TurnCounter :: nat

record wireRequestEnvelope =
  WE_Request :: wireEvalRequest
  WE_Session :: wireSessionPayload
  WE_Lease :: string

definition buildWireEvalRequest :: "Request \<Rightarrow> wireEvalRequest" where
  "buildWireEvalRequest req =
    (let i = Req_Intent req; s = Req_Session req in
     \<lparr>WR_Verb = I_Verb i, WR_Target = I_Target i, WR_ToolName = Req_ToolName req,
      WR_Labels = I_Labels i, WR_DerivedLabels = I_DerivedLabels i,
      WR_SessionSecret = SI_SecretSession s, WR_SessionWasSecret = SI_WasSecret s,
      WR_SessionUntrustedRead = SI_RecentlyReadUntrusted s,
      WR_SessionUntrustedThisTurn = SI_UntrustedContentThisTurn s,
      WR_IsPostureFile = I_IsPosture i, WR_IsSensitivePath = I_IsSensitive i,
      WR_IsDelegation = I_IsDelegation i, WR_IsTripwire = I_IsTripwire i,
      WR_PolicyVerdicts = Req_PolicyVerdicts req\<rparr>)"

text \<open>\<open>uint64\<close> of a Go \<open>int\<close>: negative values wrap.\<close>

definition buildWireSessionPayload :: "Request \<Rightarrow> wireSessionPayload" where
  "buildWireSessionPayload req =
    (let s = Req_Session req in
     \<lparr>WS_SecretSession = SI_SecretSession s, WS_RecentlyReadUntrusted = SI_RecentlyReadUntrusted s,
      WS_DenyAll = SI_DenyAll s, WS_ApprovalScope = SI_ApprovalScope s,
      WS_TurnCounter = nat (SI_TurnCounter s mod 2 ^ 64)\<rparr>)"

definition buildWireRequestEnvelope :: "Request \<Rightarrow> wireRequestEnvelope" where
  "buildWireRequestEnvelope req =
     \<lparr>WE_Request = buildWireEvalRequest req, WE_Session = buildWireSessionPayload req,
      WE_Lease = (if Req_LeaseJSON req \<noteq> [] \<and> json_Valid (Req_LeaseJSON req) then Req_LeaseJSON req else [])\<rparr>"

text \<open>\<open>json.Marshal\<close> of these structs, field by field with their tags.\<close>

definition json_label :: "Label \<Rightarrow> json" where
  "json_label l =
     JObject [(''sensitivity'', JString (Lb_Sensitivity l)), (''trust'', JString (Lb_Trust l)),
              (''provenance'', JString (Lb_Provenance l))]"

definition json_policy_verdict :: "PolicyVerdict \<Rightarrow> json" where
  "json_policy_verdict v =
     JObject ([(''provider'', JString (PV_Provider v)), (''verdict'', JString (PV_Verdict v))]
       @ (if PV_RulesMatched v = [] then [] else [(''rules_matched'', JArray (map JString (PV_RulesMatched v)))])
       @ (if PV_Reason v = [] then [] else [(''reason'', JString (PV_Reason v))])
       @ [(''is_advisory'', JBool (PV_IsAdvisory v))])"

definition json_wire_request :: "wireEvalRequest \<Rightarrow> json" where
  "json_wire_request r =
     JObject
       [(''verb'', JString (WR_Verb r)), (''target'', JString (WR_Target r)),
        (''tool_name'', JString (WR_ToolName r)),
        (''labels'', JArray (map json_label (WR_Labels r))),
        (''derived_labels'', JArray (map json_label (WR_DerivedLabels r))),
        (''session_secret'', JBool (WR_SessionSecret r)),
        (''session_was_secret'', JBool (WR_SessionWasSecret r)),
        (''session_untrusted_read'', JBool (WR_SessionUntrustedRead r)),
        (''session_untrusted_this_turn'', JBool (WR_SessionUntrustedThisTurn r)),
        (''is_posture_file'', JBool (WR_IsPostureFile r)),
        (''is_sensitive_path'', JBool (WR_IsSensitivePath r)),
        (''is_delegation'', JBool (WR_IsDelegation r)), (''is_tripwire'', JBool (WR_IsTripwire r)),
        (''policy_verdicts'', JArray (map json_policy_verdict (WR_PolicyVerdicts r)))]"

definition json_wire_session :: "wireSessionPayload \<Rightarrow> json" where
  "json_wire_session s =
     JObject
       [(''secret_session'', JBool (WS_SecretSession s)),
        (''recently_read_untrusted'', JBool (WS_RecentlyReadUntrusted s)),
        (''deny_all'', JBool (WS_DenyAll s)), (''approval_scope'', JString (WS_ApprovalScope s)),
        (''turn_counter'', JNumber (nat_to_string (WS_TurnCounter s)))]"

text \<open>A raw message is compacted when it is embedded: space between tokens goes, and the
  characters that the encoder escapes are escaped.\<close>

fun json_compact :: "bool \<Rightarrow> string \<Rightarrow> string" where
  "json_compact inside [] = []"
| "json_compact inside (c # cs) =
     (if \<not> inside then
        (if json_space c then json_compact False cs
         else c # json_compact (c = CHR 0x22) cs)
      else if c = CHR 0x22 then c # json_compact False cs
      else if c = CHR 0x5C then
        (case cs of [] \<Rightarrow> [c] | d # r \<Rightarrow> c # d # json_compact True r)
      else if c = CHR ''<'' \<or> c = CHR ''>'' \<or> c = CHR ''&'' then
        CHR 0x5C # CHR ''u'' # hex4 (of_char c) @ json_compact True cs
      else
        (case cs of
           b # e # r \<Rightarrow>
             if c = CHR 0xE2 \<and> b = CHR 0x80 \<and> (e = CHR 0xA8 \<or> e = CHR 0xA9)
             then CHR 0x5C # CHR ''u'' # hex4 (0x2028 + (of_char e - 0xA8)) @ json_compact True r
             else c # json_compact True cs
         | _ \<Rightarrow> c # json_compact True cs))"

definition marshal_envelope :: "wireRequestEnvelope \<Rightarrow> string" where
  "marshal_envelope env =
     ''{'' @ print_string ''request'' @ '':'' @ json_print (json_wire_request (WE_Request env))
     @ '','' @ print_string ''session'' @ '':'' @ json_print (json_wire_session (WE_Session env))
     @ (if WE_Lease env = [] then []
        else '','' @ print_string ''lease'' @ '':'' @ json_compact False (WE_Lease env))
     @ ''}''"

definition encodeMSTR1 :: "Request \<Rightarrow> string" where
  "encodeMSTR1 req = encodeFrame (marshal_envelope (buildWireRequestEnvelope req))"

subsection \<open>The response payload\<close>

text \<open>One field of a decoded value; \<open>None\<close> is a type error.\<close>

definition field_value :: "(json list \<Rightarrow> 'a \<Rightarrow> 'a option) \<Rightarrow> 'a \<Rightarrow> string \<Rightarrow> json \<Rightarrow> 'a option" where
  "field_value decode zero name v =
     (case struct_field name v of None \<Rightarrow> None | Some vs \<Rightarrow> decode vs zero)"

definition decode_label :: "json \<Rightarrow> Label option" where
  "decode_label v =
     (case (field_value decode_string [] ''sensitivity'' v, field_value decode_string [] ''trust'' v,
            field_value decode_string [] ''provenance'' v) of
        (Some s, Some t, Some p) \<Rightarrow> Some \<lparr>Lb_Sensitivity = s, Lb_Trust = t, Lb_Provenance = p\<rparr>
      | _ \<Rightarrow> None)"

fun decode_labels :: "json list \<Rightarrow> Label list \<Rightarrow> Label list option" where
  "decode_labels [] acc = Some acc"
| "decode_labels (v # vs) acc =
     (case (case v of JArray es \<Rightarrow> those (map decode_label es) | JNull \<Rightarrow> Some [] | _ \<Rightarrow> None) of
        None \<Rightarrow> None
      | Some ls \<Rightarrow> decode_labels vs ls)"

definition digits_value :: "string \<Rightarrow> nat" where
  "digits_value t = foldl (\<lambda>a c. 10 * a + (of_char c - 48)) 0 t"

fun decode_uint64 :: "json list \<Rightarrow> nat \<Rightarrow> nat option" where
  "decode_uint64 [] acc = Some acc"
| "decode_uint64 (v # vs) acc =
     (case v of
        JNumber t \<Rightarrow> if list_all digit t \<and> digits_value t < 2 ^ 64 then decode_uint64 vs (digits_value t) else None
      | JNull \<Rightarrow> decode_uint64 vs acc
      | _ \<Rightarrow> None)"

record wireEvalResponse =
  WP_Verdict :: Verdict
  WP_Reason :: string
  WP_RiskTier :: string
  WP_LabelsApplied :: "Label list"
  WP_ReceiptId :: string
  WP_Timestamp :: nat

definition unmarshal_response :: "string \<Rightarrow> wireEvalResponse option" where
  "unmarshal_response payload =
     (case json_parse payload of
        None \<Rightarrow> None
      | Some v \<Rightarrow>
          (case (field_value decode_string [] ''verdict'' v, field_value decode_string [] ''reason'' v,
                 field_value decode_string [] ''risk_tier'' v, field_value decode_labels [] ''labels_applied'' v,
                 field_value decode_string [] ''receipt_id'' v, field_value decode_uint64 0 ''timestamp'' v) of
             (Some verdict, Some reason, Some risk, Some labels, Some receipt, Some time) \<Rightarrow>
               Some \<lparr>WP_Verdict = verdict, WP_Reason = reason, WP_RiskTier = risk, WP_LabelsApplied = labels,
                     WP_ReceiptId = receipt, WP_Timestamp = time\<rparr>
           | _ \<Rightarrow> None))"

definition decodeWireEvalResponse :: "string \<Rightarrow> Response option" where
  "decodeWireEvalResponse payload =
     (case unmarshal_response payload of
        None \<Rightarrow> None
      | Some w \<Rightarrow> Some ((respond (WP_Verdict w) (WP_Reason w))\<lparr>Resp_Risk := WP_RiskTier w\<rparr>))"

datatype decode_error = BadFrame frame_error | BadPayload

definition decodeMSTR1Response :: "string \<Rightarrow> decode_error + Response" where
  "decodeMSTR1Response data =
     (case decodeFrame data of
        Inl e \<Rightarrow> Inl (BadFrame e)
      | Inr payload \<Rightarrow>
          (case decodeWireEvalResponse payload of None \<Rightarrow> Inl BadPayload | Some r \<Rightarrow> Inr r))"

subsection \<open>The binary manifest (\<open>manifest.go\<close>)\<close>

record BinaryManifest =
  BM_Version :: string
  BM_InstalledAt :: string
  BM_InstallMethod :: string
  BM_SirSHA256 :: string
  BM_MisterCoreSHA256 :: string
  BM_SirPath :: string
  BM_MisterCorePath :: string

text \<open>The outcome of \<open>os.ReadFile\<close>: the contents, a missing file, or another error.\<close>

datatype file_read = Contents string | Missing string | Unreadable string

text \<open>What the bridge sees of the machine: the home directory (or the error text), reading a
  file, whether a path exists, the search for the engine, running it on an input, and the
  error text of the JSON decoder.\<close>

record CoreEnv =
  CE_Home :: "string + string"
  CE_ReadFile :: "string \<Rightarrow> file_read"
  CE_Exists :: "string \<Rightarrow> bool"
  CE_LookPath :: "string option"
  CE_Run :: "string \<Rightarrow> string \<Rightarrow> string option"
  CE_JsonError :: "string \<Rightarrow> string"

definition ManifestPath :: "CoreEnv \<Rightarrow> string + string" where
  "ManifestPath env =
     (case CE_Home env of
        Inl e \<Rightarrow> Inl (''resolve home dir: '' @ e)
      | Inr home \<Rightarrow> Inr (home @ ''/.sir/binary-manifest.json''))"

definition ManifestSentinelPath :: "CoreEnv \<Rightarrow> string + string" where
  "ManifestSentinelPath env =
     (case CE_Home env of
        Inl e \<Rightarrow> Inl (''resolve home dir: '' @ e)
      | Inr home \<Rightarrow> Inr (home @ ''/.sir/.manifest-expected''))"

definition checkManifestSentinel :: "CoreEnv \<Rightarrow> string option" where
  "checkManifestSentinel env =
     (case ManifestSentinelPath env of
        Inl _ \<Rightarrow> None
      | Inr path \<Rightarrow>
          if CE_Exists env path then
            Some (''binary manifest deleted '' @ em_dash @ '' sentinel exists at '' @ path
                  @ '' but manifest is missing (possible tamper)'')
          else None)"

definition unmarshal_manifest :: "string \<Rightarrow> BinaryManifest option" where
  "unmarshal_manifest data =
     (case json_parse data of
        None \<Rightarrow> None
      | Some v \<Rightarrow>
          (case (field_value decode_string [] ''version'' v, field_value decode_string [] ''installed_at'' v,
                 field_value decode_string [] ''install_method'' v, field_value decode_string [] ''sir_sha256'' v,
                 field_value decode_string [] ''mister_core_sha256'' v, field_value decode_string [] ''sir_path'' v,
                 field_value decode_string [] ''mister_core_path'' v) of
             (Some a, Some b, Some c, Some d, Some e, Some f, Some g) \<Rightarrow>
               Some \<lparr>BM_Version = a, BM_InstalledAt = b, BM_InstallMethod = c, BM_SirSHA256 = d,
                     BM_MisterCoreSHA256 = e, BM_SirPath = f, BM_MisterCorePath = g\<rparr>
           | _ \<Rightarrow> None))"

text \<open>\<open>Inr None\<close> is the nil manifest of an installation that predates it.\<close>

definition LoadManifest :: "CoreEnv \<Rightarrow> string + BinaryManifest option" where
  "LoadManifest env =
     (case ManifestPath env of
        Inl e \<Rightarrow> Inl e
      | Inr path \<Rightarrow>
          (case CE_ReadFile env path of
             Missing _ \<Rightarrow> (case checkManifestSentinel env of Some e \<Rightarrow> Inl e | None \<Rightarrow> Inr None)
           | Unreadable e \<Rightarrow> Inl (''read manifest: '' @ e)
           | Contents data \<Rightarrow>
               (case unmarshal_manifest data of
                  None \<Rightarrow> Inl (''parse manifest: '' @ CE_JsonError env data)
                | Some m \<Rightarrow> Inr (Some m))))"

definition HashFile :: "CoreEnv \<Rightarrow> string \<Rightarrow> string + string" where
  "HashFile env path =
     (case CE_ReadFile env path of
        Contents data \<Rightarrow> Inr (hex_EncodeToString (sha256_Sum256 data))
      | Missing e \<Rightarrow> Inl e
      | Unreadable e \<Rightarrow> Inl e)"

subsection \<open>Asking the engine (\<open>core.go\<close>)\<close>

definition truncateHash :: "string \<Rightarrow> string" where
  "truncateHash h = (if length h > 16 then take 16 h @ ''...'' else h)"

text \<open>The integrity check itself; the result is the error, if any.\<close>

definition check_integrity :: "CoreEnv \<Rightarrow> string \<Rightarrow> string option" where
  "check_integrity env binaryPath =
     (case LoadManifest env of
        Inl e \<Rightarrow> Some (''load manifest: '' @ e)
      | Inr None \<Rightarrow> None
      | Inr (Some manifest) \<Rightarrow>
          if BM_MisterCoreSHA256 manifest = [] then None
          else
            (case HashFile env binaryPath of
               Inl e \<Rightarrow> Some (''hash mister-core: '' @ e)
             | Inr diskHash \<Rightarrow>
                 if diskHash \<noteq> BM_MisterCoreSHA256 manifest then
                   Some (''mister-core binary integrity mismatch (manifest: ''
                         @ truncateHash (BM_MisterCoreSHA256 manifest) @ '', disk: '' @ truncateHash diskHash @ '')'')
                 else None))"

text \<open>The process-wide cache: \<open>None\<close> before the check ran, afterwards its result.\<close>

type_synonym integrity_cache = "string option option"

definition verifyMisterCoreOnce :: "CoreEnv \<Rightarrow> string \<Rightarrow> integrity_cache \<Rightarrow> string option \<times> integrity_cache" where
  "verifyMisterCoreOnce env binaryPath cache =
     (case cache of
        Some err \<Rightarrow> (err, cache)
      | None \<Rightarrow> (let err = check_integrity env binaryPath in (err, Some err)))"

definition core_Evaluate ::
  "CoreEnv \<Rightarrow> Request \<Rightarrow> integrity_cache \<Rightarrow> (decode_error + Response) \<times> integrity_cache" where
  "core_Evaluate env req cache =
     (case CE_LookPath env of
        None \<Rightarrow> (Inr (localEvaluate req), cache)
      | Some path \<Rightarrow>
          (case verifyMisterCoreOnce env path cache of
             (Some err, cache') \<Rightarrow>
               (Inr (respond VerdictDeny
                 (''sir: mister-core binary integrity check failed: '' @ err @ '' '' @ em_dash @ '' run ''
                  @ [CHR 0x27] @ ''sir verify'' @ [CHR 0x27]
                  @ '' or reinstall sir to refresh ~/.sir/binary-manifest.json'')), cache')
           | (None, cache') \<Rightarrow>
               (case CE_Run env path (encodeMSTR1 req) of
                  None \<Rightarrow>
                    (Inr (respond VerdictDeny
                      (''sir: security engine unavailable '' @ em_dash
                       @ '' blocking for safety. Run `sir doctor` to investigate.'')), cache')
                | Some stdout \<Rightarrow> (decodeMSTR1Response stdout, cache'))))"

end
