(* ===== verification/Core_Bridge.thy ===== *)
theory Core_Bridge
  imports Core_Wire
begin

text \<open>
  Properties of the bridge to the engine: frames are read back exactly, a request loses
  no fact on the wire, and an engine that is missing its integrity, crashes or answers
  garbage never allows anything.
\<close>

subsection \<open>Frames\<close>

lemma header_simps:
  "length (encodeFrame p) = 9 + length p" "take 4 (encodeFrame p @ x) = protocolMagic"
  "(encodeFrame p @ x) ! 4 = protocolVersion" "take 4 (drop 5 (encodeFrame p @ x)) = put_uint32 (length p)"
  "drop 9 (encodeFrame p @ x) = p @ x"
  by (simp_all add: encodeFrame_def protocolMagic_def nth_append)

lemma uint32_value: "be_value (put_uint32 n) = n mod 2 ^ 32"
  by (simp add: put_uint32_def be_value_be_bytes)

lemma be_value_inj: "length xs = length ys \<Longrightarrow> be_value xs = be_value ys \<Longrightarrow> xs = ys"
proof (induction xs ys rule: list_induct2)
  case (Cons c cs d ds)
  let ?k = "256 ^ length cs :: nat"
  have eq: "of_char c * ?k + be_value cs = of_char d * ?k + be_value ds"
    using Cons.prems Cons.hyps by (simp add: be_value_Cons)
  have bounds: "be_value cs < ?k" "be_value ds < ?k"
    using be_value_bound [of cs] be_value_bound [of ds] Cons.hyps by simp_all
  have "(of_char c * ?k + be_value cs) div ?k = (of_char d * ?k + be_value ds) div ?k" by (simp only: eq)
  then have "(of_char c :: nat) = of_char d" using bounds by simp
  with eq Cons.IH show ?case by simp
qed simp

lemma be_bytes_value: "be_bytes (length bs) (be_value bs) = bs"
  using be_value_bound [of bs] by (intro be_value_inj) (simp_all add: be_value_be_bytes)

lemma max_lt_32: "n \<le> maxFrameBytes \<Longrightarrow> n mod 2 ^ 32 = n"
  by (simp add: maxFrameBytes_def)

lemma uint32_small: "n \<le> maxFrameBytes \<Longrightarrow> be_value (put_uint32 n) = n"
  unfolding uint32_value by (rule max_lt_32)

text \<open>C30: frames are read back exactly. Decoding succeeds with a payload if and only if the
  bytes are the frame of that payload, possibly with bytes after it, and the payload
  keeps the size limit; in particular every payload within the limit survives encoding
  and decoding, and no decoded payload exceeds it.\<close>

theorem frame_roundtrip:
  "decodeFrame data = Inr payload \<longleftrightarrow>
     length payload \<le> maxFrameBytes \<and> (\<exists>extra. data = encodeFrame payload @ extra)"
proof
  assume "length payload \<le> maxFrameBytes \<and> (\<exists>extra. data = encodeFrame payload @ extra)"
  then show "decodeFrame data = Inr payload"
    unfolding decodeFrame_def
    by (elim conjE exE, simp add: header_simps uint32_small Let_def del: take_append drop_append, simp)
next
  assume dec: "decodeFrame data = Inr payload"
  let ?len = "be_value (take 4 (drop 5 data))"
  have h: "\<not> length data < 9" "take 4 data = protocolMagic" "data ! 4 = protocolVersion"
    "?len \<le> maxFrameBytes" "?len \<le> length data - 9" "payload = take ?len (drop 9 data)"
    using dec by (auto simp: decodeFrame_def Let_def split: if_splits)
  then have len: "length payload = ?len" by simp
  have "length (take 4 (drop 5 data)) = 4" using h(1) by simp
  then have "put_uint32 ?len = take 4 (drop 5 data)"
    using be_bytes_value [of "take 4 (drop 5 data)"] max_lt_32 [OF h(4)] by (simp add: put_uint32_def)
  moreover have "data = take 4 data @ [data ! 4] @ take 4 (drop 5 data) @ drop 9 data"
  proof -
    have "drop 4 data = data ! 4 # drop 5 data" using h(1) Cons_nth_drop_Suc [of 4 data] by simp
    moreover have "drop 5 data = take 4 (drop 5 data) @ drop 9 data"
      using append_take_drop_id [of 4 "drop 5 data"] by simp
    ultimately show ?thesis by (metis append_Cons append_Nil append_take_drop_id)
  qed
  moreover have "drop 9 data = payload @ drop ?len (drop 9 data)" unfolding h(6) by (rule append_take_drop_id [symmetric])
  ultimately have "data = encodeFrame payload @ drop ?len (drop 9 data)"
    unfolding encodeFrame_def len h(2,3) by (metis append_assoc)
  then show "length payload \<le> maxFrameBytes \<and> (\<exists>extra. data = encodeFrame payload @ extra)"
    using len h(4) by auto
qed

subsection \<open>Requests on the wire\<close>

lemma digit_char_digit: "digit (digit_char n)" "digit_char n = CHR ''0'' \<longleftrightarrow> n mod 10 = 0"
proof -
  have zero: "digit_char 0 = CHR ''0''" by code_simp
  have "n mod 10 < 10" by simp
  then have "(of_char (digit_char n) :: nat) = 48 + n mod 10"
    unfolding digit_char_def by (simp only: of_char_of) simp
  then show "digit (digit_char n)" "digit_char n = CHR ''0'' \<longleftrightarrow> n mod 10 = 0"
    using \<open>n mod 10 < 10\<close> digit_char_inj [of n 0] zero by (simp_all add: digit_def byte_in_def)
qed

lemma nat_to_string_digits: "list_all digit (nat_to_string n) \<and> nat_to_string n \<noteq> []"
proof (induction n rule: nat_to_string.induct)
  case (1 n)
  then show ?case
    by (cases "n < 10") (simp_all add: nat_to_string.simps [of n] digit_char_digit)
qed

lemma nat_to_string_hd: "0 < n \<Longrightarrow> hd (nat_to_string n) \<noteq> CHR ''0''"
proof (induction n rule: nat_to_string.induct)
  case (1 n)
  then show ?case
    using nat_to_string_digits [of "n div 10"]
    by (cases "n < 10") (simp_all add: nat_to_string.simps [of n] digit_char_digit)
qed

lemma nat_to_string_number: "number_text (nat_to_string n)"
proof (cases "n = 0")
  case True
  have "nat_to_string 0 = ''0''" by code_simp
  then show ?thesis by (simp add: True number_text_def)
next
  case False
  then show ?thesis using nat_to_string_digits [of n] nat_to_string_hd [of n] by (simp add: number_text_def)
qed

lemma digits_value_nat_to_string: "digits_value (nat_to_string n) = n"
proof (induction n rule: nat_to_string.induct)
  case (1 n)
  have "n mod 10 < 10" by simp
  then have d: "(of_char (digit_char n) :: nat) = 48 + n mod 10"
    unfolding digit_char_def by (simp only: of_char_of) simp
  show ?case
    using 1 by (cases "n < 10") (simp_all add: nat_to_string.simps [of n] digits_value_def d)
qed

lemma nat_to_string_inj: "nat_to_string m = nat_to_string n \<Longrightarrow> m = n"
  by (metis digits_value_nat_to_string)

lemma print_cancel:
  assumes "json_print v @ s = json_print w @ t"
    and "printable v" "depth v \<le> max_depth" "delimiter s" "printable w" "depth w \<le> max_depth" "delimiter t"
  shows "v = w \<and> s = t"
proof -
  define n where "n = Suc (length (json_print v) + length (json_print w))"
  have len: "length (json_print v) < n" "length (json_print w) < n" by (simp_all add: n_def)
  have v: "parse_value n 0 (json_print v @ s) = Some (v, s)"
    by (rule reads_backD [OF print_reads_back [OF assms(2)] _ len(1) assms(4)]) (simp add: assms(3))
  have w: "parse_value n 0 (json_print w @ t) = Some (w, t)"
    by (rule reads_backD [OF print_reads_back [OF assms(5)] _ len(2) assms(7)]) (simp add: assms(6))
  from v w show ?thesis unfolding assms(1) by simp
qed

lemma depth_array: "(\<And>v. v \<in> set vs \<Longrightarrow> depth v \<le> k) \<Longrightarrow> depth (JArray vs) \<le> Suc k"
  by (induction vs) auto

definition label_texts :: "Label \<Rightarrow> string list" where
  "label_texts l = [Lb_Sensitivity l, Lb_Trust l, Lb_Provenance l]"

definition verdict_texts :: "PolicyVerdict \<Rightarrow> string list" where
  "verdict_texts v = [PV_Provider v, PV_Verdict v, PV_Reason v] @ PV_RulesMatched v"

text \<open>Every text that a request puts on the wire.\<close>

definition wire_texts :: "Request \<Rightarrow> string list" where
  "wire_texts req =
     [I_Verb (Req_Intent req), I_Target (Req_Intent req), Req_ToolName req, SI_ApprovalScope (Req_Session req)]
     @ concat (map label_texts (effective_labels req)) @ concat (map verdict_texts (Req_PolicyVerdicts req))"

lemma utf8_keys:
  "utf8_ValidString ''sensitivity''" "utf8_ValidString ''trust''" "utf8_ValidString ''provenance''"
  "utf8_ValidString ''provider''" "utf8_ValidString ''verdict''" "utf8_ValidString ''rules_matched''"
  "utf8_ValidString ''reason''" "utf8_ValidString ''is_advisory''" "utf8_ValidString ''verb''"
  "utf8_ValidString ''target''" "utf8_ValidString ''tool_name''" "utf8_ValidString ''labels''"
  "utf8_ValidString ''derived_labels''" "utf8_ValidString ''session_secret''"
  "utf8_ValidString ''session_was_secret''" "utf8_ValidString ''session_untrusted_read''"
  "utf8_ValidString ''session_untrusted_this_turn''" "utf8_ValidString ''is_posture_file''"
  "utf8_ValidString ''is_sensitive_path''" "utf8_ValidString ''is_delegation''"
  "utf8_ValidString ''is_tripwire''" "utf8_ValidString ''policy_verdicts''"
  "utf8_ValidString ''secret_session''" "utf8_ValidString ''recently_read_untrusted''"
  "utf8_ValidString ''deny_all''" "utf8_ValidString ''approval_scope''" "utf8_ValidString ''turn_counter''"
  by code_simp+

lemma label_printable: "list_all utf8_ValidString (label_texts l) \<Longrightarrow> printable (json_label l) \<and> depth (json_label l) \<le> 1"
  by (simp add: label_texts_def json_label_def utf8_keys)

lemma verdict_printable:
  assumes "list_all utf8_ValidString (verdict_texts v)"
  shows "printable (json_policy_verdict v) \<and> depth (json_policy_verdict v) \<le> 2"
proof -
  have "depth (JArray (map JString xs)) \<le> Suc 0" for xs by (intro depth_array) auto
  with assms show ?thesis
    by (auto simp: verdict_texts_def json_policy_verdict_def utf8_keys list_all_iff simp del: depth.simps(1))
qed

definition utf8_request :: "Request \<Rightarrow> bool" where
  "utf8_request req \<longleftrightarrow> list_all utf8_ValidString (wire_texts req)"

lemma request_printable:
  assumes "utf8_request req"
  shows "printable (json_wire_request (buildWireEvalRequest req))"
    and "depth (json_wire_request (buildWireEvalRequest req)) \<le> max_depth"
proof -
  let ?i = "Req_Intent req"
  have labels: "list_all utf8_ValidString (label_texts l)" if "l \<in> set (I_Labels ?i) \<union> set (I_DerivedLabels ?i)" for l
    using assms that by (auto simp: utf8_request_def wire_texts_def effective_labels_def list_all_iff)
  have verdicts: "list_all utf8_ValidString (verdict_texts v)" if "v \<in> set (Req_PolicyVerdicts req)" for v
    using assms that by (auto simp: utf8_request_def wire_texts_def list_all_iff)
  have heads: "utf8_ValidString (I_Verb ?i)" "utf8_ValidString (I_Target ?i)" "utf8_ValidString (Req_ToolName req)"
    using assms by (simp_all add: utf8_request_def wire_texts_def)
  show "printable (json_wire_request (buildWireEvalRequest req))"
    using heads labels [THEN label_printable] verdicts [THEN verdict_printable]
    by (simp add: json_wire_request_def buildWireEvalRequest_def Let_def utf8_keys)
  have "depth (JArray (map json_label (I_Labels ?i))) \<le> 2" "depth (JArray (map json_label (I_DerivedLabels ?i))) \<le> 2"
    "depth (JArray (map json_policy_verdict (Req_PolicyVerdicts req))) \<le> 3"
    using labels [THEN label_printable] verdicts [THEN verdict_printable]
    by (auto intro!: depth_array [of _ 1, simplified] depth_array [of _ 2, simplified])
  then have "depth (json_wire_request (buildWireEvalRequest req)) \<le> 4"
    by (simp add: json_wire_request_def buildWireEvalRequest_def Let_def del: depth.simps(1))
  then show "depth (json_wire_request (buildWireEvalRequest req)) \<le> max_depth" by (simp add: max_depth_def)
qed

lemma session_printable:
  assumes "utf8_request req"
  shows "printable (json_wire_session (buildWireSessionPayload req))"
    and "depth (json_wire_session (buildWireSessionPayload req)) \<le> max_depth"
  using assms
  by (simp_all add: utf8_request_def wire_texts_def json_wire_session_def buildWireSessionPayload_def Let_def
      utf8_keys nat_to_string_number max_depth_def)

lemma json_label_inj: "json_label l = json_label l' \<Longrightarrow> l = l'"
  by (cases l; cases l') (simp add: json_label_def)

lemma json_policy_verdict_inj: "json_policy_verdict v = json_policy_verdict w \<Longrightarrow> v = w"
  by (cases v; cases w) (auto simp: json_policy_verdict_def inj_on_def inj_map_eq_map split: if_splits)

lemma map_json_inj:
  "map json_label xs = map json_label ys \<longleftrightarrow> xs = ys"
  "map json_policy_verdict vs = map json_policy_verdict ws \<longleftrightarrow> vs = ws"
  by (rule inj_map_eq_map, rule injI, erule json_label_inj)
     (rule inj_map_eq_map, rule injI, erule json_policy_verdict_inj)

lemma json_wire_request_inj: "json_wire_request r = json_wire_request r' \<Longrightarrow> r = r'"
  by (cases r; cases r') (simp add: json_wire_request_def map_json_inj)

lemma json_wire_session_inj: "json_wire_session x = json_wire_session x' \<Longrightarrow> x = x'"
  by (cases x; cases x') (auto simp: json_wire_session_def dest: nat_to_string_inj)

text \<open>No fact is lost on the wire. If two requests with valid UTF-8 texts have the same
  frame, they agree on everything the engine decides on: verb, target, tool, all labels,
  all provider verdicts, all flags of the intent and of the session, and the turn counter
  as a 64-bit number; whatever lease they carry.\<close>

theorem wire_request_faithful:
  assumes "encodeMSTR1 req = encodeMSTR1 req'" and "utf8_request req" and "utf8_request req'"
  shows "buildWireEvalRequest req = buildWireEvalRequest req'
    \<and> buildWireSessionPayload req = buildWireSessionPayload req'"
proof -
  define rest where "rest r = (if WE_Lease (buildWireRequestEnvelope r) = [] then []
     else '','' @ print_string ''lease'' @ '':'' @ json_compact False (WE_Lease (buildWireRequestEnvelope r))) @ ''}''" for r
  define tail where "tail r = '','' @ print_string ''session'' @ '':''
     @ json_print (json_wire_session (buildWireSessionPayload r)) @ rest r" for r
  have shape: "encodeMSTR1 r = encodeFrame (''{'' @ print_string ''request'' @ '':''
      @ json_print (json_wire_request (buildWireEvalRequest r)) @ tail r)" for r
    by (simp add: encodeMSTR1_def marshal_envelope_def tail_def rest_def buildWireRequestEnvelope_def)
  have payload: "p = q" if "encodeFrame p = encodeFrame q" for p q
    using that header_simps(5) [of p "[]"] header_simps(5) [of q "[]"] by simp
  have delim: "delimiter (tail r)" "delimiter (rest r)" for r by (simp_all add: tail_def rest_def)
  have "json_print (json_wire_request (buildWireEvalRequest req)) @ tail req =
      json_print (json_wire_request (buildWireEvalRequest req')) @ tail req'"
    using payload [OF assms(1) [unfolded shape]] by simp
  then have step: "json_wire_request (buildWireEvalRequest req) = json_wire_request (buildWireEvalRequest req')
      \<and> tail req = tail req'"
    by (rule print_cancel) (use assms(2,3) delim request_printable in auto)
  then have "json_print (json_wire_session (buildWireSessionPayload req)) @ rest req =
      json_print (json_wire_session (buildWireSessionPayload req')) @ rest req'"
    by (simp add: tail_def)
  then have "json_wire_session (buildWireSessionPayload req) = json_wire_session (buildWireSessionPayload req')
      \<and> rest req = rest req'"
    by (rule print_cancel) (use assms(2,3) delim session_printable in auto)
  with step show ?thesis using json_wire_request_inj json_wire_session_inj by blast
qed

theorem wire_request_faithful_witness:
  "buildWireEvalRequest (demo_request VerbNetExternal []) = buildWireEvalRequest (demo_request VerbNetExternal '' '')
   \<and> buildWireSessionPayload (demo_request VerbNetExternal []) = buildWireSessionPayload (demo_request VerbNetExternal '' '')"
proof -
  have "utf8_request (demo_request VerbNetExternal [])" "utf8_request (demo_request VerbNetExternal '' '')"
    by code_simp+
  moreover have "\<not> json_Valid '' ''" by code_simp
  then have "encodeMSTR1 (demo_request VerbNetExternal []) = encodeMSTR1 (demo_request VerbNetExternal '' '')"
    by (simp add: encodeMSTR1_def buildWireRequestEnvelope_def buildWireEvalRequest_def buildWireSessionPayload_def
        demo_request_def)
  ultimately show ?thesis by (intro wire_request_faithful)
qed

subsection \<open>Asking the engine\<close>

text \<open>When the integrity check passes: no manifest was ever installed, it names no engine
  hash, or the hash is that of the binary on disk.\<close>

definition engine_trusted :: "CoreEnv \<Rightarrow> string \<Rightarrow> bool" where
  "engine_trusted env path \<longleftrightarrow>
     LoadManifest env = Inr None
     \<or> (\<exists>m. LoadManifest env = Inr (Some m) \<and>
           (BM_MisterCoreSHA256 m = []
            \<or> (\<exists>data. CE_ReadFile env path = Contents data
                \<and> BM_MisterCoreSHA256 m = hex_EncodeToString (sha256_Sum256 data))))"

lemma check_integrity_iff: "check_integrity env path = None \<longleftrightarrow> engine_trusted env path"
  by (auto simp: check_integrity_def engine_trusted_def HashFile_def Let_def
      split: sum.split option.split file_read.split)

definition denied :: "decode_error + Response \<Rightarrow> bool" where
  "denied r \<longleftrightarrow> (case r of Inl _ \<Rightarrow> False | Inr resp \<Rightarrow> Resp_Decision resp = VerdictDeny)"

text \<open>The calls of one process, in order, each in its own environment.\<close>

fun evaluate_all :: "(CoreEnv \<times> Request) list \<Rightarrow> integrity_cache \<Rightarrow> (decode_error + Response) list" where
  "evaluate_all [] cache = []"
| "evaluate_all ((env, req) # calls) cache =
     (case core_Evaluate env req cache of (r, cache') \<Rightarrow> r # evaluate_all calls cache')"

lemma failed_cache:
  "CE_LookPath env \<noteq> None \<Longrightarrow> denied (fst (core_Evaluate env req (Some (Some err))))"
  "snd (core_Evaluate env req (Some c)) = Some c"
  by (auto simp: core_Evaluate_def verifyMisterCoreOnce_def denied_def split: option.split)

lemma failed_cache_all:
  "list_all2 (\<lambda>call r. CE_LookPath (fst call) = None \<or> denied r) calls (evaluate_all calls (Some (Some err)))"
proof (induction calls)
  case (Cons call calls)
  obtain env req where call: "call = (env, req)" by (cases call)
  obtain r where r: "core_Evaluate env req (Some (Some err)) = (r, Some (Some err))"
    using failed_cache(2) [of env req "Some err"] by (cases "core_Evaluate env req (Some (Some err))") simp
  have "CE_LookPath env = None \<or> denied r"
    using failed_cache(1) [of env req err] r by (cases "CE_LookPath env") simp_all
  with Cons.IH show ?case by (simp add: call r)
qed simp

text \<open>C29: an engine that fails its integrity check is never asked again. If the first call
  of a process finds an engine whose manifest is missing although one was installed,
  cannot be read or parsed, or names another hash than the binary has, then that call and
  every later call of the process that finds an engine is denied, even if the files are
  changed back in between.\<close>

theorem tampered_engine_denied:
  assumes "CE_LookPath env = Some path" and "\<not> engine_trusted env path"
  shows "list_all2 (\<lambda>call r. CE_LookPath (fst call) = None \<or> denied r)
    ((env, req) # calls) (evaluate_all ((env, req) # calls) None)"
proof -
  obtain err where err: "check_integrity env path = Some err"
    using assms(2) check_integrity_iff [of env path] by auto
  then have "verifyMisterCoreOnce env path None = verifyMisterCoreOnce env path (Some (Some err))"
    by (simp add: verifyMisterCoreOnce_def Let_def)
  then have "core_Evaluate env req None = core_Evaluate env req (Some (Some err))"
    by (simp only: core_Evaluate_def assms(1) option.case)
  then show ?thesis using failed_cache_all [of "(env, req) # calls" err] by simp
qed

text \<open>A machine on which an engine is found and the installed manifest was deleted.\<close>

definition deleted_manifest :: CoreEnv where
  "deleted_manifest =
     \<lparr>CE_Home = Inr ''/home/dev'', CE_ReadFile = (\<lambda>p. Missing ''no such file''), CE_Exists = (\<lambda>p. True),
      CE_LookPath = Some ''/usr/local/bin/mister-core'', CE_Run = (\<lambda>p i. Some i), CE_JsonError = (\<lambda>d. [])\<rparr>"

theorem tampered_engine_denied_witness:
  "list_all2 (\<lambda>call r. CE_LookPath (fst call) = None \<or> denied r)
     [(deleted_manifest, demo_request VerbReadRef []), (deleted_manifest, demo_request VerbReadRef [])]
     (evaluate_all
        [(deleted_manifest, demo_request VerbReadRef []), (deleted_manifest, demo_request VerbReadRef [])] None)"
  by (rule tampered_engine_denied)
     (simp_all add: deleted_manifest_def engine_trusted_def LoadManifest_def ManifestPath_def
       checkManifestSentinel_def ManifestSentinelPath_def)

text \<open>When an engine is installed, only the engine can allow. A call that finds an engine
  yields a denial, an error, or exactly what the engine answered to the encoded request
  after its binary passed the check; it never falls back to the local rules.\<close>

theorem only_engine_allows:
  assumes "CE_LookPath env = Some path"
  shows "denied (fst (core_Evaluate env req cache))
    \<or> (\<exists>stdout. CE_Run env path (encodeMSTR1 req) = Some stdout
         \<and> fst (verifyMisterCoreOnce env path cache) = None
         \<and> fst (core_Evaluate env req cache) = decodeMSTR1Response stdout)"
  unfolding core_Evaluate_def assms option.case
  by (cases "verifyMisterCoreOnce env path cache"; cases "fst (verifyMisterCoreOnce env path cache)";
      cases "CE_Run env path (encodeMSTR1 req)")
     (simp_all add: denied_def)

theorem only_engine_allows_witness:
  "denied (fst (core_Evaluate deleted_manifest (demo_request VerbReadRef []) None))
   \<or> (\<exists>stdout. CE_Run deleted_manifest ''/usr/local/bin/mister-core'' (encodeMSTR1 (demo_request VerbReadRef [])) = Some stdout
        \<and> fst (verifyMisterCoreOnce deleted_manifest ''/usr/local/bin/mister-core'' None) = None
        \<and> fst (core_Evaluate deleted_manifest (demo_request VerbReadRef []) None) = decodeMSTR1Response stdout)"
  by (rule only_engine_allows) (simp add: deleted_manifest_def)

end
