(* ===== verification/Lease.thy ===== *)
theory Lease
  imports Policy_Surface Go_Json_Text "HOL-Library.AList"
begin

text \<open>
  Package \<open>pkg/lease\<close>: the authority granted to the agent, its default, the operations on
  it, and the named profiles of \<open>cmd/sir/policy.go\<close>. Go maps are association lists; an
  absent map is the empty one, which every reader treats alike. Methods that compare with
  the clock take it as an argument. \<open>json_lease\<close> is what \<open>json.Marshal\<close> makes of a lease; the
  layout of timestamps, which depends on the local zone, is an argument.
\<close>

subsection \<open>The lease\<close>

record Resource =
  Rs_Pattern :: string
  Rs_Permissions :: "string list"
  Rs_ResourceKind :: string

record Sink =
  Sk_Pattern :: string
  Sk_Trust :: string
  Sk_MinRisk :: string

record MCPDiscoveredServer =
  Ds_Name :: string
  Ds_SourcePath :: string
  Ds_Command :: string

record MCPApproval =
  Ma_ApprovedAt :: Time
  Ma_SourcePath :: string
  Ma_Command :: string
  Ma_CommandHash :: string
  Ma_CommandModTime :: Time
  Ma_ToolSchemaHash :: string
  Ma_ToolSchemaCapturedAt :: Time
  Ma_ToolNames :: "string list"

record MCPCapabilityScope =
  Cs_Server :: string
  Cs_Tools :: "string list"
  Cs_Roots :: "string list"
  Cs_AllowShell :: bool
  Cs_AllowNetwork :: bool
  Cs_AllowWrite :: bool

record Lease =
  Ls_LeaseID :: string
  Ls_Issuer :: string
  Ls_Principal :: string
  Ls_Mission :: string
  Ls_Mode :: string
  Ls_CompilerCeiling :: string
  Ls_Resources :: "Resource list"
  Ls_SensitivePaths :: "string list"
  Ls_SensitivePathExclusions :: "string list"
  Ls_PostureFiles :: "string list"
  Ls_SentinelFilesForInstall :: "string list"
  Ls_AllowedVerbs :: "Verb list"
  Ls_ForbiddenVerbs :: "Verb list"
  Ls_AskVerbs :: "Verb list"
  Ls_ApprovedRemotes :: "string list"
  Ls_ApprovedHosts :: "string list"
  Ls_ApprovedMCPServers :: "string list"
  Ls_TrustedMCPServers :: "string list"
  Ls_DiscoveredMCPServers :: "MCPDiscoveredServer list"
  Ls_MCPApprovals :: "(string \<times> MCPApproval) list"
  Ls_ApprovedHostExpires :: "(string \<times> Time) list"
  Ls_MCPCapabilityScopes :: "MCPCapabilityScope list"
  Ls_Sinks :: "Sink list"
  Ls_ApprovalRisk :: string
  Ls_AllowDelegation :: bool
  Ls_ObserveOnly :: bool
  Ls_AutoLeaseApprovedHosts :: bool
  Ls_DenyRawSecretReads :: bool
  Ls_AutoLeaseApprovedRemotes :: bool
  Ls_ReuseSessionApprovals :: bool
  Ls_NarrowEnvReads :: bool
  Ls_SilentApprovedHosts :: bool
  Ls_QuietMCPFriction :: bool

definition DefaultLease :: Lease where
  "DefaultLease =
     \<lparr>Ls_LeaseID = ''default'', Ls_Issuer = ''sir'', Ls_Principal = ''user'',
      Ls_Mission = ''coding task with secret access control and posture protection'',
      Ls_Mode = ''guard'', Ls_CompilerCeiling = ''R3'',
      Ls_Resources =
        [\<lparr>Rs_Pattern = ''file://**'', Rs_Permissions = [''read'', ''write''], Rs_ResourceKind = ''file''\<rparr>,
         \<lparr>Rs_Pattern = ''shell://workspace'', Rs_Permissions = [''execute''], Rs_ResourceKind = ''command''\<rparr>,
         \<lparr>Rs_Pattern = ''shell://tests'', Rs_Permissions = [''execute''], Rs_ResourceKind = ''command''\<rparr>],
      Ls_SensitivePaths =
         [''.env'', ''.env.local'', ''.env.production'', ''.env.development'', ''*.pem'',
          ''*.key'', ''.aws/*'', ''.ssh/*'', ''.netrc'', ''.npmrc'', ''credentials.json'',
          ''secrets.*'', ''.docker/config.json'', ''.kube/config'', ''.git-credentials'',
          ''.pypirc'', ''.terraform/credentials.tfrc.json'', ''.gradle/gradle.properties'',
          ''.config/gh/hosts.yml''],
      Ls_SensitivePathExclusions =
         [''.env.example'', ''.env.sample'', ''.env.template'', ''testdata/**'',
          ''fixtures/**'', ''test/**/*.pem'', ''test/**/*.key''],
      Ls_PostureFiles =
         [''.claude/settings.json'', ''CLAUDE.md'', ''.mcp.json'', ''.gemini/settings.json'',
          ''GEMINI.md'', ''AGENTS.md'', ''.codex/config.toml'', ''.codex/hooks.json'',
          ''.cursor/hooks.json'', ''.cursor/mcp.json'', ''./.cursor/hooks.json'',
          ''./.cursor/mcp.json'', ''.git/hooks/*''],
      Ls_SentinelFilesForInstall =
         [''.claude/settings.json'', ''CLAUDE.md'', ''.env'', ''.mcp.json'',
          ''.gemini/settings.json'', ''GEMINI.md'', ''AGENTS.md'', ''.codex/config.toml'',
          ''.codex/hooks.json'', ''.cursor/hooks.json'', ''.cursor/mcp.json'',
          ''./.cursor/hooks.json'', ''./.cursor/mcp.json''],
      Ls_AllowedVerbs =
         [VerbReadRef, VerbStageWrite, VerbExecuteDryRun, VerbRunTests, VerbListFiles,
          VerbSearchCode, VerbCommit, VerbNetLocal, VerbPushOrigin, VerbDelegate],
      Ls_ForbiddenVerbs = [],
      Ls_AskVerbs =
         [VerbPushRemote, VerbNetAllowlisted, VerbRunEphemeral, VerbDangerousShell,
          VerbMcpUnapproved],
      Ls_ApprovedRemotes = [''origin''],
      Ls_ApprovedHosts = [''localhost'', ''127.0.0.1'', ''::1'', ''host.docker.internal''],
      Ls_ApprovedMCPServers = [], Ls_TrustedMCPServers = [], Ls_DiscoveredMCPServers = [],
      Ls_MCPApprovals = [], Ls_ApprovedHostExpires = [], Ls_MCPCapabilityScopes = [],
      Ls_Sinks =
        [\<lparr>Sk_Pattern = ''file://**'', Sk_Trust = ''trusted'', Sk_MinRisk = ''R0''\<rparr>,
         \<lparr>Sk_Pattern = ''shell://workspace'', Sk_Trust = ''trusted'', Sk_MinRisk = ''R0''\<rparr>,
         \<lparr>Sk_Pattern = ''git-commit'', Sk_Trust = ''trusted'', Sk_MinRisk = ''R0''\<rparr>,
         \<lparr>Sk_Pattern = ''git-push-approved'', Sk_Trust = ''verified_internal'', Sk_MinRisk = ''R2''\<rparr>,
         \<lparr>Sk_Pattern = ''git-push-unapproved'', Sk_Trust = ''untrusted'', Sk_MinRisk = ''R4''\<rparr>,
         \<lparr>Sk_Pattern = ''net://approved'', Sk_Trust = ''verified_internal'', Sk_MinRisk = ''R1''\<rparr>,
         \<lparr>Sk_Pattern = ''net://loopback'', Sk_Trust = ''verified_internal'', Sk_MinRisk = ''R0''\<rparr>,
         \<lparr>Sk_Pattern = ''net://external'', Sk_Trust = ''untrusted'', Sk_MinRisk = ''R4''\<rparr>,
         \<lparr>Sk_Pattern = ''*'', Sk_Trust = ''untrusted'', Sk_MinRisk = ''R4''\<rparr>],
      Ls_ApprovalRisk = ''R3'', Ls_AllowDelegation = True, Ls_ObserveOnly = False,
      Ls_AutoLeaseApprovedHosts = True, Ls_DenyRawSecretReads = False,
      Ls_AutoLeaseApprovedRemotes = True, Ls_ReuseSessionApprovals = True, Ls_NarrowEnvReads = True,
      Ls_SilentApprovedHosts = True, Ls_QuietMCPFriction = True\<rparr>"

subsection \<open>Operations\<close>

definition IsVerbAllowed :: "Lease \<Rightarrow> Verb \<Rightarrow> bool" where
  "IsVerbAllowed l verb = slice_contains (Ls_AllowedVerbs l) verb"

definition IsVerbForbidden :: "Lease \<Rightarrow> Verb \<Rightarrow> bool" where
  "IsVerbForbidden l verb = slice_contains (Ls_ForbiddenVerbs l) verb"

definition IsVerbAsk :: "Lease \<Rightarrow> Verb \<Rightarrow> bool" where
  "IsVerbAsk l verb = slice_contains (Ls_AskVerbs l) verb"

definition IsTrustedMCPServer :: "Lease \<Rightarrow> string \<Rightarrow> bool" where
  "IsTrustedMCPServer l serverName = slice_contains (Ls_TrustedMCPServers l) serverName"

definition normal_host :: "string \<Rightarrow> string" where
  "normal_host h = strings_TrimSpace (strings_ToLower h)"

fun approved_loop :: "Time \<Rightarrow> (string \<times> Time) list \<Rightarrow> string \<Rightarrow> string list \<Rightarrow> bool" where
  "approved_loop now expires host [] = False"
| "approved_loop now expires host (a # as) =
    (let approved = normal_host a in
     if approved = [] \<or> approved \<noteq> host then approved_loop now expires host as
     else case map_of expires approved of
        None \<Rightarrow> True
      | Some expiresAt \<Rightarrow>
          if Time_IsZero expiresAt \<or> now < expiresAt then True else approved_loop now expires host as)"

definition IsApprovedHost :: "Time \<Rightarrow> Lease \<Rightarrow> string \<Rightarrow> bool" where
  "IsApprovedHost now l h =
    (let host = normal_host h in
     if host = [] then False else approved_loop now (Ls_ApprovedHostExpires l) host (Ls_ApprovedHosts l))"

definition ActiveApprovedHosts :: "Time \<Rightarrow> Lease \<Rightarrow> string list" where
  "ActiveApprovedHosts now l = filter (IsApprovedHost now l) (Ls_ApprovedHosts l)"

definition FindDiscoveredMCPServer :: "Lease \<Rightarrow> string \<Rightarrow> MCPDiscoveredServer option" where
  "FindDiscoveredMCPServer l name = find (\<lambda>s. Ds_Name s = name) (Ls_DiscoveredMCPServers l)"

definition RemoveDiscoveredMCPServer :: "string \<Rightarrow> Lease \<Rightarrow> Lease" where
  "RemoveDiscoveredMCPServer name l =
     l\<lparr>Ls_DiscoveredMCPServers := filter (\<lambda>s. Ds_Name s \<noteq> name) (Ls_DiscoveredMCPServers l)\<rparr>"

definition RemoveApprovedMCPServer :: "string \<Rightarrow> Lease \<Rightarrow> Lease" where
  "RemoveApprovedMCPServer name l =
     l\<lparr>Ls_ApprovedMCPServers := filter (\<lambda>s. s \<noteq> name) (Ls_ApprovedMCPServers l),
       Ls_MCPApprovals := AList.delete name (Ls_MCPApprovals l)\<rparr>"

definition FindMCPCapabilityScope :: "Lease \<Rightarrow> string \<Rightarrow> MCPCapabilityScope option" where
  "FindMCPCapabilityScope l server = find (\<lambda>s. Cs_Server s = server) (Ls_MCPCapabilityScopes l)"

fun upsert_scope :: "MCPCapabilityScope \<Rightarrow> MCPCapabilityScope list \<Rightarrow> MCPCapabilityScope list" where
  "upsert_scope scope [] = [scope]"
| "upsert_scope scope (s # ss) =
     (if Cs_Server s = Cs_Server scope then scope # ss else s # upsert_scope scope ss)"

definition UpsertMCPCapabilityScope :: "MCPCapabilityScope \<Rightarrow> Lease \<Rightarrow> Lease" where
  "UpsertMCPCapabilityScope scope l =
     l\<lparr>Ls_MCPCapabilityScopes := upsert_scope scope (Ls_MCPCapabilityScopes l)\<rparr>"

definition RemoveMCPCapabilityScope :: "string \<Rightarrow> Lease \<Rightarrow> Lease" where
  "RemoveMCPCapabilityScope server l =
     l\<lparr>Ls_MCPCapabilityScopes := filter (\<lambda>s. Cs_Server s \<noteq> server) (Ls_MCPCapabilityScopes l)\<rparr>"

subsection \<open>Profiles (\<open>cmd/sir/policy.go\<close>)\<close>

definition appendUniqueVerb :: "Verb list \<Rightarrow> Verb \<Rightarrow> Verb list" where
  "appendUniqueVerb xs x = append_unique xs x"

definition removeVerb :: "Verb list \<Rightarrow> Verb \<Rightarrow> Verb list" where
  "removeVerb xs x = filter (\<lambda>v. v \<noteq> x) xs"

definition lockdown :: "string \<Rightarrow> Lease" where
  "lockdown mode =
    (let l = DefaultLease in
     l\<lparr>Ls_Mode := mode, Ls_ApprovedRemotes := [], Ls_ApprovedMCPServers := [],
       Ls_AllowDelegation := False, Ls_AutoLeaseApprovedHosts := False,
       Ls_AutoLeaseApprovedRemotes := False, Ls_ReuseSessionApprovals := False,
       Ls_NarrowEnvReads := False, Ls_SilentApprovedHosts := False, Ls_QuietMCPFriction := False,
       Ls_DenyRawSecretReads := True,
       Ls_ForbiddenVerbs :=
         appendUniqueVerb (appendUniqueVerb (Ls_ForbiddenVerbs l) VerbNetExternal) VerbDnsLookup,
       Ls_ApprovedHosts := [''localhost'', ''127.0.0.1'', ''::1''],
       Ls_AllowedVerbs := removeVerb (removeVerb (Ls_AllowedVerbs l) VerbPushOrigin) VerbDelegate,
       Ls_AskVerbs := appendUniqueVerb (appendUniqueVerb (Ls_AskVerbs l) VerbPushOrigin) VerbDelegate\<rparr>)"

text \<open>\<open>None\<close> is the error for an unknown profile.\<close>

definition leaseForProfile :: "string \<Rightarrow> Lease option" where
  "leaseForProfile profile =
     (if profile \<in> {''default'', ''standard'', ''personal''} then
        Some (DefaultLease\<lparr>Ls_DenyRawSecretReads := True\<rparr>)
      else if profile = ''team'' then
        Some (DefaultLease\<lparr>Ls_Mode := ''team'', Ls_DenyRawSecretReads := True, Ls_NarrowEnvReads := False\<rparr>)
      else if profile = ''strict'' then Some (lockdown ''strict'')
      else if profile = ''managed'' then Some (lockdown ''managed'')
      else None)"

subsection \<open>The lease as JSON\<close>

definition json_strings :: "string list \<Rightarrow> json" where
  "json_strings xs = JArray (map JString xs)"

definition omit_if :: "bool \<Rightarrow> string \<times> json \<Rightarrow> (string \<times> json) list" where
  "omit_if skip member = (if skip then [] else [member])"

definition json_resource :: "Resource \<Rightarrow> json" where
  "json_resource r =
     JObject [(''pattern'', JString (Rs_Pattern r)), (''permissions'', json_strings (Rs_Permissions r)),
              (''resource_kind'', JString (Rs_ResourceKind r))]"

definition json_sink :: "Sink \<Rightarrow> json" where
  "json_sink s =
     JObject [(''pattern'', JString (Sk_Pattern s)), (''trust'', JString (Sk_Trust s)),
              (''min_risk'', JString (Sk_MinRisk s))]"

definition json_discovered :: "MCPDiscoveredServer \<Rightarrow> json" where
  "json_discovered d =
     JObject ([(''name'', JString (Ds_Name d))]
       @ omit_if (Ds_SourcePath d = []) (''source_path'', JString (Ds_SourcePath d))
       @ omit_if (Ds_Command d = []) (''command'', JString (Ds_Command d)))"

definition json_approval :: "(Time \<Rightarrow> string) \<Rightarrow> MCPApproval \<Rightarrow> json" where
  "json_approval time a =
     JObject ([(''approved_at'', JString (time (Ma_ApprovedAt a)))]
       @ omit_if (Ma_SourcePath a = []) (''source_path'', JString (Ma_SourcePath a))
       @ omit_if (Ma_Command a = []) (''command'', JString (Ma_Command a))
       @ omit_if (Ma_CommandHash a = []) (''command_hash'', JString (Ma_CommandHash a))
       @ [(''command_mod_time'', JString (time (Ma_CommandModTime a)))]
       @ omit_if (Ma_ToolSchemaHash a = []) (''tool_schema_hash'', JString (Ma_ToolSchemaHash a))
       @ [(''tool_schema_captured_at'', JString (time (Ma_ToolSchemaCapturedAt a)))]
       @ omit_if (Ma_ToolNames a = []) (''tool_names'', json_strings (Ma_ToolNames a)))"

definition json_scope :: "MCPCapabilityScope \<Rightarrow> json" where
  "json_scope s =
     JObject ([(''server'', JString (Cs_Server s))]
       @ omit_if (Cs_Tools s = []) (''tools'', json_strings (Cs_Tools s))
       @ omit_if (Cs_Roots s = []) (''roots'', json_strings (Cs_Roots s))
       @ omit_if (\<not> Cs_AllowShell s) (''allow_shell'', JBool True)
       @ omit_if (\<not> Cs_AllowNetwork s) (''allow_network'', JBool True)
       @ omit_if (\<not> Cs_AllowWrite s) (''allow_write'', JBool True))"

text \<open>Maps are written with sorted keys.\<close>

definition json_map :: "('a \<Rightarrow> json) \<Rightarrow> (string \<times> 'a) list \<Rightarrow> json" where
  "json_map f m = JObject (map (\<lambda>(k, v). (k, f v)) (sort_key fst (AList.clearjunk m)))"

definition json_lease :: "(Time \<Rightarrow> string) \<Rightarrow> Lease \<Rightarrow> json" where
  "json_lease time l =
     JObject (
       [(''lease_id'', JString (Ls_LeaseID l)), (''issuer'', JString (Ls_Issuer l)),
        (''principal'', JString (Ls_Principal l)), (''mission'', JString (Ls_Mission l)),
        (''mode'', JString (Ls_Mode l)), (''compiler_ceiling'', JString (Ls_CompilerCeiling l)),
        (''resources'', JArray (map json_resource (Ls_Resources l))),
        (''sensitive_paths'', json_strings (Ls_SensitivePaths l)),
        (''sensitive_path_exclusions'', json_strings (Ls_SensitivePathExclusions l)),
        (''posture_files'', json_strings (Ls_PostureFiles l)),
        (''sentinel_files_for_installs'', json_strings (Ls_SentinelFilesForInstall l)),
        (''allowed_verbs'', json_strings (Ls_AllowedVerbs l)),
        (''forbidden_verbs'', json_strings (Ls_ForbiddenVerbs l)),
        (''ask_verbs'', json_strings (Ls_AskVerbs l)),
        (''approved_remotes'', json_strings (Ls_ApprovedRemotes l)),
        (''approved_hosts'', json_strings (Ls_ApprovedHosts l)),
        (''approved_mcp_servers'', json_strings (Ls_ApprovedMCPServers l))]
       @ omit_if (Ls_TrustedMCPServers l = []) (''trusted_mcp_servers'', json_strings (Ls_TrustedMCPServers l))
       @ omit_if (Ls_DiscoveredMCPServers l = [])
           (''discovered_mcp_servers'', JArray (map json_discovered (Ls_DiscoveredMCPServers l)))
       @ omit_if (Ls_MCPApprovals l = []) (''mcp_approvals'', json_map (json_approval time) (Ls_MCPApprovals l))
       @ omit_if (Ls_ApprovedHostExpires l = [])
           (''approved_host_expires'', json_map (\<lambda>t. JString (time t)) (Ls_ApprovedHostExpires l))
       @ omit_if (Ls_MCPCapabilityScopes l = [])
           (''mcp_capability_scopes'', JArray (map json_scope (Ls_MCPCapabilityScopes l)))
       @ [(''sinks'', JArray (map json_sink (Ls_Sinks l))),
          (''approval_risk'', JString (Ls_ApprovalRisk l)),
          (''allow_delegation'', JBool (Ls_AllowDelegation l)),
          (''observe_only'', JBool (Ls_ObserveOnly l))]
       @ omit_if (\<not> Ls_AutoLeaseApprovedHosts l) (''auto_lease_approved_hosts'', JBool True)
       @ omit_if (\<not> Ls_DenyRawSecretReads l) (''deny_raw_secret_reads'', JBool True)
       @ omit_if (\<not> Ls_AutoLeaseApprovedRemotes l) (''auto_lease_approved_remotes'', JBool True)
       @ omit_if (\<not> Ls_ReuseSessionApprovals l) (''reuse_session_approvals'', JBool True)
       @ omit_if (\<not> Ls_NarrowEnvReads l) (''narrow_env_reads'', JBool True)
       @ omit_if (\<not> Ls_SilentApprovedHosts l) (''silent_approved_hosts'', JBool True)
       @ omit_if (\<not> Ls_QuietMCPFriction l) (''quiet_mcp_friction'', JBool True))"

end
