(* ===== verification/Lease_Properties.thy ===== *)
theory Lease_Properties
  imports Lease Core_Properties Go_Json_Round
begin

text \<open>
  Properties of leases: tables keyed by server name, expiry of approved hosts, the lease
  as the local fallback reads it from its own JSON form, and the order of the profiles.
\<close>

subsection \<open>Keyed tables\<close>

text \<open>The interface of a table that holds at most one visible entry per key.\<close>

locale keyed_table =
  fixes lookup :: "'t \<Rightarrow> 'k \<Rightarrow> 'v option" and upsert :: "'v \<Rightarrow> 't \<Rightarrow> 't"
    and remove :: "'k \<Rightarrow> 't \<Rightarrow> 't" and key :: "'v \<Rightarrow> 'k"
  assumes lookup_upsert: "lookup (upsert v t) k = (if k = key v then Some v else lookup t k)"
    and lookup_remove: "lookup (remove k' t) k = (if k = k' then None else lookup t k)"
begin

text \<open>A history is a list of updates: an entry to store or a key to drop.\<close>

definition replay :: "('v + 'k) list \<Rightarrow> 't \<Rightarrow> 't" where
  "replay ops t = fold (\<lambda>op t. case op of Inl v \<Rightarrow> upsert v t | Inr k \<Rightarrow> remove k t) ops t"

lemma last_write_wins:
  "lookup (replay ops t) k =
     (case find (\<lambda>op. case op of Inl v \<Rightarrow> key v = k | Inr k' \<Rightarrow> k' = k) (rev ops) of
        None \<Rightarrow> lookup t k
      | Some (Inl v) \<Rightarrow> Some v
      | Some (Inr _) \<Rightarrow> None)"
  by (induction ops rule: rev_induct)
     (auto simp: replay_def lookup_upsert lookup_remove split: sum.split)

end

lemma find_upsert_scope:
  "find (\<lambda>s. Cs_Server s = k) (upsert_scope v ss) =
     (if k = Cs_Server v then Some v else find (\<lambda>s. Cs_Server s = k) ss)"
  by (induction ss) auto

lemma find_filter_key: "find (\<lambda>s. f s = k) (filter (\<lambda>s. f s \<noteq> k') xs) = (if k = k' then None else find (\<lambda>s. f s = k) xs)"
  by (induction xs) auto

interpretation scopes: keyed_table FindMCPCapabilityScope UpsertMCPCapabilityScope RemoveMCPCapabilityScope Cs_Server
  by unfold_locales
     (simp_all add: FindMCPCapabilityScope_def UpsertMCPCapabilityScope_def RemoveMCPCapabilityScope_def
       find_upsert_scope find_filter_key)

subsection \<open>Approved hosts\<close>

lemma approved_loop_iff:
  "approved_loop now expires host hosts \<longleftrightarrow>
     host \<in> normal_host ` set hosts \<and> host \<noteq> []
     \<and> (case map_of expires host of None \<Rightarrow> True | Some t \<Rightarrow> Time_IsZero t \<or> now < t)"
  by (induction hosts) (auto simp: Let_def split: option.split)

lemma approved_host_iff:
  "IsApprovedHost now l h \<longleftrightarrow>
     normal_host h \<noteq> [] \<and> normal_host h \<in> normal_host ` set (Ls_ApprovedHosts l)
     \<and> (case map_of (Ls_ApprovedHostExpires l) (normal_host h) of
          None \<Rightarrow> True | Some t \<Rightarrow> Time_IsZero t \<or> now < t)"
  by (auto simp: IsApprovedHost_def Let_def approved_loop_iff)

text \<open>An approval lapses at its expiry and, unless the lease changes, never returns.\<close>

lemma approval_lapses:
  "IsApprovedHost later l h \<Longrightarrow> now \<le> later \<Longrightarrow> IsApprovedHost now l h"
  by (auto simp: approved_host_iff split: option.splits)

lemma active_hosts_approved: "h \<in> set (ActiveApprovedHosts now l) \<longleftrightarrow> h \<in> set (Ls_ApprovedHosts l) \<and> IsApprovedHost now l h"
  by (auto simp: ActiveApprovedHosts_def)

subsection \<open>The lease as the fallback reads it\<close>

definition plain_char :: "char \<Rightarrow> bool" where
  "plain_char c \<longleftrightarrow> byte_in 0 64 c \<or> byte_in 91 127 c"

lemma fold_key_step:
  assumes "c \<noteq> CHR 0xC5" "c \<noteq> CHR 0xE2"
  shows "fold_key (c # cs) = ascii_lower c # fold_key cs"
proof (cases cs)
  case (Cons d r)
  then show ?thesis unfolding fold_key.simps(2) [of c cs] using assms
    by (cases r) (simp_all del: fold_key.simps)
qed simp

lemma fold_key_plain: "list_all plain_char k \<Longrightarrow> fold_key k = k"
proof (induction k)
  case (Cons c cs)
  then have "ascii_lower c = c" "c \<noteq> CHR 0xC5" "c \<noteq> CHR 0xE2"
    by (auto simp: plain_char_def byte_in_def ascii_lower_def Let_def)
  with Cons show ?case by (simp add: fold_key_step del: fold_key.simps)
qed simp

definition lease_keys :: "string list" where
  "lease_keys =
     [''lease_id'', ''issuer'', ''principal'', ''mission'', ''mode'', ''compiler_ceiling'', ''resources'',
      ''sensitive_paths'', ''sensitive_path_exclusions'', ''posture_files'', ''sentinel_files_for_installs'',
      ''allowed_verbs'', ''forbidden_verbs'', ''ask_verbs'', ''approved_remotes'', ''approved_hosts'',
      ''approved_mcp_servers'', ''trusted_mcp_servers'', ''discovered_mcp_servers'', ''mcp_approvals'',
      ''approved_host_expires'', ''mcp_capability_scopes'', ''sinks'', ''approval_risk'', ''allow_delegation'',
      ''observe_only'', ''auto_lease_approved_hosts'', ''deny_raw_secret_reads'', ''auto_lease_approved_remotes'',
      ''reuse_session_approvals'', ''narrow_env_reads'', ''silent_approved_hosts'', ''quiet_mcp_friction'']"

lemma lease_keys_fold: "k \<in> set lease_keys \<Longrightarrow> fold_key k = k"
proof -
  have "list_all (list_all plain_char) lease_keys" by code_simp
  then show "k \<in> set lease_keys \<Longrightarrow> fold_key k = k" by (simp add: list_all_iff fold_key_plain)
qed

lemmas lease_key_facts = lease_keys_fold [unfolded lease_keys_def, simplified]

lemma filter_omit_if: "filter P (omit_if b m) = (if P m then omit_if b m else [])"
  by (simp add: omit_if_def)

lemma omit_if_keys: "m \<in> set (omit_if b x) \<Longrightarrow> m = x"
  by (simp add: omit_if_def split: if_splits)

definition lease_members :: "(Time \<Rightarrow> string) \<Rightarrow> Lease \<Rightarrow> (string \<times> json) list" where
  "lease_members time l = (case json_lease time l of JObject ms \<Rightarrow> ms | _ \<Rightarrow> [])"

lemma json_lease_members: "json_lease time l = JObject (lease_members time l)"
  by (simp add: lease_members_def json_lease_def)

lemma lease_members_keys: "m \<in> set (lease_members time l) \<Longrightarrow> fst m \<in> set lease_keys"
  unfolding lease_members_def json_lease_def json.case set_append
  by (elim UnE) (auto simp: lease_keys_def dest: omit_if_keys)

lemma lease_field:
  assumes "name \<in> set lease_keys"
  shows "struct_field name (json_lease time l) = Some (map snd (filter (\<lambda>m. fst m = name) (lease_members time l)))"
proof -
  have "filter (\<lambda>m. fold_key (fst m) = fold_key name) (lease_members time l) =
      filter (\<lambda>m. fst m = name) (lease_members time l)"
    by (intro filter_cong) (simp_all add: lease_members_keys lease_keys_fold assms)
  then show ?thesis by (simp add: struct_field_def json_lease_members)
qed

lemma lease_fields:
  "struct_field ''forbidden_verbs'' (json_lease time l) = Some [json_strings (Ls_ForbiddenVerbs l)]"
  "struct_field ''allow_delegation'' (json_lease time l) = Some [JBool (Ls_AllowDelegation l)]"
  by (subst lease_field; simp add: lease_keys_def lease_members_def json_lease_def filter_omit_if)+

lemma decode_elements_strings: "decode_elements (map JString xs) = Some xs"
  by (induction xs) auto

lemma depth_object: "(\<And>m. m \<in> set ms \<Longrightarrow> depth (snd m) \<le> k) \<Longrightarrow> depth (JObject ms) \<le> Suc k"
  by (induction ms) auto

lemma depth_list: "(\<And>v. v \<in> set vs \<Longrightarrow> depth v \<le> k) \<Longrightarrow> depth (JArray vs) \<le> Suc k"
  by (induction vs) auto

lemma depth_strings: "depth (json_strings xs) \<le> 1"
  unfolding json_strings_def One_nat_def by (rule depth_list) auto

lemma depth_parts:
  "depth (json_resource r) \<le> 2" "depth (json_sink k) \<le> 2" "depth (json_discovered d) \<le> 2"
  "depth (json_approval time a) \<le> 2" "depth (json_scope c) \<le> 2"
  unfolding json_resource_def json_sink_def json_discovered_def json_approval_def json_scope_def Suc_1 [symmetric]
  by (rule depth_object; use depth_strings in \<open>auto dest!: omit_if_keys\<close>)+

lemma depth_map_table: "(\<And>x. depth (f x) \<le> 2) \<Longrightarrow> depth (json_map f m) \<le> 3"
  using depth_object [of "map (\<lambda>(k, v). (k, f v)) (sort_key fst (AList.clearjunk m))" 2]
  unfolding json_map_def by fastforce

lemma depth_list_table: "(\<And>x. depth (g x) \<le> 2) \<Longrightarrow> depth (JArray (map g xs)) \<le> 3"
  using depth_list [of "map g xs" 2] by fastforce

lemma depth_lease: "depth (json_lease time l) \<le> max_depth"
proof -
  have "depth (snd m) \<le> 3" if "m \<in> set (lease_members time l)" for m
    using that unfolding lease_members_def json_lease_def json.case set_append
    by (elim UnE)
       (auto dest!: omit_if_keys intro!: depth_map_table depth_list_table order_trans [OF depth_strings] depth_parts simp del: depth.simps(1,2))
  then have "depth (json_lease time l) \<le> Suc 3" unfolding json_lease_members by (rule depth_object)
  then show ?thesis by (simp add: max_depth_def)
qed

lemma lease_decoded:
  assumes "printable (json_lease time l)"
  shows "unmarshal_field decode_strings [] ''forbidden_verbs'' (json_print (json_lease time l)) = Some (Ls_ForbiddenVerbs l)"
    and "unmarshal_field decode_bool False ''allow_delegation'' (json_print (json_lease time l)) = Some (Ls_AllowDelegation l)"
  unfolding unmarshal_field_def json_parse_print [OF assms depth_lease]
  by (simp_all add: lease_fields json_strings_def decode_elements_strings)

subsection \<open>Profiles\<close>

text \<open>The request with a lease as \<open>buildCoreRequest\<close> attaches it.\<close>

definition with_lease :: "(Time \<Rightarrow> string) \<Rightarrow> Lease \<Rightarrow> Request \<Rightarrow> Request" where
  "with_lease time l req =
     req\<lparr>Req_LeaseJSON := json_print (json_lease time l), forbiddenParsed := False, forbiddenParseErr := False,
         forbiddenVerbCache := []\<rparr>"

lemma with_lease_cache: "cache_ok (with_lease time l req)"
  by (simp add: cache_ok_def with_lease_def)

lemma lease_text_nonempty: "json_print (json_lease time l) \<noteq> []"
  by (simp add: json_lease_def)

lemma with_lease_text [simp]: "Req_LeaseJSON (with_lease time l req) = json_print (json_lease time l)"
  by (simp add: with_lease_def)

lemma with_lease_forbids:
  "printable (json_lease time l) \<Longrightarrow> leaseForbidsVerb (with_lease time l req) verb \<longleftrightarrow> IsVerbForbidden l verb"
  by (simp add: leaseForbids_iff with_lease_cache parse_forbidden_def lease_text_nonempty lease_decoded
      IsVerbForbidden_def del: json_print.simps)

lemma with_lease_delegation:
  "printable (json_lease time l) \<Longrightarrow>
   delegation_refused (Req_LeaseJSON (with_lease time l req)) \<longleftrightarrow> \<not> Ls_AllowDelegation l"
  by (simp add: delegation_refused_def lease_text_nonempty lease_decoded del: json_print.simps)

lemma with_lease_keeps:
  "Req_Intent (with_lease time l req) = Req_Intent req" "Req_Session (with_lease time l req) = Req_Session req"
  "Req_PolicyVerdicts (with_lease time l req) = Req_PolicyVerdicts req"
  "effective_labels (with_lease time l req) = effective_labels req"
  by (simp_all add: with_lease_def effective_labels_def)

text \<open>The texts of a lease without tables.\<close>

definition lease_texts :: "Lease \<Rightarrow> string list" where
  "lease_texts l =
     [Ls_LeaseID l, Ls_Issuer l, Ls_Principal l, Ls_Mission l, Ls_Mode l, Ls_CompilerCeiling l, Ls_ApprovalRisk l]
     @ concat (map (\<lambda>r. [Rs_Pattern r, Rs_ResourceKind r] @ Rs_Permissions r) (Ls_Resources l))
     @ concat (map (\<lambda>k. [Sk_Pattern k, Sk_Trust k, Sk_MinRisk k]) (Ls_Sinks l))
     @ Ls_SensitivePaths l @ Ls_SensitivePathExclusions l @ Ls_PostureFiles l
     @ Ls_SentinelFilesForInstall l @ Ls_AllowedVerbs l @ Ls_ForbiddenVerbs l
     @ Ls_AskVerbs l @ Ls_ApprovedRemotes l @ Ls_ApprovedHosts l @ Ls_ApprovedMCPServers l"

definition no_tables :: "Lease \<Rightarrow> bool" where
  "no_tables l \<longleftrightarrow> Ls_TrustedMCPServers l = [] \<and> Ls_DiscoveredMCPServers l = [] \<and> Ls_MCPApprovals l = []
     \<and> Ls_ApprovedHostExpires l = [] \<and> Ls_MCPCapabilityScopes l = []"

fun ascii7 :: "char \<Rightarrow> bool" where
  "ascii7 (Char b0 b1 b2 b3 b4 b5 b6 b7) = (\<not> b7)"

lemma ascii7_byte: "ascii7 c \<Longrightarrow> byte_in 0 0x7F c"
  by (cases c) (simp add: byte_in_def of_char_Char)

lemma utf8_ascii7: "list_all ascii7 s \<Longrightarrow> utf8_ValidString s"
  by (rule ascii_valid) (auto simp: list_all_iff ascii7_byte)

lemma key_texts:
  "list_all utf8_ValidString (lease_keys @ [''pattern'', ''permissions'', ''resource_kind'', ''trust'', ''min_risk''])"
  by (simp add: lease_keys_def utf8_ascii7 del: utf8_ValidString.simps)

lemma printable_parts:
  "printable (json_strings xs) \<longleftrightarrow> list_all utf8_ValidString xs"
  "printable (json_resource r) \<longleftrightarrow> list_all utf8_ValidString ([Rs_Pattern r, Rs_ResourceKind r] @ Rs_Permissions r)"
  "printable (json_sink k) \<longleftrightarrow> list_all utf8_ValidString [Sk_Pattern k, Sk_Trust k, Sk_MinRisk k]"
  using key_texts by (auto simp: json_strings_def json_resource_def json_sink_def list_all_iff simp del: utf8_ValidString.simps)

lemma lease_printable:
  assumes "list_all utf8_ValidString (lease_texts l)" and "no_tables l"
  shows "printable (json_lease time l)"
proof -
  have lists: "printable (JArray (map json_resource (Ls_Resources l)))" "printable (JArray (map json_sink (Ls_Sinks l)))"
    using assms(1) by (auto simp: printable_parts lease_texts_def list_all_iff)
  have "printable (snd m)" if "m \<in> set (lease_members time l)" for m
    using that assms unfolding lease_members_def json_lease_def json.case set_append no_tables_def
    by (elim UnE conjE)
       (auto simp: omit_if_def printable_parts lease_texts_def lists simp del: printable.simps(5) split: if_splits)
  then show ?thesis
    using key_texts lease_members_keys [of _ time l] by (auto simp: json_lease_members list_all_iff)
qed

lemma default_texts: "list_all utf8_ValidString (lease_texts DefaultLease)"
  by (simp add: lease_texts_def DefaultLease_def verb_defs utf8_ascii7 del: utf8_ValidString.simps)

lemma default_tables: "no_tables DefaultLease"
  by (simp add: no_tables_def DefaultLease_def)

lemma list_all_verbs:
  "list_all P xs \<Longrightarrow> list_all P (removeVerb xs y)"
  "list_all P xs \<Longrightarrow> P y \<Longrightarrow> list_all P (appendUniqueVerb xs y)"
  by (auto simp: list_all_iff removeVerb_def appendUniqueVerb_def)

lemma lockdown_texts:
  assumes mode: "utf8_ValidString mode"
  shows "list_all utf8_ValidString (lease_texts (lockdown mode)) \<and> no_tables (lockdown mode)"
proof -
  have verbs: "utf8_ValidString VerbNetExternal" "utf8_ValidString VerbDnsLookup" "utf8_ValidString VerbPushOrigin"
    "utf8_ValidString VerbDelegate" "utf8_ValidString ''localhost''" "utf8_ValidString ''127.0.0.1''" "utf8_ValidString ''::1''"
    by (simp_all add: verb_defs utf8_ascii7 del: utf8_ValidString.simps)
  show ?thesis
    using default_texts default_tables
    by (simp add: lease_texts_def lockdown_def Let_def no_tables_def mode verbs list_all_verbs
        del: utf8_ValidString.simps)
qed

lemma profile_cases:
  assumes "leaseForProfile p = Some l"
  obtains (balanced) "p \<noteq> ''strict''" "p \<noteq> ''managed''" "l = DefaultLease\<lparr>Ls_DenyRawSecretReads := True\<rparr>"
    | (team) "p \<noteq> ''strict''" "p \<noteq> ''managed''"
        "l = DefaultLease\<lparr>Ls_Mode := ''team'', Ls_DenyRawSecretReads := True, Ls_NarrowEnvReads := False\<rparr>"
    | (locked) "p = ''strict'' \<or> p = ''managed''" "l = lockdown p"
proof -
  consider "p \<in> {''default'', ''standard'', ''personal''}" | "p = ''team''" | "p = ''strict''" | "p = ''managed''"
    | "p \<notin> {''default'', ''standard'', ''personal''}" "p \<noteq> ''team''" "p \<noteq> ''strict''" "p \<noteq> ''managed''" by argo
  then show thesis
  proof cases
    case 1
    then have "l = DefaultLease\<lparr>Ls_DenyRawSecretReads := True\<rparr>"
      using assms unfolding leaseForProfile_def by (simp only: if_True option.inject)
    with 1 show thesis by (intro balanced) auto
  qed (use assms that in \<open>simp_all add: leaseForProfile_def\<close>)
qed

lemma profile_lease_printable:
  assumes "leaseForProfile p = Some l"
  shows "printable (json_lease time l)"
proof -
  have modes: "utf8_ValidString ''team''" "utf8_ValidString ''strict''" "utf8_ValidString ''managed''"
    by (simp_all add: utf8_ascii7 del: utf8_ValidString.simps)
  from assms have "list_all utf8_ValidString (lease_texts l) \<and> no_tables l"
  proof (cases rule: profile_cases)
    case locked
    then show ?thesis using lockdown_texts modes by auto
  qed (use default_texts default_tables modes in
      \<open>simp_all add: lease_texts_def no_tables_def del: utf8_ValidString.simps\<close>)
  then show ?thesis by (simp add: lease_printable)
qed

text \<open>A lease that grants no more than another.\<close>

definition narrower :: "Lease \<Rightarrow> Lease \<Rightarrow> bool" where
  "narrower l l' \<longleftrightarrow>
     set (Ls_ForbiddenVerbs l) \<subseteq> set (Ls_ForbiddenVerbs l') \<and> (Ls_AllowDelegation l' \<longrightarrow> Ls_AllowDelegation l)"

lemma narrower_stricter:
  assumes "narrower l l'" and "printable (json_lease time l)" and "printable (json_lease time l')"
  shows "verdict_rank (Resp_Decision (localEvaluate (with_lease time l req)))
    \<le> verdict_rank (Resp_Decision (localEvaluate (with_lease time l' req)))"
proof -
  have forbids: "leaseForbidsVerb (with_lease time l req) v \<longrightarrow> leaseForbidsVerb (with_lease time l' req) v" for v
    using assms by (auto simp: with_lease_forbids narrower_def IsVerbForbidden_def)
  have delegation: "delegation_refused (Req_LeaseJSON (with_lease time l req))
      \<longrightarrow> delegation_refused (Req_LeaseJSON (with_lease time l' req))"
    using assms by (auto simp: with_lease_delegation narrower_def simp del: with_lease_text)
  have "refused (with_lease time l req) \<longrightarrow> refused (with_lease time l' req)"
    using forbids [of "I_Verb (Req_Intent req)"] delegation unfolding refused_def Let_def with_lease_keeps by argo
  moreover have "questioned (with_lease time l req) = questioned (with_lease time l' req)"
    by (simp add: questioned_def with_lease_keeps)
  moreover have "isLocalCleanDeveloperWorkflow (with_lease time l req) = isLocalCleanDeveloperWorkflow (with_lease time l' req)"
    by (simp add: isLocalCleanDeveloperWorkflow_def with_lease_keeps)
  ultimately show ?thesis
    by (cases "refused (with_lease time l' req)")
       (auto simp: localEvaluate_decision fallback_verdict_def with_lease_keeps)
qed

lemma default_facts: "Ls_ForbiddenVerbs DefaultLease = []" "Ls_AllowDelegation DefaultLease"
  by (simp_all add: DefaultLease_def)

lemma profile_facts:
  assumes "leaseForProfile p = Some l"
  shows "set (Ls_ForbiddenVerbs l) = (if p \<in> {''strict'', ''managed''} then {VerbNetExternal, VerbDnsLookup} else {})"
    and "Ls_AllowDelegation l \<longleftrightarrow> p \<notin> {''strict'', ''managed''}"
  using assms
  by (cases rule: profile_cases, auto simp: lockdown_def Let_def default_facts appendUniqueVerb_def)+

text \<open>C31: the profiles are a gradient. Over \<open>personal\<close> (also \<open>default\<close>, \<open>standard\<close>), \<open>team\<close>,
  \<open>strict\<close> and \<open>managed\<close>, moving from a profile outside \<open>{strict, managed}\<close> to any profile, or
  between those two, never makes the fallback less strict on any request; and with the last
  two, external requests and DNS lookups are denied and delegation is never allowed in
  any session. The fallback sees the lease only as its JSON text.\<close>

theorem profile_gradient:
  assumes "leaseForProfile p = Some l" and "leaseForProfile p' = Some l'"
    and "p \<in> {''strict'', ''managed''} \<longrightarrow> p' \<in> {''strict'', ''managed''}"
  shows "verdict_rank (Resp_Decision (localEvaluate (with_lease time l req)))
      \<le> verdict_rank (Resp_Decision (localEvaluate (with_lease time l' req)))
    \<and> (p' \<in> {''strict'', ''managed''} \<longrightarrow>
        (I_Verb (Req_Intent req) \<in> {VerbNetExternal, VerbDnsLookup} \<longrightarrow>
           Resp_Decision (localEvaluate (with_lease time l' req)) = VerdictDeny)
        \<and> (I_Verb (Req_Intent req) = VerbDelegate \<longrightarrow>
           Resp_Decision (localEvaluate (with_lease time l' req)) \<noteq> VerdictAllow))"
proof (intro conjI impI)
  note pr = assms(1,2) [THEN profile_lease_printable]
  have "narrower l l'"
    using assms profile_facts [OF assms(1)] profile_facts [OF assms(2)] by (auto simp: narrower_def split: if_splits)
  then show "verdict_rank (Resp_Decision (localEvaluate (with_lease time l req)))
      \<le> verdict_rank (Resp_Decision (localEvaluate (with_lease time l' req)))"
    by (rule narrower_stricter [OF _ pr])
next
  assume locked: "p' \<in> {''strict'', ''managed''}" and verb: "I_Verb (Req_Intent req) \<in> {VerbNetExternal, VerbDnsLookup}"
  have "leaseForbidsVerb (with_lease time l' req) (I_Verb (Req_Intent req))"
    using locked verb profile_facts(1) [OF assms(2)]
    by (simp add: with_lease_forbids profile_lease_printable [OF assms(2)] IsVerbForbidden_def)
  then have "fallback_verdict (with_lease time l' req) = VerdictDeny"
    using verb by (elim insertE emptyE) (simp_all add: spec_defs with_lease_keeps verb_defs)
  then show "Resp_Decision (localEvaluate (with_lease time l' req)) = VerdictDeny" by (rule deny_is_final)
next
  assume locked: "p' \<in> {''strict'', ''managed''}" and verb: "I_Verb (Req_Intent req) = VerbDelegate"
  have "delegation_refused (Req_LeaseJSON (with_lease time l' req))"
    using locked profile_facts(2) [OF assms(2)]
    by (simp add: with_lease_delegation profile_lease_printable [OF assms(2)] del: with_lease_text)
  with verb show "Resp_Decision (localEvaluate (with_lease time l' req)) \<noteq> VerdictAllow"
    by (auto simp: localEvaluate_decision spec_defs with_lease_keeps)
qed

theorem profile_gradient_witness:
  "verdict_rank (Resp_Decision (localEvaluate (with_lease (\<lambda>t. []) (DefaultLease\<lparr>Ls_DenyRawSecretReads := True\<rparr>) (demo_request VerbDnsLookup []))))
      \<le> verdict_rank (Resp_Decision (localEvaluate (with_lease (\<lambda>t. []) (lockdown ''strict'') (demo_request VerbDnsLookup []))))
   \<and> Resp_Decision (localEvaluate (with_lease (\<lambda>t. []) (lockdown ''strict'') (demo_request VerbDnsLookup []))) = VerdictDeny"
  using profile_gradient [of "''personal''" _ "''strict''" _ "\<lambda>t. []" "demo_request VerbDnsLookup []"]
  by (simp add: leaseForProfile_def demo_request_def)

text \<open>The lease that is sent is the lease that is obeyed. For a lease whose texts are
  valid UTF-8, the local fallback decodes from its JSON text exactly the forbidden verbs
  and the delegation flag of the lease, whatever else the lease holds.\<close>

theorem lease_read_back:
  assumes "printable (json_lease time l)"
  shows "parse_forbidden (json_print (json_lease time l)) = (False, Ls_ForbiddenVerbs l)
    \<and> unmarshal_field decode_bool False ''allow_delegation'' (json_print (json_lease time l)) = Some (Ls_AllowDelegation l)
    \<and> (leaseForbidsVerb (with_lease time l req) verb \<longleftrightarrow> IsVerbForbidden l verb)"
  using assms
  by (simp add: lease_decoded with_lease_forbids parse_forbidden_def lease_text_nonempty del: json_print.simps)

theorem lease_read_back_witness:
  "parse_forbidden (json_print (json_lease (\<lambda>t. []) (lockdown ''strict''))) = (False, Ls_ForbiddenVerbs (lockdown ''strict''))
   \<and> unmarshal_field decode_bool False ''allow_delegation'' (json_print (json_lease (\<lambda>t. []) (lockdown ''strict''))) = Some False
   \<and> leaseForbidsVerb (with_lease (\<lambda>t. []) (lockdown ''strict'') (demo_request VerbDnsLookup [])) VerbDnsLookup"
proof -
  have strict: "leaseForProfile ''strict'' = Some (lockdown ''strict'')" by (simp add: leaseForProfile_def)
  show ?thesis
    using lease_read_back [OF profile_lease_printable [OF strict], of "\<lambda>t. []" "demo_request VerbDnsLookup []" VerbDnsLookup]
      profile_facts [OF strict]
    by (simp add: IsVerbForbidden_def del: json_print.simps)
qed

end
