(* ===== verification/Go_Strings.thy ===== *)
theory Go_Strings
  imports Sir_Prelude
begin

text \<open>
  More of package \<open>strings\<close>: splitting, trimming, searching and replacing, on bytes. White
  space is the ASCII white space (see the prelude). The lemmas bound the length of the
  results; they carry the termination argument of the shell classifier.
\<close>

subsection \<open>Fields\<close>

lemma dropWhile_run_shorter:
  assumes "dropWhile sep s \<noteq> []"
  shows "length (dropWhile (\<lambda>c. \<not> sep c) (dropWhile sep s)) < length s"
proof -
  obtain c cs where c: "dropWhile sep s = c # cs" using assms by (cases "dropWhile sep s") auto
  then have "\<not> sep c" using hd_dropWhile [OF assms] by simp
  then have "length (dropWhile (\<lambda>c. \<not> sep c) (dropWhile sep s)) < length (dropWhile sep s)"
    using c length_dropWhile_le [of "\<lambda>c. \<not> sep c" cs] by simp
  then show ?thesis using length_dropWhile_le [of sep s] by simp
qed

text \<open>\<open>strings.FieldsFunc\<close>: maximal runs of bytes that are not separators.\<close>

function FieldsFunc :: "(char \<Rightarrow> bool) \<Rightarrow> string \<Rightarrow> string list" where
  "FieldsFunc sep s =
    (let s' = dropWhile sep s in
     if s' = [] then []
     else takeWhile (\<lambda>c. \<not> sep c) s' # FieldsFunc sep (dropWhile (\<lambda>c. \<not> sep c) s'))"
  by pat_completeness auto

termination by (relation "measure (\<lambda>(sep, s). length s)") (auto simp: dropWhile_run_shorter)

declare FieldsFunc.simps [simp del]

definition strings_Fields :: "string \<Rightarrow> string list" where
  "strings_Fields s = FieldsFunc ascii_space s"

subsection \<open>Trimming\<close>

definition strings_TrimLeft :: "string \<Rightarrow> string \<Rightarrow> string" where
  "strings_TrimLeft s cutset = dropWhile (\<lambda>c. c \<in> set cutset) s"

definition strings_TrimRight :: "string \<Rightarrow> string \<Rightarrow> string" where
  "strings_TrimRight s cutset = rev (dropWhile (\<lambda>c. c \<in> set cutset) (rev s))"

definition strings_Trim :: "string \<Rightarrow> string \<Rightarrow> string" where
  "strings_Trim s cutset = strings_TrimRight (strings_TrimLeft s cutset) cutset"

definition strings_TrimPrefix :: "string \<Rightarrow> string \<Rightarrow> string" where
  "strings_TrimPrefix s p = (if strings_HasPrefix s p then drop (length p) s else s)"

definition strings_TrimSuffix :: "string \<Rightarrow> string \<Rightarrow> string" where
  "strings_TrimSuffix s p = (if strings_HasSuffix s p then take (length s - length p) s else s)"

definition strings_CutPrefix :: "string \<Rightarrow> string \<Rightarrow> string option" where
  "strings_CutPrefix s p = (if strings_HasPrefix s p then Some (drop (length p) s) else None)"

subsection \<open>Searching\<close>

text \<open>Go's index \<open>-1\<close> is \<open>None\<close>.\<close>

fun strings_Index :: "string \<Rightarrow> string \<Rightarrow> nat option" where
  "strings_Index [] sub = (if sub = [] then Some 0 else None)"
| "strings_Index (c # cs) sub =
     (if strings_HasPrefix (c # cs) sub then Some 0 else map_option Suc (strings_Index cs sub))"

fun strings_IndexAny :: "string \<Rightarrow> string \<Rightarrow> nat option" where
  "strings_IndexAny [] chars = None"
| "strings_IndexAny (c # cs) chars =
     (if c \<in> set chars then Some 0 else map_option Suc (strings_IndexAny cs chars))"

definition strings_LastIndexByte :: "string \<Rightarrow> char \<Rightarrow> nat option" where
  "strings_LastIndexByte s b =
     (case strings_IndexAny (rev s) [b] of None \<Rightarrow> None | Some i \<Rightarrow> Some (length s - Suc i))"

definition strings_LastIndexAny :: "string \<Rightarrow> string \<Rightarrow> nat option" where
  "strings_LastIndexAny s chars =
     (case strings_IndexAny (rev s) chars of None \<Rightarrow> None | Some i \<Rightarrow> Some (length s - Suc i))"

definition strings_ContainsAny :: "string \<Rightarrow> string \<Rightarrow> bool" where
  "strings_ContainsAny s chars = list_ex (\<lambda>c. c \<in> set chars) s"

text \<open>\<open>strings.EqualFold\<close> on ASCII.\<close>

definition strings_EqualFold :: "string \<Rightarrow> string \<Rightarrow> bool" where
  "strings_EqualFold s t \<longleftrightarrow> strings_ToLower s = strings_ToLower t"

subsection \<open>Splitting and replacing\<close>

text \<open>\<open>strings.Split\<close> for a separator of one byte.\<close>

fun strings_SplitByte :: "string \<Rightarrow> char \<Rightarrow> string list" where
  "strings_SplitByte [] b = [[]]"
| "strings_SplitByte (c # cs) b =
     (if c = b then [] # strings_SplitByte cs b
      else case strings_SplitByte cs b of
             [] \<Rightarrow> [[c]]
           | s # ss \<Rightarrow> (c # s) # ss)"

text \<open>\<open>strings.Cut\<close>: what is before and after the first occurrence, if there is one.\<close>

definition strings_Cut :: "string \<Rightarrow> string \<Rightarrow> (string \<times> string) option" where
  "strings_Cut s sep =
     (case strings_Index s sep of None \<Rightarrow> None | Some i \<Rightarrow> Some (take i s, drop (i + length sep) s))"

text \<open>\<open>strings.ReplaceAll\<close> of one byte by another.\<close>

definition replace_byte :: "char \<Rightarrow> char \<Rightarrow> string \<Rightarrow> string" where
  "replace_byte a b s = map (\<lambda>c. if c = a then b else c) s"

subsection \<open>Length bounds\<close>

lemma length_TrimSpace_le: "length (strings_TrimSpace s) \<le> length s"
  unfolding strings_TrimSpace_def length_rev
  using length_dropWhile_le [of ascii_space s]
    length_dropWhile_le [of ascii_space "rev (dropWhile ascii_space s)"] by simp

fun joined_length :: "string list \<Rightarrow> nat" where
  "joined_length [] = 0"
| "joined_length [x] = length x"
| "joined_length (x # y # xs) = length x + 1 + joined_length (y # xs)"

lemma length_Join_space: "length (strings_Join xs '' '') = joined_length xs"
  by (induction xs rule: joined_length.induct) auto

lemma joined_length_Cons: "joined_length (x # xs) = length x + (if xs = [] then 0 else 1 + joined_length xs)"
  by (cases xs) auto

lemma joined_length_drop_le: "joined_length (drop n xs) \<le> joined_length xs"
proof (induction xs arbitrary: n)
  case (Cons x xs)
  then show ?case by (cases n) (auto simp: joined_length_Cons intro: le_trans [OF Cons.IH])
qed simp

lemma joined_length_update_le:
  "i < length xs \<Longrightarrow> length y \<le> length (xs ! i) \<Longrightarrow> joined_length (xs[i := y]) \<le> joined_length xs"
proof (induction xs arbitrary: i)
  case (Cons x xs)
  show ?case
  proof (cases i)
    case 0
    then show ?thesis using Cons.prems by (simp add: joined_length_Cons)
  next
    case (Suc j)
    then have "joined_length (xs[j := y]) \<le> joined_length xs" using Cons by simp
    then show ?thesis using Suc by (simp add: joined_length_Cons)
  qed
qed simp

lemma FieldsFunc_Nil [simp]: "FieldsFunc sep [] = []"
  by (simp add: FieldsFunc.simps)

lemma FieldsFunc_sep [simp]: "sep c \<Longrightarrow> FieldsFunc sep (c # cs) = FieldsFunc sep cs"
  by (simp add: FieldsFunc.simps [of sep "c # cs"] FieldsFunc.simps [of sep cs])

lemma FieldsFunc_run:
  "\<not> sep c \<Longrightarrow> FieldsFunc sep (c # cs) =
     (c # takeWhile (\<lambda>c. \<not> sep c) cs) # FieldsFunc sep (dropWhile (\<lambda>c. \<not> sep c) cs)"
  by (simp add: FieldsFunc.simps [of sep "c # cs"])

text \<open>One pass over the bytes computes the same fields; evaluation uses it.\<close>

fun fields_scan :: "(char \<Rightarrow> bool) \<Rightarrow> string \<Rightarrow> string \<Rightarrow> string list" where
  "fields_scan sep cur [] = (if cur = [] then [] else [rev cur])"
| "fields_scan sep cur (c # cs) =
     (if sep c then (if cur = [] then fields_scan sep [] cs else rev cur # fields_scan sep [] cs)
      else fields_scan sep (c # cur) cs)"

lemma fields_scan_FieldsFunc:
  "fields_scan sep cur s =
     (if cur = [] then FieldsFunc sep s
      else (rev cur @ takeWhile (\<lambda>c. \<not> sep c) s) # FieldsFunc sep (dropWhile (\<lambda>c. \<not> sep c) s))"
  by (induction sep cur s rule: fields_scan.induct) (auto simp: FieldsFunc_run)

lemma FieldsFunc_code [code]: "FieldsFunc sep s = fields_scan sep [] s"
  by (simp add: fields_scan_FieldsFunc)

lemma joined_length_FieldsFunc: "joined_length (FieldsFunc sep s) \<le> length s"
proof (induction "length s" arbitrary: s rule: less_induct)
  case less
  show ?case
  proof (cases s)
    case (Cons c cs)
    show ?thesis
    proof (cases "sep c")
      case True
      then show ?thesis using less [of cs] Cons by simp
    next
      case False
      define r where "r = dropWhile (\<lambda>c. \<not> sep c) cs"
      have len: "length cs = length (takeWhile (\<lambda>c. \<not> sep c) cs) + length r"
        unfolding r_def by (metis length_append takeWhile_dropWhile_id)
      have fields: "FieldsFunc sep s = (c # takeWhile (\<lambda>c. \<not> sep c) cs) # FieldsFunc sep r"
        by (simp add: Cons FieldsFunc_run False r_def)
      show ?thesis
      proof (cases r)
        case Nil
        then show ?thesis unfolding fields using len \<open>s = c # cs\<close> by simp
      next
        case (Cons d ds)
        then have "sep d" using hd_dropWhile [of "\<lambda>c. \<not> sep c" cs] by (simp add: r_def)
        then have "FieldsFunc sep r = FieldsFunc sep ds" using Cons by simp
        moreover have "joined_length (FieldsFunc sep ds) \<le> length ds"
          using less [of ds] len Cons \<open>s = c # cs\<close> by simp
        ultimately show ?thesis unfolding fields using len Cons \<open>s = c # cs\<close> by (simp add: joined_length_Cons)
      qed
    qed
  qed simp
qed

lemma Fields_length: "joined_length (strings_Fields s) \<le> length s"
  by (simp add: strings_Fields_def joined_length_FieldsFunc)

lemma TrimSpace_Nil [simp]: "strings_TrimSpace [] = []"
  by (simp add: strings_TrimSpace_def)

end
