(* ===== verification/Go_Path.thy ===== *)
theory Go_Path
  imports Go_Strings Go_Utf8
begin

text \<open>
  Package \<open>path/filepath\<close> on Unix: \<open>Base\<close>, \<open>Clean\<close>, \<open>Join\<close>, \<open>IsAbs\<close> and glob matching with
  \<open>Match\<close>. A malformed pattern matches nothing, as every caller ignores the error.
\<close>

subsection \<open>Paths\<close>

definition filepath_Base :: "string \<Rightarrow> string" where
  "filepath_Base path =
     (if path = [] then ''.''
      else
        let p = strings_TrimRight path ''/'';
            q = rev (takeWhile (\<lambda>c. c \<noteq> CHR ''/'') (rev p))
        in if q = [] then ''/'' else q)"

fun clean_segments :: "bool \<Rightarrow> string list \<Rightarrow> string list \<Rightarrow> string list" where
  "clean_segments rooted [] out = rev out"
| "clean_segments rooted (seg # segs) out =
     (if seg = [] \<or> seg = ''.'' then clean_segments rooted segs out
      else if seg = ''..'' then
        (case out of
           [] \<Rightarrow> clean_segments rooted segs (if rooted then [] else [''..''])
         | o1 # os \<Rightarrow> clean_segments rooted segs (if o1 = ''..'' then ''..'' # out else os))
      else clean_segments rooted segs (seg # out))"

definition filepath_Clean :: "string \<Rightarrow> string" where
  "filepath_Clean path =
    (let rooted = strings_HasPrefix path ''/'';
         body = strings_Join (clean_segments rooted (strings_SplitByte path (CHR ''/'')) []) ''/''
     in if rooted then ''/'' @ body else if body = [] then ''.'' else body)"

definition filepath_Join :: "string list \<Rightarrow> string" where
  "filepath_Join elems =
    (let parts = dropWhile (\<lambda>e. e = []) elems in
     if parts = [] then [] else filepath_Clean (strings_Join parts ''/''))"

definition filepath_IsAbs :: "string \<Rightarrow> bool" where
  "filepath_IsAbs path = strings_HasPrefix path ''/''"

subsection \<open>Runes\<close>

definition cont :: "char \<Rightarrow> nat" where
  "cont c = of_char c mod 64"

text \<open>\<open>utf8.DecodeRuneInString\<close>: code point and width.\<close>

definition decode_rune :: "string \<Rightarrow> nat \<times> nat" where
  "decode_rune s =
     (case rune_len s of
        0 \<Rightarrow> (0xFFFD, if s = [] then 0 else 1)
      | Suc 0 \<Rightarrow> (of_char (s ! 0), 1)
      | Suc (Suc 0) \<Rightarrow> ((of_char (s ! 0) mod 32) * 64 + cont (s ! 1), 2)
      | Suc (Suc (Suc 0)) \<Rightarrow> (((of_char (s ! 0) mod 16) * 64 + cont (s ! 1)) * 64 + cont (s ! 2), 3)
      | Suc (Suc (Suc (Suc _))) \<Rightarrow>
          ((((of_char (s ! 0) mod 8) * 64 + cont (s ! 1)) * 64 + cont (s ! 2)) * 64 + cont (s ! 3), 4))"

lemma decode_rune_width: "s \<noteq> [] \<Longrightarrow> 0 < snd (decode_rune s)"
  by (auto simp: decode_rune_def split: nat.split)

subsection \<open>Globs\<close>

definition get_esc :: "string \<Rightarrow> (nat \<times> string) option" where
  "get_esc chunk =
     (case chunk of
        [] \<Rightarrow> None
      | c # cs \<Rightarrow>
          if c = CHR ''-'' \<or> c = CHR '']'' then None
          else
            let body = (if c = CHR 0x5C then cs else chunk) in
            if body = [] then None
            else
              (case decode_rune body of
                 (r, n) \<Rightarrow>
                   if rune_len body = 0 \<or> drop n body = [] then None else Some (r, drop n body)))"

text \<open>The ranges of a class up to its bracket: whether one of them holds the rune, and the
  rest of the pattern. The fuel bounds the number of ranges.\<close>

fun class_ranges :: "nat \<Rightarrow> nat \<Rightarrow> bool \<Rightarrow> bool \<Rightarrow> string \<Rightarrow> (bool \<times> string) option" where
  "class_ranges 0 r seen matched chunk = None"
| "class_ranges (Suc n) r seen matched chunk =
     (if seen \<and> chunk \<noteq> [] \<and> hd chunk = CHR '']'' then Some (matched, tl chunk)
      else case get_esc chunk of
        None \<Rightarrow> None
      | Some (lo, rest) \<Rightarrow>
          if hd rest = CHR ''-'' then
            (case get_esc (tl rest) of
               None \<Rightarrow> None
             | Some (hi, rest') \<Rightarrow> class_ranges n r True (matched \<or> (lo \<le> r \<and> r \<le> hi)) rest')
          else class_ranges n r True (matched \<or> lo = r) rest)"

definition class_match :: "nat \<Rightarrow> string \<Rightarrow> (bool \<times> string) option" where
  "class_match r chunk =
    (let negated = (chunk \<noteq> [] \<and> hd chunk = CHR ''^'');
         body = (if negated then tl chunk else chunk)
     in case class_ranges (Suc (length body)) r False False body of
          None \<Rightarrow> None
        | Some (m, rest) \<Rightarrow> Some (m \<noteq> negated, rest))"

lemma get_esc_shorter: "get_esc chunk = Some (r, rest) \<Longrightarrow> length rest < length chunk"
proof -
  assume h: "get_esc chunk = Some (r, rest)"
  obtain c cs where c: "chunk = c # cs" using h by (cases chunk) (auto simp: get_esc_def)
  define body where "body = (if c = CHR 0x5C then cs else chunk)"
  have b: "body \<noteq> []" "rest = drop (snd (decode_rune body)) body"
    using h unfolding get_esc_def c list.case Let_def
    by (auto simp: body_def c split: if_splits prod.splits)
  then have "length rest < length body" using decode_rune_width [of body] by simp
  then show ?thesis by (simp add: body_def c split: if_splits)
qed

lemma class_ranges_shorter: "class_ranges n r seen m chunk = Some (x, rest) \<Longrightarrow> length rest < length chunk"
proof (induction n arbitrary: seen m chunk)
  case (Suc n)
  show ?case
  proof (cases "seen \<and> chunk \<noteq> [] \<and> hd chunk = CHR '']''")
    case True
    then show ?thesis using Suc.prems by (cases chunk) auto
  next
    case False
    then obtain lo r1 where e: "get_esc chunk = Some (lo, r1)" using Suc.prems by (auto split: option.splits)
    show ?thesis
    proof (cases "hd r1 = CHR ''-''")
      case True
      then obtain hi r2 where e2: "get_esc (tl r1) = Some (hi, r2)"
        using Suc.prems False e by (auto split: option.splits)
      have "class_ranges n r True (m \<or> (lo \<le> r \<and> r \<le> hi)) r2 = Some (x, rest)"
        using Suc.prems False e True e2 by auto
      then have "length rest < length r2" by (rule Suc.IH)
      then show ?thesis using get_esc_shorter [OF e] get_esc_shorter [OF e2] by simp
    next
      case no: False
      have "class_ranges n r True (m \<or> lo = r) r1 = Some (x, rest)" using Suc.prems False e no by auto
      then have "length rest < length r1" by (rule Suc.IH)
      then show ?thesis using get_esc_shorter [OF e] by simp
    qed
  qed
qed simp

lemma class_match_shorter: "class_match r chunk = Some (x, rest) \<Longrightarrow> length rest < length chunk"
proof -
  assume h: "class_match r chunk = Some (x, rest)"
  define body where "body = (if chunk \<noteq> [] \<and> hd chunk = CHR ''^'' then tl chunk else chunk)"
  obtain m where "class_ranges (Suc (length body)) r False False body = Some (m, rest)"
    using h unfolding class_match_def Let_def body_def [symmetric]
    by (cases "class_ranges (Suc (length body)) r False False body") auto
  from class_ranges_shorter [OF this] show ?thesis by (simp add: body_def split: if_splits)
qed

text \<open>\<open>matchChunk\<close>: what is left of the name after a chunk without stars. A mismatch and a
  malformed chunk are both \<open>None\<close>: a malformed chunk fails at every position.\<close>

function match_chunk :: "string \<Rightarrow> string \<Rightarrow> string option" where
  "match_chunk [] s = Some s"
| "match_chunk (c # p) s =
     (if s = [] then None
      else if c = CHR ''['' then
        (case class_match (fst (decode_rune s)) p of
           None \<Rightarrow> None
         | Some (ok, rest) \<Rightarrow> if ok then match_chunk rest (drop (snd (decode_rune s)) s) else None)
      else if c = CHR ''?'' then
        (if hd s = CHR ''/'' then None else match_chunk p (drop (snd (decode_rune s)) s))
      else if c = CHR 0x5C then
        (if p = [] then None else if hd s = hd p then match_chunk (tl p) (tl s) else None)
      else if hd s = c then match_chunk p (tl s) else None)"
  by pat_completeness auto

termination
  by (relation "measure (\<lambda>(p, s). length p)") (auto dest!: class_match_shorter)

text \<open>The part of a pattern up to its first star outside a class.\<close>

fun scan_chunk :: "bool \<Rightarrow> string \<Rightarrow> string \<times> string" where
  "scan_chunk inrange [] = ([], [])"
| "scan_chunk inrange [c] = (if c = CHR ''*'' \<and> \<not> inrange then ([], [c]) else ([c], []))"
| "scan_chunk inrange (c # d # cs) =
     (if c = CHR 0x5C then (case scan_chunk inrange cs of (a, b) \<Rightarrow> (c # d # a, b))
      else if c = CHR ''*'' \<and> \<not> inrange then ([], c # d # cs)
      else case scan_chunk (if c = CHR ''['' then True else if c = CHR '']'' then False else inrange) (d # cs) of
             (a, b) \<Rightarrow> (c # a, b))"

text \<open>The loop that skips \<open>i + 1\<close> bytes, never a slash.\<close>

fun match_skipping :: "string \<Rightarrow> bool \<Rightarrow> string \<Rightarrow> string option" where
  "match_skipping chunk final [] = None"
| "match_skipping chunk final (c # cs) =
     (if c = CHR ''/'' then None
      else case match_chunk chunk cs of
             None \<Rightarrow> match_skipping chunk final cs
           | Some t \<Rightarrow> if final \<and> t \<noteq> [] then match_skipping chunk final cs else Some t)"

lemma scan_chunk_append: "fst (scan_chunk r p) @ snd (scan_chunk r p) = p"
  by (induction r p rule: scan_chunk.induct) (auto split: prod.splits)

lemma scan_chunk_rest: "p \<noteq> [] \<Longrightarrow> hd p \<noteq> CHR ''*'' \<Longrightarrow> length (snd (scan_chunk False p)) < length p"
proof -
  assume "p \<noteq> []" "hd p \<noteq> CHR ''*''"
  then have "fst (scan_chunk False p) \<noteq> []"
    by (cases "(False, p)" rule: scan_chunk.cases) (auto split: prod.splits)
  then show ?thesis using arg_cong [OF scan_chunk_append [of False p], of length]
    by (auto simp flip: length_greater_0_conv)
qed

lemma scan_chunk_shorter:
  "p \<noteq> [] \<Longrightarrow> length (snd (scan_chunk False (dropWhile (\<lambda>c. c = CHR ''*'') p))) < length p"
proof -
  assume p: "p \<noteq> []"
  let ?q = "dropWhile (\<lambda>c. c = CHR ''*'') p"
  show ?thesis
  proof (cases "?q = []")
    case True
    show ?thesis unfolding True using p by simp
  next
    case False
    then show ?thesis
      using scan_chunk_rest [OF False hd_dropWhile [OF False]] length_dropWhile_le [of "\<lambda>c. c = CHR ''*''" p]
      by linarith
  qed
qed

function filepath_Match :: "string \<Rightarrow> string \<Rightarrow> bool" where
  "filepath_Match pattern name =
    (if pattern = [] then name = []
     else
       let star = (hd pattern = CHR ''*'');
           chunk = fst (scan_chunk False (dropWhile (\<lambda>c. c = CHR ''*'') pattern));
           rest = snd (scan_chunk False (dropWhile (\<lambda>c. c = CHR ''*'') pattern))
       in if star \<and> chunk = [] then \<not> strings_Contains name ''/''
          else case match_chunk chunk name of
                 Some t \<Rightarrow>
                   if t = [] \<or> rest \<noteq> [] then filepath_Match rest t
                   else if star then
                     (case match_skipping chunk (rest = []) name of
                        None \<Rightarrow> False
                      | Some t' \<Rightarrow> filepath_Match rest t')
                   else False
               | None \<Rightarrow>
                   if star then
                     (case match_skipping chunk (rest = []) name of
                        None \<Rightarrow> False
                      | Some t' \<Rightarrow> filepath_Match rest t')
                   else False)"
  by pat_completeness auto

termination
  by (relation "measure (\<lambda>(p, n). length p)") (auto dest: scan_chunk_shorter)

declare filepath_Match.simps [simp del]

subsection \<open>Bounds\<close>

lemma length_Base_le: "path \<noteq> [] \<Longrightarrow> length (filepath_Base path) \<le> length path"
proof -
  assume "path \<noteq> []"
  moreover have "length (takeWhile (\<lambda>c. c \<noteq> CHR ''/'') (rev (strings_TrimRight path ''/''))) \<le> length path"
    using length_takeWhile_le [of "\<lambda>c. c \<noteq> CHR ''/''" "rev (strings_TrimRight path ''/'')"]
      length_dropWhile_le [of "\<lambda>c. c \<in> set ''/''" "rev path"]
    by (simp add: strings_TrimRight_def)
  ultimately show ?thesis by (cases path) (auto simp: filepath_Base_def Let_def)
qed

end
