(* ===== verification/Classify_Shell.thy ===== *)
theory Classify_Shell
  imports Go_Path Policy_Surface
begin

text \<open>
  Shell commands as \<open>pkg/hooks/classify\<close> reads them: normalisation, splitting at compound
  operators, wrappers, command substitution and \<open>eval\<close> (\<open>shell.go\<close>, \<open>obfuscation.go\<close>), the
  risk order on verbs (\<open>risk.go\<close>) and the recognisers of \<open>exec.go\<close>, \<open>network.go\<close> and
  \<open>forge.go\<close>.

  Loops over an index become recursion on the part of the command that is left. Commands
  arrive as JSON strings, so they are valid UTF-8, and every character the splitter reacts
  to is ASCII: the rune loop of \<open>SplitCompoundCommand\<close> and a loop over bytes agree.
\<close>

definition any_prefix :: "string list \<Rightarrow> string \<Rightarrow> bool" where
  "any_prefix ps s = list_ex (strings_HasPrefix s) ps"

definition lower_trimmed :: "string \<Rightarrow> string" where
  "lower_trimmed cmd = strings_ToLower (strings_TrimSpace cmd)"

definition tab :: string where
  "tab = [CHR 0x09]"

subsection \<open>Normalising\<close>

fun env_skip :: "string list \<Rightarrow> string list" where
  "env_skip [] = []"
| "env_skip [p] = (if strings_HasPrefix p ''-'' \<or> strings_Contains p ''='' then [] else [p])"
| "env_skip (p # q # ps) =
     (if strings_HasPrefix p ''-'' then
        (if p = ''-u'' \<or> p = ''--unset'' then env_skip ps else env_skip (q # ps))
      else if strings_Contains p ''='' then env_skip (q # ps)
      else p # q # ps)"

definition is_assignment :: "string \<Rightarrow> bool" where
  "is_assignment p \<longleftrightarrow> strings_Contains p ''='' \<and> \<not> strings_HasPrefix p ''-''"

definition command_words :: "string list \<Rightarrow> string list" where
  "command_words parts =
    (case parts of
       [] \<Rightarrow> []
     | p # ps \<Rightarrow> if filepath_Base p = ''env'' then env_skip ps else dropWhile is_assignment parts)"

definition NormalizeCommand :: "string \<Rightarrow> string" where
  "NormalizeCommand cmd =
    (case command_words (strings_Fields (strings_TrimSpace cmd)) of
       [] \<Rightarrow> []
     | q # qs \<Rightarrow> strings_Join (filepath_Base q # qs) '' '')"

subsection \<open>Compound commands\<close>

definition drop_same :: "char \<Rightarrow> string \<Rightarrow> string" where
  "drop_same c cs = (case cs of [] \<Rightarrow> [] | d # ds \<Rightarrow> if d = c then ds else cs)"

lemma length_drop_same: "length (drop_same c cs) \<le> length cs"
  by (simp add: drop_same_def split: list.split)

text \<open>The current segment is kept reversed.\<close>

function split_compound :: "bool \<Rightarrow> bool \<Rightarrow> string \<Rightarrow> string \<Rightarrow> string list" where
  "split_compound inSingle inDouble current [] = (if current = [] then [] else [rev current])"
| "split_compound inSingle inDouble current (ch # cs) =
     (if ch = CHR 0x27 \<and> \<not> inDouble then split_compound (\<not> inSingle) inDouble (ch # current) cs
      else if ch = CHR 0x22 \<and> \<not> inSingle then split_compound inSingle (\<not> inDouble) (ch # current) cs
      else if inSingle \<or> inDouble then split_compound inSingle inDouble (ch # current) cs
      else if ch = CHR ''|'' then rev current # split_compound inSingle inDouble [] (drop_same ch cs)
      else if ch = CHR ''&'' then rev current # split_compound inSingle inDouble [] (drop_same ch cs)
      else if ch = CHR '';'' then rev current # split_compound inSingle inDouble [] cs
      else split_compound inSingle inDouble (ch # current) cs)"
  by pat_completeness auto

termination
  by (relation "measure (\<lambda>(s, d, cur, cs). length cs)") (auto simp: length_drop_same le_imp_less_Suc)

definition SplitCompoundCommand :: "string \<Rightarrow> string list" where
  "SplitCompoundCommand cmd = split_compound False False [] cmd"

subsection \<open>Wrappers\<close>

fun sudo_skip :: "string list \<Rightarrow> string list" where
  "sudo_skip [] = []"
| "sudo_skip [p] = (if strings_HasPrefix p ''-'' then [] else [p])"
| "sudo_skip (p # q # ps) =
     (if strings_HasPrefix p ''-'' then (if p = ''-u'' then sudo_skip ps else sudo_skip (q # ps))
      else p # q # ps)"

definition StripSudoPrefix :: "string \<Rightarrow> string" where
  "StripSudoPrefix cmd = strings_Join (sudo_skip (tl (strings_Fields (strings_TrimSpace cmd)))) '' ''"

definition dequoteOuter :: "string \<Rightarrow> string" where
  "dequoteOuter s =
    (if 2 \<le> length s \<and> (hd s = CHR 0x27 \<and> last s = CHR 0x27 \<or> hd s = CHR 0x22 \<and> last s = CHR 0x22)
     then butlast (tl s) else s)"

fun after_dash_c :: "string list \<Rightarrow> string list" where
  "after_dash_c [] = []"
| "after_dash_c (p # ps) =
     (if p = ''-c'' then ps
      else if strings_HasPrefix p ''-'' \<and> \<not> strings_HasPrefix p ''--'' \<and> strings_HasSuffix p ''c'' then ps
      else if strings_HasPrefix p ''-'' then after_dash_c ps
      else [])"

definition wrapper_shells :: "string list" where
  "wrapper_shells = [''bash'', ''sh'', ''zsh'', ''dash'', ''ksh'']"

definition ExtractShellWrapperInner :: "string \<Rightarrow> string option" where
  "ExtractShellWrapperInner cmd =
    (let parts = strings_Fields (strings_TrimSpace cmd) in
     if length parts < 3 \<or> strings_ToLower (filepath_Base (hd parts)) \<notin> set wrapper_shells then None
     else if after_dash_c (tl parts) = [] then None
     else
       let inner = strings_TrimSpace (dequoteOuter (strings_TrimSpace (strings_Join (after_dash_c (tl parts)) '' '')))
       in if inner = [] then None else Some inner)"

definition FlagTakesValue :: "string \<Rightarrow> bool" where
  "FlagTakesValue flag \<longleftrightarrow> flag \<in> set
     [''-d'', ''--data'', ''--data-binary'', ''--data-urlencode'', ''--data-raw'',
      ''-F'', ''--form'', ''--form-string'', ''-X'', ''--request'',
      ''-H'', ''--header'', ''-A'', ''--user-agent'', ''-e'', ''--referer'',
      ''-b'', ''--cookie'', ''-c'', ''--cookie-jar'', ''-u'', ''--user'', ''--oauth2-bearer'',
      ''-o'', ''--output'', ''-T'', ''--upload-file'', ''-w'', ''--write-out'',
      ''--cacert'', ''--cert'', ''--key'', ''--ciphers'',
      ''--resolve'', ''--interface'', ''--local-port'', ''--connect-timeout'', ''-m'', ''--max-time'',
      ''--max-redirs'', ''--retry'', ''--retry-delay'', ''--retry-max-time'',
      ''-x'', ''--proxy'', ''-U'', ''--proxy-user'', ''-K'', ''--config'', ''-r'', ''--range'', ''-z'', ''--time-cond'',
      ''-Y'', ''--speed-limit'', ''-y'', ''--speed-time'', ''--data-ascii'', ''--trace'', ''--trace-ascii'']"

subsection \<open>Substitutions and eval\<close>

text \<open>\<open>skipBalanced\<close> on what is left from the opening parenthesis: the span up to its match
  and the rest.\<close>

fun skipBalanced :: "int \<Rightarrow> bool \<Rightarrow> string \<Rightarrow> string \<times> string" where
  "skipBalanced depth inSingle [] = ([], [])"
| "skipBalanced depth inSingle (c # cs) =
     (if c = CHR 0x27 then apfst (Cons c) (skipBalanced depth (\<not> inSingle) cs)
      else if inSingle then apfst (Cons c) (skipBalanced depth inSingle cs)
      else if c = CHR ''('' then apfst (Cons c) (skipBalanced (depth + 1) inSingle cs)
      else if c = CHR '')'' then
        (if depth - 1 = 0 then ([c], cs) else apfst (Cons c) (skipBalanced (depth - 1) inSingle cs))
      else apfst (Cons c) (skipBalanced depth inSingle cs))"

lemma skipBalanced_append: "fst (skipBalanced d q s) @ snd (skipBalanced d q s) = s"
  by (induction d q s rule: skipBalanced.induct) auto

lemma skipBalanced_length: "length (snd (skipBalanced d q s)) \<le> length s"
  using arg_cong [OF skipBalanced_append [of d q s], of length] by simp

lemma skipBalanced_nonempty: "s \<noteq> [] \<Longrightarrow> fst (skipBalanced d q s) \<noteq> []"
  by (cases s) auto

definition opens_paren :: "string \<Rightarrow> bool" where
  "opens_paren cs \<longleftrightarrow> cs \<noteq> [] \<and> hd cs = CHR ''(''"

definition substitution_start :: "char \<Rightarrow> bool" where
  "substitution_start c \<longleftrightarrow> c = CHR ''$'' \<or> c = CHR ''<'' \<or> c = CHR ''>''"

definition trimmed_inner :: "string \<Rightarrow> string list" where
  "trimmed_inner s = (if strings_TrimSpace s = [] then [] else [strings_TrimSpace s])"

lemma length_tl_dropWhile: "length (dropWhile P cs) - Suc 0 < Suc (length cs)"
  using length_dropWhile_le [of P cs] by linarith

function extract_substitutions :: "bool \<Rightarrow> string \<Rightarrow> string list" where
  "extract_substitutions inSingle [] = []"
| "extract_substitutions inSingle (c # cs) =
     (if c = CHR 0x27 then extract_substitutions (\<not> inSingle) cs
      else if inSingle then extract_substitutions inSingle cs
      else if c = CHR ''$'' \<and> opens_paren cs \<and> opens_paren (tl cs)
      then extract_substitutions inSingle (snd (skipBalanced 0 False cs))
      else if substitution_start c \<and> opens_paren cs \<and> 1 < length (fst (skipBalanced 0 False cs))
      then trimmed_inner (butlast (tl (fst (skipBalanced 0 False cs))))
             @ extract_substitutions inSingle (snd (skipBalanced 0 False cs))
      else if c = CHR 0x60 \<and> dropWhile (\<lambda>d. d \<noteq> CHR 0x60) cs \<noteq> []
      then trimmed_inner (takeWhile (\<lambda>d. d \<noteq> CHR 0x60) cs)
             @ extract_substitutions inSingle (tl (dropWhile (\<lambda>d. d \<noteq> CHR 0x60) cs))
      else extract_substitutions inSingle cs)"
  by pat_completeness auto

termination
  by (relation "measure (\<lambda>(q, cs). length cs)")
    (auto simp: skipBalanced_length length_tl_dropWhile le_imp_less_Suc)

definition ExtractCommandSubstitutions :: "string \<Rightarrow> string list" where
  "ExtractCommandSubstitutions cmd = extract_substitutions False cmd"

function strip_substitutions :: "bool \<Rightarrow> string \<Rightarrow> string" where
  "strip_substitutions inSingle [] = []"
| "strip_substitutions inSingle (c # cs) =
     (if c = CHR 0x27 then c # strip_substitutions (\<not> inSingle) cs
      else if inSingle then c # strip_substitutions inSingle cs
      else if substitution_start c \<and> opens_paren cs
      then CHR '' '' # strip_substitutions inSingle (snd (skipBalanced 0 False cs))
      else if c = CHR 0x60 \<and> dropWhile (\<lambda>d. d \<noteq> CHR 0x60) cs \<noteq> []
      then CHR '' '' # strip_substitutions inSingle (tl (dropWhile (\<lambda>d. d \<noteq> CHR 0x60) cs))
      else c # strip_substitutions inSingle cs)"
  by pat_completeness auto

termination
  by (relation "measure (\<lambda>(q, cs). length cs)")
    (auto simp: skipBalanced_length length_tl_dropWhile le_imp_less_Suc)

definition StripCommandSubstitutions :: "string \<Rightarrow> string" where
  "StripCommandSubstitutions cmd = strip_substitutions False cmd"

definition ExtractEvalArguments :: "string \<Rightarrow> string option" where
  "ExtractEvalArguments cmd =
    (let trimmed = strings_TrimSpace cmd; fields = strings_Fields trimmed in
     if length fields < 2 \<or> hd fields \<noteq> ''eval'' then None
     else
       let arg = dequoteOuter (strings_TrimSpace (strings_TrimPrefix trimmed ''eval'')) in
       if arg = [] then None else Some arg)"

definition shellInterpreters :: "string list" where
  "shellInterpreters = [''sh'', ''bash'', ''zsh'', ''dash'', ''ksh'', ''fish'']"

fun reads_stdin :: "string list \<Rightarrow> bool" where
  "reads_stdin [] = True"
| "reads_stdin (a # args) =
     (if a = ''-c'' then False else if strings_HasPrefix a ''-'' then reads_stdin args else False)"

definition dynamic_eval :: "string \<Rightarrow> bool" where
  "dynamic_eval seg \<longleftrightarrow>
    (let st = strings_TrimSpace seg; fields = strings_Fields st in
     fields \<noteq> [] \<and> hd fields = ''eval'' \<and> (strings_Contains st ''$('' \<or> strings_Contains st [CHR 0x60]))"

fun stdin_interpreter :: "string list \<Rightarrow> string option" where
  "stdin_interpreter [] = None"
| "stdin_interpreter (seg # segs) =
    (let fields = strings_Fields (strings_TrimSpace seg) in
     if fields = [] then stdin_interpreter segs
     else
       let base = strings_ToLower (filepath_Base (hd fields)) in
       if base \<in> set shellInterpreters \<and> reads_stdin (tl fields) then Some base
       else stdin_interpreter segs)"

text \<open>The reason when the command is opaque.\<close>

definition IsOpaqueShellExec :: "string \<Rightarrow> string option" where
  "IsOpaqueShellExec cmd =
    (let segs = SplitCompoundCommand cmd in
     if list_ex dynamic_eval segs then Some ''runs eval on dynamically-generated content''
     else case stdin_interpreter (tl segs) of
            None \<Rightarrow> None
          | Some base \<Rightarrow>
              Some (''pipes into '' @ [CHR 0x27] @ base @ [CHR 0x27] @ '' reading its program from stdin''))"

subsection \<open>The risk of a verb\<close>

definition VerbRisk :: "Verb \<Rightarrow> int" where
  "VerbRisk verb =
    (if verb = VerbSirSelf then 100
     else if verb \<in> {VerbNetExternal, VerbDnsLookup, VerbMcpCredentialLeak} then 90
     else if verb = VerbPushRemote then 85
     else if verb = VerbDangerousShell then 80
     else if verb \<in> {VerbNetAllowlisted, VerbPushOrigin} then 70
     else if verb = VerbRunEphemeral then 65
     else if verb \<in> {VerbEnvRead, VerbPersistence, VerbSudo, VerbDeletePosture} then 60
     else if verb = VerbStageWrite then 50
     else if verb = VerbNetLocal then 40
     else if verb = VerbExecuteDryRun then 10
     else if verb \<in> {VerbReadRef, VerbListFiles, VerbSearchCode, VerbRunTests, VerbCommit} then 5
     else 10)"

subsection \<open>Git, environment, persistence, sudo\<close>

definition has_quote :: "string \<Rightarrow> bool" where
  "has_quote s \<longleftrightarrow> CHR 0x27 \<in> set s \<or> CHR 0x22 \<in> set s"

definition ends_in_quote :: "string \<Rightarrow> bool" where
  "ends_in_quote s \<longleftrightarrow> strings_HasSuffix s [CHR 0x22] \<or> strings_HasSuffix s [CHR 0x27]"

text \<open>The rest of a quoted flag value that the white space split took apart.\<close>

fun skip_quoted :: "string \<Rightarrow> string list \<Rightarrow> string list" where
  "skip_quoted cur [] = []"
| "skip_quoted cur (next # rest) =
     (if strings_HasPrefix next ''-'' then next # rest
      else if \<not> has_quote next \<and> \<not> has_quote cur then next # rest
      else if ends_in_quote next then rest
      else skip_quoted next rest)"

lemma length_skip_quoted: "length (skip_quoted cur rest) \<le> length rest"
  by (induction cur rest rule: skip_quoted.induct) auto

definition git_valued_flags :: "string list" where
  "git_valued_flags = [''-c'', ''-C'', ''--git-dir'', ''--work-tree'', ''--namespace'', ''--config-env'',
     ''--exec-path'', ''--html-path'']"

function git_subcommand :: "string list \<Rightarrow> string option" where
  "git_subcommand [] = None"
| "git_subcommand (p # ps) =
     (if strings_HasPrefix p ''-'' then
        (if strings_Contains p ''='' then git_subcommand ps
         else if p \<in> set git_valued_flags \<and> ps \<noteq> [] then git_subcommand (skip_quoted (hd ps) (tl ps))
         else git_subcommand ps)
      else Some p)"
  by pat_completeness auto

termination
proof (relation "measure length", goal_cases)
  case (3 p ps)
  then show ?case using length_skip_quoted [of "hd ps" "tl ps"] by simp
qed auto

definition GitSubcommandIs :: "string \<Rightarrow> string \<Rightarrow> bool" where
  "GitSubcommandIs cmd subcmd \<longleftrightarrow>
    (let parts = strings_Fields cmd in
     2 \<le> length parts \<and> hd parts = ''git'' \<and> git_subcommand (tl parts) = Some subcmd)"

definition IsGitPush :: "string \<Rightarrow> bool" where
  "IsGitPush cmd = GitSubcommandIs cmd ''push''"

definition IsGitCommit :: "string \<Rightarrow> bool" where
  "IsGitCommit cmd = GitSubcommandIs cmd ''commit''"

definition secretVarNames :: "string list" where
  "secretVarNames = [''aws_secret'', ''aws_access_key'', ''database_url'', ''db_password'',
     ''api_key'', ''api_secret'', ''secret_key'', ''private_key'',
     ''token'', ''auth_token'', ''access_token'', ''refresh_token'',
     ''password'', ''passwd'', ''credentials'', ''stripe_secret'', ''github_token'', ''npm_token'']"

definition IsEnvCommand :: "string \<Rightarrow> bool" where
  "IsEnvCommand cmd \<longleftrightarrow>
    (let lower = lower_trimmed cmd in
     list_ex (\<lambda>p. lower = p \<or> strings_HasPrefix lower (p @ '' '') \<or> strings_HasPrefix lower (p @ tab))
       [''env'', ''printenv'']
     \<or> lower = ''set''
     \<or> (any_prefix [''echo $'', ''echo '' @ [CHR 0x22] @ ''$'', ''echo '' @ [CHR 0x27] @ ''$''] lower
        \<and> list_ex (strings_Contains lower) secretVarNames))"

definition IsPersistenceCommand :: "string \<Rightarrow> bool" where
  "IsPersistenceCommand cmd \<longleftrightarrow>
    (let lower = lower_trimmed cmd in
     any_prefix [''crontab '', ''crontab'' @ tab, ''at '', ''at'' @ tab,
       ''launchctl load '', ''launchctl submit '', ''systemctl enable '', ''systemctl start ''] lower
     \<or> lower = ''crontab'')"

definition IsSudoCommand :: "string \<Rightarrow> bool" where
  "IsSudoCommand cmd \<longleftrightarrow> any_prefix [''sudo '', ''sudo'' @ tab] (lower_trimmed cmd)"

subsection \<open>Network commands\<close>

definition network_prefixes :: "string list" where
  "network_prefixes = [''curl '', ''curl'' @ tab, ''wget '', ''wget'' @ tab,
     ''ssh '', ''ssh'' @ tab, ''scp '', ''scp'' @ tab, ''sftp '', ''sftp'' @ tab,
     ''rsync '', ''rsync'' @ tab, ''ftp '', ''ftp'' @ tab, ''ftps '', ''lftp '', ''ncftp '',
     ''nc '', ''nc'' @ tab, ''ncat '', ''netcat '', ''netcat'' @ tab, ''socat '', ''socat'' @ tab,
     ''telnet '', ''telnet'' @ tab, ''openssl s_client'',
     ''aws s3 cp'', ''aws s3 sync'', ''aws s3 mv'', ''gsutil cp'', ''gsutil rsync'', ''gsutil mv'',
     ''az storage blob upload'', ''rclone copy'', ''rclone sync'', ''rclone move'',
     ''s3cmd put'', ''s3cmd sync'', ''smbclient '', ''tftp '']"

definition IsNetworkCommand :: "string \<Rightarrow> bool" where
  "IsNetworkCommand cmd = any_prefix network_prefixes (lower_trimmed cmd)"

fun first_destination :: "string list \<Rightarrow> string" where
  "first_destination [] = []"
| "first_destination [p] = (if strings_HasPrefix p ''-'' then [] else p)"
| "first_destination (p # q # ps) =
     (if strings_HasPrefix p ''-'' then
        (if FlagTakesValue p then first_destination ps else first_destination (q # ps))
      else p)"

definition ExtractNetworkDest :: "string \<Rightarrow> string" where
  "ExtractNetworkDest cmd = first_destination (tl (strings_Fields cmd))"

definition hostnameForTunnelCheck :: "string \<Rightarrow> string" where
  "hostnameForTunnelCheck raw0 =
    (let raw1 = lower_trimmed raw0;
         raw2 = (case strings_Index raw1 ''://'' of None \<Rightarrow> raw1 | Some i \<Rightarrow> drop (i + 3) raw1);
         raw3 = (case strings_IndexAny raw2 ''/?#'' of None \<Rightarrow> raw2 | Some i \<Rightarrow> take i raw2);
         raw4 = (case strings_LastIndexByte raw3 (CHR ''@'') of None \<Rightarrow> raw3 | Some i \<Rightarrow> drop (Suc i) raw3);
         raw5 = (case strings_LastIndexByte raw4 (CHR '':'') of
                   None \<Rightarrow> raw4
                 | Some i \<Rightarrow> if strings_Contains raw4 '']'' then raw4 else take i raw4)
     in strings_Trim raw5 ''.'')"

definition IsDNSCommand :: "string \<Rightarrow> bool" where
  "IsDNSCommand cmd =
     any_prefix [''nslookup '', ''dig '', ''host '', ''drill '', ''whois '', ''hping '', ''hping3 ''] (lower_trimmed cmd)"

definition IsPingCommand :: "string \<Rightarrow> bool" where
  "IsPingCommand cmd = any_prefix [''ping '', ''ping6 ''] (lower_trimmed cmd)"

definition inline_code_flag :: "string \<Rightarrow> bool" where
  "inline_code_flag part \<longleftrightarrow>
     part \<in> set [''-c'', ''-e'', ''-r'', ''--eval'']
     \<or> (strings_HasPrefix part ''-'' \<and> \<not> strings_HasPrefix part ''--'' \<and> 2 < length part
        \<and> (strings_HasSuffix part ''c'' \<or> strings_HasSuffix part ''e'' \<or> strings_HasSuffix part ''r''))"

definition interpreterPrefixes :: "string list" where
  "interpreterPrefixes = [''python '', ''python3 '', ''python2 '', ''node '', ''nodejs '', ''ruby '', ''perl '',
     ''php '', ''bun '', ''deno '', ''go run '', ''rscript '']"

definition networkPatterns :: "string list" where
  "networkPatterns = [''requests.'', ''urllib'', ''http.client'', ''httpx'', ''aiohttp'',
     ''socket.connect'', ''socket.create_connection'', ''ssl.'', ''urlopen'', ''urllib2'',
     ''fetch('', ''http.get'', ''https.get'',
     ''require('' @ [CHR 0x27] @ ''http'', ''require('' @ [CHR 0x22] @ ''http'',
     ''require('' @ [CHR 0x27] @ ''https'', ''require('' @ [CHR 0x22] @ ''https'',
     ''axios'', ''got('', ''superagent'', ''needle'',
     ''net::http'', ''open-uri'', ''uri.open'', ''faraday'', ''httparty'', ''restclient'', ''tcpsocket'',
     ''lwp::'', ''http::'', ''www::mechanize'', ''io::socket'', ''net::http'',
     ''curl_init'', ''file_get_contents'', ''fsockopen'', ''stream_socket_client'',
     ''.connect('', ''socket('', ''.send('']"

definition IsInterpreterNetworkCommand :: "string \<Rightarrow> bool" where
  "IsInterpreterNetworkCommand cmd \<longleftrightarrow>
     any_prefix interpreterPrefixes (lower_trimmed cmd)
     \<and> list_ex inline_code_flag (tl (strings_Fields cmd))
     \<and> list_ex (\<lambda>p. strings_Contains (strings_ToLower cmd) (strings_ToLower p)) networkPatterns"

definition IsTestCommand :: "string \<Rightarrow> bool" where
  "IsTestCommand cmd =
     any_prefix [''go test'', ''npm test'', ''npm run test'', ''yarn test'',
       ''pytest'', ''python -m pytest'', ''python3 -m pytest'',
       ''cargo test'', ''make test'', ''bundle exec rspec'', ''jest'', ''vitest'', ''mocha''] (lower_trimmed cmd)"

subsection \<open>Forge command lines\<close>

definition forgeGlobalValuedFlags :: "string list" where
  "forgeGlobalValuedFlags = [''-R'', ''--repo'', ''-H'', ''--hostname'', ''-c'', ''--config'', ''-C'', ''--cwd'',
     ''-g'', ''--group'', ''-p'', ''--project'']"

definition flagTakesValue :: "string \<Rightarrow> bool" where
  "flagTakesValue token \<longleftrightarrow> takeWhile (\<lambda>c. c \<noteq> CHR ''='') token \<in> set forgeGlobalValuedFlags"

definition separate_value :: "string \<Rightarrow> bool" where
  "separate_value token \<longleftrightarrow> flagTakesValue token \<and> \<not> strings_Contains token ''=''"

fun firstNonFlag :: "string list \<Rightarrow> string option" where
  "firstNonFlag [] = None"
| "firstNonFlag [t] = (if t = ''--'' \<or> strings_HasPrefix t ''-'' then None else Some t)"
| "firstNonFlag (t # u # ts) =
     (if t = ''--'' then Some u
      else if strings_HasPrefix t ''-'' then (if separate_value t then firstNonFlag ts else firstNonFlag (u # ts))
      else Some t)"

fun stripLeadingFlags :: "string list \<Rightarrow> string list" where
  "stripLeadingFlags [] = []"
| "stripLeadingFlags [t] = (if t = ''--'' then [] else if \<not> strings_HasPrefix t ''-'' then [t] else [])"
| "stripLeadingFlags (t # u # ts) =
     (if t = ''--'' then u # ts
      else if \<not> strings_HasPrefix t ''-'' then t # u # ts
      else if separate_value t then stripLeadingFlags ts
      else stripLeadingFlags (u # ts))"

definition actionIn :: "string list \<Rightarrow> string list \<Rightarrow> bool" where
  "actionIn args allowed = (case firstNonFlag args of None \<Rightarrow> False | Some a \<Rightarrow> a \<in> set allowed)"

definition isWriteHTTPMethod :: "string \<Rightarrow> bool" where
  "isWriteHTTPMethod method \<longleftrightarrow>
     strings_ToUpper (strings_Trim method [CHR 0x22, CHR 0x27]) \<in> set [''POST'', ''PUT'', ''PATCH'', ''DELETE'']"

fun apiWriteFlags :: "string list \<Rightarrow> bool" where
  "apiWriteFlags [] = False"
| "apiWriteFlags (token # args) =
     (if token = ''-X'' \<or> token = ''--method'' then
        (case args of [] \<Rightarrow> False | m # rest \<Rightarrow> isWriteHTTPMethod m \<or> apiWriteFlags rest)
      else if strings_HasPrefix token ''-X'' \<and> 2 < length token then
        isWriteHTTPMethod (drop 2 token) \<or> apiWriteFlags args
      else if strings_HasPrefix token ''--method='' then
        isWriteHTTPMethod (strings_TrimPrefix token ''--method='') \<or> apiWriteFlags args
      else if token \<in> set [''--input'', ''--field'', ''--raw-field'', ''-f'', ''-F''] then True
      else if any_prefix [''--input='', ''--field='', ''--raw-field=''] token then True
      else if strings_HasPrefix token ''-f'' \<and> 2 < length token then True
      else if strings_HasPrefix token ''-F'' \<and> 2 < length token then True
      else apiWriteFlags args)"

definition isGitHubPublish :: "string list \<Rightarrow> bool" where
  "isGitHubPublish args0 =
    (case stripLeadingFlags args0 of
       [] \<Rightarrow> False
     | sub # rest \<Rightarrow>
         if sub = ''pr'' then actionIn rest [''create'', ''edit'', ''comment'', ''review'', ''merge'', ''close'', ''reopen'', ''ready'', ''lock'', ''unlock'']
         else if sub = ''issue'' then actionIn rest [''create'', ''edit'', ''comment'', ''close'', ''reopen'', ''pin'', ''unpin'', ''lock'', ''unlock'', ''transfer'']
         else if sub = ''gist'' then actionIn rest [''create'', ''edit'', ''delete'']
         else if sub = ''release'' then actionIn rest [''create'', ''upload'', ''edit'', ''delete'', ''undelete'']
         else if sub = ''repo'' then actionIn rest [''create'', ''edit'', ''delete'', ''fork'', ''rename'', ''archive'', ''unarchive'', ''transfer'']
         else if sub = ''api'' then apiWriteFlags rest
         else False)"

definition isGitLabPublish :: "string list \<Rightarrow> bool" where
  "isGitLabPublish args0 =
    (case stripLeadingFlags args0 of
       [] \<Rightarrow> False
     | sub # rest \<Rightarrow>
         if sub \<in> set [''mr'', ''merge-request'', ''merge_request''] then
           actionIn rest [''create'', ''update'', ''edit'', ''note'', ''comment'', ''merge'', ''approve'', ''revoke'', ''close'', ''reopen'', ''delete'']
         else if sub = ''issue'' then actionIn rest [''create'', ''update'', ''edit'', ''note'', ''comment'', ''close'', ''reopen'', ''delete'']
         else if sub = ''snippet'' then actionIn rest [''create'', ''update'', ''edit'', ''delete'']
         else if sub = ''release'' then actionIn rest [''create'', ''upload'', ''update'', ''edit'', ''delete'']
         else if sub \<in> set [''repo'', ''project''] then
           actionIn rest [''create'', ''fork'', ''update'', ''edit'', ''delete'', ''archive'', ''unarchive'', ''transfer'']
         else if sub = ''api'' then apiWriteFlags rest
         else False)"

definition isHubPublish :: "string list \<Rightarrow> bool" where
  "isHubPublish args0 =
    (case stripLeadingFlags args0 of
       [] \<Rightarrow> False
     | sub # rest \<Rightarrow>
         if sub = ''pull-request'' then True
         else if sub = ''issue'' then actionIn rest [''create'', ''edit'', ''comment'', ''close'', ''reopen'']
         else if sub = ''release'' then actionIn rest [''create'', ''edit'', ''delete'']
         else sub \<in> set [''fork'', ''push''])"

definition isTeaPublish :: "string list \<Rightarrow> bool" where
  "isTeaPublish args0 =
    (case stripLeadingFlags args0 of
       [] \<Rightarrow> False
     | sub # rest \<Rightarrow>
         if sub \<in> set [''pulls'', ''pull'', ''prs'', ''pr''] then
           actionIn rest [''create'', ''edit'', ''comment'', ''close'', ''reopen'', ''merge'']
         else if sub \<in> set [''issues'', ''issue''] then actionIn rest [''create'', ''edit'', ''comment'', ''close'', ''reopen'']
         else if sub \<in> set [''releases'', ''release''] then actionIn rest [''create'', ''edit'', ''delete'']
         else if sub \<in> set [''repos'', ''repo''] then actionIn rest [''create'', ''fork'', ''edit'', ''delete'']
         else if sub = ''api'' then apiWriteFlags rest
         else False)"

text \<open>The remote name when the command publishes.\<close>

definition ClassifyForgePublish :: "string \<Rightarrow> string option" where
  "ClassifyForgePublish cmd =
    (case strings_Fields (strings_TrimSpace cmd) of
       [] \<Rightarrow> None
     | tool # args \<Rightarrow>
         if tool = ''gh'' then (if isGitHubPublish args then Some ''github-cli'' else None)
         else if tool = ''glab'' then (if isGitLabPublish args then Some ''gitlab-cli'' else None)
         else if tool = ''hub'' then (if isHubPublish args then Some ''github-hub'' else None)
         else if tool = ''tea'' then (if isTeaPublish args then Some ''gitea-cli'' else None)
         else None)"

end
