(* ===== verification/Classify_Dangerous.thy ===== *)
theory Classify_Dangerous
  imports Classify_Shell
begin

text \<open>
  Destructive local commands: \<open>classify/dangerous.go\<close>. Arguments are compared after
  stripping quotes and trailing separators, in lower case, with backslashes turned round.
\<close>

subsection \<open>Tokens\<close>

definition cleanShellToken :: "string \<Rightarrow> string" where
  "cleanShellToken token =
     strings_TrimRight (strings_Trim (strings_TrimSpace token) [CHR 0x22, CHR 0x27]) '';,''"

definition cleanLowerToken :: "string \<Rightarrow> string" where
  "cleanLowerToken token =
     strings_TrimRight (replace_byte (CHR 0x5C) (CHR ''/'') (strings_ToLower (cleanShellToken token))) '';''"

definition commandName :: "string \<Rightarrow> string" where
  "commandName token =
    (let base = filepath_Base (cleanShellToken token);
         tail = (case strings_LastIndexAny base [CHR 0x5C, CHR ''/''] of None \<Rightarrow> base | Some i \<Rightarrow> drop (Suc i) base)
     in strings_TrimSuffix (strings_ToLower tail) ''.exe'')"

fun after_flag :: "string list \<Rightarrow> string list \<Rightarrow> string list" where
  "after_flag flags [] = []"
| "after_flag flags (f # fs) =
     (if strings_ToLower (cleanShellToken f) \<in> set flags \<and> fs \<noteq> [] then fs else after_flag flags fs)"

definition windowsShellWrapperInner :: "string \<Rightarrow> string list \<Rightarrow> string option" where
  "windowsShellWrapperInner name words =
    (let flags = (if name \<in> set [''powershell'', ''pwsh''] then [''-command'', ''-c'']
                  else if name = ''cmd'' then [''/c'', ''/k''] else []);
         inner = after_flag flags (tl words)
     in if inner = [] then None else Some (dequoteOuter (strings_Join inner '' '')))"

definition containsAnyToken :: "string list \<Rightarrow> string list \<Rightarrow> bool" where
  "containsAnyToken words wants =
     list_ex (\<lambda>f. list_ex (\<lambda>want. cleanLowerToken f = strings_ToLower want) wants) words"

fun last_positional :: "string list \<Rightarrow> string option" where
  "last_positional [] = None"
| "last_positional (f # fs) =
    (let tok = cleanShellToken f in
     if tok = [] \<or> strings_HasPrefix tok ''-'' then last_positional fs else Some tok)"

definition lastPositionalTarget :: "string list \<Rightarrow> string option" where
  "lastPositionalTarget words = last_positional (rev words)"

subsection \<open>Targets\<close>

definition isWindowsDriveRoot :: "string \<Rightarrow> bool" where
  "isWindowsDriveRoot token \<longleftrightarrow>
    (let tok = strings_TrimRight (cleanLowerToken token) ''/'' in
     2 \<le> length tok \<and> tok ! 1 = CHR '':''
     \<and> (97::nat) \<le> of_char (tok ! 0) \<and> (of_char (tok ! 0) :: nat) \<le> 122
     \<and> (length tok = 2 \<or> tok = [tok ! 0, CHR '':'', CHR ''*''] \<or> tok = [tok ! 0, CHR '':'', CHR ''/'', CHR ''*'']))"

definition isWindowsEnvRoot :: "string \<Rightarrow> bool" where
  "isWindowsEnvRoot token \<longleftrightarrow>
    (let tok = strings_TrimRight (cleanLowerToken token) ''/'' in
     tok \<in> set [''%systemdrive%'', ''%homedrive%'', ''%userprofile%'']
     \<or> any_prefix [''%systemdrive%/'', ''%homedrive%/'', ''%userprofile%/''] tok)"

definition critical_targets :: "string list" where
  "critical_targets =
    [''/'', ''/*'', ''~'', ''~/'', ''~/*'', ''$home'', ''${home}'', ''$env:home'', ''$env:userprofile'',
     ''%userprofile%'', ''%systemdrive%'', ''%homedrive%'', ''$pwd'', ''${pwd}'', ''$env:pwd'',
     ''$home/*'', ''${home}/*'', ''$env:home/*'', ''$env:userprofile/*'', ''$pwd/*'', ''${pwd}/*'',
     ''$env:pwd/*'', ''.'', ''./'', ''./*'', ''..'', ''../'', ''../*'']"

definition isCriticalDeleteTarget :: "string \<Rightarrow> bool" where
  "isCriticalDeleteTarget token \<longleftrightarrow>
    (let tok = strings_TrimPrefix (cleanLowerToken token) ''--'' in
     if tok \<in> set [[], ''-'', ''--''] then False
     else tok \<in> set critical_targets \<or> isWindowsDriveRoot tok \<or> isWindowsEnvRoot tok)"

definition safe_devices :: "string list" where
  "safe_devices = [''/dev/null'', ''/dev/zero'', ''/dev/random'', ''/dev/urandom'',
     ''/dev/stdin'', ''/dev/stdout'', ''/dev/stderr'', ''/dev/fd'', ''/dev/tty'']"

definition isDangerousDevicePath :: "string \<Rightarrow> bool" where
  "isDangerousDevicePath token \<longleftrightarrow>
    (let tok = strings_TrimRight (cleanLowerToken token) ''/'' in
     \<not> list_ex (\<lambda>safe. tok = safe \<or> strings_HasPrefix tok (safe @ ''/'')) safe_devices
     \<and> any_prefix [''/dev/sd'', ''/dev/xvd'', ''/dev/vd'', ''/dev/hd'', ''/dev/nvme'',
          ''/dev/disk'', ''/dev/rdisk'', ''/dev/mapper/'', ''/dev/dm-'', ''/dev/md''] tok)"

definition isRedirectToken :: "string \<Rightarrow> bool" where
  "isRedirectToken tok \<longleftrightarrow> tok \<in> set [''>'', ''1>'', ''>>'', ''1>>'']"

definition anyCriticalTarget :: "string list \<Rightarrow> bool" where
  "anyCriticalTarget words = list_ex isCriticalDeleteTarget words"

definition anyWindowsDriveTarget :: "string list \<Rightarrow> bool" where
  "anyWindowsDriveTarget words = list_ex isWindowsDriveRoot words"

definition hasRecursiveFlag :: "string list \<Rightarrow> bool" where
  "hasRecursiveFlag words =
     list_ex (\<lambda>f. let tok = cleanLowerToken f in
         tok \<in> set [''-r'', ''-R'', ''--recursive'', ''-recurse'', ''/s'']
         \<or> (strings_HasPrefix tok ''-'' \<and> \<not> strings_HasPrefix tok ''--'' \<and> strings_Contains tok ''r'')) words"

definition containsWorldWritableMode :: "string list \<Rightarrow> bool" where
  "containsWorldWritableMode words =
     list_ex (\<lambda>f. cleanLowerToken f \<in> set [''777'', ''0777'', ''666'', ''0666'', ''a+w'', ''ugo+w'', ''o+w'', ''+w'']) words"

definition containsEveryoneFullControl :: "string list \<Rightarrow> bool" where
  "containsEveryoneFullControl words =
     list_ex (\<lambda>f. cleanLowerToken f \<in> set [''everyone:f'', ''everyone:(f)'', ''*s-1-1-0:f'', ''*s-1-1-0:(f)'']) words"

subsection \<open>The rules\<close>

text \<open>Every rule sees the command name and all fields, the first one included.\<close>

definition isDangerousRm :: "string \<Rightarrow> string list \<Rightarrow> bool" where
  "isDangerousRm name words \<longleftrightarrow>
     name = ''rm'' \<and> hasRecursiveFlag (tl words) \<and> list_ex isCriticalDeleteTarget (tl words)"

definition isDangerousPowerShellRemove :: "string \<Rightarrow> string list \<Rightarrow> bool" where
  "isDangerousPowerShellRemove name words \<longleftrightarrow>
     name \<in> set [''remove-item'', ''ri''] \<and> hasRecursiveFlag (tl words) \<and> list_ex isCriticalDeleteTarget (tl words)"

fun containsRmRecursive :: "string list \<Rightarrow> bool" where
  "containsRmRecursive [] = False"
| "containsRmRecursive (f # fs) \<longleftrightarrow> (commandName f = ''rm'' \<and> hasRecursiveFlag fs) \<or> containsRmRecursive fs"

fun critical_start :: "string list \<Rightarrow> bool" where
  "critical_start [] = False"
| "critical_start (f # fs) =
     (if strings_HasPrefix (cleanLowerToken f) ''-'' then critical_start fs else isCriticalDeleteTarget f)"

text \<open>\<open>words[i+2:]\<close> with \<open>i\<close> counted from the second field is what follows the flag.\<close>

fun find_deletes :: "string list \<Rightarrow> bool" where
  "find_deletes [] = False"
| "find_deletes (f # fs) =
    (let tok = cleanLowerToken f in
     tok = ''-delete'' \<or> (tok = ''-exec'' \<and> containsRmRecursive fs) \<or> find_deletes fs)"

definition isDangerousFind :: "string \<Rightarrow> string list \<Rightarrow> bool" where
  "isDangerousFind name words \<longleftrightarrow>
     name = ''find'' \<and> 2 \<le> length words \<and> critical_start (tl words) \<and> find_deletes (tl words)"

definition isDangerousDiskCommand :: "string \<Rightarrow> string list \<Rightarrow> bool" where
  "isDangerousDiskCommand name words \<longleftrightarrow>
     name \<in> set [''mkfs'', ''mke2fs'', ''newfs'', ''wipefs'', ''blkdiscard''] \<or> strings_HasPrefix name ''mkfs.''
     \<or> (name = ''dd'' \<and> list_ex (\<lambda>f. let tok = cleanLowerToken f in
           strings_HasPrefix tok ''of='' \<and> isDangerousDevicePath (strings_TrimPrefix tok ''of='')) (tl words))
     \<or> (name = ''tee'' \<and> list_ex isDangerousDevicePath (tl words))
     \<or> (name = ''cp'' \<and> (case lastPositionalTarget (tl words) of None \<Rightarrow> False | Some t \<Rightarrow> isDangerousDevicePath t))
     \<or> (name = ''shred'' \<and> list_ex isDangerousDevicePath (tl words))
     \<or> (name = ''sgdisk'' \<and> containsAnyToken (tl words) [''--zap-all'', ''-zap-all''])
     \<or> (name = ''parted'' \<and> containsAnyToken (tl words) [''mklabel''])
     \<or> (name = ''cryptsetup'' \<and> containsAnyToken (tl words) [''luksformat''])"

definition isDangerousPermissionCommand :: "string \<Rightarrow> string list \<Rightarrow> bool" where
  "isDangerousPermissionCommand name words =
    (if name = ''chmod'' then hasRecursiveFlag (tl words) \<and> containsWorldWritableMode (tl words)
     else if name \<in> set [''chown'', ''chgrp''] then hasRecursiveFlag (tl words) \<and> list_ex isCriticalDeleteTarget (tl words)
     else False)"

definition clean_flag :: "string \<Rightarrow> string \<Rightarrow> bool" where
  "clean_flag letter f \<longleftrightarrow>
    (let tok = cleanLowerToken f in
     if strings_HasPrefix tok ''--'' then tok = ''--force'' \<and> letter = ''f''
     else strings_HasPrefix tok ''-'' \<and> strings_Contains tok letter)"

definition isDangerousGitCommand :: "string \<Rightarrow> string list \<Rightarrow> bool" where
  "isDangerousGitCommand cmd words \<longleftrightarrow>
     2 \<le> length words \<and> commandName (hd words) = ''git''
     \<and> ((GitSubcommandIs cmd ''clean''
          \<and> list_ex (clean_flag ''f'') (tl words) \<and> list_ex (clean_flag ''d'') (tl words) \<and> list_ex (clean_flag ''x'') (tl words))
        \<or> (GitSubcommandIs cmd ''reset'' \<and> containsAnyToken (tl words) [''--hard''])
        \<or> ((GitSubcommandIs cmd ''checkout'' \<or> GitSubcommandIs cmd ''restore'') \<and> list_ex isCriticalDeleteTarget (tl words)))"

fun isDangerousRedirection :: "string list \<Rightarrow> bool" where
  "isDangerousRedirection [] = False"
| "isDangerousRedirection (f # fs) =
    (let tok = cleanLowerToken f in
     (isRedirectToken tok \<and> fs \<noteq> [] \<and> isDangerousDevicePath (hd fs))
     \<or> (case strings_LastIndexByte tok (CHR ''>'') of
          None \<Rightarrow> False
        | Some i \<Rightarrow> isDangerousDevicePath (drop (Suc i) tok))
     \<or> isDangerousRedirection fs)"

definition isDangerousWindowsCommand :: "string \<Rightarrow> string list \<Rightarrow> bool" where
  "isDangerousWindowsCommand name words =
    (let args = tl words in
     if name \<in> set [''del'', ''erase''] then containsAnyToken args [''/s''] \<and> anyCriticalTarget args
     else if name \<in> set [''rmdir'', ''rd''] then containsAnyToken args [''/s''] \<and> anyCriticalTarget args
     else if name = ''format'' then anyWindowsDriveTarget args
     else if name \<in> set [''diskpart'', ''format-volume'', ''clear-disk'', ''initialize-disk'', ''remove-partition''] then True
     else if name = ''set-partition'' then containsAnyToken args [''-isactive'']
     else if name = ''icacls'' then
       containsAnyToken args [''/t''] \<and> containsAnyToken args [''/grant''] \<and> containsEveryoneFullControl args
     else if name = ''takeown'' then
       containsAnyToken args [''/r''] \<and> containsAnyToken args [''/f''] \<and> anyCriticalTarget args
     else if name = ''cipher'' then list_ex (\<lambda>f. strings_HasPrefix (cleanLowerToken f) ''/w:'') args
     else False)"

text \<open>\<open>words[i+2]\<close> with \<open>i\<close> counted from the second field is the field after the verb.\<close>

fun diskutil_erases :: "string list \<Rightarrow> bool" where
  "diskutil_erases [] = False"
| "diskutil_erases (f # fs) =
    (let tok = cleanLowerToken f in
     tok \<in> set [''erasedisk'', ''erasevolume'', ''partitiondisk'', ''secureerase'']
     \<or> (tok = ''apfs'' \<and> fs \<noteq> [] \<and> cleanLowerToken (hd fs) = ''deletecontainer'')
     \<or> diskutil_erases fs)"

definition isDangerousMacCommand :: "string \<Rightarrow> string list \<Rightarrow> bool" where
  "isDangerousMacCommand name words \<longleftrightarrow>
     (name = ''diskutil'' \<and> diskutil_erases (tl words))
     \<or> (name = ''asr'' \<and> containsAnyToken (tl words) [''restore''] \<and> containsAnyToken (tl words) [''--erase''])"

definition isDangerousResourceCommand :: "string \<Rightarrow> string list \<Rightarrow> bool" where
  "isDangerousResourceCommand name words \<longleftrightarrow>
     name = ''kill'' \<and> containsAnyToken (tl words) [''-9''] \<and> containsAnyToken (tl words) [''-1'']"

text \<open>The recursion into Windows wrappers stops below the fourth level, so it is bounded by the
  depth that is left.\<close>

primrec dangerous_within :: "nat \<Rightarrow> string \<Rightarrow> bool" where
  "dangerous_within 0 cmd0 = False"
| "dangerous_within (Suc n) cmd0 =
    (let cmd = strings_TrimSpace cmd0 in
     if cmd = [] then False
     else
       let lower = strings_ToLower cmd in
       if strings_Contains lower '':(){'' \<and> strings_Contains lower '':|:&'' then True
       else
         let words = strings_Fields cmd in
         if words = [] then False
         else
           let name = commandName (hd words) in
           case windowsShellWrapperInner name words of
             Some inner \<Rightarrow> dangerous_within n inner
           | None \<Rightarrow>
               isDangerousRm name words \<or> isDangerousPowerShellRemove name words \<or> isDangerousFind name words
               \<or> isDangerousDiskCommand name words \<or> isDangerousPermissionCommand name words
               \<or> isDangerousGitCommand cmd words \<or> isDangerousRedirection words
               \<or> isDangerousWindowsCommand name words \<or> isDangerousMacCommand name words
               \<or> isDangerousResourceCommand name words)"

definition IsDangerousShellCommand :: "string \<Rightarrow> bool" where
  "IsDangerousShellCommand cmd = dangerous_within 4 cmd"

end
