(* ===== verification/Go_Url.thy ===== *)
theory Go_Url
  imports Go_Strings Go_Bytes
begin

text \<open>
  Packages \<open>net/url\<close> and \<open>net\<close>, as far as the sources use them: parsing and printing a URL,
  its host name and its query, \<open>net.SplitHostPort\<close> and the loopback test on
  \<open>net.ParseIP\<close>.
\<close>

subsection \<open>Escaping\<close>

datatype encoding = encodePath | encodeUserPassword | encodeQueryComponent | encodeFragment | encodeHost | encodeZone

definition ascii_letter :: "char \<Rightarrow> bool" where
  "ascii_letter c \<longleftrightarrow> (let n = (of_char c :: nat) in (65 \<le> n \<and> n \<le> 90) \<or> (97 \<le> n \<and> n \<le> 122))"

definition ascii_digit :: "char \<Rightarrow> bool" where
  "ascii_digit c \<longleftrightarrow> (let n = (of_char c :: nat) in 48 \<le> n \<and> n \<le> 57)"

definition shouldEscape :: "encoding \<Rightarrow> char \<Rightarrow> bool" where
  "shouldEscape mode c =
    (if ascii_letter c \<or> ascii_digit c then False
     else if (mode = encodeHost \<or> mode = encodeZone) \<and> c \<in> set (CHR 0x27 # CHR 0x22 # ''!$&()*+,;=:[]<>'') then False
     else if c \<in> set ''-_.~'' then False
     else if c \<in> set ''$&+,/:;=?@'' \<and> mode = encodePath then c = CHR ''?''
     else if c \<in> set ''$&+,/:;=?@'' \<and> mode = encodeUserPassword then c \<in> set ''@/?:''
     else if c \<in> set ''$&+,/:;=?@'' \<and> mode = encodeFragment then False
     else \<not> (mode = encodeFragment \<and> c \<in> set ''!()*''))"

definition upper_hex :: "nat \<Rightarrow> char" where
  "upper_hex n = (if n < 10 then char_of (48 + n) else char_of (55 + n))"

fun url_escape :: "encoding \<Rightarrow> string \<Rightarrow> string" where
  "url_escape mode [] = []"
| "url_escape mode (c # cs) =
     (if shouldEscape mode c then
        (if c = CHR '' '' \<and> mode = encodeQueryComponent then CHR ''+'' # url_escape mode cs
         else CHR ''%'' # upper_hex (of_char c div 16) # upper_hex (of_char c mod 16) # url_escape mode cs)
      else c # url_escape mode cs)"

text \<open>\<open>None\<close> is the error of a malformed escape or of a byte that a host may not hold.\<close>

fun url_unescape :: "encoding \<Rightarrow> string \<Rightarrow> string option" where
  "url_unescape mode [] = Some []"
| "url_unescape mode (c # cs) =
     (if c = CHR ''%'' then
        (case cs of
           a # b # rest \<Rightarrow>
             (case (hex_value a, hex_value b) of
                (Some x, Some y) \<Rightarrow>
                  if mode = encodeHost \<and> x < 8 \<and> \<not> (a = CHR ''2'' \<and> b = CHR ''5'') then None
                  else if mode = encodeZone \<and> \<not> (a = CHR ''2'' \<and> b = CHR ''5'')
                          \<and> 16 * x + y \<noteq> 32 \<and> shouldEscape encodeHost (char_of (16 * x + y)) then None
                  else map_option (Cons (char_of (16 * x + y))) (url_unescape mode rest)
              | _ \<Rightarrow> None)
         | _ \<Rightarrow> None)
      else if (mode = encodeHost \<or> mode = encodeZone) \<and> (of_char c :: nat) < 128 \<and> shouldEscape mode c then None
      else map_option (Cons (if c = CHR ''+'' \<and> mode = encodeQueryComponent then CHR '' '' else c))
             (url_unescape mode cs))"

subsection \<open>URLs\<close>

record URL =
  u_Scheme :: string
  u_Opaque :: string
  u_User :: "string option"
  u_Host :: string
  u_Path :: string
  u_RawPath :: string
  u_OmitHost :: bool
  u_ForceQuery :: bool
  u_RawQuery :: string
  u_Fragment :: string
  u_RawFragment :: string

definition empty_URL :: URL where
  "empty_URL = \<lparr> u_Scheme = [], u_Opaque = [], u_User = None, u_Host = [], u_Path = [], u_RawPath = [],
     u_OmitHost = False, u_ForceQuery = False, u_RawQuery = [], u_Fragment = [], u_RawFragment = [] \<rparr>"

fun scheme_scan :: "string \<Rightarrow> string \<Rightarrow> string \<Rightarrow> (string \<times> string) option" where
  "scheme_scan raw [] acc = Some ([], raw)"
| "scheme_scan raw (c # cs) acc =
     (if ascii_letter c then scheme_scan raw cs (c # acc)
      else if ascii_digit c \<or> c \<in> set ''+-.'' then
        (if acc = [] then Some ([], raw) else scheme_scan raw cs (c # acc))
      else if c = CHR '':'' then (if acc = [] then None else Some (rev acc, cs))
      else Some ([], raw))"

definition getScheme :: "string \<Rightarrow> (string \<times> string) option" where
  "getScheme raw = scheme_scan raw raw []"

definition validOptionalPort :: "string \<Rightarrow> bool" where
  "validOptionalPort port \<longleftrightarrow> port = [] \<or> (hd port = CHR '':'' \<and> list_all ascii_digit (tl port))"

definition parseHost :: "string \<Rightarrow> string option" where
  "parseHost host =
    (if strings_HasPrefix host ''['' then
       (case strings_LastIndexByte host (CHR '']'') of
          None \<Rightarrow> None
        | Some i \<Rightarrow>
            if \<not> validOptionalPort (drop (Suc i) host) then None
            else (case strings_Index (take i host) ''%25'' of
                    Some z \<Rightarrow>
                      (case (url_unescape encodeHost (take z host),
                             url_unescape encodeZone (drop z (take i host)),
                             url_unescape encodeHost (drop i host)) of
                         (Some a, Some b, Some c) \<Rightarrow> Some (a @ b @ c)
                       | _ \<Rightarrow> None)
                  | None \<Rightarrow> url_unescape encodeHost host))
     else
       (case strings_LastIndexByte host (CHR '':'') of
          Some i \<Rightarrow> if \<not> validOptionalPort (drop i host) then None else url_unescape encodeHost host
        | None \<Rightarrow> url_unescape encodeHost host))"

definition validUserinfo :: "string \<Rightarrow> bool" where
  "validUserinfo s \<longleftrightarrow>
     list_all (\<lambda>c. ascii_letter c \<or> ascii_digit c \<or> c \<in> set (CHR 0x27 # ''-._:~!$&()*+,;=%@'')) s"

text \<open>The user part and the host of an authority.\<close>

definition parseAuthority :: "string \<Rightarrow> (string option \<times> string) option" where
  "parseAuthority authority =
    (case strings_LastIndexByte authority (CHR ''@'') of
       None \<Rightarrow> map_option (Pair None) (parseHost authority)
     | Some i \<Rightarrow>
         (case parseHost (drop (Suc i) authority) of
            None \<Rightarrow> None
          | Some host \<Rightarrow>
              let userinfo = take i authority in
              if \<not> validUserinfo userinfo then None
              else case strings_Cut userinfo '':'' of
                     None \<Rightarrow> map_option (\<lambda>u. (Some u, host)) (url_unescape encodeUserPassword userinfo)
                   | Some (name, password) \<Rightarrow>
                       (case (url_unescape encodeUserPassword name, url_unescape encodeUserPassword password) of
                          (Some n, Some p) \<Rightarrow> Some (Some (n @ '':'' @ p), host)
                        | _ \<Rightarrow> None)))"

definition setPath :: "string \<Rightarrow> URL \<Rightarrow> URL option" where
  "setPath p u =
    (case url_unescape encodePath p of
       None \<Rightarrow> None
     | Some path \<Rightarrow>
         Some (u\<lparr>u_Path := path, u_RawPath := (if p = url_escape encodePath path then [] else p)\<rparr>))"

definition setFragment :: "string \<Rightarrow> URL \<Rightarrow> URL option" where
  "setFragment f u =
    (case url_unescape encodeFragment f of
       None \<Rightarrow> None
     | Some frag \<Rightarrow>
         Some (u\<lparr>u_Fragment := frag, u_RawFragment := (if f = url_escape encodeFragment frag then [] else f)\<rparr>))"

definition cut_or_all :: "string \<Rightarrow> string \<Rightarrow> string \<times> string" where
  "cut_or_all s sep = (case strings_Cut s sep of None \<Rightarrow> (s, []) | Some p \<Rightarrow> p)"

text \<open>The authority and the path, once scheme and query are gone.\<close>

definition parse_hierarchy :: "URL \<Rightarrow> string \<Rightarrow> URL option" where
  "parse_hierarchy u rest =
    (let scheme = u_Scheme u in
     if \<not> strings_HasPrefix rest ''/'' \<and> scheme \<noteq> [] then Some (u\<lparr>u_Opaque := rest\<rparr>)
     else if \<not> strings_HasPrefix rest ''/'' \<and> strings_Contains (fst (cut_or_all rest ''/'')) '':'' then None
     else if (scheme \<noteq> [] \<or> \<not> strings_HasPrefix rest ''///'') \<and> strings_HasPrefix rest ''//'' then
       let authority = takeWhile (\<lambda>c. c \<noteq> CHR ''/'') (drop 2 rest);
           path = dropWhile (\<lambda>c. c \<noteq> CHR ''/'') (drop 2 rest)
       in (case parseAuthority authority of
             None \<Rightarrow> None
           | Some (user, host) \<Rightarrow> setPath path (u\<lparr>u_User := user, u_Host := host\<rparr>))
     else if scheme \<noteq> [] \<and> strings_HasPrefix rest ''/'' then setPath rest (u\<lparr>u_OmitHost := True\<rparr>)
     else setPath rest u)"

definition ctl_byte :: "char \<Rightarrow> bool" where
  "ctl_byte c \<longleftrightarrow> (of_char c :: nat) < 32 \<or> (of_char c :: nat) = 127"

definition parse_url :: "string \<Rightarrow> URL option" where
  "parse_url raw =
    (if list_ex ctl_byte raw then None
     else if raw = ''*'' then Some (empty_URL\<lparr>u_Path := ''*''\<rparr>)
     else case getScheme raw of
            None \<Rightarrow> None
          | Some (scheme, rest) \<Rightarrow>
              let u = empty_URL\<lparr>u_Scheme := strings_ToLower scheme\<rparr> in
              if strings_HasSuffix rest ''?'' \<and> count_list rest (CHR ''?'') = 1
              then parse_hierarchy (u\<lparr>u_ForceQuery := True\<rparr>) (butlast rest)
              else parse_hierarchy (u\<lparr>u_RawQuery := snd (cut_or_all rest ''?'')\<rparr>) (fst (cut_or_all rest ''?'')))"

definition url_Parse :: "string \<Rightarrow> URL option" where
  "url_Parse raw =
    (let bare = fst (cut_or_all raw ''#''); frag = snd (cut_or_all raw ''#'') in
     case parse_url bare of
       None \<Rightarrow> None
     | Some u \<Rightarrow> if frag = [] then Some u else setFragment frag u)"

definition url_Hostname :: "URL \<Rightarrow> string" where
  "url_Hostname u =
    (let h = u_Host u;
         host = (case strings_LastIndexByte h (CHR '':'') of
                   None \<Rightarrow> h
                 | Some i \<Rightarrow> if validOptionalPort (drop i h) then take i h else h)
     in if strings_HasPrefix host ''['' \<and> strings_HasSuffix host '']'' then butlast (tl host) else host)"

subsection \<open>Printing and queries\<close>

definition validEncoded :: "encoding \<Rightarrow> string \<Rightarrow> bool" where
  "validEncoded mode s \<longleftrightarrow>
     list_all (\<lambda>c. c \<in> set (CHR 0x27 # ''!$&()*+,;=:@[]%'') \<or> \<not> shouldEscape mode c) s"

definition escaped_part :: "encoding \<Rightarrow> string \<Rightarrow> string \<Rightarrow> string" where
  "escaped_part mode raw plain =
    (if raw \<noteq> [] \<and> validEncoded mode raw \<and> url_unescape mode raw = Some plain then raw
     else url_escape mode plain)"

definition EscapedPath :: "URL \<Rightarrow> string" where
  "EscapedPath u =
    (if u_RawPath u \<noteq> [] \<and> validEncoded encodePath (u_RawPath u)
        \<and> url_unescape encodePath (u_RawPath u) = Some (u_Path u) then u_RawPath u
     else if u_Path u = ''*'' then ''*''
     else url_escape encodePath (u_Path u))"

text \<open>\<open>URL.String\<close> for a URL with a scheme and a host, the only kind the sources print. The
  user part is printed by the caller's encoding.\<close>

definition url_String :: "URL \<Rightarrow> string" where
  "url_String u =
     u_Scheme u @ '':'' @
     (''//'' @ (case u_User u of None \<Rightarrow> [] | Some i \<Rightarrow> i @ ''@'') @ url_escape encodeHost (u_Host u)
      @ (let path = EscapedPath u in (if path \<noteq> [] \<and> hd path \<noteq> CHR ''/'' then ''/'' else []) @ path))
     @ (if u_ForceQuery u \<or> u_RawQuery u \<noteq> [] then ''?'' @ u_RawQuery u else [])
     @ (if u_Fragment u \<noteq> [] then ''#'' @ escaped_part encodeFragment (u_RawFragment u) (u_Fragment u) else [])"

type_synonym Values = "(string \<times> string list) list"

fun values_add :: "Values \<Rightarrow> string \<Rightarrow> string \<Rightarrow> Values" where
  "values_add [] k v = [(k, [v])]"
| "values_add ((k', vs) # rest) k v =
     (if k' = k then (k', vs @ [v]) # rest else (k', vs) # values_add rest k v)"

fun parse_query :: "string list \<Rightarrow> Values \<Rightarrow> Values" where
  "parse_query [] m = m"
| "parse_query (p # ps) m =
     (if strings_Contains p '';'' \<or> p = [] then parse_query ps m
      else case (url_unescape encodeQueryComponent (fst (cut_or_all p ''='')),
                 url_unescape encodeQueryComponent (snd (cut_or_all p ''=''))) of
             (Some k, Some v) \<Rightarrow> parse_query ps (values_add m k v)
           | _ \<Rightarrow> parse_query ps m)"

definition url_Query :: "URL \<Rightarrow> Values" where
  "url_Query u = parse_query (strings_SplitByte (u_RawQuery u) (CHR ''&'')) []"

definition Values_Encode :: "Values \<Rightarrow> string" where
  "Values_Encode m =
     strings_Join
       (concat (map (\<lambda>(k, vs). map (\<lambda>v. url_escape encodeQueryComponent k @ ''='' @ url_escape encodeQueryComponent v) vs)
          (sort_key fst m))) ''&''"

subsection \<open>Hosts and addresses\<close>

text \<open>\<open>net.SplitHostPort\<close>: the host of a well-formed \<open>host:port\<close>.\<close>

definition net_SplitHostPort :: "string \<Rightarrow> (string \<times> string) option" where
  "net_SplitHostPort hostport =
    (case strings_LastIndexByte hostport (CHR '':'') of
       None \<Rightarrow> None
     | Some i \<Rightarrow>
         if hd hostport = CHR ''['' then
           (case strings_Index hostport '']'' of
              None \<Rightarrow> None
            | Some e \<Rightarrow>
                if Suc e \<noteq> i then None
                else if strings_Contains (drop 1 hostport) ''['' \<or> strings_Contains (drop (Suc e) hostport) '']'' then None
                else Some (drop 1 (take e hostport), drop (Suc i) hostport))
         else
           let host = take i hostport in
           if strings_Contains host '':'' \<or> strings_Contains hostport ''['' \<or> strings_Contains hostport '']'' then None
           else Some (host, drop (Suc i) hostport))"

definition decimal :: "string \<Rightarrow> nat" where
  "decimal s = foldl (\<lambda>n c. 10 * n + (of_char c - 48)) 0 s"

definition v4_field :: "string \<Rightarrow> nat option" where
  "v4_field s =
    (if s \<noteq> [] \<and> list_all ascii_digit s \<and> (length s = 1 \<or> hd s \<noteq> CHR ''0'') \<and> length s \<le> 3 \<and> decimal s \<le> 255
     then Some (decimal s) else None)"

definition parse_v4 :: "string \<Rightarrow> nat list option" where
  "parse_v4 s =
    (let fields = map v4_field (strings_SplitByte s (CHR ''.'')) in
     if length fields = 4 \<and> list_all (\<lambda>f. f \<noteq> None) fields then Some (map the fields) else None)"

definition v6_field :: "string \<Rightarrow> nat option" where
  "v6_field s =
    (if s \<noteq> [] \<and> length s \<le> 4 \<and> list_all (\<lambda>c. hex_value c \<noteq> None) s
     then Some (foldl (\<lambda>n c. 16 * n + the (hex_value c)) 0 s) else None)"

text \<open>Groups of an IPv6 address without its ellipsis; a dotted IPv4 tail gives two groups.\<close>

fun v6_groups :: "string list \<Rightarrow> nat list option" where
  "v6_groups [] = Some []"
| "v6_groups [x] =
     (if strings_Contains x ''.'' then
        map_option (\<lambda>b. [256 * (b ! 0) + b ! 1, 256 * (b ! 2) + b ! 3]) (parse_v4 x)
      else map_option (\<lambda>n. [n]) (v6_field x))"
| "v6_groups (x # y # xs) =
     (case (v6_field x, v6_groups (y # xs)) of (Some n, Some ns) \<Rightarrow> Some (n # ns) | _ \<Rightarrow> None)"

definition colon_groups :: "string \<Rightarrow> nat list option" where
  "colon_groups s = (if s = [] then Some [] else v6_groups (strings_SplitByte s (CHR '':'')))"

definition parse_v6 :: "string \<Rightarrow> nat list option" where
  "parse_v6 s =
    (case strings_Cut s ''::'' of
       None \<Rightarrow> (case colon_groups s of Some g \<Rightarrow> if length g = 8 then Some g else None | None \<Rightarrow> None)
     | Some (a, b) \<Rightarrow>
         if strings_Contains a ''.'' then None
         else case (colon_groups a, colon_groups b) of
                (Some g, Some h) \<Rightarrow>
                  if length g + length h < 8 then Some (g @ replicate (8 - length g - length h) 0 @ h) else None
              | _ \<Rightarrow> None)"

text \<open>\<open>net.ParseIP(host)\<close> followed by \<open>IsLoopback\<close>: the first of a dot or a colon decides
  the family, and an IPv4-mapped address is an IPv4 address.\<close>

definition ip_loopback :: "string \<Rightarrow> bool" where
  "ip_loopback host =
    (case strings_IndexAny host ''.:%'' of
       None \<Rightarrow> False
     | Some i \<Rightarrow>
         if host ! i = CHR ''.'' then (case parse_v4 host of Some b \<Rightarrow> b ! 0 = 127 | None \<Rightarrow> False)
         else if host ! i = CHR '':'' then
           (case parse_v6 host of
              Some g \<Rightarrow> g = [0, 0, 0, 0, 0, 0, 0, 1] \<or> (take 6 g = [0, 0, 0, 0, 0, 0xFFFF] \<and> g ! 6 div 256 = 127)
            | None \<Rightarrow> False)
         else False)"

end
