(* ===== verification/Classify_Paths.thy ===== *)
theory Classify_Paths
  imports Classify_Shell Go_Url Lease
begin

text \<open>
  Paths and destinations as \<open>pkg/hooks/classify\<close> reads them: which files the lease protects
  (\<open>targets.go\<close>), which commands read them (\<open>reads.go\<close>) or touch the state of sir itself
  (\<open>posture.go\<close>), and whether a destination is local, approved or external.

  What the code asks of its surroundings is a record: the operating system, the home
  directory, the links of the file system, the environment and the clock.
\<close>

record HookEnv =
  he_GOOS :: string
  he_UserHomeDir :: "string option"
  he_EvalSymlinks :: "string \<Rightarrow> string option"
  he_Getenv :: "string \<Rightarrow> string"
  he_Now :: Time
  he_MCPDeepVerbGating :: bool

subsection \<open>Matching a path against a pattern of the lease\<close>

definition folds_case :: "HookEnv \<Rightarrow> bool" where
  "folds_case e \<longleftrightarrow> he_GOOS e = ''darwin'' \<or> he_GOOS e = ''windows''"

definition normalizePath :: "HookEnv \<Rightarrow> string \<Rightarrow> string" where
  "normalizePath e path =
     (if folds_case e then strings_ToLower (filepath_Clean path) else filepath_Clean path)"

text \<open>The first place where the segments of the prefix occur, and the segments after it.\<close>

fun find_segments :: "string list \<Rightarrow> string list \<Rightarrow> string list option" where
  "find_segments pre [] = (if pre = [] then Some [] else None)"
| "find_segments pre (s # segs) =
     (if length (s # segs) < length pre then None
      else if take (length pre) (s # segs) = pre then Some (drop (length pre) (s # segs))
      else find_segments pre segs)"

definition trimMatchedPrefix :: "string \<Rightarrow> string \<Rightarrow> string option" where
  "trimMatchedPrefix path pre =
    (if pre = [] then Some path
     else if strings_HasPrefix pre ''/'' then
       (if path = pre then Some []
        else if strings_HasPrefix path (pre @ ''/'') then Some (strings_TrimPrefix path pre)
        else None)
     else
       map_option (\<lambda>segs. strings_Join segs ''/'')
         (find_segments (strings_SplitByte (strings_Trim pre ''/'') (CHR ''/''))
            (strings_SplitByte (strings_TrimLeft path ''/'') (CHR ''/''))))"

definition path_parts :: "string \<Rightarrow> string list" where
  "path_parts p = filter (\<lambda>s. s \<noteq> []) (strings_SplitByte p (CHR ''/''))"

definition matchPathTail :: "string \<Rightarrow> string \<Rightarrow> bool" where
  "matchPathTail path pattern =
    (let filteredPath = path_parts (filepath_Clean path);
         filteredPattern = path_parts pattern
     in if filteredPattern = [] \<or> length filteredPath < length filteredPattern then False
        else filepath_Match (strings_Join filteredPattern ''/'')
               (strings_Join (drop (length filteredPath - length filteredPattern) filteredPath) ''/''))"

fun match_any_tail :: "string \<Rightarrow> string list \<Rightarrow> bool" where
  "match_any_tail suf [] = False"
| "match_any_tail suf (s # segs) \<longleftrightarrow> filepath_Match suf (strings_Join (s # segs) ''/'') \<or> match_any_tail suf segs"

definition matchPath :: "string \<Rightarrow> string \<Rightarrow> bool" where
  "matchPath path0 pattern0 =
    (let path = replace_byte (CHR 0x5C) (CHR ''/'') path0;
         pattern = replace_byte (CHR 0x5C) (CHR ''/'') pattern0
     in case strings_Cut pattern ''**'' of
          Some (pre, suf0) \<Rightarrow>
            (case (if pre = [] then Some path
                   else map_option (\<lambda>rest. strings_TrimLeft rest ''/'')
                          (trimMatchedPrefix path (strings_TrimRight pre ''/''))) of
               None \<Rightarrow> False
             | Some remaining \<Rightarrow>
                 if suf0 = [] then True
                 else
                   let suf = strings_TrimLeft suf0 ''/'' in
                   match_any_tail suf (strings_SplitByte remaining (CHR ''/''))
                   \<or> filepath_Match suf (filepath_Base path))
        | None \<Rightarrow> filepath_Match pattern path \<or> matchPathTail path pattern)"

subsection \<open>Protected files\<close>

definition IsPostureFile :: "HookEnv \<Rightarrow> string \<Rightarrow> Lease \<Rightarrow> bool" where
  "IsPostureFile e target l =
     list_ex (\<lambda>p. matchPath (normalizePath e target) (normalizePath e p)) (Ls_PostureFiles l)"

definition IsSensitivePath :: "HookEnv \<Rightarrow> string \<Rightarrow> Lease \<Rightarrow> bool" where
  "IsSensitivePath e target l =
    (let norm = normalizePath e target in
     if list_ex (strings_HasSuffix (filepath_Base norm)) [''.example'', ''.sample'', ''.template''] then False
     else if list_ex (\<lambda>x. matchPath norm (normalizePath e x)) (Ls_SensitivePathExclusions l) then False
     else list_ex (\<lambda>p. matchPath norm (normalizePath e p)) (Ls_SensitivePaths l))"

definition resolved :: "HookEnv \<Rightarrow> string \<Rightarrow> string" where
  "resolved e target = (case he_EvalSymlinks e target of None \<Rightarrow> target | Some r \<Rightarrow> r)"

definition IsSensitivePathResolved :: "HookEnv \<Rightarrow> string \<Rightarrow> Lease \<Rightarrow> bool" where
  "IsSensitivePathResolved e target l = IsSensitivePath e (resolved e target) l"

definition IsPostureFileResolved :: "HookEnv \<Rightarrow> string \<Rightarrow> Lease \<Rightarrow> bool" where
  "IsPostureFileResolved e target l = IsPostureFile e (resolved e target) l"

definition ResolveTarget :: "HookEnv \<Rightarrow> string \<Rightarrow> string \<Rightarrow> string" where
  "ResolveTarget e projectRoot target0 =
    (if target0 = [] then []
     else
       let target = (if target0 = ''~'' \<or> strings_HasPrefix target0 ''~/'' then
                       (case he_UserHomeDir e of
                          None \<Rightarrow> target0
                        | Some home \<Rightarrow> filepath_Join [home, strings_TrimPrefix target0 ''~''])
                     else target0);
           abs0 = (if filepath_IsAbs target then filepath_Clean target
                   else filepath_Clean (filepath_Join [projectRoot, target]));
           abs1 = resolved e abs0
       in if folds_case e then strings_ToLower abs1 else abs1)"

definition IsSensitivePathResolvedIn :: "HookEnv \<Rightarrow> string \<Rightarrow> string \<Rightarrow> Lease \<Rightarrow> bool" where
  "IsSensitivePathResolvedIn e projectRoot target l =
    (let canonical = ResolveTarget e projectRoot target in
     if canonical = [] then IsSensitivePathResolved e target l else IsSensitivePath e canonical l)"

definition IsPostureFileResolvedIn :: "HookEnv \<Rightarrow> string \<Rightarrow> string \<Rightarrow> Lease \<Rightarrow> bool" where
  "IsPostureFileResolvedIn e projectRoot target l =
    (let canonical = ResolveTarget e projectRoot target in
     if canonical = [] then IsPostureFileResolved e target l else IsPostureFile e canonical l)"

subsection \<open>Destinations and remotes\<close>

definition ExtractHost :: "string \<Rightarrow> string" where
  "ExtractHost target =
    (let direct = (case net_SplitHostPort target of Some (host, port) \<Rightarrow> host | None \<Rightarrow> strings_TrimSpace target) in
     if strings_Contains target ''://'' then
       (case url_Parse target of
          Some u \<Rightarrow> if url_Hostname u \<noteq> [] then url_Hostname u else direct
        | None \<Rightarrow> direct)
     else direct)"

definition isLoopback :: "string \<Rightarrow> bool" where
  "isLoopback host \<longleftrightarrow>
     list_ex (strings_EqualFold host) [''localhost'', ''127.0.0.1'', ''::1'', ''[::1]'', ''host.docker.internal'']
     \<or> ip_loopback host"

text \<open>The lease is a pointer that may be nil.\<close>

definition ClassifyNetworkDest :: "HookEnv \<Rightarrow> string \<Rightarrow> Lease option \<Rightarrow> string" where
  "ClassifyNetworkDest e target l =
    (let host = ExtractHost target in
     if host = [] then ''external''
     else if isLoopback host then ''loopback''
     else case l of
            None \<Rightarrow> ''external''
          | Some l' \<Rightarrow> if IsApprovedHost (he_Now e) l' host then ''approved'' else ''external'')"

definition isShellMetaToken :: "string \<Rightarrow> bool" where
  "isShellMetaToken token \<longleftrightarrow>
     token \<noteq> [] \<and> any_prefix [''2>&1'', ''&>'', ''2>'', ''1>'', ''>>'', ''<<'', ''>'', ''<'', ''||'', ''&&'', ''|'', ''&'', '';''] token"

fun remote_argument :: "string list \<Rightarrow> string" where
  "remote_argument [] = []"
| "remote_argument (t # ts) =
     (if isShellMetaToken t then [] else if strings_HasPrefix t ''-'' then remote_argument ts else t)"

definition ExtractGitRemote :: "string \<Rightarrow> string" where
  "ExtractGitRemote cmd = remote_argument (tl (dropWhile (\<lambda>p. p \<noteq> ''push'') (strings_Fields cmd)))"

definition ClassifyGitRemote :: "string \<Rightarrow> Lease \<Rightarrow> string" where
  "ClassifyGitRemote cmd l =
    (let r = ExtractGitRemote cmd; remote = (if r = [] then ''origin'' else r) in
     if slice_contains (Ls_ApprovedRemotes l) remote then ''approved'' else ''unapproved'')"

definition IsEphemeralExec :: "string \<Rightarrow> bool" where
  "IsEphemeralExec cmd \<longleftrightarrow>
    (let trimmed = strings_TrimSpace cmd in strings_HasPrefix trimmed ''npx '' \<or> trimmed = ''npx'')"

subsection \<open>Commands that read a protected file\<close>

definition sensitiveReadPrograms :: "string list" where
  "sensitiveReadPrograms =
     [''cat'', ''tac'', ''nl'', ''head'', ''tail'', ''less'', ''more'', ''bat'', ''batcat'', ''xxd'',
     ''hexdump'', ''od'', ''sed'', ''awk'', ''gawk'', ''grep'', ''rg'', ''ag'', ''ack'', ''strings'',
     ''file'', ''base64'', ''base32'', ''basenc'', ''uuencode'', ''rev'', ''cut'', ''dd'']"

definition readProgramFlagsTakingValue :: "(string \<times> string list) list" where
  "readProgramFlagsTakingValue =
    [(''cat'', []),
     (''tac'', [''s'']),
     (''nl'', [''b'', ''d'', ''f'', ''h'', ''i'', ''l'', ''n'', ''p'', ''s'', ''v'', ''w'']),
     (''head'', [''c'', ''n'', ''q'']),
     (''tail'', [''c'', ''n'', ''F'']),
     (''less'', [''b'', ''h'', ''j'', ''k'', ''o'', ''p'', ''t'', ''T'', ''x'', ''y'', ''z'', ''#'']),
     (''more'', [''n'', ''p'', ''t'']),
     (''bat'', [''l'', ''H'', ''r'', ''m'', ''p'', ''theme'']),
     (''batcat'', [''l'', ''H'', ''r'', ''m'', ''p'']),
     (''xxd'', [''c'', ''g'', ''l'', ''o'', ''s'']),
     (''hexdump'', [''e'', ''f'', ''n'', ''s'']),
     (''od'', [''A'', ''j'', ''N'', ''S'', ''t'', ''w'']),
     (''sed'', [''e'', ''f'', ''i'']),
     (''awk'', [''F'', ''f'', ''v'']),
     (''gawk'', [''F'', ''f'', ''v'']),
     (''grep'', [''A'', ''B'', ''C'', ''D'', ''d'', ''e'', ''f'', ''m'']),
     (''rg'', [''A'', ''B'', ''C'', ''e'', ''f'', ''g'', ''t'', ''T'', ''m'', ''max-count'', ''before-context'', ''after-context'', ''context'', ''regexp'']),
     (''ag'', [''A'', ''B'', ''C'', ''G'', ''g'', ''m'']),
     (''ack'', [''A'', ''B'', ''C'', ''g'', ''m'']),
     (''strings'', [''n'', ''t'', ''e'']),
     (''file'', [''m'', ''P'']),
     (''base64'', [''w'', ''wrap'']),
     (''base32'', [''w'', ''wrap'']),
     (''basenc'', [''w'', ''wrap'']),
     (''uuencode'', []),
     (''rev'', []),
     (''cut'', [''b'', ''c'', ''f'', ''d'']),
     (''dd'', [])]"

fun read_positionals :: "string list \<Rightarrow> string list \<Rightarrow> string list" where
  "read_positionals valued [] = []"
| "read_positionals valued [arg] =
     (if strings_HasPrefix arg ''-'' \<and> 2 \<le> length arg then [] else [arg])"
| "read_positionals valued (arg # nxt # args) =
     (if strings_HasPrefix arg ''--'' then read_positionals valued (nxt # args)
      else if strings_HasPrefix arg ''-'' \<and> 2 \<le> length arg then
        (if length (tl arg) = 1 \<and> tl arg \<in> set valued then read_positionals valued args
         else read_positionals valued (nxt # args))
      else arg # read_positionals valued (nxt # args))"

definition DetectSensitiveFileRead :: "HookEnv \<Rightarrow> string \<Rightarrow> Lease \<Rightarrow> string option" where
  "DetectSensitiveFileRead e cmd l =
    (let words = strings_Fields (NormalizeCommand (strings_TrimSpace cmd)) in
     if length words < 2 then None
     else
       let program = strings_ToLower (hd words) in
       if program \<notin> set sensitiveReadPrograms then None
       else
         let valued = (case map_of readProgramFlagsTakingValue program of None \<Rightarrow> [] | Some f \<Rightarrow> f);
             positionals = read_positionals valued (tl words)
         in if program = ''uuencode'' then
              (if 2 \<le> length positionals \<and> IsSensitivePathResolved e (hd positionals) l then Some (hd positionals)
               else None)
            else if program = ''dd'' then
              find (\<lambda>p. IsSensitivePathResolved e p l) (List.map_filter (\<lambda>p. strings_CutPrefix p ''if='') positionals)
            else find (\<lambda>p. IsSensitivePathResolved e p l) positionals)"

text \<open>The target of an input redirection at the head of the words that are left.\<close>

definition redirect_target :: "string \<Rightarrow> string list \<Rightarrow> string option" where
  "redirect_target tok following =
    (let t = dropWhile ascii_digit tok in
     if t = [] \<or> hd t \<noteq> CHR ''<'' then None
     else if any_prefix [''<'', ''>'', ''(''] (tl t) then None
     else if tl t = [] then (if following = [] then None else Some (hd following))
     else Some (tl t))"

fun redirect_read :: "HookEnv \<Rightarrow> Lease \<Rightarrow> string list \<Rightarrow> string option" where
  "redirect_read e l [] = None"
| "redirect_read e l (tok # toks) =
     (case redirect_target tok toks of
        None \<Rightarrow> redirect_read e l toks
      | Some target \<Rightarrow> if IsSensitivePathResolved e target l then Some target else redirect_read e l toks)"

definition IsRedirectSensitiveRead :: "HookEnv \<Rightarrow> string \<Rightarrow> Lease \<Rightarrow> string option" where
  "IsRedirectSensitiveRead e cmd l = redirect_read e l (strings_Fields (NormalizeCommand (strings_TrimSpace cmd)))"

definition interpreterOneLinerPrefixes :: "string list" where
  "interpreterOneLinerPrefixes = [''python '', ''python3 '', ''python2 '', ''node '', ''nodejs '',
     ''ruby '', ''perl '', ''php '', ''bun '', ''deno '', ''rscript '']"

definition hasInlineCodeFlag :: "string \<Rightarrow> bool" where
  "hasInlineCodeFlag cmd = list_ex inline_code_flag (tl (strings_Fields cmd))"

definition interpreterCodeTokens :: "string \<Rightarrow> string list" where
  "interpreterCodeTokens cmd =
     FieldsFunc (\<lambda>c. c \<in> set ([CHR 0x27, CHR 0x22, CHR 0x09, CHR 0x60] @ ''()[]{},; =+<>'')) cmd"

definition IsInterpreterSensitiveRead :: "HookEnv \<Rightarrow> string \<Rightarrow> Lease \<Rightarrow> string option" where
  "IsInterpreterSensitiveRead e cmd l =
    (if any_prefix interpreterOneLinerPrefixes (lower_trimmed cmd) \<and> hasInlineCodeFlag cmd
     then find (\<lambda>tok. IsSensitivePath e tok l) (interpreterCodeTokens cmd)
     else None)"

subsection \<open>The state of sir itself\<close>

definition mutatingProviderSubcommands :: "string list" where
  "mutatingProviderSubcommands = [''authoritative'', ''advisory'', ''use'', ''swap'', ''enable'', ''disable'',
     ''install'', ''uninstall'', ''configure'']"

definition protectedSubcommands :: "string list" where
  "protectedSubcommands = [''install'', ''uninstall'', ''clear'', ''reset'', ''unlock'', ''allow-host'',
     ''allow-remote'', ''trust-mcp'', ''trust'']"

definition IsSirSelfCommand :: "string \<Rightarrow> bool" where
  "IsSirSelfCommand cmd =
    (let parts = map strings_ToLower (strings_Fields (strings_TrimSpace cmd)) in
     if length parts < 2 \<or> hd parts \<noteq> ''sir'' then False
     else if parts ! 1 = ''mcp'' then 3 \<le> length parts \<and> parts ! 2 = ''wrap''
     else if parts ! 1 = ''provider'' \<and> 3 \<le> length parts \<and> parts ! 2 \<in> set mutatingProviderSubcommands then True
     else parts ! 1 \<in> set protectedSubcommands)"

definition segment_is_sir_self :: "string \<Rightarrow> bool" where
  "segment_is_sir_self seg0 =
    (let seg = strings_TrimSpace seg0; norm = NormalizeCommand seg in
     seg \<noteq> [] \<and> IsSirSelfCommand (if norm = [] then seg else norm))"

definition ContainsSirSelfCommand :: "string \<Rightarrow> bool" where
  "ContainsSirSelfCommand cmd = list_ex segment_is_sir_self (SplitCompoundCommand cmd)"

definition modifyingCommands :: "string list" where
  "modifyingCommands = [''sed'', ''awk'', ''perl'', ''python'', ''python3'', ''python2'', ''ruby'', ''node'',
     ''chmod'', ''chown'', ''mv'', ''cp'', ''tee'', ''dd'', ''rm'', ''ln'', ''cat'', ''echo'', ''printf'']"

definition TargetsSirStateFiles :: "string \<Rightarrow> bool" where
  "TargetsSirStateFiles cmd =
    (let lower = strings_ToLower cmd; parts = strings_Fields cmd in
     if \<not> list_ex (strings_Contains lower)
            [''/.sir/'', ''session.json'', ''lease.json'', ''hooks-canonical.json'', ''/.claude/settings.json'']
     then False
     else if strings_Contains lower '' > '' \<or> strings_Contains lower '' >> '' then True
     else 2 \<le> length parts \<and> strings_ToLower (filepath_Base (hd parts)) \<in> set modifyingCommands)"

definition shell_special :: "char \<Rightarrow> bool" where
  "shell_special c \<longleftrightarrow> c \<in> set ''*#$@!?-'' \<or> ascii_digit c"

definition shell_name_char :: "char \<Rightarrow> bool" where
  "shell_name_char c \<longleftrightarrow> c = CHR ''_'' \<or> ascii_letter c \<or> ascii_digit c"

text \<open>\<open>os.Expand\<close>: the name after a dollar sign and what follows it; \<open>None\<close> as the name is bad
  syntax, which is dropped.\<close>

definition shell_name :: "string \<Rightarrow> string option \<times> string" where
  "shell_name s =
    (if s \<noteq> [] \<and> hd s = CHR ''{'' then
       (if 2 < length s \<and> shell_special (s ! 1) \<and> s ! 2 = CHR ''}'' then (Some [s ! 1], drop 3 s)
        else
          let body = takeWhile (\<lambda>c. c \<noteq> CHR ''}'') (tl s) in
          if length body = length (tl s) then (None, tl s)
          else if body = [] then (None, drop 2 s)
          else (Some body, drop (length body + 2) s))
     else if s \<noteq> [] \<and> shell_special (hd s) then (Some [hd s], tl s)
     else (Some (takeWhile shell_name_char s), dropWhile shell_name_char s))"

lemma shell_name_shorter: "length (snd (shell_name s)) \<le> length s"
  using length_dropWhile_le [of shell_name_char s] by (auto simp: shell_name_def Let_def)

function expand_env :: "(string \<Rightarrow> string) \<Rightarrow> string \<Rightarrow> string" where
  "expand_env getenv [] = []"
| "expand_env getenv (c # cs) =
     (if c = CHR ''$'' \<and> cs \<noteq> [] then
        (case fst (shell_name cs) of
           None \<Rightarrow> []
         | Some nm \<Rightarrow> if nm = [] then [c] else getenv nm) @ expand_env getenv (snd (shell_name cs))
      else c # expand_env getenv cs)"
  by pat_completeness auto

termination
  by (relation "measure (\<lambda>(g, s). length s)") (auto simp: shell_name_shorter le_imp_less_Suc)

definition globalSirDir :: "HookEnv \<Rightarrow> string" where
  "globalSirDir e = (case he_UserHomeDir e of None \<Rightarrow> [] | Some home \<Rightarrow> filepath_Join [home, ''.sir''])"

definition removes_sir_state :: "HookEnv \<Rightarrow> string \<Rightarrow> bool" where
  "removes_sir_state e arg \<longleftrightarrow>
    (let sirDir = globalSirDir e; expanded = expand_env (he_Getenv e) arg in
     sirDir \<noteq> []
     \<and> (expanded = sirDir \<or> strings_HasPrefix expanded (sirDir @ ''/'') \<or> arg = ''~/.sir'' \<or> strings_HasPrefix arg ''~/.sir/''))"

definition IsPostureDeleteOrLink :: "HookEnv \<Rightarrow> string \<Rightarrow> Lease \<Rightarrow> bool" where
  "IsPostureDeleteOrLink e cmd l =
    (let parts = strings_Fields (strings_TrimSpace cmd) in
     if length parts < 2 then False
     else
       let lower0 = strings_ToLower (hd parts);
           args = filter (\<lambda>a. \<not> strings_HasPrefix a ''-'') (tl parts)
       in (lower0 = ''rm'' \<and> list_ex (\<lambda>a. removes_sir_state e a \<or> IsPostureFileResolved e a l) args)
          \<or> (lower0 = ''ln'' \<and> list_ex (\<lambda>a. IsPostureFileResolved e a l) args))"

end
