(* ===== verification/Classify_Mcp.thy ===== *)
theory Classify_Mcp
  imports Classify_Paths Go_Json
begin

text \<open>
  The arguments of an MCP tool call: URLs in them (\<open>mcp_urls.go\<close>) and values under keys that
  conventionally hold commands or paths (\<open>mcp_deep.go\<close>).

  Go ranges over a map in an order of its own. An object of the model is an association
  list, so its order stands for one such run, and what is proved for every list holds for
  every run.
\<close>

definition maxMCPURLDepth :: nat where
  "maxMCPURLDepth = 8"

definition maxMCPURLs :: nat where
  "maxMCPURLs = 64"

definition urlFromString :: "string \<Rightarrow> string" where
  "urlFromString s =
    (let trimmed = strings_TrimSpace s in
     if trimmed = [] \<or> 2048 < length trimmed then []
     else if \<not> any_prefix [''http://'', ''https://''] (strings_ToLower trimmed) then []
     else if ExtractHost trimmed = [] then []
     else trimmed)"

text \<open>The first argument counts the levels that are left; the depth test of the code fails when
  it is 0. A full list is returned as it is, so the early returns of the loops are the same
  as going on.\<close>

primrec collectURLs :: "nat \<Rightarrow> json \<Rightarrow> string list \<Rightarrow> string list" where
  "collectURLs 0 v out = out"
| "collectURLs (Suc n) v out =
    (if maxMCPURLs \<le> length out then out
     else case v of
            JString s \<Rightarrow> if urlFromString s = [] then out else out @ [urlFromString s]
          | JObject ms \<Rightarrow> fold (collectURLs n) (map snd ms) out
          | JArray vs \<Rightarrow> fold (collectURLs n) vs out
          | _ \<Rightarrow> out)"

definition ExtractMCPURLs :: "jsonobj \<Rightarrow> string list" where
  "ExtractMCPURLs toolInput = collectURLs (Suc maxMCPURLDepth) (JObject toolInput) []"

definition shellLikeKeys :: "string list" where
  "shellLikeKeys = [''command'', ''commands'', ''cmd'', ''cmds'', ''shell'', ''script'', ''scripts'', ''exec'', ''run'',
     ''bash'', ''sh'', ''shellcmd'', ''execcmd'', ''shellexec'', ''runcommand'']"

definition writeLikeKeys :: "string list" where
  "writeLikeKeys = [''path'', ''paths'', ''filepath'', ''file'', ''files'', ''dest'', ''destination'', ''target'',
     ''targetpath'', ''output'', ''outputs'', ''outputpath'', ''writepath'']"

definition normalizeMCPKey :: "string \<Rightarrow> string" where
  "normalizeMCPKey key = map ascii_lower (filter (\<lambda>c. ascii_letter c \<or> ascii_digit c) key)"

fun first_some :: "('a \<Rightarrow> 'b option) \<Rightarrow> 'a list \<Rightarrow> 'b option" where
  "first_some f [] = None"
| "first_some f (x # xs) = (case f x of None \<Rightarrow> first_some f xs | Some y \<Rightarrow> Some y)"

primrec walk_keys :: "nat \<Rightarrow> string list \<Rightarrow> json \<Rightarrow> string \<Rightarrow> string option" where
  "walk_keys 0 keys v key = None"
| "walk_keys (Suc n) keys v key =
    (case v of
       JString s \<Rightarrow>
         if key = [] \<or> normalizeMCPKey key \<notin> set keys \<or> strings_TrimSpace s = [] then None
         else Some (strings_TrimSpace s)
     | JObject ms \<Rightarrow> first_some (\<lambda>(k, child). walk_keys n keys child k) ms
     | JArray vs \<Rightarrow> first_some (\<lambda>child. walk_keys n keys child key) vs
     | _ \<Rightarrow> None)"

definition firstValueMatchingKey :: "jsonobj \<Rightarrow> string list \<Rightarrow> string" where
  "firstValueMatchingKey toolInput keys =
    (case walk_keys (Suc maxMCPURLDepth) keys (JObject toolInput) [] of None \<Rightarrow> [] | Some s \<Rightarrow> s)"

definition FirstShellLikeValue :: "jsonobj \<Rightarrow> string" where
  "FirstShellLikeValue toolInput = firstValueMatchingKey toolInput shellLikeKeys"

definition FirstWriteLikePath :: "jsonobj \<Rightarrow> string" where
  "FirstWriteLikePath toolInput = firstValueMatchingKey toolInput writeLikeKeys"

end
