(* ===== verification/Ledger_Redact.thy ===== *)
theory Ledger_Redact
  imports Go_Url
begin

text \<open>
  Redaction of URLs before they are shown or logged: \<open>RedactURL\<close> of \<open>pkg/ledger/redact.go\<close>
  with the scan it falls back to.
\<close>

definition credentialQueryKeys :: "string list" where
  "credentialQueryKeys = [''token'', ''access_token'', ''api_key'', ''apikey'', ''auth'', ''authorization'', ''key'',
     ''secret'', ''password'', ''passwd'', ''session'', ''sig'', ''signature'']"

definition isCredentialQueryKey :: "string \<Rightarrow> bool" where
  "isCredentialQueryKey k \<longleftrightarrow> strings_ToLower k \<in> set credentialQueryKeys"

definition mask_part :: "string \<Rightarrow> string" where
  "mask_part p =
    (case strings_Index p ''='' of
       None \<Rightarrow> p
     | Some i \<Rightarrow>
         if i = 0 \<or> \<not> isCredentialQueryKey (strings_TrimLeft (take i p) ''?'') then p
         else take (Suc i) p @ ''[REDACTED]'')"

text \<open>Joining the unchanged parts again gives the string back, so the flag \<open>changed\<close> has no
  effect on the result.\<close>

definition maskQueryStringSecrets :: "string \<Rightarrow> string" where
  "maskQueryStringSecrets s =
    (if \<not> strings_Contains s ''='' then s
     else strings_Join (map mask_part (strings_SplitByte s (CHR ''&''))) ''&'')"

definition mask_values :: "Values \<Rightarrow> Values" where
  "mask_values q =
     map (\<lambda>(k, vs). (k, if isCredentialQueryKey k then map (\<lambda>v. if v = [] then [] else ''[REDACTED]'') vs else vs)) q"

definition RedactURL :: "string \<Rightarrow> string" where
  "RedactURL s =
    (if s = [] then []
     else case url_Parse (strings_TrimSpace s) of
            None \<Rightarrow> maskQueryStringSecrets s
          | Some u \<Rightarrow>
              if u_Scheme u = [] \<or> u_Host u = [] then maskQueryStringSecrets s
              else
                let u1 = (case u_User u of None \<Rightarrow> u | Some i \<Rightarrow> u\<lparr>u_User := Some ''REDACTED''\<rparr>);
                    q = url_Query u1;
                    u2 = (if list_ex (\<lambda>(k, vs). isCredentialQueryKey k) q
                          then u1\<lparr>u_RawQuery := Values_Encode (mask_values q)\<rparr> else u1)
                in url_String u2)"

end
