(* ===== verification/Hooks_Toolmap.thy ===== *)
theory Hooks_Toolmap
  imports Classify_Dangerous Classify_Mcp Ledger_Redact
begin

text \<open>
  From a tool call to an intent: \<open>toolmap.go\<close>, \<open>toolmap_extract.go\<close>, \<open>toolmap_shell.go\<close> and
  the install recogniser of \<open>supply_chain.go\<close> in \<open>pkg/hooks\<close>.
\<close>

record ToolIntent =
  ti_Verb :: Verb
  ti_Target :: string
  ti_IsPosture :: bool
  ti_IsSensitive :: bool
  ti_IsInstall :: bool
  ti_Manager :: string
  ti_RemoteName :: string
  ti_IsForgePublish :: bool

definition tool_intent :: "Verb \<Rightarrow> string \<Rightarrow> ToolIntent" where
  "tool_intent verb target = \<lparr> ti_Verb = verb, ti_Target = target, ti_IsPosture = False, ti_IsSensitive = False,
     ti_IsInstall = False, ti_Manager = [], ti_RemoteName = [], ti_IsForgePublish = False \<rparr>"

subsection \<open>Installs\<close>

definition installPrefixes :: "(string \<times> string) list" where
  "installPrefixes = [(''pip install '', ''pip''), (''pip3 install '', ''pip''), (''python -m pip install '', ''pip''),
     (''python3 -m pip install '', ''pip''), (''npm install '', ''npm''), (''npm i '', ''npm''), (''yarn add '', ''yarn''),
     (''pnpm add '', ''pnpm''), (''bun add '', ''bun''), (''cargo add '', ''cargo''), (''go get '', ''go''),
     (''gem install '', ''gem''), (''uv add '', ''uv''), (''poetry add '', ''poetry'')]"

text \<open>The package manager of an install command.\<close>

definition IsInstallCommand :: "string \<Rightarrow> string option" where
  "IsInstallCommand cmd =
    (let lower = lower_trimmed cmd in
     map_option snd (find (\<lambda>(p, m). strings_HasPrefix lower p \<or> lower = strings_TrimRight p '' '') installPrefixes))"

subsection \<open>Shell commands\<close>

definition read_intent :: "string \<Rightarrow> ToolIntent" where
  "read_intent target = (tool_intent VerbReadRef target)\<lparr>ti_IsSensitive := True\<rparr>"

definition network_verb :: "string \<Rightarrow> Verb" where
  "network_verb classification =
    (if classification = ''loopback'' then VerbNetLocal
     else if classification = ''approved'' then VerbNetAllowlisted
     else VerbNetExternal)"

definition ping_destination :: "string \<Rightarrow> string" where
  "ping_destination normalized =
    (case find (\<lambda>p. \<not> strings_HasPrefix p ''-'') (tl (strings_Fields normalized)) of None \<Rightarrow> [] | Some d \<Rightarrow> d)"

text \<open>The classifiers of one plain command, in the order of the code: what is left once compound
  commands, wrappers and \<open>sudo\<close> are out of the way. The second half starts at \<open>git push\<close>.\<close>

definition repository_command :: "HookEnv \<Rightarrow> Lease \<Rightarrow> string \<Rightarrow> string \<Rightarrow> ToolIntent" where
  "repository_command e l trimmed normalized =
    (if IsGitPush normalized then
       (tool_intent (if ClassifyGitRemote normalized l = ''approved'' then VerbPushOrigin else VerbPushRemote) trimmed)
         \<lparr>ti_RemoteName := (if ExtractGitRemote normalized = [] then ''origin'' else ExtractGitRemote normalized)\<rparr>
     else case ClassifyForgePublish normalized of
       Some remoteName \<Rightarrow>
         (tool_intent VerbPushRemote trimmed)\<lparr>ti_RemoteName := remoteName, ti_IsForgePublish := True\<rparr>
     | None \<Rightarrow>
     if IsGitCommit normalized then tool_intent VerbCommit trimmed
     else if IsTestCommand normalized then tool_intent VerbRunTests trimmed
     else if IsPostureDeleteOrLink e trimmed l then (tool_intent VerbStageWrite trimmed)\<lparr>ti_IsPosture := True\<rparr>
     else case IsRedirectSensitiveRead e normalized l of
       Some target \<Rightarrow> read_intent target
     | None \<Rightarrow>
    (case IsInterpreterSensitiveRead e normalized l of
       Some target \<Rightarrow> read_intent target
     | None \<Rightarrow> tool_intent VerbExecuteDryRun trimmed))"

definition single_command :: "HookEnv \<Rightarrow> Lease \<Rightarrow> string \<Rightarrow> string \<Rightarrow> ToolIntent" where
  "single_command e l trimmed normalized =
    (if IsEphemeralExec normalized then tool_intent VerbRunEphemeral trimmed
     else if IsPersistenceCommand normalized then tool_intent VerbPersistence trimmed
     else if IsEnvCommand normalized then (tool_intent VerbEnvRead trimmed)\<lparr>ti_IsSensitive := True\<rparr>
     else case DetectSensitiveFileRead e trimmed l of
       Some target \<Rightarrow> read_intent target
     | None \<Rightarrow>
    (case IsInstallCommand normalized of
       Some manager \<Rightarrow> (tool_intent VerbExecuteDryRun trimmed)\<lparr>ti_IsInstall := True, ti_Manager := manager\<rparr>
     | None \<Rightarrow>
     if IsDNSCommand normalized then tool_intent VerbDnsLookup trimmed
     else if IsPingCommand normalized then
       (let dest = ping_destination normalized in
        if ClassifyNetworkDest e dest (Some l) = ''loopback'' then tool_intent VerbNetLocal dest
        else tool_intent VerbDnsLookup dest)
     else if IsInterpreterNetworkCommand normalized then tool_intent VerbNetExternal trimmed
     else if IsNetworkCommand normalized then
       (let dest = ExtractNetworkDest normalized in
        tool_intent (network_verb (ClassifyNetworkDest e dest (Some l))) dest)
     else if IsDangerousShellCommand normalized then tool_intent VerbDangerousShell trimmed
     else repository_command e l trimmed normalized))"

definition merge_intent :: "ToolIntent \<Rightarrow> ToolIntent \<Rightarrow> ToolIntent" where
  "merge_intent highest i =
    highest\<lparr>
      ti_Verb := (if VerbRisk (ti_Verb highest) < VerbRisk (ti_Verb i) then ti_Verb i else ti_Verb highest),
      ti_IsPosture := (ti_IsPosture highest \<or> ti_IsPosture i),
      ti_IsSensitive := (ti_IsSensitive highest \<or> ti_IsSensitive i),
      ti_IsInstall := (ti_IsInstall highest \<or> ti_IsInstall i),
      ti_Manager := (if ti_Manager i \<noteq> [] then ti_Manager i else ti_Manager highest),
      ti_RemoteName := (if ti_RemoteName i \<noteq> [] then ti_RemoteName i else ti_RemoteName highest),
      ti_IsForgePublish := (ti_IsForgePublish highest \<or> ti_IsForgePublish i)\<rparr>"

definition is_sensitive_read :: "ToolIntent \<Rightarrow> bool" where
  "is_sensitive_read i \<longleftrightarrow> ti_Verb i = VerbReadRef \<and> ti_IsSensitive i"

text \<open>The loop over the parts of a compound command: the highest intent so far and the first
  sensitive read. The recursive call may fail to return.\<close>

fun fold_parts :: "(string \<Rightarrow> ToolIntent option) \<Rightarrow> string list \<Rightarrow> ToolIntent \<Rightarrow> ToolIntent option
    \<Rightarrow> (ToolIntent \<times> ToolIntent option) option" where
  "fold_parts rec [] highest sensitiveRead = Some (highest, sensitiveRead)"
| "fold_parts rec (seg # segs) highest sensitiveRead =
    (if strings_TrimSpace seg = [] then fold_parts rec segs highest sensitiveRead
     else case rec (strings_TrimSpace seg) of
            None \<Rightarrow> None
          | Some i \<Rightarrow>
              fold_parts rec segs (merge_intent highest i)
                (if sensitiveRead = None \<and> is_sensitive_read i then Some i else sensitiveRead))"

definition segment_commands :: "string \<Rightarrow> string list" where
  "segment_commands seg =
    (case ExtractEvalArguments (strings_TrimSpace seg) of None \<Rightarrow> [seg] | Some arg \<Rightarrow> [''eval'', arg])"

definition normalized_command :: "string \<Rightarrow> string" where
  "normalized_command trimmed = (if NormalizeCommand trimmed = [] then trimmed else NormalizeCommand trimmed)"

definition command_skeleton :: "string \<Rightarrow> string" where
  "command_skeleton trimmed =
    (if ExtractCommandSubstitutions trimmed = [] then normalized_command trimmed
     else StripCommandSubstitutions (normalized_command trimmed))"

text \<open>The commands a command is made of; at most one of them means that it is not decomposed.\<close>

definition sub_commands :: "string \<Rightarrow> string list" where
  "sub_commands trimmed =
    (let substInners = ExtractCommandSubstitutions trimmed;
         skeleton = command_skeleton trimmed;
         segments = SplitCompoundCommand skeleton;
         needFold = (1 < length segments \<or> substInners \<noteq> [] \<or> strings_Contains skeleton ''eval'')
     in if needFold then concat (map segment_commands segments) @ substInners else [])"

definition compound_result :: "string \<Rightarrow> ToolIntent \<times> ToolIntent option \<Rightarrow> ToolIntent" where
  "compound_result trimmed r =
    (case r of
       (highest, Some s) \<Rightarrow>
         if VerbRisk (ti_Verb highest) \<le> VerbRisk VerbExecuteDryRun then read_intent (ti_Target s)
         else highest\<lparr>ti_Target := trimmed\<rparr>
     | (highest, None) \<Rightarrow> highest\<lparr>ti_Target := trimmed\<rparr>)"

definition elevate :: "ToolIntent \<Rightarrow> ToolIntent" where
  "elevate i = (if ti_Verb i \<in> {VerbExecuteDryRun, VerbRunTests, VerbCommit} then i\<lparr>ti_Verb := VerbSudo\<rparr> else i)"

text \<open>The number bounds the depth of the recursion; \<open>None\<close> is a recursion that is still deeper.\<close>

primrec map_shell :: "nat \<Rightarrow> HookEnv \<Rightarrow> Lease \<Rightarrow> string \<Rightarrow> ToolIntent option" where
  "map_shell 0 e l cmd = None"
| "map_shell (Suc n) e l cmd =
    (let trimmed = strings_TrimSpace cmd;
         normalized = normalized_command trimmed
     in if ContainsSirSelfCommand normalized \<or> TargetsSirStateFiles normalized
        then Some (tool_intent VerbSirSelf trimmed)
        else if 1 < length (sub_commands trimmed)
        then map_option (compound_result trimmed)
               (fold_parts (map_shell n e l) (sub_commands trimmed) (tool_intent VerbExecuteDryRun trimmed) None)
        else case ExtractShellWrapperInner normalized of
               Some inner \<Rightarrow> map_option (\<lambda>i. i\<lparr>ti_Target := trimmed\<rparr>) (map_shell n e l inner)
             | None \<Rightarrow>
                 if IsSudoCommand normalized
                 then map_option (\<lambda>i. elevate (i\<lparr>ti_Target := trimmed\<rparr>)) (map_shell n e l (StripSudoPrefix normalized))
                 else Some (single_command e l trimmed normalized))"

text \<open>Every recursive call is on a shorter command (\<open>map_shell_total\<close>), so the length of the
  command bounds the depth.\<close>

definition mapShellCommand :: "HookEnv \<Rightarrow> Lease \<Rightarrow> string \<Rightarrow> ToolIntent" where
  "mapShellCommand e l cmd = the (map_shell (Suc (length cmd)) e l cmd)"

text \<open>The reason to ask about an opaque shell command.\<close>

definition jstring :: "jsonobj \<Rightarrow> string \<Rightarrow> string option" where
  "jstring m k = (case map_of m k of Some (JString s) \<Rightarrow> Some s | _ \<Rightarrow> None)"

definition jstring_or_empty :: "jsonobj \<Rightarrow> string \<Rightarrow> string" where
  "jstring_or_empty m k = (case jstring m k of None \<Rightarrow> [] | Some s \<Rightarrow> s)"

definition opaqueShellEscalation :: "string \<Rightarrow> jsonobj \<Rightarrow> ToolIntent \<Rightarrow> string option" where
  "opaqueShellEscalation toolName toolInput i =
    (let cmd = jstring_or_empty toolInput ''command'' in
     if toolName \<noteq> ''Bash'' \<or> strings_TrimSpace cmd = [] then None
     else case IsOpaqueShellExec (NormalizeCommand cmd) of
            None \<Rightarrow> None
          | Some reason \<Rightarrow> if VerbRisk VerbExecuteDryRun < VerbRisk (ti_Verb i) then None else Some reason)"

subsection \<open>Tool inputs\<close>

definition first_string :: "jsonobj \<Rightarrow> string list \<Rightarrow> string" where
  "first_string m keys = (case first_some (jstring m) keys of None \<Rightarrow> [] | Some s \<Rightarrow> s)"

definition extractFilePath :: "jsonobj \<Rightarrow> string" where
  "extractFilePath toolInput = first_string toolInput [''file_path'', ''path'']"

definition extractPatchPayload :: "jsonobj \<Rightarrow> string" where
  "extractPatchPayload toolInput = first_string toolInput [''command'', ''patch'', ''input'', ''content'', ''diff'']"

definition extractCommand :: "jsonobj \<Rightarrow> string" where
  "extractCommand toolInput = first_string toolInput [''command'']"

definition extractTarget :: "jsonobj \<Rightarrow> string" where
  "extractTarget toolInput = first_string toolInput [''file_path'', ''path'', ''command'', ''url'', ''query'', ''pattern'']"

definition patch_prefixes :: "string list" where
  "patch_prefixes = [''*** Add File: '', ''*** Update File: '', ''*** Delete File: '']"

definition patch_targets :: "string \<Rightarrow> string list" where
  "patch_targets line =
    (let t = strings_TrimSpace line in
     map (\<lambda>p. strings_TrimSpace (strings_TrimPrefix t p)) (filter (strings_HasPrefix t) patch_prefixes))"

definition extractApplyPatchTargets :: "string \<Rightarrow> string list" where
  "extractApplyPatchTargets command =
    (if \<not> strings_Contains command ''*** Begin Patch'' then []
     else fold (\<lambda>target out. if target = [] then out else append_unique out target)
            (concat (map patch_targets (strings_SplitByte command (CHR 0x0A)))) [])"

definition extractDelegateTarget :: "jsonobj \<Rightarrow> string" where
  "extractDelegateTarget toolInput =
    (case first_some (\<lambda>k. case jstring toolInput k of
             None \<Rightarrow> None | Some v \<Rightarrow> if strings_TrimSpace v = [] then None else Some v) [''subagent_type'', ''name''] of
       None \<Rightarrow> [] | Some v \<Rightarrow> v)"

definition extractMCPServerName :: "string \<Rightarrow> string" where
  "extractMCPServerName toolName =
    (case strings_Cut toolName ''__'' of
       None \<Rightarrow> toolName
     | Some (a, rest) \<Rightarrow> fst (cut_or_all rest ''__''))"

definition isApprovedMCPServer :: "string \<Rightarrow> Lease \<Rightarrow> bool" where
  "isApprovedMCPServer serverName l = slice_contains (Ls_ApprovedMCPServers l) serverName"

subsection \<open>Tools\<close>

definition mapRead :: "HookEnv \<Rightarrow> jsonobj \<Rightarrow> Lease \<Rightarrow> ToolIntent" where
  "mapRead e toolInput l =
    (let target = extractFilePath toolInput in
     (tool_intent VerbReadRef target)
       \<lparr>ti_IsPosture := IsPostureFileResolved e target l, ti_IsSensitive := IsSensitivePathResolved e target l\<rparr>)"

definition mapWrite :: "HookEnv \<Rightarrow> jsonobj \<Rightarrow> Lease \<Rightarrow> ToolIntent" where
  "mapWrite e toolInput l =
    (let target0 = extractFilePath toolInput;
         targets = (if target0 = [] then extractApplyPatchTargets (extractPatchPayload toolInput) else []);
         target = (if targets \<noteq> [] then strings_Join targets '', '' else target0)
     in (tool_intent VerbStageWrite target)
          \<lparr>ti_IsPosture := (list_ex (\<lambda>c. IsPostureFileResolved e c l) targets \<or> IsPostureFileResolved e target l)\<rparr>)"

definition mapBash :: "HookEnv \<Rightarrow> jsonobj \<Rightarrow> Lease \<Rightarrow> ToolIntent" where
  "mapBash e toolInput l = mapShellCommand e l (extractCommand toolInput)"

definition mapGrep :: "HookEnv \<Rightarrow> jsonobj \<Rightarrow> Lease \<Rightarrow> ToolIntent" where
  "mapGrep e toolInput l =
    (let path = jstring_or_empty toolInput ''path'' in
     if path \<noteq> [] \<and> IsSensitivePathResolved e path l then read_intent path
     else tool_intent VerbListFiles path)"

definition mapAgent :: "jsonobj \<Rightarrow> ToolIntent" where
  "mapAgent toolInput = tool_intent VerbDelegate (extractDelegateTarget toolInput)"

definition mapWebFetch :: "HookEnv \<Rightarrow> jsonobj \<Rightarrow> Lease \<Rightarrow> ToolIntent" where
  "mapWebFetch e toolInput l =
    (let urlStr = jstring_or_empty toolInput ''url'' in
     tool_intent (network_verb (ClassifyNetworkDest e urlStr (Some l))) urlStr)"

definition mapWebSearch :: "jsonobj \<Rightarrow> ToolIntent" where
  "mapWebSearch toolInput = tool_intent VerbNetExternal (jstring_or_empty toolInput ''query'')"

definition firstUnapprovedURL :: "HookEnv \<Rightarrow> jsonobj \<Rightarrow> Lease \<Rightarrow> string" where
  "firstUnapprovedURL e toolInput l =
    (case find (\<lambda>u. ClassifyNetworkDest e u (Some l) = ''external'') (ExtractMCPURLs toolInput) of
       None \<Rightarrow> [] | Some u \<Rightarrow> u)"

definition isRiskyShellVerb :: "Verb \<Rightarrow> bool" where
  "isRiskyShellVerb v \<longleftrightarrow> v \<in> {VerbNetExternal, VerbNetAllowlisted, VerbDnsLookup, VerbSudo, VerbPersistence,
     VerbDangerousShell, VerbRunEphemeral, VerbEnvRead, VerbPushRemote, VerbPushOrigin, VerbDeletePosture}"

definition deepVerbGateMCPArgs :: "HookEnv \<Rightarrow> jsonobj \<Rightarrow> Lease \<Rightarrow> ToolIntent option" where
  "deepVerbGateMCPArgs e toolInput l =
    (let cmd = FirstShellLikeValue toolInput;
         path = FirstWriteLikePath toolInput;
         isPosture = IsPostureFileResolved e path l;
         isSensitive = IsSensitivePathResolved e path l
     in if cmd \<noteq> [] \<and> isRiskyShellVerb (ti_Verb (mapShellCommand e l cmd)) then Some (mapShellCommand e l cmd)
        else if path \<noteq> [] \<and> (isPosture \<or> isSensitive)
        then Some ((tool_intent VerbStageWrite path)\<lparr>ti_IsPosture := isPosture, ti_IsSensitive := isSensitive\<rparr>)
        else None)"

definition mapMCP :: "HookEnv \<Rightarrow> string \<Rightarrow> jsonobj \<Rightarrow> Lease \<Rightarrow> ToolIntent" where
  "mapMCP e toolName toolInput l =
    (if \<not> isApprovedMCPServer (extractMCPServerName toolName) l then tool_intent VerbMcpUnapproved toolName
     else if firstUnapprovedURL e toolInput l \<noteq> []
     then tool_intent VerbMcpNetworkUnapproved (RedactURL (firstUnapprovedURL e toolInput l))
     else case (if he_MCPDeepVerbGating e then deepVerbGateMCPArgs e toolInput l else None) of
            Some i \<Rightarrow> i
          | None \<Rightarrow> tool_intent VerbExecuteDryRun toolName)"

definition MapToolToIntent :: "HookEnv \<Rightarrow> string \<Rightarrow> jsonobj \<Rightarrow> Lease \<Rightarrow> ToolIntent" where
  "MapToolToIntent e toolName toolInput l =
    (if toolName = ''Read'' then mapRead e toolInput l
     else if toolName = ''Write'' \<or> toolName = ''Edit'' then mapWrite e toolInput l
     else if toolName = ''Bash'' then mapBash e toolInput l
     else if toolName = ''Agent'' then mapAgent toolInput
     else if toolName = ''WebFetch'' then mapWebFetch e toolInput l
     else if toolName = ''WebSearch'' then mapWebSearch toolInput
     else if strings_HasPrefix toolName ''mcp__'' then mapMCP e toolName toolInput l
     else if toolName = ''Grep'' then mapGrep e toolInput l
     else if toolName = ''Glob'' then tool_intent VerbListFiles (extractTarget toolInput)
     else tool_intent VerbExecuteDryRun toolName)"

end
