(* ===== verification/Classify_Bounds.thy ===== *)
theory Classify_Bounds
  imports Hooks_Toolmap
begin

text \<open>
  Every command that the shell classifier takes out of another one is shorter than the
  command it comes from. These bounds carry the termination of \<open>mapShellCommand\<close>.
\<close>

subsection \<open>Words\<close>

lemma FieldsFunc_nonempty: "x \<in> set (FieldsFunc sep s) \<Longrightarrow> x \<noteq> []"
proof (induction "length s" arbitrary: s rule: less_induct)
  case less
  show ?case
  proof (cases s)
    case Nil
    then show ?thesis using less.prems by simp
  next
    case (Cons c cs)
    show ?thesis
    proof (cases "sep c")
      case True
      then show ?thesis using less.hyps [of cs] less.prems Cons by simp
    next
      case False
      have "length (dropWhile (\<lambda>c. \<not> sep c) cs) < length s"
        using Cons length_dropWhile_le [of "\<lambda>c. \<not> sep c" cs] by simp
      then show ?thesis using less.hyps less.prems Cons False by (auto simp: FieldsFunc_run)
    qed
  qed
qed

lemma Fields_nonempty: "x \<in> set (strings_Fields s) \<Longrightarrow> x \<noteq> []"
  by (simp add: strings_Fields_def FieldsFunc_nonempty)

lemma joined_length_suffix: "suffix ys xs \<Longrightarrow> joined_length ys \<le> joined_length xs"
proof (induction xs)
  case (Cons x xs)
  then show ?case by (auto simp: suffix_Cons joined_length_Cons intro: le_trans [OF Cons.IH])
qed simp

lemma joined_length_tail:
  assumes "suffix ys (tl xs)" "xs \<noteq> []" "hd xs \<noteq> []"
  shows "joined_length ys < joined_length xs"
proof -
  obtain x rest where xs: "xs = x # rest" using assms(2) by (cases xs) auto
  have "joined_length ys \<le> joined_length rest" using joined_length_suffix assms(1) xs by simp
  moreover have "joined_length rest < joined_length xs"
    using assms(3) xs by (cases "rest = []") (auto simp: joined_length_Cons)
  ultimately show ?thesis by simp
qed

lemma suffix_env_skip: "suffix (env_skip ps) ps"
  by (induction ps rule: env_skip.induct) (auto simp: suffix_Cons)

lemma suffix_sudo_skip: "suffix (sudo_skip ps) ps"
  by (induction ps rule: sudo_skip.induct) (auto simp: suffix_Cons)

lemma suffix_after_dash_c: "suffix (after_dash_c ps) ps"
  by (induction ps) (auto simp: suffix_Cons)

lemma suffix_command_words: "suffix (command_words parts) parts"
  unfolding command_words_def
  by (auto split: list.split intro: suffix_ConsI suffix_env_skip suffix_dropWhile)

lemma length_TrimPrefix_le: "length (strings_TrimPrefix s p) \<le> length s"
  by (simp add: strings_TrimPrefix_def)

lemma length_dequoteOuter_le: "length (dequoteOuter s) \<le> length s"
  by (simp add: dequoteOuter_def)

lemma words_of_trimmed: "joined_length (strings_Fields (strings_TrimSpace s)) \<le> length s"
  using Fields_length [of "strings_TrimSpace s"] length_TrimSpace_le [of s] by simp

lemma joined_length_head:
  "length y \<le> length x \<Longrightarrow> joined_length (y # xs) \<le> joined_length (x # xs)"
  by (simp add: joined_length_Cons)

lemma NormalizeCommand_shape:
  assumes "NormalizeCommand cmd \<noteq> []"
  obtains q qs where "suffix (q # qs) (strings_Fields (strings_TrimSpace cmd))" "q \<noteq> []"
    "NormalizeCommand cmd = strings_Join (filepath_Base q # qs) '' ''"
proof -
  let ?ws = "command_words (strings_Fields (strings_TrimSpace cmd))"
  obtain q qs where w: "?ws = q # qs" using assms by (cases ?ws) (auto simp: NormalizeCommand_def)
  then have suf: "suffix (q # qs) (strings_Fields (strings_TrimSpace cmd))"
    using suffix_command_words [of "strings_Fields (strings_TrimSpace cmd)"] by simp
  then have "q \<in> set (strings_Fields (strings_TrimSpace cmd))" using set_mono_suffix by fastforce
  then have "q \<noteq> []" by (rule Fields_nonempty)
  then show ?thesis using that [OF suf] w by (simp add: NormalizeCommand_def)
qed

lemma length_NormalizeCommand_le: "length (NormalizeCommand cmd) \<le> length cmd"
proof (cases "NormalizeCommand cmd = []")
  case False
  then obtain q qs where s: "suffix (q # qs) (strings_Fields (strings_TrimSpace cmd))" "q \<noteq> []"
    and n: "NormalizeCommand cmd = strings_Join (filepath_Base q # qs) '' ''" by (rule NormalizeCommand_shape)
  have "length (NormalizeCommand cmd) \<le> joined_length (q # qs)"
    unfolding n length_Join_space using length_Base_le [OF s(2)] by (rule joined_length_head)
  also have "\<dots> \<le> length cmd" using joined_length_suffix [OF s(1)] words_of_trimmed [of cmd] by simp
  finally show ?thesis .
qed simp

lemma length_normalized_le: "length (normalized_command t) \<le> length t"
  by (simp add: normalized_command_def length_NormalizeCommand_le)

subsection \<open>Wrappers\<close>

lemma wrapper_inner_shorter: "ExtractShellWrapperInner cmd = Some inner \<Longrightarrow> length inner < length cmd"
proof -
  assume h: "ExtractShellWrapperInner cmd = Some inner"
  let ?parts = "strings_Fields (strings_TrimSpace cmd)"
  have p: "?parts \<noteq> []" and inner: "inner =
      strings_TrimSpace (dequoteOuter (strings_TrimSpace (strings_Join (after_dash_c (tl ?parts)) '' '')))"
    using h unfolding ExtractShellWrapperInner_def Let_def by (auto split: if_splits)
  have "length inner \<le> joined_length (after_dash_c (tl ?parts))"
    unfolding inner length_Join_space [symmetric]
    by (intro le_trans [OF length_TrimSpace_le] le_trans [OF length_dequoteOuter_le] length_TrimSpace_le)
  also have "\<dots> < joined_length ?parts"
    using joined_length_tail [OF suffix_after_dash_c p] Fields_nonempty [OF hd_in_set [OF p]] by simp
  also have "\<dots> \<le> length cmd" by (rule words_of_trimmed)
  finally show ?thesis .
qed

lemma sudo_inner_shorter: "IsSudoCommand cmd \<Longrightarrow> length (StripSudoPrefix cmd) < length cmd"
proof -
  assume h: "IsSudoCommand cmd"
  let ?parts = "strings_Fields (strings_TrimSpace cmd)"
  show ?thesis
  proof (cases "?parts = []")
    case True
    have "cmd \<noteq> []" using h by (auto simp: IsSudoCommand_def any_prefix_def lower_trimmed_def strings_ToLower_def)
    then show ?thesis using True by (simp add: StripSudoPrefix_def)
  next
    case False
    have "length (StripSudoPrefix cmd) = joined_length (sudo_skip (tl ?parts))"
      by (simp add: StripSudoPrefix_def length_Join_space)
    also have "\<dots> < joined_length ?parts"
      using joined_length_tail [OF suffix_sudo_skip False] Fields_nonempty [OF hd_in_set [OF False]] by simp
    also have "\<dots> \<le> length cmd" by (rule words_of_trimmed)
    finally show ?thesis .
  qed
qed

subsection \<open>Segments\<close>

lemma joined_length_split: "joined_length (split_compound s d cur cs) \<le> length cur + length cs"
proof (induction s d cur cs rule: split_compound.induct)
  case (2 s d cur ch cs)
  show ?case
    using 2 length_drop_same [of ch cs]
    by (auto simp: joined_length_Cons simp del: drop_same_def split: if_splits)
qed simp

lemma member_joined_length: "x \<in> set xs \<Longrightarrow> length x \<le> joined_length xs"
  by (induction xs) (auto simp: joined_length_Cons)

lemma member_joined_length_less: "x \<in> set xs \<Longrightarrow> 1 < length xs \<Longrightarrow> length x < joined_length xs"
proof (induction xs)
  case (Cons y ys)
  then show ?case using member_joined_length [of x ys] by (cases ys) (auto simp: joined_length_Cons)
qed simp

lemma segment_length: "seg \<in> set (SplitCompoundCommand s) \<Longrightarrow> length seg \<le> length s"
  using member_joined_length [of seg "SplitCompoundCommand s"] joined_length_split [of False False "[]" s]
  by (simp add: SplitCompoundCommand_def)

lemma segment_shorter:
  "seg \<in> set (SplitCompoundCommand s) \<Longrightarrow> 1 < length (SplitCompoundCommand s) \<Longrightarrow> length seg < length s"
  using member_joined_length_less [of seg "SplitCompoundCommand s"] joined_length_split [of False False "[]" s]
  by (simp add: SplitCompoundCommand_def)

subsection \<open>Substitutions\<close>

lemma trimmed_inner_length: "x \<in> set (trimmed_inner s) \<Longrightarrow> length x \<le> length s"
  by (auto simp: trimmed_inner_def length_TrimSpace_le split: if_splits)

lemma span_length: "length (fst (skipBalanced d q s)) + length (snd (skipBalanced d q s)) = length s"
  using arg_cong [OF skipBalanced_append [of d q s], of length] by simp

lemma backtick_length:
  "length (takeWhile P cs) + length (dropWhile P cs) = length cs"
  by (metis length_append takeWhile_dropWhile_id)

lemma substitution_shorter: "x \<in> set (extract_substitutions q s) \<Longrightarrow> length x < length s"
proof (induction "length s" arbitrary: q s rule: less_induct)
  case less
  then obtain c cs where s: "s = c # cs" by (cases s) auto
  let ?P = "\<lambda>d. d \<noteq> CHR 0x60"
  let ?span = "fst (skipBalanced 0 False cs)" and ?rest = "snd (skipBalanced 0 False cs)"
  have r: "length ?rest \<le> length cs" "length ?span \<le> length cs" using span_length [of 0 False cs] by simp_all
  have b: "length (takeWhile ?P cs) \<le> length cs" "length (tl (dropWhile ?P cs)) \<le> length cs"
    using backtick_length [of ?P cs] by simp_all
  have i1: "x \<in> set (trimmed_inner (butlast (tl ?span))) \<Longrightarrow> length x < length (c # cs)"
    using trimmed_inner_length [of x "butlast (tl ?span)"] r by simp
  have i2: "x \<in> set (trimmed_inner (takeWhile ?P cs)) \<Longrightarrow> length x < length (c # cs)"
    using trimmed_inner_length [of x "takeWhile ?P cs"] b by simp
  have ih: "x \<in> set (extract_substitutions p t) \<Longrightarrow> length t \<le> length cs \<Longrightarrow> length x < length (c # cs)" for p t
    using less.hyps [of t p] s by fastforce
  show ?case
    using less.prems i1 i2 ih [of "\<not> q" cs] ih [of q cs] ih [of q ?rest] ih [of q "tl (dropWhile ?P cs)"] r(1) b(2)
    unfolding s extract_substitutions.simps(2) by (simp only: Un_iff set_append order_refl split: if_splits) blast+
qed

lemma strip_length: "length (strip_substitutions q s) \<le> length s"
proof (induction q s rule: strip_substitutions.induct)
  case (2 q c cs)
  then show ?case
    using skipBalanced_length [of 0 False cs] length_tl_dropWhile [of "\<lambda>d. d \<noteq> CHR 0x60" cs]
    by (auto split: if_splits)
qed simp

text \<open>A command that substitutions are taken out of loses at least one byte when they are
  stripped.\<close>

lemma strip_shorter: "extract_substitutions q s \<noteq> [] \<Longrightarrow> length (strip_substitutions q s) < length s"
proof (induction s arbitrary: q)
  case (Cons c cs)
  let ?P = "\<lambda>d. d \<noteq> CHR 0x60"
  let ?rest = "snd (skipBalanced 0 False cs)"
  have sp: "opens_paren cs \<Longrightarrow> length ?rest < length cs"
    using span_length [of 0 False cs] skipBalanced_nonempty [of cs 0 False]
    by (auto simp: opens_paren_def simp flip: length_greater_0_conv)
  have bt: "dropWhile ?P cs \<noteq> [] \<Longrightarrow> length (tl (dropWhile ?P cs)) < length cs"
    using backtick_length [of ?P cs] by (cases "dropWhile ?P cs") auto
  have dollar: "substitution_start (CHR ''$'')" by (simp add: substitution_start_def)
  have st: "opens_paren cs \<Longrightarrow> length (strip_substitutions q ?rest) < length cs"
    "dropWhile ?P cs \<noteq> [] \<Longrightarrow> length (strip_substitutions q (tl (dropWhile ?P cs))) < length cs"
    using sp bt le_less_trans [OF strip_length] by blast+
  show ?case
    using Cons.prems Cons.IH [of "\<not> q"] Cons.IH [of q] st dollar
    unfolding extract_substitutions.simps(2) strip_substitutions.simps(2)
    by (auto split: if_splits simp del: dropWhile_eq_Nil_conv)
qed simp

subsection \<open>White space\<close>

definition blank :: "char \<Rightarrow> char" where
  "blank c = (if ascii_space c then CHR '' '' else c)"

lemma blank_special:
  "blank c = CHR 0x27 \<longleftrightarrow> c = CHR 0x27" "blank c = CHR 0x60 \<longleftrightarrow> c = CHR 0x60"
  "blank c = CHR ''('' \<longleftrightarrow> c = CHR ''(''" "blank c = CHR '')'' \<longleftrightarrow> c = CHR '')''"
  "blank c = CHR ''$'' \<longleftrightarrow> c = CHR ''$''" "blank c = CHR ''<'' \<longleftrightarrow> c = CHR ''<''" "blank c = CHR ''>'' \<longleftrightarrow> c = CHR ''>''"
  by (auto simp: blank_def ascii_space_def)

lemma skipBalanced_blank:
  "skipBalanced d q (map blank s) = map_prod (map blank) (map blank) (skipBalanced d q s)"
  by (induction d q s rule: skipBalanced.induct)
    (auto simp: blank_special apfst_def prod.map_comp comp_def split: prod.splits)

lemma opens_paren_blank [simp]: "opens_paren (map blank s) = opens_paren s"
  by (cases s) (simp_all add: opens_paren_def blank_special)

lemma substitution_start_blank [simp]: "substitution_start (blank c) = substitution_start c"
  by (simp add: substitution_start_def blank_special)

lemma strip_blank: "length (strip_substitutions q (map blank s)) = length (strip_substitutions q s)"
proof (induction q s rule: strip_substitutions.induct)
  case (2 q c cs)
  have d: "dropWhile (\<lambda>d. d \<noteq> CHR 0x60) (map blank cs) = map blank (dropWhile (\<lambda>d. d \<noteq> CHR 0x60) cs)"
    by (simp add: dropWhile_map comp_def blank_special)
  show ?case
    using 2 by (auto simp: blank_special skipBalanced_blank d map_tl [symmetric] simp del: dropWhile_eq_Nil_conv)
qed simp

lemma Join_Fields_blank:
  "joined_length (FieldsFunc ascii_space s) = length s \<Longrightarrow>
   strings_Join (FieldsFunc ascii_space s) '' '' = map blank s"
proof (induction "length s" arbitrary: s rule: less_induct)
  case less
  show ?case
  proof (cases s)
    case (Cons c cs)
    have short: "joined_length (FieldsFunc ascii_space cs) \<le> length cs" by (rule joined_length_FieldsFunc)
    have ns: "\<not> ascii_space c" using less.prems Cons short by auto
    define w where "w = c # takeWhile (\<lambda>c. \<not> ascii_space c) cs"
    define r where "r = dropWhile (\<lambda>c. \<not> ascii_space c) cs"
    have split: "s = w @ r" by (simp add: Cons w_def r_def)
    have w: "map blank w = w"
      using ns by (auto simp: w_def blank_def intro!: map_idI dest!: set_takeWhileD)
    have fields: "FieldsFunc ascii_space s = w # FieldsFunc ascii_space r"
      by (simp add: Cons FieldsFunc_run ns w_def r_def)
    show ?thesis
    proof (cases r)
      case Nil
      then show ?thesis using fields split w by simp
    next
      case (Cons d ds)
      then have sep: "ascii_space d" using hd_dropWhile [of "\<lambda>c. \<not> ascii_space c" cs] by (simp add: r_def)
      then have fr: "FieldsFunc ascii_space r = FieldsFunc ascii_space ds" using Cons by simp
      have le: "joined_length (FieldsFunc ascii_space ds) \<le> length ds" by (rule joined_length_FieldsFunc)
      have len: "joined_length (w # FieldsFunc ascii_space ds) = length w + Suc (length ds)"
        using less.prems unfolding fields fr unfolding split Cons by simp
      then have ne: "FieldsFunc ascii_space ds \<noteq> []" by auto
      then have "joined_length (FieldsFunc ascii_space ds) = length ds"
        using len by (simp add: joined_length_Cons)
      then have "strings_Join (FieldsFunc ascii_space ds) '' '' = map blank ds"
        using less.hyps [of ds] split Cons by simp
      then show ?thesis
        using ne unfolding fields fr unfolding split Cons
        by (cases "FieldsFunc ascii_space ds") (simp_all add: w sep blank_def)
    qed
  qed simp
qed

lemma dropWhile_same_length: "length (dropWhile P xs) = length xs \<Longrightarrow> dropWhile P xs = xs"
  by (metis append_Nil append_eq_append_conv takeWhile_dropWhile_id)

lemma takeWhile_same_length: "length (takeWhile P xs) = length xs \<Longrightarrow> takeWhile P xs = xs"
  by (metis append_eq_conv_conj take_all_iff takeWhile_dropWhile_id order_refl)

lemma TrimSpace_same_length: "length (strings_TrimSpace s) = length s \<Longrightarrow> strings_TrimSpace s = s"
proof -
  assume h: "length (strings_TrimSpace s) = length s"
  have "length (dropWhile ascii_space s) = length s"
    using h length_dropWhile_le [of ascii_space s] length_dropWhile_le [of ascii_space "rev (dropWhile ascii_space s)"]
    unfolding strings_TrimSpace_def by simp
  then have d: "dropWhile ascii_space s = s" by (rule dropWhile_same_length)
  then have "dropWhile ascii_space (rev s) = rev s"
    using h unfolding strings_TrimSpace_def by (intro dropWhile_same_length) simp
  then show ?thesis unfolding strings_TrimSpace_def d by simp
qed

lemma Base_same: "q \<noteq> [] \<Longrightarrow> length (filepath_Base q) = length q \<Longrightarrow> filepath_Base q = q"
proof -
  assume q: "q \<noteq> []" and len: "length (filepath_Base q) = length q"
  let ?p = "dropWhile (\<lambda>c. c \<in> set ''/'') (rev q)"
  let ?b = "takeWhile (\<lambda>c. c \<noteq> CHR ''/'') ?p"
  have base: "filepath_Base q = (if rev ?b = [] then ''/'' else rev ?b)"
    using q by (simp add: filepath_Base_def strings_TrimRight_def Let_def)
  show ?thesis
  proof (cases "?b = []")
    case True
    have "?p = []"
    proof (rule ccontr)
      assume n: "?p \<noteq> []"
      then have "hd ?p \<noteq> CHR ''/''" using hd_dropWhile [OF n] by simp
      then show False using True n by (cases ?p) auto
    qed
    then have all: "\<forall>c\<in>set q. c = CHR ''/''" by simp
    have "length q = 1" using len base True by simp
    then obtain c where "q = [c]" by (auto simp: length_Suc_conv)
    then show ?thesis using all base True by simp
  next
    case False
    have l: "length ?b = length q" using len base False by simp
    have le: "length ?b \<le> length ?p" "length ?p \<le> length q"
      using length_takeWhile_le length_dropWhile_le [of _ "rev q"] by (fastforce, simp)
    have "?p = rev q" using l le by (intro dropWhile_same_length) simp
    moreover have "?b = ?p" using l le by (intro takeWhile_same_length) simp
    ultimately have "?b = rev q" by simp
    then show ?thesis using base False by (simp del: takeWhile_eq_all_conv)
  qed
qed

lemma joined_length_same:
  assumes "suffix ys xs" "\<And>x. x \<in> set xs \<Longrightarrow> x \<noteq> []" "joined_length ys = joined_length xs"
  shows "ys = xs"
proof (cases xs)
  case (Cons x rest)
  show ?thesis
  proof (rule ccontr)
    assume "ys \<noteq> xs"
    then have "suffix ys (tl xs)" using assms(1) Cons by (auto simp: suffix_Cons)
    then have "joined_length ys < joined_length xs" using joined_length_tail [of ys xs] assms(2) [of x] Cons by simp
    then show False using assms(3) by simp
  qed
qed (use assms(1) in simp)

lemma NormalizeCommand_same_length:
  assumes n: "NormalizeCommand t \<noteq> []" and len: "length (NormalizeCommand t) = length t"
  shows "NormalizeCommand t = map blank t"
proof -
  let ?parts = "strings_Fields (strings_TrimSpace t)"
  obtain q qs where s: "suffix (q # qs) ?parts" "q \<noteq> []"
    and eq: "NormalizeCommand t = strings_Join (filepath_Base q # qs) '' ''" using NormalizeCommand_shape [OF n] .
  have jl: "joined_length (filepath_Base q # qs) = length t" using len eq by (simp add: length_Join_space)
  have le: "joined_length (filepath_Base q # qs) \<le> joined_length (q # qs)"
    "joined_length (q # qs) \<le> joined_length ?parts" "joined_length ?parts \<le> length (strings_TrimSpace t)"
    "length (strings_TrimSpace t) \<le> length t"
    using joined_length_head [OF length_Base_le [OF s(2)]] joined_length_suffix [OF s(1)] Fields_length length_TrimSpace_le
    by blast+
  have "length (filepath_Base q) = length q" using jl le by (simp add: joined_length_Cons)
  then have base: "filepath_Base q = q" by (rule Base_same [OF s(2)])
  have trim: "strings_TrimSpace t = t" using jl le by (intro TrimSpace_same_length) simp
  have "q # qs = ?parts" using jl le s(1) by (intro joined_length_same Fields_nonempty) simp_all
  then have all: "NormalizeCommand t = strings_Join (strings_Fields t) '' ''" using eq base trim by simp
  have "joined_length (strings_Fields t) = length t" using jl le trim by simp
  then show ?thesis using Join_Fields_blank all by (simp add: strings_Fields_def)
qed

lemma skeleton_shorter:
  assumes "ExtractCommandSubstitutions t \<noteq> []"
  shows "length (command_skeleton t) < length t"
proof -
  let ?n = "normalized_command t"
  have sk: "command_skeleton t = strip_substitutions False ?n"
    using assms by (simp add: command_skeleton_def StripCommandSubstitutions_def)
  have strict: "length (strip_substitutions False t) < length t"
    using strip_shorter assms by (simp add: ExtractCommandSubstitutions_def)
  consider "?n = t" | "NormalizeCommand t \<noteq> []" "?n = NormalizeCommand t" "length ?n < length t"
    | "NormalizeCommand t \<noteq> []" "?n = NormalizeCommand t" "length ?n = length t"
    using length_normalized_le [of t] by (cases "NormalizeCommand t = []") (auto simp: normalized_command_def le_less)
  then show ?thesis
  proof cases
    case 2
    then show ?thesis using strip_length [of False ?n] sk by simp
  next
    case 3
    then have "?n = map blank t" using NormalizeCommand_same_length [of t] by simp
    then show ?thesis using sk strict strip_blank [of False t] by simp
  qed (use sk strict in simp)
qed

lemma skeleton_length: "length (command_skeleton t) \<le> length t"
  using skeleton_shorter [of t] length_normalized_le [of t]
  by (cases "ExtractCommandSubstitutions t = []") (simp_all add: command_skeleton_def)

subsection \<open>Eval\<close>

lemma hd_Fields: "strings_Fields s \<noteq> [] \<Longrightarrow> hd (strings_Fields s) = takeWhile (\<lambda>c. \<not> ascii_space c) (dropWhile ascii_space s)"
  unfolding strings_Fields_def by (subst FieldsFunc.simps) (auto simp: Let_def FieldsFunc.simps [of _ s])

lemma dropWhile_TrimSpace: "dropWhile ascii_space (strings_TrimSpace s) = strings_TrimSpace s"
proof (cases "strings_TrimSpace s")
  case (Cons c cs)
  let ?d = "dropWhile ascii_space s"
  have suf: "prefix (strings_TrimSpace s) ?d"
    unfolding strings_TrimSpace_def by (metis suffix_dropWhile suffix_to_prefix rev_rev_ident)
  then obtain r where d: "?d = c # r" using Cons by (cases ?d) auto
  then have "\<not> ascii_space c" using hd_dropWhile [of ascii_space s] by simp
  then show ?thesis using Cons by simp
qed simp

lemma eval_argument_shorter:
  assumes "ExtractEvalArguments seg = Some arg"
  shows "length arg < length seg" "length ''eval'' < length seg"
proof -
  let ?t = "strings_TrimSpace seg"
  have f: "2 \<le> length (strings_Fields ?t)" "hd (strings_Fields ?t) = ''eval''"
    and arg: "arg = dequoteOuter (strings_TrimSpace (strings_TrimPrefix ?t ''eval''))"
    using assms unfolding ExtractEvalArguments_def Let_def by (auto split: if_splits)
  obtain w v ws where w: "strings_Fields ?t = w # v # ws" using f(1) by (cases "strings_Fields ?t" rule: remdups_adj.cases) auto
  have "takeWhile (\<lambda>c. \<not> ascii_space c) ?t = ''eval''" using hd_Fields [of ?t] f w dropWhile_TrimSpace [of seg] by simp
  then have pre: "strings_HasPrefix ?t ''eval''" by (metis HasPrefix_iff_prefix takeWhile_is_prefix)
  have "length (strings_TrimPrefix ?t ''eval'') = length ?t - 4" using pre by (simp add: strings_TrimPrefix_def)
  then have la: "length arg \<le> length ?t - 4"
    unfolding arg using length_dequoteOuter_le length_TrimSpace_le le_trans by metis
  have "length ''eval'' < joined_length (strings_Fields ?t)" using f(2) w by (simp add: joined_length_Cons)
  then have "length ''eval'' < length ?t" using Fields_length [of ?t] by simp
  then show "length arg < length seg" "length ''eval'' < length seg"
    using la length_TrimSpace_le [of seg] by simp_all
qed

subsection \<open>The parts of a command\<close>

lemma segment_commands_length:
  assumes "c \<in> set (segment_commands seg)"
  shows "length c < length seg \<or> segment_commands seg = [seg] \<and> c = seg"
proof (cases "ExtractEvalArguments (strings_TrimSpace seg)")
  case None
  then show ?thesis using assms by (simp add: segment_commands_def)
next
  case (Some arg)
  then have "length c < length (strings_TrimSpace seg)"
    using assms eval_argument_shorter [OF Some] by (auto simp: segment_commands_def)
  then show ?thesis using length_TrimSpace_le [of seg] by simp
qed

theorem sub_command_shorter:
  assumes c: "c \<in> set (sub_commands t)" and many: "1 < length (sub_commands t)"
  shows "length c < length t"
proof -
  let ?segs = "SplitCompoundCommand (command_skeleton t)"
  have sub: "sub_commands t = concat (map segment_commands ?segs) @ ExtractCommandSubstitutions t"
    using many unfolding sub_commands_def Let_def by (auto split: if_splits)
  consider "c \<in> set (ExtractCommandSubstitutions t)" | seg where "seg \<in> set ?segs" "c \<in> set (segment_commands seg)"
    using c unfolding sub by auto
  then show ?thesis
  proof cases
    case 1
    then show ?thesis using substitution_shorter by (simp add: ExtractCommandSubstitutions_def)
  next
    case (2 seg)
    have le: "length seg \<le> length (command_skeleton t)" by (rule segment_length [OF 2(1)])
    consider "length c < length seg" | "segment_commands seg = [seg]" "c = seg" using segment_commands_length [OF 2(2)] by blast
    then show ?thesis
    proof cases
      case 1
      then show ?thesis using le skeleton_length [of t] by simp
    next
      case same: 2
      show ?thesis
      proof (cases "1 < length ?segs")
        case True
        then show ?thesis using segment_shorter [OF 2(1)] same skeleton_length [of t] by simp
      next
        case False
        then have "?segs = [seg]" using 2(1) by (cases ?segs) auto
        then have "ExtractCommandSubstitutions t \<noteq> []" using many sub same by auto
        then show ?thesis using skeleton_shorter [of t] le same by simp
      qed
    qed
  qed
qed

end
