(* ===== verification/Hooks_Shell.thy ===== *)
theory Hooks_Shell
  imports Classify_Bounds
begin

text \<open>
  What \<open>mapShellCommand\<close> guarantees: it returns, it takes the riskiest of the commands it
  finds inside a command, and the ways to put a command inside another that it sees through.
\<close>

subsection \<open>Termination\<close>

lemma fold_parts_cong:
  "(\<And>seg. seg \<in> set segs \<Longrightarrow> f (strings_TrimSpace seg) = g (strings_TrimSpace seg)) \<Longrightarrow>
   fold_parts f segs h s = fold_parts g segs h s"
  by (induction f segs h s rule: fold_parts.induct) (auto split: option.splits)

definition absorb :: "ToolIntent \<times> ToolIntent option \<Rightarrow> ToolIntent \<Rightarrow> ToolIntent \<times> ToolIntent option" where
  "absorb r i = (merge_intent (fst r) i, if snd r = None \<and> is_sensitive_read i then Some i else snd r)"

definition parts_of :: "string list \<Rightarrow> string list" where
  "parts_of segs = filter (\<lambda>p. p \<noteq> []) (map strings_TrimSpace segs)"

lemma fold_parts_total:
  "(\<And>seg. seg \<in> set segs \<Longrightarrow> f (strings_TrimSpace seg) = Some (g (strings_TrimSpace seg))) \<Longrightarrow>
   fold_parts f segs h s = Some (foldl absorb (h, s) (map g (parts_of segs)))"
  by (induction f segs h s rule: fold_parts.induct) (auto simp: absorb_def parts_of_def)

lemma part_shorter:
  "1 < length (sub_commands (strings_TrimSpace cmd)) \<Longrightarrow> c \<in> set (sub_commands (strings_TrimSpace cmd)) \<Longrightarrow>
   length (strings_TrimSpace c) < length cmd"
  using sub_command_shorter [of c "strings_TrimSpace cmd"] length_TrimSpace_le [of c] length_TrimSpace_le [of cmd] by simp

lemma wrapped_shorter:
  "ExtractShellWrapperInner (normalized_command (strings_TrimSpace cmd)) = Some inner \<Longrightarrow> length inner < length cmd"
  using wrapper_inner_shorter [of "normalized_command (strings_TrimSpace cmd)" inner]
    length_normalized_le [of "strings_TrimSpace cmd"] length_TrimSpace_le [of cmd] by simp

lemma elevated_shorter:
  "IsSudoCommand (normalized_command (strings_TrimSpace cmd)) \<Longrightarrow>
   length (StripSudoPrefix (normalized_command (strings_TrimSpace cmd))) < length cmd"
  using sudo_inner_shorter [of "normalized_command (strings_TrimSpace cmd)"]
    length_normalized_le [of "strings_TrimSpace cmd"] length_TrimSpace_le [of cmd] by simp

lemma map_shell_agree:
  "length cmd < m \<Longrightarrow> length cmd < n \<Longrightarrow> map_shell m e l cmd = map_shell n e l cmd"
proof (induction m arbitrary: cmd n)
  case (Suc m)
  obtain k where n: "n = Suc k" using Suc.prems by (cases n) auto
  let ?t = "strings_TrimSpace cmd"
  have ih: "map_shell m e l c = map_shell k e l c" if "length c < length cmd" for c
    using Suc.IH [of c k] Suc.prems n that by simp
  have parts: "fold_parts (map_shell m e l) (sub_commands ?t) h s = fold_parts (map_shell k e l) (sub_commands ?t) h s"
    if "1 < length (sub_commands ?t)" for h s
    by (rule fold_parts_cong) (rule ih, rule part_shorter [OF that])
  show ?case
    unfolding n map_shell.simps Let_def
    using parts ih [OF wrapped_shorter] ih [OF elevated_shorter]
    by (auto split: option.split)
qed simp

definition decompose :: "(string \<Rightarrow> ToolIntent) \<Rightarrow> HookEnv \<Rightarrow> Lease \<Rightarrow> string \<Rightarrow> ToolIntent" where
  "decompose f e l cmd =
    (let t = strings_TrimSpace cmd; normalized = normalized_command t in
     if ContainsSirSelfCommand normalized \<or> TargetsSirStateFiles normalized then tool_intent VerbSirSelf t
     else if 1 < length (sub_commands t)
     then compound_result t (foldl absorb (tool_intent VerbExecuteDryRun t, None) (map f (parts_of (sub_commands t))))
     else case ExtractShellWrapperInner normalized of
            Some inner \<Rightarrow> (f inner)\<lparr>ti_Target := t\<rparr>
          | None \<Rightarrow>
              if IsSudoCommand normalized then elevate ((f (StripSudoPrefix normalized))\<lparr>ti_Target := t\<rparr>)
              else single_command e l t normalized)"

lemma map_shell_step:
  assumes "\<And>c. length c < length cmd \<Longrightarrow> map_shell n e l c = Some (f c)"
  shows "map_shell (Suc n) e l cmd = Some (decompose f e l cmd)"
proof -
  let ?t = "strings_TrimSpace cmd"
  have parts: "fold_parts (map_shell n e l) (sub_commands ?t) h s
      = Some (foldl absorb (h, s) (map f (parts_of (sub_commands ?t))))"
    if "1 < length (sub_commands ?t)" for h s
    by (rule fold_parts_total) (rule assms, rule part_shorter [OF that])
  show ?thesis
    unfolding map_shell.simps decompose_def Let_def
    using parts assms [OF wrapped_shorter] assms [OF elevated_shorter]
    by (auto split: option.split)
qed

declare map_shell.simps(2) [simp del]

lemma map_shell_returns: "length cmd < n \<Longrightarrow> map_shell n e l cmd = Some (mapShellCommand e l cmd)"
proof (induction n arbitrary: cmd)
  case (Suc n)
  have "map_shell n e l c = Some (mapShellCommand e l c)" if "length c < length cmd" for c
    using Suc that by simp
  then have "map_shell (Suc n) e l cmd = Some (decompose (mapShellCommand e l) e l cmd)" by (rule map_shell_step)
  then show ?case
    using map_shell_agree [of cmd "Suc n" "Suc (length cmd)" e l] Suc.prems by (simp add: mapShellCommand_def)
qed simp

lemma mapShellCommand_step: "mapShellCommand e l cmd = decompose (mapShellCommand e l) e l cmd"
proof -
  have "map_shell (Suc (length cmd)) e l cmd = Some (decompose (mapShellCommand e l) e l cmd)"
    by (rule map_shell_step) (simp add: map_shell_returns)
  then show ?thesis by (simp add: mapShellCommand_def)
qed

text \<open>C32: classifying a shell command always returns. The recursion of \<open>mapShellCommand\<close> is
  never deeper than the length of the command, whatever the command is: once the depth bound
  exceeds the length, the classifier returns, its result does not depend on the bound, and it
  satisfies the equation of the code.\<close>

theorem shell_classifier_returns:
  "map_shell (length cmd + Suc k) e l cmd = Some (mapShellCommand e l cmd)
   \<and> mapShellCommand e l cmd = decompose (mapShellCommand e l) e l cmd"
  using map_shell_returns [of cmd "length cmd + Suc k" e l] mapShellCommand_step by simp

subsection \<open>The riskiest part wins\<close>

abbreviation shell_verb :: "HookEnv \<Rightarrow> Lease \<Rightarrow> string \<Rightarrow> Verb" where
  "shell_verb e l cmd \<equiv> ti_Verb (mapShellCommand e l cmd)"

lemma merge_risk:
  "VerbRisk (ti_Verb h) \<le> VerbRisk (ti_Verb (merge_intent h i))"
  "VerbRisk (ti_Verb i) \<le> VerbRisk (ti_Verb (merge_intent h i))"
  "ti_IsSensitive (merge_intent h i) \<longleftrightarrow> ti_IsSensitive h \<or> ti_IsSensitive i"
  by (simp_all add: merge_intent_def)

lemma absorb_all_risk:
  "VerbRisk (ti_Verb (fst r)) \<le> VerbRisk (ti_Verb (fst (foldl absorb r is)))"
  "i \<in> set is \<Longrightarrow> VerbRisk (ti_Verb i) \<le> VerbRisk (ti_Verb (fst (foldl absorb r is)))"
  "ti_IsSensitive (fst (foldl absorb r is)) \<longleftrightarrow> ti_IsSensitive (fst r) \<or> (\<exists>i\<in>set is. ti_IsSensitive i)"
proof (induction "is" arbitrary: r)
  case (Cons j js)
  {
    case 1
    then show ?case using Cons(1) [of "absorb r j"] merge_risk(1) [of "fst r" j] by (simp add: absorb_def)
  next
    case 2
    then show ?case
      using Cons(1,2) [of "absorb r j"] merge_risk(2) [of j "fst r"] by (auto simp: absorb_def intro: order_trans)
  next
    case 3
    then show ?case using Cons(3) [of "absorb r j"] by (auto simp: absorb_def merge_risk)
  }
qed simp_all

lemma compound_result_verb:
  "VerbRisk VerbExecuteDryRun < VerbRisk (ti_Verb (fst r)) \<Longrightarrow> ti_Verb (compound_result t r) = ti_Verb (fst r)"
  "ti_IsSensitive (fst r) \<Longrightarrow> ti_IsSensitive (compound_result t r)"
  by (auto simp: compound_result_def read_intent_def split: prod.split option.split)

lemma elevate_risk:
  "VerbRisk (ti_Verb i) \<le> VerbRisk (ti_Verb (elevate i))" "ti_IsSensitive (elevate i) = ti_IsSensitive i"
  by (auto simp: elevate_def VerbRisk_def verb_defs)

lemma VerbRisk_max: "VerbRisk v \<le> VerbRisk VerbSirSelf"
  by (simp add: VerbRisk_def)

text \<open>A command runs itself, the commands it is made of, the command in a shell wrapper and the
  command behind \<open>sudo\<close>, as the code takes them apart.\<close>

inductive runs :: "string \<Rightarrow> string \<Rightarrow> bool" where
  runs_itself: "runs cmd cmd"
| runs_part: "1 < length (sub_commands (strings_TrimSpace cmd)) \<Longrightarrow> p \<in> set (parts_of (sub_commands (strings_TrimSpace cmd)))
    \<Longrightarrow> runs p c \<Longrightarrow> runs cmd c"
| runs_wrapped: "length (sub_commands (strings_TrimSpace cmd)) \<le> 1
    \<Longrightarrow> ExtractShellWrapperInner (normalized_command (strings_TrimSpace cmd)) = Some inner
    \<Longrightarrow> runs inner c \<Longrightarrow> runs cmd c"
| runs_elevated: "length (sub_commands (strings_TrimSpace cmd)) \<le> 1
    \<Longrightarrow> ExtractShellWrapperInner (normalized_command (strings_TrimSpace cmd)) = None
    \<Longrightarrow> IsSudoCommand (normalized_command (strings_TrimSpace cmd))
    \<Longrightarrow> runs (StripSudoPrefix (normalized_command (strings_TrimSpace cmd))) c \<Longrightarrow> runs cmd c"

text \<open>How the result of a command relates to that of a command it runs directly.\<close>

definition covers :: "ToolIntent \<Rightarrow> ToolIntent \<Rightarrow> bool" where
  "covers outer inner \<longleftrightarrow>
     (VerbRisk VerbExecuteDryRun < VerbRisk (ti_Verb inner) \<longrightarrow> VerbRisk (ti_Verb inner) \<le> VerbRisk (ti_Verb outer))
     \<and> (ti_IsSensitive inner \<longrightarrow> ti_IsSensitive outer \<or> ti_Verb outer = VerbSirSelf)"

lemma covers_refl: "covers i i"
  by (simp add: covers_def)

lemma verb_risk_100: "VerbRisk v = 100 \<longleftrightarrow> v = VerbSirSelf"
  by (simp add: VerbRisk_def)

lemma self_risky: "VerbRisk VerbExecuteDryRun < VerbRisk VerbSirSelf" "VerbRisk VerbSirSelf = 100"
  by (simp_all add: VerbRisk_def verb_defs)

lemma covers_trans: "covers a b \<Longrightarrow> covers b c \<Longrightarrow> covers a c"
  unfolding covers_def using VerbRisk_max [of "ti_Verb a"] verb_risk_100 [of "ti_Verb a"] verb_risk_100 [of "ti_Verb b"]
    self_risky by fastforce

lemma self_covers: "covers (tool_intent VerbSirSelf t) i"
  by (simp add: covers_def tool_intent_def VerbRisk_max)

lemma decompose_covers:
  "1 < length (sub_commands (strings_TrimSpace cmd)) \<Longrightarrow> p \<in> set (parts_of (sub_commands (strings_TrimSpace cmd)))
    \<Longrightarrow> covers (decompose f e l cmd) (f p)"
  "length (sub_commands (strings_TrimSpace cmd)) \<le> 1
    \<Longrightarrow> ExtractShellWrapperInner (normalized_command (strings_TrimSpace cmd)) = Some inner
    \<Longrightarrow> covers (decompose f e l cmd) (f inner)"
  "length (sub_commands (strings_TrimSpace cmd)) \<le> 1
    \<Longrightarrow> ExtractShellWrapperInner (normalized_command (strings_TrimSpace cmd)) = None
    \<Longrightarrow> IsSudoCommand (normalized_command (strings_TrimSpace cmd))
    \<Longrightarrow> covers (decompose f e l cmd) (f (StripSudoPrefix (normalized_command (strings_TrimSpace cmd))))"
proof -
  let ?t = "strings_TrimSpace cmd"
  let ?n = "normalized_command ?t"
  let ?subs = "sub_commands ?t"
  have self: "covers (decompose f e l cmd) i" if "ContainsSirSelfCommand ?n \<or> TargetsSirStateFiles ?n" for i
    using that self_covers by (simp add: decompose_def Let_def)
  {
    assume m: "1 < length ?subs" and p: "p \<in> set (parts_of ?subs)"
    let ?r = "foldl absorb (tool_intent VerbExecuteDryRun ?t, None) (map f (parts_of ?subs))"
    have r: "VerbRisk (ti_Verb (f p)) \<le> VerbRisk (ti_Verb (fst ?r))" "ti_IsSensitive (f p) \<Longrightarrow> ti_IsSensitive (fst ?r)"
      using p absorb_all_risk(2,3) by (auto intro!: absorb_all_risk(2))
    have "covers (compound_result ?t ?r) (f p)"
      unfolding covers_def using r compound_result_verb(1) [of ?r ?t] compound_result_verb(2) [of ?r ?t] by auto
    then show "covers (decompose f e l cmd) (f p)"
      using m self by (auto simp: decompose_def Let_def)
  next
    assume "length ?subs \<le> 1" "ExtractShellWrapperInner ?n = Some inner"
    then show "covers (decompose f e l cmd) (f inner)"
      using self [of "f inner"] by (auto simp: decompose_def Let_def covers_def)
  next
    assume "length ?subs \<le> 1" "ExtractShellWrapperInner ?n = None" "IsSudoCommand ?n"
    then show "covers (decompose f e l cmd) (f (StripSudoPrefix ?n))"
      using self [of "f (StripSudoPrefix ?n)"] elevate_risk [of "(f (StripSudoPrefix ?n))\<lparr>ti_Target := ?t\<rparr>"]
      by (auto simp: decompose_def Let_def covers_def)
  }
qed

lemma runs_covers: "runs cmd c \<Longrightarrow> covers (mapShellCommand e l cmd) (mapShellCommand e l c)"
proof (induction rule: runs.induct)
  case (runs_itself cmd)
  show ?case by (rule covers_refl)
next
  case (runs_part cmd p c)
  then show ?case
    using covers_trans decompose_covers(1) [of cmd p "mapShellCommand e l" e l] mapShellCommand_step [of e l cmd] by simp
next
  case (runs_wrapped cmd inner c)
  then show ?case
    using covers_trans decompose_covers(2) [of cmd inner "mapShellCommand e l" e l] mapShellCommand_step [of e l cmd] by simp
next
  case (runs_elevated cmd c)
  then show ?case
    using covers_trans decompose_covers(3) [of cmd "mapShellCommand e l" e l] mapShellCommand_step [of e l cmd] by simp
qed

end
