(* ===== verification/Provider_Registry.thy ===== *)
theory Provider_Registry
  imports Session_Run Go_Bytes Go_Json
begin

text \<open>
  Package \<open>pkg/provider\<close>, \<open>registry.go\<close>: the registry of providers and the operations of
  \<open>sir provider\<close> on it. Reading and writing the file is left to the caller; what the file
  holds is the registry itself. The checks on who may be authoritative, and the order in
  which entries are changed, are those of the source.
\<close>

subsection \<open>Entries\<close>

definition KindSignal :: string where "KindSignal = ''signal_provider''"
definition KindEffect :: string where "KindEffect = ''effect_provider''"
definition KindPolicy :: string where "KindPolicy = ''policy_provider''"
definition KindAdvisory :: string where "KindAdvisory = ''advisory_provider''"
definition KindExport :: string where "KindExport = ''export_provider''"

lemmas provider_kind_defs [const_defs] =
  KindSignal_def KindEffect_def KindPolicy_def KindAdvisory_def KindExport_def

definition HealthUnhealthy :: string where "HealthUnhealthy = ''unhealthy''"
definition HealthUnknown :: string where "HealthUnknown = ''unknown''"
definition AuthorityAdvisory :: string where "AuthorityAdvisory = ''advisory''"
definition AuthorityAuthoritative :: string where "AuthorityAuthoritative = ''authoritative''"
definition OnFailureAsk :: string where "OnFailureAsk = ''ask''"
definition OnFailureDeny :: string where "OnFailureDeny = ''deny''"

lemmas authority_defs [const_defs] =
  AuthorityAdvisory_def AuthorityAuthoritative_def OnFailureAsk_def OnFailureDeny_def

definition exclusiveKind :: "string \<Rightarrow> bool" where
  "exclusiveKind kind \<longleftrightarrow> kind = ''policy_provider'' \<or> kind = ''effect_provider''"

record Health =
  ph_Status :: string
  ph_CheckedAt :: Time
  ph_Reason :: string
  ph_Errors :: int

record ProviderEntry =
  pe_RegistryID :: string
  pe_Name :: string
  pe_Kind :: string
  pe_Version :: string
  pe_ManifestPath :: string
  pe_Entrypoint :: string
  pe_Platforms :: "string list"
  pe_Capabilities :: jsonobj
  pe_Enabled :: bool
  pe_Health :: Health
  pe_InstalledAt :: Time
  pe_InstalledBy :: string
  pe_Config :: "string smap"
  pe_Authority :: string
  pe_OnFailure :: string

definition IsAuthoritative :: "ProviderEntry \<Rightarrow> bool" where
  "IsAuthoritative e \<longleftrightarrow> pe_Kind e = KindPolicy \<and> pe_Authority e = AuthorityAuthoritative"

definition FailureVerdict :: "ProviderEntry \<Rightarrow> string" where
  "FailureVerdict e = (if pe_OnFailure e = OnFailureDeny then OnFailureDeny else OnFailureAsk)"

record Registry =
  rg_SchemaVersion :: string
  rg_Providers :: "ProviderEntry list"
  rg_UpdatedAt :: Time

definition emptyRegistry :: Registry where
  "emptyRegistry = \<lparr>rg_SchemaVersion = ''sir.provider_registry.v1'', rg_Providers = [], rg_UpdatedAt = 0\<rparr>"

definition makeRegistryID :: "string \<Rightarrow> string" where
  "makeRegistryID name = ''prov_'' @ hex_EncodeToString (take 4 (sha256_Sum256 name))"

subsection \<open>Operations\<close>

datatype registry_error =
    AlreadyRegistered string
  | ProviderNotFound string
  | BadAuthority string
  | NotPolicyProvider string
  | NotEnabled string
  | BadOnFailure string
  | DifferentKinds string string

definition ByName :: "Registry \<Rightarrow> string \<Rightarrow> ProviderEntry option" where
  "ByName r name = find (\<lambda>e. pe_Name e = name) (rg_Providers r)"

definition Active :: "Registry \<Rightarrow> string \<Rightarrow> ProviderEntry list" where
  "Active r kind = filter (\<lambda>e. pe_Kind e = kind \<and> pe_Enabled e) (rg_Providers r)"

text \<open>The loops that change the first entry with the name and return.\<close>

fun update_first :: "string \<Rightarrow> (ProviderEntry \<Rightarrow> ProviderEntry) \<Rightarrow> ProviderEntry list \<Rightarrow> ProviderEntry list" where
  "update_first name f [] = []"
| "update_first name f (e # es) = (if pe_Name e = name then f e # es else e # update_first name f es)"

fun remove_first :: "string \<Rightarrow> ProviderEntry list \<Rightarrow> ProviderEntry list" where
  "remove_first name [] = []"
| "remove_first name (e # es) = (if pe_Name e = name then es else e # remove_first name es)"

definition with_entry ::
  "string \<Rightarrow> (ProviderEntry list \<Rightarrow> ProviderEntry list) \<Rightarrow> Registry \<Rightarrow> registry_error + Registry" where
  "with_entry name f r =
     (case ByName r name of
        None \<Rightarrow> Inl (ProviderNotFound name)
      | Some _ \<Rightarrow> Inr (r\<lparr>rg_Providers := f (rg_Providers r)\<rparr>))"

definition Add :: "ProviderEntry \<Rightarrow> Registry \<Rightarrow> registry_error + Registry" where
  "Add e r =
     (case ByName r (pe_Name e) of
        Some _ \<Rightarrow> Inl (AlreadyRegistered (pe_Name e))
      | None \<Rightarrow>
          (let e1 = (if pe_RegistryID e = [] then e\<lparr>pe_RegistryID := makeRegistryID (pe_Name e)\<rparr> else e);
               e2 = (if ph_Status (pe_Health e1) = []
                     then e1\<lparr>pe_Health := (pe_Health e1)\<lparr>ph_Status := HealthUnknown\<rparr>\<rparr> else e1)
           in Inr (r\<lparr>rg_Providers := rg_Providers r @ [e2]\<rparr>)))"

definition Remove :: "string \<Rightarrow> Registry \<Rightarrow> registry_error + Registry" where
  "Remove name r = with_entry name (remove_first name) r"

definition disable_rivals :: "string \<Rightarrow> string \<Rightarrow> ProviderEntry list \<Rightarrow> ProviderEntry list" where
  "disable_rivals kind name es =
     map (\<lambda>e. if pe_Kind e = kind \<and> pe_Name e \<noteq> name then e\<lparr>pe_Enabled := False\<rparr> else e) es"

definition Enable :: "string \<Rightarrow> Registry \<Rightarrow> registry_error + Registry" where
  "Enable name r =
     (case ByName r name of
        None \<Rightarrow> Inl (ProviderNotFound name)
      | Some e \<Rightarrow>
          (let es = (if exclusiveKind (pe_Kind e) then disable_rivals (pe_Kind e) name (rg_Providers r)
                     else rg_Providers r)
           in Inr (r\<lparr>rg_Providers := update_first name (\<lambda>e. e\<lparr>pe_Enabled := True\<rparr>) es\<rparr>)))"

definition Disable :: "string \<Rightarrow> Registry \<Rightarrow> registry_error + Registry" where
  "Disable name r = with_entry name (update_first name (\<lambda>e. e\<lparr>pe_Enabled := False\<rparr>)) r"

definition Use :: "string \<Rightarrow> Registry \<Rightarrow> registry_error + Registry" where
  "Use name r = Enable name r"

definition clear_authority :: "ProviderEntry \<Rightarrow> ProviderEntry" where
  "clear_authority e = e\<lparr>pe_Authority := [], pe_OnFailure := []\<rparr>"

definition demote_rivals :: "string \<Rightarrow> ProviderEntry list \<Rightarrow> ProviderEntry list" where
  "demote_rivals name es =
     map (\<lambda>e. if pe_Kind e = KindPolicy \<and> pe_Name e \<noteq> name then clear_authority e else e) es"

definition SetAuthority :: "string \<Rightarrow> string \<Rightarrow> string \<Rightarrow> Registry \<Rightarrow> registry_error + Registry" where
  "SetAuthority name authority onFailure r =
     (case ByName r name of
        None \<Rightarrow> Inl (ProviderNotFound name)
      | Some e \<Rightarrow>
          if authority \<noteq> AuthorityAuthoritative \<and> authority \<noteq> AuthorityAdvisory then Inl (BadAuthority authority)
          else if authority = AuthorityAuthoritative \<and> pe_Kind e \<noteq> KindPolicy then Inl (NotPolicyProvider name)
          else if authority = AuthorityAuthoritative \<and> \<not> pe_Enabled e then Inl (NotEnabled name)
          else if authority = AuthorityAuthoritative \<and> onFailure \<noteq> [] \<and> onFailure \<noteq> OnFailureAsk
                  \<and> onFailure \<noteq> OnFailureDeny then Inl (BadOnFailure onFailure)
          else if authority = AuthorityAuthoritative
          then Inr (r\<lparr>rg_Providers :=
                 update_first name (\<lambda>e. e\<lparr>pe_Authority := AuthorityAuthoritative, pe_OnFailure := onFailure\<rparr>)
                   (demote_rivals name (rg_Providers r))\<rparr>)
          else Inr (r\<lparr>rg_Providers := update_first name clear_authority (rg_Providers r)\<rparr>))"

definition Swap :: "string \<Rightarrow> string \<Rightarrow> Registry \<Rightarrow> registry_error + Registry" where
  "Swap oldName newName r =
     (case (ByName r oldName, ByName r newName) of
        (None, _) \<Rightarrow> Inl (ProviderNotFound oldName)
      | (_, None) \<Rightarrow> Inl (ProviderNotFound newName)
      | (Some old, Some nw) \<Rightarrow>
          if pe_Kind old \<noteq> pe_Kind nw then Inl (DifferentKinds oldName newName)
          else (case Disable oldName r of Inl err \<Rightarrow> Inl err | Inr r' \<Rightarrow> Enable newName r'))"

definition Configure :: "string \<Rightarrow> string \<Rightarrow> string \<Rightarrow> Registry \<Rightarrow> registry_error + Registry" where
  "Configure name key val r =
     with_entry name (update_first name (\<lambda>e. e\<lparr>pe_Config := AList.update key val (pe_Config e)\<rparr>)) r"

definition UpdateHealth :: "Time \<Rightarrow> string \<Rightarrow> string \<Rightarrow> string \<Rightarrow> Registry \<Rightarrow> Registry" where
  "UpdateHealth now name status reason r =
     r\<lparr>rg_Providers := update_first name
        (\<lambda>e. e\<lparr>pe_Health := \<lparr>ph_Status = status, ph_CheckedAt = now, ph_Reason = reason,
                ph_Errors = (if status = HealthUnhealthy then ph_Errors (pe_Health e) + 1 else ph_Errors (pe_Health e))\<rparr>\<rparr>)
        (rg_Providers r)\<rparr>"

subsection \<open>Runs of the command line\<close>

text \<open>
  One subcommand of \<open>sir provider\<close>; an error leaves the file as it was. Installing builds
  an enabled entry without authority and adds it.
\<close>

datatype registry_op =
    RInstall ProviderEntry
  | RRemove string
  | REnable string
  | RDisable string
  | RUse string
  | RSetAuthority string string string
  | RSwap string string
  | RConfigure string string string
  | RUpdateHealth Time string string string

definition installed_entry :: "ProviderEntry \<Rightarrow> ProviderEntry" where
  "installed_entry e = e\<lparr>pe_Enabled := True, pe_Authority := [], pe_OnFailure := []\<rparr>"

definition keep_on_error :: "(registry_error + Registry) \<Rightarrow> Registry \<Rightarrow> Registry" where
  "keep_on_error res r = (case res of Inl _ \<Rightarrow> r | Inr r' \<Rightarrow> r')"

fun registry_step :: "registry_op \<Rightarrow> Registry \<Rightarrow> Registry" where
  "registry_step (RInstall e) r = keep_on_error (Add (installed_entry e) r) r"
| "registry_step (RRemove name) r = keep_on_error (Remove name r) r"
| "registry_step (REnable name) r = keep_on_error (Enable name r) r"
| "registry_step (RDisable name) r = keep_on_error (Disable name r) r"
| "registry_step (RUse name) r = keep_on_error (Use name r) r"
| "registry_step (RSetAuthority name a f) r = keep_on_error (SetAuthority name a f r) r"
| "registry_step (RSwap a b) r = keep_on_error (Swap a b r) r"
| "registry_step (RConfigure name k v) r = keep_on_error (Configure name k v r) r"
| "registry_step (RUpdateHealth now name st why) r = UpdateHealth now name st why r"

subsection \<open>Names and authority\<close>

definition provider_names :: "Registry \<Rightarrow> string list" where
  "provider_names r = map pe_Name (rg_Providers r)"

definition authorities :: "Registry \<Rightarrow> ProviderEntry list" where
  "authorities r = filter IsAuthoritative (rg_Providers r)"

definition registry_ok :: "Registry \<Rightarrow> bool" where
  "registry_ok r \<longleftrightarrow> distinct (provider_names r) \<and> length (authorities r) \<le> 1
     \<and> list_all (\<lambda>e. IsAuthoritative e \<longrightarrow> pe_OnFailure e \<in> {[], OnFailureAsk, OnFailureDeny}) (rg_Providers r)"

text \<open>Changes that keep the name, and either keep the authority or give it up.\<close>

definition harmless :: "(ProviderEntry \<Rightarrow> ProviderEntry) \<Rightarrow> bool" where
  "harmless f \<longleftrightarrow> (\<forall>e. pe_Name (f e) = pe_Name e
     \<and> (IsAuthoritative (f e) \<longrightarrow> IsAuthoritative e \<and> pe_OnFailure (f e) = pe_OnFailure e))"

lemma names_update_first: "(\<And>e. pe_Name (f e) = pe_Name e) \<Longrightarrow> map pe_Name (update_first name f es) = map pe_Name es"
  by (induction es) auto

lemma set_update_first: "set (update_first name f es) \<subseteq> set es \<union> f ` {e \<in> set es. pe_Name e = name}"
  by (induction es) auto

lemma authorities_update_first:
  "harmless f \<Longrightarrow> length (filter IsAuthoritative (update_first name f es)) \<le> length (filter IsAuthoritative es)"
  by (induction es) (auto simp: harmless_def le_Suc_eq)

lemma authorities_map:
  "harmless f \<Longrightarrow> length (filter IsAuthoritative (map f es)) \<le> length (filter IsAuthoritative es)"
  by (induction es) (auto simp: harmless_def le_Suc_eq)

lemma remove_first_sub: "set (remove_first name es) \<subseteq> set es"
  by (induction es) auto

lemma distinct_remove_first: "distinct (map pe_Name es) \<Longrightarrow> distinct (map pe_Name (remove_first name es))"
proof (induction es)
  case (Cons e es)
  have "set (map pe_Name (remove_first name es)) \<subseteq> set (map pe_Name es)" using remove_first_sub by auto
  with Cons show ?case by auto
qed simp

lemma authorities_remove_first:
  "length (filter IsAuthoritative (remove_first name es)) \<le> length (filter IsAuthoritative es)"
  by (induction es) auto

lemma registry_ok_update:
  assumes "registry_ok r" and "harmless f"
  shows "registry_ok (r\<lparr>rg_Providers := update_first name f (rg_Providers r)\<rparr>)"
proof -
  have "list_all (\<lambda>e. IsAuthoritative e \<longrightarrow> pe_OnFailure e \<in> {[], OnFailureAsk, OnFailureDeny})
      (update_first name f (rg_Providers r))"
    using assms set_update_first [of name f "rg_Providers r"]
    by (fastforce simp: registry_ok_def list_all_iff harmless_def)
  then show ?thesis
    using assms authorities_update_first [of f name "rg_Providers r"] names_update_first [of f name "rg_Providers r"]
    by (auto simp: registry_ok_def provider_names_def authorities_def harmless_def)
qed

lemma registry_ok_map:
  assumes "registry_ok r" and "harmless f"
  shows "registry_ok (r\<lparr>rg_Providers := map f (rg_Providers r)\<rparr>)"
proof -
  have "distinct (map (pe_Name \<circ> f) (rg_Providers r))"
    using assms by (simp add: harmless_def registry_ok_def provider_names_def comp_def)
  moreover have "length (filter IsAuthoritative (map f (rg_Providers r))) \<le> 1"
    using assms authorities_map [of f "rg_Providers r"] by (simp add: registry_ok_def authorities_def)
  moreover have "list_all (\<lambda>e. IsAuthoritative e \<longrightarrow> pe_OnFailure e \<in> {[], OnFailureAsk, OnFailureDeny})
      (map f (rg_Providers r))"
    using assms by (auto simp: registry_ok_def harmless_def list_all_iff)
  ultimately show ?thesis by (simp add: registry_ok_def provider_names_def authorities_def)
qed

lemma harmless_changes:
  "harmless (\<lambda>e. e\<lparr>pe_Enabled := b\<rparr>)" "harmless clear_authority"
  "harmless (\<lambda>e. e\<lparr>pe_Config := g (pe_Config e)\<rparr>)"
  "harmless (\<lambda>e. e\<lparr>pe_Health := h (pe_Health e)\<rparr>)"
  "harmless f \<Longrightarrow> harmless (\<lambda>e. if P e then f e else e)"
proof -
  show "harmless (\<lambda>e. e\<lparr>pe_Enabled := b\<rparr>)" by (simp add: harmless_def IsAuthoritative_def)
  show "harmless clear_authority"
    by (simp add: harmless_def clear_authority_def IsAuthoritative_def AuthorityAuthoritative_def)
  show "harmless (\<lambda>e. e\<lparr>pe_Config := g (pe_Config e)\<rparr>)" by (simp add: harmless_def IsAuthoritative_def)
  show "harmless (\<lambda>e. e\<lparr>pe_Health := h (pe_Health e)\<rparr>)" by (simp add: harmless_def IsAuthoritative_def)
  show "harmless f \<Longrightarrow> harmless (\<lambda>e. if P e then f e else e)" by (simp add: harmless_def)
qed

lemma find_None_names: "find (\<lambda>e. pe_Name e = n) es = None \<longleftrightarrow> n \<notin> set (map pe_Name es)"
  by (auto simp: find_None_iff)

lemma registry_ok_install:
  assumes "registry_ok r" and "Add (installed_entry e) r = Inr r'"
  shows "registry_ok r'"
proof -
  from assms(2) obtain e' where r': "r' = r\<lparr>rg_Providers := rg_Providers r @ [e']\<rparr>"
    and e': "pe_Name e' = pe_Name e" "\<not> IsAuthoritative e'" and fresh: "pe_Name e \<notin> set (provider_names r)"
    by (auto simp: Add_def ByName_def Let_def installed_entry_def IsAuthoritative_def AuthorityAuthoritative_def
          find_None_names provider_names_def split: option.splits)
  then show ?thesis using assms(1) by (simp add: registry_ok_def provider_names_def authorities_def)
qed

lemma registry_ok_remove:
  assumes "registry_ok r" and "Remove name r = Inr r'"
  shows "registry_ok r'"
  using assms distinct_remove_first [of "rg_Providers r" name] authorities_remove_first [of name "rg_Providers r"]
    remove_first_sub [of name "rg_Providers r"]
  by (auto simp: Remove_def with_entry_def registry_ok_def provider_names_def authorities_def list_all_iff
        split: option.splits)

text \<open>Promotion demotes every rival first, so the promoted entry is the only authority.\<close>

lemma demoted: "filter IsAuthoritative (demote_rivals name es) = filter (\<lambda>e. pe_Name e = name \<and> IsAuthoritative e) es"
  by (induction es)
    (auto simp: demote_rivals_def clear_authority_def IsAuthoritative_def authority_defs provider_kind_defs)

lemma promoted_only:
  assumes "distinct (map pe_Name es)" and "\<And>e. pe_Name (f e) = pe_Name e"
  shows "length (filter IsAuthoritative (update_first name f (demote_rivals name es))) \<le> 1"
  using assms
proof (induction es)
  case (Cons e es)
  have none: "filter IsAuthoritative (demote_rivals name es) = []" if "pe_Name e = name"
    using Cons.prems that by (auto simp: demoted filter_empty_conv) (metis image_eqI)
  show ?case
  proof (cases "pe_Name e = name")
    case True
    then show ?thesis using none by (simp add: demote_rivals_def)
  next
    case False
    then have "\<not> IsAuthoritative (if pe_Kind e = KindPolicy then clear_authority e else e)"
      by (auto simp: IsAuthoritative_def clear_authority_def authority_defs)
    with False Cons show ?thesis
      by (auto simp: demote_rivals_def clear_authority_def)
  qed
qed (simp add: demote_rivals_def)

lemma registry_ok_authority:
  assumes "registry_ok r" and "SetAuthority name authority onFailure r = Inr r'"
  shows "registry_ok r'"
proof (cases "authority = AuthorityAuthoritative")
  case True
  let ?f = "\<lambda>e. e\<lparr>pe_Authority := AuthorityAuthoritative, pe_OnFailure := onFailure\<rparr>"
  have r': "r' = r\<lparr>rg_Providers := update_first name ?f (demote_rivals name (rg_Providers r))\<rparr>"
    and onf: "onFailure \<in> {[], OnFailureAsk, OnFailureDeny}"
    using assms(2) True by (auto simp: SetAuthority_def split: option.splits if_splits)
  have ok': "registry_ok (r\<lparr>rg_Providers := demote_rivals name (rg_Providers r)\<rparr>)"
    unfolding demote_rivals_def using assms(1) by (intro registry_ok_map harmless_changes)
  have "map pe_Name (rg_Providers r') = map pe_Name (rg_Providers r)"
    unfolding r' using names_update_first [of ?f name "demote_rivals name (rg_Providers r)"]
    by (simp add: demote_rivals_def clear_authority_def)
  moreover have "length (authorities r') \<le> 1"
    unfolding r' authorities_def using promoted_only [of "rg_Providers r" ?f name] assms(1)
    by (simp add: registry_ok_def provider_names_def)
  moreover have "list_all (\<lambda>e. IsAuthoritative e \<longrightarrow> pe_OnFailure e \<in> {[], OnFailureAsk, OnFailureDeny}) (rg_Providers r')"
    using ok' onf set_update_first [of name ?f "demote_rivals name (rg_Providers r)"]
    by (fastforce simp: r' registry_ok_def list_all_iff)
  ultimately show ?thesis using assms(1) by (simp add: registry_ok_def provider_names_def)
next
  case False
  then have "r' = r\<lparr>rg_Providers := update_first name clear_authority (rg_Providers r)\<rparr>"
    using assms(2) by (auto simp: SetAuthority_def split: option.splits if_splits)
  with assms(1) show ?thesis by (auto intro: registry_ok_update harmless_changes)
qed

lemma registry_ok_enable:
  assumes "registry_ok r" and "Enable name r = Inr r'"
  shows "registry_ok r'"
proof -
  from assms(2) obtain es where r': "r' = r\<lparr>rg_Providers := update_first name (\<lambda>e. e\<lparr>pe_Enabled := True\<rparr>) es\<rparr>"
    and es: "es = rg_Providers r \<or> (\<exists>kind. es = disable_rivals kind name (rg_Providers r))"
    by (auto simp: Enable_def Let_def split: option.splits if_splits)
  have "registry_ok (r\<lparr>rg_Providers := es\<rparr>)"
    using es assms(1) registry_ok_map [OF assms(1)] harmless_changes
    by (auto simp: disable_rivals_def)
  from registry_ok_update [OF this harmless_changes(1)] show ?thesis by (simp add: r')
qed

lemma registry_ok_disable: "registry_ok r \<Longrightarrow> Disable name r = Inr r' \<Longrightarrow> registry_ok r'"
  by (auto simp: Disable_def with_entry_def intro: registry_ok_update harmless_changes split: option.splits)

lemma registry_ok_swap: "registry_ok r \<Longrightarrow> Swap a b r = Inr r' \<Longrightarrow> registry_ok r'"
  by (auto simp: Swap_def dest: registry_ok_disable registry_ok_enable split: option.splits if_splits sum.splits)

interpretation registry: run_invariant registry_step registry_ok
proof
  fix op r assume ok: "registry_ok r"
  show "registry_ok (registry_step op r)"
  proof (cases op)
    case (RConfigure name k v)
    with ok show ?thesis
      by (auto simp: keep_on_error_def Configure_def with_entry_def split: sum.splits option.splits
               intro: registry_ok_update harmless_changes)
  next
    case (RUpdateHealth now name st why)
    with ok show ?thesis
      by (auto simp: UpdateHealth_def intro!: registry_ok_update harmless_changes)
  qed (use ok in \<open>auto simp: keep_on_error_def Use_def split: sum.splits
         dest: registry_ok_install registry_ok_remove registry_ok_enable registry_ok_disable
               registry_ok_authority registry_ok_swap\<close>)
qed

text \<open>C28: there is at most one authority. Whatever sequence of registry operations ran on the empty registry (install, remove,
  enable, disable, use, authority, swap, configure, health), names are distinct, at most one provider
  is authoritative, and the verdict it falls back to is one that holds the call.\<close>

theorem one_authority:
  "distinct (provider_names (fold registry_step ops emptyRegistry))
   \<and> length (authorities (fold registry_step ops emptyRegistry)) \<le> 1
   \<and> list_all (\<lambda>e. FailureVerdict e \<in> {''ask'', ''deny''}) (authorities (fold registry_step ops emptyRegistry))"
proof -
  have "registry_ok (fold registry_step ops emptyRegistry)"
    by (rule registry.run_keeps) (simp add: registry_ok_def emptyRegistry_def provider_names_def authorities_def)
  then show ?thesis
    by (simp add: registry_ok_def FailureVerdict_def OnFailureAsk_def OnFailureDeny_def list.pred_True)
qed

lemma disabled_elsewhere:
  "name \<notin> set (map pe_Name es) \<Longrightarrow> filter (\<lambda>e. pe_Kind e = kind \<and> pe_Enabled e) (disable_rivals kind name es) = []"
  by (induction es) (auto simp: disable_rivals_def)

lemma enabled_alone:
  assumes "distinct (map pe_Name es)" and "find (\<lambda>e. pe_Name e = name) es = Some e"
  shows "map pe_Name (filter (\<lambda>e. pe_Kind e = k \<and> pe_Enabled e)
    (update_first name (\<lambda>e. e\<lparr>pe_Enabled := True\<rparr>) (disable_rivals k name es))) = (if pe_Kind e = k then [name] else [])"
  using assms
proof (induction es)
  case (Cons x es)
  have split: "disable_rivals k name (x # es) =
      (if pe_Kind x = k \<and> pe_Name x \<noteq> name then x\<lparr>pe_Enabled := False\<rparr> else x) # disable_rivals k name es" for x
    by (simp add: disable_rivals_def)
  show ?case
  proof (cases "pe_Name x = name")
    case True
    then have "filter (\<lambda>e. pe_Kind e = k \<and> pe_Enabled e) (disable_rivals k name es) = []"
      using Cons.prems(1) by (intro disabled_elsewhere) simp
    then show ?thesis using True Cons.prems(2) by (simp add: split)
  next
    case False
    then show ?thesis using Cons by (auto simp: split)
  qed
qed (simp add: disable_rivals_def)

text \<open>Enabling is exclusive, installing is not. After a provider of an exclusive kind was enabled
  it is the only active one of its kind; but installing registers an entry that is already
  enabled, so two policy providers installed one after the other are both active.\<close>

theorem enabling_is_exclusive:
  assumes "distinct (provider_names r)" and "ByName r name = Some e" and "exclusiveKind (pe_Kind e)"
  shows "(\<exists>r'. Enable name r = Inr r' \<and> map pe_Name (Active r' (pe_Kind e)) = [name])
     \<and> map pe_Name (Active (fold registry_step
         [RInstall (e\<lparr>pe_Name := ''first''\<rparr>), RInstall (e\<lparr>pe_Name := ''second''\<rparr>)] emptyRegistry) (pe_Kind e))
       = [''first'', ''second'']"
proof
  show "\<exists>r'. Enable name r = Inr r' \<and> map pe_Name (Active r' (pe_Kind e)) = [name]"
    using assms enabled_alone [of "rg_Providers r" name e "pe_Kind e"]
    by (simp add: Enable_def ByName_def provider_names_def Active_def)
  show "map pe_Name (Active (fold registry_step
         [RInstall (e\<lparr>pe_Name := ''first''\<rparr>), RInstall (e\<lparr>pe_Name := ''second''\<rparr>)] emptyRegistry) (pe_Kind e))
       = [''first'', ''second'']"
    by (simp add: emptyRegistry_def Add_def ByName_def installed_entry_def keep_on_error_def Active_def Let_def)
qed

definition demo_entry :: "string \<Rightarrow> ProviderEntry" where
  "demo_entry name = \<lparr>pe_RegistryID = ''prov_0'', pe_Name = name, pe_Kind = KindPolicy, pe_Version = ''1'', pe_ManifestPath = [],
     pe_Entrypoint = ''/opt/pdp'', pe_Platforms = [], pe_Capabilities = [], pe_Enabled = False,
     pe_Health = \<lparr>ph_Status = ''healthy'', ph_CheckedAt = 0, ph_Reason = [], ph_Errors = 0\<rparr>, pe_InstalledAt = 0,
     pe_InstalledBy = [], pe_Config = [], pe_Authority = [], pe_OnFailure = []\<rparr>"

theorem enabling_is_exclusive_witness:
  "\<exists>r'. Enable ''a'' (emptyRegistry\<lparr>rg_Providers := [demo_entry ''a'', demo_entry ''b'']\<rparr>) = Inr r'
     \<and> map pe_Name (Active r' KindPolicy) = [''a'']"
  using enabling_is_exclusive [of "emptyRegistry\<lparr>rg_Providers := [demo_entry ''a'', demo_entry ''b'']\<rparr>" "''a''" "demo_entry ''a''"]
  by (simp add: provider_names_def ByName_def demo_entry_def exclusiveKind_def KindPolicy_def)

end
