(* ===== verification/Provider_Invoke.thy ===== *)
theory Provider_Invoke
  imports Provider_Registry Core_Wire
begin

text \<open>
  Package \<open>pkg/provider\<close>, \<open>invoke.go\<close>: how the output of a policy or advisory provider
  becomes verdicts and risk levels. Running the process is an argument: for an entry point
  and an input it gives the error of the run, or what came on the two outputs.
\<close>

type_synonym provider_run = "string \<Rightarrow> string \<Rightarrow> string + string \<times> string"

subsection \<open>Requests\<close>

definition omit_empty :: "string \<Rightarrow> string \<Rightarrow> (string \<times> json) list" where
  "omit_empty key v = (if v = [] then [] else [(key, JString v)])"

definition omit_false :: "string \<Rightarrow> bool \<Rightarrow> (string \<times> json) list" where
  "omit_false key b = (if b then [(key, JBool True)] else [])"

definition request_facts :: "PolicyRequest \<Rightarrow> (string \<times> json) list" where
  "request_facts req =
     [(''action'', JString (PR_Action req))] @ omit_empty ''target'' (PR_Target req)
     @ omit_empty ''resolved_actor'' (PR_ResolvedActor req)
     @ omit_empty ''attribution_confidence'' (PR_AttributionConf req)
     @ (if PR_Taint req = [] then [] else [(''taint'', JArray (map JString (PR_Taint req)))])
     @ omit_empty ''enforceability'' (PR_Enforceability req) @ omit_empty ''mode'' (PR_Mode req)"

definition json_policy_request :: "PolicyRequest \<Rightarrow> json" where
  "json_policy_request req = JObject
     ([(''op'', JString ''evaluate''), (''schema_version'', JString ''sir.policy_request.v0'')] @ request_facts req
      @ omit_false ''session_secret'' (PR_SessionSecret req)
      @ omit_false ''session_was_secret'' (PR_SessionWasSecret req)
      @ omit_false ''session_untrusted_read'' (PR_SessionUntrustedRead req)
      @ omit_false ''session_untrusted_this_turn'' (PR_SessionUntrustedThisTurn req))"

definition json_advisory_request :: "PolicyRequest \<Rightarrow> json" where
  "json_advisory_request req = JObject
     ([(''op'', JString ''assess''), (''schema_version'', JString ''sir.advisory_request.v0'')] @ request_facts req)"

subsection \<open>Policy verdicts\<close>

record policyResponse =
  rp_Provider :: string
  rp_Verdict :: string
  rp_RulesMatched :: "string list"
  rp_Reason :: string

definition decode_policy_response :: "json \<Rightarrow> policyResponse option" where
  "decode_policy_response v =
     (case (field_value decode_string [] ''schema_version'' v, field_value decode_string [] ''provider'' v,
            field_value decode_string [] ''verdict'' v, field_value decode_strings [] ''rules_matched'' v,
            field_value decode_string [] ''reason'' v, field_value decode_bool False ''is_advisory'' v) of
        (Some _, Some p, Some d, Some rules, Some why, Some _) \<Rightarrow>
          Some \<lparr>rp_Provider = p, rp_Verdict = d, rp_RulesMatched = rules, rp_Reason = why\<rparr>
      | _ \<Rightarrow> None)"

text \<open>Verdicts that are none of the three words are dropped.\<close>

fun toVerdicts :: "policyResponse list \<Rightarrow> PolicyVerdict list" where
  "toVerdicts [] = []"
| "toVerdicts (r # rs) =
     (if rp_Verdict r \<noteq> ''allow'' \<and> rp_Verdict r \<noteq> ''ask'' \<and> rp_Verdict r \<noteq> ''deny'' then toVerdicts rs
      else \<lparr>PV_Provider = rp_Provider r, PV_Verdict = rp_Verdict r, PV_RulesMatched = rp_RulesMatched r,
            PV_Reason = rp_Reason r, PV_IsAdvisory = True\<rparr> # toVerdicts rs)"

definition unmarshal_responses :: "string \<Rightarrow> policyResponse list option" where
  "unmarshal_responses line =
     (case json_parse line of
        Some (JArray vs) \<Rightarrow> those (map decode_policy_response vs)
      | _ \<Rightarrow> None)"

definition unmarshal_policy_response :: "string \<Rightarrow> policyResponse option" where
  "unmarshal_policy_response line = Option.bind (json_parse line) decode_policy_response"

definition parsePolicyVerdicts :: "string \<Rightarrow> string \<Rightarrow> string + PolicyVerdict list" where
  "parsePolicyVerdicts name out =
     (let line = strings_TrimSpace out;
          failed = Inl (''policy provider '' @ name @ '': unmarshal response'')
      in if line = [] then Inr []
         else if strings_HasPrefix line ''[''
         then (case unmarshal_responses line of None \<Rightarrow> failed | Some rs \<Rightarrow> Inr (toVerdicts rs))
         else (case unmarshal_policy_response line of None \<Rightarrow> failed | Some r \<Rightarrow> Inr (toVerdicts [r])))"

definition emptyOutputProviderError :: "string \<Rightarrow> string option" where
  "emptyOutputProviderError stderr =
     (let lower = strings_ToLower stderr in
      if strings_TrimSpace stderr = [] then None
      else if strings_Contains lower ''timed out'' \<or> strings_Contains lower ''timeout'' then Some ''timed out''
      else if strings_Contains lower ''not found'' \<or> strings_Contains lower ''no such file''
      then Some ''unavailable dependency not found''
      else Some ''reported an error without a verdict'')"

definition invokePolicy :: "provider_run \<Rightarrow> ProviderEntry \<Rightarrow> PolicyRequest \<Rightarrow> string + PolicyVerdict list" where
  "invokePolicy run e req =
     (let named = (\<lambda>err. Inl (''policy provider '' @ pe_Name e @ '': '' @ err)) in
      case run (pe_Entrypoint e) (json_print (json_policy_request req)) of
        Inl err \<Rightarrow> named err
      | Inr (out, stderr) \<Rightarrow>
          (case (if strings_TrimSpace out = [] then emptyOutputProviderError stderr else None) of
             Some err \<Rightarrow> named err
           | None \<Rightarrow> parsePolicyVerdicts (pe_Name e) out))"

subsection \<open>Advisory risk\<close>

record provider_AdvisoryRisk =
  ad_Provider :: string
  ad_Level :: string
  ad_Reason :: string

definition normalizeRiskLevel :: "string \<Rightarrow> string" where
  "normalizeRiskLevel level =
     (if level = ''low'' \<or> level = ''medium'' \<or> level = ''high'' \<or> level = ''critical'' then level else ''low'')"

definition decode_advisory :: "ProviderEntry \<Rightarrow> json \<Rightarrow> provider_AdvisoryRisk option" where
  "decode_advisory e v =
     (case (field_value decode_string [] ''schema_version'' v, field_value decode_string [] ''provider'' v,
            field_value decode_string [] ''risk_level'' v, field_value decode_string [] ''reason'' v,
            field_value decode_bool False ''is_advisory'' v) of
        (Some _, Some p, Some level, Some why, Some _) \<Rightarrow>
          Some \<lparr>ad_Provider = (if p = [] then pe_Name e else p), ad_Level = normalizeRiskLevel level, ad_Reason = why\<rparr>
      | _ \<Rightarrow> None)"

definition InvokeAdvisory :: "provider_run \<Rightarrow> ProviderEntry \<Rightarrow> PolicyRequest \<Rightarrow> string + provider_AdvisoryRisk option" where
  "InvokeAdvisory run e req =
     (let named = (\<lambda>err. Inl (''advisory provider '' @ pe_Name e @ '': '' @ err)) in
      case run (pe_Entrypoint e) (json_print (json_advisory_request req)) of
        Inl err \<Rightarrow> named err
      | Inr (out, stderr) \<Rightarrow>
          (let line = strings_TrimSpace out in
           if line = []
           then (case emptyOutputProviderError stderr of Some err \<Rightarrow> named err | None \<Rightarrow> Inr None)
           else (case Option.bind (json_parse line) (decode_advisory e) of
                   None \<Rightarrow> named ''unmarshal''
                 | Some risk \<Rightarrow> Inr (Some risk))))"

definition risk_rank :: "string \<Rightarrow> int" where
  "risk_rank level = map_get 0 [(''low'', 0), (''medium'', 1), (''high'', 2), (''critical'', 3)] level"

fun highest_risk :: "provider_AdvisoryRisk list \<Rightarrow> provider_AdvisoryRisk option \<Rightarrow> provider_AdvisoryRisk option" where
  "highest_risk [] best = best"
| "highest_risk (r # rs) best =
     highest_risk rs (case best of
       None \<Rightarrow> Some r
     | Some b \<Rightarrow> if risk_rank (ad_Level r) > risk_rank (ad_Level b) then Some r else Some b)"

definition HighestAdvisoryRisk :: "provider_AdvisoryRisk list \<Rightarrow> provider_AdvisoryRisk option" where
  "HighestAdvisoryRisk risks = highest_risk risks None"

subsection \<open>Verdicts are one of the three words\<close>

lemma toVerdicts_known:
  "v \<in> set (toVerdicts rs) \<Longrightarrow> PV_Verdict v \<in> {VerdictAllow, VerdictAsk, VerdictDeny} \<and> PV_IsAdvisory v"
  by (induction rs) (auto simp: verdict_defs split: if_splits)

lemma invokePolicy_known:
  assumes "invokePolicy run e req = Inr vs" and "v \<in> set vs"
  shows "PV_Verdict v \<in> {VerdictAllow, VerdictAsk, VerdictDeny} \<and> PV_IsAdvisory v"
proof -
  from assms(1) obtain rs where "vs = toVerdicts rs"
    by (auto simp: invokePolicy_def parsePolicyVerdicts_def Let_def simp del: toVerdicts.simps
             split: sum.splits prod.splits option.splits if_splits
             intro: that [of "[]"] toVerdicts.simps(1) [symmetric])
  with assms(2) show ?thesis using toVerdicts_known by blast
qed

lemma highest_risk_max:
  "highest_risk rs best = Some r \<Longrightarrow>
     (\<forall>x \<in> set rs \<union> set_option best. risk_rank (ad_Level x) \<le> risk_rank (ad_Level r)) \<and> r \<in> set rs \<union> set_option best"
proof (induction rs arbitrary: best)
  case (Cons x rs)
  show ?case
  proof (cases best)
    case None
    with Cons.IH [of "Some x"] Cons.prems show ?thesis by auto
  next
    case (Some b)
    with Cons.IH [of "Some x"] Cons.IH [of "Some b"] Cons.prems show ?thesis
      by (auto split: if_splits)
  qed
qed auto

end
