(* ===== verification/Go_Entropy.thy ===== *)
theory Go_Entropy
  imports Sir_Prelude
begin

text \<open>
  The entropy tests of the scanners. The code computes the Shannon entropy of a text in floating
  point and compares it with a multiple of one half; with \<open>n\<close> symbols of which the distinct ones
  occur \<open>c\<^sub>1, ..., c\<^sub>m\<close> times, the entropy in bits exceeds \<open>k/2\<close> iff
  \<open>2^(k n) * c\<^sub>1^(2 c\<^sub>1) * ... * c\<^sub>m^(2 c\<^sub>m) < n^(2 n)\<close>, which is decided here in integers.
  \<open>Entropy_Real\<close> proves it over the reals; the code differs from this only by rounding at the threshold.
\<close>

definition freq :: "'a list \<Rightarrow> nat list" where
  "freq xs = map (count_list xs) (remdups xs)"

definition entropy_weight :: "nat \<Rightarrow> nat list \<Rightarrow> int" where
  "entropy_weight k cs = 2 ^ (k * sum_list cs) * prod_list (map (\<lambda>c. int c ^ (2 * c)) cs)"

text \<open>\<open>entropy > k / 2\<close> and \<open>entropy >= k / 2\<close>.\<close>

definition entropy_exceeds :: "nat \<Rightarrow> 'a list \<Rightarrow> bool" where
  "entropy_exceeds k xs \<longleftrightarrow> entropy_weight k (freq xs) < int (length xs) ^ (2 * length xs)"

definition entropy_reaches :: "nat \<Rightarrow> 'a list \<Rightarrow> bool" where
  "entropy_reaches k xs \<longleftrightarrow> entropy_weight k (freq xs) \<le> int (length xs) ^ (2 * length xs)"

lemma sum_freq: "sum_list (freq xs) = length xs"
proof -
  have "sum_list (freq xs) = (\<Sum>x\<in>set xs. count_list xs x)"
    by (simp add: freq_def sum_list_distinct_conv_sum_set)
  then show ?thesis by (simp add: sum_count_set)
qed

lemma freq_pos: "c \<in> set (freq xs) \<Longrightarrow> 0 < c"
  by (auto simp: freq_def count_list_0_iff intro!: Nat.gr0I)

end
