(* ===== verification/Go_Regexp.thy ===== *)
theory Go_Regexp
  imports Sir_Prelude
begin

text \<open>
  Package \<open>regexp\<close> for the patterns of the scanners: a pattern is a sequence of repeated
  character classes, alternatives and word boundaries. Go prefers, among the
  matches that start leftmost, the one a backtracking search finds first; \<open>re_match\<close> is that
  search. It works on bytes: the classes are given on ASCII, and a class that excludes some
  ASCII characters contains every byte of a longer encoding, so the spans agree with the runes.

  The lemmas say where the search starts and stops: a text that carries a match anywhere has a
  match, and the pieces found are matched by the pattern.
\<close>

subsection \<open>Patterns and matching\<close>

datatype re_atom =
  Run "char \<Rightarrow> bool" nat "nat option"
| OneOf "string list"
| Boundary
| Either "re_atom list" "re_atom list"

type_synonym regex = "re_atom list"

definition Lit :: "string \<Rightarrow> re_atom" where
  "Lit w = OneOf [w]"

definition chars_between :: "char \<Rightarrow> char \<Rightarrow> char \<Rightarrow> bool" where
  "chars_between a b c \<longleftrightarrow> (of_char a :: nat) \<le> of_char c \<and> (of_char c :: nat) \<le> of_char b"

definition re_digit :: "char \<Rightarrow> bool" where
  "re_digit c = chars_between (CHR ''0'') (CHR ''9'') c"

definition re_upper :: "char \<Rightarrow> bool" where
  "re_upper c = chars_between (CHR ''A'') (CHR ''Z'') c"

definition re_lower :: "char \<Rightarrow> bool" where
  "re_lower c = chars_between (CHR ''a'') (CHR ''z'') c"

definition re_alnum :: "char \<Rightarrow> bool" where
  "re_alnum c \<longleftrightarrow> re_digit c \<or> re_upper c \<or> re_lower c"

text \<open>\<open>\s\<close> and \<open>\w\<close> of RE2 are ASCII classes; \<open>\b\<close> looks at \<open>\w\<close> on both sides.\<close>

definition re_space :: "char \<Rightarrow> bool" where
  "re_space c \<longleftrightarrow> (of_char c :: nat) \<in> {9, 10, 12, 13, 32}"

definition re_word :: "char \<Rightarrow> bool" where
  "re_word c \<longleftrightarrow> re_alnum c \<or> c = CHR ''_''"

definition word_before :: "char option \<Rightarrow> bool" where
  "word_before prev = (case prev of None \<Rightarrow> False | Some c \<Rightarrow> re_word c)"

definition word_after :: "string \<Rightarrow> bool" where
  "word_after s = (case s of [] \<Rightarrow> False | c # _ \<Rightarrow> re_word c)"

definition char_before :: "char option \<Rightarrow> string \<Rightarrow> char option" where
  "char_before prev w = (if w = [] then prev else Some (last w))"

text \<open>The first count from \<open>n\<close> down to \<open>lo\<close> that leads to a match.\<close>

primrec try_counts :: "nat \<Rightarrow> (nat \<Rightarrow> nat option) \<Rightarrow> nat \<Rightarrow> nat option" where
  "try_counts lo f 0 = (if lo = 0 then f 0 else None)"
| "try_counts lo f (Suc n) =
     (if Suc n < lo then None
      else case f (Suc n) of Some m \<Rightarrow> Some m | None \<Rightarrow> try_counts lo f n)"

fun try_words :: "(string \<Rightarrow> nat option) \<Rightarrow> string list \<Rightarrow> nat option" where
  "try_words f [] = None"
| "try_words f (w # ws) = (case f w of Some m \<Rightarrow> Some m | None \<Rightarrow> try_words f ws)"

definition run_length :: "(char \<Rightarrow> bool) \<Rightarrow> nat option \<Rightarrow> string \<Rightarrow> nat" where
  "run_length p hi s = length (takeWhile p (case hi of None \<Rightarrow> s | Some h \<Rightarrow> take h s))"

text \<open>The length of the match at the start of the text.\<close>

fun re_match :: "regex \<Rightarrow> char option \<Rightarrow> string \<Rightarrow> nat option" where
  "re_match [] prev s = Some 0"
| "re_match (Run p lo hi # rs) prev s =
     try_counts lo
       (\<lambda>k. map_option ((+) k) (re_match rs (char_before prev (take k s)) (drop k s)))
       (run_length p hi s)"
| "re_match (OneOf ws # rs) prev s =
     try_words
       (\<lambda>w. if strings_HasPrefix s w
            then map_option ((+) (length w)) (re_match rs (char_before prev w) (drop (length w) s))
            else None) ws"
| "re_match (Boundary # rs) prev s =
     (if word_before prev \<noteq> word_after s then re_match rs prev s else None)"
| "re_match (Either a b # rs) prev s =
     (case re_match (a @ rs) prev s of Some n \<Rightarrow> Some n | None \<Rightarrow> re_match (b @ rs) prev s)"

text \<open>\<open>FindAllString(s, -1)\<close> and \<open>ReplaceAllStringFunc\<close>, for patterns without empty matches.\<close>

function re_find_all :: "regex \<Rightarrow> char option \<Rightarrow> string \<Rightarrow> string list" where
  "re_find_all re prev [] = []"
| "re_find_all re prev (c # cs) =
     (case re_match re prev (c # cs) of
        Some (Suc n) \<Rightarrow>
          take (Suc n) (c # cs)
            # re_find_all re (char_before prev (take (Suc n) (c # cs))) (drop (Suc n) (c # cs))
      | _ \<Rightarrow> re_find_all re (Some c) cs)"
  by pat_completeness auto

termination by (relation "measure (\<lambda>(re, prev, s). length s)") auto

function re_replace_func :: "regex \<Rightarrow> (string \<Rightarrow> string) \<Rightarrow> char option \<Rightarrow> string \<Rightarrow> string" where
  "re_replace_func re f prev [] = []"
| "re_replace_func re f prev (c # cs) =
     (case re_match re prev (c # cs) of
        Some (Suc n) \<Rightarrow>
          f (take (Suc n) (c # cs))
            @ re_replace_func re f (char_before prev (take (Suc n) (c # cs))) (drop (Suc n) (c # cs))
      | _ \<Rightarrow> c # re_replace_func re f (Some c) cs)"
  by pat_completeness auto

termination by (relation "measure (\<lambda>(re, f, prev, s). length s)") auto

definition FindString :: "regex \<Rightarrow> string \<Rightarrow> string" where
  "FindString re s = (case re_find_all re None s of [] \<Rightarrow> [] | m # _ \<Rightarrow> m)"

definition FindAllString :: "regex \<Rightarrow> string \<Rightarrow> string list" where
  "FindAllString re s = re_find_all re None s"

definition ReplaceAllStringFunc :: "regex \<Rightarrow> (string \<Rightarrow> string) \<Rightarrow> string \<Rightarrow> string" where
  "ReplaceAllStringFunc re f s = re_replace_func re f None s"

subsection \<open>Searching\<close>

lemma char_before_append: "char_before (char_before p u) w = char_before p (u @ w)"
  by (simp add: char_before_def)

lemma char_before_Nil [simp]: "char_before p [] = p"
  by (simp add: char_before_def)

text \<open>A pattern that matches at some position of a text has a match in the text.\<close>

lemma find_all_some:
  assumes "re_match re (char_before prev u) v = Some n" and "0 < n" and "v \<noteq> []"
  shows "re_find_all re prev (u @ v) \<noteq> []"
  using assms(1)
proof (induction u arbitrary: prev)
  case Nil
  then obtain m where "re_match re prev v = Some (Suc m)" using assms(2) by (cases n) auto
  then show ?case using assms(3) by (cases v) auto
next
  case (Cons c u)
  then have "re_match re (char_before (Some c) u) v = Some n"
    by (cases u) (simp_all add: char_before_def split: if_splits)
  from Cons.IH [OF this] show ?case by (auto split: option.split nat.split)
qed

text \<open>Where a text has no match, it has none at any position.\<close>

lemma find_all_none:
  assumes "re_find_all re prev (u @ v) = []" and "v \<noteq> []"
  shows "re_match re (char_before prev u) v \<in> {None, Some 0}"
proof (cases "re_match re (char_before prev u) v")
  case (Some n)
  then show ?thesis using find_all_some [OF Some _ assms(2)] assms(1) by (cases n) auto
qed simp

text \<open>Replacement changes nothing exactly when every match is replaced by itself.\<close>

lemma replace_func_id:
  assumes "\<And>m. m \<in> set (re_find_all re prev s) \<Longrightarrow> f m = m"
  shows "re_replace_func re f prev s = s"
  using assms
proof (induction re prev s rule: re_find_all.induct)
  case (2 re prev c cs)
  show ?case
  proof (cases "re_match re prev (c # cs)")
    case None
    then show ?thesis using 2 by simp
  next
    case (Some n)
    show ?thesis
    proof (cases n)
      case 0
      then show ?thesis using 2 Some by simp
    next
      case (Suc k)
      have rest: "re_replace_func re f (char_before prev (take (Suc k) (c # cs)))
          (drop (Suc k) (c # cs)) = drop (Suc k) (c # cs)"
        by (rule "2.IH"(3) [OF Some Suc]) (simp add: "2.prems" Some Suc)
      have "f (take (Suc k) (c # cs)) = take (Suc k) (c # cs)"
        using Some Suc by (intro "2.prems") simp
      then show ?thesis using Some Suc rest by simp
    qed
  qed
qed simp

lemma replace_func_none: "re_find_all re prev s = [] \<Longrightarrow> re_replace_func re f prev s = s"
  by (rule replace_func_id) simp

text \<open>A run of at least \<open>lo\<close> characters matches when nothing follows it in the pattern.\<close>

lemma try_counts_last:
  assumes "lo \<le> n"
  shows "try_counts lo (\<lambda>k. Some k) n = Some n"
  using assms by (cases n) auto

lemma run_length_replicate:
  assumes "list_all p w" and "length w = lo" and "\<forall>h. hi = Some h \<longrightarrow> lo \<le> h"
  shows "lo \<le> run_length p hi (w @ r)"
proof -
  have "takeWhile p (w @ x) = w @ takeWhile p x" for x
    using assms(1) by (simp add: list_all_iff takeWhile_append)
  moreover have "take h (w @ r) = w @ take (h - lo) r" if "lo \<le> h" for h using assms(2) that by simp
  ultimately show ?thesis using assms(2,3) by (cases hi) (auto simp: run_length_def)
qed

lemma match_run_end:
  assumes "list_all p w" and "length w = lo" and "\<forall>h. hi = Some h \<longrightarrow> lo \<le> h"
  shows "re_match [Run p lo hi] prev (w @ r) = Some (run_length p hi (w @ r))"
  using run_length_replicate [OF assms] by (simp add: try_counts_last)

lemma match_Lit:
  "re_match (Lit w # rs) prev (w @ r)
    = map_option ((+) (length w)) (re_match rs (char_before prev w) r)"
  by (simp add: Lit_def HasPrefix_iff_prefix split: option.split)

lemma match_literal_run:
  assumes "list_all p w" and "length w = lo" and "\<forall>h. hi = Some h \<longrightarrow> lo \<le> h"
  shows "\<exists>n\<ge>length l + lo. re_match [Lit l, Run p lo hi] prev (l @ w @ r) = Some n"
  using match_run_end [OF assms] run_length_replicate [OF assms] by (auto simp: match_Lit simp del: re_match.simps)

end
