(* ===== verification/Secret_Scan.thy ===== *)
theory Secret_Scan
  imports Go_Entropy Go_Regexp Go_Strings Go_Utf8
begin

text \<open>
  Package \<open>pkg/secretscan\<close>, the scanner of texts (\<open>scan.go\<close>, \<open>structured_scan.go\<close>): the table of
  credential patterns with their validators, the test for random tokens, the two scans of a
  tool's output and the redaction of a text. The entropy of a token is
  compared with 4.5 in integers (\<open>Go_Entropy\<close>).
\<close>

subsection \<open>Validators\<close>

fun luhn_sum :: "bool \<Rightarrow> nat list \<Rightarrow> nat" where
  "luhn_sum alt [] = 0"
| "luhn_sum alt (d # ds) =
     (let n = (if alt then (if 2 * d > 9 then 2 * d - 9 else 2 * d) else d)
      in n + luhn_sum (\<not> alt) ds)"

definition validateLuhn :: "string \<Rightarrow> bool" where
  "validateLuhn s \<longleftrightarrow>
    (let digits = map (\<lambda>c. of_char c - 48) (filter re_digit s)
     in 13 \<le> length digits \<and> length digits \<le> 19 \<and> luhn_sum False (rev digits) mod 10 = 0)"

definition validateSSN :: "string \<Rightarrow> bool" where
  "validateSSN m =
    (if length m \<noteq> 11 then False
     else if m ! 3 \<noteq> CHR ''-'' \<or> m ! 6 \<noteq> CHR ''-'' then False
     else let area = take 3 m; group = take 2 (drop 4 m); serial = take 4 (drop 7 m)
          in if area = ''000'' \<or> area = ''666'' then False
             else if area ! 0 = CHR ''9'' then False
             else if group = ''00'' then False
             else serial \<noteq> ''0000'')"

subsection \<open>The patterns\<close>

record Pattern =
  pt_Name :: string
  pt_RedactionLabel :: string
  pt_RE :: regex
  pt_Confidence :: string
  pt_Validator :: "(string \<Rightarrow> bool) option"

record CredentialMatch =
  cm_PatternName :: string
  cm_Confidence :: string

definition high_pattern :: "string \<Rightarrow> string \<Rightarrow> regex \<Rightarrow> Pattern" where
  "high_pattern name label re =
    \<lparr>pt_Name = name, pt_RedactionLabel = label, pt_RE = re, pt_Confidence = ''high'', pt_Validator = None\<rparr>"

definition medium_pattern :: "string \<Rightarrow> string \<Rightarrow> regex \<Rightarrow> (string \<Rightarrow> bool) option \<Rightarrow> Pattern" where
  "medium_pattern name label re v =
    \<lparr>pt_Name = name, pt_RedactionLabel = label, pt_RE = re, pt_Confidence = ''medium'', pt_Validator = v\<rparr>"

definition akia_char :: "char \<Rightarrow> bool" where
  "akia_char c \<longleftrightarrow> re_digit c \<or> re_upper c"

definition alnum_dash :: "char \<Rightarrow> bool" where
  "alnum_dash c \<longleftrightarrow> re_alnum c \<or> c = CHR ''-''"

definition alnum_under :: "char \<Rightarrow> bool" where
  "alnum_under c \<longleftrightarrow> re_alnum c \<or> c = CHR ''_''"

definition base64url_char :: "char \<Rightarrow> bool" where
  "base64url_char c \<longleftrightarrow> re_alnum c \<or> c = CHR ''_'' \<or> c = CHR ''-''"

definition scheme_char :: "char \<Rightarrow> bool" where
  "scheme_char c \<longleftrightarrow> re_alnum c \<or> c \<in> set ''+.-''"

definition card_separator :: "char \<Rightarrow> bool" where
  "card_separator c \<longleftrightarrow> re_space c \<or> c = CHR ''-''"

definition no_space_or :: "string \<Rightarrow> char \<Rightarrow> bool" where
  "no_space_or w c \<longleftrightarrow> \<not> re_space c \<and> c \<notin> set w"

definition outputPatterns :: "Pattern list" where
  "outputPatterns =
    [high_pattern ''aws_access_key'' ''aws_access_key'' [Lit ''AKIA'', Run akia_char 16 (Some 16)],
     high_pattern ''github_pat'' ''github_pat'' [Lit ''ghp_'', Run re_alnum 36 (Some 36)],
     high_pattern ''github_fine_grained_pat'' ''github_pat''
       [Lit ''github_pat_'', Run alnum_under 82 (Some 82)],
     high_pattern ''github_oauth'' ''github_oauth'' [Lit ''gho_'', Run re_alnum 36 (Some 36)],
     high_pattern ''github_user_to_server'' ''github_user_to_server''
       [Lit ''ghu_'', Run re_alnum 36 (Some 36)],
     high_pattern ''github_server_to_server'' ''github_server_to_server''
       [Lit ''ghs_'', Run re_alnum 36 (Some 36)],
     high_pattern ''github_refresh'' ''github_refresh'' [Lit ''ghr_'', Run re_alnum 36 (Some 36)],
     high_pattern ''slack_bot_token'' ''slack_bot_token'' [Lit ''xoxb-'', Run alnum_dash 10 None],
     high_pattern ''slack_user_token'' ''slack_user_token'' [Lit ''xoxp-'', Run alnum_dash 10 None],
     high_pattern ''stripe_secret_key'' ''stripe_live'' [Lit ''sk_live_'', Run re_alnum 24 None],
     high_pattern ''stripe_publishable_key'' ''stripe_publishable''
       [Lit ''pk_live_'', Run re_alnum 24 None],
     high_pattern ''stripe_restricted_key'' ''stripe_restricted''
       [Lit ''rk_live_'', Run re_alnum 24 None],
     high_pattern ''google_api_key'' ''google_api_key'' [Lit ''AIza'', Run base64url_char 35 (Some 35)],
     high_pattern ''private_key_header'' ''pem_header''
       [Lit ''-----BEGIN '', OneOf [''RSA '', ''EC '', ''DSA '', ''OPENSSH '', []], Lit ''PRIVATE KEY-----''],
     high_pattern ''openai_api_key'' ''openai_api_key'' [Lit ''sk-'', Run base64url_char 20 None],
     high_pattern ''uri_with_credentials'' ''uri_credentials''
       [Run (\<lambda>c. re_lower c \<or> re_upper c) 1 (Some 1), Run scheme_char 0 None, Lit ''://'',
        Run (no_space_or '':/@'') 0 None, Lit '':'', Run (no_space_or ''@/'') 1 None, Lit ''@'',
        Run (no_space_or ''/?#'') 1 None],
     medium_pattern ''jwt'' ''jwt''
       [Lit ''eyJ'', Run base64url_char 10 None, Lit ''.eyJ'', Run base64url_char 10 None, Lit ''.'',
        Run base64url_char 1 None] None,
     medium_pattern ''ssn'' ''ssn''
       [Boundary, Run re_digit 3 (Some 3), Lit ''-'', Run re_digit 2 (Some 2), Lit ''-'',
        Run re_digit 4 (Some 4), Boundary] (Some validateSSN),
     medium_pattern ''credit_card'' ''credit_card''
       [Boundary, Run re_digit 4 (Some 4), Run card_separator 0 (Some 1), Run re_digit 4 (Some 4),
        Run card_separator 0 (Some 1), Run re_digit 4 (Some 4), Run card_separator 0 (Some 1),
        Run re_digit 1 (Some 7), Boundary] (Some validateLuhn)]"

text \<open>The matches a validator, if there is one, lets stand.\<close>

definition accepts :: "Pattern \<Rightarrow> string \<Rightarrow> bool" where
  "accepts p m = (case pt_Validator p of None \<Rightarrow> True | Some v \<Rightarrow> v m)"

subsection \<open>Random tokens\<close>

text \<open>The runes that \<open>range\<close> visits; a byte outside of an encoding gives U+FFFD.\<close>

function runes :: "string \<Rightarrow> string list" where
  "runes [] = []"
| "runes (c # cs) =
     (let n = rune_len (c # cs) in
      if n = 0 then replacement_rune # runes cs else take n (c # cs) # runes (drop n (c # cs)))"
  by pat_completeness auto

termination by (relation "measure length") auto

definition isHexString :: "string \<Rightarrow> bool" where
  "isHexString s =
    list_all (\<lambda>c. re_digit c \<or> chars_between (CHR ''a'') (CHR ''f'') c
                  \<or> chars_between (CHR ''A'') (CHR ''F'') c) s"

definition isGitHubActionRefSegment :: "string \<Rightarrow> bool" where
  "isGitHubActionRefSegment s = list_all (\<lambda>c. re_alnum c \<or> c \<in> set ''-_.'') s"

definition looksLikePathishToken :: "string \<Rightarrow> bool" where
  "looksLikePathishToken s =
    (if list_ex (strings_HasPrefix s)
          [''/'', ''./'', ''../'', ''~/'', [CHR ''.'', CHR 0x5C], [CHR ''.'', CHR ''.'', CHR 0x5C],
           [CHR ''~'', CHR 0x5C]] then True
     else if 3 \<le> length s \<and> (re_upper (s ! 0) \<or> re_lower (s ! 0)) \<and> s ! 1 = CHR '':''
          \<and> (s ! 2 = CHR 0x5C \<or> s ! 2 = CHR ''/'') then True
     else if 2 \<le> length (filter (\<lambda>c. c = CHR ''/'') s)
     then (case strings_LastIndexByte s (CHR ''/'') of
             None \<Rightarrow> False
           | Some i \<Rightarrow> strings_Contains (drop (Suc i) s) ''.'')
     else False)"

definition looksLikePinnedGitHubActionRef :: "string \<Rightarrow> bool" where
  "looksLikePinnedGitHubActionRef s =
    (case strings_LastIndexByte s (CHR ''@'') of
       None \<Rightarrow> False
     | Some i \<Rightarrow>
         if i = 0 \<or> i = length s - 1 then False
         else let ref = drop (Suc i) s; name = take i s
              in if length ref \<noteq> 40 \<or> \<not> isHexString ref then False
                 else if \<not> strings_Contains name ''/'' \<or> strings_Contains name ''//'' then False
                 else list_all (\<lambda>seg. seg \<noteq> [] \<and> isGitHubActionRefSegment seg)
                        (strings_SplitByte name (CHR ''/'')))"

definition IsHighEntropyString :: "string \<Rightarrow> bool" where
  "IsHighEntropyString s =
    (if length s < 32 then False
     else if strings_ContainsAny s [CHR '' '', CHR 0x09, CHR 0x0A, CHR 0x0D] then False
     else if strings_Contains s ''://'' \<or> strings_ContainsAny s (''[]()<>{}|?&=:,'' @ [CHR 0x22])
     then False
     else if looksLikePathishToken s then False
     else if looksLikePinnedGitHubActionRef s then False
     else entropy_exceeds 9 (runes s))"

definition highEntropyContextHints :: "string list" where
  "highEntropyContextHints =
    [''token'', ''secret'', ''password'', ''passwd'', ''credential'', ''authorization'', ''bearer'', ''auth'',
     ''api_key'', ''api key'', ''access_key'', ''access key'', ''client_secret'', ''client secret'',
     ''private_key'', ''private key'', ''session_token'', ''session token'', ''cookie'']"

lemma Index_bound: "strings_Index s sub = Some i \<Longrightarrow> i + length sub \<le> length s"
proof (induction s arbitrary: i)
  case Nil
  then show ?case by (simp split: if_splits)
next
  case (Cons c cs)
  then show ?case
    by (auto simp: HasPrefix_iff_prefix simp del: strings_HasPrefix.simps split: if_splits dest: prefix_length_le)
qed

text \<open>
  The search for a hint around each occurrence of the token. The callers pass tokens that
  are not empty; for the empty token the loop of the code would not advance.
\<close>

function context_from :: "string \<Rightarrow> string \<Rightarrow> nat \<Rightarrow> bool" where
  "context_from text tok searchFrom =
    (case strings_Index (drop searchFrom text) tok of
       None \<Rightarrow> False
     | Some i \<Rightarrow>
         let idx = searchFrom + i;
             window = drop (idx - 80) (take (idx + length tok + 80) text)
         in if list_ex (strings_Contains window) highEntropyContextHints then True
            else if tok = [] then False
            else context_from text tok (idx + length tok))"
  by pat_completeness auto

termination
  by (relation "measure (\<lambda>(text, tok, k). length text - k)") (auto dest!: Index_bound simp: neq_Nil_conv)

declare context_from.simps [simp del]

definition hasHighEntropyCredentialContext :: "string \<Rightarrow> string \<Rightarrow> bool" where
  "hasHighEntropyCredentialContext lowerScanText token =
    context_from lowerScanText (strings_ToLower token) 0"

subsection \<open>Scanning\<close>

definition scanWindowBytes :: nat where
  "scanWindowBytes = 100 * 1024"

definition largeOutputThreshold :: nat where
  "largeOutputThreshold = 200 * 1024"

definition scan_text :: "string \<Rightarrow> string" where
  "scan_text output =
    (if length output > largeOutputThreshold
     then take scanWindowBytes output @ newline @ drop (length output - scanWindowBytes) output
     else output)"

definition pattern_found :: "Pattern \<Rightarrow> string \<Rightarrow> bool" where
  "pattern_found p s = list_ex (accepts p) (FindAllString (pt_RE p) s)"

fun scan_patterns :: "string list \<Rightarrow> Pattern list \<Rightarrow> string \<Rightarrow> CredentialMatch list" where
  "scan_patterns seen [] s = []"
| "scan_patterns seen (p # ps) s =
     (if pt_Name p \<in> set seen then scan_patterns seen ps s
      else if pattern_found p s
      then \<lparr>cm_PatternName = pt_Name p, cm_Confidence = pt_Confidence p\<rparr>
             # scan_patterns (pt_Name p # seen) ps s
      else scan_patterns seen ps s)"

definition ScanOutputForStructuredCredentials :: "string \<Rightarrow> CredentialMatch list" where
  "ScanOutputForStructuredCredentials output =
    (if output = [] then [] else scan_patterns [] outputPatterns (scan_text output))"

definition ScanOutputForCredentials :: "string \<Rightarrow> CredentialMatch list" where
  "ScanOutputForCredentials output =
    (if output = [] then []
     else let scanText = scan_text output; lowerScanText = strings_ToLower scanText
          in scan_patterns [] outputPatterns scanText @
             (if list_ex (\<lambda>tok. IsHighEntropyString tok \<and> hasHighEntropyCredentialContext lowerScanText tok)
                   (strings_Fields scanText)
              then [\<lparr>cm_PatternName = ''high_entropy_token'', cm_Confidence = ''medium''\<rparr>] else []))"

subsection \<open>Redaction\<close>

definition redactTokenIfNeeded :: "string \<Rightarrow> string" where
  "redactTokenIfNeeded token =
    (if IsHighEntropyString token then ''[REDACTED:high_entropy_token]'' else token)"

text \<open>\<open>cur\<close> is the token read so far, last byte first.\<close>

fun redact_tokens :: "string \<Rightarrow> string \<Rightarrow> string" where
  "redact_tokens cur [] = (if cur = [] then [] else redactTokenIfNeeded (rev cur))"
| "redact_tokens cur (c # cs) =
     (if ascii_space c
      then (if cur = [] then [] else redactTokenIfNeeded (rev cur)) @ c # redact_tokens [] cs
      else redact_tokens (c # cur) cs)"

definition redactHighEntropyTokens :: "string \<Rightarrow> string" where
  "redactHighEntropyTokens s = redact_tokens [] s"

definition redaction_label :: "Pattern \<Rightarrow> string" where
  "redaction_label p = ''[REDACTED:'' @ pt_RedactionLabel p @ '']''"

definition redact_pattern :: "Pattern \<Rightarrow> string \<Rightarrow> string" where
  "redact_pattern p s =
    ReplaceAllStringFunc (pt_RE p) (\<lambda>m. if accepts p m then redaction_label p else m) s"

definition RedactStructuredText :: "string \<Rightarrow> string" where
  "RedactStructuredText s =
    (if s = [] then [] else redactHighEntropyTokens (fold redact_pattern outputPatterns s))"

end
