(* ===== verification/Go_Encoding.thy ===== *)
theory Go_Encoding
  imports Go_Bytes Secret_Scan
begin

text \<open>
  The decoders the scanner of payloads uses: \<open>encoding/base64\<close> with its four standard encodings,
  \<open>encoding/hex\<close> with its errors, and the runes of \<open>unicode\<close> that count as white space. The encoders
  are what a command such as \<open>base64\<close> or \<open>xxd -p\<close> produces; decoding undoes them.
\<close>

subsection \<open>Base64\<close>

definition b64_value :: "char \<Rightarrow> char \<Rightarrow> char \<Rightarrow> nat option" where
  "b64_value c62 c63 c =
    (if re_upper c then Some (of_char c - 65)
     else if re_lower c then Some (of_char c - 71)
     else if re_digit c then Some (of_char c + 4)
     else if c = c62 then Some 62
     else if c = c63 then Some 63
     else None)"

text \<open>
  \<open>DecodeString\<close> on texts without line breaks; \<open>pad\<close> tells whether the encoding pads with \<open>=\<close>.
  Trailing bits are not checked (the encodings are not strict).
\<close>

fun b64_decode :: "(char \<Rightarrow> nat option) \<Rightarrow> bool \<Rightarrow> string \<Rightarrow> string option" where
  "b64_decode v pad [] = Some []"
| "b64_decode v pad [a] = None"
| "b64_decode v pad [a, b] =
     (if pad then None
      else case (v a, v b) of
             (Some x, Some y) \<Rightarrow> Some [char_of (x * 4 + y div 16)]
           | _ \<Rightarrow> None)"
| "b64_decode v pad [a, b, c] =
     (if pad then None
      else case (v a, v b, v c) of
             (Some x, Some y, Some z) \<Rightarrow>
               Some [char_of (x * 4 + y div 16), char_of ((y mod 16) * 16 + z div 4)]
           | _ \<Rightarrow> None)"
| "b64_decode v pad (a # b # c # d # rest) =
     (if pad \<and> c = CHR ''=''
      then (if d = CHR ''='' \<and> rest = []
            then (case (v a, v b) of
                    (Some x, Some y) \<Rightarrow> Some [char_of (x * 4 + y div 16)]
                  | _ \<Rightarrow> None)
            else None)
      else if pad \<and> d = CHR ''=''
      then (if rest = []
            then (case (v a, v b, v c) of
                    (Some x, Some y, Some z) \<Rightarrow>
                      Some [char_of (x * 4 + y div 16), char_of ((y mod 16) * 16 + z div 4)]
                  | _ \<Rightarrow> None)
            else None)
      else case (v a, v b, v c, v d) of
             (Some x, Some y, Some z, Some w) \<Rightarrow>
               map_option
                 (\<lambda>bs. char_of (x * 4 + y div 16) # char_of ((y mod 16) * 16 + z div 4)
                         # char_of ((z mod 4) * 64 + w) # bs)
                 (b64_decode v pad rest)
           | _ \<Rightarrow> None)"

definition base64_StdEncoding :: "string \<Rightarrow> string option" where
  "base64_StdEncoding = b64_decode (b64_value (CHR ''+'') (CHR ''/'')) True"

definition base64_RawStdEncoding :: "string \<Rightarrow> string option" where
  "base64_RawStdEncoding = b64_decode (b64_value (CHR ''+'') (CHR ''/'')) False"

definition base64_URLEncoding :: "string \<Rightarrow> string option" where
  "base64_URLEncoding = b64_decode (b64_value (CHR ''-'') (CHR ''_'')) True"

definition base64_RawURLEncoding :: "string \<Rightarrow> string option" where
  "base64_RawURLEncoding = b64_decode (b64_value (CHR ''-'') (CHR ''_'')) False"

definition b64_symbol :: "nat \<Rightarrow> char" where
  "b64_symbol n =
    (if n < 26 then char_of (n + 65) else if n < 52 then char_of (n + 71)
     else if n < 62 then char_of (n - 4) else if n = 62 then CHR ''+'' else CHR ''/'')"

fun base64_encode :: "string \<Rightarrow> string" where
  "base64_encode [] = []"
| "base64_encode [a] =
     (let x = of_char a in [b64_symbol (x div 4), b64_symbol ((x mod 4) * 16), CHR ''='', CHR ''=''])"
| "base64_encode [a, b] =
     (let x = of_char a; y = of_char b
      in [b64_symbol (x div 4), b64_symbol ((x mod 4) * 16 + y div 16),
          b64_symbol ((y mod 16) * 4), CHR ''=''])"
| "base64_encode (a # b # c # rest) =
     (let x = of_char a; y = of_char b; z = of_char c
      in b64_symbol (x div 4) # b64_symbol ((x mod 4) * 16 + y div 16)
           # b64_symbol ((y mod 16) * 4 + z div 64) # b64_symbol (z mod 64) # base64_encode rest)"

subsection \<open>Hexadecimal\<close>

definition hex_nibble :: "char \<Rightarrow> nat option" where
  "hex_nibble c =
    (if re_digit c then Some (of_char c - 48)
     else if chars_between (CHR ''a'') (CHR ''f'') c then Some (of_char c - 87)
     else if chars_between (CHR ''A'') (CHR ''F'') c then Some (of_char c - 55)
     else None)"

text \<open>\<open>hex.DecodeString\<close>: an odd length or another byte is an error.\<close>

fun hex_decode :: "string \<Rightarrow> string option" where
  "hex_decode [] = Some []"
| "hex_decode [a] = None"
| "hex_decode (a # b # cs) =
     (case (hex_nibble a, hex_nibble b) of
        (Some x, Some y) \<Rightarrow> map_option ((#) (char_of (16 * x + y))) (hex_decode cs)
      | _ \<Rightarrow> None)"

subsection \<open>Runes\<close>

text \<open>\<open>unicode.IsSpace\<close> on the encoding of a rune.\<close>

definition rune_space :: "string \<Rightarrow> bool" where
  "rune_space r \<longleftrightarrow>
    (case r of
       [c] \<Rightarrow> ascii_space c
     | [a, b] \<Rightarrow> a = CHR 0xC2 \<and> (b = CHR 0x85 \<or> b = CHR 0xA0)
     | [a, b, c] \<Rightarrow>
         (a = CHR 0xE1 \<and> b = CHR 0x9A \<and> c = CHR 0x80)
         \<or> (a = CHR 0xE2 \<and> b = CHR 0x80
             \<and> (chars_between (CHR 0x80) (CHR 0x8A) c \<or> c = CHR 0xA8 \<or> c = CHR 0xA9 \<or> c = CHR 0xAF))
         \<or> (a = CHR 0xE2 \<and> b = CHR 0x81 \<and> c = CHR 0x9F)
         \<or> (a = CHR 0xE3 \<and> b = CHR 0x80 \<and> c = CHR 0x80)
     | _ \<Rightarrow> False)"

definition ascii :: "string \<Rightarrow> bool" where
  "ascii s = list_all (byte_in 0 0x7F) s"

subsection \<open>Round trips\<close>

lemma b64_symbol_value:
  "n < 64 \<Longrightarrow> b64_value (CHR ''+'') (CHR ''/'') (b64_symbol n) = Some n"
  by (auto simp: b64_value_def b64_symbol_def re_upper_def re_lower_def re_digit_def chars_between_def)

lemma b64_symbol_not_pad: "n < 64 \<Longrightarrow> b64_symbol n \<noteq> CHR ''=''"
proof
  assume "n < 64" "b64_symbol n = CHR ''=''"
  then have "b64_value (CHR ''+'') (CHR ''/'') (CHR ''='') = Some n" using b64_symbol_value [of n] by simp
  then show False by (simp add: b64_value_def re_upper_def re_lower_def re_digit_def chars_between_def)
qed

lemma high_nibble: "(of_char c :: nat) div 16 < 16"
  using less_mult_imp_div_less [of "of_char c :: nat" 16 16] nat_of_char_less_256 [of c] by simp

lemma top_bits: "(of_char c :: nat) div 64 < 4"
  using less_mult_imp_div_less [of "of_char c :: nat" 4 64] nat_of_char_less_256 [of c] by simp

lemma digits_of_sum:
  fixes q r m :: nat
  assumes "r < m"
  shows "(q * m + r) div m = q" and "(q * m + r) mod m = r"
  using assms by simp_all

lemma b64_bytes:
  fixes x y z :: nat
  assumes "x < 256" "y < 256" "z < 256"
  shows "(x div 4) * 4 + ((x mod 4) * 16 + y div 16) div 16 = x"
    and "((x mod 4) * 16 + y div 16) mod 16 * 16 + ((y mod 16) * 4 + z div 64) div 4 = y"
    and "((y mod 16) * 4 + z div 64) mod 4 * 64 + z mod 64 = z"
    and "x div 4 < 64" "(x mod 4) * 16 + y div 16 < 64" "(y mod 16) * 4 + z div 64 < 64" "z mod 64 < 64"
proof -
  have y: "y div 16 < 16" and z: "z div 64 < 4"
    using assms less_mult_imp_div_less [of y 16 16] less_mult_imp_div_less [of z 4 64] by simp_all
  show "(x div 4) * 4 + ((x mod 4) * 16 + y div 16) div 16 = x"
    by (simp only: digits_of_sum [OF y] div_mult_mod_eq)
  show "((x mod 4) * 16 + y div 16) mod 16 * 16 + ((y mod 16) * 4 + z div 64) div 4 = y"
    by (simp only: digits_of_sum [OF y] digits_of_sum [OF z] div_mult_mod_eq)
  show "((y mod 16) * 4 + z div 64) mod 4 * 64 + z mod 64 = z"
    by (simp only: digits_of_sum [OF z] div_mult_mod_eq)
  show "x div 4 < 64" using assms less_mult_imp_div_less [of x 64 4] by simp
  have "x mod 4 < 4" "y mod 16 < 16" "z mod 64 < 64" by simp_all
  then show "(x mod 4) * 16 + y div 16 < 64" "(y mod 16) * 4 + z div 64 < 64" "z mod 64 < 64"
    using y z by linarith+
qed

lemma base64_round: "base64_StdEncoding (base64_encode s) = Some s"
proof (induction s rule: base64_encode.induct)
  case (2 a)
  then show ?case using b64_bytes [of "of_char a" 0 0]
    by (simp add: base64_StdEncoding_def b64_symbol_value Let_def)
next
  case (3 a b)
  then show ?case using b64_bytes [of "of_char a" "of_char b" 0]
    by (simp add: base64_StdEncoding_def b64_symbol_value b64_symbol_not_pad Let_def)
next
  case (4 a b c rest)
  then show ?case using b64_bytes [of "of_char a" "of_char b" "of_char c"]
    by (simp add: base64_StdEncoding_def b64_symbol_value b64_symbol_not_pad Let_def high_nibble top_bits)
qed (simp add: base64_StdEncoding_def)

text \<open>Without the padding, as a token of a payload has it: \<open>=\<close> is a delimiter.\<close>

definition base64_unpadded :: "string \<Rightarrow> string" where
  "base64_unpadded s = filter (\<lambda>c. c \<noteq> CHR ''='') (base64_encode s)"

lemma base64_unpadded_round: "base64_RawStdEncoding (base64_unpadded s) = Some s"
proof (induction s rule: base64_encode.induct)
  case (2 a)
  then show ?case using b64_bytes [of "of_char a" 0 0]
    by (simp add: base64_RawStdEncoding_def base64_unpadded_def b64_symbol_value b64_symbol_not_pad Let_def)
next
  case (3 a b)
  then show ?case using b64_bytes [of "of_char a" "of_char b" 0]
    by (simp add: base64_RawStdEncoding_def base64_unpadded_def b64_symbol_value b64_symbol_not_pad Let_def high_nibble)
next
  case (4 a b c rest)
  then show ?case using b64_bytes [of "of_char a" "of_char b" "of_char c"]
    by (simp add: base64_RawStdEncoding_def base64_unpadded_def b64_symbol_value b64_symbol_not_pad Let_def high_nibble top_bits)
qed (simp add: base64_RawStdEncoding_def base64_unpadded_def)

lemma length_base64_unpadded: "length s \<le> length (base64_unpadded s)"
proof (induction s rule: base64_encode.induct)
  case (2 a)
  then show ?case using b64_bytes [of "of_char a" 0 0]
    by (simp add: base64_unpadded_def b64_symbol_not_pad Let_def)
next
  case (3 a b)
  then show ?case using b64_bytes [of "of_char a" "of_char b" 0]
    by (simp add: base64_unpadded_def b64_symbol_not_pad Let_def)
next
  case (4 a b c rest)
  then have "length rest \<le> length (base64_unpadded rest)" by simp
  then show ?case using b64_bytes [of "of_char a" "of_char b" "of_char c"]
    by (simp add: base64_unpadded_def b64_symbol_not_pad Let_def)
qed (simp add: base64_unpadded_def)

lemma hex_nibble_digit: "n < 16 \<Longrightarrow> hex_nibble (hex_digit n) = Some n"
  by (auto simp: hex_nibble_def hex_digit_def re_digit_def chars_between_def)

lemma hex_round: "hex_decode (hex_EncodeToString s) = Some s"
proof (induction s)
  case (Cons c cs)
  then show ?case by (simp add: hex_nibble_digit high_nibble)
qed simp

lemma b64_symbols: "list_all (\<lambda>c. re_alnum c \<or> c \<in> set ''+/='') (base64_encode s)"
proof -
  define sym where "sym = (\<lambda>c. re_alnum c \<or> c \<in> set ''+/='')"
  have [simp]: "sym (b64_symbol n)" if "n < 64" for n
    using that by (auto simp: sym_def b64_symbol_def re_alnum_def re_upper_def re_lower_def re_digit_def chars_between_def)
  have [simp]: "sym (CHR ''='')" by (simp add: sym_def)
  have "list_all sym (base64_encode s)"
  proof (induction s rule: base64_encode.induct)
    case (2 a)
    then show ?case using b64_bytes [of "of_char a" 0 0] by (simp add: Let_def)
  next
    case (3 a b)
    then show ?case using b64_bytes [of "of_char a" "of_char b" 0] by (simp add: Let_def)
  next
    case (4 a b c rest)
    then show ?case using b64_bytes [of "of_char a" "of_char b" "of_char c"] by (simp add: Let_def)
  qed simp
  then show ?thesis by (simp only: sym_def)
qed

lemma hex_symbols: "list_all (\<lambda>c. re_digit c \<or> chars_between (CHR ''a'') (CHR ''f'') c) (hex_EncodeToString s)"
proof -
  have "re_digit (hex_digit n) \<or> chars_between (CHR ''a'') (CHR ''f'') (hex_digit n)" if "n < 16" for n
    using that by (auto simp: hex_digit_def re_digit_def chars_between_def)
  then show ?thesis by (induction s) (auto simp: high_nibble)
qed

subsection \<open>ASCII texts\<close>

lemma rune_len_Cons_ascii: "byte_in 0 0x7F c \<Longrightarrow> rune_len (c # cs) = 1"
  by (simp add: rune_len_def)

declare runes.simps(2) [simp del]

lemma runes_bad: "rune_len (c # cs) = 0 \<Longrightarrow> runes (c # cs) = replacement_rune # runes cs"
  by (simp add: runes.simps(2))

lemma runes_step:
  "rune_len (c # cs) \<noteq> 0 \<Longrightarrow>
    runes (c # cs) = take (rune_len (c # cs)) (c # cs) # runes (drop (rune_len (c # cs)) (c # cs))"
  by (simp add: runes.simps(2) Let_def)

lemma runes_ascii: "ascii s \<Longrightarrow> runes (s @ r) = map (\<lambda>c. [c]) s @ runes r"
  by (induction s) (simp_all add: ascii_def rune_len_Cons_ascii runes_step)

end
