(* ===== verification/Secret_Fingerprint.thy ===== *)
theory Secret_Fingerprint
  imports Go_Encoding
begin

text \<open>
  Package \<open>pkg/secretscan\<close>, \<open>fingerprint.go\<close>: salted digests of secret values and the search for
  these values in an outbound payload, verbatim or behind one mechanical transform. The result
  \<open>(n, ok)\<close> is an option. Lengths of fingerprints are Go's \<open>int\<close>. The code ranges over the map of
  lengths in an order of its own; the list of the model stands for one such order.
  \<open>unicode.IsPrint\<close> outside of ASCII is the argument \<open>isPrint\<close>, on the encoding of a rune.
\<close>

subsection \<open>Digests\<close>

definition minFingerprintLen :: nat where
  "minFingerprintLen = 12"

record SecretFingerprint =
  sf_Hash :: string
  sf_Len :: int

definition secret_digest :: "string \<Rightarrow> string \<Rightarrow> string" where
  "secret_digest value salt = hex_EncodeToString (sha256_Sum256 (salt @ value))"

definition FingerprintValue :: "string \<Rightarrow> string \<Rightarrow> SecretFingerprint option" where
  "FingerprintValue value salt =
    (if length value < minFingerprintLen then None
     else Some \<lparr>sf_Hash = secret_digest value salt, sf_Len = int (length value)\<rparr>)"

definition trim_quote :: "char \<Rightarrow> string \<Rightarrow> string" where
  "trim_quote q v = strings_TrimSuffix (strings_TrimPrefix v [q]) [q]"

definition splitAssignmentLine :: "string \<Rightarrow> (string \<times> string) option" where
  "splitAssignmentLine line =
    (let t = strings_TrimSpace (strings_TrimPrefix (strings_TrimSpace line) ''export '')
     in case strings_Index t ''='' of
          None \<Rightarrow> None
        | Some i \<Rightarrow>
            if i = 0 then None
            else let key = strings_TrimSpace (take i t);
                     value = trim_quote (CHR 0x27) (trim_quote (CHR 0x22) (strings_TrimSpace (drop (Suc i) t)))
                 in if key = [] \<or> value = [] then None else Some (key, value))"

definition keyLooksSecret :: "string \<Rightarrow> bool" where
  "keyLooksSecret key =
    list_ex (strings_Contains (strings_ToLower key))
      [''key'', ''token'', ''secret'', ''password'', ''passwd'', ''pwd'', ''credential'', ''api'', ''auth'',
       ''private'', ''access'']"

text \<open>The values whose digests are recorded, in order.\<close>

definition pattern_values :: "string \<Rightarrow> string list" where
  "pattern_values text =
    concat (map (\<lambda>p. filter (accepts p) (FindAllString (pt_RE p) text)) outputPatterns)"

definition assignment_value :: "string \<Rightarrow> string list" where
  "assignment_value line =
    (case splitAssignmentLine line of
       None \<Rightarrow> []
     | Some (key, value) \<Rightarrow> if IsHighEntropyString value \<or> keyLooksSecret key then [value] else [])"

definition add_fingerprint :: "string \<Rightarrow> SecretFingerprint list \<Rightarrow> string \<Rightarrow> SecretFingerprint list" where
  "add_fingerprint salt out value =
    (case FingerprintValue value salt of
       None \<Rightarrow> out
     | Some fp \<Rightarrow> if sf_Hash fp \<in> sf_Hash ` set out then out else out @ [fp])"

definition FingerprintSecrets :: "string \<Rightarrow> string \<Rightarrow> SecretFingerprint list" where
  "FingerprintSecrets text salt =
    (if text = [] then []
     else foldl (add_fingerprint salt) []
            (pattern_values text @ concat (map assignment_value (strings_SplitByte text (CHR 0x0A)))))"

subsection \<open>Tokens and runs\<close>

definition payload_delimiter :: "char \<Rightarrow> bool" where
  "payload_delimiter c \<longleftrightarrow>
    c \<in> set (''=:&?,;()[]{}<>|'' @ [CHR '' '', CHR 0x09, CHR 0x0A, CHR 0x0D, CHR 0x22, CHR 0x27, CHR 0x60, CHR 0x5C])"

definition tokenizePayload :: "string \<Rightarrow> string list" where
  "tokenizePayload payload = FieldsFunc payload_delimiter payload"

definition reverseString :: "string \<Rightarrow> string" where
  "reverseString s = concat (rev (runes s))"

definition stripWhitespace :: "string \<Rightarrow> string" where
  "stripWhitespace s =
    (if list_ex rune_space (runes s) then concat (filter (\<lambda>r. \<not> rune_space r) (runes s)) else s)"

definition isRunByte :: "char \<Rightarrow> bool" where
  "isRunByte c \<longleftrightarrow> re_alnum c \<or> c \<in> set ''+/-_=%''"

definition isAllRunBytes :: "string \<Rightarrow> bool" where
  "isAllRunBytes s \<longleftrightarrow> list_all isRunByte s \<and> 0 < length s"

definition isBase64ish :: "string \<Rightarrow> bool" where
  "isBase64ish s = list_all (\<lambda>c. re_alnum c \<or> c \<in> set ''+/-_='') s"

definition isHexish :: "string \<Rightarrow> bool" where
  "isHexish s =
    list_all (\<lambda>c. re_digit c \<or> chars_between (CHR ''a'') (CHR ''f'') c
                  \<or> chars_between (CHR ''A'') (CHR ''F'') c) s"

definition unhex :: "char \<Rightarrow> nat option" where
  "unhex c = hex_nibble c"

fun percentDecode :: "string \<Rightarrow> string option" where
  "percentDecode [] = Some []"
| "percentDecode (c # cs) =
     (if c \<noteq> CHR ''%'' then map_option ((#) c) (percentDecode cs)
      else case cs of
             a # b # rest \<Rightarrow>
               (case (unhex a, unhex b) of
                  (Some hi, Some lo) \<Rightarrow> map_option ((#) (char_of (16 * hi + lo))) (percentDecode rest)
                | _ \<Rightarrow> None)
           | _ \<Rightarrow> None)"

definition print_rune :: "(string \<Rightarrow> bool) \<Rightarrow> string \<Rightarrow> bool" where
  "print_rune isPrint r =
    (case r of [c] \<Rightarrow> byte_in 0x20 0x7E c | _ \<Rightarrow> isPrint r)"

definition mostlyPrintable :: "(string \<Rightarrow> bool) \<Rightarrow> string \<Rightarrow> bool" where
  "mostlyPrintable isPrint b \<longleftrightarrow>
    (if \<not> utf8_ValidString b then False
     else let rs = runes b; printable = length (filter (print_rune isPrint) rs); total = length rs
          in 0 < total \<and> total * 9 \<le> printable * 10)"

subsection \<open>Decoding\<close>

definition keep_printable :: "(string \<Rightarrow> bool) \<Rightarrow> string option \<Rightarrow> string list" where
  "keep_printable isPrint d =
    (case d of
       None \<Rightarrow> []
     | Some b \<Rightarrow> if length b < minFingerprintLen \<or> \<not> mostlyPrintable isPrint b then [] else [b])"

definition decodeTransforms :: "(string \<Rightarrow> bool) \<Rightarrow> string \<Rightarrow> string list" where
  "decodeTransforms isPrint tok =
    (if length tok < minFingerprintLen then []
     else (if isBase64ish tok
           then concat (map (\<lambda>enc. keep_printable isPrint (enc tok))
                  [base64_StdEncoding, base64_RawStdEncoding, base64_URLEncoding, base64_RawURLEncoding])
           else [])
       @ (if length tok mod 2 = 0 \<and> isHexish tok then keep_printable isPrint (hex_decode tok) else [])
       @ (if CHR ''%'' \<in> set tok then keep_printable isPrint (percentDecode tok) else []))"

text \<open>State of the loop over lines: what was decoded, the lines of the block, its width.\<close>

type_synonym block_state = "string list \<times> string list \<times> nat"

definition emit_block :: "(string \<Rightarrow> bool) \<Rightarrow> block_state \<Rightarrow> block_state" where
  "emit_block isPrint st =
    (case st of (out, block, width) \<Rightarrow>
       (out @ (if 2 \<le> length block
               then (let all = concat block; butLast = concat (take (length block - 1) block)
                     in (if minFingerprintLen \<le> length all then decodeTransforms isPrint all else [])
                      @ (if minFingerprintLen \<le> length butLast then decodeTransforms isPrint butLast else []))
               else []), [], 0))"

definition block_line :: "(string \<Rightarrow> bool) \<Rightarrow> block_state \<Rightarrow> string \<Rightarrow> block_state" where
  "block_line isPrint st line =
    (case st of (out, block, width) \<Rightarrow>
       if block = [] then (out, [line], length line)
       else if length line = width then (out, block @ [line], width)
       else if length line < width then emit_block isPrint (out, block @ [line], width)
       else (case emit_block isPrint st of (out', _, _) \<Rightarrow> (out', [line], length line)))"

fun block_loop :: "(string \<Rightarrow> bool) \<Rightarrow> string list \<Rightarrow> block_state \<Rightarrow> block_state" where
  "block_loop isPrint [] st = st"
| "block_loop isPrint (l # ls) st =
     (let line = strings_TrimRight l [CHR 0x0D] in
      if line = [] \<or> \<not> isAllRunBytes line then block_loop isPrint ls (emit_block isPrint st)
      else let st' = block_line isPrint st line
           in if 512 \<le> length (fst st') then st' else block_loop isPrint ls st')"

definition decodeWrappedLineBlocks :: "(string \<Rightarrow> bool) \<Rightarrow> string \<Rightarrow> string list" where
  "decodeWrappedLineBlocks isPrint payload =
    (if CHR 0x0A \<notin> set payload then []
     else fst (emit_block isPrint (block_loop isPrint (strings_SplitByte payload (CHR 0x0A)) ([], [], 0))))"

text \<open>\<open>None\<close> when the bound on candidates was not reached.\<close>

fun decode_tokens :: "(string \<Rightarrow> bool) \<Rightarrow> string list \<Rightarrow> string list \<Rightarrow> string list \<times> bool" where
  "decode_tokens isPrint [] out = (out, False)"
| "decode_tokens isPrint (tok # toks) out =
     (let d = decodeTransforms isPrint tok; out' = out @ d
      in if d \<noteq> [] \<and> 512 \<le> length out' then (out', True)
         else decode_tokens isPrint toks out')"

definition decodeEncodedRuns :: "(string \<Rightarrow> bool) \<Rightarrow> string \<Rightarrow> string list" where
  "decodeEncodedRuns isPrint payload =
    (case decode_tokens isPrint (tokenizePayload payload) [] of
       (out, full) \<Rightarrow> if full then out else out @ decodeWrappedLineBlocks isPrint payload)"

subsection \<open>Search\<close>

definition usable_digest :: "SecretFingerprint \<Rightarrow> string option" where
  "usable_digest fp =
    (case hex_decode (sf_Hash fp) of
       None \<Rightarrow> None
     | Some raw \<Rightarrow> if length raw = 32 then Some raw else None)"

text \<open>The map \<open>byHash\<close>; a later entry for the same digest comes first.\<close>

fun digest_table :: "SecretFingerprint list \<Rightarrow> (string \<times> int) list \<Rightarrow> (string \<times> int) list" where
  "digest_table [] t = t"
| "digest_table (fp # fps) t =
     (case usable_digest fp of
        None \<Rightarrow> digest_table fps t
      | Some raw \<Rightarrow> digest_table fps ((raw, sf_Len fp) # t))"

definition match_value :: "(string \<times> int) list \<Rightarrow> string \<Rightarrow> string \<Rightarrow> int option" where
  "match_value byHash salt s =
    (if length s < minFingerprintLen then None else map_of byHash (sha256_Sum256 (salt @ s)))"

fun first_match :: "('a \<Rightarrow> 'b option) \<Rightarrow> 'a list \<Rightarrow> 'b option" where
  "first_match f [] = None"
| "first_match f (x # xs) = (case f x of Some y \<Rightarrow> Some y | None \<Rightarrow> first_match f xs)"

definition windows :: "nat \<Rightarrow> string \<Rightarrow> string list" where
  "windows n s = map (\<lambda>i. take n (drop i s)) [0..<length s + 1 - n]"

definition windowScan :: "(string \<times> int) list \<Rightarrow> string \<Rightarrow> string \<Rightarrow> nat \<Rightarrow> int option" where
  "windowScan byHash salt s limit =
    (if s = [] \<or> limit < length s then None
     else first_match
       (\<lambda>L. if L < int minFingerprintLen \<or> int (length s) < L then None
            else first_match (match_value byHash salt) (windows (nat L) s))
       (remdups (map snd byHash)))"

definition search_space :: "(string \<times> int) list \<Rightarrow> string \<Rightarrow> string \<Rightarrow> nat \<Rightarrow> int option" where
  "search_space byHash salt s limit =
    (case first_match (match_value byHash salt) (tokenizePayload s) of
       Some n \<Rightarrow> Some n
     | None \<Rightarrow> windowScan byHash salt s limit)"

definition rawWindowCap :: nat where
  "rawWindowCap = 64 * 1024"

definition derivedWindowCap :: nat where
  "derivedWindowCap = 16 * 1024"

text \<open>The texts searched after the payload itself, in order.\<close>

definition derived_spaces :: "(string \<Rightarrow> bool) \<Rightarrow> string \<Rightarrow> string list" where
  "derived_spaces isPrint payload =
    (if length payload \<le> derivedWindowCap
     then (if reverseString payload \<noteq> payload then [reverseString payload] else [])
        @ (if stripWhitespace payload \<noteq> payload then [stripWhitespace payload] else [])
     else [])
    @ decodeEncodedRuns isPrint payload"

definition PayloadLeaksSecret ::
  "(string \<Rightarrow> bool) \<Rightarrow> string \<Rightarrow> SecretFingerprint list \<Rightarrow> string \<Rightarrow> int option" where
  "PayloadLeaksSecret isPrint payload fps salt =
    (if payload = [] \<or> fps = [] then None
     else let byHash = digest_table fps [] in
       if byHash = [] then None
       else case search_space byHash salt payload rawWindowCap of
              Some n \<Rightarrow> Some n
            | None \<Rightarrow>
                first_match (\<lambda>s. search_space byHash salt s derivedWindowCap) (derived_spaces isPrint payload))"

end
