(* ===== verification/Secret_Mcp.thy ===== *)
theory Secret_Mcp
  imports Secret_Scan Go_Json
begin

text \<open>
  Package \<open>pkg/secretscan\<close>, \<open>mcp_scan.go\<close>: credentials in the arguments of an MCP call, and the
  redaction of such arguments. Package \<open>pkg/secretview\<close>: the view of a sensitive file without its
  values. A result \<open>(found, hint)\<close> is an option. The order of an object of the model stands for one
  order in which Go ranges over the map; whether something is found does not depend on it.
\<close>

subsection \<open>Credentials in arguments\<close>

definition credentialPatterns :: "string list" where
  "credentialPatterns =
    [''sk-'', ''pk-'', ''Bearer '', ''token:'', ''api_key'', ''apikey'', ''api-key'', ''access_token'', ''refresh_token'',
     ''auth_token'', ''secret_key'', ''private_key'', ''ghp_'', ''gho_'', ''ghu_'', ''ghs_'', ''ghr_'', ''AKIA'',
     ''aws_secret'', ''aws_access'', ''password:'', ''password'' @ [CHR 0x22, CHR '':''], ''passwd:'', ''credential'',
     ''-----BEGIN'', ''-----END'']"

definition sensitiveKeyNames :: "string list" where
  "sensitiveKeyNames =
    [''password'', ''passwd'', ''secret'', ''api_key'', ''apikey'', ''api-key'', ''access_token'', ''auth_token'', ''token'',
     ''private_key'', ''credential'', ''aws_secret_access_key'', ''aws_access_key_id'']"

definition credential_pattern_in :: "string \<Rightarrow> string option" where
  "credential_pattern_in value =
    List.find (\<lambda>pat. strings_Contains (strings_ToLower value) (strings_ToLower pat)) credentialPatterns"

definition sensitive_key :: "string \<Rightarrow> string \<Rightarrow> bool" where
  "sensitive_key key value \<longleftrightarrow>
    list_ex (\<lambda>sk. (strings_ToLower key = sk \<or> strings_HasSuffix (strings_ToLower key) (''.'' @ sk))
                   \<and> strings_TrimSpace value \<noteq> []) sensitiveKeyNames"

definition structuredCredentialPattern :: "string \<Rightarrow> string option" where
  "structuredCredentialPattern value =
    map_option pt_Name (List.find (\<lambda>p. pattern_found p value) outputPatterns)"

text \<open>The share of base64 symbols is compared without rounding: \<open>a / n > 0.9\<close>.\<close>

definition looksBase64 :: "string \<Rightarrow> bool" where
  "looksBase64 s \<longleftrightarrow>
    (if strings_Contains s '' '' then False
     else let alphaNum = length (filter (\<lambda>c. re_alnum c \<or> c \<in> set ''+/='') s)
          in 0 < length s \<and> 9 * length s < 10 * alphaNum)"

definition checkCredentialString :: "string \<Rightarrow> string \<Rightarrow> string option" where
  "checkCredentialString key val =
    (case credential_pattern_in val of
       Some pat \<Rightarrow> Some (key @ '' contains '' @ pat)
     | None \<Rightarrow>
         if sensitive_key key val then Some (key @ '' is a sensitive key name'')
         else case structuredCredentialPattern val of
                Some patternName \<Rightarrow> Some (key @ '' contains '' @ patternName)
              | None \<Rightarrow>
                  if 100 < length val \<and> looksBase64 val
                  then Some (key @ '' contains long base64-like value'') else None)"

fun itoa_digits :: "nat \<Rightarrow> string \<Rightarrow> string" where
  "itoa_digits v buf = (if v = 0 then buf else itoa_digits (v div 10) (char_of (48 + v mod 10) # buf))"

declare itoa_digits.simps [simp del]

definition itoa :: "nat \<Rightarrow> string" where
  "itoa v = (if v = 0 then ''0'' else itoa_digits v [])"

definition first_of :: "'a option \<Rightarrow> 'a option \<Rightarrow> 'a option" where
  "first_of a b = (case a of Some x \<Rightarrow> Some x | None \<Rightarrow> b)"

fun scanArgsRecursive :: "(string \<times> json) list \<Rightarrow> string \<Rightarrow> string option"
  and scan_arg :: "json \<Rightarrow> string \<Rightarrow> string option"
  and scan_items :: "json list \<Rightarrow> nat \<Rightarrow> string \<Rightarrow> string option" where
  "scanArgsRecursive [] path = None"
| "scanArgsRecursive ((key, val) # rest) path =
     first_of (scan_arg val (if path \<noteq> [] then path @ ''.'' @ key else key)) (scanArgsRecursive rest path)"
| "scan_arg (JString s) fullKey = checkCredentialString fullKey s"
| "scan_arg (JObject members) fullKey = scanArgsRecursive members fullKey"
| "scan_arg (JArray vs) fullKey = scan_items vs 0 fullKey"
| "scan_arg JNull fullKey = None"
| "scan_arg (JBool b) fullKey = None"
| "scan_arg (JNumber n) fullKey = None"
| "scan_items [] i fullKey = None"
| "scan_items (item # rest) i fullKey =
     first_of
       (case item of
          JObject members \<Rightarrow> scanArgsRecursive members (fullKey @ ''['' @ itoa i @ '']'')
        | JString s \<Rightarrow> checkCredentialString fullKey s
        | _ \<Rightarrow> None)
       (scan_items rest (Suc i) fullKey)"

definition ScanMCPArgsForCredentials :: "jsonobj \<Rightarrow> string option" where
  "ScanMCPArgsForCredentials toolInput = scanArgsRecursive toolInput []"

definition ScanStringForCredentials :: "string \<Rightarrow> string option" where
  "ScanStringForCredentials s = checkCredentialString [] s"

subsection \<open>Redaction of arguments\<close>

definition sensitiveMCPIndicator :: "string \<Rightarrow> string \<Rightarrow> string option" where
  "sensitiveMCPIndicator key value =
    (if sensitive_key key value then Some ''sensitive_key''
     else if credential_pattern_in value \<noteq> None then Some ''sensitive_value''
     else case structuredCredentialPattern value of
            Some patternName \<Rightarrow> Some patternName
          | None \<Rightarrow> if 100 < length value \<and> looksBase64 value then Some ''long_token'' else None)"

definition RedactMCPValue :: "string \<Rightarrow> string \<Rightarrow> string" where
  "RedactMCPValue key value =
    (let redacted = RedactStructuredText value in
     if redacted \<noteq> value then redacted
     else case sensitiveMCPIndicator key value of
            Some label \<Rightarrow> ''[REDACTED:'' @ label @ '']''
          | None \<Rightarrow> value)"

subsection \<open>The view of a sensitive file\<close>

record ViewEntry =
  ve_Key :: string
  ve_Present :: bool
  ve_ValueLen :: nat
  ve_Class :: string

record View =
  vw_Kind :: string
  vw_Entries :: "ViewEntry list"
  vw_Lines :: nat
  vw_Bytes :: nat
  vw_CommentLines :: nat
  vw_CredentialHits :: nat

definition validKey :: "string \<Rightarrow> bool" where
  "validKey key \<longleftrightarrow> key \<noteq> [] \<and> list_all (\<lambda>c. c = CHR ''_'' \<or> c = CHR ''.'' \<or> re_alnum c) key"

definition unquote :: "char \<Rightarrow> string \<Rightarrow> string" where
  "unquote q v = strings_TrimSuffix (strings_TrimPrefix v [q]) [q]"

definition splitEnvLine :: "string \<Rightarrow> (string \<times> string) option" where
  "splitEnvLine line0 =
    (let line = strings_TrimPrefix line0 ''export '' in
     case strings_Index line ''='' of
       None \<Rightarrow> None
     | Some i \<Rightarrow>
         if i = 0 then None
         else let key = strings_TrimSpace (take i line);
                  value = unquote (CHR 0x27) (unquote (CHR 0x22) (strings_TrimSpace (drop (Suc i) line)))
              in if \<not> validKey key then None else Some (key, value))"

definition classify_value :: "string \<Rightarrow> string" where
  "classify_value value =
    (case ScanOutputForCredentials value of m # _ \<Rightarrow> cm_PatternName m | [] \<Rightarrow> [])"

definition considered_line :: "string \<Rightarrow> bool" where
  "considered_line line \<longleftrightarrow>
    strings_TrimSpace line \<noteq> [] \<and> \<not> strings_HasPrefix (strings_TrimSpace line) ''#''"

definition looksLikeEnv :: "string \<Rightarrow> string list \<Rightarrow> bool" where
  "looksLikeEnv name lines =
    (let base = (case strings_LastIndexAny name [CHR ''/'', CHR 0x5C] of
                   None \<Rightarrow> name | Some i \<Rightarrow> drop (Suc i) name)
     in if base = ''.env'' \<or> strings_HasPrefix base ''.env'' \<or> strings_HasSuffix base ''.env'' then True
        else let considered = filter considered_line lines;
                 assignments = filter (\<lambda>l. splitEnvLine (strings_TrimSpace l) \<noteq> None) considered
             in 0 < length considered \<and> length considered \<le> length assignments * 2)"

definition view_entry :: "string \<Rightarrow> string \<Rightarrow> ViewEntry" where
  "view_entry key value =
    \<lparr>ve_Key = key, ve_Present = (value \<noteq> []), ve_ValueLen = length value,
     ve_Class = (if value \<noteq> [] then classify_value value else [])\<rparr>"

definition view_line :: "View \<Rightarrow> string \<Rightarrow> View" where
  "view_line v line =
    (let trimmed = strings_TrimSpace line in
     if trimmed = [] then v
     else if strings_HasPrefix trimmed ''#'' then v\<lparr>vw_CommentLines := Suc (vw_CommentLines v)\<rparr>
     else case splitEnvLine trimmed of
            None \<Rightarrow> v
          | Some (key, value) \<Rightarrow>
              let e = view_entry key value
              in v\<lparr>vw_Entries := vw_Entries v @ [e],
                   vw_CredentialHits := (if ve_Class e \<noteq> [] then Suc (vw_CredentialHits v) else vw_CredentialHits v)\<rparr>)"

definition view_Redact :: "string \<Rightarrow> string \<Rightarrow> View" where
  "view_Redact name text =
    (let lines = strings_SplitByte text (CHR 0x0A);
         v = \<lparr>vw_Kind = ''env'', vw_Entries = [], vw_Lines = length lines, vw_Bytes = length text,
              vw_CommentLines = 0, vw_CredentialHits = 0\<rparr>
     in if looksLikeEnv name lines then foldl view_line v lines
        else v\<lparr>vw_Kind := ''opaque'', vw_CredentialHits := length (ScanOutputForCredentials text)\<rparr>)"

subsection \<open>Properties\<close>

lemma first_of_None [simp]: "first_of a b = None \<longleftrightarrow> a = None \<and> b = None"
  by (simp add: first_of_def split: option.split)

lemma first_of_Some [simp]: "(\<exists>y. first_of a b = Some y) \<longleftrightarrow> (\<exists>y. a = Some y) \<or> (\<exists>y. b = Some y)"
  by (auto simp: first_of_def split: option.split)

lemma check_iff_indicator: "checkCredentialString key val = None \<longleftrightarrow> sensitiveMCPIndicator key val = None"
  by (auto simp: checkCredentialString_def sensitiveMCPIndicator_def split: option.split)

lemma structured_label: "structuredCredentialPattern v = Some n \<Longrightarrow> n \<in> pt_Name ` set outputPatterns"
  by (auto simp: structuredCredentialPattern_def find_Some_iff)

text \<open>The redaction of an argument changes it exactly when its text is redacted or the credential scan
  flags it: the scanner that blocks a call and the redactor that hides its arguments agree.\<close>

theorem flagged_arguments_are_hidden:
  "(checkCredentialString key val \<noteq> None \<longleftrightarrow> sensitiveMCPIndicator key val \<noteq> None)
   \<and> (RedactMCPValue key val = val \<longleftrightarrow>
        RedactStructuredText val = val
        \<and> (checkCredentialString key val = None
           \<or> Some val = map_option (\<lambda>l. ''[REDACTED:'' @ l @ '']'') (sensitiveMCPIndicator key val)))"
  by (auto simp: check_iff_indicator RedactMCPValue_def Let_def split: option.split)

text \<open>A string anywhere in the arguments that the check flags makes the scan report the call.\<close>

inductive argument_at :: "(string \<times> json) list \<Rightarrow> string \<Rightarrow> string \<Rightarrow> string \<Rightarrow> bool" where
  direct: "(k, JString s) \<in> set args \<Longrightarrow> argument_at args path (if path \<noteq> [] then path @ ''.'' @ k else k) s"
| in_list: "(k, JArray vs) \<in> set args \<Longrightarrow> JString s \<in> set vs \<Longrightarrow>
    argument_at args path (if path \<noteq> [] then path @ ''.'' @ k else k) s"
| in_object: "(k, JObject ms) \<in> set args \<Longrightarrow>
    argument_at ms (if path \<noteq> [] then path @ ''.'' @ k else k) key s \<Longrightarrow> argument_at args path key s"
| in_list_object: "(k, JArray vs) \<in> set args \<Longrightarrow> i < length vs \<Longrightarrow> vs ! i = JObject ms \<Longrightarrow>
    argument_at ms ((if path \<noteq> [] then path @ ''.'' @ k else k) @ ''['' @ itoa i @ '']'') key s \<Longrightarrow>
    argument_at args path key s"

lemma scan_member:
  "(k, v) \<in> set args \<Longrightarrow> scan_arg v (if path \<noteq> [] then path @ ''.'' @ k else k) \<noteq> None \<Longrightarrow>
    scanArgsRecursive args path \<noteq> None"
  by (induction args) auto

lemma scan_items_at:
  "i < length vs \<Longrightarrow>
    (case vs ! i of
       JObject ms \<Rightarrow> scanArgsRecursive ms (key @ ''['' @ itoa (n + i) @ '']'')
     | JString s \<Rightarrow> checkCredentialString key s
     | _ \<Rightarrow> None) \<noteq> None \<Longrightarrow>
    scan_items vs n key \<noteq> None"
proof (induction vs arbitrary: i n)
  case (Cons v vs)
  show ?case
  proof (cases i)
    case 0
    then show ?thesis using Cons.prems by (auto split: json.splits)
  next
    case (Suc j)
    then have sum: "n + i = Suc n + j" by simp
    have "scan_items vs (Suc n) key \<noteq> None"
      using Cons.prems unfolding sum unfolding Suc
      by (intro Cons.IH [of j]) (simp_all only: length_Cons Suc_less_eq nth_Cons_Suc not_False_eq_True)
    then show ?thesis by simp
  qed
qed simp

text \<open>A credential in any argument of an MCP call, at any depth of objects and in lists of strings or
  objects, is reported.\<close>

theorem nested_credential_reported:
  assumes "argument_at args path key s" and "checkCredentialString key s \<noteq> None"
  shows "scanArgsRecursive args path \<noteq> None"
  using assms
proof (induction rule: argument_at.induct)
  case (direct k s args path)
  then show ?case using scan_member [of k "JString s" args path] by simp
next
  case (in_list k vs args s path)
  obtain i where i: "i < length vs" "vs ! i = JString s" using in_list.hyps(2) by (auto simp: in_set_conv_nth)
  then show ?case using in_list scan_items_at [OF i(1), of _ 0] scan_member [of k "JArray vs" args path] by simp
next
  case (in_object k ms args path key s)
  then show ?case using scan_member [of k "JObject ms" args path] by simp
next
  case (in_list_object k vs args i ms path key s)
  then show ?case
    using scan_items_at [OF in_list_object.hyps(2), of _ 0] scan_member [of k "JArray vs" args path] by simp
qed

theorem nested_credential_reported_witness:
  "ScanMCPArgsForCredentials
     [(''query'', JString ''x''), (''opts'', JArray [JNull, JObject [(''password'', JString ''hunter2'')]])] \<noteq> None"
  unfolding ScanMCPArgsForCredentials_def
proof (rule nested_credential_reported)
  show "argument_at [(''query'', JString ''x''), (''opts'', JArray [JNull, JObject [(''password'', JString ''hunter2'')]])]
      [] ''opts[1].password'' ''hunter2''"
  proof (rule in_list_object)
    have one: "itoa 1 = ''1''" by code_simp
    show "1 < length [JNull, JObject [(''password'', JString ''hunter2'')]]" by simp
    show "[JNull, JObject [(''password'', JString ''hunter2'')]] ! 1 = JObject [(''password'', JString ''hunter2'')]"
      by simp
    show "argument_at [(''password'', JString ''hunter2'')]
        ((if [] \<noteq> ([] :: string) then [] @ ''.'' @ ''opts'' else ''opts'') @ ''['' @ itoa 1 @ '']'') ''opts[1].password'' ''hunter2''"
      using direct [of "''password''" "''hunter2''" "[(''password'', JString ''hunter2'')]" "''opts[1]''"]
      by (simp add: one del: One_nat_def)
  qed simp_all
  show "checkCredentialString ''opts[1].password'' ''hunter2'' \<noteq> None" by code_simp
qed

text \<open>Two lines that the view cannot tell apart: the same key, and values of one length and class.\<close>

definition same_line :: "string \<Rightarrow> string \<Rightarrow> bool" where
  "same_line l m \<longleftrightarrow>
    l = m
    \<or> (considered_line l \<and> considered_line m
       \<and> (case (splitEnvLine (strings_TrimSpace l), splitEnvLine (strings_TrimSpace m)) of
            (Some (k, v), Some (k', v')) \<Rightarrow> view_entry k v = view_entry k' v'
          | _ \<Rightarrow> False))"

lemma view_line_same: "same_line l m \<Longrightarrow> view_line v l = view_line v m"
  by (auto simp: same_line_def view_line_def considered_line_def Let_def split: option.splits)

text \<open>The view of an environment file shows nothing of a value but its length and class.\<close>

lemma view_hides_values:
  assumes "list_all2 same_line (strings_SplitByte s (CHR 0x0A)) (strings_SplitByte t (CHR 0x0A))"
    and "length s = length t"
    and "looksLikeEnv name (strings_SplitByte s (CHR 0x0A))" and "looksLikeEnv name (strings_SplitByte t (CHR 0x0A))"
  shows "view_Redact name s = view_Redact name t"
proof -
  have "foldl view_line v ls = foldl view_line v ms" if "list_all2 same_line ls ms" for v ls ms
    using that by (induction ls ms arbitrary: v rule: list_all2_induct) (simp_all add: view_line_same)
  then show ?thesis using assms list_all2_lengthD [OF assms(1)] by (simp add: view_Redact_def Let_def)
qed

end
