(* ===== verification/Classify_Tunnel.thy ===== *)
theory Classify_Tunnel
  imports Go_Entropy Go_Regexp Classify_Shell
begin

text \<open>
  \<open>pkg/hooks/classify/network.go\<close>: hostnames that carry encoded data in a label, the shape of
  exfiltration through DNS. The shares and the entropy, floating point in the code, are compared in
  integers.
\<close>

definition isHighEntropyLabel :: "string \<Rightarrow> bool" where
  "isHighEntropyLabel label =
    (let n = length label; alnum = length (filter (\<lambda>c. re_lower c \<or> re_digit c) label)
     in if n < 32 then False
        else if 10 * alnum < 9 * n then False
        else if 45 \<le> n then entropy_reaches 6 label
        else entropy_reaches 7 label)"

definition IsDNSTunnelHost :: "string \<Rightarrow> bool" where
  "IsDNSTunnelHost host0 =
    (let host = hostnameForTunnelCheck host0
     in host \<noteq> [] \<and> list_ex isHighEntropyLabel (strings_SplitByte host (CHR ''.'')))"

end
