(* ===== verification/Hooks_Lineage.thy ===== *)
theory Hooks_Lineage
  imports Hooks_Toolmap Provider_Invoke Sdk_Types Secret_Fingerprint Secret_Mcp Classify_Tunnel
begin

text \<open>
  Labels of a tool call: those of its target (\<open>labels.go\<close>, \<open>labelsForEvaluation\<close>) and those
  inherited from the files it carries out (\<open>lineage.go\<close>). The payload of a hook and the
  surroundings of an evaluation are declared here: \<open>git\<close>, the providers, and the JSON form
  of a session are fields of the environment.
\<close>

subsection \<open>Payload and surroundings\<close>

record HookPayload =
  hp_SessionID :: string
  hp_HookEventName :: string
  hp_ToolName :: string
  hp_ToolInput :: jsonobj
  hp_ToolUseID :: string
  hp_ToolOutput :: string
  hp_CWD :: string
  hp_AgentID :: string
  hp_TranscriptPath :: string

text \<open>
  \<open>ee_Git root args\<close> is the output of \<open>git -C root args\<close>, or nothing when it fails.
  \<open>ee_Registry\<close> is what loading the provider registry gives (the error flag is for a file that
  exists and cannot be read), and \<open>ee_SignalProviders\<close> the entries the signal collector reads from
  the same file. \<open>ee_DecodeSignal\<close>, \<open>ee_MarshalState\<close> and \<open>ee_MarshalPayload\<close> are \<open>encoding/json\<close> on those types, \<open>ee_TimeText\<close>
  prints an instant. \<open>ee_ModTime\<close> is the modification time of a file, \<open>None\<close> when it is missing.
  \<open>ee_SaveFails\<close> tells whether writing the session fails. \<open>ee_ManagedSubtree\<close> is the part of an agent's configuration file that sir manages, in canonical
  form. \<open>ee_IsPrint\<close> is \<open>unicode.IsPrint\<close> outside of ASCII.
\<close>

record EvalEnv =
  ee_Hook :: HookEnv
  ee_Core :: CoreEnv
  ee_Git :: "string \<Rightarrow> string list \<Rightarrow> string option"
  ee_Run :: provider_run
  ee_Registry :: "string + Registry"
  ee_SignalProviders :: "ProviderEntry list"
  ee_DecodeSignal :: "json \<Rightarrow> Signal option"
  ee_MarshalState :: "State \<Rightarrow> string"
  ee_MarshalPayload :: "HookPayload \<Rightarrow> string"
  ee_TimeText :: "Time \<Rightarrow> string"
  ee_ManagedSubtree :: "string \<Rightarrow> string \<Rightarrow> string option"
  ee_ModTime :: "string \<Rightarrow> Time option"
  ee_LookPath :: "string \<Rightarrow> string option"
  ee_SaveFails :: bool
  ee_IsPrint :: "string \<Rightarrow> bool"

definition ee_Now :: "EvalEnv \<Rightarrow> Time" where
  "ee_Now env = he_Now (ee_Hook env)"

definition isToolMCP :: "string \<Rightarrow> bool" where
  "isToolMCP toolName \<longleftrightarrow> length toolName > 5 \<and> take 5 toolName = ''mcp__''"

subsection \<open>Labels of a target (\<open>labels.go\<close>)\<close>

definition core_label :: "string \<Rightarrow> string \<Rightarrow> string \<Rightarrow> Label" where
  "core_label s t p = \<lparr>Lb_Sensitivity = s, Lb_Trust = t, Lb_Provenance = p\<rparr>"

definition under_dir :: "string \<Rightarrow> string \<Rightarrow> bool" where
  "under_dir clean dir \<longleftrightarrow> strings_HasPrefix clean dir \<or> strings_Contains clean (''/'' @ dir)"

definition LabelsForTarget :: "HookEnv \<Rightarrow> string \<Rightarrow> Lease \<Rightarrow> string \<Rightarrow> Label" where
  "LabelsForTarget e target l root =
    (let isSensitive = (if root \<noteq> [] then IsSensitivePathResolvedIn e root target l else IsSensitivePath e target l);
         isPosture = (if root \<noteq> [] then IsPostureFileResolvedIn e root target l else IsPostureFile e target l);
         clean = strings_TrimSpace target
     in if isSensitive then core_label ''secret'' ''trusted'' ''user''
        else if isPosture then core_label ''internal'' ''trusted'' ''user''
        else if list_ex (under_dir clean) [''node_modules/'', ''.venv/'', ''vendor/'', ''target/'', ''_build/'']
        then core_label ''public'' ''verified_origin'' ''external_package''
        else if list_ex (under_dir clean) [''src/'', ''lib/'', ''app/'', ''cmd/'', ''internal/'', ''tests/'', ''test/'']
        then core_label ''internal'' ''trusted'' ''user''
        else core_label ''public'' ''trusted'' ''user'')"

definition LabelsForMCPTool :: Label where
  "LabelsForMCPTool = core_label ''public'' ''verified_origin'' ''mcp_tool''"

definition LabelsForAgent :: Label where
  "LabelsForAgent = core_label ''public'' ''verified_internal'' ''agent''"

definition labelsForEvaluation :: "HookEnv \<Rightarrow> HookPayload \<Rightarrow> ToolIntent \<Rightarrow> Lease \<Rightarrow> string \<Rightarrow> Label" where
  "labelsForEvaluation e payload intent l projectRoot =
    (if ti_Verb intent = VerbReadRef \<or> ti_Verb intent = VerbStageWrite
     then LabelsForTarget e (ti_Target intent) l projectRoot
     else if hp_ToolName payload = ''Agent'' then LabelsForAgent
     else if isToolMCP (hp_ToolName payload) then LabelsForMCPTool
     else core_label ''public'' ''trusted'' ''user'')"

subsection \<open>Inherited labels (\<open>lineage.go\<close>)\<close>

definition secretReadLineageLabel :: LineageLabel where
  "secretReadLineageLabel = LineageLabel ''secret'' ''trusted'' ''user''"

definition seedSensitivePathLineage :: "HookEnv \<Rightarrow> string \<Rightarrow> string \<Rightarrow> State \<Rightarrow> State" where
  "seedSensitivePathLineage e projectRoot target s =
     (if strings_TrimSpace target = [] then s
      else AttachLineageLabelsToPath (he_Now e) (ResolveTarget e projectRoot target) [secretReadLineageLabel] s)"

definition coreLabelsFromLineage :: "LineageLabel list \<Rightarrow> Label list" where
  "coreLabelsFromLineage labels = map (\<lambda>l. core_label (Sensitivity l) (Trust l) (Provenance l)) labels"

fun unique_paths :: "string list \<Rightarrow> string list \<Rightarrow> string list" where
  "unique_paths [] out = out"
| "unique_paths (p # ps) out =
     unique_paths ps (if p = [] \<or> slice_contains out p then out else out @ [p])"

definition appendUniquePaths :: "string list \<Rightarrow> string list \<Rightarrow> string list" where
  "appendUniquePaths paths extra = (if extra = [] then paths else unique_paths extra (unique_paths paths []))"

text \<open>Lines of git output that are not blank.\<close>

definition gitLineList :: "EvalEnv \<Rightarrow> string \<Rightarrow> string list \<Rightarrow> string list" where
  "gitLineList env projectRoot args =
    (case ee_Git env projectRoot args of
       None \<Rightarrow> []
     | Some out \<Rightarrow>
         filter (\<lambda>line. line \<noteq> []) (map strings_TrimSpace (strings_SplitByte (strings_TrimSpace out) (CHR 0x0A))))"

definition gitPathList :: "EvalEnv \<Rightarrow> string \<Rightarrow> string list \<Rightarrow> string list" where
  "gitPathList env projectRoot args = map (ResolveTarget (ee_Hook env) projectRoot) (gitLineList env projectRoot args)"

definition gitStagedPaths :: "EvalEnv \<Rightarrow> string \<Rightarrow> string list" where
  "gitStagedPaths env projectRoot =
     gitPathList env projectRoot [''diff'', ''--cached'', ''--name-only'', ''--diff-filter=ACMR'']"

definition gitPathsForRevList :: "EvalEnv \<Rightarrow> string \<Rightarrow> string list \<Rightarrow> string list" where
  "gitPathsForRevList env projectRoot args =
     fold (\<lambda>path out. append_unique out path)
       (concat (map (\<lambda>commit. gitPathList env projectRoot
                       [''diff-tree'', ''--no-commit-id'', ''--name-only'', ''-r'', commit])
                  (gitLineList env projectRoot (''rev-list'' # args)))) []"

definition gitPathsForRemote :: "EvalEnv \<Rightarrow> string \<Rightarrow> string \<Rightarrow> string list" where
  "gitPathsForRemote env projectRoot remoteName =
     gitPathsForRevList env projectRoot
       [''--reverse'', ''HEAD'', ''--not'', (if remoteName = [] then ''--remotes'' else ''--remotes='' @ remoteName)]"

definition gitOutgoingPaths :: "EvalEnv \<Rightarrow> string \<Rightarrow> string \<Rightarrow> string list" where
  "gitOutgoingPaths env projectRoot remoteName =
    (let upstream = gitPathList env projectRoot [''diff'', ''--name-only'', [CHR 0x40] @ ''{upstream}..HEAD''];
         remote = gitPathsForRemote env projectRoot remoteName
     in if upstream \<noteq> [] then upstream else if remote \<noteq> [] then remote else gitStagedPaths env projectRoot)"

definition pushRemoteName :: "ToolIntent \<Rightarrow> string" where
  "pushRemoteName intent =
     (if ti_RemoteName intent \<noteq> [] then ti_RemoteName intent
      else if ti_Verb intent = VerbPushOrigin then ''origin'' else [])"

definition lineage_trim_chars :: string where
  "lineage_trim_chars = [CHR 0x22, CHR 0x27, CHR 0x60] @ [CHR 0x40] @ '',;:()[]{}<>|&''"

definition lineagePathCandidatesFromToken :: "string \<Rightarrow> string list" where
  "lineagePathCandidatesFromToken token =
    (let cleaned = strings_Trim token lineage_trim_chars;
         at = [CHR 0x40]
     in if cleaned = [] then []
        else [cleaned]
          @ (case strings_Index cleaned ''='' of
               Some i \<Rightarrow> if i + 1 < length cleaned then [strings_TrimPrefix (drop (i + 1) cleaned) at] else []
             | None \<Rightarrow> [])
          @ (if strings_HasPrefix cleaned at \<and> length cleaned > 1 then [strings_TrimPrefix cleaned at] else [])
          @ (if strings_HasPrefix cleaned ''file://'' \<and> length cleaned > length ''file://''
             then [strings_TrimPrefix cleaned ''file://''] else []))"

definition derivedPathsMentionedInCommand :: "HookEnv \<Rightarrow> string \<Rightarrow> State \<Rightarrow> string \<Rightarrow> string list" where
  "derivedPathsMentionedInCommand e projectRoot s command =
    (let derivedPaths = DerivedPaths s;
         named = (\<lambda>cleaned. find (\<lambda>path. ResolveTarget e projectRoot cleaned = path \<or> cleaned = filepath_Base path) derivedPaths)
     in if command = [] \<or> derivedPaths = [] then []
        else concat (map (\<lambda>token. List.map_filter named (lineagePathCandidatesFromToken token)) (strings_Fields command)))"

definition derivedLabelsForIntent :: "EvalEnv \<Rightarrow> string \<Rightarrow> HookPayload \<Rightarrow> ToolIntent \<Rightarrow> State \<Rightarrow> Label list" where
  "derivedLabelsForIntent env projectRoot payload intent s =
    (let e = ee_Hook env;
         v = ti_Verb intent;
         bash = (hp_ToolName payload = ''Bash'');
         mentioned = derivedPathsMentionedInCommand e projectRoot s (ti_Target intent);
         outgoing = gitOutgoingPaths env projectRoot (pushRemoteName intent)
     in if v = ''stage_write''
        then coreLabelsFromLineage (DerivedLabelsForPath s (ResolveTarget e projectRoot (ti_Target intent)))
        else if v = ''commit'' then coreLabelsFromLineage (DerivedLabelsForPaths s (gitStagedPaths env projectRoot))
        else if v = ''push_origin'' \<or> v = ''push_remote''
        then coreLabelsFromLineage (DerivedLabelsForPaths s
               (if bash \<and> ti_IsForgePublish intent then appendUniquePaths outgoing mentioned else outgoing))
        else if (v = ''net_allowlisted'' \<or> v = ''net_external'' \<or> v = ''dns_lookup'') \<and> bash
        then coreLabelsFromLineage (DerivedLabelsForPaths s mentioned)
        else [])"

end
