(* ===== verification/Posture_Hashes.thy ===== *)
theory Posture_Hashes
  imports Hooks_Lineage
begin

text \<open>
  Package \<open>pkg/posture\<close> and the paths of \<open>pkg/session\<close>: where the state of a project lives,
  hashes of the files that steer an agent, and the integrity of the lease and of the session.
\<close>

subsection \<open>Files\<close>

definition read_file :: "EvalEnv \<Rightarrow> string \<Rightarrow> string option" where
  "read_file env path = (case CE_ReadFile (ee_Core env) path of Contents data \<Rightarrow> Some data | _ \<Rightarrow> None)"

definition home_or_empty :: "EvalEnv \<Rightarrow> string" where
  "home_or_empty env = (case he_UserHomeDir (ee_Hook env) of None \<Rightarrow> [] | Some home \<Rightarrow> home)"

definition sha256_hex :: "string \<Rightarrow> string" where
  "sha256_hex data = hex_EncodeToString (sha256_Sum256 data)"

definition ProjectHash :: "string \<Rightarrow> string" where
  "ProjectHash projectRoot = sha256_hex projectRoot"

definition StateDirUnder :: "string \<Rightarrow> string \<Rightarrow> string" where
  "StateDirUnder home projectRoot = filepath_Join [home, ''.sir'', ''projects'', ProjectHash projectRoot]"

definition StateDir :: "EvalEnv \<Rightarrow> string \<Rightarrow> string" where
  "StateDir env projectRoot =
    (let home = strings_TrimSpace (he_Getenv (ee_Hook env) ''SIR_STATE_HOME'') in
     StateDirUnder (if home = [] then home_or_empty env else home) projectRoot)"

subsection \<open>Integrity of the lease and the session\<close>

definition HashLeaseFile :: "EvalEnv \<Rightarrow> string \<Rightarrow> string option" where
  "HashLeaseFile env projectRoot =
     map_option sha256_hex (read_file env (filepath_Join [StateDir env projectRoot, ''lease.json'']))"

definition VerifyLeaseIntegrity :: "EvalEnv \<Rightarrow> string \<Rightarrow> State \<Rightarrow> bool" where
  "VerifyLeaseIntegrity env projectRoot s =
     (if LeaseHash s = [] then True
      else case HashLeaseFile env projectRoot of None \<Rightarrow> False | Some h \<Rightarrow> h = LeaseHash s)"

definition session_digest :: "EvalEnv \<Rightarrow> State \<Rightarrow> string" where
  "session_digest env s = sha256_hex (ee_MarshalState env (s\<lparr>SessionHash := []\<rparr>))"

definition VerifySessionIntegrity :: "EvalEnv \<Rightarrow> State \<Rightarrow> bool" where
  "VerifySessionIntegrity env s \<longleftrightarrow> SessionHash s \<noteq> [] \<and> session_digest env s = SessionHash s"

text \<open>\<open>Save\<close> stamps the schema version and the hash of the form without a hash.\<close>

definition Save :: "EvalEnv \<Rightarrow> State \<Rightarrow> State" where
  "Save env s =
    (let s1 = s\<lparr>SchemaVersion := SessionSchemaVersion\<rparr> in s1\<lparr>SessionHash := session_digest env s1\<rparr>)"

subsection \<open>Sentinel files\<close>

definition home_posture_files :: "string list" where
  "home_posture_files = [''.claude/settings.json'', ''.gemini/settings.json'', ''.codex/config.toml'',
     ''.codex/hooks.json'', ''.cursor/hooks.json'', ''.cursor/mcp.json'']"

definition ResolvePath :: "EvalEnv \<Rightarrow> string \<Rightarrow> string \<Rightarrow> string" where
  "ResolvePath env root relPath =
    (if filepath_IsAbs relPath then relPath
     else case he_UserHomeDir (ee_Hook env) of
            Some home \<Rightarrow> if relPath \<in> set home_posture_files then filepath_Join [home, relPath]
                         else filepath_Join [root, relPath]
          | None \<Rightarrow> filepath_Join [root, relPath])"

definition hashSentinelFile :: "EvalEnv \<Rightarrow> string \<Rightarrow> string \<Rightarrow> string" where
  "hashSentinelFile env root relPath =
    (case he_EvalSymlinks (ee_Hook env) (ResolvePath env root relPath) of
       None \<Rightarrow> []
     | Some real \<Rightarrow>
         (case read_file env real of
            None \<Rightarrow> []
          | Some data \<Rightarrow> sha256_hex (case ee_ManagedSubtree env relPath data of None \<Rightarrow> data | Some sub \<Rightarrow> sub)))"

definition HashSentinelFiles :: "EvalEnv \<Rightarrow> string \<Rightarrow> string list \<Rightarrow> string smap" where
  "HashSentinelFiles env root files = fold (\<lambda>f m. AList.update f (hashSentinelFile env root f) m) files []"

definition CompareSentinelHashes :: "string smap \<Rightarrow> string smap \<Rightarrow> string list" where
  "CompareSentinelHashes old new =
     map fst (filter (\<lambda>(file, h). case map_of new file of None \<Rightarrow> h \<noteq> [] | Some h' \<Rightarrow> h \<noteq> h') old)
     @ map fst (filter (\<lambda>(file, h). map_of old file = None \<and> h \<noteq> []) new)"

definition CheckPostureIntegrity :: "EvalEnv \<Rightarrow> string \<Rightarrow> State \<Rightarrow> Lease \<Rightarrow> string list" where
  "CheckPostureIntegrity env projectRoot s l =
     CompareSentinelHashes (PostureHashes s) (HashSentinelFiles env projectRoot (Ls_PostureFiles l))"

subsection \<open>Lemmas\<close>

text \<open>The comparison reports exactly the files whose hashes differ; a missing file has the
  empty hash.\<close>

lemma CompareSentinelHashes_iff:
  assumes "distinct (map fst old)" and "distinct (map fst new)"
  shows "f \<in> set (CompareSentinelHashes old new) \<longleftrightarrow> map_get [] old f \<noteq> map_get [] new f"
proof -
  have "f \<in> set (CompareSentinelHashes old new) \<longleftrightarrow>
      (\<exists>h. map_of old f = Some h \<and> (case map_of new f of None \<Rightarrow> h \<noteq> [] | Some h' \<Rightarrow> h \<noteq> h'))
      \<or> (\<exists>h. map_of new f = Some h \<and> map_of old f = None \<and> h \<noteq> [])"
    using assms by (force simp: CompareSentinelHashes_def image_iff)
  then show ?thesis by (auto simp: map_get_def split: option.splits)
qed

lemma length_sha256_hex [simp]: "length (sha256_hex data) = 64"
  by (simp add: sha256_hex_def)

lemma sha256_hex_nonempty [simp]: "sha256_hex data \<noteq> []"
  using length_sha256_hex [of data] by (metis list.size(3) zero_neq_numeral)

text \<open>What was saved verifies.\<close>

lemma saved_session_verifies: "VerifySessionIntegrity env (Save env s)"
  by (simp add: VerifySessionIntegrity_def Save_def Let_def session_digest_def)

end
