(* ===== verification/Signal_Collect.thy ===== *)
theory Signal_Collect
  imports Hooks_Lineage Kernel_Pipeline
begin

text \<open>
  Package \<open>pkg/signal\<close>: the hook call as a signal, the signals of registered providers, and
  what the policy request says about the actor.
\<close>

subsection \<open>The hook as a signal (\<open>collect.go\<close>)\<close>

definition actionTypeFromTool :: "string \<Rightarrow> string" where
  "actionTypeFromTool toolName =
    (if toolName = ''Bash'' then ''shell_exec''
     else if toolName = ''Read'' then ''file_read''
     else if toolName = ''Write'' \<or> toolName = ''Edit'' \<or> toolName = ''NotebookEdit'' then ''file_write''
     else if toolName = ''WebFetch'' then ''network_fetch''
     else if toolName = ''WebSearch'' then ''network_search''
     else if toolName = ''Agent'' then ''agent_delegation''
     else if toolName = ''Grep'' then ''file_read''
     else if toolName = ''Glob'' then ''file_list''
     else if strings_HasPrefix toolName ''mcp__'' then ''mcp_call''
     else ''tool_call'')"

definition isSensitiveCommand :: "string \<Rightarrow> bool" where
  "isSensitiveCommand cmd =
     list_ex (strings_Contains (strings_ToLower cmd))
       [''.aws'', ''.ssh'', ''.env'', ''credentials'', ''id_rsa'', ''id_ed25519'', ''secret'', ''token'', ''password'',
        ''passwd'', ''api_key'']"

definition isExternalNetwork :: "string \<Rightarrow> bool" where
  "isExternalNetwork cmd =
     list_ex (strings_Contains (strings_ToLower cmd))
       [''curl'', ''wget'', ''fetch'', ''http'', ''https'', ''ftp'', ''ssh '', ''scp '', ''rsync '']"

definition sensitivityForPath :: "string \<Rightarrow> string" where
  "sensitivityForPath path =
     (if list_ex (strings_Contains (strings_ToLower path))
           [''.env'', ''.aws/'', ''.ssh/'', ''.gnupg/'', ''credentials'', ''secrets'', ''.pem'', ''.key'', ''.p12'', ''.pfx'',
            ''id_rsa'', ''id_ed25519'']
      then ''credential'' else ''low'')"

definition truncate :: "string \<Rightarrow> nat \<Rightarrow> string" where
  "truncate s n = (if length s \<le> n then s else take n s @ [CHR 0xE2, CHR 0x80, CHR 0xA6])"

text \<open>Display text and sensitivity; an empty sensitivity becomes low.\<close>

definition classifyTarget :: "string \<Rightarrow> jsonobj \<Rightarrow> string \<times> string" where
  "classifyTarget toolName toolInput =
    (let str = jstring toolInput;
         none = ([], ''low'')
     in if toolName = ''Bash''
        then (case str ''command'' of
                None \<Rightarrow> none
              | Some cmd \<Rightarrow> (truncate cmd 200, if isSensitiveCommand cmd then ''credential''
                                            else if isExternalNetwork cmd then ''external_network'' else ''low''))
        else if toolName \<in> {''Read'', ''Grep'', ''Glob'', ''Write'', ''Edit''}
        then (case str ''file_path'' of None \<Rightarrow> none | Some path \<Rightarrow> (path, sensitivityForPath path))
        else if toolName = ''WebFetch'' \<or> toolName = ''WebSearch''
        then (case str ''url'' of
                Some u \<Rightarrow> (u, ''external_network'')
              | None \<Rightarrow> (case str ''query'' of Some q \<Rightarrow> (q, ''external_network'') | None \<Rightarrow> none))
        else if strings_HasPrefix toolName ''mcp__'' then (toolName, ''low'')
        else none)"

definition sourceKindForAgent :: "string \<Rightarrow> string" where
  "sourceKindForAgent agentID =
     (if agentID = ''claude'' then ''claude_hook''
      else if agentID = ''codex'' then ''codex_hook''
      else if agentID = ''gemini'' then ''gemini_hook'' else ''agent_hook'')"

definition hookSignalID :: "HookPayload \<Rightarrow> string" where
  "hookSignalID p =
     (if hp_ToolUseID p \<noteq> [] then ''hook-'' @ hp_ToolUseID p
      else ''hook-'' @ hp_SessionID p @ ''-'' @ hp_ToolName p)"

definition FromHookPayload :: "EvalEnv \<Rightarrow> HookPayload \<Rightarrow> Signal" where
  "FromHookPayload env p =
    (case classifyTarget (hp_ToolName p) (hp_ToolInput p) of
       (display, sensitivity) \<Rightarrow>
        \<lparr>Signal_SchemaVersion = SchemaSignalV0, Signal_SignalID = hookSignalID p,
         Signal_SignalTime = ee_TimeText env (ee_Now env),
         Signal_Source = \<lparr>Source_Kind = sourceKindForAgent (hp_AgentID p), Source_Reliability = ReliabilityDeclaredIntent,
           Source_Timing = TimingPreExec, Source_Provider = [], Source_ProviderVersion = []\<rparr>,
         Signal_Session = Some \<lparr>Session_TraceID = [], Session_SessionID = hp_SessionID p, Session_TurnID = [],
           Session_SpanID = hp_ToolUseID p\<rparr>,
         Signal_ActorClaim = Some \<lparr>Actor_Kind = (if hp_AgentID p = [] then ''human_developer'' else ''ai_coding_agent''),
           Actor_Name = hp_AgentID p, Actor_PID = 0, Actor_ProcessTree = []\<rparr>,
         Signal_ActionClaim =
           [(''type'', JString (actionTypeFromTool (hp_ToolName p))), (''tool_name'', JString (hp_ToolName p)),
            (''target'', JObject [(''display'', JString display), (''sensitivity'', JString sensitivity)]),
            (''raw_input'', JObject (hp_ToolInput p))],
         Signal_Metadata = []\<rparr>)"

subsection \<open>Signals of providers (\<open>invoke.go\<close>)\<close>

text \<open>\<open>json.Unmarshal\<close> into \<open>sdk.Signal\<close> is the environment's \<open>ee_DecodeSignal\<close>.\<close>

definition decode_signal_array :: "EvalEnv \<Rightarrow> string \<Rightarrow> Signal list option" where
  "decode_signal_array env line =
     (case json_parse line of Some (JArray vs) \<Rightarrow> those (map (ee_DecodeSignal env) vs) | _ \<Rightarrow> None)"

definition parseSignalOutput :: "EvalEnv \<Rightarrow> string \<Rightarrow> Signal list option" where
  "parseSignalOutput env out =
    (let line = strings_TrimSpace out in
     if line = [] then Some []
     else if strings_HasPrefix line ''['' then decode_signal_array env line
     else case Option.bind (json_parse line) (ee_DecodeSignal env) of
            None \<Rightarrow> None
          | Some sig \<Rightarrow> if Signal_SchemaVersion sig \<noteq> SchemaSignalV0 then None else Some [sig])"

definition invokeSignalProvider :: "EvalEnv \<Rightarrow> string \<Rightarrow> string \<Rightarrow> Signal list option" where
  "invokeSignalProvider env entrypoint eventJSON =
     (case ee_Run env entrypoint eventJSON of Inl _ \<Rightarrow> None | Inr (out, _) \<Rightarrow> parseSignalOutput env out)"

text \<open>Providers that fail are skipped.\<close>

definition invokeSignalProviders :: "EvalEnv \<Rightarrow> HookPayload \<Rightarrow> Signal list" where
  "invokeSignalProviders env payload =
     concat (List.map_filter (\<lambda>e. invokeSignalProvider env (pe_Entrypoint e) (ee_MarshalPayload env payload))
       (filter (\<lambda>e. pe_Enabled e \<and> pe_Kind e = KindSignal) (ee_SignalProviders env)))"

definition CollectSignals :: "EvalEnv \<Rightarrow> HookPayload \<Rightarrow> Signal list" where
  "CollectSignals env payload =
    (let hookSig = FromHookPayload env payload in
     NormalizeSignals ((if Signal_SignalID hookSig \<noteq> [] then [hookSig] else []) @ invokeSignalProviders env payload))"

definition EnforceabilityForSignals :: "Signal list \<Rightarrow> string" where
  "EnforceabilityForSignals signals =
     ER_Class (AnalyzeEnforceability
       \<lparr>EI_Mode = ModeHookGate, EI_Signals = signals, EI_ProviderCapabilities = [], EI_ProviderEnforcement = [],
        EI_EnforcedActions = [],
        EI_EvasionFlags = \<lparr>SpanStripped = False, SpanForged = False, DetachedChild = False, HookMissing = False,
          RequiredEffectUnavail = False, FailClosed = False\<rparr>\<rparr>)"

fun ActorKindFromSignals :: "Signal list \<Rightarrow> string" where
  "ActorKindFromSignals [] = ''unknown''"
| "ActorKindFromSignals (s # ss) =
     (case Signal_ActorClaim s of
        Some a \<Rightarrow> if Actor_Kind a \<noteq> [] then Actor_Kind a else ActorKindFromSignals ss
      | None \<Rightarrow> ActorKindFromSignals ss)"

subsection \<open>The hook always comes first\<close>

lemma CollectSignals_hook: "\<exists>rest. CollectSignals env payload = FromHookPayload env payload # rest"
  by (simp add: CollectSignals_def FromHookPayload_def hookSignalID_def sourceKindForAgent_def split: prod.split)

lemma hook_call_enforces: "EnforceabilityForSignals (CollectSignals env payload) = ClassEnforces"
proof -
  obtain rest where "CollectSignals env payload = FromHookPayload env payload # rest" using CollectSignals_hook by blast
  then show ?thesis
    by (simp add: EnforceabilityForSignals_def AnalyzeEnforceability_def mode_defs
          FromHookPayload_def split: prod.split)
qed

lemma actor_from_hook:
  "ActorKindFromSignals (CollectSignals env payload)
     = (if hp_AgentID payload = [] then ''human_developer'' else ''ai_coding_agent'')"
proof -
  obtain rest where "CollectSignals env payload = FromHookPayload env payload # rest" using CollectSignals_hook by blast
  then show ?thesis by (simp add: FromHookPayload_def split: prod.split)
qed

end
