(* ===== verification/Hooks_Policy.thy ===== *)
theory Hooks_Policy
  imports Signal_Collect Core_Properties Ledger
begin

text \<open>
  The decision of one tool call: the request to the engine (\<open>evaluate_core_request.go\<close>), the
  verdicts of advisory and policy providers (\<open>policy_providers.go\<close>), the authoritative provider
  (\<open>authoritative.go\<close>) and their order (\<open>evaluate_policy.go\<close>).
\<close>

subsection \<open>The request\<close>

definition leaseMode :: "Lease \<Rightarrow> string" where
  "leaseMode l = (if Ls_ObserveOnly l then ''observe'' else if Ls_Mode l \<noteq> [] then Ls_Mode l else ''guard'')"

definition leaseIsManaged :: "Lease \<Rightarrow> bool" where
  "leaseIsManaged l \<longleftrightarrow> Ls_Mode l = ''managed''"

definition sessionTaintList :: "State \<Rightarrow> string list" where
  "sessionTaintList s =
     (if SessionEverSecret s then [''credential_access''] else [])
     @ (if RecentlyReadUntrusted s then [''untrusted_content''] else [])
     @ (if TaintedMCPServers s \<noteq> [] then [''mcp_injection''] else [])"

definition marshalCoreLease :: "EvalEnv \<Rightarrow> Lease \<Rightarrow> string" where
  "marshalCoreLease env l = json_print (json_lease (ee_TimeText env) l)"

definition buildCoreRequest ::
  "EvalEnv \<Rightarrow> string \<Rightarrow> HookPayload \<Rightarrow> ToolIntent \<Rightarrow> Lease \<Rightarrow> State \<Rightarrow> Label \<Rightarrow> Request" where
  "buildCoreRequest env projectRoot payload intent l s labels =
     \<lparr>Req_Version = 0, Req_LeaseJSON = marshalCoreLease env l, Req_ToolName = hp_ToolName payload,
      Req_Intent =
        \<lparr>I_Verb = ti_Verb intent, I_Target = ti_Target intent, I_Labels = [labels],
         I_DerivedLabels = derivedLabelsForIntent env projectRoot payload intent s,
         I_IsPosture = ti_IsPosture intent, I_IsSensitive = ti_IsSensitive intent, I_IsTripwire = False,
         I_IsDelegation = (hp_ToolName payload = ''Agent'')\<rparr>,
      Req_Session =
        \<lparr>SI_SecretSession = SecretSession s, SI_WasSecret = SessionEverSecret s,
         SI_RecentlyReadUntrusted = RecentlyReadUntrusted s, SI_UntrustedContentThisTurn = UntrustedContentThisTurn s,
         SI_DenyAll = DenyAll s, SI_ApprovalScope = ApprovalScope s, SI_TurnCounter = TurnCounter s\<rparr>,
      Req_PolicyVerdicts = [], forbiddenParsed = False, forbiddenParseErr = False, forbiddenVerbCache = []\<rparr>"

definition policy_request ::
  "HookPayload \<Rightarrow> Signal list \<Rightarrow> ToolIntent \<Rightarrow> Lease \<Rightarrow> State \<Rightarrow> PolicyRequest" where
  "policy_request payload signals intent l s =
    (let kind = ActorKindFromSignals signals in
     \<lparr>PR_Action = ti_Verb intent, PR_Target = ti_Target intent,
      PR_ResolvedActor = (if kind = ''unknown'' \<and> hp_AgentID payload \<noteq> [] then ''ai_coding_agent'' else kind),
      PR_AttributionConf = AttributionConfidence signals, PR_Taint = sessionTaintList s,
      PR_Enforceability = EnforceabilityForSignals signals, PR_Mode = leaseMode l,
      PR_SessionSecret = SecretSession s, PR_SessionWasSecret = SessionEverSecret s,
      PR_SessionUntrustedRead = RecentlyReadUntrusted s, PR_SessionUntrustedThisTurn = UntrustedContentThisTurn s\<rparr>)"

subsection \<open>Advisory verdicts (\<open>policy_providers.go\<close>)\<close>

definition failure_status :: "string \<Rightarrow> string" where
  "failure_status reason =
    (let has = strings_Contains reason in
     if has ''timed out'' \<or> has ''deadline exceeded'' then ''timeout''
     else if has ''executable file not found'' \<or> has ''no such file'' \<or> has ''not found'' then ''unavailable''
     else if has ''unmarshal'' \<or> has ''invalid JSON'' \<or> has ''wrong schema'' then ''invalid_output''
     else ''failed'')"

definition providerFailure :: "string \<Rightarrow> string \<Rightarrow> ProviderFailure" where
  "providerFailure name err =
     \<lparr>PF_Provider = name, PF_Kind = KindPolicy, PF_Status = failure_status err, PF_Reason = err,
      PF_Behavior = ''ignored; native policy used'', PF_TimedOut = (failure_status err = ''timeout'')\<rparr>"

definition adopt_verdict :: "ProviderEntry \<Rightarrow> PolicyVerdict \<Rightarrow> PolicyVerdict" where
  "adopt_verdict e v =
     v\<lparr>PV_Provider := (if PV_Provider v = [] then pe_Name e else PV_Provider v), PV_IsAdvisory := True\<rparr>"

fun ask_policies ::
  "(ProviderEntry \<Rightarrow> string + PolicyVerdict list) \<Rightarrow> ProviderEntry list \<Rightarrow> PolicyVerdict list \<times> ProviderFailure list" where
  "ask_policies ask_provider [] = ([], [])"
| "ask_policies ask_provider (e # es) =
    (let (vs, fs) = ask_policies ask_provider es in
     if IsAuthoritative e then (vs, fs)
     else case ask_provider e of
            Inl err \<Rightarrow> (vs, providerFailure (pe_Name e) err # fs)
          | Inr verdicts \<Rightarrow> (map (adopt_verdict e) verdicts @ vs, fs))"

fun ask_advisors ::
  "(ProviderEntry \<Rightarrow> string + provider_AdvisoryRisk option) \<Rightarrow> ProviderEntry list \<Rightarrow> provider_AdvisoryRisk list \<times> ProviderFailure list" where
  "ask_advisors ask_provider [] = ([], [])"
| "ask_advisors ask_provider (e # es) =
    (let (rs, fs) = ask_advisors ask_provider es in
     case ask_provider e of
       Inl err \<Rightarrow> (rs, (providerFailure (pe_Name e) err)\<lparr>PF_Kind := KindAdvisory\<rparr> # fs)
     | Inr None \<Rightarrow> (rs, fs)
     | Inr (Some risk) \<Rightarrow> (risk # rs, fs))"

definition collectAdvisoryVerdicts ::
  "provider_run \<Rightarrow> PolicyRequest \<Rightarrow> Registry \<Rightarrow> PolicyVerdict list \<times> ProviderFailure list" where
  "collectAdvisoryVerdicts run req reg =
    (let (risks, failures) = ask_advisors (\<lambda>e. InvokeAdvisory run e req) (Active reg KindAdvisory) in
     case HighestAdvisoryRisk risks of
       None \<Rightarrow> ([], failures)
     | Some worst \<Rightarrow>
         if ad_Level worst = ''low'' \<or> ad_Level worst = ''medium'' then ([], failures)
         else ([\<lparr>PV_Provider = ad_Provider worst, PV_Verdict = ''ask'',
                 PV_RulesMatched = [''advisory-'' @ ad_Level worst @ ''-risk''], PV_Reason = ad_Reason worst,
                 PV_IsAdvisory = True\<rparr>], failures))"

definition collectPolicyVerdicts ::
  "provider_run \<Rightarrow> Registry \<Rightarrow> PolicyRequest \<Rightarrow> PolicyVerdict list \<times> ProviderFailure list" where
  "collectPolicyVerdicts run reg req =
    (let (verdicts, failures) = ask_policies (\<lambda>e. invokePolicy run e req) (Active reg KindPolicy);
         (advisory, advisoryFailures) = collectAdvisoryVerdicts run req reg
     in (NativePolicy_Evaluate req @ verdicts @ advisory, failures @ advisoryFailures))"

subsection \<open>The authoritative provider (\<open>authoritative.go\<close>)\<close>

record authoritativeOutcome =
  ao_Provider :: string
  ao_Verdict :: string
  ao_FailClosed :: bool
  ao_Reason :: string
  ao_RulesMatched :: "string list"

definition activeAuthoritativePolicyProvider :: "Registry \<Rightarrow> ProviderEntry option" where
  "activeAuthoritativePolicyProvider reg = find IsAuthoritative (Active reg KindPolicy)"

definition verdictRank :: "Verdict \<Rightarrow> int" where
  "verdictRank v =
     (if v = VerdictAllow then 0 else if v = VerdictAsk then 1 else if v = VerdictDeny then 2 else 3)"

definition failClosedAction :: "string \<Rightarrow> string" where
  "failClosedAction verdict =
     (if verdict = OnFailureDeny then ''blocked (fail closed)'' else ''held for approval (fail closed)'')"

definition failed_outcome :: "ProviderEntry \<Rightarrow> bool \<Rightarrow> string \<Rightarrow> authoritativeOutcome" where
  "failed_outcome entry managedMode reason =
    (let verdict = (if managedMode then OnFailureDeny else FailureVerdict entry) in
     \<lparr>ao_Provider = pe_Name entry, ao_Verdict = verdict, ao_FailClosed = True,
      ao_Reason = ''authoritative policy provider '' @ strconv_Quote (pe_Name entry)
        @ '' did not return a usable decision ('' @ reason @ '') '' @ em_dash @ '' '' @ failClosedAction verdict,
      ao_RulesMatched = []\<rparr>)"

text \<open>The most restrictive verdict wins; a word that is no verdict is a failure.\<close>

fun reduce_verdicts ::
  "PolicyVerdict list \<Rightarrow> Verdict \<Rightarrow> string list \<Rightarrow> string \<Rightarrow> string + Verdict \<times> string list \<times> string" where
  "reduce_verdicts [] final rules reason = Inr (final, rules, reason)"
| "reduce_verdicts (v # vs) final rules reason =
     (let pv = PV_Verdict v in
      if pv \<noteq> VerdictAllow \<and> pv \<noteq> VerdictAsk \<and> pv \<noteq> VerdictDeny
      then Inl (''unrecognized verdict '' @ strconv_Quote pv)
      else reduce_verdicts vs (if verdictRank pv > verdictRank final then pv else final)
             (rules @ PV_RulesMatched v) (if PV_Reason v \<noteq> [] then PV_Reason v else reason))"

definition resolveAuthoritative ::
  "provider_run \<Rightarrow> ProviderEntry \<Rightarrow> PolicyRequest \<Rightarrow> bool \<Rightarrow> authoritativeOutcome" where
  "resolveAuthoritative run entry req managedMode =
     (case invokePolicy run entry req of
        Inl err \<Rightarrow> failed_outcome entry managedMode err
      | Inr [] \<Rightarrow> failed_outcome entry managedMode ''empty response (no verdict)''
      | Inr (v # vs) \<Rightarrow>
          (case reduce_verdicts (v # vs) VerdictAllow [] [] of
             Inl why \<Rightarrow> failed_outcome entry managedMode why
           | Inr (final, rules, reason) \<Rightarrow>
               \<lparr>ao_Provider = pe_Name entry, ao_Verdict = final, ao_FailClosed = False, ao_Reason = reason,
                ao_RulesMatched = rules\<rparr>))"

definition authoritativeReason :: "authoritativeOutcome \<Rightarrow> string" where
  "authoritativeReason out =
     (if ao_Verdict out = VerdictAllow then ''Allowed by authoritative policy provider ''
      else if ao_Verdict out = VerdictDeny then ''Denied by authoritative policy provider ''
      else ''Approval required by authoritative policy provider '')
     @ strconv_Quote (ao_Provider out) @ ''.''"

subsection \<open>The decision (\<open>evaluate_policy.go\<close>)\<close>

text \<open>What the evaluation leaves for the ledger.\<close>

record ProviderEvaluation =
  pv_Verdicts :: "PolicyVerdict list"
  pv_Failures :: "ProviderFailure list"
  pv_Base :: string
  pv_Authoritative :: "ProviderVerdictRecord option"

definition no_evaluation :: ProviderEvaluation where
  "no_evaluation = \<lparr>pv_Verdicts = [], pv_Failures = [], pv_Base = [], pv_Authoritative = None\<rparr>"

definition registry_or_empty :: "EvalEnv \<Rightarrow> Registry" where
  "registry_or_empty env = (case ee_Registry env of Inl _ \<Rightarrow> emptyRegistry | Inr reg \<Rightarrow> reg)"

text \<open>The engine's answer with the advisory verdicts, and the answer it gives without them
  when the first one asks.\<close>

definition native_decision ::
  "EvalEnv \<Rightarrow> Request \<Rightarrow> PolicyVerdict list \<Rightarrow> decode_error + Response" where
  "native_decision env req verdicts =
    (case core_Evaluate (ee_Core env) (req\<lparr>Req_PolicyVerdicts := verdicts\<rparr>) None of
       (Inl err, _) \<Rightarrow> Inl err
     | (Inr resp, cache) \<Rightarrow>
         let base = (if verdicts \<noteq> [] \<and> Resp_Decision resp = VerdictAsk
                     then (case fst (core_Evaluate (ee_Core env) (req\<lparr>Req_PolicyVerdicts := []\<rparr>) cache) of
                             Inr b \<Rightarrow> Resp_Decision b | Inl _ \<Rightarrow> Resp_Decision resp)
                     else Resp_Decision resp)
         in Inr (resp\<lparr>Resp_BaseVerdict := base\<rparr>))"

definition corrupt_registry_reason :: string where
  "corrupt_registry_reason =
     ''Provider registry is corrupt or unreadable '' @ em_dash
     @ '' held for safety (fail closed). Run `sir doctor`.''"

definition corrupt_registry :: "Lease \<Rightarrow> Response \<Rightarrow> Response \<times> ProviderVerdictRecord" where
  "corrupt_registry l resp =
    (let verdict = (if leaseIsManaged l then VerdictDeny else VerdictAsk) in
     (resp\<lparr>Resp_AuthoritativeActive := True, Resp_AuthoritativeFailClosed := True,
           Resp_AuthoritativeProvider := ''(registry)'', Resp_AuthoritativeNativeBase := Resp_Decision resp,
           Resp_BaseVerdict := Resp_Decision resp, Resp_Decision := verdict,
           Resp_Reason := corrupt_registry_reason\<rparr>,
      \<lparr>PVR_Provider = ''(registry)'', PVR_Verdict = verdict, PVR_RulesMatched = [],
       PVR_Reason = corrupt_registry_reason, PVR_Used = True, PVR_Authoritative = True,
       PVR_NativeBaseVerdict = Resp_Decision resp, PVR_FloorsBypassed = False, PVR_FailClosed = True\<rparr>))"

definition authoritative_override :: "authoritativeOutcome \<Rightarrow> Response \<Rightarrow> Response \<times> ProviderVerdictRecord" where
  "authoritative_override out resp =
    (resp\<lparr>Resp_AuthoritativeActive := True, Resp_AuthoritativeProvider := ao_Provider out,
          Resp_AuthoritativeNativeBase := Resp_Decision resp,
          Resp_AuthoritativeFloorsBypassed := \<not> ao_FailClosed out,
          Resp_AuthoritativeFailClosed := ao_FailClosed out, Resp_BaseVerdict := Resp_Decision resp,
          Resp_Reason := (if ao_Reason out \<noteq> [] then ao_Reason out else authoritativeReason out),
          Resp_Decision := ao_Verdict out\<rparr>,
     \<lparr>PVR_Provider = ao_Provider out, PVR_Verdict = ao_Verdict out, PVR_RulesMatched = ao_RulesMatched out,
      PVR_Reason = ao_Reason out, PVR_Used = True, PVR_Authoritative = True,
      PVR_NativeBaseVerdict = Resp_Decision resp, PVR_FloorsBypassed = (\<not> ao_FailClosed out),
      PVR_FailClosed = ao_FailClosed out\<rparr>)"

definition override ::
  "EvalEnv \<Rightarrow> PolicyRequest \<Rightarrow> Lease \<Rightarrow> Response \<Rightarrow> Response \<times> ProviderVerdictRecord option" where
  "override env policyReq l resp =
    (case ee_Registry env of
       Inl _ \<Rightarrow> map_prod id Some (corrupt_registry l resp)
     | Inr reg \<Rightarrow>
         (case activeAuthoritativePolicyProvider reg of
            None \<Rightarrow> (resp, None)
          | Some entry \<Rightarrow>
              map_prod id Some (authoritative_override
                (resolveAuthoritative (ee_Run env) entry policyReq (leaseIsManaged l)) resp)))"

definition evaluatePolicy ::
  "EvalEnv \<Rightarrow> string \<Rightarrow> HookPayload \<Rightarrow> Signal list \<Rightarrow> ToolIntent \<Rightarrow> Lease \<Rightarrow> State \<Rightarrow> Label
    \<Rightarrow> decode_error + Response \<times> ProviderEvaluation" where
  "evaluatePolicy env projectRoot payload signals intent l s labels =
    (let policyReq = policy_request payload signals intent l s;
         (verdicts, failures) = collectPolicyVerdicts (ee_Run env) (registry_or_empty env) policyReq
     in case native_decision env (buildCoreRequest env projectRoot payload intent l s labels) verdicts of
          Inl err \<Rightarrow> Inl err
        | Inr native \<Rightarrow>
            let escalatedBase = (if Resp_BaseVerdict native \<noteq> Resp_Decision native then Resp_BaseVerdict native else []);
                (resp, auth) = override env policyReq l native
            in Inr (resp\<lparr>Resp_ProviderVerdicts := verdicts, Resp_ProviderFailures := failures\<rparr>,
                    \<lparr>pv_Verdicts = verdicts, pv_Failures = failures, pv_Base = escalatedBase,
                     pv_Authoritative = auth\<rparr>))"

end
