(* ===== verification/Hooks_Floors.thy ===== *)
theory Hooks_Floors
  imports Posture_Hashes Hooks_Policy
begin

text \<open>
  The small gates and guards of the decision path: observe mode (\<open>observe.go\<close>), the guard
  for extended thinking (\<open>thinking_guard.go\<close>), writes to sir's own state and to git's
  configuration (\<open>config_vector_floors.go\<close>), values that leave verbatim
  (\<open>secret_fingerprint.go\<close>), harmless environment reads (\<open>env_narrow.go\<close>) and the
  context in which questions may be skipped (\<open>auto_lease.go\<close>).

  A response carries its decision and whether observe mode must keep it; the text shown to
  the user is not modelled.
\<close>

record HookResponse =
  hr_Decision :: Verdict
  hr_Floor :: bool

definition hook_response :: "Verdict \<Rightarrow> HookResponse" where
  "hook_response d = \<lparr>hr_Decision = d, hr_Floor = False\<rparr>"

definition floor_response :: "Verdict \<Rightarrow> HookResponse" where
  "floor_response d = \<lparr>hr_Decision = d, hr_Floor = True\<rparr>"

subsection \<open>Observe mode\<close>

definition observeRecordedDecision :: "Verdict \<Rightarrow> string" where
  "observeRecordedDecision d =
     (if d = VerdictDeny then ''would_deny''
      else if d = VerdictAsk then ''would_ask''
      else if d = VerdictAllow then ''would_allow'' else d)"

definition recordedDecisionFor :: "Lease \<Rightarrow> Verdict \<Rightarrow> string" where
  "recordedDecisionFor l d = (if Ls_ObserveOnly l then observeRecordedDecision d else d)"

definition applyObserveMode :: "HookResponse \<Rightarrow> HookResponse" where
  "applyObserveMode resp =
     (if hr_Floor resp then resp
      else if hr_Decision resp = VerdictDeny \<or> hr_Decision resp = VerdictAsk
      then resp\<lparr>hr_Decision := VerdictAllow\<rparr> else resp)"

subsection \<open>Extended thinking\<close>

definition settingsFileEnablesThinking :: "EvalEnv \<Rightarrow> string \<Rightarrow> bool" where
  "settingsFileEnablesThinking env path =
     (case read_file env path of
        None \<Rightarrow> False
      | Some data \<Rightarrow> (case unmarshal_field decode_bool False ''alwaysThinkingEnabled'' data of
                        None \<Rightarrow> False | Some b \<Rightarrow> b))"

definition settingsThinkingEnabled :: "EvalEnv \<Rightarrow> string \<Rightarrow> bool" where
  "settingsThinkingEnabled env cwd =
     list_ex (settingsFileEnablesThinking env)
       ((if cwd = [] then []
         else [filepath_Join [cwd, ''.claude'', ''settings.local.json''], filepath_Join [cwd, ''.claude'', ''settings.json'']])
        @ (case he_UserHomeDir (ee_Hook env) of
             Some home \<Rightarrow> if home = [] then [] else [filepath_Join [home, ''.claude'', ''settings.json'']]
           | None \<Rightarrow> []))"

definition thinkingTranscriptTailBytes :: nat where
  "thinkingTranscriptTailBytes = 1048576"

definition thinkingBlockMarkers :: "string list" where
  "thinkingBlockMarkers =
    (let q = [CHR 0x22] in
     concat (map (\<lambda>kind. [q @ ''type'' @ q @ '':'' @ q @ kind @ q, q @ ''type'' @ q @ '': '' @ q @ kind @ q])
       [''thinking'', ''redacted_thinking'']))"

definition transcriptHasThinking :: "EvalEnv \<Rightarrow> string \<Rightarrow> bool" where
  "transcriptHasThinking env path =
    (if path = [] then False
     else case read_file env path of
            None \<Rightarrow> False
          | Some data \<Rightarrow>
              list_ex (strings_Contains (drop (length data - thinkingTranscriptTailBytes) data)) thinkingBlockMarkers)"

definition claudeThinkingActive :: "EvalEnv \<Rightarrow> HookPayload \<Rightarrow> bool" where
  "claudeThinkingActive env payload \<longleftrightarrow>
     settingsThinkingEnabled env (hp_CWD payload) \<or> transcriptHasThinking env (hp_TranscriptPath payload)"

text \<open>The adapter of the host is given by its identifier; \<open>None\<close> when there is none.\<close>

definition thinkingDegradeActive :: "EvalEnv \<Rightarrow> string option \<Rightarrow> HookPayload \<Rightarrow> bool" where
  "thinkingDegradeActive env ag payload \<longleftrightarrow> ag = Some ''claude'' \<and> claudeThinkingActive env payload"

definition applyThinkingGuard :: "bool \<Rightarrow> HookResponse \<Rightarrow> HookResponse" where
  "applyThinkingGuard degrade resp =
     (if \<not> degrade \<or> hr_Decision resp \<noteq> VerdictAsk then resp else resp\<lparr>hr_Decision := VerdictDeny\<rparr>)"

definition thinkingDegradedLedgerDecision :: "State \<Rightarrow> Verdict \<Rightarrow> Verdict" where
  "thinkingDegradedLedgerDecision s d = (if ThinkingGuardActive s \<and> d = VerdictAsk then VerdictDeny else d)"

subsection \<open>Writes to sir's own state\<close>

definition sirStateTamper :: "HookEnv \<Rightarrow> ToolIntent \<Rightarrow> string \<Rightarrow> bool" where
  "sirStateTamper e intent projectRoot =
    (let sirDir = (case he_UserHomeDir e of
                     Some home \<Rightarrow> if home = [] then [] else ResolveTarget e projectRoot (filepath_Join [home, ''.sir''])
                   | None \<Rightarrow> []);
         tampers = (\<lambda>raw. let t = strings_TrimSpace raw; real = ResolveTarget e projectRoot t in
           t \<noteq> [] \<and>
           ((sirDir \<noteq> [] \<and> (real = sirDir \<or> strings_HasPrefix real (sirDir @ ''/'')))
            \<or> filepath_Base t = ''sir.yaml'' \<or> strings_Contains t ''sir-posture''))
     in (ti_Verb intent = VerbStageWrite \<or> ti_Verb intent = VerbDeletePosture)
        \<and> list_ex tampers (strings_SplitByte (ti_Target intent) (CHR '','')))"

subsection \<open>Git configuration\<close>

definition gitSensitiveConfigKeys :: "string list" where
  "gitSensitiveConfigKeys = [''credential.helper'', ''core.hookspath'']"

fun inline_config :: "string list \<Rightarrow> bool" where
  "inline_config (tok # kv # tokens) =
    ((tok = ''-c'' \<and> (case strings_Index kv ''='' of
                         Some eq \<Rightarrow> eq > 0 \<and> slice_contains gitSensitiveConfigKeys (take eq kv)
                       | None \<Rightarrow> False))
     \<or> inline_config (kv # tokens))"
| "inline_config _ = False"

fun config_set :: "bool \<Rightarrow> string list \<Rightarrow> bool" where
  "config_set writeFlag [] = False"
| "config_set writeFlag (tok # tokens) =
    ((slice_contains gitSensitiveConfigKeys tok
      \<and> ((tokens \<noteq> [] \<and> \<not> strings_HasPrefix (hd tokens) ''-'') \<or> writeFlag))
     \<or> config_set writeFlag tokens)"

definition containsAnyCV :: "string list \<Rightarrow> string list \<Rightarrow> bool" where
  "containsAnyCV tokens wants = list_ex (slice_contains tokens) wants"

definition gitConfigSensitiveAsk :: "HookPayload \<Rightarrow> ToolIntent \<Rightarrow> bool" where
  "gitConfigSensitiveAsk payload intent =
    (let cmd = jstring_or_empty (hp_ToolInput payload) ''command'';
         norm = strings_ToLower (NormalizeCommand cmd);
         tokens = strings_Fields norm
     in hp_ToolName payload = ''Bash''
        \<and> \<not> VerbRisk (ti_Verb intent) > VerbRisk VerbExecuteDryRun
        \<and> strings_TrimSpace cmd \<noteq> [] \<and> strings_Contains norm ''git''
        \<and> (inline_config tokens
           \<or> (slice_contains tokens ''config''
              \<and> \<not> containsAnyCV tokens [''--get'', ''--get-all'', ''--get-regexp'', ''--list'', ''-l'']
              \<and> config_set (containsAnyCV tokens [''--add'', ''--replace-all'', ''--global'', ''--local'', ''--system'', ''--file''])
                  tokens)))"

subsection \<open>Secrets that leave\<close>

definition isOutboundVerb :: "Verb \<Rightarrow> bool" where
  "isOutboundVerb v \<longleftrightarrow> v = VerbNetExternal \<or> v = VerbNetAllowlisted \<or> v = VerbDnsLookup \<or> v = VerbPushOrigin
     \<or> v = VerbPushRemote \<or> v = VerbStageWrite \<or> v = VerbCommit"

definition outbound_keys :: "string list" where
  "outbound_keys = [''command'', ''content'', ''new_string'', ''body'', ''data'', ''input'', ''text'', ''value'']"

fun outbound_text :: "jsonobj \<Rightarrow> string list \<Rightarrow> string \<Rightarrow> string" where
  "outbound_text toolInput [] b = b"
| "outbound_text toolInput (key # keys) b =
    (case jstring toolInput key of
       None \<Rightarrow> outbound_text toolInput keys b
     | Some v \<Rightarrow>
         if v = [] then outbound_text toolInput keys b
         else let b' = b @ v @ newline in
              if length b' \<ge> 262144 then take 262144 b' else outbound_text toolInput keys b')"

definition outboundPayloadText :: "HookPayload \<Rightarrow> string" where
  "outboundPayloadText payload = outbound_text (hp_ToolInput payload) outbound_keys []"

definition outboundSecretLeak :: "EvalEnv \<Rightarrow> HookPayload \<Rightarrow> ToolIntent \<Rightarrow> State \<Rightarrow> bool" where
  "outboundSecretLeak env payload intent s =
    (let fps = SecretFingerprintsCopy s; salt = FingerprintSaltBytes s; body = outboundPayloadText payload in
     isOutboundVerb (ti_Verb intent) \<and> fps \<noteq> [] \<and> salt \<noteq> [] \<and> body \<noteq> [] \<and> PayloadLeaksSecret (ee_IsPrint env) body (map (\<lambda>(h, n). \<lparr>sf_Hash = h, sf_Len = n\<rparr>) fps) salt \<noteq> None)"

definition dnsTunnelEscalation :: "ToolIntent \<Rightarrow> bool" where
  "dnsTunnelEscalation intent =
    (if ti_Verb intent = VerbDnsLookup then IsDNSTunnelHost (ExtractNetworkDest (ti_Target intent))
     else if ti_Verb intent = VerbNetExternal \<or> ti_Verb intent = VerbNetAllowlisted
     then IsDNSTunnelHost (ti_Target intent) else False)"

subsection \<open>Questions that may be skipped\<close>

definition safeEnvVars :: "string list" where
  "safeEnvVars = [''PATH'', ''HOME'', ''PWD'', ''OLDPWD'', ''SHELL'', ''USER'', ''LOGNAME'', ''HOSTNAME'', ''HOST'', ''LANG'',
     ''LANGUAGE'', ''LC_ALL'', ''LC_CTYPE'', ''TERM'', ''TERM_PROGRAM'', ''COLORTERM'', ''TMPDIR'', ''TMP'', ''TEMP'', ''EDITOR'',
     ''VISUAL'', ''PAGER'', ''DISPLAY'', ''TZ'', ''COLUMNS'', ''LINES'', ''GOPATH'', ''GOROOT'']"

definition singleSafeEnvVarRead :: "string \<Rightarrow> string option" where
  "singleSafeEnvVarRead command =
     (case strings_Fields (strings_TrimSpace command) of
        [prog, name] \<Rightarrow>
          if filepath_Base prog \<noteq> ''printenv'' then None
          else if strings_HasPrefix name ''-'' then None
          else if slice_contains safeEnvVars name then Some name else None
      | _ \<Rightarrow> None)"

definition isAutoLeaseableEgress :: "Verb \<Rightarrow> bool" where
  "isAutoLeaseableEgress v \<longleftrightarrow> v = VerbNetExternal \<or> v = VerbMcpNetworkUnapproved"

definition autoLeaseSafeContext :: "State \<Rightarrow> bool" where
  "autoLeaseSafeContext s \<longleftrightarrow>
     \<not> SecretSession s \<and> \<not> PendingInjectionAlert s \<and> \<not> RecentlyReadUntrusted s \<and> \<not> UntrustedContentThisTurn s
     \<and> (Posture s = [] \<or> Posture s = PostureStateNormal) \<and> TaintedMCPServers s = []"

definition url_byte :: "char \<Rightarrow> bool" where
  "url_byte c \<longleftrightarrow> \<not> re_space c \<and> c \<notin> {CHR 0x27, CHR 0x22, CHR 0x60}"

definition hostRE :: regex where
  "hostRE =
    [Either
       [Lit ''http'', Run (\<lambda>c. c = CHR ''s'') 0 (Some 1), Lit ''://'', Run url_byte 1 None]
       [Boundary, Run re_alnum 1 (Some 1), Run (\<lambda>c. re_alnum c \<or> c = CHR ''.'' \<or> c = CHR ''-'') 0 None,
        Lit ''.'', Run (\<lambda>c. re_lower c \<or> re_upper c) 1 (Some 1), Run (\<lambda>c. re_alnum c \<or> c = CHR ''-'') 0 None,
        Either [Lit '':'', Run re_digit 1 None] [], Boundary]]"

definition ExtractHostForMessage :: "string \<Rightarrow> string option" where
  "ExtractHostForMessage dest =
    (let m = FindString hostRE (strings_TrimSpace dest) in
     if strings_TrimSpace dest = [] \<or> m = [] \<or> strings_ContainsAny m ''%{}'' then None
     else if strings_HasPrefix m ''http://'' \<or> strings_HasPrefix m ''https://''
     then (case url_Parse m of Some u \<Rightarrow> if u_Host u \<noteq> [] then Some (u_Host u) else Some m | None \<Rightarrow> Some m)
     else Some m)"

definition maybeMarkAutoLeasePending :: "EvalEnv \<Rightarrow> Lease \<Rightarrow> ToolIntent \<Rightarrow> Verdict \<Rightarrow> State \<Rightarrow> State" where
  "maybeMarkAutoLeasePending env l intent decision s =
    (if \<not> Ls_AutoLeaseApprovedHosts l \<or> decision \<noteq> VerdictAsk then s
     else if \<not> isAutoLeaseableEgress (ti_Verb intent) \<or> \<not> autoLeaseSafeContext s then s
     else case ExtractHostForMessage (ti_Target intent) of
            None \<Rightarrow> s
          | Some host \<Rightarrow> MarkPendingAutoLease (ee_Now env) host s)"

end
