(* ===== verification/Hooks_Preflight.thy ===== *)
theory Hooks_Preflight
  imports Hooks_Floors
begin

text \<open>
  The gates before the policy decision (\<open>evaluate_state.go\<close>, \<open>evaluate_preflight.go\<close>,
  \<open>evaluate_mcp_scope.go\<close>, \<open>secret_read_gate.go\<close>, \<open>evaluate_install.go\<close>,
  \<open>supply_chain.go\<close>, the settings of \<open>pkg/config\<close> and the command hashes of
  \<open>pkg/mcp\<close>). A gate answers with a response, or lets the call pass; it returns the session
  as it leaves it and the records it hands to the ledger.
\<close>

subsection \<open>Records for the ledger\<close>

text \<open>The fields of a ledger entry that say what was decided; texts, previews, evidence and
  latency are left out.\<close>

record AuditRecord =
  ar_ToolName :: string
  ar_Verb :: string
  ar_Target :: string
  ar_Label :: Label
  ar_Decision :: string
  ar_Severity :: string
  ar_AlertType :: string
  ar_DetectionID :: string
  ar_DetectionRoute :: string
  ar_SignalIDs :: "string list"
  ar_BaseVerdict :: string
  ar_ProviderVerdicts :: "ProviderVerdictRecord list"
  ar_ProviderFailures :: "ProviderFailure list"

definition no_label :: Label where
  "no_label = core_label [] [] []"

definition audit :: "HookPayload \<Rightarrow> string \<Rightarrow> string \<Rightarrow> string \<Rightarrow> AuditRecord" where
  "audit payload verb target decision =
     \<lparr>ar_ToolName = hp_ToolName payload, ar_Verb = verb, ar_Target = target, ar_Label = no_label,
      ar_Decision = decision, ar_Severity = [], ar_AlertType = [], ar_DetectionID = [], ar_DetectionRoute = [],
      ar_SignalIDs = [], ar_BaseVerdict = [], ar_ProviderVerdicts = [], ar_ProviderFailures = []\<rparr>"

definition alert_audit :: "HookPayload \<Rightarrow> string \<Rightarrow> string \<Rightarrow> string \<Rightarrow> string \<Rightarrow> string \<Rightarrow> AuditRecord" where
  "alert_audit payload verb target decision severity alert =
     (audit payload verb target decision)\<lparr>ar_Severity := severity, ar_AlertType := alert\<rparr>"

type_synonym gate = "HookResponse option \<times> State \<times> AuditRecord list"

definition pass :: "State \<Rightarrow> gate" where
  "pass s = (None, s, [])"

subsection \<open>Integrity and deny-all (\<open>evaluate_state.go\<close>)\<close>

definition evaluateSessionIntegrityGuard :: "EvalEnv \<Rightarrow> State \<Rightarrow> gate" where
  "evaluateSessionIntegrityGuard env s =
     (if VerifySessionIntegrity env s then pass s
      else (Some (hook_response VerdictDeny), Save env (SetDenyAll ''session.json modified outside sir'' s), []))"

definition evaluateDenyAllGuard :: "EvalEnv \<Rightarrow> State \<Rightarrow> gate" where
  "evaluateDenyAllGuard env s =
     (if \<not> DenyAll s then pass s else (Some (hook_response VerdictDeny), Save env s, []))"

text \<open>The text of the pending alert, which is consumed.\<close>

definition consumePendingInjectionAlert :: "EvalEnv \<Rightarrow> State \<Rightarrow> string \<times> State" where
  "consumePendingInjectionAlert env s =
     (if \<not> PendingInjectionAlert s then ([], s)
      else (InjectionAlertDetail s, Save env (ClearPendingInjectionAlert s)))"

definition evaluateLeaseIntegrityGuard :: "EvalEnv \<Rightarrow> string \<Rightarrow> State \<Rightarrow> gate" where
  "evaluateLeaseIntegrityGuard env projectRoot s =
     (if VerifyLeaseIntegrity env projectRoot s then pass s
      else (Some (hook_response VerdictDeny),
            Save env (SetDenyAll ''lease.json modified outside approved write'' s), []))"

definition delegationRequiresApproval :: "State \<Rightarrow> bool" where
  "delegationRequiresApproval s =
     (if SecretSession s then False
      else if PendingInjectionAlert s then True
      else if Posture s = PostureStateElevated \<or> Posture s = PostureStateCritical then True
      else TaintedMCPServers s \<noteq> [])"

definition evaluateDelegationHardDeny :: "EvalEnv \<Rightarrow> ToolIntent \<Rightarrow> Lease \<Rightarrow> State \<Rightarrow> gate" where
  "evaluateDelegationHardDeny env intent l s =
     (if ti_Verb intent \<noteq> VerbDelegate then pass s
      else if SecretSession s then (Some (hook_response VerdictDeny), Save env s, [])
      else if \<not> Ls_AllowDelegation l then (Some (hook_response VerdictDeny), Save env s, [])
      else pass s)"

subsection \<open>MCP credentials, taint and scope\<close>

definition evaluateMCPCredentialLeak :: "EvalEnv \<Rightarrow> HookPayload \<Rightarrow> Lease \<Rightarrow> State \<Rightarrow> gate" where
  "evaluateMCPCredentialLeak env payload l s =
    (let serverName = extractMCPServerName (hp_ToolName payload) in
     if \<not> isToolMCP (hp_ToolName payload) \<or> IsTrustedMCPServer l serverName then pass s
     else if ScanMCPArgsForCredentials (hp_ToolInput payload) = None then pass s
     else (Some (floor_response VerdictDeny), Save env s,
           [alert_audit payload VerbMcpCredentialLeak serverName VerdictDeny ''HIGH'' ''mcp_credential'']))"

definition evaluateTaintedMCPServer :: "EvalEnv \<Rightarrow> HookPayload \<Rightarrow> State \<Rightarrow> gate" where
  "evaluateTaintedMCPServer env payload s =
    (let serverName = extractMCPServerName (hp_ToolName payload) in
     if \<not> isToolMCP (hp_ToolName payload) then pass s
     else if \<not> IsMCPServerTainted s serverName \<or> IsTaintedMCPServerAcknowledged s serverName then pass s
     else (Some (hook_response VerdictAsk), Save env s, []))"

definition normalizeMCPArgKey :: "string \<Rightarrow> string" where
  "normalizeMCPArgKey key = map ascii_lower (filter (\<lambda>c. ascii_letter c \<or> ascii_digit c) key)"

definition isPathBearingMCPKey :: "string \<Rightarrow> bool" where
  "isPathBearingMCPKey key =
    (let n = normalizeMCPArgKey key in
     strings_HasSuffix n ''path'' \<or> strings_HasSuffix n ''paths''
     \<or> n \<in> {''file'', ''files'', ''artifact'', ''artifacts'', ''attachment'', ''attachments''})"

fun walk_targets :: "(string \<Rightarrow> bool) \<Rightarrow> string \<Rightarrow> json \<Rightarrow> string list"
  and walk_items :: "(string \<Rightarrow> bool) \<Rightarrow> string \<Rightarrow> json list \<Rightarrow> string list"
  and walk_members :: "(string \<Rightarrow> bool) \<Rightarrow> (string \<times> json) list \<Rightarrow> string list" where
  "walk_targets secret key (JString t) = (if t = [] \<or> \<not> isPathBearingMCPKey key \<or> \<not> secret t then [] else [t])"
| "walk_targets secret key (JArray vs) = walk_items secret key vs"
| "walk_targets secret key (JObject ms) = walk_members secret ms"
| "walk_targets secret key JNull = []"
| "walk_targets secret key (JBool b) = []"
| "walk_targets secret key (JNumber n) = []"
| "walk_items secret key [] = []"
| "walk_items secret key (v # vs) = walk_targets secret key v @ walk_items secret key vs"
| "walk_members secret [] = []"
| "walk_members secret ((k, v) # ms) = walk_targets secret k v @ walk_members secret ms"

definition derivedSecretLineageTargets :: "HookEnv \<Rightarrow> jsonobj \<Rightarrow> string \<Rightarrow> State \<Rightarrow> string list" where
  "derivedSecretLineageTargets e input projectRoot s =
     fold (\<lambda>t out. append_unique out t)
       (walk_targets (\<lambda>t. list_ex (\<lambda>lb. Sensitivity lb = ''secret'') (DerivedLabelsForPath s (ResolveTarget e projectRoot t)))
          [] (JObject input)) []"

definition evaluateTaintedMCPInput :: "EvalEnv \<Rightarrow> HookPayload \<Rightarrow> Lease \<Rightarrow> string \<Rightarrow> State \<Rightarrow> gate" where
  "evaluateTaintedMCPInput env payload l projectRoot s =
    (if \<not> isToolMCP (hp_ToolName payload) then pass s
     else if \<not> isApprovedMCPServer (extractMCPServerName (hp_ToolName payload)) l then pass s
     else if derivedSecretLineageTargets (ee_Hook env) (hp_ToolInput payload) projectRoot s = [] then pass s
     else (Some (hook_response VerdictAsk), Save env s, []))"

definition extractMCPToolLeaf :: "string \<Rightarrow> string" where
  "extractMCPToolLeaf toolName =
    (case strings_Cut toolName ''__'' of
       None \<Rightarrow> toolName
     | Some (_, rest) \<Rightarrow> (case strings_Cut rest ''__'' of None \<Rightarrow> toolName | Some (_, leaf) \<Rightarrow> leaf))"

definition pathWithinAnyRoot :: "HookEnv \<Rightarrow> string \<Rightarrow> string \<Rightarrow> string list \<Rightarrow> bool" where
  "pathWithinAnyRoot e projectRoot raw roots =
    (let resolve = (\<lambda>p. filepath_Clean (if ResolveTarget e projectRoot p = [] then p else ResolveTarget e projectRoot p));
         target = resolve raw
     in list_ex (\<lambda>root0. let root = strings_TrimSpace root0 in
          root \<noteq> [] \<and> (target = resolve root \<or> strings_HasPrefix target (resolve root @ ''/''))) roots)"

definition mcpScopeViolation :: "HookEnv \<Rightarrow> string \<Rightarrow> jsonobj \<Rightarrow> MCPCapabilityScope \<Rightarrow> string \<Rightarrow> bool" where
  "mcpScopeViolation e toolName input scope projectRoot =
    (let leaf = extractMCPToolLeaf toolName; path = FirstWriteLikePath input in
     (Cs_Tools scope \<noteq> [] \<and> \<not> list_ex (\<lambda>allowed. strings_EqualFold (strings_TrimSpace allowed) leaf) (Cs_Tools scope))
     \<or> (\<not> Cs_AllowShell scope \<and> FirstShellLikeValue input \<noteq> [])
     \<or> (\<not> Cs_AllowNetwork scope \<and> ExtractMCPURLs input \<noteq> [])
     \<or> (path \<noteq> [] \<and> (\<not> Cs_AllowWrite scope
          \<or> (Cs_Roots scope \<noteq> [] \<and> \<not> pathWithinAnyRoot e projectRoot path (Cs_Roots scope)))))"

definition evaluateMCPCapabilityScope :: "EvalEnv \<Rightarrow> HookPayload \<Rightarrow> Lease \<Rightarrow> string \<Rightarrow> State \<Rightarrow> gate" where
  "evaluateMCPCapabilityScope env payload l projectRoot s =
    (let serverName = extractMCPServerName (hp_ToolName payload) in
     if \<not> isToolMCP (hp_ToolName payload) \<or> \<not> isApprovedMCPServer serverName l then pass s
     else case FindMCPCapabilityScope l serverName of
            None \<Rightarrow> pass s
          | Some scope \<Rightarrow>
              if \<not> mcpScopeViolation (ee_Hook env) (hp_ToolName payload) (hp_ToolInput payload) scope projectRoot then pass s
              else case ConsumeApprovalGrant (ee_Now env) ''mcp_scope'' serverName s of
                     (Some _, s') \<Rightarrow> pass s'
                   | (None, s') \<Rightarrow>
                       (Some (hook_response VerdictAsk), Save env s',
                        [audit payload ''mcp_scope'' serverName (thinkingDegradedLedgerDecision s' VerdictAsk)]))"

subsection \<open>Settings and onboarding\<close>

definition Hour :: Duration where
  "Hour = 60 * Minute"

definition int_text :: "string \<Rightarrow> int option" where
  "int_text t =
    (case t of
       c # ds \<Rightarrow>
         if c = CHR ''-'' then (if ds \<noteq> [] \<and> list_all digit ds then Some (- int (digits_value ds)) else None)
         else if list_all digit t then Some (int (digits_value t)) else None
     | [] \<Rightarrow> None)"

fun decode_int :: "json list \<Rightarrow> int \<Rightarrow> int option" where
  "decode_int [] acc = Some acc"
| "decode_int (v # vs) acc =
     (case v of
        JNumber t \<Rightarrow> (case int_text t of
                       Some n \<Rightarrow> if - (2 ^ 63) \<le> n \<and> n < 2 ^ 63 then decode_int vs n else None
                     | None \<Rightarrow> None)
      | JNull \<Rightarrow> decode_int vs acc
      | _ \<Rightarrow> None)"

record Config =
  cf_MCPTrustPosture :: string
  cf_MCPOnboardingWindowHours :: int
  cf_MCPOnboardingCallCount :: int
  cf_MCPDeepVerbGating :: bool
  cf_InstallAgents :: "string list"

definition config_Defaults :: Config where
  "config_Defaults = \<lparr>cf_MCPTrustPosture = ''standard'', cf_MCPOnboardingWindowHours = 24, cf_MCPOnboardingCallCount = 0,
     cf_MCPDeepVerbGating = False, cf_InstallAgents = []\<rparr>"

definition IsValidPosture :: "string \<Rightarrow> bool" where
  "IsValidPosture p \<longleftrightarrow> p = ''strict'' \<or> p = ''standard'' \<or> p = ''permissive''"

definition unmarshal_config :: "string \<Rightarrow> Config option" where
  "unmarshal_config data =
    (case json_parse data of
       None \<Rightarrow> None
     | Some v \<Rightarrow>
         (case (field_value decode_string [] ''mcp_trust_posture'' v, field_value decode_int 0 ''mcp_onboarding_window_hours'' v,
                field_value decode_int 0 ''mcp_onboarding_call_count'' v, field_value decode_bool False ''mcp_deep_verb_gating'' v,
                field_value decode_strings [] ''install_agents'' v) of
            (Some p, Some w, Some c, Some d, Some ags) \<Rightarrow>
              Some \<lparr>cf_MCPTrustPosture = p, cf_MCPOnboardingWindowHours = w, cf_MCPOnboardingCallCount = c,
                    cf_MCPDeepVerbGating = d, cf_InstallAgents = ags\<rparr>
          | _ \<Rightarrow> None))"

text \<open>\<open>config.Load\<close>: \<open>None\<close> stands for its error. The timestamp field is not decoded.\<close>

definition config_Load :: "EvalEnv \<Rightarrow> Config option" where
  "config_Load env =
    (case he_UserHomeDir (ee_Hook env) of
       None \<Rightarrow> None
     | Some home \<Rightarrow>
         (case CE_ReadFile (ee_Core env) (filepath_Join [home, ''.sir'', ''config.json'']) of
            Missing _ \<Rightarrow> Some config_Defaults
          | Unreadable _ \<Rightarrow> None
          | Contents data \<Rightarrow>
              (case unmarshal_config data of
                 None \<Rightarrow> None
               | Some c \<Rightarrow>
                   if cf_MCPTrustPosture c \<noteq> [] \<and> \<not> IsValidPosture (cf_MCPTrustPosture c) then None
                   else Some (c\<lparr>cf_MCPTrustPosture := (if cf_MCPTrustPosture c = [] then ''standard'' else cf_MCPTrustPosture c),
                                cf_MCPOnboardingWindowHours :=
                                  (if cf_MCPOnboardingWindowHours c = 0 then 24 else cf_MCPOnboardingWindowHours c)\<rparr>))))"

definition onboardingHeightenedFloor :: int where
  "onboardingHeightenedFloor = 3"

definition mcpOnboardingHeightened :: "Lease \<Rightarrow> State \<Rightarrow> string \<Rightarrow> bool" where
  "mcpOnboardingHeightened l s serverName \<longleftrightarrow>
     SecretSession s \<or> PendingInjectionAlert s \<or> FindMCPCapabilityScope l serverName = None"

definition onboarding_due :: "EvalEnv \<Rightarrow> Config \<Rightarrow> MCPApproval \<Rightarrow> bool \<Rightarrow> int \<Rightarrow> bool" where
  "onboarding_due env cfg approval heightened count =
    (let window = cf_MCPOnboardingWindowHours cfg * Hour;
         limit = (if heightened \<and> cf_MCPOnboardingCallCount cfg < onboardingHeightenedFloor
                  then onboardingHeightenedFloor else cf_MCPOnboardingCallCount cfg)
     in ee_Now env - Ma_ApprovedAt approval < window \<and> (count = 0 \<or> count < limit))"

definition evaluateMCPOnboarding :: "EvalEnv \<Rightarrow> ToolIntent \<Rightarrow> HookPayload \<Rightarrow> Lease \<Rightarrow> State \<Rightarrow> gate" where
  "evaluateMCPOnboarding env intent payload l s =
    (let serverName = extractMCPServerName (hp_ToolName payload);
         heightened = mcpOnboardingHeightened l s serverName
     in if \<not> isToolMCP (hp_ToolName payload) \<or> ti_Verb intent \<noteq> VerbExecuteDryRun \<or> \<not> isApprovedMCPServer serverName l
        then pass s
        else case map_of (Ls_MCPApprovals l) serverName of
               None \<Rightarrow> pass s
             | Some approval \<Rightarrow>
                 if Time_IsZero (Ma_ApprovedAt approval) then pass s
                 else case config_Load env of
                        None \<Rightarrow> pass s
                      | Some cfg \<Rightarrow>
                          if Ls_QuietMCPFriction l \<and> \<not> heightened \<and> autoLeaseSafeContext s then pass s
                          else if \<not> onboarding_due env cfg approval heightened (MCPOnboardingCallCount s serverName) then pass s
                          else let s' = snd (BumpMCPOnboardingCall serverName s) in
                               (Some (hook_response VerdictAsk), Save env s',
                                [audit payload VerbMcpOnboarding serverName
                                   (recordedDecisionFor l (thinkingDegradedLedgerDecision s' VerdictAsk))]))"

subsection \<open>Changed command binaries (\<open>pkg/mcp/hash.go\<close>)\<close>

definition launcherBasenames :: "string list" where
  "launcherBasenames = [''npx'', ''uvx'', ''pipx'', ''bunx'', ''pnpm'', ''npm'', ''yarn'', ''deno'', ''uv'']"

definition isLauncherCommand :: "string \<Rightarrow> bool" where
  "isLauncherCommand path = slice_contains launcherBasenames (filepath_Base path)"

definition resolveCommandPath :: "EvalEnv \<Rightarrow> string \<Rightarrow> string option" where
  "resolveCommandPath env path =
     (if path = [] then None else if filepath_IsAbs path then Some path else ee_LookPath env path)"

text \<open>The hash of a command: the empty one when it cannot be pinned or is gone; \<open>None\<close> is a
  read error.\<close>

definition HashCommand :: "EvalEnv \<Rightarrow> string \<Rightarrow> string option" where
  "HashCommand env path =
    (if path = [] \<or> isLauncherCommand path then Some []
     else case resolveCommandPath env path of
            None \<Rightarrow> Some []
          | Some real \<Rightarrow>
              (case CE_ReadFile (ee_Core env) real of
                 Contents data \<Rightarrow> Some (sha256_hex data) | Missing _ \<Rightarrow> Some [] | Unreadable _ \<Rightarrow> None))"

definition StatCommand :: "EvalEnv \<Rightarrow> string \<Rightarrow> (Time \<times> string) option" where
  "StatCommand env path =
    (if path = [] \<or> isLauncherCommand path then Some (0, [])
     else case resolveCommandPath env path of
            None \<Rightarrow> Some (0, [])
          | Some real \<Rightarrow>
              (case ee_ModTime env real of
                 None \<Rightarrow> Some (0, [])
               | Some t \<Rightarrow> map_option (Pair t) (HashCommand env real)))"

definition driftAsk :: "EvalEnv \<Rightarrow> HookPayload \<Rightarrow> string \<Rightarrow> Lease \<Rightarrow> State \<Rightarrow> gate" where
  "driftAsk env payload serverName l s =
    (let s' = Save env (RecordMCPAuthorityChange (ee_Now env) s) in
     (Some (hook_response VerdictAsk), s',
      [alert_audit payload VerbMcpBinaryDrift serverName
         (recordedDecisionFor l (thinkingDegradedLedgerDecision s' VerdictAsk)) ''MEDIUM'' ''mcp_binary_drift'']))"

definition evaluateMCPBinaryDrift :: "EvalEnv \<Rightarrow> ToolIntent \<Rightarrow> HookPayload \<Rightarrow> Lease \<Rightarrow> State \<Rightarrow> gate" where
  "evaluateMCPBinaryDrift env intent payload l s =
    (let serverName = extractMCPServerName (hp_ToolName payload);
         reuse = Ls_ReuseSessionApprovals l \<and> autoLeaseSafeContext s
     in if \<not> isToolMCP (hp_ToolName payload) \<or> ti_Verb intent \<noteq> VerbExecuteDryRun \<or> \<not> isApprovedMCPServer serverName l
        then pass s
        else case map_of (Ls_MCPApprovals l) serverName of
               None \<Rightarrow> pass s
             | Some approval \<Rightarrow>
                 if Ma_CommandHash approval = [] \<or> Ma_Command approval = [] then pass s
                 else case StatCommand env (Ma_Command approval) of
                        None \<Rightarrow> pass s
                      | Some (_, currentHash) \<Rightarrow>
                          if currentHash = [] then driftAsk env payload serverName l s
                          else if currentHash = Ma_CommandHash approval then pass s
                          else if reuse \<and> MCPDriftAcknowledged s serverName currentHash then pass s
                          else driftAsk env payload serverName l
                                 (if reuse then MarkPendingMCPDriftAck serverName currentHash s else s))"

subsection \<open>Packages that are not in the lockfile (\<open>supply_chain.go\<close>, \<open>evaluate_install.go\<close>)\<close>

definition installVerbs :: "string list" where
  "installVerbs = [''install'', ''add'', ''get'', ''i'']"

definition valuedFlags :: "string list" where
  "valuedFlags = [''-r'', ''--requirement'', ''-c'', ''--constraint'', ''-t'', ''--target'', ''-d'', ''--download'', ''-i'',
     ''--index-url'', ''--extra-index-url'', ''-e'', ''--editable'', ''--prefix'', ''--workspace'', ''-w'', ''--tag'',
     ''--features'', ''--git'', ''--branch'', ''--rev'', ''--path'']"

definition strip_version :: "string \<Rightarrow> string" where
  "strip_version p =
     fold (\<lambda>sep name. case strings_Index name sep of
             Some i \<Rightarrow> if i > 0 then take i name else name | None \<Rightarrow> name)
       [''=='', ''>='', ''<='', ''~='', ''@'', ''^'', ''~''] p"

fun package_after_verb :: "string list \<Rightarrow> string" where
  "package_after_verb [] = []"
| "package_after_verb (p # ps) =
     (if strings_HasPrefix p ''-''
      then (if slice_contains valuedFlags p then package_after_verb (tl ps) else package_after_verb ps)
      else if strip_version p = [] then package_after_verb ps
      else strip_version p)"

definition extractPackageName :: "string \<Rightarrow> string" where
  "extractPackageName cmd =
     package_after_verb (drop 1 (dropWhile (\<lambda>p. \<not> slice_contains installVerbs (strings_ToLower p)) (strings_Fields cmd)))"

definition LockfileForManager :: "string \<Rightarrow> string list" where
  "LockfileForManager manager =
    (if manager = ''pip'' then [''requirements.txt'', ''requirements-dev.txt'', ''Pipfile.lock'']
     else if manager = ''npm'' then [''package-lock.json'']
     else if manager = ''yarn'' then [''yarn.lock'']
     else if manager = ''pnpm'' then [''pnpm-lock.yaml'']
     else if manager = ''bun'' then [''bun.lockb'']
     else if manager = ''cargo'' then [''Cargo.lock'']
     else if manager = ''go'' then [''go.sum'']
     else if manager = ''gem'' then [''Gemfile.lock'']
     else if manager = ''uv'' then [''uv.lock'', ''requirements.txt'']
     else if manager = ''poetry'' then [''poetry.lock''] else [])"

definition pins_line :: "string \<Rightarrow> string \<Rightarrow> bool" where
  "pins_line lower line =
    (let t = strings_TrimSpace (strings_ToLower line) in
     list_ex (\<lambda>op. strings_HasPrefix t (lower @ op)) [''=='', ''>='', ''<='', ''~=''] \<or> t = lower)"

definition lockfile_names :: "string \<Rightarrow> string \<Rightarrow> string \<Rightarrow> bool" where
  "lockfile_names manager pkgName content =
    (let q = [CHR 0x22]; a = [CHR 0x27]; lower = strings_ToLower pkgName; has = strings_Contains content in
     if manager \<in> {''npm'', ''yarn'', ''pnpm'', ''bun''} then has (q @ pkgName @ q) \<or> has (a @ pkgName @ a)
     else if manager \<in> {''pip'', ''uv'', ''poetry''}
     then list_ex (pins_line lower) (strings_SplitByte content (CHR 0x0A))
          \<or> strings_Contains (strings_ToLower content) (q @ lower @ q)
     else if manager = ''cargo'' then has (''name = '' @ q @ pkgName @ q)
     else if manager = ''go'' then has (pkgName @ '' '')
     else if manager = ''gem'' then has (''  '' @ pkgName @ '' ('') \<or> has (pkgName @ '' ('')
     else False)"

definition isPackageInLockfile :: "EvalEnv \<Rightarrow> string \<Rightarrow> string \<Rightarrow> string \<Rightarrow> bool" where
  "isPackageInLockfile env projectRoot manager pkgName =
    (let contents = List.map_filter (\<lambda>lf. read_file env (filepath_Join [projectRoot, lf])) (LockfileForManager manager)
     in list_ex (lockfile_names manager pkgName) contents \<or> contents = [])"

definition installSentinelHashes :: "EvalEnv \<Rightarrow> string \<Rightarrow> Lease \<Rightarrow> string \<Rightarrow> string smap \<times> string" where
  "installSentinelHashes env projectRoot l manager =
    (HashSentinelFiles env projectRoot (Ls_SentinelFilesForInstall l),
     case find (\<lambda>h. h \<noteq> []) (map snd (HashSentinelFiles env projectRoot (LockfileForManager manager))) of
       None \<Rightarrow> [] | Some h \<Rightarrow> h)"

definition prepareInstallEvaluation :: "EvalEnv \<Rightarrow> ToolIntent \<Rightarrow> Lease \<Rightarrow> string \<Rightarrow> State \<Rightarrow> gate" where
  "prepareInstallEvaluation env intent l projectRoot s =
    (if \<not> ti_IsInstall intent then pass s
     else let (sentinels, lockfileHash) = installSentinelHashes env projectRoot l (ti_Manager intent);
              s1 = SetPendingInstall (ti_Target intent) (ti_Manager intent) sentinels lockfileHash s;
              pkgName = extractPackageName (ti_Target intent)
          in if pkgName = [] \<or> isPackageInLockfile env projectRoot (ti_Manager intent) pkgName then pass s1
             else (Some (hook_response VerdictAsk), Save env s1, []))"

end
