(* ===== verification/Hooks_Evaluate.thy ===== *)
theory Hooks_Evaluate
  imports Hooks_Preflight Detect
begin

text \<open>
  The PreToolUse handler: \<open>evaluatePayload\<close> of \<open>evaluate.go\<close> with its ledger record
  (\<open>appendEvaluationLedgerEntry\<close>), the step after the decision (\<open>evaluate_postprocess.go\<close>)
  and the handler \<open>Evaluate\<close> around it. One reading of the clock serves a whole evaluation.
  Dispatching effects to providers happens in a goroutine after the decision and is not part of the
  result.
\<close>

subsection \<open>The ledger record\<close>

definition promptKey :: "Verb \<Rightarrow> string \<Rightarrow> string" where
  "promptKey verb target = verb @ [CHR 0x00] @ target"

definition mcpAuthorityChangeWindow :: Duration where
  "mcpAuthorityChangeWindow = 30 * Minute"

definition hook_providerVerdictWasUsed :: "PolicyVerdict \<Rightarrow> string \<Rightarrow> string \<Rightarrow> bool" where
  "hook_providerVerdictWasUsed v final base \<longleftrightarrow>
     base = VerdictAllow \<and> final = VerdictAsk \<and> (PV_Verdict v = VerdictAsk \<or> PV_Verdict v = VerdictDeny)"

definition providerVerdictRecords :: "PolicyVerdict list \<Rightarrow> string \<Rightarrow> string \<Rightarrow> ProviderVerdictRecord list" where
  "providerVerdictRecords verdicts final base =
     map (\<lambda>v. \<lparr>PVR_Provider = PV_Provider v, PVR_Verdict = PV_Verdict v, PVR_RulesMatched = PV_RulesMatched v,
               PVR_Reason = PV_Reason v, PVR_Used = hook_providerVerdictWasUsed v final base, PVR_Authoritative = False,
               PVR_NativeBaseVerdict = [], PVR_FloorsBypassed = False, PVR_FailClosed = False\<rparr>) verdicts"

definition detection_signal ::
  "EvalEnv \<Rightarrow> string \<Rightarrow> HookPayload \<Rightarrow> ToolIntent \<Rightarrow> Label \<Rightarrow> string \<Rightarrow> State \<Rightarrow> DetectSignal" where
  "detection_signal env projectRoot payload intent labels decision s =
    (let derived = \<not> SecretSession s
           \<and> list_ex (\<lambda>lb. Lb_Sensitivity lb = ''secret'') (derivedLabelsForIntent env projectRoot payload intent s);
         repeats = PromptCount s (promptKey (ti_Verb intent) (ti_Target intent)) - 1
     in \<lparr>DS_Verb = ti_Verb intent, DS_Verdict = decision, DS_AlertType = [], DS_Sensitivity = Lb_Sensitivity labels,
         DS_SecretSession = SecretSession s, DS_DerivedFromSecret = derived, DS_MCPTaint = (TaintedMCPServers s \<noteq> []),
         DS_InjectionAlert = PendingInjectionAlert s, DS_DenyAll = DenyAll s, DS_TamperRestored = False,
         DS_NewMCPServer = False, DS_PostureMutation = False, DS_RepeatedCount = (if repeats < 0 then 0 else repeats),
         DS_Unusual = False,
         DS_RecentMCPChange = RecentMCPAuthorityChange (ee_Now env) mcpAuthorityChangeWindow s,
         DS_Suspicious = IsSuspicious s\<rparr>)"

definition stampStatefulDetection ::
  "EvalEnv \<Rightarrow> string \<Rightarrow> HookPayload \<Rightarrow> ToolIntent \<Rightarrow> Label \<Rightarrow> string \<Rightarrow> State \<Rightarrow> AuditRecord \<Rightarrow> AuditRecord" where
  "stampStatefulDetection env projectRoot payload intent labels decision s r =
    (if decision = VerdictAllow \<and> \<not> RecentMCPAuthorityChange (ee_Now env) mcpAuthorityChangeWindow s then r
     else let sig = detection_signal env projectRoot payload intent labels decision s in
          case Classify sig of
            None \<Rightarrow> r
          | Some d \<Rightarrow> r\<lparr>ar_DetectionID := Det_ID d, ar_DetectionRoute := Route_String (Det_Route d),
                         ar_SignalIDs := Signals sig,
                         ar_Severity := (if ar_Severity r = [] then Det_Severity d else ar_Severity r)\<rparr>)"

definition appendEvaluationLedgerEntry ::
  "EvalEnv \<Rightarrow> string \<Rightarrow> HookPayload \<Rightarrow> ToolIntent \<Rightarrow> Label \<Rightarrow> Verdict \<Rightarrow> bool \<Rightarrow> ProviderEvaluation \<Rightarrow> State \<Rightarrow> AuditRecord" where
  "appendEvaluationLedgerEntry env projectRoot payload intent labels decision observe pe s =
    (let degraded = thinkingDegradedLedgerDecision s decision;
         recorded = (if observe then observeRecordedDecision degraded else degraded)
     in stampStatefulDetection env projectRoot payload intent labels recorded s
          ((audit payload (ti_Verb intent) (ti_Target intent) recorded)
             \<lparr>ar_Label := labels, ar_BaseVerdict := pv_Base pe,
              ar_ProviderVerdicts := providerVerdictRecords (pv_Verdicts pe) degraded (pv_Base pe)
                @ (case pv_Authoritative pe of None \<Rightarrow> [] | Some r \<Rightarrow> [r]),
              ar_ProviderFailures := pv_Failures pe\<rparr>))"

subsection \<open>After the decision (\<open>evaluate_postprocess.go\<close>)\<close>

definition isSecretExfilFloor :: "ToolIntent \<Rightarrow> State \<Rightarrow> Label \<Rightarrow> bool" where
  "isSecretExfilFloor intent s labels \<longleftrightarrow>
     (ti_Verb intent = VerbNetExternal \<or> ti_Verb intent = VerbDnsLookup \<or> ti_Verb intent = VerbPushRemote)
     \<and> (SecretSession s \<or> Lb_Sensitivity labels = ''secret'')"

definition applyCoreEvaluationResult ::
  "EvalEnv \<Rightarrow> Verdict \<Rightarrow> bool \<Rightarrow> ToolIntent \<Rightarrow> Label \<Rightarrow> State \<Rightarrow> HookResponse \<times> State" where
  "applyCoreEvaluationResult env decision authoritative intent labels s =
    (let permitted = (decision = VerdictAllow \<or> decision = VerdictAsk);
         s1 = (if permitted \<and> ti_IsSensitive intent \<and> ti_Verb intent = VerbReadRef \<and> decision = VerdictAllow
               then MarkSecretSession (ee_Now env) s else s);
         s2 = (if permitted \<and> (Lb_Trust labels = ''verified_origin'' \<or> Lb_Provenance labels = ''external_package'')
               then MarkUntrustedRead s1 else s1)
     in (\<lparr>hr_Decision = decision,
          hr_Floor = ((decision = VerdictDeny \<and> isSecretExfilFloor intent s labels) \<or> authoritative)\<rparr>, s2))"

definition overlayPendingInjectionWarning :: "string \<Rightarrow> HookResponse \<Rightarrow> HookResponse" where
  "overlayPendingInjectionWarning detail resp =
     (if detail = [] then resp
      else if hr_Decision resp = VerdictAllow then resp\<lparr>hr_Decision := VerdictAsk\<rparr> else resp)"

subsection \<open>Questions that are skipped\<close>

text \<open>Each step may turn an ask into an allow; it returns the decision and the session.\<close>

type_synonym relax = "Verdict \<times> State \<Rightarrow> Verdict \<times> State"

definition relax_if :: "(State \<Rightarrow> bool) \<Rightarrow> relax" where
  "relax_if ok ds = (case ds of (d, s) \<Rightarrow> if d = VerdictAsk \<and> ok s then (VerdictAllow, s) else (d, s))"

definition relax_reused :: "(State \<Rightarrow> bool) \<Rightarrow> (State \<Rightarrow> bool) \<Rightarrow> (State \<Rightarrow> State) \<Rightarrow> relax" where
  "relax_reused applies approved mark ds =
    (case ds of (d, s) \<Rightarrow>
       if d = VerdictAsk \<and> applies s then (if approved s then (VerdictAllow, s) else (d, mark s)) else (d, s))"

definition approval_grant :: "EvalEnv \<Rightarrow> ToolIntent \<Rightarrow> relax" where
  "approval_grant env intent ds =
    (case ds of (d, s) \<Rightarrow>
       if d \<noteq> VerdictAsk then (d, s)
       else case ConsumeApprovalGrant (ee_Now env) (ti_Verb intent) (ti_Target intent) s of
              (Some _, s') \<Rightarrow> (VerdictAllow, s') | (None, s') \<Rightarrow> (d, s'))"

definition silent_approved_host :: "Lease \<Rightarrow> ToolIntent \<Rightarrow> relax" where
  "silent_approved_host l intent =
     relax_if (\<lambda>s. ti_Verb intent = VerbNetAllowlisted \<and> Ls_SilentApprovedHosts l \<and> autoLeaseSafeContext s)"

definition quiet_mcp_friction :: "Lease \<Rightarrow> HookPayload \<Rightarrow> ToolIntent \<Rightarrow> relax" where
  "quiet_mcp_friction l payload intent =
     relax_if (\<lambda>s. ti_Verb intent = VerbMcpNetworkUnapproved \<and> Ls_QuietMCPFriction l \<and> autoLeaseSafeContext s
       \<and> \<not> mcpOnboardingHeightened l s (extractMCPServerName (hp_ToolName payload)))"

definition reuse_ephemeral :: "Lease \<Rightarrow> ToolIntent \<Rightarrow> relax" where
  "reuse_ephemeral l intent =
     relax_reused (\<lambda>s. ti_Verb intent = VerbRunEphemeral \<and> Ls_ReuseSessionApprovals l \<and> autoLeaseSafeContext s)
       (\<lambda>s. EphemeralApproved s (ti_Target intent)) (MarkPendingEphemeralApproval (ti_Target intent))"

definition reuse_push :: "Verb \<Rightarrow> Lease \<Rightarrow> ToolIntent \<Rightarrow> relax" where
  "reuse_push verb l intent =
     relax_reused (\<lambda>s. ti_Verb intent = verb \<and> ti_RemoteName intent \<noteq> [] \<and> \<not> ti_IsForgePublish intent
         \<and> Ls_AutoLeaseApprovedRemotes l \<and> autoLeaseSafeContext s)
       (\<lambda>s. PushRemoteApproved s (ti_RemoteName intent)) (MarkPendingPushRemote (ti_RemoteName intent))"

definition narrow_env_read :: "Lease \<Rightarrow> ToolIntent \<Rightarrow> relax" where
  "narrow_env_read l intent =
     relax_if (\<lambda>s. ti_Verb intent = VerbEnvRead \<and> Ls_NarrowEnvReads l \<and> autoLeaseSafeContext s
       \<and> singleSafeEnvVarRead (ti_Target intent) \<noteq> None)"

definition convenience :: "EvalEnv \<Rightarrow> Lease \<Rightarrow> HookPayload \<Rightarrow> ToolIntent \<Rightarrow> relax" where
  "convenience env l payload intent =
     narrow_env_read l intent \<circ> reuse_push VerbPushOrigin l intent \<circ> reuse_push VerbPushRemote l intent
     \<circ> reuse_ephemeral l intent \<circ> quiet_mcp_friction l payload intent \<circ> silent_approved_host l intent
     \<circ> approval_grant env intent"

subsection \<open>Sequencing gates\<close>

datatype eval_error = EngineError decode_error | SaveError

type_synonym outcome = "(eval_error + HookResponse) \<times> State \<times> AuditRecord list"

text \<open>The first gate that answers ends the evaluation; records accumulate.\<close>

definition or_else :: "gate \<Rightarrow> (State \<Rightarrow> outcome) \<Rightarrow> outcome" where
  "or_else g k =
    (case g of
       (Some resp, s, log) \<Rightarrow> (Inr resp, s, log)
     | (None, s, log) \<Rightarrow> (case k s of (res, s', log') \<Rightarrow> (res, s', log @ log')))"

definition answer_with :: "(HookResponse \<Rightarrow> HookResponse) \<Rightarrow> gate \<Rightarrow> gate" where
  "answer_with f g = (case g of (resp, s, log) \<Rightarrow> (map_option f resp, s, log))"

text \<open>A gate that answers on a condition, with a record of its decision.\<close>

definition recorded_gate ::
  "EvalEnv \<Rightarrow> string \<Rightarrow> HookPayload \<Rightarrow> ToolIntent \<Rightarrow> Label \<Rightarrow> bool \<Rightarrow> bool \<Rightarrow> HookResponse \<Rightarrow> State \<Rightarrow> gate" where
  "recorded_gate env projectRoot payload intent labels holds observe resp s =
     (if \<not> holds then pass s
      else (Some resp, s,
            [appendEvaluationLedgerEntry env projectRoot payload intent labels (hr_Decision resp) observe no_evaluation s]))"

definition evaluateRawSecretReadGate ::
  "EvalEnv \<Rightarrow> string \<Rightarrow> HookPayload \<Rightarrow> ToolIntent \<Rightarrow> Label \<Rightarrow> Lease \<Rightarrow> State \<Rightarrow> gate" where
  "evaluateRawSecretReadGate env projectRoot payload intent labels l s =
    (if \<not> Ls_DenyRawSecretReads l \<or> ti_Verb intent \<noteq> VerbReadRef \<or> \<not> ti_IsSensitive intent then pass s
     else if HasApprovalGrant (ee_Now env) VerbReadRef (ti_Target intent) s then pass s
     else let s' = Save env (seedSensitivePathLineage (ee_Hook env) projectRoot (ti_Target intent) s) in
          (Some (hook_response VerdictDeny), s',
           [appendEvaluationLedgerEntry env projectRoot payload intent labels VerdictDeny (Ls_ObserveOnly l)
              no_evaluation s']))"

subsection \<open>The gates in order\<close>

definition delegation_gate ::
  "EvalEnv \<Rightarrow> string \<Rightarrow> HookPayload \<Rightarrow> ToolIntent \<Rightarrow> Label \<Rightarrow> Lease \<Rightarrow> string \<Rightarrow> State \<Rightarrow> gate" where
  "delegation_gate env projectRoot payload intent labels l detail s =
    (let rec = (\<lambda>resp s'. appendEvaluationLedgerEntry env projectRoot payload intent labels (hr_Decision resp)
                           (Ls_ObserveOnly l) no_evaluation s') in
     case answer_with (overlayPendingInjectionWarning detail) (evaluateDelegationHardDeny env intent l s) of
       (Some resp, s', log) \<Rightarrow> (Some resp, s', log @ [rec resp s'])
     | (None, s', log) \<Rightarrow>
         if ti_Verb intent = VerbDelegate \<and> (detail \<noteq> [] \<or> delegationRequiresApproval s')
         then let resp = overlayPendingInjectionWarning detail (hook_response VerdictAsk); s2 = Save env s' in
              (Some resp, s2, log @ [rec resp s2])
         else (None, s', log))"

text \<open>The floors that need no server, from opaque commands to raw secret reads.\<close>

definition floor_gates ::
  "EvalEnv \<Rightarrow> string \<Rightarrow> HookPayload \<Rightarrow> ToolIntent \<Rightarrow> Label \<Rightarrow> Lease \<Rightarrow> State \<Rightarrow> (State \<Rightarrow> outcome) \<Rightarrow> outcome" where
  "floor_gates env projectRoot payload intent labels l s0 k =
    (let gated = recorded_gate env projectRoot payload intent labels;
         observe = Ls_ObserveOnly l
     in or_else (gated (opaqueShellEscalation (hp_ToolName payload) (hp_ToolInput payload) intent \<noteq> None) observe
                   (hook_response VerdictAsk) s0) (\<lambda>s.
        or_else (gated (outboundSecretLeak env payload intent s) False (floor_response VerdictDeny) s) (\<lambda>s.
        or_else (gated (dnsTunnelEscalation intent) False (floor_response VerdictDeny) s) (\<lambda>s.
        or_else (gated (sirStateTamper (ee_Hook env) intent projectRoot) False (floor_response VerdictDeny) s) (\<lambda>s.
        or_else (gated (ti_Verb intent = VerbSirSelf) observe (floor_response VerdictAsk) s) (\<lambda>s.
        or_else (gated (gitConfigSensitiveAsk payload intent) observe (hook_response VerdictAsk) s) (\<lambda>s.
        or_else (evaluateRawSecretReadGate env projectRoot payload intent labels l s) k)))))))"

text \<open>The gates on MCP servers, delegation and installs.\<close>

definition server_gates ::
  "EvalEnv \<Rightarrow> string \<Rightarrow> HookPayload \<Rightarrow> ToolIntent \<Rightarrow> Label \<Rightarrow> Lease \<Rightarrow> string \<Rightarrow> State \<Rightarrow> (State \<Rightarrow> outcome) \<Rightarrow> outcome" where
  "server_gates env projectRoot payload intent labels l detail s0 k =
    (let warn = answer_with (overlayPendingInjectionWarning detail) in
     or_else (evaluateMCPCredentialLeak env payload l s0) (\<lambda>s.
     or_else (warn (evaluateMCPCapabilityScope env payload l projectRoot s)) (\<lambda>s.
     or_else (evaluateTaintedMCPServer env payload s) (\<lambda>s.
     or_else (delegation_gate env projectRoot payload intent labels l detail s) (\<lambda>s.
     or_else (warn (evaluateTaintedMCPInput env payload l projectRoot s)) (\<lambda>s.
     or_else (warn (evaluateMCPBinaryDrift env intent payload l s)) (\<lambda>s.
     or_else (warn (evaluateMCPOnboarding env intent payload l s)) (\<lambda>s.
     or_else (prepareInstallEvaluation env intent l projectRoot s) k))))))))"

text \<open>The policy decision, the skipped questions, and what is kept and recorded.\<close>

definition decide ::
  "EvalEnv \<Rightarrow> string \<Rightarrow> HookPayload \<Rightarrow> Signal list \<Rightarrow> ToolIntent \<Rightarrow> Label \<Rightarrow> Lease \<Rightarrow> string \<Rightarrow> State \<Rightarrow> outcome" where
  "decide env projectRoot payload signals intent labels l detail s =
    (case evaluatePolicy env projectRoot payload signals intent l s labels of
       Inl err \<Rightarrow> (Inl (EngineError err), s, [])
     | Inr (resp, pe) \<Rightarrow>
         let (decision, s1) = (if Resp_AuthoritativeActive resp then (Resp_Decision resp, s)
                               else convenience env l payload intent (Resp_Decision resp, s));
             (hookResp, s2) = applyCoreEvaluationResult env decision (Resp_AuthoritativeActive resp) intent labels s1;
             warned = overlayPendingInjectionWarning detail hookResp;
             s3 = (if decision = VerdictDeny \<or> decision = VerdictAsk
                   then snd (RecordPromptedIntent (promptKey (ti_Verb intent) (ti_Target intent)) s2) else s2);
             s4 = Save env (maybeMarkAutoLeasePending env l intent decision s3)
         in if ee_SaveFails env then (Inl SaveError, s4, [])
            else (Inr warned, s4,
                  [appendEvaluationLedgerEntry env projectRoot payload intent labels decision
                     (Ls_ObserveOnly l \<and> \<not> hr_Floor warned) pe s4]))"

definition evaluate_call ::
  "EvalEnv \<Rightarrow> string \<Rightarrow> HookPayload \<Rightarrow> Lease \<Rightarrow> string \<Rightarrow> State \<Rightarrow> outcome" where
  "evaluate_call env projectRoot payload l detail s0 =
    (let signals = CollectSignals env payload;
         intent = MapToolToIntent (ee_Hook env) (hp_ToolName payload) (hp_ToolInput payload) l;
         labels = labelsForEvaluation (ee_Hook env) payload intent l projectRoot
     in floor_gates env projectRoot payload intent labels l s0 (\<lambda>s.
        server_gates env projectRoot payload intent labels l detail s (\<lambda>s.
        decide env projectRoot payload signals intent labels l detail s)))"

text \<open>The two deferred transforms: the thinking guard runs first, observe mode last.\<close>

definition deferred :: "Lease \<Rightarrow> bool \<Rightarrow> outcome \<Rightarrow> outcome" where
  "deferred l degrade out =
    (case out of (res, s, log) \<Rightarrow>
       (map_sum id (\<lambda>resp. (if Ls_ObserveOnly l then applyObserveMode else id) (applyThinkingGuard degrade resp)) res, s, log))"

definition evaluatePayload ::
  "EvalEnv \<Rightarrow> string option \<Rightarrow> string \<Rightarrow> HookPayload \<Rightarrow> Lease \<Rightarrow> State \<Rightarrow> outcome" where
  "evaluatePayload env ag projectRoot payload l s0 =
     or_else (evaluateSessionIntegrityGuard env (s0\<lparr>DecisionStartedAt := ee_Now env\<rparr>)) (\<lambda>s.
     or_else (evaluateDenyAllGuard env (MaybeAdvanceTurn (ee_Now env) s)) (\<lambda>s.
       let (detail, s1) = consumePendingInjectionAlert env s in
       or_else (evaluateLeaseIntegrityGuard env projectRoot s1) (\<lambda>s.
         let degrade = thinkingDegradeActive env ag payload in
         deferred l degrade (evaluate_call env projectRoot payload l detail (s\<lparr>ThinkingGuardActive := degrade\<rparr>)))))"

text \<open>The handler around it remembers a denied call, as far as that can be saved: the error of this
  \<open>Save\<close> is dropped, and the file then holds no trace of the denial.\<close>

definition Evaluate_hook ::
  "EvalEnv \<Rightarrow> string option \<Rightarrow> string \<Rightarrow> HookPayload \<Rightarrow> Lease \<Rightarrow> State \<Rightarrow> outcome" where
  "Evaluate_hook env ag projectRoot payload l s0 =
    (case evaluatePayload env ag projectRoot payload l s0 of
       (Inr resp, s, log) \<Rightarrow>
         (Inr resp,
          if hr_Decision resp = VerdictDeny \<and> hp_ToolUseID payload \<noteq> [] \<and> \<not> ee_SaveFails env
          then Save env (RecordDeniedToolUse (hp_ToolUseID payload) s) else s, log)
     | out \<Rightarrow> out)"

end
