(* ===== verification/Hooks_Gates.thy ===== *)
theory Hooks_Gates
  imports Hooks_Evaluate
begin

text \<open>
  What every gate before the policy decision promises to the ones behind it: a gate that lets
  a call pass leaves the facts alone that later decisions rest on and records nothing; a gate
  that stops a call never allows it, and outside observe mode its records say what it answered.
  The handler's properties are proved from this contract.
\<close>

subsection \<open>Facts that decisions rest on\<close>

definition decision_facts ::
  "State \<Rightarrow> (bool \<times> bool \<times> bool \<times> bool \<times> bool) \<times> PostureState \<times> string list \<times> bool \<times> bool \<times> DerivedPathRecord smap" where
  "decision_facts s =
     ((SecretSession s, SessionEverSecret s, RecentlyReadUntrusted s, UntrustedContentThisTurn s, DenyAll s),
      Posture s, TaintedMCPServers s, PendingInjectionAlert s, ThinkingGuardActive s, DerivedFileLineage s)"

lemma facts_Save [simp]: "decision_facts (Save env s) = decision_facts s"
  by (simp add: decision_facts_def Save_def Let_def)

lemma facts_Consume [simp]: "decision_facts (snd (ConsumeApprovalGrant now v t s)) = decision_facts s"
  by (simp add: decision_facts_def ConsumeApprovalGrant_def split: prod.split)

lemma facts_PendingInstall [simp]: "decision_facts (SetPendingInstall c m h lh s) = decision_facts s"
  by (simp add: decision_facts_def SetPendingInstall_def)

lemma facts_same:
  assumes "decision_facts s' = decision_facts s"
  shows "SecretSession s' = SecretSession s" "SessionEverSecret s' = SessionEverSecret s"
    "RecentlyReadUntrusted s' = RecentlyReadUntrusted s" "UntrustedContentThisTurn s' = UntrustedContentThisTurn s"
    "DenyAll s' = DenyAll s" "Posture s' = Posture s" "TaintedMCPServers s' = TaintedMCPServers s"
    "PendingInjectionAlert s' = PendingInjectionAlert s" "ThinkingGuardActive s' = ThinkingGuardActive s"
    "DerivedFileLineage s' = DerivedFileLineage s"
  using assms by (auto simp: decision_facts_def)

lemma safe_context_same: "decision_facts s' = decision_facts s \<Longrightarrow> autoLeaseSafeContext s' = autoLeaseSafeContext s"
  by (simp add: autoLeaseSafeContext_def decision_facts_def)

text \<open>A later state of the same evaluation: the same facts and no new grants.\<close>

definition onward :: "State \<Rightarrow> State \<Rightarrow> bool" where
  "onward s s' \<longleftrightarrow> decision_facts s' = decision_facts s
     \<and> (\<forall>now v t. HasApprovalGrant now v t s' \<longrightarrow> HasApprovalGrant now v t s)"

lemma onward_refl [simp]: "onward s s"
  by (simp add: onward_def)

lemma onward_trans: "onward s s1 \<Longrightarrow> onward s1 s2 \<Longrightarrow> onward s s2"
  by (auto simp: onward_def)

lemma onward_facts: "onward s s' \<Longrightarrow> decision_facts s' = decision_facts s"
  by (simp add: onward_def)

lemma onward_plain: "decision_facts s' = decision_facts s \<Longrightarrow> ApprovalGrants s' = ApprovalGrants s \<Longrightarrow> onward s s'"
  by (simp add: onward_def HasApprovalGrant_def)

lemma consume_loop_subset:
  "has_grant now' v' t' (snd (consume_loop now v t m gs)) \<Longrightarrow> has_grant now' v' t' gs"
  by (induction now v t m gs rule: consume_loop.induct)
     (auto simp: split_beta grant_expired_def grant_matches_def split: if_splits)

lemma onward_Consume: "ConsumeApprovalGrant now v t s = (g, s') \<Longrightarrow> onward s s'"
  using facts_Consume [of now v t s] consume_loop_subset [of _ _ _ now "strings_TrimSpace v" "strings_TrimSpace t" None]
  by (fastforce simp: onward_def HasApprovalGrant_def ConsumeApprovalGrant_def split: prod.splits)

lemma onward_Install: "onward s (SetPendingInstall c m h lh s)"
  by (rule onward_plain, rule facts_PendingInstall) (simp add: SetPendingInstall_def)

subsection \<open>The contract\<close>

text \<open>A property of the answer and its records; errors satisfy it.\<close>

definition sat :: "(HookResponse \<Rightarrow> AuditRecord list \<Rightarrow> bool) \<Rightarrow> outcome \<Rightarrow> bool" where
  "sat Q out = (case out of (Inr resp, _, log) \<Rightarrow> Q resp log | (Inl _, _, _) \<Rightarrow> True)"

lemma sat_simps [simp]: "sat Q (Inr resp, s, log) = Q resp log" "sat Q (Inl err, s, log)"
  by (simp_all add: sat_def)

text \<open>An answer of a gate: no allow, and records that agree with it outside observe mode.\<close>

definition stopped :: "bool \<Rightarrow> State \<Rightarrow> HookResponse \<Rightarrow> AuditRecord list \<Rightarrow> bool" where
  "stopped observing s resp log \<longleftrightarrow>
     (hr_Decision resp = VerdictAsk \<or> hr_Decision resp = VerdictDeny)
     \<and> (\<not> observing \<longrightarrow> list_all (\<lambda>r. ar_Decision r = thinkingDegradedLedgerDecision s (hr_Decision resp)) log)"

lemma degraded_same:
  "decision_facts s' = decision_facts s \<Longrightarrow> thinkingDegradedLedgerDecision s' d = thinkingDegradedLedgerDecision s d"
  by (simp add: thinkingDegradedLedgerDecision_def decision_facts_def)

lemma stopped_same: "decision_facts s' = decision_facts s \<Longrightarrow> stopped observing s' resp log \<Longrightarrow> stopped observing s resp log"
  using degraded_same [of s' s] by (simp add: stopped_def)

locale gate_contract =
  fixes g :: "State \<Rightarrow> gate" and observing :: bool
  assumes passes: "g s = (None, s', log) \<Longrightarrow> onward s s' \<and> log = []"
    and stops: "g s = (Some resp, s', log) \<Longrightarrow> stopped observing s resp log"
begin

text \<open>Past a gate the rest of the handler starts from the same facts.\<close>

lemma through:
  assumes "\<And>resp log. stopped observing s resp log \<Longrightarrow> Q resp log"
    and "\<And>s'. onward s s' \<Longrightarrow> sat Q (k s')"
  shows "sat Q (or_else (g s) k)"
proof (cases "g s")
  case (fields resp s' log)
  show ?thesis
  proof (cases resp)
    case None
    then have facts: "onward s s'" and "log = []"
      using passes [of s s' log] fields by auto
    moreover have "sat Q (k s')" by (rule assms(2)) (rule facts)
    ultimately show ?thesis using None fields
      by (auto simp: or_else_def sat_def split: prod.splits sum.splits)
  next
    case (Some r)
    then show ?thesis using stops [of s r s' log] assms(1) [of r log] fields by (simp add: or_else_def)
  qed
qed

lemma through_from:
  assumes facts: "onward s s1"
    and stop: "\<And>resp log. stopped observing s resp log \<Longrightarrow> Q resp log"
    and rest: "\<And>s'. onward s s' \<Longrightarrow> sat Q (k s')"
  shows "sat Q (or_else (g s1) k)"
proof (rule through)
  fix r log assume "stopped observing s1 r log"
  then show "Q r log" by (intro stop stopped_same [OF onward_facts [OF facts]])
next
  fix s2 assume "onward s1 s2"
  then show "sat Q (k s2)" by (intro rest onward_trans [OF facts])
qed

text \<open>The warning about an earlier injection does not weaken a gate.\<close>

lemma warned:
  "gate_contract (\<lambda>s. answer_with (overlayPendingInjectionWarning detail) (g s)) observing"
proof
  fix s s' log
  assume "answer_with (overlayPendingInjectionWarning detail) (g s) = (None, s', log)"
  then show "onward s s' \<and> log = []"
    using passes by (auto simp: answer_with_def split: prod.splits)
next
  fix s resp s' log
  assume "answer_with (overlayPendingInjectionWarning detail) (g s) = (Some resp, s', log)"
  then obtain r where "g s = (Some r, s', log)" and "resp = overlayPendingInjectionWarning detail r"
    by (auto simp: answer_with_def split: prod.splits)
  then show "stopped observing s resp log"
    using stops [of s r s' log] by (auto simp: stopped_def overlayPendingInjectionWarning_def)
qed

end

subsection \<open>The gates keep it\<close>

lemma response_simps [simp]:
  "hr_Decision (hook_response d) = d" "hr_Decision (floor_response d) = d"
  "hr_Floor (hook_response d) = False" "hr_Floor (floor_response d) = True"
  by (simp_all add: hook_response_def floor_response_def)

lemma audit_Decision [simp]:
  "ar_Decision (audit payload v t d) = d" "ar_Decision (alert_audit payload v t d sev a) = d"
  by (simp_all add: audit_def alert_audit_def)

lemma degraded_deny [simp]: "thinkingDegradedLedgerDecision s VerdictDeny = VerdictDeny"
  by (simp add: thinkingDegradedLedgerDecision_def)

lemma recorded_decision [simp]:
  "ar_Decision (appendEvaluationLedgerEntry env root payload intent labels d observe pe s) =
     (if observe then observeRecordedDecision (thinkingDegradedLedgerDecision s d) else thinkingDegradedLedgerDecision s d)"
  by (simp add: appendEvaluationLedgerEntry_def stampStatefulDetection_def Let_def audit_def split: option.split)

lemma pass_eq [simp]: "pass s = (None, s', log) \<longleftrightarrow> s' = s \<and> log = []" "pass s \<noteq> (Some r, s', log)"
  by (auto simp: pass_def)

lemma recorded_gate_contract:
  assumes "hr_Decision resp = VerdictAsk \<or> hr_Decision resp = VerdictDeny" and "observe \<longrightarrow> observing"
  shows "gate_contract (\<lambda>s. recorded_gate env root payload intent labels (holds s) observe resp s) observing"
  using assms by unfold_locales (auto simp: recorded_gate_def stopped_def split: if_splits)

interpretation credential_leak: gate_contract "evaluateMCPCredentialLeak env payload l" observing
  by unfold_locales (auto simp: evaluateMCPCredentialLeak_def Let_def stopped_def split: if_splits)

interpretation tainted_server: gate_contract "evaluateTaintedMCPServer env payload" observing
  by unfold_locales (auto simp: evaluateTaintedMCPServer_def Let_def stopped_def split: if_splits)

interpretation tainted_input: gate_contract "evaluateTaintedMCPInput env payload l root" observing
  by unfold_locales (auto simp: evaluateTaintedMCPInput_def stopped_def split: if_splits)

interpretation install: gate_contract "prepareInstallEvaluation env intent l root" observing
  by unfold_locales
     (auto simp: prepareInstallEvaluation_def Let_def stopped_def onward_Install split: if_splits prod.splits)

lemma consumed_state: "ConsumeApprovalGrant now v t s = (g, s') \<Longrightarrow> decision_facts s' = decision_facts s"
  using facts_Consume [of now v t s] by simp

interpretation capability_scope: gate_contract "evaluateMCPCapabilityScope env payload l root" observing
  by unfold_locales
     (auto simp: evaluateMCPCapabilityScope_def Let_def stopped_def degraded_same [OF consumed_state]
           split: if_splits prod.splits option.splits dest: onward_Consume)

lemma facts_Drift [simp]:
  "decision_facts (RecordMCPAuthorityChange now s) = decision_facts s"
  "decision_facts (MarkPendingMCPDriftAck srv h s) = decision_facts s"
  "decision_facts (snd (BumpMCPOnboardingCall srv s)) = decision_facts s"
  by (simp_all add: decision_facts_def RecordMCPAuthorityChange_def MarkPendingMCPDriftAck_def
        BumpMCPOnboardingCall_def Let_def)

lemma driftAsk_stops:
  assumes "driftAsk env payload srv l s1 = (resp, s', log)" and "decision_facts s1 = decision_facts s"
    and "Ls_ObserveOnly l \<longrightarrow> observing"
  shows "\<exists>r. resp = Some r \<and> stopped observing s r log"
proof -
  have "decision_facts (Save env (RecordMCPAuthorityChange (ee_Now env) s1)) = decision_facts s"
    using assms(2) by simp
  from degraded_same [OF this] assms(1,3) show ?thesis
    by (auto simp: driftAsk_def Let_def stopped_def recordedDecisionFor_def)
qed

lemma binary_drift_contract: "gate_contract (evaluateMCPBinaryDrift env intent payload l) (Ls_ObserveOnly l)"
proof
  fix s s' log assume "evaluateMCPBinaryDrift env intent payload l s = (None, s', log)"
  then show "onward s s' \<and> log = []"
    by (auto simp: evaluateMCPBinaryDrift_def Let_def driftAsk_def split: if_splits option.splits prod.splits)
next
  fix s resp s' log assume "evaluateMCPBinaryDrift env intent payload l s = (Some resp, s', log)"
  then obtain srv s1 where "driftAsk env payload srv l s1 = (Some resp, s', log)" "decision_facts s1 = decision_facts s"
    by (auto simp: evaluateMCPBinaryDrift_def Let_def split: if_splits option.splits prod.splits)
  from driftAsk_stops [OF this, of "Ls_ObserveOnly l"] show "stopped (Ls_ObserveOnly l) s resp log" by simp
qed

interpretation binary_drift: gate_contract "evaluateMCPBinaryDrift env intent payload l" "Ls_ObserveOnly l"
  by (rule binary_drift_contract)

lemma degraded_bump:
  "thinkingDegradedLedgerDecision (snd (BumpMCPOnboardingCall srv s)) d = thinkingDegradedLedgerDecision s d"
  by (rule degraded_same) simp

interpretation onboarding: gate_contract "evaluateMCPOnboarding env intent payload l" "Ls_ObserveOnly l"
  by unfold_locales
     (auto simp: evaluateMCPOnboarding_def Let_def stopped_def recordedDecisionFor_def degraded_bump
           split: if_splits option.splits)

interpretation raw_secret_read: gate_contract
  "evaluateRawSecretReadGate env root payload intent labels l" "Ls_ObserveOnly l"
  by unfold_locales (auto simp: evaluateRawSecretReadGate_def Let_def stopped_def split: if_splits)

interpretation delegation: gate_contract
  "delegation_gate env root payload intent labels l detail" "Ls_ObserveOnly l"
proof
  fix s s' log assume "delegation_gate env root payload intent labels l detail s = (None, s', log)"
  then show "onward s s' \<and> log = []"
    by (auto simp: delegation_gate_def evaluateDelegationHardDeny_def answer_with_def pass_def Let_def split: if_splits)
next
  fix s resp s' log assume "delegation_gate env root payload intent labels l detail s = (Some resp, s', log)"
  then show "stopped (Ls_ObserveOnly l) s resp log"
    by (auto simp: delegation_gate_def evaluateDelegationHardDeny_def answer_with_def pass_def Let_def stopped_def
             overlayPendingInjectionWarning_def degraded_same [OF facts_Save] split: if_splits)
qed

interpretation warned_scope: gate_contract
  "\<lambda>s. answer_with (overlayPendingInjectionWarning detail) (evaluateMCPCapabilityScope env payload l root s)" observing
  by (rule capability_scope.warned)

interpretation warned_input: gate_contract
  "\<lambda>s. answer_with (overlayPendingInjectionWarning detail) (evaluateTaintedMCPInput env payload l root s)" observing
  by (rule tainted_input.warned)

interpretation warned_drift: gate_contract
  "\<lambda>s. answer_with (overlayPendingInjectionWarning detail) (evaluateMCPBinaryDrift env intent payload l s)" "Ls_ObserveOnly l"
  by (rule binary_drift.warned)

interpretation warned_onboarding: gate_contract
  "\<lambda>s. answer_with (overlayPendingInjectionWarning detail) (evaluateMCPOnboarding env intent payload l s)" "Ls_ObserveOnly l"
  by (rule onboarding.warned)

subsection \<open>The two groups of gates\<close>

lemma floors_through:
  assumes stop: "\<And>resp log. stopped (Ls_ObserveOnly l) s resp log \<Longrightarrow> Q resp log"
    and rest: "\<And>s'. onward s s' \<Longrightarrow> sat Q (k s')"
  shows "sat Q (floor_gates env root payload intent labels l s k)"
proof -
  note step = gate_contract.through_from [OF recorded_gate_contract [where observing = "Ls_ObserveOnly l"],
      where Q = Q, OF _ _ _ stop]
  show ?thesis
    unfolding floor_gates_def Let_def
    by (rule step, simp, simp, rule onward_refl, assumption, (rule step, simp, simp, assumption, assumption)+,
        rule raw_secret_read.through_from [OF _ stop], assumption, assumption, rule rest)
qed

lemma servers_through:
  assumes stop: "\<And>resp log. stopped (Ls_ObserveOnly l) s resp log \<Longrightarrow> Q resp log"
    and rest: "\<And>s'. onward s s' \<Longrightarrow> sat Q (k s')"
  shows "sat Q (server_gates env root payload intent labels l detail s k)"
  unfolding server_gates_def Let_def
  by (rule credential_leak.through_from [OF onward_refl stop], assumption,
      rule warned_scope.through_from [OF _ stop], assumption, assumption,
      rule tainted_server.through_from [OF _ stop], assumption, assumption,
      rule delegation.through_from [OF _ stop], assumption, assumption,
      rule warned_input.through_from [OF _ stop], assumption, assumption,
      rule warned_drift.through_from [OF _ stop], assumption, assumption,
      rule warned_onboarding.through_from [OF _ stop], assumption, assumption,
      rule install.through_from [OF _ stop], assumption, assumption, rule rest)

end
