(* ===== verification/Hooks_Decision.thy ===== *)
theory Hooks_Decision
  imports Hooks_Gates Session_Properties Hooks_Disguise
begin

text \<open>
  What the PreToolUse handler guarantees: it fails closed on a broken control plane, keeps
  floors in observe mode, skips questions only in a clean context, never lets a provider that does
  not answer grant anything, and records what it tells the agent.
\<close>

subsection \<open>The handler in one equation\<close>

definition entered :: "EvalEnv \<Rightarrow> State \<Rightarrow> State" where
  "entered env s0 = MaybeAdvanceTurn (ee_Now env) (s0\<lparr>DecisionStartedAt := ee_Now env\<rparr>)"

definition alert_text :: "EvalEnv \<Rightarrow> State \<Rightarrow> string" where
  "alert_text env s0 = fst (consumePendingInjectionAlert env (entered env s0))"

definition alert_consumed :: "EvalEnv \<Rightarrow> State \<Rightarrow> State" where
  "alert_consumed env s0 = snd (consumePendingInjectionAlert env (entered env s0))"

definition control_plane_ok :: "EvalEnv \<Rightarrow> string \<Rightarrow> State \<Rightarrow> bool" where
  "control_plane_ok env root s0 \<longleftrightarrow>
     VerifySessionIntegrity env (s0\<lparr>DecisionStartedAt := ee_Now env\<rparr>) \<and> \<not> DenyAll (entered env s0)
     \<and> VerifyLeaseIntegrity env root (alert_consumed env s0)"

definition call_state :: "EvalEnv \<Rightarrow> string option \<Rightarrow> HookPayload \<Rightarrow> State \<Rightarrow> State" where
  "call_state env ag payload s0 =
     (alert_consumed env s0)\<lparr>ThinkingGuardActive := thinkingDegradeActive env ag payload\<rparr>"

lemma or_else_pass [simp]: "or_else (pass s) k = k s"
  by (cases "k s") (simp add: or_else_def pass_def)

lemma or_else_stop [simp]: "or_else (Some resp, s, log) k = (Inr resp, s, log)"
  by (simp add: or_else_def)

lemma evaluatePayload_proceeds:
  "control_plane_ok env root s0 \<Longrightarrow>
   evaluatePayload env ag root payload l s0 =
     deferred l (thinkingDegradeActive env ag payload)
       (evaluate_call env root payload l (alert_text env s0) (call_state env ag payload s0))"
  by (simp add: evaluatePayload_def control_plane_ok_def evaluateSessionIntegrityGuard_def evaluateDenyAllGuard_def
        evaluateLeaseIntegrityGuard_def entered_def alert_text_def alert_consumed_def call_state_def Let_def
        case_prod_beta)

lemma evaluatePayload_refuses:
  "\<not> control_plane_ok env root s0 \<Longrightarrow>
   \<exists>s'. evaluatePayload env ag root payload l s0 = (Inr (hook_response VerdictDeny), s', []) \<and> DenyAll s'"
  by (auto simp: evaluatePayload_def control_plane_ok_def evaluateSessionIntegrityGuard_def evaluateDenyAllGuard_def
        evaluateLeaseIntegrityGuard_def entered_def alert_consumed_def Let_def Save_def SetDenyAll_def
        split: prod.splits)

lemma answer_pass [simp]: "answer_with f (pass s) = pass s"
  by (simp add: answer_with_def pass_def)

text \<open>The gates on servers, delegation and installs do nothing for other calls.\<close>

lemma server_gates_plain:
  assumes "\<not> isToolMCP (hp_ToolName payload)" "ti_Verb intent \<noteq> VerbDelegate" "\<not> ti_IsInstall intent"
  shows "server_gates env root payload intent labels l detail s k = k s"
proof -
  have "delegation_gate env root payload intent labels l detail s = pass s"
    using assms(2) by (simp add: delegation_gate_def evaluateDelegationHardDeny_def) (simp add: pass_def)
  then show ?thesis
    using assms
    by (simp add: server_gates_def evaluateMCPCredentialLeak_def evaluateMCPCapabilityScope_def evaluateTaintedMCPServer_def
          evaluateTaintedMCPInput_def evaluateMCPBinaryDrift_def evaluateMCPOnboarding_def prepareInstallEvaluation_def
          Let_def)
qed

text \<open>A property of the answer and the records, from the gates and the decision.\<close>

abbreviation intent_of :: "EvalEnv \<Rightarrow> HookPayload \<Rightarrow> Lease \<Rightarrow> ToolIntent" where
  "intent_of env payload l \<equiv> MapToolToIntent (ee_Hook env) (hp_ToolName payload) (hp_ToolInput payload) l"

abbreviation labels_of :: "EvalEnv \<Rightarrow> string \<Rightarrow> HookPayload \<Rightarrow> Lease \<Rightarrow> Label" where
  "labels_of env root payload l \<equiv> labelsForEvaluation (ee_Hook env) payload (intent_of env payload l) l root"

definition on_wire :: "Lease \<Rightarrow> bool \<Rightarrow> HookResponse \<Rightarrow> HookResponse" where
  "on_wire l degrade resp = (if Ls_ObserveOnly l then applyObserveMode else id) (applyThinkingGuard degrade resp)"

lemma sat_deferred: "sat Q (deferred l degrade out) \<longleftrightarrow> sat (\<lambda>resp log. Q (on_wire l degrade resp) log) out"
  by (cases out) (auto simp: deferred_def sat_def on_wire_def split: sum.splits)

lemma call_sat:
  assumes "\<And>resp log. stopped (Ls_ObserveOnly l) s resp log \<Longrightarrow> Q resp log"
    and "\<And>s'. onward s s' \<Longrightarrow>
      sat Q (decide env root payload (CollectSignals env payload) (intent_of env payload l)
               (labels_of env root payload l) l detail s')"
  shows "sat Q (evaluate_call env root payload l detail s)"
  unfolding evaluate_call_def Let_def
proof (rule floors_through [OF assms(1)], assumption)
  fix s1 assume s1: "onward s s1"
  show "sat Q (server_gates env root payload (intent_of env payload l) (labels_of env root payload l) l detail s1
      (\<lambda>s. decide env root payload (CollectSignals env payload) (intent_of env payload l)
             (labels_of env root payload l) l detail s))"
    using s1 by (intro servers_through assms) (auto dest: stopped_same onward_facts intro: onward_trans)
qed

subsection \<open>Without an authoritative provider and an external engine\<close>

definition local_engine :: "EvalEnv \<Rightarrow> bool" where
  "local_engine env \<longleftrightarrow> CE_LookPath (ee_Core env) = None"

definition no_authority :: "EvalEnv \<Rightarrow> bool" where
  "no_authority env = (case ee_Registry env of Inl _ \<Rightarrow> False | Inr reg \<Rightarrow> activeAuthoritativePolicyProvider reg = None)"

lemma compose_local_active [simp]: "Resp_AuthoritativeActive (compose_local pvs out) = Resp_AuthoritativeActive out"
  by (induction pvs arbitrary: out) auto

abbreviation engine_only :: "Response option \<Rightarrow> bool" where
  "engine_only \<equiv> pred_option (\<lambda>r. \<not> Resp_AuthoritativeActive r)"

lemma respond_active [simp]: "\<not> Resp_AuthoritativeActive (respond d r)"
  by (simp add: respond_def)

lemma fixed_active [simp]:
  "\<not> Resp_AuthoritativeActive denyFlowResponse" "\<not> Resp_AuthoritativeActive (untrustedEgressDeny a)"
  "\<not> Resp_AuthoritativeActive (untrustedPublishResponse v)"
  by (simp_all add: denyFlowResponse_def untrustedEgressDeny_def untrustedPublishResponse_def)

lemma stages_active:
  "engine_only (localEvaluatePreflight req)" "engine_only (localEvaluateNetwork req ls)"
  "engine_only (localEvaluateDelegation req)" "engine_only (localEvaluateCommandRisk req)"
  by (simp_all add: localEvaluatePreflight_def localEvaluateNetwork_def localEvaluateDelegation_def
        localEvaluateCommandRisk_def Let_def if_distrib [where f = engine_only]
        if_distrib [where f = Resp_AuthoritativeActive] split: option.split cong: if_cong)

lemma base_active [simp]: "\<not> Resp_AuthoritativeActive (localEvaluateBase req)"
  using stages_active(1,3,4) [of req] stages_active(2) [of req "effective_labels req"]
  by (simp add: localEvaluateBase_def option.pred_set split: option.splits)

lemma localEvaluate_active [simp]: "\<not> Resp_AuthoritativeActive (localEvaluate req)"
  by (simp add: localEvaluate_def composeLocalPolicyVerdicts_def)

lemma forbids_providers [simp]: "leaseForbidsVerb (req\<lparr>Req_PolicyVerdicts := pvs\<rparr>) v = leaseForbidsVerb req v"
  by (simp add: leaseForbidsVerb_def forbiddenVerbs_def Let_def split: option.split)

lemma fallback_verdict_providers [simp]: "fallback_verdict (req\<lparr>Req_PolicyVerdicts := pvs\<rparr>) = fallback_verdict req"
proof -
  have sel: "Req_Intent (req\<lparr>Req_PolicyVerdicts := pvs\<rparr>) = Req_Intent req"
    "Req_Session (req\<lparr>Req_PolicyVerdicts := pvs\<rparr>) = Req_Session req"
    "Req_LeaseJSON (req\<lparr>Req_PolicyVerdicts := pvs\<rparr>) = Req_LeaseJSON req" by simp_all
  show ?thesis
    by (simp only: fallback_verdict_def refused_def questioned_def effective_labels_def forbids_providers sel)
qed

lemma clean_workflow_providers [simp]:
  "isLocalCleanDeveloperWorkflow (req\<lparr>Req_PolicyVerdicts := pvs\<rparr>) = isLocalCleanDeveloperWorkflow req"
  by (simp add: isLocalCleanDeveloperWorkflow_def)

lemma native_local:
  "local_engine env \<Longrightarrow>
   \<exists>resp. native_decision env req pvs = Inr resp \<and> \<not> Resp_AuthoritativeActive resp
     \<and> Resp_Decision resp = Resp_Decision (localEvaluate (req\<lparr>Req_PolicyVerdicts := pvs\<rparr>))"
  by (simp add: native_decision_def core_Evaluate_def local_engine_def Let_def)

lemma policy_local:
  assumes "local_engine env"
  obtains resp pe where "evaluatePolicy env root payload signals intent l s labels = Inr (resp, pe)"
    "no_authority env \<Longrightarrow> \<not> Resp_AuthoritativeActive resp
       \<and> (Resp_Decision resp = fallback_verdict (buildCoreRequest env root payload intent l s labels)
          \<or> Resp_Decision resp = VerdictAsk
            \<and> fallback_verdict (buildCoreRequest env root payload intent l s labels) = VerdictAllow
            \<and> \<not> isLocalCleanDeveloperWorkflow (buildCoreRequest env root payload intent l s labels))"
proof -
  obtain vs fs where v: "collectPolicyVerdicts (ee_Run env) (registry_or_empty env)
      (policy_request payload signals intent l s) = (vs, fs)" by fastforce
  obtain native where n: "native_decision env (buildCoreRequest env root payload intent l s labels) vs = Inr native"
      "\<not> Resp_AuthoritativeActive native" "Resp_Decision native = Resp_Decision
        (localEvaluate ((buildCoreRequest env root payload intent l s labels)\<lparr>Req_PolicyVerdicts := vs\<rparr>))"
    using native_local [OF assms] by blast
  obtain resp auth where o: "override env (policy_request payload signals intent l s) l native = (resp, auth)"
    by fastforce
  have "resp = native" if "no_authority env"
    using that o by (auto simp: no_authority_def override_def split: sum.splits)
  with v n o show ?thesis
    by (intro that) (auto simp: evaluatePolicy_def Let_def localEvaluate_decision split: if_splits)
qed


subsection \<open>Every call is answered\<close>

abbreviation verdict_word :: "Verdict \<Rightarrow> bool" where
  "verdict_word d \<equiv> d = VerdictAllow \<or> d = VerdictAsk \<or> d = VerdictDeny"

lemma reduce_verdicts_word:
  "reduce_verdicts vs final rules reason = Inr (d, rs, why) \<Longrightarrow> verdict_word final \<Longrightarrow> verdict_word d"
  by (induction vs arbitrary: final rules reason) (auto simp: Let_def split: if_splits)

lemma FailureVerdict_held: "FailureVerdict e = VerdictAsk \<or> FailureVerdict e = VerdictDeny"
  by (simp add: FailureVerdict_def const_defs verdict_defs)

lemma failed_outcome_held:
  "ao_Verdict (failed_outcome e managed why) = VerdictAsk \<or> ao_Verdict (failed_outcome e managed why) = VerdictDeny"
  using FailureVerdict_held [of e] by (auto simp: failed_outcome_def Let_def OnFailureDeny_def verdict_defs)

lemma resolveAuthoritative_word: "verdict_word (ao_Verdict (resolveAuthoritative run e req managed))"
proof (cases "\<exists>why. resolveAuthoritative run e req managed = failed_outcome e managed why")
  case True
  then obtain why where "resolveAuthoritative run e req managed = failed_outcome e managed why" ..
  with failed_outcome_held [of e managed why] show ?thesis by auto
next
  case False
  then obtain v vs final rules reason where "reduce_verdicts (v # vs) VerdictAllow [] [] = Inr (final, rules, reason)"
    and "ao_Verdict (resolveAuthoritative run e req managed) = final"
    by (auto simp: resolveAuthoritative_def simp del: reduce_verdicts.simps split: sum.splits list.splits)
  from reduce_verdicts_word [OF this(1)] this(2) show ?thesis by simp
qed

lemma override_word:
  assumes "verdict_word (Resp_Decision resp)"
  shows "verdict_word (Resp_Decision (fst (override env preq l resp)))"
proof (cases "ee_Registry env")
  case (Inl err)
  then show ?thesis by (simp add: override_def corrupt_registry_def Let_def)
next
  case (Inr reg)
  then show ?thesis
    using assms resolveAuthoritative_word [of "ee_Run env" _ preq "leaseIsManaged l"]
    by (cases "activeAuthoritativePolicyProvider reg") (simp_all add: override_def authoritative_override_def)
qed

lemma policy_word:
  assumes "local_engine env" and "evaluatePolicy env root payload signals intent l s labels = Inr (resp, pe)"
  shows "verdict_word (Resp_Decision resp)"
proof -
  obtain vs fs where v: "collectPolicyVerdicts (ee_Run env) (registry_or_empty env)
      (policy_request payload signals intent l s) = (vs, fs)" by fastforce
  obtain native where n: "native_decision env (buildCoreRequest env root payload intent l s labels) vs = Inr native"
      "Resp_Decision native = Resp_Decision
        (localEvaluate ((buildCoreRequest env root payload intent l s labels)\<lparr>Req_PolicyVerdicts := vs\<rparr>))"
    using native_local [OF assms(1)] by blast
  have "verdict_word (Resp_Decision native)"
    unfolding n(2) localEvaluate_decision by (simp add: fallback_verdict_def)
  from override_word [OF this, of env "policy_request payload signals intent l s" l] assms(2) v n(1) show ?thesis
    by (auto simp: evaluatePolicy_def Let_def case_prod_beta)
qed

text \<open>The relaxations only ever turn an ask into an allow.\<close>

definition relaxes :: "relax \<Rightarrow> bool" where
  "relaxes f \<longleftrightarrow> (\<forall>d s. (d \<noteq> VerdictAsk \<longrightarrow> f (d, s) = (d, s)) \<and> (fst (f (d, s)) = d \<or> fst (f (d, s)) = VerdictAllow)
     \<and> decision_facts (snd (f (d, s))) = decision_facts s)"

lemma facts_marks [simp]:
  "decision_facts (MarkPendingEphemeralApproval t s) = decision_facts s"
  "decision_facts (MarkPendingPushRemote r s) = decision_facts s"
  by (simp_all add: decision_facts_def MarkPendingEphemeralApproval_def MarkPendingPushRemote_def)

lemma relaxes_steps [intro]:
  "relaxes (relax_if ok)" "(\<And>s. decision_facts (mark s) = decision_facts s) \<Longrightarrow> relaxes (relax_reused a b mark)"
  "relaxes (approval_grant env intent)"
  by (auto simp: relaxes_def relax_if_def relax_reused_def approval_grant_def consumed_state split: prod.splits option.splits)

lemma relaxes_comp:
  assumes f: "relaxes f" and g: "relaxes g"
  shows "relaxes (f \<circ> g)"
  unfolding relaxes_def
proof (intro allI)
  fix d s
  obtain d' s' where gd: "g (d, s) = (d', s')" by fastforce
  then have "(d \<noteq> VerdictAsk \<longrightarrow> d' = d \<and> s' = s) \<and> (d' = d \<or> d' = VerdictAllow) \<and> decision_facts s' = decision_facts s"
    using g by (auto simp: relaxes_def dest!: spec [of _ d] spec [of _ s])
  moreover have "(d' \<noteq> VerdictAsk \<longrightarrow> f (d', s') = (d', s')) \<and> (fst (f (d', s')) = d' \<or> fst (f (d', s')) = VerdictAllow)
     \<and> decision_facts (snd (f (d', s'))) = decision_facts s'"
    using f by (simp add: relaxes_def)
  ultimately show "(d \<noteq> VerdictAsk \<longrightarrow> (f \<circ> g) (d, s) = (d, s))
      \<and> (fst ((f \<circ> g) (d, s)) = d \<or> fst ((f \<circ> g) (d, s)) = VerdictAllow)
      \<and> decision_facts (snd ((f \<circ> g) (d, s))) = decision_facts s"
    using gd by auto
qed

lemma convenience_relaxes: "relaxes (convenience env l payload intent)"
  unfolding convenience_def narrow_env_read_def reuse_push_def reuse_ephemeral_def quiet_mcp_friction_def
    silent_approved_host_def
  by (intro relaxes_comp relaxes_steps) simp_all


lemma guard_kept [simp]:
  "ThinkingGuardActive (Save env s) = ThinkingGuardActive s"
  "ThinkingGuardActive (MarkSecretSession now s) = ThinkingGuardActive s"
  "ThinkingGuardActive (MarkUntrustedRead s) = ThinkingGuardActive s"
  "ThinkingGuardActive (snd (RecordPromptedIntent k s)) = ThinkingGuardActive s"
  "ThinkingGuardActive (maybeMarkAutoLeasePending env l intent d s) = ThinkingGuardActive s"
  "ThinkingGuardActive (snd (applyCoreEvaluationResult env d a intent labels s)) = ThinkingGuardActive s"
  by (simp_all add: Save_def Let_def MarkSecretSession_def MarkUntrustedRead_def RecordPromptedIntent_def
        maybeMarkAutoLeasePending_def MarkPendingAutoLease_def applyCoreEvaluationResult_def split: option.split)

text \<open>The last step of an evaluation, as a relation between the policy's answer, the decision
  after the relaxations, the response and its record.\<close>

definition settled :: "EvalEnv \<Rightarrow> HookPayload \<Rightarrow> ToolIntent \<Rightarrow> Label \<Rightarrow> Lease \<Rightarrow> string \<Rightarrow> State \<Rightarrow> Response
    \<Rightarrow> Verdict \<Rightarrow> HookResponse \<Rightarrow> string \<Rightarrow> bool" where
  "settled env payload intent labels l detail s resp d out recorded \<longleftrightarrow>
     d = (if Resp_AuthoritativeActive resp then Resp_Decision resp
          else fst (convenience env l payload intent (Resp_Decision resp, s)))
     \<and> out = overlayPendingInjectionWarning detail
         \<lparr>hr_Decision = d,
          hr_Floor = (d = VerdictDeny \<and> isSecretExfilFloor intent s labels \<or> Resp_AuthoritativeActive resp)\<rparr>
     \<and> recorded = (if Ls_ObserveOnly l \<and> \<not> hr_Floor out then observeRecordedDecision else id)
         (thinkingDegradedLedgerDecision s d)"

lemma exfil_floor_same:
  "decision_facts s' = decision_facts s \<Longrightarrow> isSecretExfilFloor intent s' labels = isSecretExfilFloor intent s labels"
  by (simp add: isSecretExfilFloor_def decision_facts_def)

lemma convenience_facts: "decision_facts (snd (convenience env l payload intent (d, s))) = decision_facts s"
  using convenience_relaxes [of env l payload intent] by (simp add: relaxes_def)

lemma decide_settled:
  assumes "evaluatePolicy env root payload signals intent l s labels = Inr (resp, pe)" and "\<not> ee_SaveFails env"
  obtains d out s' r where "decide env root payload signals intent labels l detail s = (Inr out, s', [r])"
    "settled env payload intent labels l detail s resp d out (ar_Decision r)"
proof -
  obtain d s1 where d: "(if Resp_AuthoritativeActive resp then (Resp_Decision resp, s)
      else convenience env l payload intent (Resp_Decision resp, s)) = (d, s1)" by fastforce
  have facts: "decision_facts s1 = decision_facts s"
    using d convenience_facts [of env l payload intent "Resp_Decision resp" s] by (auto split: if_splits)
  have dd: "d = (if Resp_AuthoritativeActive resp then Resp_Decision resp
      else fst (convenience env l payload intent (Resp_Decision resp, s)))"
    using d by (auto split: if_splits)
  obtain h s2 where a: "applyCoreEvaluationResult env d (Resp_AuthoritativeActive resp) intent labels s1 = (h, s2)"
    by fastforce
  then have h: "h = \<lparr>hr_Decision = d,
      hr_Floor = (d = VerdictDeny \<and> isSecretExfilFloor intent s labels \<or> Resp_AuthoritativeActive resp)\<rparr>"
    using exfil_floor_same [OF facts, of intent labels] by (simp add: applyCoreEvaluationResult_def Let_def)
  have guard: "ThinkingGuardActive s2 = ThinkingGuardActive s"
    using guard_kept(6) [of env d "Resp_AuthoritativeActive resp" intent labels s1] a facts
    by (simp add: decision_facts_def)
  have "decide env root payload signals intent labels l detail s =
      (Inr (overlayPendingInjectionWarning detail h),
       Save env (maybeMarkAutoLeasePending env l intent d
         (if d = VerdictDeny \<or> d = VerdictAsk
          then snd (RecordPromptedIntent (promptKey (ti_Verb intent) (ti_Target intent)) s2) else s2)),
       [appendEvaluationLedgerEntry env root payload intent labels d
          (Ls_ObserveOnly l \<and> \<not> hr_Floor (overlayPendingInjectionWarning detail h)) pe
          (Save env (maybeMarkAutoLeasePending env l intent d
         (if d = VerdictDeny \<or> d = VerdictAsk
          then snd (RecordPromptedIntent (promptKey (ti_Verb intent) (ti_Target intent)) s2) else s2)))])"
    using assms d a by (simp add: decide_def Let_def)
  then show ?thesis
    by (rule that [where d = d])
       (simp add: settled_def recorded_decision thinkingDegradedLedgerDecision_def guard h flip: dd)
qed

lemma settled_decision:
  assumes "settled env payload intent labels l detail s resp d out recorded"
  shows "d = Resp_Decision resp \<or> d = VerdictAllow \<and> Resp_Decision resp = VerdictAsk \<and> \<not> Resp_AuthoritativeActive resp"
proof (cases "Resp_AuthoritativeActive resp")
  case True
  with assms show ?thesis by (simp add: settled_def)
next
  case False
  have "fst (convenience env l payload intent (Resp_Decision resp, s)) = Resp_Decision resp
      \<or> fst (convenience env l payload intent (Resp_Decision resp, s)) = VerdictAllow
        \<and> Resp_Decision resp = VerdictAsk"
    using convenience_relaxes [of env l payload intent, unfolded relaxes_def, rule_format, of "Resp_Decision resp" s]
    by auto
  with assms False show ?thesis by (auto simp: settled_def)
qed

lemma decide_sat:
  assumes "\<And>resp pe d out r. evaluatePolicy env root payload signals intent l s labels = Inr (resp, pe) \<Longrightarrow>
      settled env payload intent labels l detail s resp d out (ar_Decision r) \<Longrightarrow> Q out [r]"
  shows "sat Q (decide env root payload signals intent labels l detail s)"
proof (cases "evaluatePolicy env root payload signals intent l s labels")
  case (Inl err)
  then show ?thesis by (simp add: decide_def)
next
  case (Inr rp)
  then obtain resp pe where p: "evaluatePolicy env root payload signals intent l s labels = Inr (resp, pe)"
    by (cases rp) simp
  show ?thesis
  proof (cases "ee_SaveFails env")
    case True
    then show ?thesis using p by (simp add: decide_def Let_def case_prod_beta)
  next
    case False
    from decide_settled [OF p False, of detail] obtain d out s' r
      where "decide env root payload signals intent labels l detail s = (Inr out, s', [r])"
        "settled env payload intent labels l detail s resp d out (ar_Decision r)" .
    with assms [OF p] show ?thesis by simp
  qed
qed

end
