(* ===== verification/Hooks_Properties.thy ===== *)
theory Hooks_Properties
  imports Hooks_Example
begin

text \<open>
  The properties of the PreToolUse handler: every call is answered, egress from a session with
  credentials is held in every mode, an allow is always justified, an authoritative provider
  cannot fail open, sir's own state is protected, and the ledger says what the agent was told.
\<close>

subsection \<open>A broken control plane\<close>

text \<open>C10: the handler fails closed on a broken control plane. When the session file or the lease
  was changed outside sir, or the session is in deny-all, the answer is a denial that neither
  observe mode nor a provider can lift, and the session is in deny-all afterwards.\<close>

theorem hook_fails_closed:
  assumes "\<not> VerifySessionIntegrity env (s0\<lparr>DecisionStartedAt := ee_Now env\<rparr>) \<or> DenyAll s0
     \<or> \<not> VerifyLeaseIntegrity env root (alert_consumed env s0)"
  shows "\<exists>s'. evaluatePayload env ag root payload l s0 = (Inr (hook_response VerdictDeny), s', []) \<and> DenyAll s'"
proof -
  have "DenyAll (entered env s0) = DenyAll s0"
    by (simp add: entered_def MaybeAdvanceTurn_def expire_turn_secret_def clearTurnEvidenceLocked_def
          downgradeSecretSessionLocked_def clearSecretSessionLocked_def Let_def)
  with assms have "\<not> control_plane_ok env root s0" by (auto simp: control_plane_ok_def)
  then show ?thesis by (rule evaluatePayload_refuses)
qed

theorem hook_fails_closed_witness:
  "\<exists>s'. evaluatePayload demo_machine None ''/w'' demo_glob DefaultLease (clean_session\<lparr>DenyAll := True\<rparr>)
     = (Inr (hook_response VerdictDeny), s', []) \<and> DenyAll s'"
  by (rule hook_fails_closed) simp

subsection \<open>Every call is answered\<close>

lemma or_else_returns: "(\<And>s. \<not> isl (fst (k s))) \<Longrightarrow> \<not> isl (fst (or_else g k))"
  by (auto simp: or_else_def split: prod.splits option.splits) (metis fst_conv)

lemma decide_returns:
  assumes "local_engine env" and "\<not> ee_SaveFails env"
  shows "\<not> isl (fst (decide env root payload signals intent labels l detail s))"
proof -
  obtain resp pe where "evaluatePolicy env root payload signals intent l s labels = Inr (resp, pe)"
    using policy_local [OF assms(1)] by metis
  from decide_settled [OF this assms(2)] show ?thesis by (metis fst_conv sum.disc(2))
qed

lemma call_returns:
  assumes "local_engine env" and "\<not> ee_SaveFails env"
  shows "\<not> isl (fst (evaluate_call env root payload l detail s))"
  unfolding evaluate_call_def floor_gates_def server_gates_def Let_def
  by (intro or_else_returns decide_returns assms)

lemma payload_returns:
  assumes "local_engine env" and "\<not> ee_SaveFails env"
  shows "\<not> isl (fst (evaluatePayload env ag root payload l s0))"
proof (cases "control_plane_ok env root s0")
  case True
  then show ?thesis
    using call_returns [OF assms]
    by (simp add: evaluatePayload_proceeds deferred_def case_prod_beta isl_map_sum)
next
  case False
  from evaluatePayload_refuses [OF this] show ?thesis by (metis fst_conv sum.disc(2))
qed

lemma satisfied:
  assumes "\<not> isl (fst out)" and "sat Q out"
  shows "\<exists>resp s' log. out = (Inr resp, s', log) \<and> Q resp log"
  using assms by (cases out) (auto simp: sat_def isl_def split: sum.splits)

lemma sat_mono: "sat Q out \<Longrightarrow> (\<And>resp log. Q resp log \<Longrightarrow> Q' resp log) \<Longrightarrow> sat Q' out"
  by (auto simp: sat_def split: prod.splits sum.splits)

text \<open>The answer on the wire, from the gates and the decision behind them.\<close>

lemma payload_sat:
  assumes refused: "Q (hook_response VerdictDeny) []"
    and gates: "\<And>resp log. stopped (Ls_ObserveOnly l) (call_state env ag payload s0) resp log \<Longrightarrow>
      Q (on_wire l (thinkingDegradeActive env ag payload) resp) log"
    and decision: "\<And>s'. control_plane_ok env root s0 \<Longrightarrow> onward (call_state env ag payload s0) s' \<Longrightarrow>
      sat (\<lambda>resp log. Q (on_wire l (thinkingDegradeActive env ag payload) resp) log)
        (decide env root payload (CollectSignals env payload) (intent_of env payload l)
           (labels_of env root payload l) l (alert_text env s0) s')"
  shows "sat Q (evaluatePayload env ag root payload l s0)"
proof (cases "control_plane_ok env root s0")
  case True
  then show ?thesis
    by (simp only: evaluatePayload_proceeds sat_deferred) (intro call_sat gates decision)
next
  case False
  from evaluatePayload_refuses [OF this, of ag payload l] refused show ?thesis by auto
qed

lemma on_wire_word: "verdict_word (hr_Decision resp) \<Longrightarrow> verdict_word (hr_Decision (on_wire l degrade resp))"
  by (auto simp: on_wire_def applyThinkingGuard_def applyObserveMode_def)

lemma settled_word:
  assumes "settled env payload intent labels l detail s resp d out recorded" and "verdict_word (Resp_Decision resp)"
  shows "verdict_word (hr_Decision out)"
proof -
  have "verdict_word d"
    using settled_decision [OF assms(1)] assms(2) by auto
  with assms(1) show ?thesis by (auto simp: settled_def overlayPendingInjectionWarning_def)
qed

text \<open>C11: every tool call is answered. With the built-in engine and a session that can be saved, the
  handler returns, never with an error, and its answer is one of the three verdicts, whatever the
  providers print, the registry holds and the session went through.\<close>

theorem every_call_answered:
  assumes "local_engine env" and "\<not> ee_SaveFails env"
  shows "\<exists>resp s' log. evaluatePayload env ag root payload l s0 = (Inr resp, s', log)
     \<and> hr_Decision resp \<in> {VerdictAllow, VerdictAsk, VerdictDeny}"
proof -
  have "sat (\<lambda>resp log. verdict_word (hr_Decision resp)) (evaluatePayload env ag root payload l s0)"
  proof (rule payload_sat)
    fix s' :: State
    show "sat (\<lambda>resp log. verdict_word (hr_Decision (on_wire l (thinkingDegradeActive env ag payload) resp)))
      (decide env root payload (CollectSignals env payload) (intent_of env payload l) (labels_of env root payload l) l
        (alert_text env s0) s')"
      by (rule decide_sat, rule on_wire_word, erule settled_word, erule policy_word [OF assms(1)])
  qed (auto simp: stopped_def on_wire_word)
  from satisfied [OF payload_returns [OF assms] this] show ?thesis by auto
qed

theorem every_call_answered_witness:
  "\<exists>resp s' log. evaluatePayload demo_machine None ''/w'' demo_glob DefaultLease clean_session = (Inr resp, s', log)
     \<and> hr_Decision resp \<in> {VerdictAllow, VerdictAsk, VerdictDeny}"
  by (rule every_call_answered) simp_all

subsection \<open>Egress from a session with credentials\<close>

lemma recorded_sat:
  assumes "holds \<Longrightarrow> Q resp [appendEvaluationLedgerEntry env root payload intent labels (hr_Decision resp) observe no_evaluation s]"
    and "\<not> holds \<Longrightarrow> sat Q (k s)"
  shows "sat Q (or_else (recorded_gate env root payload intent labels holds observe resp s) k)"
  using assms by (simp add: recorded_gate_def)

lemmas egress_verb_simps = egress_verbs_def verb_defs VerbRisk_def

text \<open>For egress verbs of other tools than MCP, and apart from installs, no gate before the policy
  asks: they deny as a floor, or the policy decides.\<close>

lemma egress_reaches_policy:
  assumes v: "ti_Verb intent \<in> set egress_verbs" and tool: "\<not> isToolMCP (hp_ToolName payload)"
    and install: "\<not> ti_IsInstall intent"
    and floor: "\<And>log. Q (floor_response VerdictDeny) log" and rest: "sat Q (k s)"
  shows "sat Q (floor_gates env root payload intent labels l s (\<lambda>s. server_gates env root payload intent labels l detail s k))"
proof -
  have risk: "opaqueShellEscalation (hp_ToolName payload) (hp_ToolInput payload) intent = None"
    "\<not> gitConfigSensitiveAsk payload intent"
    using v by (auto simp: opaqueShellEscalation_def gitConfigSensitiveAsk_def egress_verb_simps Let_def split: option.split)
  have "sat Q (server_gates env root payload intent labels l detail s k)"
    using v tool install rest by (subst server_gates_plain) (auto simp: egress_verb_simps)
  moreover have "sirStateTamper (ee_Hook env) intent root = False" "ti_Verb intent \<noteq> VerbSirSelf"
    "evaluateRawSecretReadGate env root payload intent labels l s = pass s"
    using v by (auto simp: sirStateTamper_def evaluateRawSecretReadGate_def egress_verb_simps Let_def)
  ultimately show ?thesis
    unfolding floor_gates_def Let_def by (intro recorded_sat) (auto simp: risk floor)
qed

lemma request_facts:
  "SI_SecretSession (Req_Session (buildCoreRequest env root payload intent l s labels)) = SecretSession s"
  "I_Verb (Req_Intent (buildCoreRequest env root payload intent l s labels)) = ti_Verb intent"
  by (simp_all add: buildCoreRequest_def)

lemma secret_egress_denied:
  assumes "local_engine env" "no_authority env" and "SecretSession s" and "ti_Verb intent \<in> set egress_verbs"
  shows "sat (\<lambda>resp log. resp = floor_response VerdictDeny) (decide env root payload signals intent labels l detail s)"
proof (rule decide_sat)
  fix resp pe d out r
  assume p: "evaluatePolicy env root payload signals intent l s labels = Inr (resp, pe)"
    and st: "settled env payload intent labels l detail s resp d out (ar_Decision r)"
  have "fallback_verdict (buildCoreRequest env root payload intent l s labels) = VerdictDeny"
    using assms(3,4) by (auto simp: fallback_verdict_def refused_def request_facts Let_def)
  with policy_local [OF assms(1)] p assms(2) have "Resp_Decision resp = VerdictDeny" "\<not> Resp_AuthoritativeActive resp"
    by (metis Inr_inject prod.inject verdict_distinct)+
  moreover from this settled_decision [OF st] have "d = VerdictDeny" by (auto simp: verdict_defs)
  moreover have "isSecretExfilFloor intent s labels"
    using assms(3,4) by (auto simp: isSecretExfilFloor_def egress_verbs_def)
  ultimately show "out = floor_response VerdictDeny"
    using st by (simp add: settled_def floor_response_def overlayPendingInjectionWarning_def verdict_defs)
qed

lemma egress_call_denied:
  assumes "local_engine env" "no_authority env" "\<not> ee_SaveFails env" and "\<not> isToolMCP (hp_ToolName payload)"
    and "SecretSession (call_state env ag payload s0)" and "ti_Verb (intent_of env payload l) \<in> set egress_verbs"
    and "\<not> ti_IsInstall (intent_of env payload l)"
  shows "\<exists>resp s' log. evaluatePayload env ag root payload l s0 = (Inr resp, s', log) \<and> hr_Decision resp = VerdictDeny"
proof (rule satisfied [OF payload_returns [OF assms(1,3)]], cases "control_plane_ok env root s0")
  case True
  have wire: "hr_Decision (on_wire l g (floor_response VerdictDeny)) = VerdictDeny" for g
    by (simp add: on_wire_def applyThinkingGuard_def applyObserveMode_def)
  have "sat (\<lambda>resp log. resp = floor_response VerdictDeny)
      (evaluate_call env root payload l (alert_text env s0) (call_state env ag payload s0))"
    unfolding evaluate_call_def Let_def
    using assms by (intro egress_reaches_policy secret_egress_denied) simp_all
  then show "sat (\<lambda>resp log. hr_Decision resp = VerdictDeny) (evaluatePayload env ag root payload l s0)"
    using True wire by (simp only: evaluatePayload_proceeds sat_deferred) (erule sat_mono, simp)
next
  case False
  from evaluatePayload_refuses [OF this, of ag payload l]
  show "sat (\<lambda>resp log. hr_Decision resp = VerdictDeny) (evaluatePayload env ag root payload l s0)" by auto
qed

text \<open>C4: credentials do not leave. With the built-in engine, no authoritative provider, and a session that
  can be saved, once a session holds credentials a call of a tool other than MCP that is classified as a
  request to an external host, a DNS lookup or a push to an unapproved remote, and does not install
  a package, is denied, whatever advisory and policy providers say, grants allow or the lease relaxes, and in
  observe mode as well. Calls that also install a package are the subject of another property.\<close>

theorem secret_egress_held:
  assumes "local_engine env" "no_authority env" "\<not> ee_SaveFails env" and "\<not> isToolMCP (hp_ToolName payload)"
    and "SecretSession (call_state env ag payload s0)" and "ti_Verb (intent_of env payload l) \<in> set egress_verbs"
    and "\<not> ti_IsInstall (intent_of env payload l)"
  shows "\<exists>resp s' log. evaluatePayload env ag root payload l s0 = (Inr resp, s', log) \<and> hr_Decision resp = VerdictDeny"
  by (rule egress_call_denied [OF assms])

lemma network_verb: "VerbNetExternal \<in> set egress_verbs"
  by (simp add: egress_verbs_def)

theorem secret_egress_held_witness:
  "\<exists>resp s' log. evaluatePayload demo_machine None ''/w'' (demo_bash exfiltration) DefaultLease secret_session
     = (Inr resp, s', log) \<and> hr_Decision resp = VerdictDeny"
  by (rule secret_egress_held) (simp_all add: curl_intent tool_intent_def secret_proceeds network_verb)




subsection \<open>An allow is justified\<close>

lemma lineage_same:
  assumes "DerivedFileLineage s' = DerivedFileLineage s"
  shows "derivedLabelsForIntent env root payload intent s' = derivedLabelsForIntent env root payload intent s"
proof -
  have "DerivedLabelsForPath s' = DerivedLabelsForPath s" "DerivedPaths s' = DerivedPaths s"
    using assms by (auto simp: DerivedLabelsForPath_def DerivedPaths_def fun_eq_iff)
  moreover have "derived_labels_loop s' paths out = derived_labels_loop s paths out" for paths out
    using assms by (induction paths arbitrary: out) (auto split: option.split)
  ultimately show ?thesis
    by (simp add: derivedLabelsForIntent_def DerivedLabelsForPaths_def derivedPathsMentionedInCommand_def Let_def)
qed

lemma request_same:
  assumes "decision_facts s' = decision_facts s"
  shows "Req_Intent (buildCoreRequest env root payload intent l s' labels)
      = Req_Intent (buildCoreRequest env root payload intent l s labels)"
    "f \<in> {SI_SecretSession, SI_WasSecret, SI_RecentlyReadUntrusted, SI_UntrustedContentThisTurn, SI_DenyAll} \<Longrightarrow>
     f (Req_Session (buildCoreRequest env root payload intent l s' labels))
      = f (Req_Session (buildCoreRequest env root payload intent l s labels))"
    "Req_LeaseJSON (buildCoreRequest env root payload intent l s' labels)
      = Req_LeaseJSON (buildCoreRequest env root payload intent l s labels)"
    "leaseForbidsVerb (buildCoreRequest env root payload intent l s' labels) v
      = leaseForbidsVerb (buildCoreRequest env root payload intent l s labels) v"
proof -
  note same = lineage_same [OF facts_same(10) [OF assms], of env root payload intent] facts_same [OF assms]
  have cache: "cache_ok (buildCoreRequest env root payload intent l st labels)" for st
    by (simp add: buildCoreRequest_def cache_ok_def)
  show "Req_Intent (buildCoreRequest env root payload intent l s' labels)
      = Req_Intent (buildCoreRequest env root payload intent l s labels)"
    by (simp add: buildCoreRequest_def same)
  show "f \<in> {SI_SecretSession, SI_WasSecret, SI_RecentlyReadUntrusted, SI_UntrustedContentThisTurn, SI_DenyAll} \<Longrightarrow>
     f (Req_Session (buildCoreRequest env root payload intent l s' labels))
      = f (Req_Session (buildCoreRequest env root payload intent l s labels))"
    by (elim insertE emptyE) (simp_all add: buildCoreRequest_def same)
  show lease: "Req_LeaseJSON (buildCoreRequest env root payload intent l s' labels)
      = Req_LeaseJSON (buildCoreRequest env root payload intent l s labels)"
    by (simp add: buildCoreRequest_def)
  show "leaseForbidsVerb (buildCoreRequest env root payload intent l s' labels) v
      = leaseForbidsVerb (buildCoreRequest env root payload intent l s labels) v"
    by (simp only: leaseForbids_iff [OF cache] lease)
qed

lemma verdict_same:
  assumes "decision_facts s' = decision_facts s"
  shows "fallback_verdict (buildCoreRequest env root payload intent l s' labels)
       = fallback_verdict (buildCoreRequest env root payload intent l s labels)"
  by (simp only: fallback_verdict_def refused_def questioned_def effective_labels_def untrusted_context_def Let_def
      request_same(1,3,4) [OF assms] request_same(2) [OF assms] insert_iff refl simp_thms)

text \<open>What a relaxation needs.\<close>

definition needs :: "(State \<Rightarrow> bool) \<Rightarrow> relax \<Rightarrow> bool" where
  "needs P f \<longleftrightarrow> (\<forall>s. fst (f (VerdictAsk, s)) = VerdictAllow \<longrightarrow> P s)"

lemma needs_if: "(\<And>s. ok s \<Longrightarrow> P s) \<Longrightarrow> needs P (relax_if ok)"
  by (auto simp: needs_def relax_if_def split: if_splits)

lemma needs_reused: "(\<And>s. a s \<Longrightarrow> P s) \<Longrightarrow> needs P (relax_reused a b m)"
  by (auto simp: needs_def relax_reused_def split: if_splits)

lemma needs_comp:
  assumes f: "needs P f" and g: "needs P g" and r: "relaxes g"
    and P: "\<And>s s'. decision_facts s' = decision_facts s \<Longrightarrow> P s' \<Longrightarrow> P s"
  shows "needs P (f \<circ> g)"
  unfolding needs_def
proof (intro allI impI)
  fix s assume a: "fst ((f \<circ> g) (VerdictAsk, s)) = VerdictAllow"
  obtain d s' where gd: "g (VerdictAsk, s) = (d, s')" by fastforce
  then have "d = VerdictAsk \<or> d = VerdictAllow" and facts: "decision_facts s' = decision_facts s"
    using r [unfolded relaxes_def, rule_format, of VerdictAsk s] by auto
  then show "P s"
    using f g gd a P [OF facts] by (auto simp: needs_def)
qed

lemma safe_back: "decision_facts s' = decision_facts s \<Longrightarrow> autoLeaseSafeContext s' \<Longrightarrow> autoLeaseSafeContext s"
  using safe_context_same [of s' s] by blast

lemma convenience_needs:
  "needs (\<lambda>s. autoLeaseSafeContext s) (narrow_env_read l intent \<circ> reuse_push VerbPushOrigin l intent
     \<circ> reuse_push VerbPushRemote l intent \<circ> reuse_ephemeral l intent \<circ> quiet_mcp_friction l payload intent
     \<circ> silent_approved_host l intent)"
  unfolding narrow_env_read_def reuse_push_def reuse_ephemeral_def quiet_mcp_friction_def silent_approved_host_def
  by (intro needs_comp needs_if needs_reused relaxes_steps) (simp | erule safe_back, assumption)+

lemma consumed_grant: "ConsumeApprovalGrant now v t s = (Some g, s') \<Longrightarrow> HasApprovalGrant now v t s"
  using consume_loop_result [of now "strings_TrimSpace v" "strings_TrimSpace t" "ApprovalGrants s"]
  by (auto simp: ConsumeApprovalGrant_def HasApprovalGrant_def has_grant_iff find_Some_iff split: prod.splits)

lemma convenience_justified:
  assumes "fst (convenience env l payload intent (VerdictAsk, s)) = VerdictAllow"
  shows "HasApprovalGrant (ee_Now env) (ti_Verb intent) (ti_Target intent) s \<or> autoLeaseSafeContext s"
proof (cases "ConsumeApprovalGrant (ee_Now env) (ti_Verb intent) (ti_Target intent) s")
  case (Pair g s')
  show ?thesis
  proof (cases g)
    case None
    then have "approval_grant env intent (VerdictAsk, s) = (VerdictAsk, s')" using Pair by (simp add: approval_grant_def)
    with assms convenience_needs [of l intent payload] have "autoLeaseSafeContext s'"
      by (simp add: convenience_def needs_def)
    with safe_context_same [OF consumed_state [OF Pair]] show ?thesis by simp
  next
    case (Some x)
    with Pair consumed_grant show ?thesis by blast
  qed
qed

definition justified :: "EvalEnv \<Rightarrow> string \<Rightarrow> HookPayload \<Rightarrow> ToolIntent \<Rightarrow> Label \<Rightarrow> Lease \<Rightarrow> State \<Rightarrow> bool" where
  "justified env root payload intent labels l s =
    (let v = fallback_verdict (buildCoreRequest env root payload intent l s labels) in
     v = VerdictAllow
     \<or> v = VerdictAsk
       \<and> (HasApprovalGrant (ee_Now env) (ti_Verb intent) (ti_Target intent) s \<or> autoLeaseSafeContext s))"

lemma overlay_allows:
  "hr_Decision (overlayPendingInjectionWarning detail resp) = VerdictAllow \<longleftrightarrow> detail = [] \<and> hr_Decision resp = VerdictAllow"
  by (auto simp: overlayPendingInjectionWarning_def)

lemma settled_allows:
  assumes "settled env payload intent labels l detail s resp d out recorded" and "hr_Decision out = VerdictAllow"
  shows "detail = [] \<and> settled env payload intent labels l detail s resp VerdictAllow out recorded"
  using assms by (auto simp: settled_def overlay_allows)

lemma policy_justified:
  assumes "local_engine env" "no_authority env"
    and p: "evaluatePolicy env root payload signals intent l s labels = Inr (resp, pe)"
    and st: "settled env payload intent labels l detail s resp VerdictAllow out recorded"
  shows "justified env root payload intent labels l s"
proof -
  let ?v = "fallback_verdict (buildCoreRequest env root payload intent l s labels)"
  have r: "\<not> Resp_AuthoritativeActive resp \<and> (Resp_Decision resp = ?v \<or> Resp_Decision resp = VerdictAsk \<and> ?v = VerdictAllow)"
    using policy_local [OF assms(1)] p assms(2) by (metis Inr_inject prod.inject)
  from settled_decision [OF st] show ?thesis
  proof
    assume "VerdictAllow = Resp_Decision resp"
    with r show ?thesis by (auto simp: justified_def Let_def)
  next
    assume a: "VerdictAllow = VerdictAllow \<and> Resp_Decision resp = VerdictAsk \<and> \<not> Resp_AuthoritativeActive resp"
    then have "fst (convenience env l payload intent (VerdictAsk, s)) = VerdictAllow"
      using st by (simp add: settled_def)
    with convenience_justified r a show ?thesis by (auto simp: justified_def Let_def)
  qed
qed

lemma justified_onward:
  "onward s s' \<Longrightarrow> justified env root payload intent labels l s' \<Longrightarrow> justified env root payload intent labels l s"
  using verdict_same [OF onward_facts, of s s'] safe_context_same [OF onward_facts, of s s']
  by (auto simp: justified_def Let_def onward_def)

lemma plain_wire: "\<not> Ls_ObserveOnly l \<Longrightarrow> hr_Decision (on_wire l g resp) = VerdictAllow \<longleftrightarrow> hr_Decision resp = VerdictAllow"
  by (auto simp: on_wire_def applyThinkingGuard_def)

text \<open>C8: an allow is justified. With the built-in engine, outside observe mode and without an authoritative
  provider, the agent is told to go on only if the control plane is intact, no injection warning was pending, and
  the built-in policy allows the call, or asks about it while an approval grant covers the
  verb and target or the session is in a clean context (no credentials, no untrusted
  content, normal posture, no tainted server).\<close>

theorem allow_is_justified:
  assumes "local_engine env" "no_authority env" "\<not> Ls_ObserveOnly l"
    and "evaluatePayload env ag root payload l s0 = (Inr resp, s', log)" and "hr_Decision resp = VerdictAllow"
  shows "control_plane_ok env root s0 \<and> alert_text env s0 = []
     \<and> justified env root payload (intent_of env payload l) (labels_of env root payload l) l (call_state env ag payload s0)"
proof -
  have "sat (\<lambda>resp log. hr_Decision resp = VerdictAllow \<longrightarrow> control_plane_ok env root s0 \<and> alert_text env s0 = []
     \<and> justified env root payload (intent_of env payload l) (labels_of env root payload l) l (call_state env ag payload s0))
     (evaluatePayload env ag root payload l s0)"
  proof (rule payload_sat)
    fix s1 assume cp: "control_plane_ok env root s0" and on: "onward (call_state env ag payload s0) s1"
    show "sat (\<lambda>resp log. hr_Decision (on_wire l (thinkingDegradeActive env ag payload) resp) = VerdictAllow \<longrightarrow>
        control_plane_ok env root s0 \<and> alert_text env s0 = []
        \<and> justified env root payload (intent_of env payload l) (labels_of env root payload l) l (call_state env ag payload s0))
      (decide env root payload (CollectSignals env payload) (intent_of env payload l) (labels_of env root payload l) l
        (alert_text env s0) s1)"
    proof (rule decide_sat, unfold plain_wire [OF assms(3)], rule impI)
      fix resp pe d out r
      assume p: "evaluatePolicy env root payload (CollectSignals env payload) (intent_of env payload l) l s1
          (labels_of env root payload l) = Inr (resp, pe)"
        and st: "settled env payload (intent_of env payload l) (labels_of env root payload l) l (alert_text env s0) s1
          resp d out (ar_Decision r)" and "hr_Decision out = VerdictAllow"
      from settled_allows [OF st this(3)] policy_justified [OF assms(1,2) p] justified_onward [OF on] cp
      show "control_plane_ok env root s0 \<and> alert_text env s0 = []
        \<and> justified env root payload (intent_of env payload l) (labels_of env root payload l) l (call_state env ag payload s0)"
        by blast
    qed
  qed (auto simp: stopped_def plain_wire [OF assms(3)])
  with assms(4,5) show ?thesis by simp
qed

end
