(* ===== verification/Hooks_Authority.thy ===== *)
theory Hooks_Authority
  imports Hooks_Properties
begin

text \<open>
  The authoritative provider cannot fail open, calls that change sir are held in every mode, the
  ledger says what the agent was told, and clean work is not held up.
\<close>

subsection \<open>The authoritative provider\<close>

lemma reduce_allows:
  "reduce_verdicts vs final rules reason = Inr (VerdictAllow, rs, why) \<Longrightarrow>
   final = VerdictAllow \<and> list_all (\<lambda>v. PV_Verdict v = VerdictAllow) vs"
proof (induction vs arbitrary: final rules reason)
  case (Cons v vs)
  then show ?case
    by (fastforce simp: Let_def verdictRank_def split: if_splits)
qed simp

lemma resolve_allows:
  assumes "ao_Verdict (resolveAuthoritative run e req managed) = VerdictAllow"
  shows "\<exists>vs. invokePolicy run e req = Inr vs \<and> vs \<noteq> [] \<and> list_all (\<lambda>v. PV_Verdict v = VerdictAllow) vs"
proof -
  have "ao_Verdict (failed_outcome e managed why) \<noteq> VerdictAllow" for why
    using failed_outcome_held [of e managed why] by auto
  with assms show ?thesis
    by (auto simp: resolveAuthoritative_def simp del: reduce_verdicts.simps list.pred_inject
          split: sum.splits list.splits dest: reduce_allows)
qed

lemma policy_overridden:
  assumes "evaluatePolicy env root payload signals intent l s labels = Inr (resp, pe)"
  shows "\<exists>native. Resp_Decision resp = Resp_Decision (fst (override env (policy_request payload signals intent l s) l native))
     \<and> Resp_AuthoritativeActive resp =
         Resp_AuthoritativeActive (fst (override env (policy_request payload signals intent l s) l native))"
  using assms by (auto simp: evaluatePolicy_def Let_def case_prod_beta split: sum.splits)

lemma policy_request_same:
  "decision_facts s' = decision_facts s \<Longrightarrow> policy_request payload signals intent l s' = policy_request payload signals intent l s"
  by (simp add: policy_request_def sessionTaintList_def decision_facts_def Let_def)

text \<open>What the registry must say for an allow.\<close>

definition authority_allows :: "EvalEnv \<Rightarrow> PolicyRequest \<Rightarrow> bool" where
  "authority_allows env req =
    (case ee_Registry env of
       Inl _ \<Rightarrow> False
     | Inr reg \<Rightarrow>
         (case activeAuthoritativePolicyProvider reg of
            None \<Rightarrow> True
          | Some e \<Rightarrow>
              (case invokePolicy (ee_Run env) e req of
                 Inl _ \<Rightarrow> False
               | Inr vs \<Rightarrow> vs \<noteq> [] \<and> list_all (\<lambda>v. PV_Verdict v = VerdictAllow) vs)))"

lemma policy_authorised:
  assumes p: "evaluatePolicy env root payload signals intent l s labels = Inr (resp, pe)"
    and st: "settled env payload intent labels l detail s resp VerdictAllow out recorded"
  shows "authority_allows env (policy_request payload signals intent l s)"
proof -
  obtain native where n: "Resp_Decision resp = Resp_Decision (fst (override env (policy_request payload signals intent l s) l native))"
      "Resp_AuthoritativeActive resp =
        Resp_AuthoritativeActive (fst (override env (policy_request payload signals intent l s) l native))"
    using policy_overridden [OF p] by blast
  have active: "Resp_AuthoritativeActive resp \<Longrightarrow> Resp_Decision resp = VerdictAllow"
    using settled_decision [OF st] by auto
  show ?thesis
  proof (cases "ee_Registry env")
    case (Inl err)
    with n active show ?thesis by (auto simp: override_def corrupt_registry_def Let_def split: if_splits)
  next
    case (Inr reg)
    show ?thesis
    proof (cases "activeAuthoritativePolicyProvider reg")
      case None
      with Inr show ?thesis by (simp add: authority_allows_def)
    next
      case (Some e)
      with Inr n active have "ao_Verdict (resolveAuthoritative (ee_Run env) e
          (policy_request payload signals intent l s) (leaseIsManaged l)) = VerdictAllow"
        by (simp add: override_def authoritative_override_def)
      from resolve_allows [OF this] Inr Some show ?thesis by (auto simp: authority_allows_def)
    qed
  qed
qed

text \<open>C9: the authority cannot fail open, outside observe mode. There an allow reaches the agent only if the
  provider registry could be read and, when an authoritative provider is active, that provider
  was run on this request and its decoded answer holds at least one verdict, all of them allow. A
  corrupt registry, a crash, a timeout and an answer without a verdict never allow. (Entries whose verdict is not
  one of the three words are dropped when the answer is decoded, before this check: another property shows
  that they are granted next to an allow.)\<close>

theorem authority_fails_closed:
  assumes "\<not> Ls_ObserveOnly l"
    and "evaluatePayload env ag root payload l s0 = (Inr resp, s', log)" and "hr_Decision resp = VerdictAllow"
  shows "authority_allows env
     (policy_request payload (CollectSignals env payload) (intent_of env payload l) l (call_state env ag payload s0))"
proof -
  let ?ok = "authority_allows env
     (policy_request payload (CollectSignals env payload) (intent_of env payload l) l (call_state env ag payload s0))"
  have "sat (\<lambda>resp log. hr_Decision resp = VerdictAllow \<longrightarrow> ?ok) (evaluatePayload env ag root payload l s0)"
  proof (rule payload_sat)
    fix s1 assume on: "onward (call_state env ag payload s0) s1"
    show "sat (\<lambda>resp log. hr_Decision (on_wire l (thinkingDegradeActive env ag payload) resp) = VerdictAllow \<longrightarrow> ?ok)
      (decide env root payload (CollectSignals env payload) (intent_of env payload l) (labels_of env root payload l) l
        (alert_text env s0) s1)"
    proof (rule decide_sat, unfold plain_wire [OF assms(1)], rule impI)
      fix resp pe d out r
      assume p: "evaluatePolicy env root payload (CollectSignals env payload) (intent_of env payload l) l s1
          (labels_of env root payload l) = Inr (resp, pe)"
        and st: "settled env payload (intent_of env payload l) (labels_of env root payload l) l (alert_text env s0) s1
          resp d out (ar_Decision r)" and "hr_Decision out = VerdictAllow"
      from settled_allows [OF st this(3)] policy_authorised [OF p]
      show ?ok using policy_request_same [OF onward_facts [OF on]] by metis
    qed
  qed (auto simp: stopped_def plain_wire [OF assms(1)])
  with assms(2,3) show ?thesis by simp
qed

definition verdict_output :: "string list \<Rightarrow> string" where
  "verdict_output words = json_print (JArray (map (\<lambda>w. JObject [(''verdict'', JString w)]) words))"

lemma TrimSpace_brackets: "strings_TrimSpace (CHR ''['' # t @ [CHR '']'']) = CHR ''['' # t @ [CHR '']'']"
  by (simp add: strings_TrimSpace_def ascii_space_def)

lemma output_shape: "strings_TrimSpace (verdict_output words) = verdict_output words"
  "strings_HasPrefix (verdict_output words) ''[''" "verdict_output words \<noteq> []"
  using TrimSpace_brackets by (simp_all add: verdict_output_def)

lemma decode_word:
  "decode_policy_response (JObject [(''verdict'', JString w)]) =
     Some \<lparr>rp_Provider = [], rp_Verdict = w, rp_RulesMatched = [], rp_Reason = []\<rparr>"
proof -
  have "fold_key ''verdict'' \<noteq> fold_key k"
    if "k \<in> {''schema_version'', ''provider'', ''rules_matched'', ''reason'', ''is_advisory''}" for k
    using that by (elim insertE emptyE; simp only:; code_simp)
  then show ?thesis by (simp add: decode_policy_response_def field_value_def struct_field_def)
qed

lemma parse_output:
  assumes "list_all utf8_ValidString words"
  shows "parsePolicyVerdicts n (verdict_output words) = Inr (toVerdicts
    (map (\<lambda>w. \<lparr>rp_Provider = [], rp_Verdict = w, rp_RulesMatched = [], rp_Reason = []\<rparr>) words))"
proof -
  let ?v = "JArray (map (\<lambda>w. JObject [(''verdict'', JString w)]) words)"
  have flat: "foldr (\<lambda>v. max (depth v)) (map (\<lambda>w. JObject [(''verdict'', JString w)]) ws) 0 \<le> 1" for ws
    by (induction ws) auto
  have "utf8_ValidString ''verdict''" by code_simp
  then have "printable ?v" using assms by (auto simp: list_all_iff)
  moreover have "depth ?v \<le> max_depth" using flat [of words] by (simp add: max_depth_def comp_def)
  ultimately have "json_parse (verdict_output words) = Some ?v"
    using reads_backD [OF print_reads_back, of ?v 0 "2 * length (json_print ?v) + 2" "[]"]
    by (simp add: json_parse_def verdict_output_def del: json_print.simps)
  moreover have "those (map (decode_policy_response \<circ> (\<lambda>w. JObject [(''verdict'', JString w)])) words) =
      Some (map (\<lambda>w. \<lparr>rp_Provider = [], rp_Verdict = w, rp_RulesMatched = [], rp_Reason = []\<rparr>) words)"
    by (induction words) (simp_all add: decode_word)
  ultimately show ?thesis
    by (simp add: parsePolicyVerdicts_def output_shape unmarshal_responses_def)
qed

text \<open>C17: a malformed decision is granted. The reduction holds a call for a verdict word it does not know,
  but such words are dropped when the output is decoded: a provider that prints
  \<open>[{"verdict": "allow"}, {"verdict": "block"}]\<close> allows the call, also in managed mode, while
  the second verdict alone is refused.\<close>

theorem unknown_verdict_is_dropped:
  "ao_Verdict (resolveAuthoritative (\<lambda>_ _. Inr (verdict_output [''allow'', ''block''], [])) e req True) = VerdictAllow
   \<and> ao_Verdict (resolveAuthoritative (\<lambda>_ _. Inr (verdict_output [''block''], [])) e req True) = VerdictDeny"
proof -
  have "list_all utf8_ValidString [''allow'', ''block'']" by code_simp
  then have "parsePolicyVerdicts n (verdict_output [''allow'', ''block'']) = Inr [\<lparr>PV_Provider = [], PV_Verdict = ''allow'',
      PV_RulesMatched = [], PV_Reason = [], PV_IsAdvisory = True\<rparr>]" "parsePolicyVerdicts n (verdict_output [''block'']) = Inr []" for n
    by (simp_all add: parse_output)
  then show ?thesis
    by (simp add: resolveAuthoritative_def invokePolicy_def output_shape verdict_defs failed_outcome_def
          OnFailureDeny_def verdictRank_def Let_def)
qed

subsection \<open>Sir's own state\<close>

lemma opaque_none:
  "VerbRisk VerbExecuteDryRun < VerbRisk (ti_Verb i) \<Longrightarrow> opaqueShellEscalation tool input i = None"
  by (simp add: opaqueShellEscalation_def Let_def split: option.split)

text \<open>A call classified as one that changes sir is asked about or denied, a write that the detector takes for
  one of sir's state is denied, in every mode.\<close>

lemma self_call_held:
  assumes "ti_Verb (intent_of env payload l) = VerbSirSelf \<or> sirStateTamper (ee_Hook env) (intent_of env payload l) root"
  shows "\<exists>resp s' log. evaluatePayload env ag root payload l s0 = (Inr resp, s', log)
     \<and> hr_Decision resp \<in> {VerdictAsk, VerdictDeny}
     \<and> (sirStateTamper (ee_Hook env) (intent_of env payload l) root \<longrightarrow> hr_Decision resp = VerdictDeny)"
proof (cases "control_plane_ok env root s0")
  case False
  from evaluatePayload_refuses [OF this, of ag payload l] show ?thesis by auto
next
  case True
  let ?i = "intent_of env payload l"
  let ?Q = "\<lambda>resp log. hr_Floor resp \<and> (hr_Decision resp = VerdictDeny
      \<or> hr_Decision resp = VerdictAsk \<and> \<not> sirStateTamper (ee_Hook env) ?i root)"
  have risk: "VerbRisk VerbExecuteDryRun < VerbRisk (ti_Verb ?i)"
    using assms by (auto simp: sirStateTamper_def Let_def VerbRisk_def verb_defs)
  note gates = opaque_none [OF risk]
  let ?call = "evaluate_call env root payload l (alert_text env s0) (call_state env ag payload s0)"
  have stop: "\<not> isl (fst ?call) \<and> sat ?Q ?call"
    using assms
    by (auto simp: evaluate_call_def floor_gates_def recorded_gate_def gates Let_def)
  then obtain resp s' log where "?call = (Inr resp, s', log)" "?Q resp log"
    using satisfied [of ?call ?Q] by blast
  moreover from this have "hr_Decision (on_wire l g resp) \<in> {VerdictAsk, VerdictDeny}
      \<and> (sirStateTamper (ee_Hook env) ?i root \<longrightarrow> hr_Decision (on_wire l g resp) = VerdictDeny)" for g
    by (auto simp: on_wire_def applyThinkingGuard_def applyObserveMode_def)
  ultimately show ?thesis
    by (simp add: evaluatePayload_proceeds [OF True] deferred_def on_wire_def)
qed

subsection \<open>The ledger\<close>

lemma wire_record:
  assumes "\<not> Ls_ObserveOnly l" and "onward (call_state env ag payload s0) s"
  shows "thinkingDegradedLedgerDecision s (hr_Decision resp)
    = hr_Decision (on_wire l (thinkingDegradeActive env ag payload) resp)"
proof -
  have "ThinkingGuardActive s = thinkingDegradeActive env ag payload"
    using onward_facts [OF assms(2)] by (simp add: decision_facts_def call_state_def)
  with assms(1) show ?thesis
    by (simp add: on_wire_def thinkingDegradedLedgerDecision_def applyThinkingGuard_def)
qed

text \<open>C13: the ledger says what the agent was told. Outside observe mode, when no injection warning was
  pending, every record of the evaluation carries the decision that was sent, the stricter
  one when extended thinking turns a question into a denial.\<close>

theorem ledger_agrees:
  assumes "\<not> Ls_ObserveOnly l" "alert_text env s0 = []"
    and "evaluatePayload env ag root payload l s0 = (Inr resp, s', log)"
  shows "list_all (\<lambda>r. ar_Decision r = hr_Decision resp) log"
proof -
  have "sat (\<lambda>resp. list_all (\<lambda>r. ar_Decision r = hr_Decision resp)) (evaluatePayload env ag root payload l s0)"
  proof (rule payload_sat)
    fix s1 assume on: "onward (call_state env ag payload s0) s1"
    show "sat (\<lambda>resp. list_all (\<lambda>r. ar_Decision r = hr_Decision (on_wire l (thinkingDegradeActive env ag payload) resp)))
      (decide env root payload (CollectSignals env payload) (intent_of env payload l) (labels_of env root payload l) l
        (alert_text env s0) s1)"
      by (rule decide_sat)
         (simp add: settled_def assms(1,2) overlayPendingInjectionWarning_def flip: wire_record [OF assms(1) on])
  qed (simp_all add: stopped_def assms(1) flip: wire_record [OF assms(1) onward_refl [of "call_state env ag payload s0"]])
  with assms(3) show ?thesis by simp
qed

subsection \<open>Clean work\<close>

definition reading_verbs :: "Verb list" where
  "reading_verbs = [VerbReadRef, VerbListFiles, VerbSearchCode]"

lemma reading_passes_gates:
  assumes v: "ti_Verb intent \<in> set reading_verbs" and tool: "hp_ToolName payload \<noteq> ''Bash''" "\<not> isToolMCP (hp_ToolName payload)"
    and plain: "\<not> ti_IsSensitive intent" "\<not> ti_IsInstall intent" and rest: "sat Q (k s)"
  shows "sat Q (floor_gates env root payload intent labels l s (\<lambda>s. server_gates env root payload intent labels l detail s k))"
proof -
  have "sat Q (server_gates env root payload intent labels l detail s k)"
    using v tool plain rest by (subst server_gates_plain) (auto simp: reading_verbs_def verb_defs)
  moreover have "\<not> sirStateTamper (ee_Hook env) intent root" "ti_Verb intent \<noteq> VerbSirSelf"
    "\<not> outboundSecretLeak env payload intent s" "\<not> dnsTunnelEscalation intent"
    "opaqueShellEscalation (hp_ToolName payload) (hp_ToolInput payload) intent = None"
    "\<not> gitConfigSensitiveAsk payload intent"
    "evaluateRawSecretReadGate env root payload intent labels l s = pass s"
    using v tool plain
    by (auto simp: sirStateTamper_def evaluateRawSecretReadGate_def outboundSecretLeak_def isOutboundVerb_def
          dnsTunnelEscalation_def opaqueShellEscalation_def gitConfigSensitiveAsk_def reading_verbs_def verb_defs Let_def)
  ultimately show ?thesis
    unfolding floor_gates_def Let_def by (intro recorded_sat) auto
qed

lemma reading_allowed:
  assumes "local_engine env" "no_authority env" and "\<not> SecretSession s" "\<not> SessionEverSecret s" "\<not> DenyAll s"
    and v: "ti_Verb intent \<in> set reading_verbs" and "\<not> ti_IsSensitive intent"
  shows "sat (\<lambda>resp log. resp = overlayPendingInjectionWarning detail (hook_response VerdictAllow)
       \<and> map ar_Decision log = [recordedDecisionFor l VerdictAllow])
     (decide env root payload signals intent labels l detail s)"
proof (rule decide_sat)
  fix resp pe d out r
  let ?req = "buildCoreRequest env root payload intent l s labels"
  assume p: "evaluatePolicy env root payload signals intent l s labels = Inr (resp, pe)"
    and st: "settled env payload intent labels l detail s resp d out (ar_Decision r)"
  have "ti_Verb intent = VerbReadRef \<or> ti_Verb intent = VerbListFiles \<or> ti_Verb intent = VerbSearchCode"
    using v by (simp add: reading_verbs_def)
  then have "fallback_verdict ?req = VerdictAllow \<and> isLocalCleanDeveloperWorkflow ?req"
    using assms(3-5,7)
    by (elim disjE) (simp_all add: fallback_verdict_def refused_def questioned_def buildCoreRequest_def
          isLocalCleanDeveloperWorkflow_def approval_verbs_def egress_verbs_def detection_verbs_def verb_defs Let_def)
  then have "fallback_verdict ?req = VerdictAllow" "isLocalCleanDeveloperWorkflow ?req" by blast+
  with policy_local [OF assms(1)] p assms(2) have "Resp_Decision resp = VerdictAllow" "\<not> Resp_AuthoritativeActive resp"
    by (metis Inr_inject prod.inject)+
  moreover from this settled_decision [OF st] have "d = VerdictAllow" by auto
  ultimately show "out = overlayPendingInjectionWarning detail (hook_response VerdictAllow)
      \<and> map ar_Decision [r] = [recordedDecisionFor l VerdictAllow]"
    using st by (auto simp: settled_def hook_response_def overlayPendingInjectionWarning_def recordedDecisionFor_def
        thinkingDegradedLedgerDecision_def)
qed

lemma call_state_facts:
  "DenyAll (call_state env ag payload s0) = DenyAll (entered env s0)"
  by (simp add: call_state_def alert_consumed_def consumePendingInjectionAlert_def Save_def
        ClearPendingInjectionAlert_def Let_def)

definition reading_call :: "EvalEnv \<Rightarrow> string option \<Rightarrow> string \<Rightarrow> HookPayload \<Rightarrow> Lease \<Rightarrow> State \<Rightarrow> bool" where
  "reading_call env ag root payload l s0 \<longleftrightarrow>
     control_plane_ok env root s0
     \<and> \<not> SecretSession (call_state env ag payload s0) \<and> \<not> SessionEverSecret (call_state env ag payload s0)
     \<and> hp_ToolName payload \<noteq> ''Bash'' \<and> \<not> isToolMCP (hp_ToolName payload)
     \<and> ti_Verb (intent_of env payload l) \<in> set reading_verbs
     \<and> \<not> ti_IsSensitive (intent_of env payload l) \<and> \<not> ti_IsInstall (intent_of env payload l)"

lemma reading_answer:
  assumes "local_engine env" "no_authority env" "\<not> ee_SaveFails env" and call: "reading_call env ag root payload l s0"
  shows "\<exists>s' log. evaluatePayload env ag root payload l s0 =
      (Inr (on_wire l (thinkingDegradeActive env ag payload)
         (overlayPendingInjectionWarning (alert_text env s0) (hook_response VerdictAllow))), s', log)
    \<and> map ar_Decision log = [recordedDecisionFor l VerdictAllow]"
proof -
  have cp: "control_plane_ok env root s0" using call by (simp add: reading_call_def)
  have "sat (\<lambda>resp log. resp = overlayPendingInjectionWarning (alert_text env s0) (hook_response VerdictAllow)
       \<and> map ar_Decision log = [recordedDecisionFor l VerdictAllow])
      (evaluate_call env root payload l (alert_text env s0) (call_state env ag payload s0))"
    unfolding evaluate_call_def Let_def
    using assms by (intro reading_passes_gates reading_allowed)
      (simp_all add: reading_call_def control_plane_ok_def call_state_facts)
  then have "sat (\<lambda>resp log. resp = on_wire l (thinkingDegradeActive env ag payload)
         (overlayPendingInjectionWarning (alert_text env s0) (hook_response VerdictAllow))
       \<and> map ar_Decision log = [recordedDecisionFor l VerdictAllow]) (evaluatePayload env ag root payload l s0)"
    by (simp only: evaluatePayload_proceeds [OF cp] sat_deferred) (erule sat_mono, simp)
  from satisfied [OF payload_returns [OF assms(1,3)] this] show ?thesis by auto
qed

lemma calm_wire:
  "on_wire l g (overlayPendingInjectionWarning [] (hook_response VerdictAllow)) = hook_response VerdictAllow"
  by (simp add: on_wire_def applyThinkingGuard_def applyObserveMode_def overlayPendingInjectionWarning_def)

lemma warned_wire:
  "detail \<noteq> [] \<Longrightarrow> \<not> Ls_ObserveOnly l \<Longrightarrow>
   hr_Decision (on_wire l g (overlayPendingInjectionWarning detail (hook_response VerdictAllow))) =
     (if g then VerdictDeny else VerdictAsk)"
  by (simp add: on_wire_def applyThinkingGuard_def overlayPendingInjectionWarning_def)

text \<open>C14: clean work is not held up. With the built-in engine, no authoritative provider and a session that can be saved, outside
  observe mode, with an intact control plane, in a session that never held credentials and has no injection
  warning pending, reading, listing and searching ordinary files is allowed at once and recorded as allowed,
  whatever advisory and policy providers say.\<close>

theorem clean_reading_flows:
  assumes "local_engine env" "no_authority env" "\<not> ee_SaveFails env" "\<not> Ls_ObserveOnly l"
    and "reading_call env ag root payload l s0" "alert_text env s0 = []"
  shows "\<exists>s' log. evaluatePayload env ag root payload l s0 = (Inr (hook_response VerdictAllow), s', log)
     \<and> map ar_Decision log = [VerdictAllow]"
  using reading_answer [OF assms(1-3,5)] assms(4,6) by (simp add: calm_wire recordedDecisionFor_def)

text \<open>C15: a warned call is recorded as allowed. Under the conditions of the property before, but with an injection
  warning pending, the same reading call is answered with a question (a denial under extended thinking),
  while the ledger records an allow: the record is made from the decision of the policy and not from the answer.\<close>

theorem warned_call_recorded_as_allowed:
  assumes "local_engine env" "no_authority env" "\<not> ee_SaveFails env" "\<not> Ls_ObserveOnly l"
    and "reading_call env ag root payload l s0" "alert_text env s0 \<noteq> []"
  shows "\<exists>resp s' log. evaluatePayload env ag root payload l s0 = (Inr resp, s', log)
     \<and> hr_Decision resp = (if thinkingDegradeActive env ag payload then VerdictDeny else VerdictAsk)
     \<and> map ar_Decision log = [VerdictAllow]"
  using reading_answer [OF assms(1-3,5)] warned_wire [OF assms(6,4)] assms(4) by (auto simp: recordedDecisionFor_def)

lemma glob_reading: "reading_call demo_machine None ''/w'' demo_glob DefaultLease clean_session"
  by (simp add: reading_call_def glob_intent [simplified] tool_intent_def reading_verbs_def clean_proceeds)

lemma glob_allowed:
  "\<exists>s' log. evaluatePayload demo_machine None ''/w'' demo_glob DefaultLease clean_session
     = (Inr (hook_response VerdictAllow), s', log)"
  using reading_answer [OF _ _ _ glob_reading] by (auto simp: clean_proceeds calm_wire)

theorem clean_reading_flows_witness:
  "\<exists>s' log. evaluatePayload demo_machine None ''/w'' demo_glob DefaultLease clean_session
     = (Inr (hook_response VerdictAllow), s', log) \<and> map ar_Decision log = [VerdictAllow]"
  by (rule clean_reading_flows) (simp_all add: glob_reading clean_proceeds)

definition warned_session :: State where
  "warned_session = Save demo_machine (SetPendingInjectionAlert ''hidden text'' (NewState 1 1 ''/w''))"

theorem warned_call_recorded_as_allowed_witness:
  "\<exists>resp s' log. evaluatePayload demo_machine None ''/w'' demo_glob DefaultLease warned_session = (Inr resp, s', log)
     \<and> hr_Decision resp = VerdictAsk \<and> map ar_Decision log = [VerdictAllow]"
proof -
  have "reading_call demo_machine None ''/w'' demo_glob DefaultLease warned_session"
    "alert_text demo_machine warned_session = ''hidden text''"
    by (simp_all add: reading_call_def glob_intent [simplified] tool_intent_def reading_verbs_def warned_session_def
          control_plane_ok_def alert_text_def alert_consumed_def call_state_def entered_def
          consumePendingInjectionAlert_def MaybeAdvanceTurn_def Save_def Let_def VerifySessionIntegrity_def
          VerifyLeaseIntegrity_def session_digest_def Time_IsZero_def SetPendingInjectionAlert_def NewState_def
          ClearPendingInjectionAlert_def demo_machine_def)
  from warned_call_recorded_as_allowed [OF _ _ _ _ this(1)] this(2) show ?thesis
    by (simp add: thinkingDegradeActive_def)
qed

subsection \<open>Witnesses on that call\<close>

theorem allow_is_justified_witness:
  "control_plane_ok demo_machine ''/w'' clean_session \<and> alert_text demo_machine clean_session = []
   \<and> justified demo_machine ''/w'' demo_glob (intent_of demo_machine demo_glob DefaultLease)
       (labels_of demo_machine ''/w'' demo_glob DefaultLease) DefaultLease (call_state demo_machine None demo_glob clean_session)"
proof -
  obtain s' log where "evaluatePayload demo_machine None ''/w'' demo_glob DefaultLease clean_session
     = (Inr (hook_response VerdictAllow), s', log)" using glob_allowed by blast
  from allow_is_justified [OF _ _ _ this] show ?thesis by simp
qed

theorem authority_fails_closed_witness:
  "authority_allows demo_machine (policy_request demo_glob (CollectSignals demo_machine demo_glob)
     (intent_of demo_machine demo_glob DefaultLease) DefaultLease (call_state demo_machine None demo_glob clean_session))"
proof -
  obtain s' log where "evaluatePayload demo_machine None ''/w'' demo_glob DefaultLease clean_session
     = (Inr (hook_response VerdictAllow), s', log)" using glob_allowed by blast
  from authority_fails_closed [OF _ this] show ?thesis by simp
qed

theorem ledger_agrees_witness:
  "list_all (\<lambda>r. ar_Decision r = VerdictAllow)
     (snd (snd (evaluatePayload demo_machine None ''/w'' demo_glob DefaultLease clean_session)))"
proof -
  obtain s' log where e: "evaluatePayload demo_machine None ''/w'' demo_glob DefaultLease clean_session
     = (Inr (hook_response VerdictAllow), s', log)" using glob_allowed by blast
  from ledger_agrees [OF _ _ e] show ?thesis by (simp add: clean_proceeds e)
qed

end
