(* ===== verification/Secret_Leaks.thy ===== *)
theory Secret_Leaks
  imports Secret_Fingerprint
begin

text \<open>
  What the search for fingerprinted values finds: a value that leaves verbatim, reversed, chunked
  by white space, or as a hex, base64 or percent-encoded token; and only values whose digest was recorded.
\<close>

subsection \<open>The table of digests\<close>

lemma digest_table_mem:
  "(raw, n) \<in> set (digest_table fps t) \<longleftrightarrow>
     (raw, n) \<in> set t \<or> (\<exists>fp\<in>set fps. usable_digest fp = Some raw \<and> sf_Len fp = n)"
  by (induction fps t rule: digest_table.induct) (auto split: option.split)

lemma usable_FingerprintValue:
  "FingerprintValue v salt = Some fp \<Longrightarrow>
    usable_digest fp = Some (sha256_Sum256 (salt @ v)) \<and> sf_Len fp = int (length v) \<and> minFingerprintLen \<le> length v"
  by (auto simp: FingerprintValue_def usable_digest_def secret_digest_def hex_round split: if_splits)

lemma recorded_value_matches:
  assumes "FingerprintValue v salt = Some fp" and "fp \<in> set fps"
  shows "match_value (digest_table fps []) salt v \<noteq> None"
    and "int (length v) \<in> snd ` set (digest_table fps [])"
proof -
  note u = usable_FingerprintValue [OF assms(1)]
  have mem: "(sha256_Sum256 (salt @ v), int (length v)) \<in> set (digest_table fps [])"
    using u assms(2) by (auto simp: digest_table_mem)
  then have "map_of (digest_table fps []) (sha256_Sum256 (salt @ v)) \<noteq> None"
    unfolding map_of_eq_None_iff by (metis fst_conv imageI)
  then show "match_value (digest_table fps []) salt v \<noteq> None" using u by (simp add: match_value_def)
  show "int (length v) \<in> snd ` set (digest_table fps [])" using mem by force
qed

lemma match_value_sound:
  "match_value byHash salt s = Some n \<Longrightarrow>
    (sha256_Sum256 (salt @ s), n) \<in> set byHash \<and> minFingerprintLen \<le> length s"
  by (auto simp: match_value_def dest: map_of_SomeD split: if_splits)

subsection \<open>Searching a text\<close>

lemma first_match_hit: "x \<in> set xs \<Longrightarrow> f x \<noteq> None \<Longrightarrow> first_match f xs \<noteq> None"
  by (induction xs) (auto split: option.split)

lemma first_match_sound: "first_match f xs = Some y \<Longrightarrow> \<exists>x\<in>set xs. f x = Some y"
  by (induction xs) (auto split: option.splits)

lemma window_mem: "length v = n \<Longrightarrow> sublist v s \<Longrightarrow> v \<in> set (windows n s)"
proof -
  assume "length v = n" "sublist v s"
  then obtain ps ss where "s = ps @ v @ ss" "n = length v" by (auto simp: sublist_def)
  then show ?thesis unfolding windows_def by (auto intro!: image_eqI [of _ _ "length ps"])
qed

lemma window_sublist: "w \<in> set (windows n s) \<Longrightarrow> sublist w s"
  unfolding windows_def
  by (auto intro: sublist_order.order_trans [OF sublist_take sublist_drop])

lemma token_sublist: "tok \<in> set (FieldsFunc sep s) \<Longrightarrow> sublist tok s"
proof (induction "length s" arbitrary: s rule: less_induct)
  case less
  show ?case
  proof (cases s)
    case Nil
    then show ?thesis using less.prems by simp
  next
    case (Cons c cs)
    show ?thesis
    proof (cases "sep c")
      case True
      then show ?thesis using less Cons by (auto simp: sublist_Cons_right)
    next
      case False
      let ?w = "c # takeWhile (\<lambda>c. \<not> sep c) cs" and ?r = "dropWhile (\<lambda>c. \<not> sep c) cs"
      have s: "s = ?w @ ?r" using Cons by simp
      from less.prems have "tok = ?w \<or> tok \<in> set (FieldsFunc sep ?r)"
        by (simp add: Cons FieldsFunc_run False)
      moreover have "sublist ?w s" unfolding s by (rule sublist_append_rightI)
      moreover have "sublist tok s" if "tok \<in> set (FieldsFunc sep ?r)"
      proof -
        have "length ?r < length s" using length_dropWhile_le [of "\<lambda>c. \<not> sep c" cs] Cons by simp
        then have "sublist tok ?r" using less.hyps that by blast
        then have "sublist tok (?w @ ?r)" unfolding sublist_append by blast
        then show ?thesis by (simp only: s [symmetric])
      qed
      ultimately show ?thesis by blast
    qed
  qed
qed

lemma search_token:
  "v \<in> set (tokenizePayload s) \<Longrightarrow> match_value byHash salt v \<noteq> None \<Longrightarrow>
    search_space byHash salt s limit \<noteq> None"
  using first_match_hit [of v "tokenizePayload s" "match_value byHash salt"]
  by (auto simp: search_space_def)

lemma search_window:
  assumes "match_value byHash salt v \<noteq> None" and "int (length v) \<in> snd ` set byHash"
    and "sublist v s" and "length s \<le> limit"
  shows "search_space byHash salt s limit \<noteq> None"
proof -
  have v: "minFingerprintLen \<le> length v" using assms(1) by (simp add: match_value_def split: if_splits)
  then have "s \<noteq> []" "length v \<le> length s"
    using assms(3) sublist_length_le [OF assms(3)] by (auto simp: minFingerprintLen_def)
  moreover have "first_match (match_value byHash salt) (windows (length v) s) \<noteq> None"
    using window_mem [OF refl assms(3)] assms(1) by (rule first_match_hit)
  moreover have "int (length v) \<in> set (remdups (map snd byHash))" using assms(2) by simp
  ultimately have "windowScan byHash salt s limit \<noteq> None"
    unfolding windowScan_def using assms(4) v first_match_hit [of "int (length v)" "remdups (map snd byHash)"
      "\<lambda>L. if L < int minFingerprintLen \<or> int (length s) < L then None
            else first_match (match_value byHash salt) (windows (nat L) s)"] by simp
  then show ?thesis by (simp add: search_space_def split: option.split)
qed

lemma search_sound:
  assumes "search_space byHash salt s limit = Some n"
  shows "\<exists>w. sublist w s \<and> match_value byHash salt w = Some n"
proof (cases "first_match (match_value byHash salt) (tokenizePayload s)")
  case (Some m)
  then have "\<exists>w\<in>set (tokenizePayload s). match_value byHash salt w = Some n"
    using assms first_match_sound by (fastforce simp: search_space_def)
  then show ?thesis by (auto simp: tokenizePayload_def intro: token_sublist)
next
  case None
  then have "windowScan byHash salt s limit = Some n" using assms by (simp add: search_space_def)
  then obtain L where "first_match (match_value byHash salt) (windows (nat L) s) = Some n"
    by (auto simp: windowScan_def split: if_splits dest!: first_match_sound)
  then show ?thesis by (auto dest!: first_match_sound intro: window_sublist)
qed

subsection \<open>Transforms\<close>

lemma length_keep_printable: "length (keep_printable p d) \<le> 1"
  by (simp add: keep_printable_def split: option.split)

lemma length_decodeTransforms: "length (decodeTransforms p tok) \<le> 6"
  using length_keep_printable [of p "base64_StdEncoding tok"]
    length_keep_printable [of p "base64_RawStdEncoding tok"]
    length_keep_printable [of p "base64_URLEncoding tok"]
    length_keep_printable [of p "base64_RawURLEncoding tok"]
    length_keep_printable [of p "hex_decode tok"] length_keep_printable [of p "percentDecode tok"]
  by (auto simp: decodeTransforms_def)

text \<open>Up to 85 tokens, the bound on candidates is out of reach.\<close>

lemma decode_tokens_all:
  "length out + 6 * length toks < 512 \<Longrightarrow>
    decode_tokens p toks out = (out @ concat (map (decodeTransforms p) toks), False)"
proof (induction p toks out rule: decode_tokens.induct)
  case (2 p tok toks out)
  then show ?case using length_decodeTransforms [of p tok] by (auto simp: Let_def)
qed simp

lemma decoded_token:
  assumes "length (tokenizePayload payload) \<le> 85" and "tok \<in> set (tokenizePayload payload)"
    and "d \<in> set (decodeTransforms p tok)"
  shows "d \<in> set (decodeEncodedRuns p payload)"
  using assms decode_tokens_all [of "[]" "tokenizePayload payload" p]
  by (auto simp: decodeEncodedRuns_def)

definition plain_text :: "string \<Rightarrow> bool" where
  "plain_text v = list_all (byte_in 0x20 0x7E) v"

lemma plain_ascii: "plain_text v \<Longrightarrow> ascii v"
  by (auto simp: plain_text_def ascii_def byte_in_def list_all_iff)

lemma plain_runes: "ascii v \<Longrightarrow> runes v = map (\<lambda>c. [c]) v"
  using runes_ascii [of v "[]"] by simp

lemma plain_printable:
  assumes "plain_text v" and "v \<noteq> []"
  shows "mostlyPrintable p v"
proof -
  have "list_all (print_rune p) (map (\<lambda>c. [c]) v)"
    using assms(1) by (simp add: plain_text_def print_rune_def list_all_iff)
  then have "filter (print_rune p) (map (\<lambda>c. [c]) v) = map (\<lambda>c. [c]) v"
    by (simp add: list_all_iff)
  moreover have "utf8_ValidString v"
    using plain_ascii [OF assms(1)] by (simp add: ascii_def ascii_valid)
  ultimately show ?thesis using assms(2) plain_runes [OF plain_ascii [OF assms(1)]]
    by (simp add: mostlyPrintable_def Let_def)
qed

lemma keep_plain:
  "plain_text v \<Longrightarrow> minFingerprintLen \<le> length v \<Longrightarrow> keep_printable p (Some v) = [v]"
  using plain_printable [of v p] by (cases v) (auto simp: keep_printable_def minFingerprintLen_def)

lemma hex_token_decoded:
  assumes "plain_text v" and "minFingerprintLen \<le> length v"
  shows "v \<in> set (decodeTransforms p (hex_EncodeToString v))"
proof -
  have "isHexish (hex_EncodeToString v)"
    using hex_symbols [of v] by (auto simp: isHexish_def list_all_iff)
  then show ?thesis using keep_plain [OF assms] assms(2) by (simp add: decodeTransforms_def hex_round)
qed

lemma base64_token_decoded:
  assumes "plain_text v" and "minFingerprintLen \<le> length v"
  shows "v \<in> set (decodeTransforms p (base64_unpadded v))"
proof -
  have "isBase64ish (base64_unpadded v)"
    using b64_symbols [of v] by (auto simp: isBase64ish_def base64_unpadded_def list_all_iff)
  moreover have "minFingerprintLen \<le> length (base64_unpadded v)"
    using length_base64_unpadded [of v] assms(2) by simp
  ultimately show ?thesis using keep_plain [OF assms]
    by (simp add: decodeTransforms_def base64_unpadded_round)
qed

lemma length_percentDecode: "percentDecode tok = Some v \<Longrightarrow> length v \<le> length tok"
  by (induction tok arbitrary: v rule: percentDecode.induct)
     (fastforce split: if_splits list.splits option.splits)+

lemma percent_token_decoded:
  assumes "plain_text v" and "minFingerprintLen \<le> length v" and "CHR ''%'' \<in> set tok" and "percentDecode tok = Some v"
  shows "v \<in> set (decodeTransforms p tok)"
  using keep_plain [OF assms(1,2)] length_percentDecode [OF assms(4)] assms by (simp add: decodeTransforms_def)

lemma reverse_ascii: "ascii s \<Longrightarrow> reverseString s = rev s"
  by (simp add: reverseString_def plain_runes rev_map concat_map_singleton)

lemma strip_ascii: "ascii s \<Longrightarrow> stripWhitespace s = filter (\<lambda>c. \<not> ascii_space c) s"
proof -
  assume s: "ascii s"
  have "concat (filter (\<lambda>r. \<not> rune_space r) (map (\<lambda>c. [c]) s)) = filter (\<lambda>c. \<not> ascii_space c) s"
    by (induction s) (auto simp: rune_space_def)
  moreover have "filter (\<lambda>c. \<not> ascii_space c) s = s" if "\<not> list_ex rune_space (map (\<lambda>c. [c]) s)"
    using that by (auto simp: rune_space_def list_ex_iff intro: filter_True)
  ultimately show ?thesis by (auto simp: stripWhitespace_def plain_runes [OF s])
qed

subsection \<open>Values that leave are found\<close>

text \<open>Ways of carrying out a value that one inversion undoes, within the bounds of the search: verbatim, as a
  token, reversed, chunked by white space, and as a hex, base64 or percent-encoded token. (The code also
  joins the lines of wrapped blocks before it decodes; that is not followed here.)\<close>

definition laundered :: "string \<Rightarrow> string \<Rightarrow> bool" where
  "laundered v payload \<longleftrightarrow>
    (length payload \<le> rawWindowCap \<and> strings_Contains payload v)
    \<or> v \<in> set (tokenizePayload payload)
    \<or> (length payload \<le> derivedWindowCap \<and> ascii payload \<and> strings_Contains payload (rev v))
    \<or> (length payload \<le> derivedWindowCap \<and> ascii payload
        \<and> strings_Contains (filter (\<lambda>c. \<not> ascii_space c) payload) v)
    \<or> (length v \<le> derivedWindowCap \<and> plain_text v \<and> length (tokenizePayload payload) \<le> 85
        \<and> (hex_EncodeToString v \<in> set (tokenizePayload payload)
            \<or> base64_unpadded v \<in> set (tokenizePayload payload)
            \<or> (\<exists>tok\<in>set (tokenizePayload payload). CHR ''%'' \<in> set tok \<and> percentDecode tok = Some v)))"

lemma leaks_raw:
  assumes "payload \<noteq> []" and "fps \<noteq> []" and "digest_table fps [] \<noteq> []"
    and "search_space (digest_table fps []) salt payload rawWindowCap \<noteq> None"
  shows "PayloadLeaksSecret p payload fps salt \<noteq> None"
  using assms by (auto simp: PayloadLeaksSecret_def Let_def)

lemma leaks_derived:
  assumes "payload \<noteq> []" and "fps \<noteq> []" and "digest_table fps [] \<noteq> []"
    and "s \<in> set (derived_spaces p payload)"
    and "search_space (digest_table fps []) salt s derivedWindowCap \<noteq> None"
  shows "PayloadLeaksSecret p payload fps salt \<noteq> None"
  using first_match_hit [OF assms(4), of "\<lambda>s. search_space (digest_table fps []) salt s derivedWindowCap"]
    assms(1-3,5)
  by (auto simp: PayloadLeaksSecret_def Let_def split: option.split)

text \<open>The bounds on windows: everything a derived space catches in the payload itself, the payload does.\<close>

lemma derived_below_raw: "length s \<le> derivedWindowCap \<Longrightarrow> length s \<le> rawWindowCap"
  by (simp add: derivedWindowCap_def rawWindowCap_def)

text \<open>A value whose fingerprint was recorded is found in every payload that contains it verbatim,
  reversed, chunked by white space, or as a hex, base64 or percent-encoded token, within the bounds of the search.\<close>

lemma laundered_secret_is_caught:
  assumes "FingerprintValue v salt = Some fp" and "fp \<in> set fps" and "laundered v payload"
  shows "PayloadLeaksSecret isPrint payload fps salt \<noteq> None"
proof -
  define tab where "tab = digest_table fps []"
  have hit: "match_value tab salt v \<noteq> None" "int (length v) \<in> snd ` set tab"
    using recorded_value_matches [OF assms(1,2)] by (simp_all add: tab_def)
  have long: "minFingerprintLen \<le> length v" "v \<noteq> []"
    using usable_FingerprintValue [OF assms(1)] by (auto simp: minFingerprintLen_def)
  have fps: "fps \<noteq> []" "tab \<noteq> []" using assms(2) hit(2) by auto
  have payload: "payload \<noteq> []"
    using assms(3) long by (auto simp: laundered_def tokenizePayload_def Contains_iff_sublist)
  note window = search_window [OF hit]
  have raw: ?thesis if "sublist v payload" "length payload \<le> rawWindowCap"
    using window [OF that] payload fps by (intro leaks_raw) (simp_all add: tab_def)
  have derived: ?thesis if "s \<in> set (derived_spaces isPrint payload)" "sublist v s" "length s \<le> derivedWindowCap" for s
    using window [OF that(2,3)] that(1) payload fps by (intro leaks_derived) (simp_all add: tab_def)
  have inverted: ?thesis
    if "length payload \<le> derivedWindowCap" "sublist v s" "length s \<le> length payload"
      "s = payload \<or> s \<in> set (derived_spaces isPrint payload)" for s
    using that raw derived [of s] derived_below_raw [of payload] by auto
  from assms(3) consider
      "length payload \<le> rawWindowCap" "sublist v payload"
    | "v \<in> set (tokenizePayload payload)"
    | "length payload \<le> derivedWindowCap" "ascii payload" "sublist (rev v) payload"
    | "length payload \<le> derivedWindowCap" "ascii payload" "sublist v (filter (\<lambda>c. \<not> ascii_space c) payload)"
    | tok where "length v \<le> derivedWindowCap" "plain_text v" "length (tokenizePayload payload) \<le> 85"
        "tok \<in> set (tokenizePayload payload)"
        "tok = hex_EncodeToString v \<or> tok = base64_unpadded v \<or> CHR ''%'' \<in> set tok \<and> percentDecode tok = Some v"
    unfolding laundered_def Contains_iff_sublist by blast
  then show ?thesis
  proof cases
    case 1
    then show ?thesis using raw by blast
  next
    case 2
    then show ?thesis using search_token [OF _ hit(1)] payload fps by (intro leaks_raw) (auto simp: tab_def)
  next
    case 3
    then have "sublist v (reverseString payload)" by (simp add: reverse_ascii sublist_rev_right)
    then show ?thesis using 3 by (intro inverted) (auto simp: derived_spaces_def reverse_ascii)
  next
    case 4
    then have "sublist v (stripWhitespace payload)" by (simp add: strip_ascii)
    then show ?thesis using 4 by (intro inverted) (auto simp: derived_spaces_def strip_ascii)
  next
    case 5
    then have "v \<in> set (decodeTransforms isPrint tok)"
      using hex_token_decoded [of v] base64_token_decoded [of v] percent_token_decoded [of v tok] long by auto
    from decoded_token [OF 5(3,4) this] have "v \<in> set (derived_spaces isPrint payload)"
      by (simp add: derived_spaces_def)
    then show ?thesis using derived 5(1) by blast
  qed
qed

text \<open>A reported leak is a piece of one of the searched texts, at least twelve bytes long, whose
  salted digest is that of a recorded fingerprint of the reported length.\<close>

theorem reported_leak_is_recorded:
  assumes "PayloadLeaksSecret isPrint payload fps salt = Some n"
  shows "\<exists>fp\<in>set fps. \<exists>s\<in>set (payload # derived_spaces isPrint payload). \<exists>w.
      sublist w s \<and> 12 \<le> length w \<and> sf_Len fp = n \<and> usable_digest fp = Some (sha256_Sum256 (salt @ w))"
proof -
  have "\<exists>s\<in>set (payload # derived_spaces isPrint payload). \<exists>w.
      sublist w s \<and> match_value (digest_table fps []) salt w = Some n"
    using assms by (auto simp: PayloadLeaksSecret_def Let_def split: if_splits option.splits
        dest!: first_match_sound search_sound)
  then show ?thesis
    by (fastforce dest!: match_value_sound simp: digest_table_mem minFingerprintLen_def)
qed

end
