(* ===== verification/Posture_Files.thy ===== *)
theory Posture_Files
  imports Posture_Hashes
begin

text \<open>
  The hook files of the registered agents (\<open>pkg/posture/files.go\<close>, \<open>hashes.go\<close>,
  \<open>restore.go\<close>) and the two drift tests over them (\<open>pkg/hooks/lifecycle/tamper.go\<close>). The list
  of files comes from the agents' adapters, the managed policy from its manifest; both are
  fields of an environment, as are \<open>json.Marshal\<close> on decoded values and \<open>os.Stat\<close>.
\<close>

subsection \<open>Hook files (\<open>files.go\<close>)\<close>

record AgentHookFile =
  hk_RelativePath :: string
  hk_DisplayPath :: string
  hk_AbsPath :: string
  hk_CanonicalPath :: string
  hk_AgentID :: string
  hk_AgentName :: string
  hk_SubtreeKey :: string
  hk_SubtreeAtRoot :: bool

text \<open>
  \<open>hf_Files\<close> is \<open>knownAgentHookFiles\<close> (nothing without a home directory), \<open>hf_Policy\<close> what loading
  the managed policy gives: an error, no policy, or the hook subtrees by agent. \<open>hf_Stat\<close> tells
  whether a path exists, or nothing on another error.
\<close>

record HookFilesEnv =
  hf_Eval :: EvalEnv
  hf_Files :: "AgentHookFile list option"
  hf_Policy :: "string + (string \<Rightarrow> string option) option"
  hf_Marshal :: "json \<Rightarrow> string"
  hf_Stat :: "string \<Rightarrow> bool option"

definition hf_Read :: "HookFilesEnv \<Rightarrow> string \<Rightarrow> file_read" where
  "hf_Read env path = CE_ReadFile (ee_Core (hf_Eval env)) path"

definition managedSubtreeKey :: "AgentHookFile \<Rightarrow> string" where
  "managedSubtreeKey f =
    (if hk_SubtreeAtRoot f then [] else if hk_SubtreeKey f \<noteq> [] then hk_SubtreeKey f else ''hooks'')"

text \<open>Decoding into a map: \<open>null\<close> gives no members, anything but an object an error.\<close>

definition json_members :: "string \<Rightarrow> jsonobj option" where
  "json_members raw =
    (case json_parse raw of Some JNull \<Rightarrow> Some [] | Some (JObject obj) \<Rightarrow> Some obj | _ \<Rightarrow> None)"

definition ExtractManagedSubtree :: "HookFilesEnv \<Rightarrow> string \<Rightarrow> string \<Rightarrow> string option" where
  "ExtractManagedSubtree env raw key =
    (if key = [] then map_option (hf_Marshal env) (json_parse raw)
     else case json_members raw of
            None \<Rightarrow> None
          | Some obj \<Rightarrow>
              (case map_of obj key of None \<Rightarrow> Some ''null'' | Some v \<Rightarrow> Some (hf_Marshal env v)))"

definition LookupAgentHookFileByRelativePath :: "HookFilesEnv \<Rightarrow> string \<Rightarrow> AgentHookFile option" where
  "LookupAgentHookFileByRelativePath env relPath =
    (case hf_Files env of None \<Rightarrow> None | Some files \<Rightarrow> List.find (\<lambda>f. hk_RelativePath f = relPath) files)"

subsection \<open>The combined hash (\<open>hashes.go\<close>)\<close>

datatype hook_hash = HookHash string | HookMissing | HookUnreadable

definition hashHookChunks :: "string list \<Rightarrow> hook_hash" where
  "hashHookChunks chunks =
    (if list_all (\<lambda>c. c = []) chunks then HookMissing
     else HookHash (sha256_hex (concat (map length_prefixed chunks))))"

fun hook_chunks :: "HookFilesEnv \<Rightarrow> AgentHookFile list \<Rightarrow> string list option" where
  "hook_chunks env [] = Some []"
| "hook_chunks env (f # fs) =
     (case hf_Read env (hk_AbsPath f) of
        Unreadable e \<Rightarrow> None
      | Missing e \<Rightarrow> map_option (\<lambda>cs. [] # cs) (hook_chunks env fs)
      | Contents data \<Rightarrow>
          (let chunk = (case ExtractManagedSubtree env data (hk_SubtreeKey f) of None \<Rightarrow> data | Some sub \<Rightarrow> sub)
           in map_option (\<lambda>cs. chunk # cs) (hook_chunks env fs)))"

definition HashGlobalHooksFile :: "HookFilesEnv \<Rightarrow> hook_hash" where
  "HashGlobalHooksFile env =
    (case hf_Files env of
       None \<Rightarrow> HookUnreadable
     | Some files \<Rightarrow> (case hook_chunks env files of None \<Rightarrow> HookUnreadable | Some cs \<Rightarrow> hashHookChunks cs))"

subsection \<open>Baselines and changed files (\<open>restore.go\<close>)\<close>

definition agentIDForHookFile :: "HookFilesEnv \<Rightarrow> AgentHookFile \<Rightarrow> string" where
  "agentIDForHookFile env f =
    (case LookupAgentHookFileByRelativePath env (hk_RelativePath f) of None \<Rightarrow> [] | Some g \<Rightarrow> hk_AgentID g)"

text \<open>An error, no baseline, or its bytes.\<close>

definition managedHookBaselineBytesWithPolicy ::
    "HookFilesEnv \<Rightarrow> AgentHookFile \<Rightarrow> (string \<Rightarrow> string option) option \<Rightarrow> string option option" where
  "managedHookBaselineBytesWithPolicy env f policy =
    (case policy of
       Some subtree \<Rightarrow> Some (subtree (agentIDForHookFile env f))
     | None \<Rightarrow>
         (case hf_Read env (hk_CanonicalPath f) of
            Contents raw \<Rightarrow> Some (Some raw)
          | Missing e \<Rightarrow> Some None
          | Unreadable e \<Rightarrow> None))"

text \<open>Whether the managed policy leaves no installed file uncovered.\<close>

definition verifyManagedHookCoverage ::
    "HookFilesEnv \<Rightarrow> AgentHookFile \<Rightarrow> (string \<Rightarrow> string option) option \<Rightarrow> bool" where
  "verifyManagedHookCoverage env f policy \<longleftrightarrow> policy = None \<or> hf_Stat env (hk_AbsPath f) = Some False"

definition extractCanonicalManagedSubtreeBytes :: "HookFilesEnv \<Rightarrow> string \<Rightarrow> string \<Rightarrow> string option" where
  "extractCanonicalManagedSubtreeBytes env canonical key =
    (if key \<noteq> [] then
       (case json_members canonical of
          None \<Rightarrow> None
        | Some obj \<Rightarrow>
            if map_of obj key \<noteq> None then ExtractManagedSubtree env canonical key
            else map_option (hf_Marshal env) (json_parse canonical))
     else map_option (hf_Marshal env) (json_parse canonical))"

definition hook_file_differs :: "HookFilesEnv \<Rightarrow> AgentHookFile \<Rightarrow> string \<Rightarrow> bool" where
  "hook_file_differs env f canonical =
    (case hf_Read env (hk_AbsPath f) of
       Missing e \<Rightarrow> True
     | Unreadable e \<Rightarrow> False
     | Contents current \<Rightarrow>
         (case (ExtractManagedSubtree env current (managedSubtreeKey f),
                extractCanonicalManagedSubtreeBytes env canonical (managedSubtreeKey f)) of
            (Some live, Some canon) \<Rightarrow> live \<noteq> canon
          | _ \<Rightarrow> current \<noteq> canonical))"

fun changed_hook_files ::
    "HookFilesEnv \<Rightarrow> (string \<Rightarrow> string option) option \<Rightarrow> AgentHookFile list \<Rightarrow> AgentHookFile list option" where
  "changed_hook_files env policy [] = Some []"
| "changed_hook_files env policy (f # fs) =
     (case managedHookBaselineBytesWithPolicy env f policy of
        None \<Rightarrow> None
      | Some None \<Rightarrow> if verifyManagedHookCoverage env f policy then changed_hook_files env policy fs else None
      | Some (Some canonical) \<Rightarrow>
          map_option (\<lambda>changed. if hook_file_differs env f canonical then f # changed else changed)
            (changed_hook_files env policy fs))"

definition DetectChangedGlobalHooksStrict :: "HookFilesEnv \<Rightarrow> AgentHookFile list option" where
  "DetectChangedGlobalHooksStrict env =
    (case hf_Files env of
       None \<Rightarrow> None
     | Some files \<Rightarrow> (case hf_Policy env of Inl e \<Rightarrow> None | Inr policy \<Rightarrow> changed_hook_files env policy files))"

text \<open>The managed policy's own hash of the hook subtrees; the outer \<open>None\<close> is an error, the inner
  one stands for no managed policy.\<close>

fun managed_chunks ::
    "HookFilesEnv \<Rightarrow> (string \<Rightarrow> string option) \<Rightarrow> AgentHookFile list \<Rightarrow> string list option" where
  "managed_chunks env subtree [] = Some []"
| "managed_chunks env subtree (f # fs) =
     (case subtree (agentIDForHookFile env f) of
        None \<Rightarrow>
          if verifyManagedHookCoverage env f (Some subtree) then map_option (\<lambda>cs. [] # cs) (managed_chunks env subtree fs)
          else None
      | Some raw \<Rightarrow>
          (case extractCanonicalManagedSubtreeBytes env raw (managedSubtreeKey f) of
             None \<Rightarrow> None
           | Some canon \<Rightarrow> map_option (\<lambda>cs. canon # cs) (managed_chunks env subtree fs)))"

definition ManagedGlobalHooksHash :: "HookFilesEnv \<Rightarrow> hook_hash option option" where
  "ManagedGlobalHooksHash env =
    (case hf_Policy env of
       Inl e \<Rightarrow> None
     | Inr None \<Rightarrow> Some None
     | Inr (Some subtree) \<Rightarrow>
         (case hf_Files env of
            None \<Rightarrow> None
          | Some files \<Rightarrow> map_option (\<lambda>cs. Some (hashHookChunks cs)) (managed_chunks env subtree files)))"

subsection \<open>Drift (\<open>lifecycle/tamper.go\<close>)\<close>

record PostureIntegrityDrift =
  pd_NonHookFiles :: "string list"
  pd_HookFiles :: "AgentHookFile list"

definition DetectPostureIntegrityDrift :: "HookFilesEnv \<Rightarrow> string \<Rightarrow> State \<Rightarrow> Lease \<Rightarrow> PostureIntegrityDrift" where
  "DetectPostureIntegrityDrift env projectRoot s l =
    (let tampered = CheckPostureIntegrity (hf_Eval env) projectRoot s l;
         lookup = LookupAgentHookFileByRelativePath env
     in \<lparr>pd_NonHookFiles = filter (\<lambda>t. lookup t = None) tampered,
         pd_HookFiles = map (the \<circ> lookup) (filter (\<lambda>t. lookup t \<noteq> None) tampered)\<rparr>)"

record GlobalHookIntegrityDrift =
  gd_CurrentHash :: "string option"
  gd_Changed :: "AgentHookFile list option"

text \<open>No current hash stands for one that could not be computed, no list of changes for the error
  of the baseline.\<close>

definition DetectGlobalHookIntegrityDrift :: "HookFilesEnv \<Rightarrow> State \<Rightarrow> GlobalHookIntegrityDrift option" where
  "DetectGlobalHookIntegrityDrift env s =
    (if GlobalHookHash s = [] then None
     else case HashGlobalHooksFile env of
            HookHash h \<Rightarrow>
              if h = GlobalHookHash s then None
              else Some \<lparr>gd_CurrentHash = Some h, gd_Changed = DetectChangedGlobalHooksStrict env\<rparr>
          | HookMissing \<Rightarrow> Some \<lparr>gd_CurrentHash = None, gd_Changed = DetectChangedGlobalHooksStrict env\<rparr>
          | HookUnreadable \<Rightarrow> None)"

subsection \<open>What the hash and the comparison promise\<close>

lemma hook_chunks_length: "hook_chunks env fs = Some cs \<Longrightarrow> length cs = length fs"
  by (induction fs arbitrary: cs) (auto simp: Let_def split: file_read.splits)

lemma prefixed_chunks_inj:
  assumes "concat (map length_prefixed cs) = concat (map length_prefixed ds)" and "length cs = length ds"
    and "\<forall>c\<in>set cs \<union> set ds. length c < 2 ^ 63"
  shows "cs = ds"
  using assms(2,1,3)
proof (induction cs ds rule: list_induct2)
  case (Cons c cs d ds)
  have eq: "length_prefixed c @ concat (map length_prefixed cs) = length_prefixed d @ concat (map length_prefixed ds)"
    using Cons.prems(1) by simp
  have small: "length c < 2 ^ 63" "length d < 2 ^ 63" using Cons.prems(2) by simp_all
  from length_prefixed_append_inj [OF eq small] Cons.IH Cons.prems(2) show ?case by simp
qed simp

text \<open>A file is reported exactly when it has a baseline and is missing or differs in its managed
  part.\<close>

lemma changed_hook_files_exact:
  "changed_hook_files env policy fs = Some changed \<Longrightarrow>
    f \<in> set changed \<longleftrightarrow>
      f \<in> set fs \<and> (\<exists>canonical. managedHookBaselineBytesWithPolicy env f policy = Some (Some canonical)
                        \<and> hook_file_differs env f canonical)"
  by (induction fs arbitrary: changed) (auto split: option.splits if_splits)

end
