(* ===== verification/Hooks_Mutation.thy ===== *)
theory Hooks_Mutation
  imports Hooks_Lineage
begin

text \<open>
  \<open>pkg/hooks/lineage_mutation.go\<close>: copies, moves and links made by a shell command carry the
  labels of their source to their destination. Commands arrive as JSON strings, so they are
  valid UTF-8, and every character the splitter reacts to is ASCII: a loop over bytes agrees with
  the loop over runes. The argument \<open>isDir\<close> tells whether a path is a directory (\<open>os.Stat\<close>).
\<close>

subsection \<open>Segments of a script\<close>

definition flush_segment :: "string \<Rightarrow> string list" where
  "flush_segment cur = (let segment = strings_TrimSpace cur in if segment = [] then [] else [segment])"

function split_script :: "bool \<Rightarrow> bool \<Rightarrow> string \<Rightarrow> string \<Rightarrow> string list" where
  "split_script inSingle inDouble cur [] = flush_segment cur"
| "split_script inSingle inDouble cur (c # cs) =
     (if c = CHR 0x27 \<and> \<not> inDouble then split_script (\<not> inSingle) inDouble (cur @ [c]) cs
      else if c = CHR 0x22 \<and> \<not> inSingle then split_script inSingle (\<not> inDouble) (cur @ [c]) cs
      else if inSingle \<or> inDouble then split_script inSingle inDouble (cur @ [c]) cs
      else if c = CHR ''|'' then flush_segment cur @ split_script False False [] (drop_same (CHR ''|'') cs)
      else if c = CHR ''&'' then flush_segment cur @ split_script False False [] (drop_same (CHR ''&'') cs)
      else if c = CHR '';'' \<or> c = CHR 0x0A then flush_segment cur @ split_script False False [] cs
      else if c = CHR 0x0D then flush_segment cur @ split_script False False [] (drop_same (CHR 0x0A) cs)
      else split_script False False (cur @ [c]) cs)"
  by pat_completeness auto

termination
  by (relation "measure (\<lambda>(_, _, _, s). length s)") (auto simp: length_drop_same less_Suc_eq_le)

definition splitBashScriptSegments :: "string \<Rightarrow> string list" where
  "splitBashScriptSegments cmd = split_script False False [] cmd"

subsection \<open>Shell wrappers\<close>

text \<open>\<open>nthFieldStart\<close>: the rest of the text from its \<open>n\<close>-th field on.\<close>

fun from_field :: "nat \<Rightarrow> string \<Rightarrow> string" where
  "from_field 0 s = dropWhile ascii_space s"
| "from_field (Suc n) s = from_field n (dropWhile (\<lambda>c. \<not> ascii_space c) (dropWhile ascii_space s))"

fun dash_c_index :: "nat \<Rightarrow> string list \<Rightarrow> nat option" where
  "dash_c_index i [] = None"
| "dash_c_index i (p # ps) =
     (if p = ''-c'' then Some i
      else if strings_HasPrefix p ''-'' \<and> \<not> strings_HasPrefix p ''--'' \<and> strings_HasSuffix p ''c'' then Some i
      else if strings_HasPrefix p ''-'' then dash_c_index (Suc i) ps
      else None)"

definition extractShellWrapperInnerPreservingWhitespace :: "string \<Rightarrow> string option" where
  "extractShellWrapperInnerPreservingWhitespace cmd =
    (let trimmed = strings_TrimSpace cmd; parts = strings_Fields trimmed
     in if length parts < 3 then None
        else if strings_ToLower (filepath_Base (hd parts)) \<notin> {''bash'', ''sh'', ''zsh'', ''dash'', ''ksh''} then None
        else case dash_c_index 1 (tl parts) of
               None \<Rightarrow> None
             | Some i \<Rightarrow>
                 if length parts \<le> Suc i then None
                 else
                   let rest = from_field (Suc i) trimmed; inner0 = strings_TrimSpace rest;
                       inner = strings_TrimSpace (dequoteOuter inner0)
                   in if rest = [] \<or> inner = [] then None else Some inner)"

subsection \<open>Operands\<close>

definition isShellRedirectionToken :: "string \<Rightarrow> bool" where
  "isShellRedirectionToken token \<longleftrightarrow>
    token \<noteq> [] \<and> any_prefix [''2>&1'', ''&>'', ''>>'', ''<<'', ''1>>'', ''2>>'', ''1>'', ''2>'', ''>'', ''<''] token"

definition shellRedirectionConsumesFollowingToken :: "string \<Rightarrow> bool" where
  "shellRedirectionConsumesFollowingToken token \<longleftrightarrow>
    token \<in> {''>'', ''>>'', ''<'', ''<<'', ''1>'', ''1>>'', ''2>'', ''2>>'', ''&>''}"

text \<open>The directory named by the flag at the head, and whether it is the next word.\<close>

definition next_word :: "string list \<Rightarrow> (string \<times> bool) option" where
  "next_word rest = (case rest of [] \<Rightarrow> None | d # _ \<Rightarrow> Some (d, True))"

definition consumeTargetDirectoryFlag :: "string \<Rightarrow> string list \<Rightarrow> (string \<times> bool) option" where
  "consumeTargetDirectoryFlag part rest =
    (if part = ''-t'' \<or> part = ''--target-directory'' then next_word rest
     else if strings_HasPrefix part ''--target-directory='' then Some (strings_TrimPrefix part ''--target-directory='', False)
     else if strings_HasPrefix part ''-t'' \<and> 2 < length part \<and> \<not> strings_HasPrefix part ''--''
     then Some (strings_TrimLeft (drop 2 part) ''='', False)
     else if strings_HasPrefix part ''-'' \<and> \<not> strings_HasPrefix part ''--'' then
       (case dropWhile (\<lambda>c. c \<noteq> CHR ''t'') (tl part) of
          [] \<Rightarrow> None
        | [t] \<Rightarrow> next_word rest
        | t # dir \<Rightarrow> Some (strings_TrimLeft dir ''='', False))
     else None)"

definition shell_quotes :: string where
  "shell_quotes = [CHR 0x22, CHR 0x27, CHR 0x60]"

text \<open>The operands and the target directory (empty when there is none); nothing when a directory
  flag names an empty one.\<close>

function mutation_operands :: "bool \<Rightarrow> string list \<Rightarrow> string list \<Rightarrow> string \<Rightarrow> (string list \<times> string) option" where
  "mutation_operands ended [] operands targetDir = Some (operands, targetDir)"
| "mutation_operands ended (part # rest) operands targetDir =
     (if part = ''--'' then mutation_operands True rest operands targetDir
      else if isShellRedirectionToken part then
        mutation_operands ended (if shellRedirectionConsumesFollowingToken part then tl rest else rest) operands targetDir
      else if \<not> ended \<and> (part = [] \<or> strings_HasPrefix part ''-'') then
        (case consumeTargetDirectoryFlag part rest of
           None \<Rightarrow> mutation_operands ended rest operands targetDir
         | Some (dir, word) \<Rightarrow>
             let target = strings_Trim (strings_TrimSpace dir) shell_quotes in
             if target = [] then None
             else mutation_operands ended (if word then tl rest else rest) operands target)
      else
        let operand = strings_Trim part shell_quotes in
        mutation_operands ended rest (if operand = [] then operands else operands @ [operand]) targetDir)"
  by pat_completeness auto

termination
  by (relation "measure (\<lambda>(_, parts, _, _). length parts)") auto

definition parseBashLineageMutation :: "string \<Rightarrow> (string list \<times> string) option" where
  "parseBashLineageMutation cmd =
    (let parts = strings_Fields (strings_TrimSpace cmd)
     in if length parts < 2 then None
        else if filepath_Base (hd parts) \<notin> {''cp'', ''mv'', ''ln''} then None
        else case mutation_operands False (tl parts) [] [] of
               None \<Rightarrow> None
             | Some (operands, targetDir) \<Rightarrow>
                 if targetDir \<noteq> [] then (if operands = [] then None else Some (operands, targetDir))
                 else if length operands < 2 then None
                 else Some (butlast operands, last operands))"

fun has_symbolic_flag :: "string list \<Rightarrow> bool" where
  "has_symbolic_flag [] = False"
| "has_symbolic_flag (part # rest) =
     (if part = ''--'' then False
      else if part = ''-s'' \<or> part = ''--symbolic'' then True
      else if strings_HasPrefix part ''-'' \<and> \<not> strings_HasPrefix part ''--'' \<and> CHR ''s'' \<in> set (tl part) then True
      else has_symbolic_flag rest)"

definition isSymbolicLinkMutation :: "string \<Rightarrow> bool" where
  "isSymbolicLinkMutation cmd =
    (case strings_Fields (strings_TrimSpace cmd) of
       [] \<Rightarrow> False
     | p # ps \<Rightarrow> filepath_Base p = ''ln'' \<and> has_symbolic_flag ps)"

subsection \<open>Sources and destinations\<close>

definition filepath_Dir :: "string \<Rightarrow> string" where
  "filepath_Dir path =
    (case strings_LastIndexByte path (CHR ''/'') of
       None \<Rightarrow> filepath_Clean []
     | Some i \<Rightarrow> filepath_Clean (take (Suc i) path))"

definition isLineageMutationDirectoryDestination :: "(string \<Rightarrow> bool) \<Rightarrow> string \<Rightarrow> string \<Rightarrow> bool" where
  "isLineageMutationDirectoryDestination isDir dest resolvedDest \<longleftrightarrow>
    strings_HasSuffix dest ''/'' \<or> isDir resolvedDest"

definition resolveLineageMutationDestination ::
    "HookEnv \<Rightarrow> (string \<Rightarrow> bool) \<Rightarrow> string \<Rightarrow> string \<Rightarrow> string \<Rightarrow> string" where
  "resolveLineageMutationDestination e isDir projectRoot sourcePath dest =
    (let destPath = ResolveTarget e projectRoot dest
     in if destPath = [] then []
        else if \<not> isLineageMutationDirectoryDestination isDir dest destPath then destPath
        else
          let base = filepath_Base sourcePath
          in if base = [] \<or> base = ''.'' \<or> base = ''/'' then destPath
             else ResolveTarget e projectRoot (filepath_Join [dest, base]))"

definition resolveSymbolicLinkSource :: "HookEnv \<Rightarrow> string \<Rightarrow> string \<Rightarrow> string" where
  "resolveSymbolicLinkSource e linkPath source =
    (if linkPath = [] then [] else ResolveTarget e (filepath_Dir linkPath) source)"

subsection \<open>Labels follow the files\<close>

definition containsLineageLabel :: "LineageLabel list \<Rightarrow> LineageLabel \<Rightarrow> bool" where
  "containsLineageLabel labels want \<longleftrightarrow> want \<in> set labels"

definition seedSensitiveMutationSourceLineage :: "HookEnv \<Rightarrow> string \<Rightarrow> Lease option \<Rightarrow> string \<Rightarrow> State \<Rightarrow> State" where
  "seedSensitiveMutationSourceLineage e projectRoot l sourcePath s =
    (case l of
       None \<Rightarrow> s
     | Some lease \<Rightarrow>
         if sourcePath = [] then s
         else if containsLineageLabel (DerivedLabelsForPath s sourcePath) secretReadLineageLabel then s
         else if \<not> IsSensitivePath e sourcePath lease \<and> \<not> IsSensitivePathResolvedIn e projectRoot sourcePath lease then s
         else AttachLineageLabelsToPath (he_Now e) sourcePath [secretReadLineageLabel] s)"

definition appendMissingStrings :: "string list \<Rightarrow> string list \<Rightarrow> string list" where
  "appendMissingStrings dst src = foldl append_unique dst src"

definition mergeHookLineageLabels :: "LineageLabel list \<Rightarrow> LineageLabel list \<Rightarrow> LineageLabel list" where
  "mergeHookLineageLabels dst src = foldl (\<lambda>out l. if l \<in> set out then out else out @ [l]) [] (dst @ src)"

definition mirrorDerivedLineage :: "Time \<Rightarrow> string \<Rightarrow> string \<Rightarrow> State \<Rightarrow> State" where
  "mirrorDerivedLineage now sourcePath destPath s =
    (if sourcePath = [] \<or> destPath = [] \<or> sourcePath = destPath then s
     else case map_of (DerivedFileLineage s) sourcePath of
            None \<Rightarrow> s
          | Some source \<Rightarrow>
              if DP_Labels source = [] then s
              else
                let merged = (case map_of (DerivedFileLineage s) destPath of
                                None \<Rightarrow> source
                              | Some d \<Rightarrow>
                                  source\<lparr>DP_EvidenceIDs := appendMissingStrings (DP_EvidenceIDs d) (DP_EvidenceIDs source),
                                         DP_Labels := mergeHookLineageLabels (DP_Labels d) (DP_Labels source)\<rparr>)
                in s\<lparr>DerivedFileLineage :=
                       AList.update destPath (merged\<lparr>DP_UpdatedAt := now\<rparr>) (DerivedFileLineage s)\<rparr>)"

definition mutation_paths :: "HookEnv \<Rightarrow> (string \<Rightarrow> bool) \<Rightarrow> string \<Rightarrow> string \<Rightarrow> string \<Rightarrow> string \<Rightarrow> string \<times> string" where
  "mutation_paths e isDir projectRoot command source dest =
    (let sourcePath = ResolveTarget e projectRoot source;
         destPath = resolveLineageMutationDestination e isDir projectRoot sourcePath dest
     in (if isSymbolicLinkMutation command then resolveSymbolicLinkSource e destPath source else sourcePath, destPath))"

definition mutate_one ::
    "HookEnv \<Rightarrow> (string \<Rightarrow> bool) \<Rightarrow> string \<Rightarrow> Lease option \<Rightarrow> string \<Rightarrow> string \<Rightarrow> State \<Rightarrow> string \<Rightarrow> State" where
  "mutate_one e isDir projectRoot l command dest s source =
    (case mutation_paths e isDir projectRoot command source dest of
       (sourcePath, destPath) \<Rightarrow>
         mirrorDerivedLineage (he_Now e) sourcePath destPath
           (seedSensitiveMutationSourceLineage e projectRoot l sourcePath s))"

text \<open>One command that is not a shell wrapper.\<close>

definition mutate_command :: "HookEnv \<Rightarrow> (string \<Rightarrow> bool) \<Rightarrow> string \<Rightarrow> Lease option \<Rightarrow> State \<Rightarrow> string \<Rightarrow> State" where
  "mutate_command e isDir projectRoot l s command0 =
    (let command = NormalizeCommand command0
     in if command = [] then s
        else case parseBashLineageMutation command of
               None \<Rightarrow> s
             | Some (sources, dest) \<Rightarrow> foldl (mutate_one e isDir projectRoot l command dest) s sources)"

lemma length_from_field: "length (from_field n s) \<le> length s"
proof (induction n arbitrary: s)
  case (Suc n)
  have "length (dropWhile (\<lambda>c. \<not> ascii_space c) (dropWhile ascii_space s)) \<le> length s"
    by (meson length_dropWhile_le order_trans)
  with Suc [of "dropWhile (\<lambda>c. \<not> ascii_space c) (dropWhile ascii_space s)"] show ?case by simp
qed (simp add: length_dropWhile_le)

lemma length_from_later_field:
  assumes "s \<noteq> []"
  shows "length (from_field (Suc n) s) < length s"
proof -
  let ?t = "dropWhile ascii_space s"
  have "length (dropWhile (\<lambda>c. \<not> ascii_space c) ?t) < length s"
  proof (cases ?t)
    case Nil
    show ?thesis using assms unfolding Nil by simp
  next
    case (Cons c t)
    then have "\<not> ascii_space c" using hd_dropWhile [of ascii_space s] by simp
    then have "length (dropWhile (\<lambda>c. \<not> ascii_space c) ?t) \<le> length t"
      using Cons by (simp add: length_dropWhile_le)
    also have "length t < length s" using Cons length_dropWhile_le [of ascii_space s] by simp
    finally show ?thesis .
  qed
  then show ?thesis using length_from_field [of n "dropWhile (\<lambda>c. \<not> ascii_space c) ?t"] by simp
qed

lemma flush_bounded: "length cur \<le> n \<Longrightarrow> list_all (\<lambda>seg. length seg \<le> n) (flush_segment cur)"
  using length_TrimSpace_le [of cur] by (simp add: flush_segment_def Let_def)

lemma drop_same_bounded: "length cs \<le> n \<Longrightarrow> length (drop_same c cs) \<le> n"
  using length_drop_same [of c cs] by simp

lemma split_script_bounded:
  "length cur + length s \<le> n \<Longrightarrow> list_all (\<lambda>seg. length seg \<le> n) (split_script q d cur s)"
proof (induction q d cur s rule: split_script.induct)
  case (1 q d cur)
  then show ?case by (simp add: flush_bounded)
next
  case (2 q d cur c cs)
  have more: "length (cur @ [c]) + length cs \<le> n" and less: "length ([] :: string) + length (drop_same x cs) \<le> n"
    and rest: "length ([] :: string) + length cs \<le> n" and cur: "length cur \<le> n" for x
    using 2(9) drop_same_bounded [of cs n x] by simp_all
  show ?case unfolding split_script.simps(2)
    using 2(1-8) more less rest flush_bounded [OF cur] by (auto split: if_split)
qed

lemma length_dequoteOuter: "length (dequoteOuter s) \<le> length s"
  by (simp add: dequoteOuter_def)

lemma length_wrapper_inner:
  assumes "extractShellWrapperInnerPreservingWhitespace cmd = Some inner"
  shows "length inner < length cmd"
proof -
  let ?t = "strings_TrimSpace cmd"
  obtain i where i: "inner = strings_TrimSpace (dequoteOuter (strings_TrimSpace (from_field (Suc i) ?t)))"
    and parts: "\<not> length (strings_Fields ?t) < 3"
    using assms by (auto simp: extractShellWrapperInnerPreservingWhitespace_def Let_def split: if_splits option.splits)
  have "?t \<noteq> []" using parts by (auto simp: strings_Fields_def)
  have "length inner \<le> length (from_field (Suc i) ?t)" unfolding i
    by (meson length_TrimSpace_le length_dequoteOuter order_trans)
  also have "\<dots> < length ?t" using \<open>?t \<noteq> []\<close> by (rule length_from_later_field)
  also have "\<dots> \<le> length cmd" by (rule length_TrimSpace_le)
  finally show ?thesis .
qed

text \<open>\<open>propagateBashLineageMutationSegment\<close> unwraps nested shells; the commands it comes to, in
  order. Every segment of a wrapped script is shorter than the wrapper, so this ends.\<close>

function script_commands :: "string \<Rightarrow> string list" where
  "script_commands command0 =
    (let command = strings_TrimSpace command0 in
     if command = [] then []
     else case extractShellWrapperInnerPreservingWhitespace command of
            Some inner \<Rightarrow> concat (map script_commands (splitBashScriptSegments inner))
          | None \<Rightarrow> [command])"
  by pat_completeness auto

termination
proof (relation "measure length")
  fix command0 command inner seg
  assume "command = strings_TrimSpace command0"
    and "extractShellWrapperInnerPreservingWhitespace command = Some inner"
    and "seg \<in> set (splitBashScriptSegments inner)"
  then have "length seg \<le> length inner" "length inner < length command" "length command \<le> length command0"
    using split_script_bounded [of "[]" inner "length inner" False False]
    by (simp_all add: splitBashScriptSegments_def list_all_iff length_wrapper_inner length_TrimSpace_le)
  then show "(seg, command0) \<in> measure length" by simp
qed simp

declare script_commands.simps [simp del]

definition bash_commands :: "HookPayload \<Rightarrow> string list" where
  "bash_commands payload =
    (let command = strings_TrimSpace (case get_string (hp_ToolInput payload) ''command'' of None \<Rightarrow> [] | Some c \<Rightarrow> c)
     in if hp_ToolName payload \<noteq> ''Bash'' \<or> command = [] then []
        else concat (map script_commands (splitBashScriptSegments command)))"

definition propagateBashLineageMutationWithLease ::
    "HookEnv \<Rightarrow> (string \<Rightarrow> bool) \<Rightarrow> string \<Rightarrow> Lease option \<Rightarrow> HookPayload \<Rightarrow> State \<Rightarrow> State" where
  "propagateBashLineageMutationWithLease e isDir projectRoot l payload s =
     foldl (mutate_command e isDir projectRoot l) s (bash_commands payload)"

subsection \<open>Labels only grow, and reach the destination\<close>

definition labels_grow :: "State \<Rightarrow> State \<Rightarrow> bool" where
  "labels_grow s s' \<longleftrightarrow> (\<forall>p. set (DerivedLabelsForPath s p) \<subseteq> set (DerivedLabelsForPath s' p))"

lemma labels_grow_refl [simp]: "labels_grow s s"
  by (simp add: labels_grow_def)

lemma labels_grow_trans: "labels_grow a b \<Longrightarrow> labels_grow b c \<Longrightarrow> labels_grow a c"
  unfolding labels_grow_def by blast

lemma foldl_labels_grow: "(\<And>s x. labels_grow s (f s x)) \<Longrightarrow> labels_grow s (foldl f s xs)"
proof (induction xs arbitrary: s)
  case (Cons x xs)
  show ?case unfolding foldl.simps by (rule labels_grow_trans [OF Cons.prems Cons.IH [OF Cons.prems]])
qed simp

lemma foldl_labels_reach:
  assumes "x \<in> set xs" and step: "\<And>s x. labels_grow s (f s x)" and hit: "\<And>s'. labels_grow s s' \<Longrightarrow> P (f s' x)"
    and keep: "\<And>a b. labels_grow a b \<Longrightarrow> P a \<Longrightarrow> P b"
  shows "P (foldl f s xs)"
proof -
  obtain ys zs where xs: "xs = ys @ x # zs" using assms(1) by (auto dest: split_list)
  have "labels_grow s (foldl f s ys)" by (rule foldl_labels_grow) (rule step)
  then have "P (f (foldl f s ys) x)" by (rule hit)
  then show ?thesis unfolding xs by (auto intro: keep foldl_labels_grow step)
qed

lemma set_mergeHook [simp]: "set (mergeHookLineageLabels dst src) = set dst \<union> set src"
proof -
  have "set (foldl (\<lambda>out l. if l \<in> set out then out else out @ [l]) acc xs) = set acc \<union> set xs"
    for acc :: "LineageLabel list" and xs
    by (induction xs arbitrary: acc) auto
  then show ?thesis by (simp add: mergeHookLineageLabels_def)
qed

lemma labels_after_update:
  "DerivedLabelsForPath (s\<lparr>DerivedFileLineage := AList.update path r (DerivedFileLineage s)\<rparr>) p =
     (if p = path then DP_Labels r else DerivedLabelsForPath s p)"
  by (simp add: DerivedLabelsForPath_def map_of_update_iff)

lemma seed_grows: "labels_grow s (seedSensitiveMutationSourceLineage e root l p s)"
  by (auto simp: labels_grow_def seedSensitiveMutationSourceLineage_def AttachLineageLabelsToPath_def
      labels_after_update DerivedLabelsForPath_def map_get_def Let_def split: option.split)

lemma mirror_grows: "labels_grow s (mirrorDerivedLineage now p d s)"
  by (auto simp: labels_grow_def mirrorDerivedLineage_def labels_after_update DerivedLabelsForPath_def Let_def
      split: option.split)

lemma mutate_one_grows: "labels_grow s (mutate_one e isDir root l command dest s source)"
  by (auto simp: mutate_one_def split: prod.split intro: labels_grow_trans [OF seed_grows mirror_grows])

lemma mutate_command_grows: "labels_grow s (mutate_command e isDir root l s command)"
  by (auto simp: mutate_command_def Let_def split: option.split intro!: foldl_labels_grow mutate_one_grows)

lemma propagate_grows: "labels_grow s (propagateBashLineageMutationWithLease e isDir root l payload s)"
  unfolding propagateBashLineageMutationWithLease_def by (rule foldl_labels_grow) (rule mutate_command_grows)

lemma mirror_reaches:
  assumes "p \<noteq> []" and "d \<noteq> []"
  shows "set (DerivedLabelsForPath s p) \<subseteq> set (DerivedLabelsForPath (mirrorDerivedLineage now p d s) d)"
proof (cases "map_of (DerivedFileLineage s) p")
  case (Some r)
  then show ?thesis using assms
    by (auto simp: mirrorDerivedLineage_def labels_after_update Let_def DerivedLabelsForPath_def split: option.split)
qed (simp add: DerivedLabelsForPath_def)

text \<open>A path that the lease calls sensitive, by its name or where it leads.\<close>

definition sensitive_source :: "HookEnv \<Rightarrow> string \<Rightarrow> Lease \<Rightarrow> string \<Rightarrow> bool" where
  "sensitive_source e root lease p \<longleftrightarrow> IsSensitivePath e p lease \<or> IsSensitivePathResolvedIn e root p lease"

lemma seed_marks:
  "p \<noteq> [] \<Longrightarrow> sensitive_source e root lease p \<Longrightarrow>
    secretReadLineageLabel \<in> set (DerivedLabelsForPath (seedSensitiveMutationSourceLineage e root (Some lease) p s) p)"
  by (auto simp: sensitive_source_def seedSensitiveMutationSourceLineage_def containsLineageLabel_def
      AttachLineageLabelsToPath_def labels_after_update Let_def)

text \<open>What the state knows of a path, with the label of a sensitive file added.\<close>

definition labels_due :: "HookEnv \<Rightarrow> string \<Rightarrow> Lease \<Rightarrow> State \<Rightarrow> string \<Rightarrow> LineageLabel set" where
  "labels_due e root lease s p =
     set (DerivedLabelsForPath s p) \<union> (if sensitive_source e root lease p then {secretReadLineageLabel} else {})"

lemma mutate_one_reaches:
  assumes "mutation_paths e isDir root command source dest = (p, d)" and "p \<noteq> []" and "d \<noteq> []" and "labels_grow s s1"
  shows "labels_due e root lease s p
    \<subseteq> set (DerivedLabelsForPath (mutate_one e isDir root (Some lease) command dest s1 source) d)"
proof -
  let ?t = "seedSensitiveMutationSourceLineage e root (Some lease) p s1"
  have "labels_grow s ?t" using assms(4) seed_grows by (rule labels_grow_trans)
  then have "labels_due e root lease s p \<subseteq> set (DerivedLabelsForPath ?t p)"
    using seed_marks [OF assms(2)] by (auto simp: labels_due_def labels_grow_def)
  also have "\<dots> \<subseteq> set (DerivedLabelsForPath (mirrorDerivedLineage (he_Now e) p d ?t) d)"
    by (rule mirror_reaches [OF assms(2,3)])
  finally show ?thesis by (simp add: mutate_one_def assms(1))
qed

text \<open>A command of the payload copies, moves or links \<open>source\<close> to the path \<open>d\<close>.\<close>

definition moves_file :: "HookEnv \<Rightarrow> (string \<Rightarrow> bool) \<Rightarrow> string \<Rightarrow> HookPayload \<Rightarrow> string \<Rightarrow> string \<Rightarrow> bool" where
  "moves_file e isDir root payload p d \<longleftrightarrow>
    p \<noteq> [] \<and> d \<noteq> [] \<and>
    list_ex (\<lambda>c. case parseBashLineageMutation (NormalizeCommand c) of
        None \<Rightarrow> False
      | Some (sources, dest) \<Rightarrow>
          list_ex (\<lambda>source. mutation_paths e isDir root (NormalizeCommand c) source dest = (p, d)) sources)
      (bash_commands payload)"

lemma propagate_reaches:
  assumes "moves_file e isDir root payload p d"
  shows "labels_due e root lease s p
    \<subseteq> set (DerivedLabelsForPath (propagateBashLineageMutationWithLease e isDir root (Some lease) payload s) d)"
proof -
  obtain c sources dest source where c: "c \<in> set (bash_commands payload)"
    and parse: "parseBashLineageMutation (NormalizeCommand c) = Some (sources, dest)"
    and source: "source \<in> set sources" "mutation_paths e isDir root (NormalizeCommand c) source dest = (p, d)"
    and ne: "p \<noteq> []" "d \<noteq> []"
    using assms by (auto simp: moves_file_def list_ex_iff split: option.splits)
  have nonempty: "NormalizeCommand c \<noteq> []"
    using parse by (auto simp: parseBashLineageMutation_def strings_Fields_def)
  define P where "P s' \<longleftrightarrow> labels_due e root lease s p \<subseteq> set (DerivedLabelsForPath s' d)" for s'
  have keep: "P b" if "labels_grow a b" "P a" for a b using that by (auto simp: P_def labels_grow_def)
  have one: "P (mutate_one e isDir root (Some lease) (NormalizeCommand c) dest s' source)" if "labels_grow s s'" for s'
    unfolding P_def by (rule mutate_one_reaches [OF source(2) ne that])
  have cmd: "P (mutate_command e isDir root (Some lease) s1 c)" if s1: "labels_grow s s1" for s1
  proof -
    have "P (foldl (mutate_one e isDir root (Some lease) (NormalizeCommand c) dest) s1 sources)"
      by (rule foldl_labels_reach [where P = P, OF source(1) mutate_one_grows])
        (auto intro: one keep labels_grow_trans [OF s1])
    then show ?thesis by (simp add: mutate_command_def parse nonempty)
  qed
  have "P (propagateBashLineageMutationWithLease e isDir root (Some lease) payload s)"
    unfolding propagateBashLineageMutationWithLease_def
    by (rule foldl_labels_reach [where P = P, OF c mutate_command_grows]) (auto intro: cmd keep)
  then show ?thesis by (simp add: P_def)
qed

end
