(* ===== verification/Secret_Redaction.thy ===== *)
theory Secret_Redaction
  imports Secret_Scan
begin

text \<open>
  Properties of the scanner of texts: a token is reported wherever it
  stands in a text, and after redaction no token of a fixed prefix is left.
\<close>

subsection \<open>Tokens of a fixed prefix\<close>

text \<open>
  Most patterns are a literal followed by one class; \<open>token_of p t\<close> says that \<open>t\<close> is a shortest text
  of this shape.
\<close>

definition token_shape :: "Pattern \<Rightarrow> (string \<times> (char \<Rightarrow> bool) \<times> nat) option" where
  "token_shape p =
    (case pt_RE p of [OneOf [l], Run c lo hi] \<Rightarrow> Some (l, c, lo) | _ \<Rightarrow> None)"

definition token_of :: "Pattern \<Rightarrow> string \<Rightarrow> bool" where
  "token_of p t =
    (case token_shape p of
       None \<Rightarrow> False
     | Some (l, c, lo) \<Rightarrow>
         strings_HasPrefix t l \<and> length t = length l + lo \<and> list_all c (drop (length l) t))"

definition bracket_free :: "string \<Rightarrow> bool" where
  "bracket_free w \<longleftrightarrow> CHR ''['' \<notin> set w \<and> CHR '']'' \<notin> set w"

definition redaction_labels :: "string list" where
  "redaction_labels = ''[REDACTED:high_entropy_token]'' # map redaction_label outputPatterns"

definition shape_ok :: "Pattern \<Rightarrow> bool" where
  "shape_ok p =
    (case pt_RE p of
       [OneOf [l], Run c lo hi] \<Rightarrow>
         l \<noteq> [] \<and> bracket_free l \<and> \<not> c (CHR ''['') \<and> \<not> c (CHR '']'')
         \<and> (case hi of None \<Rightarrow> True | Some h \<Rightarrow> lo \<le> h)
         \<and> pt_Validator p = None \<and> list_all (\<lambda>q. \<not> strings_Contains q l) redaction_labels
     | _ \<Rightarrow> True)"

lemma shapes_ok: "list_all shape_ok outputPatterns"
  by code_simp

lemma label_brackets:
  assumes "q \<in> set redaction_labels"
  shows "\<exists>m. q = CHR ''['' # m @ [CHR '']'']"
proof -
  have "\<exists>m. ''[REDACTED:'' @ x @ '']'' = CHR ''['' # m @ [CHR '']'']" for x
    by (rule exI [of _ "''REDACTED:'' @ x"]) simp
  from this [of "''high_entropy_token''"] this assms show ?thesis
    by (auto simp: redaction_labels_def redaction_label_def simp del: outputPatterns_def)
qed

lemma token_match:
  assumes "p \<in> set outputPatterns" and "token_of p t"
  shows "\<exists>n>0. re_match (pt_RE p) prev (t @ r) = Some n"
    and "t \<noteq> []" "bracket_free t" "pt_Validator p = None"
    and "q \<in> set redaction_labels \<Longrightarrow> \<not> sublist t q"
proof -
  obtain l c lo hi where re: "pt_RE p = [Lit l, Run c lo hi]" and shape: "token_shape p = Some (l, c, lo)"
    using assms(2) by (auto simp: token_of_def token_shape_def Lit_def split: list.splits re_atom.splits option.splits)
  have ok: "shape_ok p" using shapes_ok assms(1) by (auto simp: list_all_iff)
  then have l: "l \<noteq> []" "bracket_free l" and c: "\<not> c (CHR ''['')" "\<not> c (CHR '']'')"
    and hi: "\<forall>h. hi = Some h \<longrightarrow> lo \<le> h" and v: "pt_Validator p = None"
    and lab: "\<forall>q\<in>set redaction_labels. \<not> sublist l q"
    by (auto simp: shape_ok_def re Lit_def list_all_iff Contains_iff_sublist split: option.splits)
  obtain w where t: "t = l @ w" "length w = lo" "list_all c w"
    using assms(2) shape by (auto simp: token_of_def HasPrefix_iff_prefix elim!: prefixE)
  obtain n where "length l + lo \<le> n" "re_match [Lit l, Run c lo hi] prev (l @ w @ r) = Some n"
    using match_literal_run [OF t(3,2) hi] by blast
  moreover have "0 < length l" using l(1) by simp
  ultimately show "\<exists>n>0. re_match (pt_RE p) prev (t @ r) = Some n"
    unfolding re t(1) append_assoc by (intro exI [of _ n]) linarith
  show "t \<noteq> []" "pt_Validator p = None" using l v by (simp_all add: t)
  show "bracket_free t" using l(2) t(3) c by (auto simp: t(1) bracket_free_def list_all_iff)
  show "\<not> sublist t q" if "q \<in> set redaction_labels" using lab that sublist_order.order_trans [of l t q] by (auto simp: t)
qed

subsection \<open>A token is reported wherever it stands\<close>

lemma scan_patterns_complete:
  "p \<in> set ps \<Longrightarrow> pattern_found p s \<Longrightarrow>
    pt_Name p \<in> set seen \<union> cm_PatternName ` set (scan_patterns seen ps s)"
proof (induction seen ps s rule: scan_patterns.induct)
  case (2 seen q ps s)
  then show ?case by (cases "p = q") auto
qed simp

lemma token_found:
  assumes "p \<in> set outputPatterns" and "token_of p t"
  shows "pattern_found p (u @ t @ v)"
proof -
  obtain n where "0 < n" "re_match (pt_RE p) (char_before None u) (t @ v) = Some n"
    using token_match(1) [OF assms] by blast
  then have "FindAllString (pt_RE p) (u @ t @ v) \<noteq> []"
    using token_match(2) [OF assms] by (simp add: FindAllString_def find_all_some)
  then obtain m ms where "FindAllString (pt_RE p) (u @ t @ v) = m # ms" by (auto simp: neq_Nil_conv)
  then show ?thesis using token_match(4) [OF assms] by (simp add: pattern_found_def accepts_def)
qed

text \<open>C34: Both scanners report a token of a pattern that is a literal followed by a class of characters, wherever it
  stands in an output below the size threshold.\<close>

theorem token_reported:
  assumes "p \<in> set outputPatterns" and "token_of p t" and "length (u @ t @ v) \<le> largeOutputThreshold"
  shows "pt_Name p \<in> cm_PatternName ` set (ScanOutputForStructuredCredentials (u @ t @ v))
    \<and> pt_Name p \<in> cm_PatternName ` set (ScanOutputForCredentials (u @ t @ v))"
proof -
  have "scan_text (u @ t @ v) = u @ t @ v" using assms(3) by (simp add: scan_text_def)
  moreover have "u @ t @ v \<noteq> []" using token_match(2) [OF assms(1,2)] by simp
  ultimately show ?thesis
    using scan_patterns_complete [OF assms(1) token_found [OF assms(1,2)], of "[]"]
    by (auto simp: ScanOutputForStructuredCredentials_def ScanOutputForCredentials_def Let_def)
qed

theorem token_reported_witness:
  "''aws_access_key'' \<in> cm_PatternName ` set (ScanOutputForCredentials (''id: '' @ ''AKIA0123456789ABCDEF'' @ '';''))"
proof -
  have "hd outputPatterns \<in> set outputPatterns" and "token_of (hd outputPatterns) ''AKIA0123456789ABCDEF''"
    and "length (''id: '' @ ''AKIA0123456789ABCDEF'' @ '';'') \<le> largeOutputThreshold"
    and "pt_Name (hd outputPatterns) = ''aws_access_key''"
    by (simp add: outputPatterns_def, code_simp, simp add: largeOutputThreshold_def,
        simp add: outputPatterns_def high_pattern_def)
  with token_reported [of "hd outputPatterns" "''AKIA0123456789ABCDEF''" "''id: ''" "'';''"] show ?thesis by simp
qed

subsection \<open>Redaction leaves no token\<close>

text \<open>\<open>masked L s t\<close>: \<open>t\<close> is \<open>s\<close> with some pieces replaced by redaction_labels from \<open>L\<close>.\<close>

inductive masked :: "string set \<Rightarrow> string \<Rightarrow> string \<Rightarrow> bool" for L where
  masked_Nil: "masked L [] []"
| masked_keep: "masked L s t \<Longrightarrow> masked L (c # s) (c # t)"
| masked_label: "masked L s t \<Longrightarrow> q \<in> L \<Longrightarrow> masked L (m @ s) (q @ t)"

lemma masked_refl: "masked L s s"
  by (induction s) (auto intro: masked.intros)

lemma masked_append: "masked L s t \<Longrightarrow> masked L (m @ s) (m @ t)"
  by (induction m) (auto intro: masked.intros)

lemma prefix_label:
  assumes "q \<in> set redaction_labels" and "prefix w (q @ t)" and "bracket_free w"
  shows "w = []"
  using label_brackets [OF assms(1)] assms(2,3) by (cases w) (auto simp: bracket_free_def)

lemma masked_prefix:
  assumes "masked (set redaction_labels) s t" and "prefix w t" and "bracket_free w"
  shows "prefix w s"
  using assms
proof (induction arbitrary: w)
  case (masked_keep s t c)
  then show ?case by (cases w) (auto simp: bracket_free_def)
qed (auto dest: prefix_label)

lemma suffix_label:
  assumes "q \<in> set redaction_labels" and "suffix w q" and "bracket_free w"
  shows "w = []"
proof -
  obtain m where q: "q = (CHR ''['' # m) @ [CHR '']'']" using label_brackets [OF assms(1)] by auto
  show ?thesis using assms(2,3) unfolding q suffix_snoc by (auto simp: bracket_free_def)
qed

lemma sublist_label:
  assumes "q \<in> set redaction_labels" and "bracket_free w" and "\<not> sublist w q"
    and "sublist w (q @ t)"
  shows "sublist w t"
proof -
  from assms(3,4) consider "sublist w t"
    | x y where "w = x @ y" "suffix x q" "prefix y t" by (auto simp: sublist_append)
  then show ?thesis
  proof cases
    case 2
    then have "x = []" using suffix_label [OF assms(1)] assms(2) by (simp add: bracket_free_def)
    then show ?thesis using 2 by simp
  qed
qed

lemma masked_sublist:
  assumes "masked (set redaction_labels) s t" and "sublist w t" and "bracket_free w"
    and "\<And>q. q \<in> set redaction_labels \<Longrightarrow> \<not> sublist w q"
  shows "sublist w s"
  using assms(1,2)
proof (induction)
  case masked_Nil
  then show ?case by simp
next
  case (masked_keep s t c)
  then consider "prefix w (c # t)" | "sublist w t" by (auto simp: sublist_Cons_right)
  then show ?case
  proof cases
    case 1
    then show ?thesis
      using masked_prefix [OF masked.masked_keep [OF masked_keep.hyps]] assms(3)
      by (simp add: sublist_Cons_right)
  next
    case 2
    then show ?thesis using masked_keep.IH by (simp add: sublist_Cons_right)
  qed
next
  case (masked_label s t q m)
  then have "sublist w s"
    using sublist_label [OF masked_label.hyps(2) assms(3) assms(4) [OF masked_label.hyps(2)]] by blast
  then show ?case by (simp add: sublist_append)
qed

lemma replace_masked:
  assumes "\<And>m. f m = m \<or> f m \<in> L"
  shows "masked L s (re_replace_func re f prev s)"
proof (induction re prev s rule: re_find_all.induct)
  case (2 re prev c cs)
  show ?case
  proof (cases "\<exists>n. re_match re prev (c # cs) = Some (Suc n)")
    case True
    then obtain n where n: "re_match re prev (c # cs) = Some (Suc n)" by blast
    let ?m = "take (Suc n) (c # cs)"
    have "masked L (?m @ drop (Suc n) (c # cs))
        (f ?m @ re_replace_func re f (char_before prev ?m) (drop (Suc n) (c # cs)))"
      using assms [of ?m] masked_append [OF "2.IH"(3) [OF n refl], of ?m]
        masked_label [OF "2.IH"(3) [OF n refl], of "f ?m" ?m] by metis
    then show ?thesis by (simp only: append_take_drop_id n re_replace_func.simps option.case nat.case)
  next
    case False
    then have "re_replace_func re f prev (c # cs) = c # re_replace_func re f (Some c) cs"
      by (auto split: option.split nat.split)
    moreover have "masked L cs (re_replace_func re f (Some c) cs)"
      using False "2.IH"(1,2) by (metis nat.exhaust option.exhaust)
    ultimately show ?thesis by (simp add: masked_keep)
  qed
qed (simp add: masked_Nil)

lemma redact_pattern_masked:
  assumes "p \<in> set outputPatterns"
  shows "masked (set redaction_labels) s (redact_pattern p s)"
  unfolding redact_pattern_def ReplaceAllStringFunc_def
  by (rule replace_masked) (use assms in \<open>simp add: redaction_labels_def\<close>)

lemma redact_token_masked:
  assumes "masked (set redaction_labels) s t"
  shows "masked (set redaction_labels) (w @ s) (redactTokenIfNeeded w @ t)"
proof (cases "IsHighEntropyString w")
  case True
  have "''[REDACTED:high_entropy_token]'' \<in> set redaction_labels" by (simp add: redaction_labels_def)
  with masked_label [OF assms this, of w] show ?thesis by (simp only: redactTokenIfNeeded_def True if_True)
qed (simp add: redactTokenIfNeeded_def masked_append assms)

lemma redact_tokens_masked: "masked (set redaction_labels) (rev cur @ s) (redact_tokens cur s)"
proof (induction cur s rule: redact_tokens.induct)
  case (1 cur)
  then show ?case using redact_token_masked [OF masked_Nil, of "rev cur"] by (simp add: masked_Nil)
next
  case (2 cur c cs)
  then show ?case using redact_token_masked [OF masked_keep, of cs "redact_tokens [] cs" "rev cur" c]
    by (auto simp: masked_keep)
qed

text \<open>The pass of a pattern leaves none of its own tokens.\<close>

lemma own_pass:
  assumes "p \<in> set outputPatterns" and "token_of p t"
  shows "\<not> sublist t (redact_pattern p s)"
proof -
  note tok = token_match [OF assms]
  define f where "f = (\<lambda>m. if accepts p m then redaction_label p else m)"
  have f: "f m = redaction_label p" for m using tok(4) by (simp add: f_def accepts_def)
  have lab: "redaction_label p \<in> set redaction_labels" using assms(1) by (simp add: redaction_labels_def)
  have pre: "\<not> prefix t (re_replace_func (pt_RE p) f prev s)" for prev s
  proof
    assume *: "prefix t (re_replace_func (pt_RE p) f prev s)"
    have "masked (set redaction_labels) s (re_replace_func (pt_RE p) f prev s)"
      using lab f by (intro replace_masked) simp
    from masked_prefix [OF this * tok(3)] obtain r where s: "s = t @ r" by (auto elim: prefixE)
    then obtain n where "re_match (pt_RE p) prev s = Some (Suc n)" using tok(1) [of prev r] by (auto simp: gr0_conv_Suc)
    moreover obtain c cs where "s = c # cs" using s tok(2) by (metis append_is_Nil_conv list.exhaust)
    ultimately have "prefix t (redaction_label p @ re_replace_func (pt_RE p) f
        (char_before prev (take (Suc n) s)) (drop (Suc n) s))"
      using * by (simp add: f)
    from prefix_label [OF lab this tok(3)] tok(2) show False by simp
  qed
  have "\<not> sublist t (re_replace_func re f prev s)" if "re = pt_RE p" for re prev s
    using that
  proof (induction re prev s rule: re_find_all.induct)
    case (1 re prev)
    then show ?case using tok(2) by simp
  next
    case (2 re prev c cs)
    show ?case
    proof (cases "\<exists>n. re_match re prev (c # cs) = Some (Suc n)")
      case True
      then obtain n where n: "re_match re prev (c # cs) = Some (Suc n)" by blast
      from "2.IH"(3) [OF n refl "2.prems"]
      have "\<not> sublist t (redaction_label p @ re_replace_func re f
          (char_before prev (take (Suc n) (c # cs))) (drop (Suc n) (c # cs)))"
        using sublist_label [OF lab tok(3) tok(5) [OF lab]] by blast
      then show ?thesis by (simp only: n f [of "take (Suc n) (c # cs)"] re_replace_func.simps option.case nat.case simp_thms)
    next
      case False
      then have step: "re_replace_func re f prev (c # cs) = c # re_replace_func re f (Some c) cs"
        by (auto split: option.split nat.split)
      have "\<not> sublist t (re_replace_func re f (Some c) cs)"
        using False "2.IH"(1,2) "2.prems" by (metis nat.exhaust option.exhaust)
      moreover have "\<not> prefix t (c # re_replace_func re f (Some c) cs)"
        using pre [of prev "c # cs"] unfolding "2.prems" [symmetric] step .
      ultimately show ?thesis unfolding step by (simp add: sublist_Cons_right)
    qed
  qed
  then show ?thesis by (simp add: redact_pattern_def ReplaceAllStringFunc_def f_def)
qed

lemma passes_masked: "set ps \<subseteq> set outputPatterns \<Longrightarrow> \<not> sublist t s \<Longrightarrow> bracket_free t \<Longrightarrow>
    (\<And>q. q \<in> set redaction_labels \<Longrightarrow> \<not> sublist t q) \<Longrightarrow> \<not> sublist t (fold redact_pattern ps s)"
proof (induction ps arbitrary: s)
  case (Cons p ps)
  have "\<not> sublist t (redact_pattern p s)"
  proof
    assume *: "sublist t (redact_pattern p s)"
    have "masked (set redaction_labels) s (redact_pattern p s)" using Cons.prems(1) by (intro redact_pattern_masked) simp
    from masked_sublist [OF this * Cons.prems(3,4)] Cons.prems(2) show False by blast
  qed
  then show ?case using Cons by simp
qed simp

text \<open>No token of a pattern that consists of a fixed prefix and one class of characters (AWS, GitHub,
  Slack, Stripe, Google and OpenAI keys) occurs in a redacted text.\<close>

lemma redacted_no_token:
  assumes "p \<in> set outputPatterns" and "token_of p t"
  shows "\<not> sublist t (RedactStructuredText s)"
proof (cases "s = []")
  case True
  then show ?thesis using token_match(2) [OF assms] by (simp add: RedactStructuredText_def)
next
  case False
  note tok = token_match [OF assms]
  obtain ps qs where split: "outputPatterns = ps @ p # qs" using split_list [OF assms(1)] by blast
  have "\<not> sublist t (fold redact_pattern qs (redact_pattern p (fold redact_pattern ps s)))"
    by (rule passes_masked [OF _ own_pass [OF assms] tok(3) tok(5)]) (auto simp: split)
  then have "\<not> sublist t (fold redact_pattern outputPatterns s)" by (simp add: split)
  then show ?thesis
    using masked_sublist [OF redact_tokens_masked [of "[]"], of t] tok(3,5) False
    by (auto simp: RedactStructuredText_def redactHighEntropyTokens_def)
qed

end
