(* ===== verification/Ledger_Content.thy ===== *)
theory Ledger_Content
  imports Ledger_Chain Ledger_Redact Secret_Mcp Secret_Redaction Go_Json_Text Go_Encoding
begin

text \<open>
  Redaction of texts before they enter the ledger (\<open>pkg/ledger/redact.go\<close>) and of tool contents
  kept as evidence (\<open>pkg/hooks/evidence/evidence.go\<close>). The argument \<open>other\<close> tells which
  characters outside of ASCII separate words (\<open>unicode.IsSpace\<close>, \<open>IsLetter\<close>, \<open>IsDigit\<close>),
  \<open>marshal\<close> is \<open>json.Marshal\<close> on a decoded value. Shown is which texts reach the ledger without
  their credentials, and the one way around it.
\<close>

subsection \<open>Cutting at word boundaries\<close>

definition longTokenRedaction :: string where
  "longTokenRedaction = ''[REDACTED:long_token]''"

definition isBoundaryRune :: "(string \<Rightarrow> bool) \<Rightarrow> string \<Rightarrow> bool" where
  "isBoundaryRune other r =
    (case r of
       [c] \<Rightarrow> if ascii_space c then True
              else if re_lower c \<or> re_upper c \<or> re_digit c then False
              else c \<notin> set ''_-=+/''
     | _ \<Rightarrow> other r)"

text \<open>\<open>utf8.DecodeLastRuneInString\<close>: the last character, nothing for a stray byte.\<close>

definition last_rune :: "string \<Rightarrow> string option" where
  "last_rune s =
    List.find (\<lambda>t. rune_len t = length t)
      (map (\<lambda>k. drop (length s - k) s) (filter (\<lambda>k. k \<le> length s) [1, 2, 3, 4]))"

text \<open>The longest prefix of more than \<open>n\<close> bytes that ends in a boundary.\<close>

function boundary_back :: "(string \<Rightarrow> bool) \<Rightarrow> nat \<Rightarrow> string \<Rightarrow> string option" where
  "boundary_back other n s =
    (if length s \<le> n then None
     else case last_rune s of
            None \<Rightarrow> boundary_back other n (butlast s)
          | Some r \<Rightarrow>
              if isBoundaryRune other r then Some s
              else boundary_back other n (take (length s - max 1 (length r)) s))"
  by pat_completeness auto

termination by (relation "measure (\<lambda>(_, _, s). length s)") auto

declare boundary_back.simps [simp del]

definition safePrefixBoundary :: "string \<Rightarrow> nat \<Rightarrow> nat" where
  "safePrefixBoundary s maxBytes =
    (if length s \<le> maxBytes then length s
     else case List.find (\<lambda>n. utf8_ValidString (take n s)) (rev [1..<Suc maxBytes]) of
            None \<Rightarrow> maxBytes
          | Some n \<Rightarrow> n)"

definition trimSegmentToBoundary :: "(string \<Rightarrow> bool) \<Rightarrow> string \<Rightarrow> nat \<Rightarrow> string" where
  "trimSegmentToBoundary other s0 maxBytes =
    (if s0 = [] then []
     else
       let s = (if maxBytes < length s0 then take (safePrefixBoundary s0 maxBytes) s0 else s0);
           searchFloor = length s - 64
       in case boundary_back other searchFloor s of
            Some t \<Rightarrow> t
          | None \<Rightarrow>
              (case boundary_back other 0 (take searchFloor s) of Some t \<Rightarrow> t | None \<Rightarrow> longTokenRedaction))"

text \<open>\<open>strings.TrimLeftFunc\<close> decodes a stray byte as U+FFFD.\<close>

function trim_boundaries :: "(string \<Rightarrow> bool) \<Rightarrow> string \<Rightarrow> string" where
  "trim_boundaries other [] = []"
| "trim_boundaries other (c # cs) =
     (let n = rune_len (c # cs) in
      if n = 0 then (if isBoundaryRune other replacement_rune then trim_boundaries other cs else c # cs)
      else if isBoundaryRune other (take n (c # cs)) then trim_boundaries other (drop n (c # cs))
      else c # cs)"
  by pat_completeness auto

termination by (relation "measure (\<lambda>(_, s). length s)") auto

function from_boundary :: "(string \<Rightarrow> bool) \<Rightarrow> string \<Rightarrow> string" where
  "from_boundary other [] = longTokenRedaction"
| "from_boundary other (c # cs) =
     (let n = rune_len (c # cs) in
      if n = 0 then from_boundary other cs
      else if isBoundaryRune other (take n (c # cs)) then trim_boundaries other (c # cs)
      else from_boundary other (drop n (c # cs)))"
  by pat_completeness auto

termination by (relation "measure (\<lambda>(_, s). length s)") auto

declare trim_boundaries.simps(2) [simp del] from_boundary.simps(2) [simp del]

definition trimLeadingPartialToken :: "(string \<Rightarrow> bool) \<Rightarrow> string \<Rightarrow> string" where
  "trimLeadingPartialToken other s =
    (if s = [] then []
     else if rune_len s = 0 then s
     else if isBoundaryRune other (take (rune_len s) s) then s
     else from_boundary other s)"

definition SliceHeadTail :: "(string \<Rightarrow> bool) \<Rightarrow> string \<Rightarrow> nat \<Rightarrow> string" where
  "SliceHeadTail other content sliceBytes =
    (if content = [] \<or> sliceBytes = 0 then content
     else if length content \<le> sliceBytes * 2 then content
     else
       let head = trimSegmentToBoundary other (take (safePrefixBoundary content sliceBytes) content) sliceBytes;
           tail = trimLeadingPartialToken other (drop (length content - sliceBytes) content)
       in if head = [] \<and> tail = [] then []
          else if head = [] then tail
          else if tail = [] then head
          else head @ newline @ ''...[truncated]...'' @ newline @ tail)"

definition TruncateToWordBoundary :: "(string \<Rightarrow> bool) \<Rightarrow> string \<Rightarrow> nat \<Rightarrow> string" where
  "TruncateToWordBoundary other s maxBytes =
    (if s = [] \<or> maxBytes = 0 then []
     else if length s \<le> maxBytes then s
     else trimSegmentToBoundary other s maxBytes)"

subsection \<open>Redacting texts and evidence\<close>

definition RedactText :: "string \<Rightarrow> string" where
  "RedactText s =
    (if s = [] then []
     else
       let redacted = RedactStructuredText s
       in if redacted \<noteq> s then redacted
          else if strings_Contains s ''Bearer '' then ''[REDACTED:credential]''
          else redacted)"

definition RedactContent :: "(string \<Rightarrow> bool) \<Rightarrow> string \<Rightarrow> nat \<Rightarrow> string" where
  "RedactContent other content sliceBytes =
    (if content = [] then [] else RedactText (SliceHeadTail other content sliceBytes))"

definition already_redacted :: "string \<Rightarrow> bool" where
  "already_redacted v \<longleftrightarrow> strings_HasPrefix v ''[REDACTED:'' \<and> strings_HasSuffix v '']''"

fun redactAnyValue :: "string \<Rightarrow> json \<Rightarrow> json"
  and redact_members :: "string \<Rightarrow> (string \<times> json) list \<Rightarrow> (string \<times> json) list"
  and redact_items :: "string \<Rightarrow> nat \<Rightarrow> json list \<Rightarrow> json list" where
  "redactAnyValue path (JString v) = JString (if already_redacted v then v else RedactMCPValue path v)"
| "redactAnyValue path (JObject members) = JObject (redact_members path members)"
| "redactAnyValue path (JArray items) = JArray (redact_items path 0 items)"
| "redactAnyValue path JNull = JNull"
| "redactAnyValue path (JBool b) = JBool b"
| "redactAnyValue path (JNumber n) = JNumber n"
| "redact_members path [] = []"
| "redact_members path ((key, value) # rest) =
     (key, redactAnyValue (if path \<noteq> [] then path @ ''.'' @ key else key) value) # redact_members path rest"
| "redact_items path i [] = []"
| "redact_items path i (item # rest) =
     redactAnyValue (path @ ''['' @ itoa i @ '']'') item # redact_items path (Suc i) rest"

definition RedactMapValues :: "jsonobj \<Rightarrow> jsonobj" where
  "RedactMapValues m = map (\<lambda>(key, value). (key, redactAnyValue key value)) m"

definition RedactEvidence :: "(string \<Rightarrow> bool) \<Rightarrow> (json \<Rightarrow> string) \<Rightarrow> string \<Rightarrow> string" where
  "RedactEvidence other marshal content =
    (if content = [] then []
     else case json_parse content of
            Some value \<Rightarrow> TruncateToWordBoundary other (marshal (redactAnyValue [] value)) 2048
          | None \<Rightarrow> RedactContent other content 1024)"

text \<open>The redactors of the store, and the two producers of evidence.\<close>

definition ledger_redactors :: "(string \<Rightarrow> bool) \<Rightarrow> (json \<Rightarrow> string) \<Rightarrow> RedactFns" where
  "ledger_redactors other marshal =
    \<lparr>RF_String = RedactText, RF_Content = (\<lambda>content. RedactContent other content 256),
     RF_Evidence = RedactEvidence other marshal\<rparr>"

definition MarshalMCP :: "(string \<Rightarrow> bool) \<Rightarrow> (json \<Rightarrow> string) \<Rightarrow> jsonobj \<Rightarrow> string" where
  "MarshalMCP other marshal toolInput =
    (if toolInput = [] then []
     else TruncateToWordBoundary other (marshal (JObject (RedactMapValues toolInput))) 2048)"

definition RedactToolOutput :: "(string \<Rightarrow> bool) \<Rightarrow> string \<Rightarrow> string" where
  "RedactToolOutput other output = (if output = [] then [] else RedactContent other output 1024)"

subsection \<open>No credential reaches the ledger\<close>

lemma between_ascii: "chars_between a b x \<Longrightarrow> byte_in 0 0x7F b \<Longrightarrow> byte_in 0 0x7F x"
  by (simp add: chars_between_def byte_in_def)

lemma re_alnum_ascii: "re_alnum x \<Longrightarrow> byte_in 0 0x7F x"
  by (auto simp: re_alnum_def re_digit_def re_upper_def re_lower_def byte_in_def dest!: between_ascii)

lemma class_ascii:
  "akia_char x \<Longrightarrow> byte_in 0 0x7F x" "alnum_under x \<Longrightarrow> byte_in 0 0x7F x" "alnum_dash x \<Longrightarrow> byte_in 0 0x7F x"
  "base64url_char x \<Longrightarrow> byte_in 0 0x7F x"
  using re_alnum_ascii [of x]
  by (auto simp: akia_char_def alnum_under_def alnum_dash_def base64url_char_def re_alnum_def, auto simp: byte_in_def)

definition shape_stored :: "Pattern \<Rightarrow> bool" where
  "shape_stored p \<longleftrightarrow>
    (case token_shape p of
       None \<Rightarrow> True
     | Some (l, c, lo) \<Rightarrow>
         l \<noteq> [] \<and> ascii l \<and> (\<forall>x. c x \<longrightarrow> byte_in 0 0x7F x)
         \<and> \<not> strings_Contains ''[REDACTED:credential]'' l
         \<and> \<not> strings_Contains ''[REDACTED - secret-labeled content]'' l)"

lemma shapes_stored: "list_all shape_stored outputPatterns"
  by (simp add: outputPatterns_def shape_stored_def token_shape_def high_pattern_def medium_pattern_def Lit_def ascii_def
      class_ascii re_alnum_ascii, simp add: byte_in_def)

lemma token_stored:
  assumes "p \<in> set outputPatterns" and "token_of p t"
  shows "ascii t" and "t \<noteq> []" and "\<not> sublist t ''[REDACTED:credential]''"
    and "\<not> sublist t ''[REDACTED - secret-labeled content]''"
proof -
  obtain l c lo where shape: "token_shape p = Some (l, c, lo)"
    using assms(2) by (auto simp: token_of_def split: option.splits)
  have "shape_stored p" using shapes_stored assms(1) by (simp only: list_all_iff)
  then have l: "l \<noteq> []" "ascii l" "\<not> sublist l ''[REDACTED:credential]''" "\<not> sublist l ''[REDACTED - secret-labeled content]''"
    and c: "\<And>x. c x \<Longrightarrow> byte_in 0 0x7F x"
    by (simp_all add: shape_stored_def shape Contains_iff_sublist)
  obtain w where t: "t = l @ w" "list_all c w"
    using assms(2) shape by (auto simp: token_of_def HasPrefix_iff_prefix elim!: prefixE)
  show "ascii t" using l(2) t(2) c by (auto simp: ascii_def t(1) list_all_iff)
  show "t \<noteq> []" using l(1) t(1) by simp
  have "sublist l t" by (simp add: t(1))
  then show "\<not> sublist t ''[REDACTED:credential]''" "\<not> sublist t ''[REDACTED - secret-labeled content]''"
    using l(3,4) sublist_order.order_trans [of l t] by blast+
qed

lemma RedactText_no_token:
  assumes "p \<in> set outputPatterns" and "token_of p t"
  shows "\<not> sublist t (RedactText s)"
  using redacted_no_token [OF assms, of s] token_stored [OF assms] by (auto simp: RedactText_def Let_def)

text \<open>Storing a text as JSON replaces stray bytes, which no token of ASCII characters spans.\<close>

lemma second_range_above: "second_range c = (lo, hi) \<Longrightarrow> 128 \<le> lo"
  by (auto simp: second_range_def Let_def split: if_splits)

lemma runes_outside_ascii:
  assumes "rune_len (c # cs) \<noteq> 1"
  shows "list_all (\<lambda>x. \<not> byte_in 0 0x7F x)
    (if rune_len (c # cs) = 0 then replacement_rune else take (rune_len (c # cs)) (c # cs))"
  using assms
  by (auto simp: rune_len_def replacement_rune_def byte_in_def split: if_splits list.splits prod.splits
      dest: second_range_above)

lemma ascii_skips:
  assumes "list_all (\<lambda>x. \<not> byte_in 0 0x7F x) xs" and "ascii t" and "t \<noteq> []" and "sublist t (xs @ ys)"
  shows "sublist t ys"
  using assms(1,4)
proof (induction xs)
  case (Cons x xs)
  then have "\<not> prefix t (x # xs @ ys)" using assms(2,3) by (cases t) (auto simp: ascii_def)
  then show ?case using Cons by (simp add: sublist_Cons_right)
qed simp

lemma coerce_prefix_ascii: "ascii t \<Longrightarrow> prefix t (utf8_coerce s) \<Longrightarrow> prefix t s"
proof (induction s arbitrary: t rule: utf8_coerce.induct)
  case (2 c cs)
  let ?n = "rune_len (c # cs)" and ?x = "if rune_len (c # cs) = 0 then replacement_rune else take (rune_len (c # cs)) (c # cs)"
  show ?case
  proof (cases "?n = 1")
    case True
    then have "utf8_coerce (c # cs) = c # utf8_coerce cs" by (simp add: utf8_coerce.simps(2))
    then show ?thesis using 2 True by (cases t) (auto simp: ascii_def)
  next
    case False
    then have "utf8_coerce (c # cs) = ?x @ utf8_coerce (if ?n = 0 then cs else drop ?n (c # cs))" and "?x \<noteq> []"
      by (simp_all add: utf8_coerce.simps(2) Let_def replacement_rune_def)
    then show ?thesis using runes_outside_ascii [OF False] 2(3,4)
      by (cases t; cases "?x") (auto simp: ascii_def)
  qed
qed simp

lemma coerce_keeps_absence:
  assumes "ascii t" and "t \<noteq> []" and "sublist t (utf8_coerce s)"
  shows "sublist t s"
  using assms(3)
proof (induction s rule: utf8_coerce.induct)
  case (2 c cs)
  let ?n = "rune_len (c # cs)" and ?x = "if rune_len (c # cs) = 0 then replacement_rune else take (rune_len (c # cs)) (c # cs)"
  show ?case
  proof (cases "?n = 1")
    case True
    then have eq: "utf8_coerce (c # cs) = c # utf8_coerce cs" by (simp add: utf8_coerce.simps(2))
    then have "prefix t (utf8_coerce (c # cs)) \<or> sublist t (utf8_coerce cs)"
      using 2(3) by (simp add: sublist_Cons_right)
    then show ?thesis
      using coerce_prefix_ascii [OF assms(1), of "c # cs"] 2(2) [OF refl] True by (auto simp: sublist_Cons_right)
  next
    case False
    let ?r = "if ?n = 0 then cs else drop ?n (c # cs)"
    have "utf8_coerce (c # cs) = ?x @ utf8_coerce ?r" by (simp add: utf8_coerce.simps(2) Let_def)
    then have "sublist t (utf8_coerce ?r)" using ascii_skips [OF runes_outside_ascii [OF False] assms(1,2)] 2(3) by simp
    then have "sublist t ?r" using 2(1,2) by (simp split: if_splits)
    moreover have "suffix ?r (c # cs)" by (simp add: suffix_drop suffix_ConsI)
    ultimately show ?thesis by (meson sublist_order.order_trans suffix_imp_sublist)
  qed
qed simp

lemma RedactContent_no_token:
  "p \<in> set outputPatterns \<Longrightarrow> token_of p t \<Longrightarrow> \<not> sublist t (RedactContent other content n)"
  using token_stored(2) [of p t] RedactText_no_token [of p t] by (auto simp: RedactContent_def)

text \<open>The string values in a JSON value; the names of members are not among them.\<close>

fun json_strings :: "json \<Rightarrow> string list"
  and member_strings :: "(string \<times> json) list \<Rightarrow> string list"
  and item_strings :: "json list \<Rightarrow> string list" where
  "json_strings (JString s) = [s]"
| "json_strings (JObject members) = member_strings members"
| "json_strings (JArray items) = item_strings items"
| "json_strings JNull = []"
| "json_strings (JBool b) = []"
| "json_strings (JNumber n) = []"
| "member_strings [] = []"
| "member_strings ((key, value) # rest) = json_strings value @ member_strings rest"
| "item_strings [] = []"
| "item_strings (item # rest) = json_strings item @ item_strings rest"

lemma marked: "already_redacted (''[REDACTED:'' @ x @ '']'')"
proof -
  have "prefix ''[REDACTED:'' (''[REDACTED:'' @ x @ '']'')" by (rule prefixI) (rule refl)
  moreover have "suffix '']'' (''[REDACTED:'' @ x @ '']'')" by (rule suffixI [of _ "''[REDACTED:'' @ x"]) simp
  ultimately show ?thesis unfolding already_redacted_def HasPrefix_iff_prefix HasSuffix_iff_suffix by blast
qed

lemma RedactMCPValue_marks:
  assumes "p \<in> set outputPatterns" and "token_of p t" and "sublist t (RedactMCPValue key v)"
  shows "already_redacted (RedactMCPValue key v)"
  using assms(3) redacted_no_token [OF assms(1,2), of v] marked
  unfolding RedactMCPValue_def Let_def by (auto simp del: append.simps split: option.splits if_splits)

lemma evidence_marks:
  assumes "p \<in> set outputPatterns" and "token_of p t"
  shows "s \<in> set (json_strings (redactAnyValue path v)) \<Longrightarrow> sublist t s \<Longrightarrow> already_redacted s"
    and "s \<in> set (member_strings (redact_members path ms)) \<Longrightarrow> sublist t s \<Longrightarrow> already_redacted s"
    and "s \<in> set (item_strings (redact_items path i js)) \<Longrightarrow> sublist t s \<Longrightarrow> already_redacted s"
  by (induction path v and path ms and path i js rule: redactAnyValue_redact_members_redact_items.induct)
    (auto split: if_splits dest: RedactMCPValue_marks [OF assms])

text \<open>C35: Reasons, previews and diff summaries are stored without a token of a pattern that is a literal and a
  class of characters, and so is evidence that is not JSON, however long the text and wherever the token stands in it.
  Targets and tool names are not redacted and not covered. Of JSON evidence the redactor leaves such a token
  in the value of a string only if the string has the shape \<open>[REDACTED:...]\<close>, which passes also when an
  agent wrote it; and the names of members pass unchanged, so a token that is a name gets through.\<close>

theorem redacted_fields_hold_no_token:
  assumes "p \<in> set outputPatterns" and "token_of p t"
    and "e = json_entry (chained_entry (ledger_redactors other marshal) now ls entry)"
  shows "\<not> sublist t (L_Reason e) \<and> \<not> sublist t (L_Preview e) \<and> \<not> sublist t (L_DiffSummary e)
    \<and> (json_parse (L_Evidence entry) = None \<longrightarrow> \<not> sublist t (L_Evidence e))
    \<and> (\<forall>v. \<forall>s\<in>set (json_strings (redactAnyValue [] v)). sublist t s \<longrightarrow> already_redacted s)
    \<and> redactAnyValue [] (JString (''[REDACTED:'' @ t @ '']'')) = JString (''[REDACTED:'' @ t @ '']'')
    \<and> redactAnyValue [] (JObject [(t, JNumber n)]) = JObject [(t, JNumber n)]"
proof -
  have texts: "L_Reason e = utf8_coerce (RedactText (L_Reason entry))"
    "L_DiffSummary e = utf8_coerce (RedactText (L_DiffSummary entry))"
    "L_Preview e = utf8_coerce (if L_Sensitivity entry = ''secret'' then ''[REDACTED - secret-labeled content]''
       else RedactContent other (L_Preview entry) 256)"
    "L_Evidence e = utf8_coerce (RedactEvidence other marshal (L_Evidence entry))"
    by (simp_all add: assms(3) json_entry_def chained_entry_def sanitizeEntry_def stampDetection_def ledger_redactors_def
        RedactPreview_def Let_def split: option.split prod.split)
  have out: "\<not> sublist t (utf8_coerce w)" if "\<not> sublist t w" for w
    using coerce_keeps_absence [OF token_stored(1,2) [OF assms(1,2)]] that by blast
  have evidence: "\<not> sublist t (RedactEvidence other marshal (L_Evidence entry))" if "json_parse (L_Evidence entry) = None"
    using that RedactContent_no_token [OF assms(1,2)] token_stored(2) [OF assms(1,2)] by (simp add: RedactEvidence_def)
  show ?thesis unfolding texts
    using out evidence RedactText_no_token [OF assms(1,2)] RedactContent_no_token [OF assms(1,2)] token_stored(4) [OF assms(1,2)]
      evidence_marks(1) [OF assms(1,2)] marked [of t] by simp
qed

theorem redacted_fields_hold_no_token_witness:
  "\<not> sublist ''AKIA0123456789ABCDEF''
      (L_Preview (json_entry (chained_entry (ledger_redactors (\<lambda>_. True) json_print) ''now'' []
        (demo_entry\<lparr>L_Preview := ''id: AKIA0123456789ABCDEF;''\<rparr>))))"
proof -
  have "hd outputPatterns \<in> set outputPatterns" by (simp add: outputPatterns_def)
  moreover have "token_of (hd outputPatterns) ''AKIA0123456789ABCDEF''" by code_simp
  ultimately show ?thesis by (rule redacted_fields_hold_no_token [OF _ _ refl, THEN conjunct2, THEN conjunct1])
qed

end
