(* ===== verification/Hooks_Post.thy ===== *)
theory Hooks_Post
  imports Hooks_Evaluate Posture_Files Hooks_Mutation Hooks_Injection Ledger_Content
begin

text \<open>
  The PostToolUse handler: \<open>pkg/hooks/post_evaluate*.go\<close>, \<open>postflight.go\<close>,
  \<open>internal/postflight\<close>, the recording half of \<open>lineage.go\<close>, \<open>secret_fingerprint.go\<close> and
  \<open>auto_lease.go\<close>. A call that has run is reported with its output. The handler looks for
  tampering, marks the session for secrets and injected text, follows copied files, and redeems
  approvals. Every step returns the session and the records it hands to the ledger; the ones that
  can raise an alert tell whether its record was written.
\<close>

text \<open>
  \<open>po_AppendFails\<close> tells for which records appending to the ledger fails, \<open>po_Random\<close> what
  \<open>rand.Read\<close> gives, \<open>po_MintHash\<close> the hash of a lease once it is saved (nothing when that or the
  saving of the session fails), \<open>po_LogContent\<close> the switch for traces, \<open>po_Boundary\<close> the
  word boundaries outside of ASCII, \<open>po_BaselineError\<close> the text of an error about hook baselines.
\<close>

record PostEnv =
  po_Hooks :: HookFilesEnv
  po_IsDir :: "string \<Rightarrow> bool"
  po_AppendFails :: "AuditRecord \<Rightarrow> bool"
  po_Random :: string
  po_MintHash :: "Lease \<Rightarrow> string option"
  po_LogContent :: bool
  po_Boundary :: "string \<Rightarrow> bool"
  po_BaselineError :: string

definition po_Eval :: "PostEnv \<Rightarrow> EvalEnv" where
  "po_Eval env = hf_Eval (po_Hooks env)"

definition po_Now :: "PostEnv \<Rightarrow> Time" where
  "po_Now env = ee_Now (po_Eval env)"

text \<open>Appending a record: whether it was written, and what the ledger gains.\<close>

definition append_record :: "PostEnv \<Rightarrow> AuditRecord \<Rightarrow> bool \<times> AuditRecord list" where
  "append_record env r = (if po_AppendFails env r then (False, []) else (True, [r]))"

subsection \<open>Targets and records (\<open>internal/postflight\<close>)\<close>

definition post_ExtractTarget :: "HookPayload \<Rightarrow> string" where
  "post_ExtractTarget payload =
    (case get_string (hp_ToolInput payload) ''file_path'' of
       Some p \<Rightarrow> p
     | None \<Rightarrow> (case get_string (hp_ToolInput payload) ''path'' of Some p \<Rightarrow> p | None \<Rightarrow> []))"

definition SourceRef :: "HookPayload \<Rightarrow> string \<Rightarrow> string" where
  "SourceRef payload fallback =
    (if hp_ToolUseID payload \<noteq> [] then hp_ToolUseID payload
     else if fallback \<noteq> [] then fallback
     else hp_ToolName payload)"

definition SensitiveTarget :: "HookPayload \<Rightarrow> (string \<Rightarrow> bool) \<Rightarrow> (string \<Rightarrow> bool) \<Rightarrow> string" where
  "SensitiveTarget payload isSensitivePath isEnvCommand =
    (if hp_ToolName payload = ''Read'' \<or> hp_ToolName payload = ''Grep'' then
       (let target = post_ExtractTarget payload in if target \<noteq> [] \<and> isSensitivePath target then target else [])
     else if hp_ToolName payload = ''Bash'' then
       (case get_string (hp_ToolInput payload) ''command'' of
          None \<Rightarrow> []
        | Some cmd \<Rightarrow> if isEnvCommand cmd then cmd else [])
     else [])"

definition recordSensitiveTargetFromPostPayload :: "PostEnv \<Rightarrow> HookPayload \<Rightarrow> Lease \<Rightarrow> string \<Rightarrow> string" where
  "recordSensitiveTargetFromPostPayload env payload l projectRoot =
     SensitiveTarget payload (\<lambda>target. IsSensitivePathResolvedIn (ee_Hook (po_Eval env)) projectRoot target l) IsEnvCommand"

definition SentinelMutationEntry :: "HookPayload \<Rightarrow> string \<Rightarrow> AuditRecord" where
  "SentinelMutationEntry payload target = alert_audit payload ''sentinel_mutation'' target ''alert'' ''HIGH'' ''sentinel_mutation''"

definition CredentialOutputEntry :: "HookPayload \<Rightarrow> string \<Rightarrow> AuditRecord" where
  "CredentialOutputEntry payload target =
     alert_audit payload VerbCredentialDetected target ''alert'' ''HIGH'' ''credential_in_output''"

definition MCPInjectionEntry :: "HookPayload \<Rightarrow> string \<Rightarrow> string \<Rightarrow> AuditRecord" where
  "MCPInjectionEntry payload serverName severity =
     alert_audit payload VerbMcpInjectionDetected serverName ''alert'' severity ''mcp_injection''"

definition ToolTraceEntry :: "HookPayload \<Rightarrow> string \<Rightarrow> AuditRecord" where
  "ToolTraceEntry payload target = audit payload ''tool_trace'' target VerdictAllow"

definition HookTamperEntry :: "HookPayload \<Rightarrow> AgentHookFile \<Rightarrow> AuditRecord" where
  "HookTamperEntry payload f = alert_audit payload ''posture_tamper'' (hk_RelativePath f) ''deny'' ''HIGH'' ''hook_tamper''"

subsection \<open>Evidence (\<open>lineage.go\<close>)\<close>

definition secretOutputLineageLabel :: LineageLabel where
  "secretOutputLineageLabel = LineageLabel ''secret'' ''trusted'' ''agent''"

definition taintedMCPLineageLabel :: LineageLabel where
  "taintedMCPLineageLabel = LineageLabel ''internal'' ''untrusted'' ''mcp_tool''"

definition credentialMCPLineageLabel :: LineageLabel where
  "credentialMCPLineageLabel = LineageLabel ''secret'' ''untrusted'' ''mcp_tool''"

definition highestCredentialConfidence :: "CredentialMatch list \<Rightarrow> string" where
  "highestCredentialConfidence matches =
     (if list_ex (\<lambda>m. strings_EqualFold (cm_Confidence m) ''high'') matches then ''high'' else ''medium'')"

definition recordSensitiveReadEvidence :: "Time \<Rightarrow> string \<Rightarrow> State \<Rightarrow> State" where
  "recordSensitiveReadEvidence now sourceRef s =
     RecordLineageEvidence now ''sensitive_read'' sourceRef ''high'' [secretReadLineageLabel] s"

definition recordCredentialOutputEvidence :: "Time \<Rightarrow> string \<Rightarrow> CredentialMatch list \<Rightarrow> State \<Rightarrow> State" where
  "recordCredentialOutputEvidence now sourceRef matches s =
     RecordLineageEvidence now ''credential_output'' sourceRef (highestCredentialConfidence matches)
       [secretOutputLineageLabel] s"

definition recordMCPCredentialEvidence :: "Time \<Rightarrow> string \<Rightarrow> CredentialMatch list \<Rightarrow> State \<Rightarrow> State" where
  "recordMCPCredentialEvidence now sourceRef matches s =
     RecordLineageEvidence now ''mcp_credential_output'' sourceRef (highestCredentialConfidence matches)
       [credentialMCPLineageLabel] s"

definition recordMCPInjectionEvidence :: "Time \<Rightarrow> string \<Rightarrow> string \<Rightarrow> State \<Rightarrow> State" where
  "recordMCPInjectionEvidence now sourceRef severity s =
     RecordLineageEvidence now ''tainted_mcp'' sourceRef (if strings_EqualFold severity ''HIGH'' then ''high'' else ''medium'')
       [taintedMCPLineageLabel] s"

definition attachLineageToWriteTarget :: "PostEnv \<Rightarrow> string \<Rightarrow> HookPayload \<Rightarrow> State \<Rightarrow> State" where
  "attachLineageToWriteTarget env projectRoot payload s =
    (let target = post_ExtractTarget payload
     in if target = [] then s
        else AttachActiveEvidenceToPath (po_Now env) (ResolveTarget (ee_Hook (po_Eval env)) projectRoot target) s)"

subsection \<open>Outputs (\<open>post_evaluate_analysis.go\<close>)\<close>

definition testRunnerPrefixes :: "string list" where
  "testRunnerPrefixes = [''go test'', ''cargo test'', ''pytest'', ''python -m pytest'', ''python3 -m pytest'', ''npm test'',
     ''yarn test'', ''npx jest'', ''bundle exec rspec'']"

definition isTestRunnerBashCommand :: "HookPayload \<Rightarrow> bool" where
  "isTestRunnerBashCommand payload \<longleftrightarrow>
    hp_ToolName payload = ''Bash'' \<and>
    (let cmd = strings_TrimSpace (case get_string (hp_ToolInput payload) ''command'' of None \<Rightarrow> [] | Some c \<Rightarrow> c)
     in list_ex (\<lambda>prefix. cmd = prefix \<or> strings_HasPrefix cmd (prefix @ '' '') \<or> strings_HasPrefix cmd (prefix @ newline))
          testRunnerPrefixes)"

definition scanOutputForCredentialsInContext :: "HookPayload \<Rightarrow> CredentialMatch list" where
  "scanOutputForCredentialsInContext payload =
    (if isTestRunnerBashCommand payload then ScanOutputForStructuredCredentials (hp_ToolOutput payload)
     else ScanOutputForCredentials (hp_ToolOutput payload))"

definition mark_secret :: "Time \<Rightarrow> State \<Rightarrow> State" where
  "mark_secret now s = (if \<not> SecretSession s then MarkSecretSession now s else s)"

definition applyPostEvaluateOutputCredentialAnalysis ::
    "PostEnv \<Rightarrow> HookPayload \<Rightarrow> State \<Rightarrow> bool \<times> State \<times> AuditRecord list" where
  "applyPostEvaluateOutputCredentialAnalysis env payload s =
    (if hp_ToolOutput payload = [] \<or> isToolMCP (hp_ToolName payload) then (False, s, [])
     else if hp_ToolName payload \<in> {''Read'', ''Edit'', ''Bash''} then
       (let matches = scanOutputForCredentialsInContext payload
        in if matches = [] then (False, s, [])
           else
             let target = post_ExtractTarget payload;
                 s1 = recordCredentialOutputEvidence (po_Now env) (SourceRef payload target) matches s;
                 (written, log) = append_record env (CredentialOutputEntry payload target)
             in (written, mark_secret (po_Now env) s1, log))
     else (False, s, []))"

definition signal_names :: "InjectionSignal list \<Rightarrow> string" where
  "signal_names signals = ''['' @ strings_Join (map is_Pattern signals) '' '' @ '']''"

definition record_injection :: "PostEnv \<Rightarrow> HookPayload \<Rightarrow> string \<Rightarrow> InjectionSignal list \<Rightarrow> State \<Rightarrow> State" where
  "record_injection env payload serverName signals s =
    (let severity = HighestSeverity signals;
         s1 = recordMCPInjectionEvidence (po_Now env) (SourceRef payload serverName) severity s;
         s2 = AddTaintedMCPServer serverName (fold AddMCPInjectionSignal (map is_Pattern signals) s1);
         s3 = RaisePosture (if severity = ''HIGH'' then PostureStateCritical else PostureStateElevated) s2;
         s4 = MarkUntrustedRead s3
     in if severity = ''HIGH''
        then SetPendingInjectionAlert
               (''MCP server '' @ serverName @ '' returned prompt injection signals: '' @ signal_names signals) s4
        else s4)"

definition mcp_credentials ::
    "PostEnv \<Rightarrow> HookPayload \<Rightarrow> string \<Rightarrow> State \<Rightarrow> bool \<times> State \<times> AuditRecord list" where
  "mcp_credentials env payload serverName s =
    (let matches = ScanOutputForCredentials (hp_ToolOutput payload)
     in if matches = [] then (False, s, [])
        else
          let s1 = recordMCPCredentialEvidence (po_Now env) (SourceRef payload serverName) matches s;
              (written, log) = append_record env (CredentialOutputEntry payload serverName)
          in (written, mark_secret (po_Now env) s1, log))"

definition applyPostEvaluateMCPOutputAnalysis ::
    "PostEnv \<Rightarrow> HookPayload \<Rightarrow> State \<Rightarrow> bool \<times> State \<times> AuditRecord list" where
  "applyPostEvaluateMCPOutputAnalysis env payload s =
    (if \<not> isToolMCP (hp_ToolName payload) \<or> hp_ToolOutput payload = [] then (False, s, [])
     else
       let serverName = extractMCPServerName (hp_ToolName payload);
           (appended, s1, log1) = mcp_credentials env payload serverName s;
           signals = ScanMCPResponseForInjection (hp_ToolOutput payload)
       in if signals = []
          then (appended, if IsMCPServerTainted s1 serverName then AcknowledgeTaintedMCPServer serverName s1 else s1, log1)
          else
            let (written, log2) = append_record env (MCPInjectionEntry payload serverName (HighestSeverity signals))
            in (appended \<or> written, record_injection env payload serverName signals s1, log1 @ log2))"

subsection \<open>Fingerprints of what was read (\<open>secret_fingerprint.go\<close>)\<close>

definition captureSecretFingerprints :: "string \<Rightarrow> string \<Rightarrow> State \<Rightarrow> State" where
  "captureSecretFingerprints random output s =
    (if output = [] then s
     else
       let (salt, s1) = SecretSalt random s; fps = FingerprintSecrets output salt
       in if fps = [] then s1
          else AddSecretFingerprints (fold (\<lambda>fp m. AList.update (sf_Hash fp) (sf_Len fp) m) fps []) s1)"

definition isUntrustedContentTool :: "string \<Rightarrow> bool" where
  "isUntrustedContentTool toolName \<longleftrightarrow>
    isToolMCP toolName \<or> toolName \<in> {''WebFetch'', ''WebSearch'', ''web_fetch'', ''web_search'', ''fetch''}"

subsection \<open>Tampering (\<open>post_evaluate_checks.go\<close>)\<close>

definition rebaselinePostureHashesAfterWrite ::
    "PostEnv \<Rightarrow> HookPayload \<Rightarrow> Lease \<Rightarrow> string \<Rightarrow> State \<Rightarrow> State" where
  "rebaselinePostureHashesAfterWrite env payload l projectRoot s =
    (if hp_ToolName payload \<noteq> ''Write'' \<and> hp_ToolName payload \<noteq> ''Edit'' then s
     else
       let target = post_ExtractTarget payload
       in if target \<noteq> [] \<and> IsPostureFileResolved (ee_Hook (po_Eval env)) target l
          then s\<lparr>PostureHashes := HashSentinelFiles (po_Eval env) projectRoot (Ls_PostureFiles l)\<rparr>
          else s)"

definition FormatChangedHookTargets :: "AgentHookFile list \<Rightarrow> string" where
  "FormatChangedHookTargets changed =
     (if changed = [] then ''global hooks'' else strings_Join (map hk_DisplayPath changed) '', '')"

type_synonym check = "HookResponse option \<times> State \<times> AuditRecord list"

definition handlePostureIntegrityDrift :: "PostEnv \<Rightarrow> HookPayload \<Rightarrow> Lease \<Rightarrow> string \<Rightarrow> State \<Rightarrow> check" where
  "handlePostureIntegrityDrift env payload l projectRoot s =
    (let drift = DetectPostureIntegrityDrift (po_Hooks env) projectRoot s l
     in if pd_NonHookFiles drift = [] \<and> pd_HookFiles drift = [] then (None, s, [])
        else if pd_HookFiles drift = [] then
          (None, s,
           concat (map (\<lambda>f. snd (append_record env
             (alert_audit payload ''posture_change'' f ''alert'' ''MEDIUM'' ''posture_change''))) (pd_NonHookFiles drift)))
        else
          (Some (hook_response VerdictDeny),
           SetDenyAll (''posture file tampered: '' @ strings_Join (map hk_RelativePath (pd_HookFiles drift)) '', '') s,
           concat (map (\<lambda>f. snd (append_record env (HookTamperEntry payload f))) (pd_HookFiles drift))))"

definition handleGlobalHookIntegrityDrift :: "PostEnv \<Rightarrow> HookPayload \<Rightarrow> State \<Rightarrow> check" where
  "handleGlobalHookIntegrityDrift env payload s =
    (case DetectGlobalHookIntegrityDrift (po_Hooks env) s of
       None \<Rightarrow> (None, s, [])
     | Some drift \<Rightarrow>
         (case gd_Changed drift of
            None \<Rightarrow>
              (Some (hook_response VerdictDeny), SetDenyAll (''managed hook baseline unavailable: '' @ po_BaselineError env) s,
               snd (append_record env (alert_audit payload ''posture_tamper'' ''managed hooks'' ''deny'' ''HIGH'' ''hook_tamper'')))
          | Some changed \<Rightarrow>
              (case (changed, gd_CurrentHash drift) of
                 ([], Some h) \<Rightarrow> (None, s\<lparr>GlobalHookHash := h\<rparr>, [])
               | _ \<Rightarrow>
                   (Some (hook_response VerdictDeny),
                    SetDenyAll (''global hooks file tampered: '' @ FormatChangedHookTargets changed) s,
                    concat (map (\<lambda>f. snd (append_record env (HookTamperEntry payload f))) changed)))))"

definition handleBashPostEvaluateChecks :: "PostEnv \<Rightarrow> HookPayload \<Rightarrow> Lease \<Rightarrow> string \<Rightarrow> State \<Rightarrow> check" where
  "handleBashPostEvaluateChecks env payload l projectRoot s =
    (if hp_ToolName payload \<noteq> ''Bash'' then (None, s, [])
     else case handlePostureIntegrityDrift env payload l projectRoot s of
            (Some resp, s1, log) \<Rightarrow> (Some resp, s1, log)
          | (None, s1, log1) \<Rightarrow>
              (case handleGlobalHookIntegrityDrift env payload s1 of (resp, s2, log2) \<Rightarrow> (resp, s2, log1 @ log2)))"

subsection \<open>Installs (\<open>post_evaluate.go\<close>)\<close>

definition checkPendingInstall :: "PostEnv \<Rightarrow> Lease \<Rightarrow> string \<Rightarrow> State \<Rightarrow> string list" where
  "checkPendingInstall env l projectRoot s =
    (case PendingInstall s of
       None \<Rightarrow> []
     | Some install \<Rightarrow>
         CompareSentinelHashes (PI_SentinelHashes install)
           (HashSentinelFiles (po_Eval env) projectRoot (Ls_SentinelFilesForInstall l)))"

definition anyInstalledPostureFile :: "PostEnv \<Rightarrow> string \<Rightarrow> string list \<Rightarrow> Lease \<Rightarrow> bool" where
  "anyInstalledPostureFile env projectRoot changed l =
     list_ex (\<lambda>f. IsPostureFileResolvedIn (ee_Hook (po_Eval env)) projectRoot f l) changed"

definition post_install ::
    "PostEnv \<Rightarrow> HookPayload \<Rightarrow> Lease \<Rightarrow> string \<Rightarrow> State \<Rightarrow> bool \<times> State \<times> AuditRecord list" where
  "post_install env payload l projectRoot s =
    (case PendingInstall s of
       Some install \<Rightarrow>
         if hp_ToolName payload = ''Bash'' then
           (let changed = checkPendingInstall env l projectRoot s;
                entry0 = SentinelMutationEntry payload (PI_Command install);
                entry = (if anyInstalledPostureFile env projectRoot changed l
                         then entry0\<lparr>ar_DetectionID := PackageInstallPostureMutation, ar_Severity := ''HIGH''\<rparr> else entry0);
                (written, log) = (if changed = [] then (False, []) else append_record env entry)
            in (written, ClearPendingInstall s, log))
         else (False, s, [])
     | None \<Rightarrow> (False, s, []))"

subsection \<open>Approvals (\<open>auto_lease.go\<close>, \<open>post_evaluate.go\<close>)\<close>

definition autoLeaseTTL :: Duration where
  "autoLeaseTTL = 15 * Minute"

definition containsHost :: "string list \<Rightarrow> string \<Rightarrow> bool" where
  "containsHost hosts host = list_ex (\<lambda>h. strings_EqualFold h host) hosts"

definition leased_host :: "Time \<Rightarrow> string \<Rightarrow> Lease \<Rightarrow> Lease" where
  "leased_host now host l =
     l\<lparr>Ls_ApprovedHosts := (if containsHost (Ls_ApprovedHosts l) host then Ls_ApprovedHosts l else Ls_ApprovedHosts l @ [host]),
       Ls_ApprovedHostExpires := AList.update (strings_ToLower host) (now + autoLeaseTTL) (Ls_ApprovedHostExpires l)\<rparr>"

text \<open>Minting changes the lease in memory also when it cannot be saved.\<close>

definition applyAutoLeaseOnApproval ::
    "PostEnv \<Rightarrow> HookPayload \<Rightarrow> Lease \<Rightarrow> State \<Rightarrow> Lease \<times> State \<times> AuditRecord list" where
  "applyAutoLeaseOnApproval env payload l s =
    (if \<not> Ls_AutoLeaseApprovedHosts l \<or> \<not> autoLeaseSafeContext s then (l, s, [])
     else if (case hf_Policy (po_Hooks env) of Inr (Some _) \<Rightarrow> True | _ \<Rightarrow> False) then (l, s, [])
     else
       let intent = MapToolToIntent (ee_Hook (po_Eval env)) (hp_ToolName payload) (hp_ToolInput payload) l
       in if \<not> isAutoLeaseableEgress (ti_Verb intent) then (l, s, [])
          else case ExtractHostForMessage (ti_Target intent) of
                 None \<Rightarrow> (l, s, [])
               | Some host \<Rightarrow>
                   if host = [] then (l, s, [])
                   else
                     (case ConsumePendingAutoLease (po_Now env) host s of
                        (False, s1) \<Rightarrow> (l, s1, [])
                      | (True, s1) \<Rightarrow>
                          let l1 = leased_host (po_Now env) host l in
                          (case po_MintHash env l1 of
                             None \<Rightarrow> (l1, s1, [])
                           | Some h \<Rightarrow>
                               (l1, Save (po_Eval env) (s1\<lparr>LeaseHash := h\<rparr>),
                                snd (append_record env (audit payload ''lease_modify'' ''approved_hosts'' VerdictAllow))))))"

definition promoteSessionApprovalsOnPost :: "PostEnv \<Rightarrow> HookPayload \<Rightarrow> Lease \<Rightarrow> State \<Rightarrow> State" where
  "promoteSessionApprovalsOnPost env payload l s =
    (if \<not> autoLeaseSafeContext s then s
     else
       let s1 = (if Ls_ReuseSessionApprovals l \<and> isToolMCP (hp_ToolName payload)
                 then PromotePendingMCPDriftAck (extractMCPServerName (hp_ToolName payload)) s else s);
           intent = MapToolToIntent (ee_Hook (po_Eval env)) (hp_ToolName payload) (hp_ToolInput payload) l;
           s2 = (if Ls_ReuseSessionApprovals l \<and> ti_Verb intent = VerbRunEphemeral
                 then PromotePendingEphemeralApproval (ti_Target intent) s1 else s1)
       in if Ls_AutoLeaseApprovedRemotes l \<and> ti_RemoteName intent \<noteq> [] \<and> \<not> ti_IsForgePublish intent
             \<and> (ti_Verb intent = VerbPushRemote \<or> ti_Verb intent = VerbPushOrigin)
          then PromotePendingPushRemote (ti_RemoteName intent) s2 else s2)"

definition applyPostEvaluateAllowTrace :: "PostEnv \<Rightarrow> HookPayload \<Rightarrow> bool \<Rightarrow> AuditRecord list" where
  "applyPostEvaluateAllowTrace env payload sensitiveTarget =
    (if \<not> po_LogContent env \<or> hp_ToolOutput payload = []
        \<or> RedactToolOutput (po_Boundary env) (hp_ToolOutput payload) = [] then []
     else
       let server = extractMCPServerName (hp_ToolName payload);
           target = (if isToolMCP (hp_ToolName payload) \<and> server \<noteq> [] then server else post_ExtractTarget payload);
           entry = ToolTraceEntry payload target
       in snd (append_record env (if sensitiveTarget then entry\<lparr>ar_Label := core_label ''secret'' [] []\<rparr> else entry)))"

subsection \<open>The handler\<close>

text \<open>What a sensitive read leaves behind.\<close>

definition post_sensitive :: "PostEnv \<Rightarrow> string \<Rightarrow> State \<Rightarrow> State" where
  "post_sensitive env sensitiveTarget s =
    (if sensitiveTarget = [] then s
     else mark_secret (po_Now env) (recordSensitiveReadEvidence (po_Now env) sensitiveTarget s))"

text \<open>The marks for the contents of the output, and for the file a write went to.\<close>

definition post_marks :: "PostEnv \<Rightarrow> HookPayload \<Rightarrow> string \<Rightarrow> string \<Rightarrow> bool \<Rightarrow> State \<Rightarrow> State" where
  "post_marks env payload projectRoot sensitiveTarget alertFired s =
    (let output = hp_ToolOutput payload;
         s1 = (if output \<noteq> [] \<and> (sensitiveTarget \<noteq> [] \<or> alertFired)
               then captureSecretFingerprints (po_Random env) output s else s);
         s2 = (if output \<noteq> [] \<and> isUntrustedContentTool (hp_ToolName payload)
               then MarkUntrustedContentThisTurn s1 else s1)
     in if hp_ToolName payload = ''Write'' \<or> hp_ToolName payload = ''Edit''
        then attachLineageToWriteTarget env projectRoot payload s2 else s2)"

type_synonym post_outcome = "HookResponse \<times> State \<times> AuditRecord list"

definition post_approvals ::
    "PostEnv \<Rightarrow> HookPayload \<Rightarrow> Lease \<Rightarrow> string \<Rightarrow> bool \<Rightarrow> State \<Rightarrow> State \<times> AuditRecord list" where
  "post_approvals env payload l sensitiveTarget alertFired s =
    (if alertFired then (s, [])
     else case applyAutoLeaseOnApproval env payload l s of
            (l1, s1, log) \<Rightarrow>
              (promoteSessionApprovalsOnPost env payload l1 s1,
               log @ applyPostEvaluateAllowTrace env payload (sensitiveTarget \<noteq> [])))"

definition post_call :: "PostEnv \<Rightarrow> HookPayload \<Rightarrow> Lease \<Rightarrow> string \<Rightarrow> State \<Rightarrow> post_outcome" where
  "post_call env payload l projectRoot s0 =
    (let s1 = rebaselinePostureHashesAfterWrite env payload l projectRoot s0;
         sensitiveTarget = recordSensitiveTargetFromPostPayload env payload l projectRoot;
         s2 = post_sensitive env sensitiveTarget s1;
         (alert1, s3, log1) = applyPostEvaluateOutputCredentialAnalysis env payload s2;
         s4 = propagateBashLineageMutationWithLease (ee_Hook (po_Eval env)) (po_IsDir env) projectRoot (Some l) payload s3;
         (alert2, s5, log2) = post_install env payload l projectRoot s4
     in case handleBashPostEvaluateChecks env payload l projectRoot s5 of
          (Some resp, s6, log3) \<Rightarrow> (resp, s6, log1 @ log2 @ log3)
        | (None, s6, log3) \<Rightarrow>
            (case applyPostEvaluateMCPOutputAnalysis env payload s6 of
               (alert3, s7, log4) \<Rightarrow>
                 let alertFired = (alert1 \<or> alert2 \<or> alert3);
                     s8 = post_marks env payload projectRoot sensitiveTarget alertFired s7;
                     (s9, log5) = post_approvals env payload l sensitiveTarget alertFired s8
                 in (hook_response VerdictAllow, s9, log1 @ log2 @ log3 @ log4 @ log5)))"

definition executed_anyway :: string where
  "executed_anyway =
     ''a denied tool call executed anyway '' @ em_dash @ '' the host executor ignored sir'' @ [CHR 0x27] @ ''s deny''"

definition postEvaluatePayload :: "PostEnv \<Rightarrow> HookPayload \<Rightarrow> Lease \<Rightarrow> string \<Rightarrow> State \<Rightarrow> post_outcome" where
  "postEvaluatePayload env payload l projectRoot s =
    (if \<not> VerifySessionIntegrity (po_Eval env) s then
       (hook_response VerdictDeny, Save (po_Eval env) (SetDenyAll ''session.json modified outside sir'' s), [])
     else if DenyAll s then (hook_response VerdictDeny, s, [])
     else if hp_ToolUseID payload \<noteq> [] \<and> WasToolUseDenied s (hp_ToolUseID payload) then
       (hook_response VerdictDeny, Save (po_Eval env) (SetDenyAll executed_anyway s),
        snd (append_record env
          ((audit payload ''hook_integrity_violation'' (hp_ToolUseID payload) ''deny'')
             \<lparr>ar_DetectionID := HookIntegrityViolation, ar_Severity := ''HIGH''\<rparr>)))
     else post_call env payload l projectRoot s)"

text \<open>The handler around it keeps the session, if that can be written.\<close>

definition PostEvaluate :: "PostEnv \<Rightarrow> HookPayload \<Rightarrow> Lease \<Rightarrow> string \<Rightarrow> State \<Rightarrow> post_outcome" where
  "PostEvaluate env payload l projectRoot s =
    (case postEvaluatePayload env payload l projectRoot s of
       (resp, s1, log) \<Rightarrow> (resp, if ee_SaveFails (po_Eval env) then s else Save (po_Eval env) s1, log))"

end
