(* ===== verification/Hooks_Lifecycle.thy ===== *)
theory Hooks_Lifecycle
  imports Hooks_Post
begin

text \<open>
  The handlers of the other events of an agent (\<open>pkg/hooks\<close>): loading the lease and keeping its
  hash in step (\<open>evaluate_io.go\<close>), the start of a session (\<open>lifecycle/session.go\<close>,
  \<open>compact.go\<close>), a user message (\<open>user_prompt.go\<close>), a question of the agent
  (\<open>elicitation.go\<close>), the start of a sub-agent (\<open>subagent.go\<close>), changed settings
  (\<open>config_change.go\<close>), loaded instructions (\<open>instructions.go\<close>), the end of a turn and of a
  session (\<open>session_summary.go\<close>, \<open>session_end.go\<close>), and the new baselines after an installation
  (\<open>lifecycle/rebaseline.go\<close>). A handler returns whether it ended without error, the session that
  is stored afterwards, and the records for the ledger. The handlers are given the stored session;
  where there is none they do nothing, except the two that create one.
\<close>

subsection \<open>Records and storing\<close>

definition tool_audit :: "string \<Rightarrow> string \<Rightarrow> string \<Rightarrow> string \<Rightarrow> AuditRecord" where
  "tool_audit tool verb target decision =
     \<lparr>ar_ToolName = tool, ar_Verb = verb, ar_Target = target, ar_Label = no_label,
      ar_Decision = decision, ar_Severity = [], ar_AlertType = [], ar_DetectionID = [], ar_DetectionRoute = [],
      ar_SignalIDs = [], ar_BaseVerdict = [], ar_ProviderVerdicts = [], ar_ProviderFailures = []\<rparr>"

definition hook_audit :: "string \<Rightarrow> string \<Rightarrow> string \<Rightarrow> AuditRecord" where
  "hook_audit = tool_audit ''sir-hook''"

definition hook_alert :: "string \<Rightarrow> string \<Rightarrow> string \<Rightarrow> string \<Rightarrow> string \<Rightarrow> AuditRecord" where
  "hook_alert verb target decision severity alert =
     (hook_audit verb target decision)\<lparr>ar_Severity := severity, ar_AlertType := alert\<rparr>"

definition append_all :: "PostEnv \<Rightarrow> AuditRecord list \<Rightarrow> AuditRecord list" where
  "append_all env rs = concat (map (\<lambda>r. snd (append_record env r)) rs)"

type_synonym lifecycle = "bool \<times> State \<times> AuditRecord list"

text \<open>A session is stored with a fresh hash, or the file keeps what it held.\<close>

definition store :: "EvalEnv \<Rightarrow> State \<Rightarrow> State \<Rightarrow> State" where
  "store env s s' = (if ee_SaveFails env then s else Save env s')"

definition stored_as :: "PostEnv \<Rightarrow> State \<Rightarrow> State \<Rightarrow> AuditRecord list \<Rightarrow> lifecycle" where
  "stored_as env s s' log = (\<not> ee_SaveFails (po_Eval env), store (po_Eval env) s s', log)"

definition bracketed :: "string list \<Rightarrow> string" where
  "bracketed names = ''['' @ strings_Join names '' '' @ '']''"

subsection \<open>The lease of a call (\<open>evaluate_io.go\<close>)\<close>

text \<open>What reading the files gives: the managed policy's lease (nothing on an error, \<open>Some None\<close>
  without such a policy), the hash of the lease file before and after, the file itself, and the
  names of the servers that are configured.\<close>

datatype lease_read = LeaseRead Lease | LeaseMissing | LeaseBroken

record LeaseFiles =
  lr_Managed :: "Lease option option"
  lr_HashBefore :: "string option"
  lr_File :: lease_read
  lr_Discovered :: "string list"
  lr_SaveFails :: bool
  lr_HashAfter :: "string option"

record leaseLoadMetadata =
  lm_previousHash :: string
  lm_currentHash :: string
  lm_refreshedBySir :: bool

definition kept_servers :: "string list \<Rightarrow> string list" where
  "kept_servers names =
     fold (\<lambda>n out. if strings_TrimSpace n = [] then out else append_unique out (strings_TrimSpace n)) names []"

definition autoApproveDiscoveredMCPServers :: "LeaseFiles \<Rightarrow> Lease \<Rightarrow> bool \<Rightarrow> bool \<times> Lease" where
  "autoApproveDiscoveredMCPServers lf l leaseExists =
    (let kept = kept_servers (Ls_ApprovedMCPServers l);
         merged = fold (\<lambda>n out. append_unique out n) (lr_Discovered lf) kept;
         l' = l\<lparr>Ls_ApprovedMCPServers := sort merged\<rparr>
     in if list_all (slice_contains kept) (lr_Discovered lf) then (False, l)
        else (leaseExists \<and> \<not> lr_SaveFails lf, l'))"

definition no_metadata :: leaseLoadMetadata where
  "no_metadata = \<lparr>lm_previousHash = [], lm_currentHash = [], lm_refreshedBySir = False\<rparr>"

definition loadLeaseWithMetadata :: "LeaseFiles \<Rightarrow> (Lease \<times> leaseLoadMetadata) option" where
  "loadLeaseWithMetadata lf =
    (case lr_Managed lf of
       None \<Rightarrow> None
     | Some (Some l) \<Rightarrow> Some (l, no_metadata)
     | Some None \<Rightarrow>
         (let load = (\<lambda>l leaseExists.
            let previous = (case lr_HashBefore lf of None \<Rightarrow> [] | Some h \<Rightarrow> h);
                (refreshed, l') = autoApproveDiscoveredMCPServers lf l leaseExists;
                current = (if refreshed then (case lr_HashAfter lf of None \<Rightarrow> [] | Some h \<Rightarrow> h) else [])
            in Some (l', \<lparr>lm_previousHash = previous, lm_currentHash = current,
                          lm_refreshedBySir = (previous \<noteq> [] \<and> current \<noteq> [] \<and> current \<noteq> previous)\<rparr>))
          in case lr_File lf of
               LeaseRead l \<Rightarrow> load l True | LeaseMissing \<Rightarrow> load DefaultLease False | LeaseBroken \<Rightarrow> None))"

text \<open>Nothing when the session cannot be stored.\<close>

definition syncSessionLeaseHashAfterSirRefresh :: "EvalEnv \<Rightarrow> leaseLoadMetadata \<Rightarrow> State \<Rightarrow> State option" where
  "syncSessionLeaseHashAfterSirRefresh env md s =
    (if \<not> lm_refreshedBySir md then Some s
     else if LeaseHash s = [] \<or> LeaseHash s \<noteq> lm_previousHash md \<or> lm_currentHash md = [] then Some s
     else if ee_SaveFails env then None
     else Some (Save env (s\<lparr>LeaseHash := lm_currentHash md\<rparr>)))"

text \<open>The lease and the session in step with it.\<close>

definition synced :: "EvalEnv \<Rightarrow> LeaseFiles \<Rightarrow> State \<Rightarrow> (Lease \<times> State) option" where
  "synced env lf s =
    (case loadLeaseWithMetadata lf of
       None \<Rightarrow> None
     | Some (l, md) \<Rightarrow> map_option (Pair l) (syncSessionLeaseHashAfterSirRefresh env md s))"

subsection \<open>Start of a session (\<open>lifecycle/session.go\<close>)\<close>

text \<open>\<open>managed\<close> is the lease hash of a managed policy, if there is one.\<close>

definition baseline :: "HookFilesEnv \<Rightarrow> string option \<Rightarrow> Lease \<Rightarrow> string \<Rightarrow> State \<Rightarrow> State" where
  "baseline env managed l projectRoot s =
    (let s1 = s\<lparr>PostureHashes := HashSentinelFiles (hf_Eval env) projectRoot (Ls_PostureFiles l)\<rparr>;
         s2 = (case managed of
                 Some h \<Rightarrow> s1\<lparr>LeaseHash := h\<rparr>
               | None \<Rightarrow> (case HashLeaseFile (hf_Eval env) projectRoot of None \<Rightarrow> s1 | Some h \<Rightarrow> s1\<lparr>LeaseHash := h\<rparr>))
     in case (if managed = None then Some (Some (HashGlobalHooksFile env)) else ManagedGlobalHooksHash env) of
          Some (Some (HookHash h)) \<Rightarrow> s2\<lparr>GlobalHookHash := h\<rparr>
        | _ \<Rightarrow> s2)"

definition SessionStart :: "HookFilesEnv \<Rightarrow> string option \<Rightarrow> Lease \<Rightarrow> string \<Rightarrow> Time \<Rightarrow> State option" where
  "SessionStart env managed l projectRoot nano =
    (if ee_SaveFails (hf_Eval env) then None
     else Some (Save (hf_Eval env) (baseline env managed l projectRoot (NewState nano (ee_Now (hf_Eval env)) projectRoot))))"

text \<open>\<open>compact.go\<close> stores a first session where there is none, and records that it reminded
  the agent of restrictions in force.\<close>

definition reminders_due :: "State \<Rightarrow> bool" where
  "reminders_due s \<longleftrightarrow> DenyAll s \<or> SecretSession s \<or> RecentlyReadUntrusted s \<or> TaintedMCPServers s \<noteq> []"

definition EvaluateCompactReinject ::
    "PostEnv \<Rightarrow> string option \<Rightarrow> LeaseFiles \<Rightarrow> string \<Rightarrow> Time \<Rightarrow> State option \<Rightarrow> bool \<times> State option \<times> AuditRecord list" where
  "EvaluateCompactReinject env managed lf projectRoot nano stored =
    (case stored of
       Some s \<Rightarrow>
         (True, stored,
          if reminders_due s then append_all env [hook_audit ''compact_reinject'' ''session_context'' ''allow''] else [])
     | None \<Rightarrow>
         (case loadLeaseWithMetadata lf of
            None \<Rightarrow> (False, None, [])
          | Some (l, _) \<Rightarrow>
              (case SessionStart (po_Hooks env) managed l projectRoot nano of
                 None \<Rightarrow> (False, None, []) | Some s \<Rightarrow> (True, Some s, []))))"

subsection \<open>A user message (\<open>user_prompt.go\<close>)\<close>

definition EvaluateUserPrompt :: "PostEnv \<Rightarrow> State \<Rightarrow> lifecycle" where
  "EvaluateUserPrompt env s =
    (let s1 = AdvanceTurnByHook s;
         log = (if SecretSession s \<and> \<not> SecretSession s1
                then append_all env [hook_audit ''turn_advance'' ''user_prompt'' ''allow''] else [])
     in stored_as env s s1 log)"

subsection \<open>A question of the agent (\<open>elicitation.go\<close>)\<close>

definition harvestingPatterns :: "string list" where
  "harvestingPatterns = [''api key'', ''api_key'', ''apikey'', ''secret key'', ''secret_key'', ''access token'',
     ''access_token'', ''auth token'', ''auth_token'', ''password'', ''credential'', ''private key'', ''private_key'',
     ''ssh key'', ''bearer token'', ''database url'', ''database_url'', ''connection string'', ''aws_secret'',
     ''aws_access'', ''.env'']"

definition scanForHarvesting :: "string \<Rightarrow> string list" where
  "scanForHarvesting message =
     (if message = [] then [] else filter (strings_Contains (strings_ToLower message)) harvestingPatterns)"

definition truncateForLedger :: "string \<Rightarrow> string" where
  "truncateForLedger msg =
    (let s = replace_byte (CHR 0x0D) (CHR '' '') (replace_byte (CHR 0x0A) (CHR '' '') msg)
     in if length s > 80 then take 77 s @ ''...'' else s)"

definition EvaluateElicitation ::
    "PostEnv \<Rightarrow> string option \<Rightarrow> LeaseFiles \<Rightarrow> string \<Rightarrow> Time \<Rightarrow> string \<Rightarrow> State option
     \<Rightarrow> bool \<times> State option \<times> AuditRecord list" where
  "EvaluateElicitation env managed lf projectRoot nano message stored =
    (if scanForHarvesting message = [] then (True, stored, [])
     else
       let loaded = (case stored of
             Some s \<Rightarrow> map_option snd (synced (po_Eval env) lf s)
           | None \<Rightarrow> (case loadLeaseWithMetadata lf of
                         None \<Rightarrow> None | Some (l, _) \<Rightarrow> SessionStart (po_Hooks env) managed l projectRoot nano))
       in case loaded of
            None \<Rightarrow> (False, stored, [])
          | Some s \<Rightarrow>
              if ee_SaveFails (po_Eval env) then (False, Some s, [])
              else (True, Some (Save (po_Eval env) (RaisePosture PostureStateElevated s)),
                    append_all env
                      [(tool_audit ''Elicitation'' VerbElicitationHarvest (truncateForLedger message) ''alert'')
                         \<lparr>ar_Severity := ''MEDIUM'', ar_AlertType := ''elicitation_harvesting''\<rparr>]))"

subsection \<open>The start of a sub-agent (\<open>subagent.go\<close>)\<close>

record SubagentPayload =
  sp_AgentName :: string
  sp_SubagentName :: string
  sp_Tools :: "string list"
  sp_CWD :: string
  sp_TranscriptPath :: string

definition subagent_name :: "SubagentPayload \<Rightarrow> string" where
  "subagent_name p = (if sp_AgentName p = [] then sp_SubagentName p else sp_AgentName p)"

definition subagentDelegationRequiresApproval :: "State \<Rightarrow> bool" where
  "subagentDelegationRequiresApproval s \<longleftrightarrow>
     PendingInjectionAlert s \<or> Posture s = PostureStateElevated \<or> Posture s = PostureStateCritical
     \<or> TaintedMCPServers s \<noteq> []"

text \<open>Nothing stands for an unknown agent, to which every file is critical.\<close>

definition criticalPostureFilesForAgent :: "string option \<Rightarrow> string list option" where
  "criticalPostureFilesForAgent ag =
    (case ag of
       None \<Rightarrow> None
     | Some a \<Rightarrow>
         if a = ''claude'' then Some [''.claude/settings.json'', ''CLAUDE.md'', ''.mcp.json'']
         else if a = ''gemini'' then Some [''.gemini/settings.json'', ''GEMINI.md'', ''.mcp.json'']
         else if a = ''codex'' then Some [''.codex/config.toml'', ''.codex/hooks.json'', ''AGENTS.md'', ''.mcp.json'']
         else if a = ''cursor'' then
           Some [''.cursor/hooks.json'', ''.cursor/mcp.json'', ''./.cursor/hooks.json'', ''./.cursor/mcp.json'',
                 ''AGENTS.md'', ''.mcp.json'']
         else None)"

definition filterCriticalTampered :: "string list \<Rightarrow> string option \<Rightarrow> string list" where
  "filterCriticalTampered tampered ag =
    (case criticalPostureFilesForAgent ag of
       None \<Rightarrow> tampered | Some critical \<Rightarrow> filter (\<lambda>f. f \<in> set critical) tampered)"

definition hasDangerousTools :: "SubagentPayload \<Rightarrow> bool" where
  "hasDangerousTools p = list_ex (\<lambda>t. t = ''Bash'' \<or> t = ''Write'' \<or> t = ''Edit'') (sp_Tools p)"

definition logSubagentDecision :: "PostEnv \<Rightarrow> SubagentPayload \<Rightarrow> string \<Rightarrow> AuditRecord list" where
  "logSubagentDecision env p decision = append_all env [hook_audit VerbDelegate (subagent_name p) decision]"

definition subagent_gates ::
    "PostEnv \<Rightarrow> string option \<Rightarrow> bool \<Rightarrow> SubagentPayload \<Rightarrow> Lease \<Rightarrow> string \<Rightarrow> State
     \<Rightarrow> HookResponse option \<times> State \<times> AuditRecord list" where
  "subagent_gates env ag degrade p l projectRoot s =
    (let deny = Some (hook_response VerdictDeny); ask = Some (hook_response VerdictAsk);
         asked = (if degrade then ''deny'' else ''ask'');
         critical = filterCriticalTampered (CheckPostureIntegrity (po_Eval env) projectRoot s l) ag
     in if DenyAll s then (deny, s, [])
        else if \<not> Ls_AllowDelegation l then (deny, s, logSubagentDecision env p ''deny'')
        else if SecretSession s then (deny, s, logSubagentDecision env p ''deny'')
        else if critical \<noteq> [] then
          (deny, store (po_Eval env) s (SetDenyAll (''posture tampered before delegation: '' @ bracketed critical) s), [])
        else if subagentDelegationRequiresApproval s then (ask, s, logSubagentDecision env p asked)
        else if RecentlyReadUntrusted s \<and> hasDangerousTools p then (ask, s, logSubagentDecision env p asked)
        else (None, s, logSubagentDecision env p ''allow''))"

text \<open>The answer is nothing when the sub-agent may start; \<open>Inl ()\<close> is an error, on which the
  caller denies.\<close>

definition EvaluateSubagentStart ::
    "PostEnv \<Rightarrow> string option \<Rightarrow> LeaseFiles \<Rightarrow> SubagentPayload \<Rightarrow> string \<Rightarrow> State
     \<Rightarrow> (unit + HookResponse option) \<times> State \<times> AuditRecord list" where
  "EvaluateSubagentStart env ag lf p projectRoot s =
    (let call = \<lparr>hp_SessionID = [], hp_HookEventName = [], hp_ToolName = [], hp_ToolInput = [], hp_ToolUseID = [],
                 hp_ToolOutput = [], hp_CWD = sp_CWD p, hp_AgentID = [], hp_TranscriptPath = sp_TranscriptPath p\<rparr>;
         degrade = thinkingDegradeActive (po_Eval env) ag call
     in case synced (po_Eval env) lf s of
          None \<Rightarrow> (Inl (), s, [])
        | Some (l, s1) \<Rightarrow>
            (case subagent_gates env ag degrade p l projectRoot s1 of
               (resp, s2, log) \<Rightarrow> (Inr (map_option (applyThinkingGuard degrade) resp), s2, log)))"

subsection \<open>Changed settings (\<open>config_change.go\<close>)\<close>

definition isPostureRelatedConfig :: "string \<Rightarrow> bool" where
  "isPostureRelatedConfig key \<longleftrightarrow>
     key \<in> {''hooks'', ''permissions'', ''allowedTools'', ''mcpServers'', ''model'', ''customInstructions''}"

text \<open>The check of the hook files of all agents. \<open>DetectGlobalHookIntegrityDrift\<close> makes the same
  comparison: no answer means no drift.\<close>

definition config_hooks_check :: "PostEnv \<Rightarrow> State \<Rightarrow> State \<times> AuditRecord list" where
  "config_hooks_check env s =
    (case DetectGlobalHookIntegrityDrift (po_Hooks env) s of
       None \<Rightarrow> (s, [])
     | Some drift \<Rightarrow>
         (case gd_Changed drift of
            None \<Rightarrow>
              (SetDenyAll (''managed hook baseline unavailable during config change: '' @ po_BaselineError env) s,
               append_all env [hook_alert ''posture_tamper'' ''managed hooks'' ''deny'' ''HIGH'' ''hook_tamper''])
          | Some changed \<Rightarrow>
              (case (changed, gd_CurrentHash drift) of
                 ([], Some h) \<Rightarrow> (s\<lparr>GlobalHookHash := h\<rparr>, [])
               | _ \<Rightarrow>
                   (SetDenyAll (''global hooks modified during config change: '' @ FormatChangedHookTargets changed) s,
                    append_all env
                      (map (\<lambda>f. hook_alert ''posture_tamper'' (hk_RelativePath f) ''deny'' ''HIGH'' ''hook_tamper'')
                        changed)))))"

definition EvaluateConfigChange :: "PostEnv \<Rightarrow> LeaseFiles \<Rightarrow> string \<Rightarrow> string \<Rightarrow> State \<Rightarrow> lifecycle" where
  "EvaluateConfigChange env lf configKey projectRoot s =
    (let log1 = append_all env [hook_audit ''config_change'' configKey ''allow'']
     in if \<not> isPostureRelatedConfig configKey then (True, s, log1)
        else case synced (po_Eval env) lf s of
               None \<Rightarrow> (False, s, log1)
             | Some (l, s1) \<Rightarrow>
                 let log2 = append_all env
                       (map (\<lambda>f. hook_alert ''posture_change'' f ''alert'' ''HIGH'' ''config_change_posture'')
                         (CheckPostureIntegrity (po_Eval env) projectRoot s1 l));
                     (s2, log3) = config_hooks_check env s1
                 in stored_as env s1 s2 (log1 @ log2 @ log3))"

subsection \<open>Loaded instructions (\<open>instructions.go\<close>)\<close>

text \<open>\<open>filepath.Abs\<close> in a working directory, which may be unknown, and \<open>filepath.Rel\<close>.\<close>

definition filepath_Abs :: "string option \<Rightarrow> string \<Rightarrow> string option" where
  "filepath_Abs cwd path =
    (if filepath_IsAbs path then Some (filepath_Clean path) else map_option (\<lambda>w. filepath_Join [w, path]) cwd)"

fun strip_common :: "string list \<Rightarrow> string list \<Rightarrow> string list \<times> string list" where
  "strip_common (b # bs) (t # ts) = (if b = t then strip_common bs ts else (b # bs, t # ts))"
| "strip_common bs ts = (bs, ts)"

definition path_elements :: "string \<Rightarrow> string list" where
  "path_elements path = filter (\<lambda>e. e \<noteq> []) (strings_SplitByte path (CHR ''/''))"

definition filepath_Rel :: "string \<Rightarrow> string \<Rightarrow> string option" where
  "filepath_Rel basepath targpath =
    (let base = filepath_Clean basepath; targ = filepath_Clean targpath
     in if targ = base then Some ''.''
        else let base' = (if base = ''.'' then [] else base)
             in if filepath_IsAbs base' \<noteq> filepath_IsAbs targ then None
                else case strip_common (path_elements base') (path_elements targ) of
                       (bs, ts) \<Rightarrow>
                         if bs \<noteq> [] \<and> hd bs = ''..'' then None
                         else Some (strings_Join (map (\<lambda>_. ''..'') bs @ ts) ''/''))"

definition determineInstructionProvenance :: "EvalEnv \<Rightarrow> string option \<Rightarrow> string \<Rightarrow> string \<Rightarrow> string \<Rightarrow> string" where
  "determineInstructionProvenance env cwd filePath source projectRoot =
    (if source \<noteq> [] then source
     else if filePath = [] then ''unknown''
     else case (filepath_Abs cwd filePath, filepath_Abs cwd projectRoot) of
            (Some absPath, Some absRoot) \<Rightarrow>
              if strings_HasPrefix absPath (absRoot @ ''/'') then ''repo''
              else (case he_UserHomeDir (ee_Hook env) of
                      Some home \<Rightarrow> if strings_HasPrefix absPath (home @ ''/'') then ''user'' else ''external''
                    | None \<Rightarrow> ''external'')
          | _ \<Rightarrow> ''unknown'')"

text \<open>The session keeps the hash of the text; the record names the file. Its provenance and hash
  are not among the fields kept here.\<close>

definition EvaluateInstructionsLoaded :: "PostEnv \<Rightarrow> string \<Rightarrow> string \<Rightarrow> string \<Rightarrow> State \<Rightarrow> lifecycle" where
  "EvaluateInstructionsLoaded env filePath content projectRoot s =
    (let log = append_all env [hook_audit ''instructions_loaded'' filePath ''allow'']
     in if content = [] \<or> filePath = [] then (True, s, log)
        else
          let key = (case filepath_Rel projectRoot filePath of None \<Rightarrow> filePath | Some rel \<Rightarrow> rel);
              s1 = s\<lparr>InstructionHashes := AList.update key (sha256_hex content) (InstructionHashes s)\<rparr>
          in if ee_SaveFails (po_Eval env) then (False, s, []) else (True, Save (po_Eval env) s1, log))"

subsection \<open>The end of a turn and of a session (\<open>session_summary.go\<close>, \<open>session_end.go\<close>)\<close>

text \<open>\<open>restored\<close> tells which hook files could be restored, \<open>after\<close> is the machine after that.\<close>

definition handleSessionTerminalHookTamper ::
    "PostEnv \<Rightarrow> (AgentHookFile \<Rightarrow> bool) \<Rightarrow> AgentHookFile list \<Rightarrow> State \<Rightarrow> string list \<times> State \<times> AuditRecord list" where
  "handleSessionTerminalHookTamper env restored hookFiles s =
     (map hk_RelativePath (filter restored hookFiles),
      SetDenyAll (''posture file tampered: '' @ FormatChangedHookTargets hookFiles) s,
      append_all env (map (\<lambda>f. hook_alert ''posture_tamper'' (hk_RelativePath f) ''deny'' ''HIGH'' ''hook_tamper'') hookFiles))"

definition adopt_hashes :: "string list \<Rightarrow> string smap \<Rightarrow> State \<Rightarrow> State" where
  "adopt_hashes files current s =
     s\<lparr>PostureHashes := fold (\<lambda>f m. case map_of current f of None \<Rightarrow> m | Some h \<Rightarrow> AList.update f h m) files
         (PostureHashes s)\<rparr>"

definition terminal_sweep ::
    "PostEnv \<Rightarrow> (AgentHookFile \<Rightarrow> bool) \<Rightarrow> EvalEnv \<Rightarrow> Lease \<Rightarrow> string \<Rightarrow> State \<Rightarrow> lifecycle" where
  "terminal_sweep env restored after l projectRoot s =
    (let drift = DetectPostureIntegrityDrift (po_Hooks env) projectRoot s l;
         hookFiles = pd_HookFiles drift; others = pd_NonHookFiles drift
     in if others = [] \<and> hookFiles = [] then (True, s, [])
        else
          let (paths, s1, log1) = (if hookFiles = [] then ([], s, []) else handleSessionTerminalHookTamper env restored hookFiles s);
              s2 = adopt_hashes paths (HashSentinelFiles after projectRoot paths) s1;
              s3 = adopt_hashes others (HashSentinelFiles after projectRoot others) s2;
              log2 = append_all env
                (map (\<lambda>f. hook_alert ''posture_change'' f ''alert'' ''MEDIUM'' ''posture_change_session_end'') others)
          in stored_as env s s3 (log1 @ log2))"

definition runSessionTerminalPostureSweep ::
    "PostEnv \<Rightarrow> (AgentHookFile \<Rightarrow> bool) \<Rightarrow> EvalEnv \<Rightarrow> LeaseFiles \<Rightarrow> string \<Rightarrow> State \<Rightarrow> lifecycle" where
  "runSessionTerminalPostureSweep env restored after lf projectRoot s =
    (case synced (po_Eval env) lf s of
       None \<Rightarrow> (False, s, [])
     | Some (l, s1) \<Rightarrow> terminal_sweep env restored after l projectRoot s1)"

text \<open>Statistics over the ledger's entries, which are given by time and decision; the zero time
  counts all of them.\<close>

record SessionStats =
  st_Total :: nat
  st_Allowed :: nat
  st_Asked :: nat
  st_Blocked :: nat
  st_Alerts :: nat

definition computeSessionStats :: "(Time \<times> string) list \<Rightarrow> Time \<Rightarrow> SessionStats" where
  "computeSessionStats entries since =
    (let counted = filter (\<lambda>(t, d). Time_IsZero since \<or> since \<le> t) entries;
         having = (\<lambda>decision. length (filter (\<lambda>(t, d). d = decision) counted))
     in \<lparr>st_Total = length counted, st_Allowed = having ''allow'', st_Asked = having ''ask'',
         st_Blocked = having ''deny'', st_Alerts = having ''alert''\<rparr>)"

text \<open>\<open>readable\<close> tells whether the ledger can be read.\<close>

definition EvaluateSessionSummary ::
    "PostEnv \<Rightarrow> (AgentHookFile \<Rightarrow> bool) \<Rightarrow> EvalEnv \<Rightarrow> LeaseFiles \<Rightarrow> bool \<Rightarrow> string \<Rightarrow> string \<Rightarrow> State \<Rightarrow> lifecycle" where
  "EvaluateSessionSummary env restored after lf readable reason projectRoot s =
    (case runSessionTerminalPostureSweep env restored after lf projectRoot s of
       (ok, s1, log) \<Rightarrow>
         if \<not> ok then (False, s1, log)
         else (True, s1, log @ (if readable then append_all env [hook_audit ''session_summary'' reason ''allow''] else [])))"

definition EvaluateSessionEnd ::
    "PostEnv \<Rightarrow> (AgentHookFile \<Rightarrow> bool) \<Rightarrow> EvalEnv \<Rightarrow> LeaseFiles \<Rightarrow> string \<Rightarrow> State \<Rightarrow> lifecycle" where
  "EvaluateSessionEnd env restored after lf projectRoot s =
    (case runSessionTerminalPostureSweep env restored after lf projectRoot s of
       (ok, s1, log) \<Rightarrow>
         if \<not> ok then (False, s1, log)
         else stored_as env s1 ((ClearPendingInstall s1)\<lparr>TurnAdvancedByHook := False\<rparr>)
                (log @ append_all env [hook_audit ''session_end'' ''session'' ''allow'']))"

subsection \<open>New baselines after an installation (\<open>lifecycle/rebaseline.go\<close>)\<close>

definition hookInducedDenyPrefixes :: "string list" where
  "hookInducedDenyPrefixes = [''posture file tampered'', ''posture tampered before delegation'',
     ''managed hook baseline unavailable'', ''global hooks file tampered'', ''global hooks modified during config change'']"

definition isHookInducedDenyReason :: "string \<Rightarrow> bool" where
  "isHookInducedDenyReason reason \<longleftrightarrow>
    (let trim = strings_TrimSpace reason in
     trim \<noteq> [] \<and> list_ex (strings_HasPrefix trim) hookInducedDenyPrefixes)"

definition rebaselined :: "HookFilesEnv \<Rightarrow> Lease \<Rightarrow> string \<Rightarrow> State \<Rightarrow> State" where
  "rebaselined env l projectRoot s =
    (let s1 = s\<lparr>PostureHashes := HashSentinelFiles (hf_Eval env) projectRoot (Ls_PostureFiles l)\<rparr>;
         s2 = (case HashGlobalHooksFile env of HookHash h \<Rightarrow> s1\<lparr>GlobalHookHash := h\<rparr> | _ \<Rightarrow> s1);
         s3 = (case HashLeaseFile (hf_Eval env) projectRoot of None \<Rightarrow> s2 | Some h \<Rightarrow> s2\<lparr>LeaseHash := h\<rparr>)
     in if DenyAll s3 \<and> isHookInducedDenyReason (DenyAllReason s3)
        then s3\<lparr>DenyAll := False, DenyAllReason := []\<rparr> else s3)"

record RebaselineSummary =
  rb_Refreshed :: nat
  rb_DenyAllCleared :: nat
  rb_Skipped :: "string list"

text \<open>One directory of a project: its name, the root named in its session file, its lease, and
  the session of that root (which is new when the file is missing; nothing on an error).\<close>

record ProjectDir =
  pj_Name :: string
  pj_IsDir :: bool
  pj_Root :: "string option"
  pj_Lease :: "Lease option"
  pj_Session :: "State option"

definition rebaselineProject ::
    "HookFilesEnv \<Rightarrow> ProjectDir \<Rightarrow> string \<Rightarrow> Lease \<Rightarrow> RebaselineSummary \<Rightarrow> State option \<times> RebaselineSummary" where
  "rebaselineProject env d root l acc =
    (case pj_Session d of
       None \<Rightarrow> (None, acc\<lparr>rb_Skipped := rb_Skipped acc @ [root]\<rparr>)
     | Some s \<Rightarrow>
         let cleared = (DenyAll s \<and> isHookInducedDenyReason (DenyAllReason s));
             acc' = acc\<lparr>rb_Refreshed := rb_Refreshed acc + 1,
                        rb_DenyAllCleared := rb_DenyAllCleared acc + (if cleared then 1 else 0)\<rparr>
         in if ee_SaveFails (hf_Eval env) then (Some s, acc'\<lparr>rb_Skipped := rb_Skipped acc' @ [root]\<rparr>)
            else (Some (Save (hf_Eval env) (rebaselined env l root s)), acc'))"

fun RebaselineAllProjects ::
    "HookFilesEnv \<Rightarrow> ProjectDir list \<Rightarrow> RebaselineSummary \<Rightarrow> ProjectDir list \<times> RebaselineSummary" where
  "RebaselineAllProjects env [] acc = ([], acc)"
| "RebaselineAllProjects env (d # ds) acc =
    (let (d', acc') =
       (if \<not> pj_IsDir d then (d, acc)
        else case pj_Root d of
               None \<Rightarrow> (d, acc\<lparr>rb_Skipped := rb_Skipped acc @ [pj_Name d]\<rparr>)
             | Some root \<Rightarrow>
                 if ProjectHash root \<noteq> pj_Name d then (d, acc\<lparr>rb_Skipped := rb_Skipped acc @ [pj_Name d]\<rparr>)
                 else case pj_Lease d of
                        None \<Rightarrow> (d, acc\<lparr>rb_Skipped := rb_Skipped acc @ [root]\<rparr>)
                      | Some l \<Rightarrow>
                          (case rebaselineProject env d root l acc of
                             (s', acc2) \<Rightarrow> (d\<lparr>pj_Session := s'\<rparr>, acc2)));
         (rest, acc3) = RebaselineAllProjects env ds acc'
     in (d' # rest, acc3))"

end
