(* ===== verification/Hooks_Post_Properties.thy ===== *)
theory Hooks_Post_Properties
  imports Hooks_Post Hooks_Leaks
begin

text \<open>
  What one run of the PostToolUse handler does to the session. Its steps only tighten it: no mark,
  taint, fingerprint, label or denial is taken back. A changed hook file stops the session.
\<close>

subsection \<open>Every step tightens\<close>

text \<open>Fingerprints under a salt are kept, unless another value with the same digest and another length
  takes the place of one.\<close>

definition prints_kept :: "State \<Rightarrow> State \<Rightarrow> bool" where
  "prints_kept s s' \<longleftrightarrow>
    (FingerprintSalt s \<noteq> [] \<longrightarrow>
       FingerprintSalt s' = FingerprintSalt s
       \<and> (\<forall>(h, n) \<in> set (SecretFingerprints s). (h, n) \<in> set (SecretFingerprints s')
            \<or> (\<exists>w. h = secret_digest w (FingerprintSaltBytes s) \<and> int (length w) \<noteq> n)))"

lemma prints_kept_trans:
  assumes "prints_kept a b" and "prints_kept b c"
  shows "prints_kept a c"
proof (cases "FingerprintSalt a = []")
  case False
  then have "FingerprintSalt b = FingerprintSalt a" using assms(1) by (simp add: prints_kept_def)
  moreover from this have "FingerprintSaltBytes b = FingerprintSaltBytes a" by (simp add: FingerprintSaltBytes_def)
  ultimately show ?thesis using assms False unfolding prints_kept_def by fastforce
qed (simp add: prints_kept_def)

lemma prints_same:
  "SecretFingerprints s' = SecretFingerprints s \<Longrightarrow> FingerprintSalt s \<noteq> [] \<longrightarrow> FingerprintSalt s' = FingerprintSalt s
    \<Longrightarrow> prints_kept s s'"
  by (auto simp: prints_kept_def)

definition tightens :: "State \<Rightarrow> State \<Rightarrow> bool" where
  "tightens s s' \<longleftrightarrow>
    (SecretSession s \<longrightarrow> SecretSession s') \<and> (SessionEverSecret s \<longrightarrow> SessionEverSecret s')
    \<and> (DenyAll s \<longrightarrow> DenyAll s') \<and> (PendingInjectionAlert s \<longrightarrow> PendingInjectionAlert s')
    \<and> (PendingInjectionAlert s \<and> InjectionAlertDetail s \<noteq> [] \<longrightarrow> InjectionAlertDetail s' \<noteq> [])
    \<and> (RecentlyReadUntrusted s \<longrightarrow> RecentlyReadUntrusted s')
    \<and> (UntrustedContentThisTurn s \<longrightarrow> UntrustedContentThisTurn s')
    \<and> postureOrd (Posture s) \<le> postureOrd (Posture s')
    \<and> set (TaintedMCPServers s) \<subseteq> set (TaintedMCPServers s')
    \<and> set (MCPInjectionSignals s) \<subseteq> set (MCPInjectionSignals s')
    \<and> fst ` set (SecretFingerprints s) \<subseteq> fst ` set (SecretFingerprints s') \<and> prints_kept s s'
    \<and> DeniedToolUses s = DeniedToolUses s' \<and> ApprovalGrants s = ApprovalGrants s'
    \<and> labels_grow s s'"

lemma post_lineage_same: "DerivedFileLineage s' = DerivedFileLineage s \<Longrightarrow> labels_grow s s'"
  by (simp add: labels_grow_def DerivedLabelsForPath_def)

lemmas tightens_simps = tightens_def post_lineage_same prints_same

lemma tightens_refl [simp]: "tightens s s"
  by (simp add: tightens_simps)

lemma tightens_trans [trans]: "tightens a b \<Longrightarrow> tightens b c \<Longrightarrow> tightens a c"
  unfolding tightens_def
  by (elim conjE, intro conjI)
     (erule (1) order_trans | erule (1) trans | erule (1) labels_grow_trans | erule (1) prints_kept_trans
      | (rule impI, drule (1) mp, erule (1) mp) | blast)+

lemma mark_secret_tightens: "tightens s (mark_secret now s)"
  by (simp add: mark_secret_def MarkSecretSession_def tightens_simps)

lemma evidence_tightens: "tightens s (RecordLineageEvidence now kind ref conf labels s)"
  by (simp add: RecordLineageEvidence_def Let_def tightens_simps)

lemma session_ops_tighten:
  "tightens s (SetDenyAll r s)" "tightens s (ClearPendingInstall s)" "tightens s (MarkUntrustedRead s)"
  "tightens s (MarkUntrustedContentThisTurn s)" "d \<noteq> [] \<Longrightarrow> tightens s (SetPendingInjectionAlert d s)"
  "tightens s (RaisePosture level s)" "tightens s (AddMCPInjectionSignal p s)" "tightens s (AddTaintedMCPServer n s)"
  "tightens s (AcknowledgeTaintedMCPServer n s)" "tightens s (Save env s)" "tightens s (snd (SecretSalt r s))"
  "tightens s (PromotePendingMCPDriftAck x s)" "tightens s (PromotePendingEphemeralApproval x s)"
  "tightens s (PromotePendingPushRemote x s)" "tightens s (snd (ConsumePendingAutoLease now h s))"
  by (auto simp: SetDenyAll_def ClearPendingInstall_def MarkUntrustedRead_def MarkUntrustedContentThisTurn_def
      SetPendingInjectionAlert_def RaisePosture_def AddMCPInjectionSignal_def AddTaintedMCPServer_def
      clearAcknowledgedTaintedMCPServerLocked_def AcknowledgeTaintedMCPServer_def Save_def SecretSalt_def
      PromotePendingMCPDriftAck_def PromotePendingEphemeralApproval_def PromotePendingPushRemote_def
      ConsumePendingAutoLease_def append_unique_def Let_def tightens_simps split: option.split)

lemma fields_tighten:
  "tightens s (s\<lparr>PostureHashes := h\<rparr>)" "tightens s (s\<lparr>GlobalHookHash := g\<rparr>)" "tightens s (s\<lparr>LeaseHash := g\<rparr>)"
  by (simp_all add: tightens_simps)

lemma fold_update_keys: "fst ` set (fold (\<lambda>(h, n) m. AList.update h n m) fps m) = fst ` set m \<union> fst ` set fps"
proof -
  have upd: "fst ` set (AList.update h n m) = insert h (fst ` set m)" for h :: 'a and n :: 'b and m
    by (induction m) auto
  show ?thesis
  proof (induction fps arbitrary: m)
    case (Cons f fps)
    then show ?case by (simp add: upd case_prod_beta)
  qed simp
qed

text \<open>What is captured are digests under the salt of the values recognised in the output.\<close>

definition secret_values :: "string \<Rightarrow> string list" where
  "secret_values output =
     pattern_values output @ concat (map assignment_value (strings_SplitByte output (CHR 0x0A)))"

lemma update_pair: "(h, n) \<in> set m \<Longrightarrow> (h, n) \<in> set (AList.update k x m) \<or> k = h \<and> x \<noteq> n"
  by (induction m) auto

lemma fold_update_pair:
  "(h, n) \<in> set m \<Longrightarrow>
    (h, n) \<in> set (fold (\<lambda>(h, n) m. AList.update h n m) fps m) \<or> (\<exists>n'. (h, n') \<in> set fps \<and> n' \<noteq> n)"
proof (induction fps arbitrary: m)
  case (Cons f fps)
  obtain k x where f: "f = (k, x)" by (cases f)
  from update_pair [OF Cons.prems, of k x] consider "(h, n) \<in> set (AList.update k x m)" | "k = h" "x \<noteq> n" by blast
  then show ?case
  proof cases
    case 1
    from Cons.IH [OF this] f show ?thesis by auto
  qed (auto simp: f)
qed simp

lemma fold_update_subset:
  "set (fold (\<lambda>(h, n) m. AList.update h n m) fps m) \<subseteq> set m \<union> set fps"
proof (induction fps arbitrary: m)
  case (Cons f fps)
  have "set (AList.update k x m) \<subseteq> insert (k, x) (set m)" for k :: 'a and x :: 'b and m by (induction m) auto
  then show ?case using Cons.IH [of "case f of (h, n) \<Rightarrow> AList.update h n m"] by (cases f) fastforce
qed simp

lemma captured_digests:
  assumes "fp \<in> set (FingerprintSecrets output salt)"
  shows "\<exists>w\<in>set (secret_values output). sf_Hash fp = secret_digest w salt \<and> sf_Len fp = int (length w)"
proof -
  have step: "fp \<in> set out \<or> sf_Hash fp = secret_digest v salt \<and> sf_Len fp = int (length v)"
    if "fp \<in> set (add_fingerprint salt out v)" for fp out v
    using that by (auto simp: add_fingerprint_def FingerprintValue_def split: if_splits option.splits)
  have "fp \<in> set out \<or> (\<exists>w\<in>set vs. sf_Hash fp = secret_digest w salt \<and> sf_Len fp = int (length w))"
    if "fp \<in> set (foldl (add_fingerprint salt) out vs)" for out vs
    using that
  proof (induction vs arbitrary: out)
    case (Cons v vs)
    then have "fp \<in> set (foldl (add_fingerprint salt) (add_fingerprint salt out v) vs)" by simp
    from Cons.IH [OF this] step [of fp out v] show ?case by auto
  qed simp
  moreover have "fp \<in> set (foldl (add_fingerprint salt) [] (secret_values output))"
    using assms by (simp add: FingerprintSecrets_def secret_values_def del: foldl_append split: if_splits)
  ultimately show ?thesis by fastforce
qed

definition captured_map :: "string \<Rightarrow> string \<Rightarrow> int smap" where
  "captured_map output salt = fold (\<lambda>fp m. AList.update (sf_Hash fp) (sf_Len fp) m) (FingerprintSecrets output salt) []"

lemma captured_map_alt:
  "captured_map output salt
    = fold (\<lambda>(h, n) m. AList.update h n m) (map (\<lambda>fp. (sf_Hash fp, sf_Len fp)) (FingerprintSecrets output salt)) []"
  by (simp add: captured_map_def fold_map comp_def)

lemma captured_map_digests:
  "(h, n) \<in> set (captured_map output salt) \<Longrightarrow> \<exists>w\<in>set (secret_values output). h = secret_digest w salt \<and> n = int (length w)"
  using fold_update_subset [of "map (\<lambda>fp. (sf_Hash fp, sf_Len fp)) (FingerprintSecrets output salt)" "[]"] captured_digests
  unfolding captured_map_alt by fastforce

lemma prints_tighten:
  assumes "\<And>h n. (h, n) \<in> set fps \<Longrightarrow> \<exists>w. h = secret_digest w (FingerprintSaltBytes s) \<and> n = int (length w)"
  shows "tightens s (AddSecretFingerprints fps s)"
proof -
  have "prints_kept s (AddSecretFingerprints fps s)"
    using fold_update_pair [of _ _ "SecretFingerprints s" fps] assms
    unfolding prints_kept_def by (fastforce simp: AddSecretFingerprints_def)
  then show ?thesis by (simp add: AddSecretFingerprints_def fold_update_keys tightens_simps)
qed

lemma SecretSalt_bytes: "FingerprintSaltBytes (snd (SecretSalt r s)) = fst (SecretSalt r s)"
  by (auto simp: SecretSalt_def FingerprintSaltBytes_def Let_def)

lemma capture_alt:
  "captureSecretFingerprints r output s =
    (if output = [] then s
     else let s1 = snd (SecretSalt r s)
          in AddSecretFingerprints (captured_map output (FingerprintSaltBytes s1)) s1)"
  by (auto simp: captureSecretFingerprints_def SecretSalt_bytes captured_map_def AddSecretFingerprints_def Let_def
      split: prod.split)

lemma capture_tightens: "tightens s (captureSecretFingerprints r output s)"
proof -
  let ?s1 = "snd (SecretSalt r s)"
  have "tightens ?s1 (AddSecretFingerprints (captured_map output (FingerprintSaltBytes ?s1)) ?s1)"
    by (rule prints_tighten) (use captured_map_digests in blast)
  with session_ops_tighten(11) show ?thesis by (auto simp: capture_alt Let_def intro: tightens_trans)
qed

lemma attach_tightens:
  "tightens s (AttachActiveEvidenceToPath now path s)" "tightens s (AttachLineageLabelsToPath now path labels s)"
  by (auto simp: AttachActiveEvidenceToPath_def AttachLineageLabelsToPath_def tightens_def labels_grow_def prints_same
      labels_after_update DerivedLabelsForPath_def map_get_def attach_loop_labels Let_def split: option.split)

lemma foldl_tightens: "(\<And>s x. tightens s (f s x)) \<Longrightarrow> tightens s (foldl f s xs)"
proof (induction xs arbitrary: s)
  case (Cons x xs)
  show ?case unfolding foldl.simps by (rule tightens_trans [OF Cons.prems Cons.IH [OF Cons.prems]])
qed simp

lemma mirror_tightens: "tightens s (mirrorDerivedLineage now p d s)"
  using mirror_grows [of s now p d]
  by (auto simp: mirrorDerivedLineage_def tightens_def prints_same Let_def split: option.split)

lemma propagate_tightens: "tightens s (propagateBashLineageMutationWithLease e isDir root l payload s)"
proof -
  have seed: "tightens s (seedSensitiveMutationSourceLineage e root l p s)" for s p
    by (simp add: seedSensitiveMutationSourceLineage_def attach_tightens(2) split: option.split)
  have one: "tightens s (mutate_one e isDir root l command dest s source)" for s command dest source
    by (auto simp: mutate_one_def split: prod.split intro: tightens_trans [OF seed mirror_tightens])
  have "tightens s (mutate_command e isDir root l s command)" for s command
    by (auto simp: mutate_command_def Let_def split: option.split intro!: foldl_tightens one)
  then show ?thesis unfolding propagateBashLineageMutationWithLease_def by (rule foldl_tightens)
qed

lemmas tightens_onward = session_ops_tighten [THEN tightens_trans [rotated]]

lemma tightens_if: "tightens s a \<Longrightarrow> tightens s b \<Longrightarrow> tightens s (if c then a else b)"
  by simp

lemma rebaseline_tightens: "tightens s (rebaselinePostureHashesAfterWrite env payload l root s)"
  by (simp add: rebaselinePostureHashesAfterWrite_def Let_def fields_tighten)

lemma sensitive_tightens: "tightens s (post_sensitive env target s)"
  by (simp add: post_sensitive_def recordSensitiveReadEvidence_def tightens_trans [OF evidence_tightens mark_secret_tightens])

lemma output_tightens:
  "applyPostEvaluateOutputCredentialAnalysis env payload s = (alert, s', log) \<Longrightarrow> tightens s s'"
  using tightens_trans [OF evidence_tightens mark_secret_tightens]
  by (auto simp: applyPostEvaluateOutputCredentialAnalysis_def recordCredentialOutputEvidence_def Let_def
      split: if_splits prod.splits)

lemma install_tightens: "post_install env payload l root s = (alert, s', log) \<Longrightarrow> tightens s s'"
  using session_ops_tighten(2)
  by (auto simp: post_install_def Let_def split: option.splits if_splits prod.splits)

lemma posture_check_tightens: "handlePostureIntegrityDrift env payload l root s = (r, s', log) \<Longrightarrow> tightens s s'"
  using session_ops_tighten(1) by (auto simp: handlePostureIntegrityDrift_def Let_def split: if_splits)

lemma global_check_tightens: "handleGlobalHookIntegrityDrift env payload s = (r, s', log) \<Longrightarrow> tightens s s'"
  using session_ops_tighten(1) fields_tighten(2)
  by (auto simp: handleGlobalHookIntegrityDrift_def split: option.splits list.splits)

lemma checks_tighten: "handleBashPostEvaluateChecks env payload l root s = (r, s', log) \<Longrightarrow> tightens s s'"
  by (auto simp: handleBashPostEvaluateChecks_def split: if_splits prod.splits option.splits
      dest: posture_check_tightens global_check_tightens intro: tightens_trans)

lemma post_fold_tightens: "(\<And>s x. tightens s (f x s)) \<Longrightarrow> tightens s (fold f xs s)"
proof (induction xs arbitrary: s)
  case (Cons x xs)
  show ?case unfolding fold.simps comp_apply by (rule tightens_trans [OF Cons.prems Cons.IH [OF Cons.prems]])
qed simp

lemma injection_tightens: "tightens s (record_injection env payload server signals s)"
proof -
  let ?s1 = "recordMCPInjectionEvidence (po_Now env) (SourceRef payload server) (HighestSeverity signals) s"
  let ?s2 = "AddTaintedMCPServer server (fold AddMCPInjectionSignal (map is_Pattern signals) ?s1)"
  let ?s3 = "RaisePosture (if HighestSeverity signals = ''HIGH'' then PostureStateCritical else PostureStateElevated) ?s2"
  have "tightens s ?s1" by (simp add: recordMCPInjectionEvidence_def evidence_tightens)
  also have "tightens ?s1 (fold AddMCPInjectionSignal (map is_Pattern signals) ?s1)"
    by (rule post_fold_tightens) (rule session_ops_tighten(7))
  also have "tightens \<dots> ?s2" by (rule session_ops_tighten(8))
  also have "tightens \<dots> ?s3" by (rule session_ops_tighten(6))
  also have "tightens \<dots> (MarkUntrustedRead ?s3)" by (rule session_ops_tighten(3))
  also have "tightens \<dots> (record_injection env payload server signals s)"
    by (simp add: record_injection_def Let_def session_ops_tighten(5))
  finally show ?thesis .
qed

lemma mcp_credentials_tighten: "mcp_credentials env payload server s = (alert, s', log) \<Longrightarrow> tightens s s'"
  using tightens_trans [OF evidence_tightens mark_secret_tightens]
  by (auto simp: mcp_credentials_def recordMCPCredentialEvidence_def Let_def split: if_splits prod.splits)

lemma mcp_tightens: "applyPostEvaluateMCPOutputAnalysis env payload s = (alert, s', log) \<Longrightarrow> tightens s s'"
  using injection_tightens session_ops_tighten(9)
  by (auto simp: applyPostEvaluateMCPOutputAnalysis_def Let_def split: if_splits prod.splits
      dest!: mcp_credentials_tighten intro: tightens_trans)

lemma write_target_tightens: "tightens s (attachLineageToWriteTarget env root payload s)"
  by (simp add: attachLineageToWriteTarget_def Let_def attach_tightens(1))

lemma marks_tighten: "tightens s (post_marks env payload root target alert s)"
  unfolding post_marks_def Let_def
  by (intro tightens_if tightens_onward tightens_refl capture_tightens [THEN tightens_trans [rotated]]
      write_target_tightens [THEN tightens_trans [rotated]])

lemma auto_lease_tightens: "applyAutoLeaseOnApproval env payload l s = (l', s', log) \<Longrightarrow> tightens s s'"
proof -
  have mint: "tightens s (Save e (t\<lparr>LeaseHash := h\<rparr>))" if "tightens s t" for e t h
    using that fields_tighten(3) session_ops_tighten(10) tightens_trans by blast
  have "tightens s t" if "ConsumePendingAutoLease now h s = (b, t)" for now h b t
    using session_ops_tighten(15) [of s now h] that by simp
  then show "applyAutoLeaseOnApproval env payload l s = (l', s', log) \<Longrightarrow> tightens s s'"
    by (auto simp: applyAutoLeaseOnApproval_def Let_def mint split: if_splits option.splits prod.splits bool.splits)
qed

lemma promote_tightens: "tightens s (promoteSessionApprovalsOnPost env payload l s)"
  unfolding promoteSessionApprovalsOnPost_def Let_def
  by (intro tightens_if tightens_onward tightens_refl)

lemma approvals_tighten: "post_approvals env payload l target alert s = (s', log) \<Longrightarrow> tightens s s'"
  by (auto simp: post_approvals_def split: if_splits prod.splits dest: auto_lease_tightens
      intro: tightens_trans [OF _ promote_tightens])

subsection \<open>The whole handler\<close>

text \<open>The steps of a call that is looked at, by name.\<close>

lemma post_call_steps:
  assumes "post_call env payload l root s0 = (resp, s', log)"
  obtains a1 s3 log1 a2 s5 log2 r s6 log3 where
    "applyPostEvaluateOutputCredentialAnalysis env payload
       (post_sensitive env (recordSensitiveTargetFromPostPayload env payload l root)
         (rebaselinePostureHashesAfterWrite env payload l root s0)) = (a1, s3, log1)"
    and "post_install env payload l root
       (propagateBashLineageMutationWithLease (ee_Hook (po_Eval env)) (po_IsDir env) root (Some l) payload s3) = (a2, s5, log2)"
    and "handleBashPostEvaluateChecks env payload l root s5 = (r, s6, log3)"
    and "\<And>x. r = Some x \<Longrightarrow> resp = x \<and> s' = s6"
    and "r = None \<Longrightarrow> resp = hook_response VerdictAllow
          \<and> (\<exists>a3 s7 log4 log5. applyPostEvaluateMCPOutputAnalysis env payload s6 = (a3, s7, log4)
               \<and> post_approvals env payload l (recordSensitiveTargetFromPostPayload env payload l root) (a1 \<or> a2 \<or> a3)
                   (post_marks env payload root (recordSensitiveTargetFromPostPayload env payload l root) (a1 \<or> a2 \<or> a3) s7)
                 = (s', log5))"
proof -
  let ?o = "applyPostEvaluateOutputCredentialAnalysis env payload
       (post_sensitive env (recordSensitiveTargetFromPostPayload env payload l root)
         (rebaselinePostureHashesAfterWrite env payload l root s0))"
  obtain a1 s3 log1 where o: "?o = (a1, s3, log1)" by (cases ?o)
  let ?i = "post_install env payload l root
       (propagateBashLineageMutationWithLease (ee_Hook (po_Eval env)) (po_IsDir env) root (Some l) payload s3)"
  obtain a2 s5 log2 where i: "?i = (a2, s5, log2)" by (cases ?i)
  obtain r s6 log3 where c: "handleBashPostEvaluateChecks env payload l root s5 = (r, s6, log3)"
    by (cases "handleBashPostEvaluateChecks env payload l root s5")
  show ?thesis
    by (rule that [OF o i c]) (use assms in \<open>auto simp: post_call_def Let_def o i c split: prod.splits\<close>)
qed

lemma call_tightens:
  assumes "post_call env payload l root s0 = (resp, s', log)"
  shows "tightens s0 s'"
proof (rule post_call_steps [OF assms])
  let ?target = "recordSensitiveTargetFromPostPayload env payload l root"
  let ?s2 = "post_sensitive env ?target (rebaselinePostureHashesAfterWrite env payload l root s0)"
  fix a1 s3 log1 a2 s5 log2 r s6 log3
  let ?s4 = "propagateBashLineageMutationWithLease (ee_Hook (po_Eval env)) (po_IsDir env) root (Some l) payload s3"
  assume o: "applyPostEvaluateOutputCredentialAnalysis env payload ?s2 = (a1, s3, log1)"
    and i: "post_install env payload l root ?s4 = (a2, s5, log2)"
    and c: "handleBashPostEvaluateChecks env payload l root s5 = (r, s6, log3)"
    and stopped: "\<And>x. r = Some x \<Longrightarrow> resp = x \<and> s' = s6"
    and rest: "r = None \<Longrightarrow> resp = hook_response VerdictAllow
          \<and> (\<exists>a3 s7 log4 log5. applyPostEvaluateMCPOutputAnalysis env payload s6 = (a3, s7, log4)
               \<and> post_approvals env payload l ?target (a1 \<or> a2 \<or> a3) (post_marks env payload root ?target (a1 \<or> a2 \<or> a3) s7)
                 = (s', log5))"
  have "tightens s0 ?s2" by (rule tightens_trans [OF rebaseline_tightens sensitive_tightens])
  also have "tightens ?s2 s3" by (rule output_tightens [OF o])
  also have "tightens s3 ?s4" by (rule propagate_tightens)
  also have "tightens ?s4 s5" by (rule install_tightens [OF i])
  also have "tightens s5 s6" by (rule checks_tighten [OF c])
  finally have to6: "tightens s0 s6" .
  show ?thesis
  proof (cases r)
    case None
    from rest [OF this] obtain a3 s7 log4 log5 where m: "applyPostEvaluateMCPOutputAnalysis env payload s6 = (a3, s7, log4)"
      and p: "post_approvals env payload l ?target (a1 \<or> a2 \<or> a3) (post_marks env payload root ?target (a1 \<or> a2 \<or> a3) s7)
                 = (s', log5)" by blast
    show ?thesis
      by (rule tightens_trans [OF to6 tightens_trans [OF mcp_tightens [OF m] tightens_trans [OF marks_tighten approvals_tighten [OF p]]]])
  qed (use stopped to6 in simp)
qed

lemma payload_tightens: "postEvaluatePayload env payload l root s = (resp, s', log) \<Longrightarrow> tightens s s'"
  using tightens_trans [OF session_ops_tighten(1) session_ops_tighten(10)]
  by (auto simp: postEvaluatePayload_def split: if_splits dest: call_tightens)

lemma post_tightens: "PostEvaluate env payload l root s = (resp, s', log) \<Longrightarrow> tightens s s'"
  by (auto simp: PostEvaluate_def split: prod.splits dest!: payload_tightens intro: tightens_onward)

text \<open>When nothing stops it, the handler runs through; its decision is an allow unless a Bash call
  left changed files.\<close>

definition post_proceeds :: "PostEnv \<Rightarrow> HookPayload \<Rightarrow> State \<Rightarrow> bool" where
  "post_proceeds env payload s \<longleftrightarrow>
    VerifySessionIntegrity (po_Eval env) s \<and> \<not> DenyAll s
    \<and> \<not> (hp_ToolUseID payload \<noteq> [] \<and> WasToolUseDenied s (hp_ToolUseID payload))
    \<and> \<not> ee_SaveFails (po_Eval env)"

lemma post_runs:
  assumes "post_proceeds env payload s" and "PostEvaluate env payload l root s = (resp, s', log)"
  obtains t where "post_call env payload l root s = (resp, t, log)" and "s' = Save (po_Eval env) t"
  using assms by (auto simp: post_proceeds_def PostEvaluate_def postEvaluatePayload_def split: prod.splits)

subsection \<open>A denied call that ran anyway\<close>

lemma denial_recorded:
  assumes "Evaluate_hook env ag root payload l s0 = (Inr resp, s, log)" and "hr_Decision resp = VerdictDeny"
    and "hp_ToolUseID payload \<noteq> []" and "\<not> ee_SaveFails env"
  shows "WasToolUseDenied s (hp_ToolUseID payload)"
proof -
  have "WasToolUseDenied (RecordDeniedToolUse i t) i" if "i \<noteq> []" for i t
    using that by (auto simp: WasToolUseDenied_def RecordDeniedToolUse_def slice_contains_iff maxDeniedToolUses_def Let_def)
  moreover have "WasToolUseDenied (Save env t) i = WasToolUseDenied t i" for i t
    by (simp add: WasToolUseDenied_def Save_def Let_def)
  ultimately show ?thesis using assms by (auto simp: Evaluate_hook_def split: prod.splits sum.splits if_splits)
qed

lemma stopped_refuses:
  assumes "DenyAll s"
  shows "\<exists>r s'. evaluatePayload env ag root payload l s = (Inr r, s', []) \<and> hr_Decision r = VerdictDeny"
proof -
  have "\<not> control_plane_ok env root s"
    using assms by (auto simp: control_plane_ok_def entered_def MaybeAdvanceTurn_def expire_turn_secret_def
        clearTurnEvidenceLocked_def downgradeSecretSessionLocked_def clearSecretSessionLocked_def Let_def)
  from evaluatePayload_refuses [OF this, of ag payload l] show ?thesis by (auto simp: hook_response_def)
qed

lemma saved_flags [simp]:
  "DenyAll (Save env s) = DenyAll s" "FingerprintSalt (Save env s) = FingerprintSalt s"
  "SecretFingerprints (Save env s) = SecretFingerprints s" "DerivedFileLineage (Save env s) = DerivedFileLineage s"
  "PendingInjectionAlert (Save env s) = PendingInjectionAlert s" "Posture (Save env s) = Posture s"
  "TaintedMCPServers (Save env s) = TaintedMCPServers s" "RecentlyReadUntrusted (Save env s) = RecentlyReadUntrusted s"
  "UntrustedContentThisTurn (Save env s) = UntrustedContentThisTurn s"
  "InjectionAlertDetail (Save env s) = InjectionAlertDetail s"
  by (simp_all add: Save_def Let_def)

subsection \<open>Changed hook files\<close>

text \<open>A changed posture file that is some agent's hook file, or a changed managed part of one that has
  a baseline.\<close>

definition hooks_tampered :: "PostEnv \<Rightarrow> Lease \<Rightarrow> string \<Rightarrow> State \<Rightarrow> bool" where
  "hooks_tampered env l root s \<longleftrightarrow>
    list_ex (\<lambda>f. LookupAgentHookFileByRelativePath (po_Hooks env) f \<noteq> None) (CheckPostureIntegrity (po_Eval env) root s l)
    \<or> (case DetectGlobalHookIntegrityDrift (po_Hooks env) s of
         None \<Rightarrow> False
       | Some drift \<Rightarrow> gd_Changed drift \<noteq> Some [] \<or> gd_CurrentHash drift = None)"

lemma global_drift_stops:
  assumes "DetectGlobalHookIntegrityDrift (po_Hooks env) s = Some drift"
    and "gd_Changed drift \<noteq> Some [] \<or> gd_CurrentHash drift = None"
  obtains s' log where
    "handleGlobalHookIntegrityDrift env payload s = (Some (hook_response VerdictDeny), s', log)" and "DenyAll s'"
proof -
  have "fst (handleGlobalHookIntegrityDrift env payload s) = Some (hook_response VerdictDeny)
    \<and> DenyAll (fst (snd (handleGlobalHookIntegrityDrift env payload s)))"
    using assms by (auto simp: handleGlobalHookIntegrityDrift_def SetDenyAll_def split: option.split list.split)
  then show ?thesis using that by (cases "handleGlobalHookIntegrityDrift env payload s") simp
qed

lemma tampering_stops:
  assumes "hooks_tampered env l root s" and "hp_ToolName payload = ''Bash''"
    and "handleBashPostEvaluateChecks env payload l root s = (r, s', log)"
  shows "r = Some (hook_response VerdictDeny) \<and> DenyAll s'"
proof (cases "list_ex (\<lambda>f. LookupAgentHookFileByRelativePath (po_Hooks env) f \<noteq> None) (CheckPostureIntegrity (po_Eval env) root s l)")
  case True
  then have "pd_HookFiles (DetectPostureIntegrityDrift (po_Hooks env) root s l) \<noteq> []"
    by (auto simp: DetectPostureIntegrityDrift_def po_Eval_def list_ex_iff filter_empty_conv Let_def)
  then show ?thesis using assms(2,3)
    by (auto simp: handleBashPostEvaluateChecks_def handlePostureIntegrityDrift_def SetDenyAll_def Let_def)
next
  case False
  then obtain drift where d: "DetectGlobalHookIntegrityDrift (po_Hooks env) s = Some drift"
    "gd_Changed drift \<noteq> Some [] \<or> gd_CurrentHash drift = None"
    using assms(1) by (auto simp: hooks_tampered_def split: option.splits)
  obtain s2 l2 where g: "handleGlobalHookIntegrityDrift env payload s = (Some (hook_response VerdictDeny), s2, l2)" "DenyAll s2"
    by (rule global_drift_stops [OF d])
  obtain p s1 l1 where h: "handlePostureIntegrityDrift env payload l root s = (p, s1, l1)"
    by (cases "handlePostureIntegrityDrift env payload l root s")
  from h consider "p = None" "s1 = s" | "p = Some (hook_response VerdictDeny)" "DenyAll s1"
    by (auto simp: handlePostureIntegrityDrift_def SetDenyAll_def Let_def split: if_splits)
  then show ?thesis
  proof cases
    case 1
    have "handleBashPostEvaluateChecks env payload l root s = (Some (hook_response VerdictDeny), s2, l1 @ l2)"
      unfolding handleBashPostEvaluateChecks_def h using assms(2) 1 g(1) by simp
    then show ?thesis using assms(3) g(2) by simp
  next
    case 2
    have "handleBashPostEvaluateChecks env payload l root s = (Some (hook_response VerdictDeny), s1, l1)"
      unfolding handleBashPostEvaluateChecks_def h using assms(2) 2 by simp
    then show ?thesis using assms(3) 2 by simp
  qed
qed

text \<open>The steps before the check leave the recorded hashes, the fingerprints and their salt alone.\<close>

definition same_prints :: "State \<Rightarrow> State \<Rightarrow> bool" where
  "same_prints s s' \<longleftrightarrow>
     FingerprintSalt s' = FingerprintSalt s \<and> SecretFingerprints s' = SecretFingerprints s"

lemma same_prints_refl [simp]: "same_prints s s"
  by (simp add: same_prints_def)

lemma same_prints_trans [trans]: "same_prints a b \<Longrightarrow> same_prints b c \<Longrightarrow> same_prints a c"
  by (simp add: same_prints_def)

definition same_baselines :: "State \<Rightarrow> State \<Rightarrow> bool" where
  "same_baselines s s' \<longleftrightarrow>
     PostureHashes s' = PostureHashes s \<and> GlobalHookHash s' = GlobalHookHash s \<and> same_prints s s'"

lemma same_baselines_refl [simp]: "same_baselines s s"
  by (simp add: same_baselines_def)

lemma same_baselines_trans [trans]: "same_baselines a b \<Longrightarrow> same_baselines b c \<Longrightarrow> same_baselines a c"
  by (simp add: same_baselines_def same_prints_def)

lemma steps_same_baselines:
  "same_baselines s (mark_secret now s)" "same_baselines s (RecordLineageEvidence now kind ref conf labels s)"
  "same_baselines s (ClearPendingInstall s)" "same_baselines s (AttachLineageLabelsToPath now path labels s)"
  "same_baselines s (mirrorDerivedLineage now p d s)"
  by (auto simp: mark_secret_def MarkSecretSession_def RecordLineageEvidence_def ClearPendingInstall_def
      AttachLineageLabelsToPath_def mirrorDerivedLineage_def same_baselines_def same_prints_def Let_def split: option.split)

lemma sensitive_same: "same_baselines s (post_sensitive env target s)"
  by (simp add: post_sensitive_def recordSensitiveReadEvidence_def same_baselines_trans [OF steps_same_baselines(2,1)])

lemma output_same:
  "applyPostEvaluateOutputCredentialAnalysis env payload s = (alert, s', log) \<Longrightarrow> same_baselines s s'"
  using same_baselines_trans [OF steps_same_baselines(2,1)]
  by (auto simp: applyPostEvaluateOutputCredentialAnalysis_def recordCredentialOutputEvidence_def Let_def
      split: if_splits prod.splits)

lemma install_same: "post_install env payload l root s = (alert, s', log) \<Longrightarrow> same_baselines s s'"
  using steps_same_baselines(3)
  by (auto simp: post_install_def Let_def split: option.splits if_splits prod.splits)

lemma propagate_same: "same_baselines s (propagateBashLineageMutationWithLease e isDir root l payload s)"
proof -
  have fold: "same_baselines s (foldl f s xs)" if "\<And>s x. same_baselines s (f s x)" for f :: "State \<Rightarrow> 'x \<Rightarrow> State" and s xs
  proof (induction xs arbitrary: s)
    case (Cons x xs)
    show ?case unfolding foldl.simps by (rule same_baselines_trans [OF that Cons.IH])
  qed simp
  have seed: "same_baselines s (seedSensitiveMutationSourceLineage e root l p s)" for s p
    by (simp add: seedSensitiveMutationSourceLineage_def steps_same_baselines(4) split: option.split)
  have one: "same_baselines s (mutate_one e isDir root l command dest s source)" for s command dest source
    by (auto simp: mutate_one_def split: prod.split intro: same_baselines_trans [OF seed steps_same_baselines(5)])
  have "same_baselines s (mutate_command e isDir root l s command)" for s command
    by (auto simp: mutate_command_def Let_def split: option.split intro!: fold one)
  then show ?thesis unfolding propagateBashLineageMutationWithLease_def by (rule fold)
qed

lemma steps_same_prints:
  "same_prints s (rebaselinePostureHashesAfterWrite env payload l root s)"
  "handleBashPostEvaluateChecks env payload l root s = (r, s', log) \<Longrightarrow> same_prints s s'"
  by (auto simp: rebaselinePostureHashesAfterWrite_def handleBashPostEvaluateChecks_def handlePostureIntegrityDrift_def
      handleGlobalHookIntegrityDrift_def SetDenyAll_def same_prints_def Let_def
      split: if_splits prod.splits option.splits list.splits)

lemma mcp_same_prints: "applyPostEvaluateMCPOutputAnalysis env payload s = (alert, s', log) \<Longrightarrow> same_prints s s'"
proof -
  have sig: "same_prints t (fold AddMCPInjectionSignal ps t)" for ps t
    by (induction ps arbitrary: t) (simp_all add: AddMCPInjectionSignal_def same_prints_def)
  have "same_prints t (record_injection env payload srv sigs t)" for srv sigs t
  proof -
    let ?s1 = "recordMCPInjectionEvidence (po_Now env) (SourceRef payload srv) (HighestSeverity sigs) t"
    have "same_prints t ?s1" by (simp add: recordMCPInjectionEvidence_def RecordLineageEvidence_def same_prints_def Let_def)
    also note sig [of ?s1 "map is_Pattern sigs"]
    also have "same_prints (fold AddMCPInjectionSignal (map is_Pattern sigs) ?s1) (record_injection env payload srv sigs t)"
      by (simp add: record_injection_def RaisePosture_def MarkUntrustedRead_def SetPendingInjectionAlert_def
          AddTaintedMCPServer_def clearAcknowledgedTaintedMCPServerLocked_def same_prints_def Let_def)
    finally show ?thesis .
  qed
  moreover have "same_prints t t'" if "mcp_credentials env payload srv t = (a, t', lg)" for srv t a t' lg
    using that by (auto simp: mcp_credentials_def recordMCPCredentialEvidence_def RecordLineageEvidence_def mark_secret_def
        MarkSecretSession_def same_prints_def Let_def split: if_splits prod.splits)
  moreover have "same_prints t (AcknowledgeTaintedMCPServer srv t)" for srv t
    by (simp add: AcknowledgeTaintedMCPServer_def same_prints_def)
  ultimately show "applyPostEvaluateMCPOutputAnalysis env payload s = (alert, s', log) \<Longrightarrow> ?thesis"
    unfolding applyPostEvaluateMCPOutputAnalysis_def Let_def
    by (clarsimp split: if_splits prod.splits; meson same_prints_refl same_prints_trans)
qed

lemma late_same_prints:
  "same_prints s (Save e s)" "same_prints s (s\<lparr>LeaseHash := h\<rparr>)" "same_prints s (MarkUntrustedContentThisTurn s)"
  "same_prints s (attachLineageToWriteTarget env root payload s)" "same_prints s (SetDenyAll why s)"
  "same_prints s (snd (ConsumePendingAutoLease now host s))" "same_prints s (promoteSessionApprovalsOnPost env payload l s)"
  by (auto simp: Save_def MarkUntrustedContentThisTurn_def attachLineageToWriteTarget_def AttachActiveEvidenceToPath_def
      SetDenyAll_def ConsumePendingAutoLease_def promoteSessionApprovalsOnPost_def PromotePendingMCPDriftAck_def
      PromotePendingEphemeralApproval_def PromotePendingPushRemote_def same_prints_def Let_def split: option.split)

lemma approvals_same_prints:
  assumes "post_approvals env payload l target alert s = (s', log)"
  shows "same_prints s s'"
proof -
  have consumed: "same_prints s t" if "ConsumePendingAutoLease now h s = (b, t)" for now h b t
    using late_same_prints(6) [of s now h] that by simp
  have minted: "same_prints s (Save e (t\<lparr>LeaseHash := h\<rparr>))" if "same_prints s t" for e t h
    using that late_same_prints(1,2) same_prints_trans by blast
  have "same_prints s t" if "applyAutoLeaseOnApproval env payload l s = (l', t, lg)" for l' t lg
    using that consumed
    by (auto simp: applyAutoLeaseOnApproval_def Let_def minted split: if_splits option.splits prod.splits bool.splits)
  with assms show ?thesis
    by (auto simp: post_approvals_def split: if_splits prod.splits intro: same_prints_trans [OF _ late_same_prints(7)])
qed

text \<open>What a report does to the fingerprints: under a salt each stays, or a value recognised in this very output
  has its digest and another length.\<close>

definition prints_traced :: "string set \<Rightarrow> State \<Rightarrow> State \<Rightarrow> bool" where
  "prints_traced W s s' \<longleftrightarrow>
    (FingerprintSalt s \<noteq> [] \<longrightarrow>
       FingerprintSalt s' = FingerprintSalt s
       \<and> (\<forall>(h, n) \<in> set (SecretFingerprints s). (h, n) \<in> set (SecretFingerprints s')
            \<or> (\<exists>w\<in>W. h = secret_digest w (FingerprintSaltBytes s) \<and> int (length w) \<noteq> n)))"

lemma traced_same: "same_prints s s' \<Longrightarrow> prints_traced W s s'"
  by (auto simp: prints_traced_def same_prints_def)

lemma traced_trans:
  assumes "prints_traced V a b" and "prints_traced W b c"
  shows "prints_traced (V \<union> W) a c"
proof (cases "FingerprintSalt a = []")
  case False
  then have salt: "FingerprintSalt b = FingerprintSalt a" using assms(1) by (simp add: prints_traced_def)
  then have "FingerprintSaltBytes b = FingerprintSaltBytes a" by (simp add: FingerprintSaltBytes_def)
  then show ?thesis using assms False salt unfolding prints_traced_def by fastforce
qed (simp add: prints_traced_def)

lemma capture_traced: "prints_traced (set (secret_values output)) s (captureSecretFingerprints r output s)"
proof (cases "FingerprintSalt s = []")
  case False
  then have "snd (SecretSalt r s) = s" by (simp add: SecretSalt_def Let_def)
  then have c: "captureSecretFingerprints r output s =
      (if output = [] then s else AddSecretFingerprints (captured_map output (FingerprintSaltBytes s)) s)"
    by (simp add: capture_alt)
  have "(h, n) \<in> set (fold (\<lambda>(h, n) m. AList.update h n m) (captured_map output (FingerprintSaltBytes s)) (SecretFingerprints s))
      \<or> (\<exists>w\<in>set (secret_values output). h = secret_digest w (FingerprintSaltBytes s) \<and> int (length w) \<noteq> n)"
    if "(h, n) \<in> set (SecretFingerprints s)" for h n
    using fold_update_pair [OF that, of "captured_map output (FingerprintSaltBytes s)"]
      captured_map_digests [of h _ "output" "FingerprintSaltBytes s"] by fast
  then show ?thesis unfolding c by (auto simp: prints_traced_def AddSecretFingerprints_def)
qed (simp add: prints_traced_def)

lemma marks_traced:
  "prints_traced (set (secret_values (hp_ToolOutput payload))) s (post_marks env payload root target alert s)"
proof -
  let ?W = "set (secret_values (hp_ToolOutput payload))"
  have "prints_traced ?W s s1 \<Longrightarrow> same_prints s1 s2 \<Longrightarrow> prints_traced ?W s s2" for s1 s2
    using traced_trans [of ?W s s1 ?W s2] traced_same by simp
  moreover have "prints_traced ?W s (if c then captureSecretFingerprints (po_Random env) (hp_ToolOutput payload) s else s)" for c
    using capture_traced traced_same by simp
  moreover have "same_prints t (if b then MarkUntrustedContentThisTurn t else t)" for b t by (simp add: late_same_prints(3))
  moreover have "same_prints t (if b then attachLineageToWriteTarget env root payload t else t)" for b t
    by (simp add: late_same_prints(4))
  ultimately show ?thesis unfolding post_marks_def Let_def by blast
qed

lemma before_marks_same:
  assumes "applyPostEvaluateOutputCredentialAnalysis env payload
       (post_sensitive env target (rebaselinePostureHashesAfterWrite env payload l root s)) = (a1, s3, log1)"
    and "post_install env payload l root
       (propagateBashLineageMutationWithLease (ee_Hook (po_Eval env)) (po_IsDir env) root (Some l) payload s3) = (a2, s5, log2)"
    and "handleBashPostEvaluateChecks env payload l root s5 = (r, s6, log3)"
  shows "same_prints s s6"
proof -
  have b: "same_prints a b" if "same_baselines a b" for a b using that by (simp add: same_baselines_def)
  note steps_same_prints(1) [of s env payload l root]
  also note sensitive_same [THEN b]
  also note output_same [OF assms(1), THEN b]
  also note propagate_same [THEN b]
  also note install_same [OF assms(2), THEN b]
  also note steps_same_prints(2) [OF assms(3)]
  finally show ?thesis .
qed

lemma call_traced:
  assumes "post_call env payload l root s = (resp, s', log)"
  shows "prints_traced (set (secret_values (hp_ToolOutput payload))) s s'"
proof (rule post_call_steps [OF assms])
  let ?target = "recordSensitiveTargetFromPostPayload env payload l root"
  fix a1 s3 log1 a2 s5 log2 r s6 log3
  assume "applyPostEvaluateOutputCredentialAnalysis env payload
       (post_sensitive env ?target (rebaselinePostureHashesAfterWrite env payload l root s)) = (a1, s3, log1)"
    and "post_install env payload l root
       (propagateBashLineageMutationWithLease (ee_Hook (po_Eval env)) (po_IsDir env) root (Some l) payload s3) = (a2, s5, log2)"
    and "handleBashPostEvaluateChecks env payload l root s5 = (r, s6, log3)"
    and stopped: "\<And>x. r = Some x \<Longrightarrow> resp = x \<and> s' = s6"
    and rest: "r = None \<Longrightarrow> resp = hook_response VerdictAllow
          \<and> (\<exists>a3 s7 log4 log5. applyPostEvaluateMCPOutputAnalysis env payload s6 = (a3, s7, log4)
               \<and> post_approvals env payload l ?target (a1 \<or> a2 \<or> a3) (post_marks env payload root ?target (a1 \<or> a2 \<or> a3) s7)
                 = (s', log5))"
  then have to6: "same_prints s s6" by (intro before_marks_same)
  show ?thesis
  proof (cases r)
    case None
    from rest [OF this] obtain a3 s7 log4 log5 where m: "applyPostEvaluateMCPOutputAnalysis env payload s6 = (a3, s7, log4)"
      and p: "post_approvals env payload l ?target (a1 \<or> a2 \<or> a3) (post_marks env payload root ?target (a1 \<or> a2 \<or> a3) s7)
                 = (s', log5)" by blast
    from traced_trans [OF traced_trans [OF traced_same [OF same_prints_trans [OF to6 mcp_same_prints [OF m]]] marks_traced]
        traced_same [OF approvals_same_prints [OF p]], of "{}" "{}"]
    show ?thesis by simp
  qed (use stopped to6 traced_same in blast)
qed

lemma report_traced:
  assumes "PostEvaluate env payload l root s = (resp, s', log)"
  shows "prints_traced (set (secret_values (hp_ToolOutput payload))) s s'"
proof -
  let ?W = "set (secret_values (hp_ToolOutput payload))"
  obtain t where p: "postEvaluatePayload env payload l root s = (resp, t, log)"
    and s': "s' = (if ee_SaveFails (po_Eval env) then s else Save (po_Eval env) t)"
    using assms by (auto simp: PostEvaluate_def split: prod.splits)
  have "prints_traced ?W s t" using p call_traced same_prints_trans [OF late_same_prints(5) late_same_prints(1)]
    by (auto simp: postEvaluatePayload_def intro: traced_same split: if_splits)
  from traced_trans [OF this traced_same [OF late_same_prints(1)], of "{}"] show ?thesis
    using traced_same [OF same_prints_refl] by (simp add: s')
qed

lemma tampered_same:
  assumes "same_baselines s s'"
  shows "hooks_tampered env l root s' = hooks_tampered env l root s"
proof -
  have "PostureHashes s' = PostureHashes s" "GlobalHookHash s' = GlobalHookHash s"
    using assms by (simp_all add: same_baselines_def)
  then show ?thesis unfolding hooks_tampered_def CheckPostureIntegrity_def DetectGlobalHookIntegrityDrift_def
    by (simp only:)
qed

text \<open>What the detectors see before the call's other effects they still see at the check.\<close>

lemma tampering_denied:
  assumes "post_proceeds env payload s" and "hp_ToolName payload = ''Bash''" and "hooks_tampered env l root s"
    and "PostEvaluate env payload l root s = (resp, s', log)"
  shows "hr_Decision resp = VerdictDeny \<and> DenyAll s'"
proof -
  obtain t where t: "post_call env payload l root s = (resp, t, log)" "s' = Save (po_Eval env) t"
    by (rule post_runs [OF assms(1,4)])
  obtain a1 s3 log1 a2 s5 log2 r s6 log3 where
    o: "applyPostEvaluateOutputCredentialAnalysis env payload
         (post_sensitive env (recordSensitiveTargetFromPostPayload env payload l root)
           (rebaselinePostureHashesAfterWrite env payload l root s)) = (a1, s3, log1)"
    and i: "post_install env payload l root
         (propagateBashLineageMutationWithLease (ee_Hook (po_Eval env)) (po_IsDir env) root (Some l) payload s3) = (a2, s5, log2)"
    and c: "handleBashPostEvaluateChecks env payload l root s5 = (r, s6, log3)"
    and res: "\<And>x. r = Some x \<Longrightarrow> resp = x \<and> t = s6"
    by (rule post_call_steps [OF t(1)]) (rule that, assumption+)
  have "rebaselinePostureHashesAfterWrite env payload l root s = s"
    using assms(2) by (simp add: rebaselinePostureHashesAfterWrite_def)
  then have "same_baselines s s3" using same_baselines_trans [OF sensitive_same output_same [OF o]] by simp
  then have "same_baselines s s5" using same_baselines_trans propagate_same install_same [OF i] by blast
  then have "hooks_tampered env l root s5" using tampered_same assms(3) by blast
  from tampering_stops [OF this assms(2) c] res t(2) show ?thesis by (simp add: hook_response_def)
qed

text \<open>A hook file departs from its baseline when it is gone, or its managed part is not the baseline's, or one of the
  two is not JSON and they are not the same bytes.\<close>

definition departs :: "HookFilesEnv \<Rightarrow> AgentHookFile \<Rightarrow> string \<Rightarrow> bool" where
  "departs env f canonical \<longleftrightarrow>
    (\<exists>e. hf_Read env (hk_AbsPath f) = Missing e)
    \<or> (\<exists>current. hf_Read env (hk_AbsPath f) = Contents current
        \<and> (\<exists>live base. ExtractManagedSubtree env current (managedSubtreeKey f) = Some live
             \<and> extractCanonicalManagedSubtreeBytes env canonical (managedSubtreeKey f) = Some base \<and> live \<noteq> base))
    \<or> (\<exists>current. hf_Read env (hk_AbsPath f) = Contents current \<and> current \<noteq> canonical
        \<and> (ExtractManagedSubtree env current (managedSubtreeKey f) = None
           \<or> extractCanonicalManagedSubtreeBytes env canonical (managedSubtreeKey f) = None))"

lemma departs_detected:
  assumes "hf_Files env = Some files" and "hf_Policy env = Inr policy" and "f \<in> set files"
    and "managedHookBaselineBytesWithPolicy env f policy = Some (Some canonical)" and "departs env f canonical"
  shows "DetectChangedGlobalHooksStrict env \<noteq> Some []"
proof
  assume "DetectChangedGlobalHooksStrict env = Some []"
  then have "changed_hook_files env policy files = Some []"
    using assms(1,2) by (simp add: DetectChangedGlobalHooksStrict_def)
  from changed_hook_files_exact [OF this, of f] have "\<not> hook_file_differs env f canonical" using assms(3,4) by auto
  then show False using assms(5) by (auto simp: hook_file_differs_def departs_def split: option.splits)
qed

definition hooks_text :: "string list \<Rightarrow> string" where
  "hooks_text parts = concat (map length_prefixed parts)"

lemma changed_parts_seen:
  assumes "GlobalHookHash s = sha256_hex (hooks_text old)" and "hf_Files env = Some files"
    and "hook_chunks env files = Some new" and "sha256_hex (hooks_text new) \<noteq> sha256_hex (hooks_text old)"
  shows "\<exists>drift. DetectGlobalHookIntegrityDrift env s = Some drift \<and> gd_Changed drift = DetectChangedGlobalHooksStrict env"
proof -
  have "GlobalHookHash s \<noteq> []"
    using assms(1) by (simp add: sha256_hex_def length_greater_0_conv [symmetric] del: length_greater_0_conv)
  then show ?thesis using assms
    by (auto simp: DetectGlobalHookIntegrityDrift_def HashGlobalHooksFile_def hashHookChunks_def hooks_text_def)
qed

text \<open>C36: A changed hook file stops the session. The global hash was taken when the managed parts of the hook
  files were \<open>old\<close>; all of them can be read now, or are gone, and they are different; and some hook file departs from its
  recorded baseline: it is missing or its managed part is another one. Then, after any Bash call whose report reaches the
  check, the handler denies and puts the session in deny-all; or the two texts that are hashed, which are
  different, collide under SHA-256. (A hook file that cannot be read hides a change: the check then finds nothing. So does
  a session that has no recorded hash, and a change that matches the recorded baselines is adopted.)\<close>

theorem tampered_hooks_stop:
  assumes "post_proceeds env payload s" and "hp_ToolName payload = ''Bash''"
    and "hf_Files (po_Hooks env) = Some files" and "hf_Policy (po_Hooks env) = Inr policy"
    and "hook_chunks before files = Some old" and "GlobalHookHash s = sha256_hex (hooks_text old)"
    and "hook_chunks (po_Hooks env) files = Some new" and "new \<noteq> old" and "\<forall>c\<in>set old \<union> set new. length c < 2 ^ 63"
    and "f \<in> set files" and "managedHookBaselineBytesWithPolicy (po_Hooks env) f policy = Some (Some canonical)"
    and "departs (po_Hooks env) f canonical"
    and "PostEvaluate env payload l root s = (resp, s', log)"
  shows "hr_Decision resp = VerdictDeny \<and> DenyAll s'
    \<or> hooks_text new \<noteq> hooks_text old \<and> sha256_hex (hooks_text new) = sha256_hex (hooks_text old)"
proof (cases "sha256_hex (hooks_text new) = sha256_hex (hooks_text old)")
  case True
  have "length old = length new" using hook_chunks_length [OF assms(5)] hook_chunks_length [OF assms(7)] by simp
  with prefixed_chunks_inj [of new old] assms(8,9) have "hooks_text new \<noteq> hooks_text old"
    unfolding hooks_text_def by (metis Un_commute)
  with True show ?thesis by blast
next
  case False
  from changed_parts_seen [OF assms(6,3,7) False] departs_detected [OF assms(3,4,10,11,12)]
  have "hooks_tampered env l root s" by (auto simp: hooks_tampered_def)
  from tampering_denied [OF assms(1,2) this assms(13)] show ?thesis ..
qed

subsection \<open>A machine on which these apply\<close>

definition demo_hook_file :: AgentHookFile where
  "demo_hook_file = \<lparr>hk_RelativePath = ''.claude/settings.json'', hk_DisplayPath = ''~/.claude/settings.json'',
     hk_AbsPath = ''/home/dev/.claude/settings.json'', hk_CanonicalPath = ''/home/dev/.sir/hooks-canonical.json'',
     hk_AgentID = ''claude'', hk_AgentName = ''Claude Code'', hk_SubtreeKey = ''hooks'', hk_SubtreeAtRoot = False\<rparr>"

definition demo_post :: PostEnv where
  "demo_post = \<lparr>po_Hooks = \<lparr>hf_Eval = demo_machine, hf_Files = Some [demo_hook_file], hf_Policy = Inr None,
       hf_Marshal = json_print, hf_Stat = (\<lambda>_. Some False)\<rparr>,
     po_IsDir = (\<lambda>_. False), po_AppendFails = (\<lambda>_. False), po_Random = ''0123456789abcdef'', po_MintHash = (\<lambda>_. None),
     po_LogContent = False, po_Boundary = (\<lambda>_. False), po_BaselineError = []\<rparr>"

lemma demo_post_simps [simp]:
  "po_Eval demo_post = demo_machine" "hf_Files (po_Hooks demo_post) = Some [demo_hook_file]"
  "hf_Policy (po_Hooks demo_post) = Inr None" "hf_Eval (po_Hooks demo_post) = demo_machine"
  "po_Random demo_post = ''0123456789abcdef''"
  by (simp_all add: demo_post_def po_Eval_def)

lemma saved_verifies [simp]: "VerifySessionIntegrity demo_machine (Save demo_machine s)"
  by (simp add: VerifySessionIntegrity_def session_digest_def Save_def Let_def demo_machine_def sha256_hex_def
      length_greater_0_conv [symmetric] del: length_greater_0_conv)

lemma saved_proceeds:
  "\<not> DenyAll s \<Longrightarrow> DeniedToolUses s = [] \<Longrightarrow> post_proceeds demo_post payload (Save demo_machine s)"
  by (simp add: post_proceeds_def WasToolUseDenied_def slice_contains_iff) (simp add: Save_def Let_def)

definition demo_report :: "string \<Rightarrow> jsonobj \<Rightarrow> string \<Rightarrow> HookPayload" where
  "demo_report tool input output =
     (demo_call tool input)\<lparr>hp_HookEventName := ''PostToolUse'', hp_ToolUseID := ''t1'', hp_ToolOutput := output\<rparr>"

lemma demo_report_simps [simp]:
  "hp_ToolName (demo_report tool input output) = tool" "hp_ToolInput (demo_report tool input output) = input"
  "hp_ToolOutput (demo_report tool input output) = output" "hp_ToolUseID (demo_report tool input output) = ''t1''"
  by (simp_all add: demo_report_def demo_call_def)

text \<open>The hook file was there when the hash was taken, and is gone now.\<close>

definition hooks_before :: HookFilesEnv where
  "hooks_before = (po_Hooks demo_post)\<lparr>hf_Eval := demo_machine\<lparr>ee_Core := demo_core\<lparr>CE_ReadFile := (\<lambda>_. Contents ''1'')\<rparr>\<rparr>\<rparr>"

definition demo_post_managed :: PostEnv where
  "demo_post_managed = demo_post\<lparr>po_Hooks := (po_Hooks demo_post)\<lparr>hf_Policy := Inr (Some (\<lambda>_. Some ''1''))\<rparr>\<rparr>"

theorem tampered_hooks_stop_witness:
  "\<exists>resp s' log. PostEvaluate demo_post_managed (demo_report ''Bash'' [] []) DefaultLease ''/w''
      (Save demo_machine ((NewState 1 1 ''/w'')\<lparr>GlobalHookHash := sha256_hex (hooks_text [''1''])\<rparr>)) = (resp, s', log)
    \<and> (hr_Decision resp = VerdictDeny \<and> DenyAll s'
       \<or> hooks_text [[]] \<noteq> hooks_text [''1''] \<and> sha256_hex (hooks_text [[]]) = sha256_hex (hooks_text [''1'']))"
proof -
  let ?s = "Save demo_machine ((NewState 1 1 ''/w'')\<lparr>GlobalHookHash := sha256_hex (hooks_text [''1''])\<rparr>)"
  let ?h = "po_Hooks demo_post_managed"
  have env: "po_Eval demo_post_managed = demo_machine" "hf_Files ?h = Some [demo_hook_file]"
    "hf_Policy ?h = Inr (Some (\<lambda>_. Some ''1''))" "hf_Eval ?h = demo_machine"
    by (simp_all add: demo_post_managed_def po_Eval_def)
  have gone: "hf_Read ?h (hk_AbsPath demo_hook_file) = Missing []"
    by (simp add: hf_Read_def env demo_machine_def demo_core_def demo_hook_file_def)
  have here: "hf_Read hooks_before (hk_AbsPath demo_hook_file) = Contents ''1''"
    by (simp add: hf_Read_def hooks_before_def)
  have "json_members ''1'' = None" by code_simp
  moreover have "hk_SubtreeKey demo_hook_file = ''hooks''" by (simp add: demo_hook_file_def)
  ultimately have old: "hook_chunks hooks_before [demo_hook_file] = Some [''1'']"
    by (simp add: here ExtractManagedSubtree_def Let_def)
  have new: "hook_chunks ?h [demo_hook_file] = Some [[]]" by (simp add: gone)
  have "post_proceeds demo_post (demo_report ''Bash'' [] []) ?s" by (rule saved_proceeds) (simp_all add: NewState_def)
  then have proceeds: "post_proceeds demo_post_managed (demo_report ''Bash'' [] []) ?s" by (simp add: post_proceeds_def env)
  obtain resp s' log where p: "PostEvaluate demo_post_managed (demo_report ''Bash'' [] []) DefaultLease ''/w'' ?s = (resp, s', log)"
    by (cases "PostEvaluate demo_post_managed (demo_report ''Bash'' [] []) DefaultLease ''/w'' ?s")
  have "departs ?h demo_hook_file ''1''" by (simp add: departs_def gone)
  moreover have "managedHookBaselineBytesWithPolicy ?h demo_hook_file (Some (\<lambda>_. Some ''1'')) = Some (Some ''1'')"
    by (simp add: managedHookBaselineBytesWithPolicy_def)
  moreover have "GlobalHookHash ?s = sha256_hex (hooks_text [''1''])" by (simp add: Save_def Let_def)
  ultimately show ?thesis
    using tampered_hooks_stop [OF proceeds _ env(2,3) old _ new _ _ _ _ _ p, of demo_hook_file "''1''"] p by simp
qed

end
