(* ===== verification/Hooks_Sessions.thy ===== *)
theory Hooks_Sessions
  imports Hooks_Lifecycle Hooks_Post_Properties
begin

text \<open>
  Whole sessions: the sessions that the file can hold after any sequence of hook events, as a step
  relation over the handlers, and what no event takes back. The properties that span calls are
  proved over it: a captured secret, an injected answer, a denial that was ignored.
\<close>

subsection \<open>What lasts\<close>

definition outlives :: "State \<Rightarrow> State \<Rightarrow> bool" where
  "outlives s s' \<longleftrightarrow>
    (DenyAll s \<longrightarrow> DenyAll s')
    \<and> (SecretSession s \<or> SessionEverSecret s \<longrightarrow> SecretSession s' \<or> SessionEverSecret s')
    \<and> postureOrd (Posture s) \<le> postureOrd (Posture s')
    \<and> set (TaintedMCPServers s) \<subseteq> set (TaintedMCPServers s')
    \<and> set (MCPInjectionSignals s) \<subseteq> set (MCPInjectionSignals s')
    \<and> prints_kept s s' \<and> labels_grow s s'"

lemma tightens_outlives: "tightens s s' \<Longrightarrow> outlives s s'"
  by (auto simp: tightens_def outlives_def)

lemma outlives_refl [simp]: "outlives s s"
  by (rule tightens_outlives) simp

lemma outlives_trans [trans]: "outlives a b \<Longrightarrow> outlives b c \<Longrightarrow> outlives a c"
  unfolding outlives_def
  by (elim conjE, intro conjI)
     (erule (1) order_trans | erule (1) trans | erule (1) labels_grow_trans | erule (1) prints_kept_trans
      | (rule impI, drule (1) mp, erule (1) mp))+

text \<open>No event but a report touches the fingerprints and their salt.\<close>

definition calm :: "State \<Rightarrow> State \<Rightarrow> bool" where
  "calm s s' \<longleftrightarrow> outlives s s' \<and> same_prints s s'"

lemma calmI: "tightens s s' \<Longrightarrow> same_prints s s' \<Longrightarrow> calm s s'"
  by (simp add: calm_def tightens_outlives)

lemma calm_refl [simp]: "calm s s"
  by (simp add: calm_def)

lemma calm_trans [trans]: "calm a b \<Longrightarrow> calm b c \<Longrightarrow> calm a c"
  by (auto simp: calm_def intro: outlives_trans same_prints_trans)

text \<open>Most operations leave all of it as it is.\<close>

definition lasting ::
    "State \<Rightarrow> bool \<times> bool \<times> PostureState \<times> string list \<times> string list \<times> string \<times> int smap \<times> DerivedPathRecord smap" where
  "lasting s = (DenyAll s, SecretSession s \<or> SessionEverSecret s, Posture s, TaintedMCPServers s, MCPInjectionSignals s,
     FingerprintSalt s, SecretFingerprints s, DerivedFileLineage s)"

lemma lasting_same: "lasting s' = lasting s \<Longrightarrow> calm s s'"
  by (simp add: lasting_def calm_def outlives_def same_prints_def post_lineage_same prints_same)

lemma lasting_ops [simp]:
  "lasting (Save env s) = lasting s" "lasting (SetPendingInstall c m sh lh s) = lasting s"
  "lasting (snd (ConsumeApprovalGrant now v t s)) = lasting s" "lasting (RecordMCPAuthorityChange now s) = lasting s"
  "lasting (MarkPendingMCPDriftAck srv hash s) = lasting s" "lasting (snd (BumpMCPOnboardingCall srv s)) = lasting s"
  "lasting (snd (RecordPromptedIntent k s)) = lasting s" "lasting (MarkUntrustedRead s) = lasting s"
  "lasting (MarkPendingAutoLease now host s) = lasting s" "lasting (MarkPendingEphemeralApproval p s) = lasting s"
  "lasting (MarkPendingPushRemote p s) = lasting s" "lasting (RecordDeniedToolUse i s) = lasting s"
  "lasting (ClearPendingInjectionAlert s) = lasting s" "lasting (MaybeAdvanceTurn now s) = lasting s"
  "lasting (AdvanceTurnByHook s) = lasting s" "lasting (ClearPendingInstall s) = lasting s"
  "lasting (s\<lparr>DecisionStartedAt := d\<rparr>) = lasting s" "lasting (s\<lparr>ThinkingGuardActive := g\<rparr>) = lasting s"
  "lasting (s\<lparr>LeaseHash := lh2\<rparr>) = lasting s" "lasting (s\<lparr>InstructionHashes := ih\<rparr>) = lasting s"
  "lasting (s\<lparr>TurnAdvancedByHook := b\<rparr>) = lasting s" "lasting (s\<lparr>PostureHashes := ph\<rparr>) = lasting s"
  "lasting (s\<lparr>GlobalHookHash := lh2\<rparr>) = lasting s"
  by (auto simp: lasting_def Save_def SetPendingInstall_def ConsumeApprovalGrant_def RecordMCPAuthorityChange_def
      MarkPendingMCPDriftAck_def BumpMCPOnboardingCall_def RecordPromptedIntent_def MarkUntrustedRead_def
      MarkPendingAutoLease_def MarkPendingEphemeralApproval_def MarkPendingPushRemote_def RecordDeniedToolUse_def
      ClearPendingInjectionAlert_def MaybeAdvanceTurn_def AdvanceTurnByHook_def expire_turn_secret_def
      clearTurnEvidenceLocked_def downgradeSecretSessionLocked_def clearSecretSessionLocked_def ClearPendingInstall_def
      Let_def split: prod.split)

lemma lasting_consumed: "ConsumeApprovalGrant now v t s = (g, s') \<Longrightarrow> lasting s' = lasting s"
  using lasting_ops(3) [of now v t s] by simp

lemma deny_calm: "calm s (SetDenyAll r s)"
  by (rule calmI, rule session_ops_tighten, rule late_same_prints)

lemma seed_calm: "calm s (seedSensitivePathLineage e root target s)"
  using steps_same_baselines(4)
  by (auto simp: seedSensitivePathLineage_def same_baselines_def intro!: calmI attach_tightens(2))

lemma mark_calm: "calm s (MarkSecretSession now s)"
  by (rule calmI) (simp_all add: MarkSecretSession_def same_prints_def tightens_simps)

lemma saved_calm: "calm s s' \<Longrightarrow> calm s (Save env s')"
  by (rule calm_trans [OF _ lasting_same]) simp_all

subsection \<open>An evaluation keeps it\<close>

definition left_by :: "outcome \<Rightarrow> State" where
  "left_by out = fst (snd out)"

lemma left_by_simps [simp]: "left_by (res, s, log) = s"
  by (simp add: left_by_def)

lemma or_else_calm:
  assumes "calm s0 (fst (snd g))" and "\<And>s. calm s0 s \<Longrightarrow> calm s0 (left_by (k s))"
  shows "calm s0 (left_by (or_else g k))"
proof (cases g)
  case (fields resp s log)
  then show ?thesis using assms(1) assms(2) [of s] by (cases resp) (auto simp: or_else_def left_by_def split: prod.split)
qed

lemma answer_with_state [simp]: "fst (snd (answer_with f g)) = fst (snd g)"
  by (simp add: answer_with_def split: prod.split)

lemma pass_state [simp]: "fst (snd (pass s)) = s"
  by (simp add: pass_def)

lemma gates_last:
  "lasting (fst (snd (recorded_gate env root payload intent labels holds obs resp s))) = lasting s"
  "lasting (fst (snd (evaluateMCPCredentialLeak env payload l s))) = lasting s"
  "lasting (fst (snd (evaluateMCPCapabilityScope env payload l root s))) = lasting s"
  "lasting (fst (snd (evaluateTaintedMCPServer env payload s))) = lasting s"
  "lasting (fst (snd (delegation_gate env root payload intent labels l detail s))) = lasting s"
  "lasting (fst (snd (evaluateTaintedMCPInput env payload l root s))) = lasting s"
  "lasting (fst (snd (evaluateMCPBinaryDrift env intent payload l s))) = lasting s"
  "lasting (fst (snd (evaluateMCPOnboarding env intent payload l s))) = lasting s"
  "lasting (fst (snd (prepareInstallEvaluation env intent l root s))) = lasting s"
  by (auto simp: recorded_gate_def evaluateMCPCredentialLeak_def evaluateMCPCapabilityScope_def evaluateTaintedMCPServer_def
      delegation_gate_def evaluateDelegationHardDeny_def evaluateTaintedMCPInput_def evaluateMCPBinaryDrift_def driftAsk_def
      evaluateMCPOnboarding_def prepareInstallEvaluation_def answer_with_def pass_def Let_def
      split: option.split prod.split dest!: lasting_consumed)

lemma gate_calm:
  "lasting (fst (snd g)) = lasting s \<Longrightarrow> calm s0 s \<Longrightarrow> calm s0 (fst (snd g))"
  by (rule calm_trans [OF _ lasting_same])

lemma warned_calm:
  "lasting (fst (snd g)) = lasting s \<Longrightarrow> calm s0 s \<Longrightarrow> calm s0 (fst (snd (answer_with f g)))"
  by (simp add: gate_calm)

lemma raw_read_calm:
  "calm s0 s \<Longrightarrow> calm s0 (fst (snd (evaluateRawSecretReadGate env root payload intent labels l s)))"
  using calm_trans [OF _ saved_calm [OF seed_calm]]
  by (auto simp: evaluateRawSecretReadGate_def Let_def)

lemma floors_calm:
  assumes "calm s0 s" and "\<And>s. calm s0 s \<Longrightarrow> calm s0 (left_by (k s))"
  shows "calm s0 (left_by (floor_gates env root payload intent labels l s k))"
  unfolding floor_gates_def Let_def
  by (rule or_else_calm, rule gate_calm [OF gates_last(1)], rule assms(1))
     ((rule or_else_calm, rule gate_calm [OF gates_last(1)], assumption)+,
      rule or_else_calm, rule raw_read_calm, assumption, rule assms(2))

lemma servers_calm:
  assumes "calm s0 s" and "\<And>s. calm s0 s \<Longrightarrow> calm s0 (left_by (k s))"
  shows "calm s0 (left_by (server_gates env root payload intent labels l detail s k))"
  unfolding server_gates_def Let_def
  by (rule or_else_calm, rule gate_calm [OF gates_last(2)], rule assms(1),
      (rule or_else_calm, (rule warned_calm | rule gate_calm), rule gates_last, assumption)+, rule assms(2))

lemma relax_last:
  "lasting (snd (relax_if ok ds)) = lasting (snd ds)"
  "(\<And>s. lasting (mark s) = lasting s) \<Longrightarrow> lasting (snd (relax_reused applies approved mark ds)) = lasting (snd ds)"
  "lasting (snd (approval_grant env intent ds)) = lasting (snd ds)"
  by (auto simp: relax_if_def relax_reused_def approval_grant_def split: prod.split option.split dest!: lasting_consumed)

lemma relaxed_last: "lasting (snd (convenience env l payload intent ds)) = lasting (snd ds)"
  by (simp add: convenience_def narrow_env_read_def reuse_push_def reuse_ephemeral_def quiet_mcp_friction_def
      silent_approved_host_def relax_last)

lemma pending_last: "lasting (maybeMarkAutoLeasePending env l intent d s) = lasting s"
  by (auto simp: maybeMarkAutoLeasePending_def split: option.split)

lemma applied_calm: "calm s (snd (applyCoreEvaluationResult env d a intent labels s))"
  using mark_calm calm_trans [OF mark_calm lasting_same]
  by (auto simp: applyCoreEvaluationResult_def Let_def intro: lasting_same)

lemma decide_calm:
  assumes "calm s0 s"
  shows "calm s0 (left_by (decide env root payload signals intent labels l detail s))"
proof (cases "evaluatePolicy env root payload signals intent l s labels")
  case (Inr answer)
  obtain resp pe where a: "answer = (resp, pe)" by (cases answer)
  let ?ds = "if Resp_AuthoritativeActive resp then (Resp_Decision resp, s) else convenience env l payload intent (Resp_Decision resp, s)"
  obtain d s1 where d: "?ds = (d, s1)" by (cases ?ds)
  then have s1: "lasting s1 = lasting s" using relaxed_last [of env l payload intent "(Resp_Decision resp, s)"]
    by (auto split: if_splits)
  obtain h s2 where h: "applyCoreEvaluationResult env d (Resp_AuthoritativeActive resp) intent labels s1 = (h, s2)"
    by (cases "applyCoreEvaluationResult env d (Resp_AuthoritativeActive resp) intent labels s1")
  have "calm s1 s2" using applied_calm [of s1 env d "Resp_AuthoritativeActive resp" intent labels] h by simp
  then have "calm s0 s2" by (blast intro: calm_trans assms lasting_same [OF s1])
  then show ?thesis
    by (auto simp: decide_def Inr a d h left_by_def Let_def pending_last intro!: saved_calm
        intro: calm_trans [OF _ lasting_same])
qed (simp add: decide_def assms)

lemma call_calm: "calm s0 s \<Longrightarrow> calm s0 (left_by (evaluate_call env root payload l detail s))"
  unfolding evaluate_call_def Let_def
  by (rule floors_calm, assumption, rule servers_calm, assumption, rule decide_calm)

lemma alert_calm: "lasting (alert_consumed env s) = lasting s" "lasting (entered env s) = lasting s"
  by (simp_all add: alert_consumed_def entered_def consumePendingInjectionAlert_def)

lemma guards_calm:
  "calm s0 s \<Longrightarrow> calm s0 (fst (snd (evaluateSessionIntegrityGuard env s)))"
  "calm s0 s \<Longrightarrow> calm s0 (fst (snd (evaluateDenyAllGuard env s)))"
  "calm s0 s \<Longrightarrow> calm s0 (fst (snd (evaluateLeaseIntegrityGuard env root s)))"
  using calm_trans [OF _ saved_calm [OF deny_calm]] saved_calm
  by (simp_all add: evaluateSessionIntegrityGuard_def evaluateDenyAllGuard_def evaluateLeaseIntegrityGuard_def)

lemma onward_lasting: "calm s0 s \<Longrightarrow> lasting s' = lasting s \<Longrightarrow> calm s0 s'"
  by (rule calm_trans [OF _ lasting_same])

lemma evaluation_calm: "calm s (left_by (evaluatePayload env ag root payload l s))"
proof -
  have deferred: "left_by (deferred l g out) = left_by out" for g out
    by (simp add: deferred_def left_by_def split: prod.split)
  have consumed: "calm s (left_by (case consumePendingInjectionAlert env t of (detail, t1) \<Rightarrow> k detail t1))"
    if "calm s t" "\<And>detail t1. calm s t1 \<Longrightarrow> calm s (left_by (k detail t1))" for t k
    using that(1) by (auto simp: consumePendingInjectionAlert_def intro!: that(2) elim: onward_lasting)
  show ?thesis unfolding evaluatePayload_def Let_def
    by (rule or_else_calm, rule guards_calm, rule lasting_same, simp, rule or_else_calm, rule guards_calm,
        erule onward_lasting, simp, rule consumed, assumption, rule or_else_calm, rule guards_calm, assumption,
        unfold deferred, rule call_calm, erule onward_lasting, simp)
qed

lemma hook_calm: "calm s (left_by (Evaluate_hook env ag root payload l s))"
  using evaluation_calm [of s env ag root payload l]
  by (auto simp: Evaluate_hook_def left_by_def split: prod.split sum.split
      intro!: saved_calm elim: onward_lasting)

subsection \<open>Steps\<close>

text \<open>
  What one event can leave in the session file. A call that is denied by a gate may end without
  storing its session, or after the alert was read; the session after a call that was
  evaluated is stored otherwise. The step for the lease is the first one of several handlers.
\<close>

inductive event_step :: "State \<Rightarrow> State \<Rightarrow> bool" where
  unstored: "event_step s s"
| alert_read: "event_step s (alert_consumed env s)"
| lease_synced: "syncSessionLeaseHashAfterSirRefresh env md s = Some s' \<Longrightarrow> event_step s s'"
| asked: "Evaluate_hook env ag root payload l s = (res, s', log) \<Longrightarrow> event_step s s'"
| prompted: "EvaluateUserPrompt penv s = (ok, s', log) \<Longrightarrow> event_step s s'"
| questioned: "EvaluateElicitation penv managed lf root nano message (Some s) = (ok, Some s', log) \<Longrightarrow> event_step s s'"
| delegated: "EvaluateSubagentStart penv ag lf p root s = (resp, s', log) \<Longrightarrow> event_step s s'"
| configured: "EvaluateConfigChange penv lf key root s = (ok, s', log) \<Longrightarrow> event_step s s'"
| instructed: "EvaluateInstructionsLoaded penv path content root s = (ok, s', log) \<Longrightarrow> event_step s s'"
| turn_ended: "EvaluateSessionSummary penv restored after lf readable reason root s = (ok, s', log) \<Longrightarrow> event_step s s'"
| ended: "EvaluateSessionEnd penv restored after lf root s = (ok, s', log) \<Longrightarrow> event_step s s'"

inductive session_step :: "State \<Rightarrow> State \<Rightarrow> bool" where
  event: "event_step s s' \<Longrightarrow> session_step s s'"
| reported: "PostEvaluate penv payload l root s = (resp, s', log) \<Longrightarrow> session_step s s'"

lemma store_calm: "calm s0 s \<Longrightarrow> calm s0 s' \<Longrightarrow> calm s0 (store env s s')"
  by (simp add: store_def saved_calm)

lemma stored_as_calm: "stored_as env s s' log = (ok, t, log') \<Longrightarrow> calm s0 s \<Longrightarrow> calm s0 s' \<Longrightarrow> calm s0 t"
  by (auto simp: stored_as_def intro: store_calm)

lemma sync_calm: "syncSessionLeaseHashAfterSirRefresh env md s = Some s' \<Longrightarrow> calm s s'"
  by (auto simp: syncSessionLeaseHashAfterSirRefresh_def intro: lasting_same split: if_splits)

lemma synced_calm: "synced env lf s = Some (l, s') \<Longrightarrow> calm s s'"
  by (auto simp: synced_def dest: sync_calm split: option.splits)

lemma subagent_calm: "subagent_gates env ag g p l root s = (r, s', log) \<Longrightarrow> calm s s'"
  by (auto simp: subagent_gates_def Let_def split: if_splits intro: store_calm deny_calm)

lemma config_check_calm: "config_hooks_check env s = (s', log) \<Longrightarrow> calm s s'"
  by (auto simp: config_hooks_check_def split: option.splits list.splits intro: lasting_same deny_calm)

lemma adopt_calm: "calm s0 s \<Longrightarrow> calm s0 (adopt_hashes files hs s)"
  by (erule onward_lasting) (simp add: adopt_hashes_def)

lemma raise_calm: "calm s0 s \<Longrightarrow> calm s0 (RaisePosture level s)"
  by (rule calm_trans [OF _ calmI], assumption, rule session_ops_tighten) (simp add: RaisePosture_def same_prints_def)

lemma terminal_calm:
  assumes "terminal_sweep env restored after l root s = (ok, s', log)"
  shows "calm s s'"
proof -
  have "calm s s1" if "handleSessionTerminalHookTamper env restored fs s = (paths, s1, log1)" for fs paths s1 log1
    using that deny_calm by (auto simp: handleSessionTerminalHookTamper_def)
  then show ?thesis using assms
    by (auto simp: terminal_sweep_def Let_def split: if_splits prod.splits
        elim!: stored_as_calm intro!: adopt_calm)
qed

lemma sweep_calm:
  "runSessionTerminalPostureSweep env restored after lf root s = (ok, s', log) \<Longrightarrow> calm s s'"
  by (auto simp: runSessionTerminalPostureSweep_def split: option.splits prod.splits
      dest!: synced_calm dest: terminal_calm intro: calm_trans)

lemma event_calm: "event_step s s' \<Longrightarrow> calm s s'"
proof (induction rule: event_step.induct)
  case (alert_read s env)
  show ?case by (rule lasting_same) (rule alert_calm)
next
  case (asked env ag root payload l s res s' log)
  then show ?case using hook_calm [of s env ag root payload l] by simp
next
  case (prompted penv s ok s' log)
  then show ?case by (auto simp: EvaluateUserPrompt_def Let_def elim!: stored_as_calm intro: lasting_same)
next
  case (questioned penv managed lf root nano message s ok s' log)
  then show ?case
    by (auto simp: EvaluateElicitation_def Let_def split: if_splits option.splits
        intro!: saved_calm raise_calm dest: synced_calm)
next
  case (delegated penv ag lf p root s resp s' log)
  then show ?case
    by (auto simp: EvaluateSubagentStart_def Let_def split: option.splits prod.splits
        dest!: synced_calm subagent_calm intro: calm_trans)
next
  case (configured penv lf key root s ok s' log)
  then show ?case
    by (auto simp: EvaluateConfigChange_def Let_def split: if_splits option.splits prod.splits
        dest!: synced_calm config_check_calm elim!: stored_as_calm intro: calm_trans)
next
  case (instructed penv path content root s ok s' log)
  then show ?case by (auto simp: EvaluateInstructionsLoaded_def Let_def split: if_splits intro: lasting_same)
next
  case (turn_ended penv restored after lf readable reason root s ok s' log)
  then show ?case by (auto simp: EvaluateSessionSummary_def split: prod.splits if_splits dest: sweep_calm)
next
  case (ended penv restored after lf root s ok s' log)
  then show ?case
    by (auto simp: EvaluateSessionEnd_def split: prod.splits if_splits dest!: sweep_calm
        elim!: stored_as_calm intro: onward_lasting)
qed (auto dest: sync_calm)

inductive_cases session_stepE: "session_step s s'"

lemma step_outlives: "session_step s s' \<Longrightarrow> outlives s s'"
  by (auto elim!: session_stepE dest: event_calm simp: calm_def intro: tightens_outlives post_tightens)

lemma steps_outlive: "session_step\<^sup>*\<^sup>* s s' \<Longrightarrow> outlives s s'"
  by (induction rule: rtranclp_induct) (auto dest: step_outlives intro: outlives_trans)

subsection \<open>Runs, with what was reported\<close>

text \<open>A run of the session together with the values recognised in the outputs that were reported in it.\<close>

inductive session_run :: "string set \<Rightarrow> State \<Rightarrow> State \<Rightarrow> bool" where
  start: "session_run {} s s"
| event: "session_run W s t \<Longrightarrow> event_step t u \<Longrightarrow> session_run W s u"
| report: "session_run W s t \<Longrightarrow> PostEvaluate penv payload l root t = (resp, u, log) \<Longrightarrow>
    session_run (W \<union> set (secret_values (hp_ToolOutput payload))) s u"

text \<open>These are the runs of the steps.\<close>

lemma run_steps: "session_run W s t \<Longrightarrow> session_step\<^sup>*\<^sup>* s t"
  by (induction rule: session_run.induct) (auto intro: session_step.intros rtranclp.rtrancl_into_rtrancl)

lemma steps_run: "session_step\<^sup>*\<^sup>* s t \<Longrightarrow> \<exists>W. session_run W s t"
proof (induction rule: rtranclp_induct)
  case (step t u)
  then obtain W where "session_run W s t" by blast
  with step.hyps(2) show ?case by (elim session_stepE) (blast intro: session_run.event session_run.report)+
qed (blast intro: session_run.start)

lemma run_traced: "session_run W s t \<Longrightarrow> prints_traced W s t"
proof (induction rule: session_run.induct)
  case (event W s t u)
  then have "prints_traced {} t u" using event_calm traced_same by (auto simp: calm_def)
  with traced_trans [OF event.IH] show ?case by fastforce
next
  case (report W s t penv payload l root resp u log)
  from traced_trans [OF report.IH report_traced [OF report.hyps(2)]] show ?case .
qed (simp add: traced_same)

end
