(* ===== verification/Hooks_Session_Properties.thy ===== *)
theory Hooks_Session_Properties
  imports Hooks_Sessions
begin

text \<open>
  Properties that span the events of a session: what was read, injected or ignored in one call decides
  the calls after it, whatever happens in between.
\<close>

text \<open>Calls that only finish, as when several of them ran at once.\<close>

definition report_step :: "State \<Rightarrow> State \<Rightarrow> bool" where
  "report_step s s' \<longleftrightarrow> (\<exists>env payload l root resp log. PostEvaluate env payload l root s = (resp, s', log))"

lemma reports_tighten: "report_step\<^sup>*\<^sup>* s s' \<Longrightarrow> tightens s s'"
  by (induction rule: rtranclp_induct) (auto simp: report_step_def dest: post_tightens intro: tightens_trans)

lemma locked_refuses:
  assumes "session_step\<^sup>*\<^sup>* s s'" and "DenyAll s"
  shows "DenyAll s' \<and> (\<exists>r s''. evaluatePayload env ag root payload l s' = (Inr r, s'', []) \<and> hr_Decision r = VerdictDeny)"
proof -
  have "DenyAll s'" using steps_outlive [OF assms(1)] assms(2) by (simp add: outlives_def)
  with stopped_refuses show ?thesis by blast
qed

lemma post_cases:
  assumes "PostEvaluate env payload l root s = (resp, s', log)" and "\<not> ee_SaveFails (po_Eval env)"
  obtains "DenyAll s'" "hr_Decision resp = VerdictDeny"
  | t where "post_proceeds env payload s" "post_call env payload l root s = (resp, t, log)" "s' = Save (po_Eval env) t"
proof (cases "post_proceeds env payload s")
  case True
  then show ?thesis using post_runs [OF True assms(1)] that(2) by blast
next
  case False
  then show ?thesis using assms that(1)
    by (auto simp: post_proceeds_def PostEvaluate_def postEvaluatePayload_def SetDenyAll_def hook_response_def split: if_splits)
qed

subsection \<open>What is never taken back\<close>

text \<open>C37: No event takes a restriction back. After any sequence of hook events (calls that are asked
  for or reported, user messages, questions, sub-agents, changed settings, loaded instructions, ends of
  turns and of the session) deny-all, the mark of a session that read credentials, posture, tainted
  servers, injection signals and labels of files are all still there, and a session in deny-all still refuses
  every call.\<close>

theorem restrictions_last:
  assumes "session_step\<^sup>*\<^sup>* s s'"
  shows "outlives s s' \<and>
    (DenyAll s \<longrightarrow>
      (\<forall>env ag root payload l. \<exists>r s''. evaluatePayload env ag root payload l s' = (Inr r, s'', []) \<and> hr_Decision r = VerdictDeny))"
  using steps_outlive [OF assms] locked_refuses [OF assms] by blast

subsection \<open>An ignored denial\<close>

text \<open>C6: A denial that is ignored ends the session. The hook denies a call that has an id, and the session can be
  saved. Then only calls that had been asked for before finish: reports, and nothing else. When one of
  them says that the denied call ran, and the session can be saved again, the report is answered with a denial, and the session is in deny-all
  after every later sequence of events, so that every call is denied, on any machine and under any lease.\<close>

theorem ignored_denial_locks:
  assumes "Evaluate_hook env ag root payload l s0 = (Inr resp, s1, log)" and "hr_Decision resp = VerdictDeny"
    and "hp_ToolUseID payload \<noteq> []" and "\<not> ee_SaveFails env" and "report_step\<^sup>*\<^sup>* s1 s2"
    and "hp_ToolUseID report = hp_ToolUseID payload" and "\<not> ee_SaveFails (po_Eval penv)"
    and "PostEvaluate penv report l2 root2 s2 = (resp2, s3, log2)" and "session_step\<^sup>*\<^sup>* s3 s4"
  shows "hr_Decision resp2 = VerdictDeny \<and> DenyAll s4
    \<and> (\<forall>env ag root payload l. \<exists>r s''. evaluatePayload env ag root payload l s4 = (Inr r, s'', []) \<and> hr_Decision r = VerdictDeny)"
proof -
  have "WasToolUseDenied s1 (hp_ToolUseID payload)" by (rule denial_recorded [OF assms(1-4)])
  moreover have "DeniedToolUses s2 = DeniedToolUses s1"
    using reports_tighten [OF assms(5)] by (simp add: tightens_def)
  ultimately have "WasToolUseDenied s2 (hp_ToolUseID report)"
    by (simp add: WasToolUseDenied_def assms(3,6))
  then have "\<not> post_proceeds penv report s2" using assms(3,6) by (simp add: post_proceeds_def)
  with post_cases [OF assms(8,7)] have "DenyAll s3 \<and> hr_Decision resp2 = VerdictDeny" by blast
  with locked_refuses [OF assms(9)] show ?thesis by blast
qed

subsection \<open>A captured secret\<close>





lemma remembers_pair:
  "remembers s v \<longleftrightarrow> FingerprintSaltBytes s \<noteq> [] \<and> minFingerprintLen \<le> length v
     \<and> (secret_digest v (FingerprintSaltBytes s), int (length v)) \<in> set (SecretFingerprints s)"
  by (auto simp: remembers_def FingerprintValue_def)





lemma hex_nil [simp]: "hex_EncodeToString r = [] \<longleftrightarrow> r = []"
  by (cases r) auto









subsection \<open>An injected answer\<close>

lemma allow_has_no_alert:
  assumes "\<not> Ls_ObserveOnly l" and "evaluatePayload env ag root payload l s0 = (Inr resp, s', log)"
    and "hr_Decision resp = VerdictAllow"
  shows "control_plane_ok env root s0 \<and> alert_text env s0 = []"
proof -
  have "sat (\<lambda>resp log. hr_Decision resp = VerdictAllow \<longrightarrow> control_plane_ok env root s0 \<and> alert_text env s0 = [])
     (evaluatePayload env ag root payload l s0)"
  proof (rule payload_sat)
    fix s1 assume cp: "control_plane_ok env root s0"
    show "sat (\<lambda>resp log. hr_Decision (on_wire l (thinkingDegradeActive env ag payload) resp) = VerdictAllow \<longrightarrow>
        control_plane_ok env root s0 \<and> alert_text env s0 = [])
      (decide env root payload (CollectSignals env payload) (intent_of env payload l) (labels_of env root payload l) l
        (alert_text env s0) s1)"
      by (rule decide_sat, unfold plain_wire [OF assms(1)]) (use settled_allows cp in blast)
  qed (auto simp: stopped_def plain_wire [OF assms(1)])
  with assms(2,3) show ?thesis by simp
qed

text \<open>An alert that is pending with a text is read by the next call.\<close>

definition warned :: "State \<Rightarrow> bool" where
  "warned s \<longleftrightarrow> DenyAll s \<or> PendingInjectionAlert s \<and> InjectionAlertDetail s \<noteq> []"

lemma warned_tightens: "tightens s s' \<Longrightarrow> warned s \<Longrightarrow> warned s'"
  by (auto simp: tightens_def warned_def)

lemma warned_not_allowed:
  assumes "warned s" and "\<not> Ls_ObserveOnly l" and "evaluatePayload env ag root payload l s = (Inr resp, s', log)"
  shows "hr_Decision resp \<noteq> VerdictAllow"
proof
  assume "hr_Decision resp = VerdictAllow"
  with allow_has_no_alert [OF assms(2,3)] have ok: "control_plane_ok env root s" "alert_text env s = []" by blast+
  have "DenyAll (entered env s) = DenyAll s" "PendingInjectionAlert (entered env s) = PendingInjectionAlert s"
    "InjectionAlertDetail (entered env s) = InjectionAlertDetail s"
    by (simp_all add: entered_def MaybeAdvanceTurn_def expire_turn_secret_def clearTurnEvidenceLocked_def
        downgradeSecretSessionLocked_def clearSecretSessionLocked_def Let_def)
  with ok assms(1) show False
    by (auto simp: warned_def control_plane_ok_def alert_text_def consumePendingInjectionAlert_def)
qed

lemma injection_warns:
  assumes "ScanMCPResponseForInjection (hp_ToolOutput payload) \<noteq> []"
    and "HighestSeverity (ScanMCPResponseForInjection (hp_ToolOutput payload)) = ''HIGH''"
    and "isToolMCP (hp_ToolName payload)" and "hp_ToolOutput payload \<noteq> []"
    and "applyPostEvaluateMCPOutputAnalysis env payload s = (alert, s', log)"
  shows "warned s'"
  using assms by (auto simp: applyPostEvaluateMCPOutputAnalysis_def record_injection_def SetPendingInjectionAlert_def
      warned_def Let_def split: prod.splits)

lemma injected_report_warns:
  assumes "injected p (hp_ToolOutput payload)" and "ip_severity p = ''HIGH''" and "isToolMCP (hp_ToolName payload)"
    and "post_call env payload l root s = (resp, t, log)"
  shows "warned t"
proof (rule post_call_steps [OF assms(4)])
  let ?target = "recordSensitiveTargetFromPostPayload env payload l root"
  fix a1 s3 log1 a2 s5 log2 r s6 log3
  assume c: "handleBashPostEvaluateChecks env payload l root s5 = (r, s6, log3)"
    and rest: "r = None \<Longrightarrow> resp = hook_response VerdictAllow
          \<and> (\<exists>a3 s7 log4 log5. applyPostEvaluateMCPOutputAnalysis env payload s6 = (a3, s7, log4)
               \<and> post_approvals env payload l ?target (a1 \<or> a2 \<or> a3) (post_marks env payload root ?target (a1 \<or> a2 \<or> a3) s7)
                 = (t, log5))"
  have "hp_ToolName payload \<noteq> ''Bash''" using assms(3) by (auto simp: isToolMCP_def)
  then have "r = None" using c by (simp add: handleBashPostEvaluateChecks_def)
  from rest [OF this] obtain a3 s7 log4 log5 where m: "applyPostEvaluateMCPOutputAnalysis env payload s6 = (a3, s7, log4)"
    and p: "post_approvals env payload l ?target (a1 \<or> a2 \<or> a3) (post_marks env payload root ?target (a1 \<or> a2 \<or> a3) s7)
               = (t, log5)" by blast
  have found: "ScanMCPResponseForInjection (hp_ToolOutput payload) \<noteq> []"
    "HighestSeverity (ScanMCPResponseForInjection (hp_ToolOutput payload)) = ''HIGH''"
    using injection_detected [OF assms(1)] assms(2) by auto
  then have "hp_ToolOutput payload \<noteq> []" by (auto simp: ScanMCPResponseForInjection_def)
  from injection_warns [OF found assms(3) this m] have "warned s7" .
  from warned_tightens [OF tightens_trans [OF marks_tighten approvals_tighten [OF p]] this] show ?thesis .
qed

text \<open>C7: An injected answer stops the flow. The answer of an MCP server carries a context-free
  pattern of high severity, openly or hidden by format characters, and the session can be saved after its report. Then
  the next call that is asked for under a lease that is not in observe mode is not allowed silently, whatever it is and however
  many other calls only finish in between.\<close>

theorem injected_answer_interrupts:
  assumes "injected p (hp_ToolOutput payload)" and "ip_severity p = ''HIGH''" and "isToolMCP (hp_ToolName payload)"
    and "\<not> ee_SaveFails (po_Eval penv)" and "PostEvaluate penv payload l root s = (resp, s1, log)"
    and "report_step\<^sup>*\<^sup>* s1 s2" and "\<not> Ls_ObserveOnly l2"
    and "evaluatePayload env ag root2 call l2 s2 = (Inr r, s3, log2)"
  shows "hr_Decision r \<noteq> VerdictAllow"
proof -
  have saved: "warned (Save (po_Eval penv) t) = warned t" for t by (simp add: warned_def)
  have "warned s1" using post_cases [OF assms(5,4)] injected_report_warns [OF assms(1-3)] saved
    by (metis warned_def)
  with reports_tighten [OF assms(6)] have "warned s2" by (rule warned_tightens)
  from warned_not_allowed [OF this assms(7,8)] show ?thesis .
qed

subsection \<open>Edits of the session file\<close>

text \<open>C39: An edited session file is accepted after a user message. A tool call refuses a session whose
  hash does not fit and locks it. The handler of user messages does not look at the hash, and stores the session with
  a fresh one: the edit, a cleared secret mark or deny-all included, passes the check of every later call.\<close>

theorem prompt_accepts_edits:
  assumes "\<not> VerifySessionIntegrity (po_Eval penv) (s\<lparr>DecisionStartedAt := ee_Now (po_Eval penv)\<rparr>)"
    and "\<not> ee_SaveFails (po_Eval penv)"
  shows "(\<exists>r s'. evaluatePayload (po_Eval penv) ag root payload l s = (Inr r, s', [])
            \<and> hr_Decision r = VerdictDeny \<and> DenyAll s')
    \<and> (\<exists>s' log. EvaluateUserPrompt penv s = (True, s', log) \<and> VerifySessionIntegrity (po_Eval penv) s'
          \<and> DenyAll s' = DenyAll s \<and> (SecretSession s' \<longrightarrow> SecretSession s)
          \<and> (SessionEverSecret s' \<longrightarrow> SecretSession s \<or> SessionEverSecret s))"
proof
  have "\<not> control_plane_ok (po_Eval penv) root s" using assms(1) by (simp add: control_plane_ok_def)
  from evaluatePayload_refuses [OF this, of ag payload l]
  show "\<exists>r s'. evaluatePayload (po_Eval penv) ag root payload l s = (Inr r, s', []) \<and> hr_Decision r = VerdictDeny \<and> DenyAll s'"
    by (auto simp: hook_response_def)
  let ?s' = "Save (po_Eval penv) (AdvanceTurnByHook s)"
  have "\<exists>log. EvaluateUserPrompt penv s = (True, ?s', log)"
    using assms(2) by (simp add: EvaluateUserPrompt_def stored_as_def store_def Let_def)
  moreover have "DenyAll ?s' = DenyAll s" "SecretSession ?s' \<longrightarrow> SecretSession s"
    "SessionEverSecret ?s' \<longrightarrow> SecretSession s \<or> SessionEverSecret s"
    by (simp_all add: AdvanceTurnByHook_def expire_turn_secret_def clearTurnEvidenceLocked_def
        downgradeSecretSessionLocked_def clearSecretSessionLocked_def Let_def)
  ultimately show "\<exists>s' log. EvaluateUserPrompt penv s = (True, s', log) \<and> VerifySessionIntegrity (po_Eval penv) s'
          \<and> DenyAll s' = DenyAll s \<and> (SecretSession s' \<longrightarrow> SecretSession s)
          \<and> (SessionEverSecret s' \<longrightarrow> SecretSession s \<or> SessionEverSecret s)"
    using saved_session_verifies [of "po_Eval penv" "AdvanceTurnByHook s"] by blast
qed

subsection \<open>Sub-agents\<close>


subsection \<open>Locks and installations\<close>

lemma trimmed_prefix:
  assumes "p \<noteq> []" and "\<not> ascii_space (hd p)" and "\<not> ascii_space (last p)"
  shows "strings_HasPrefix (strings_TrimSpace (p @ x)) p"
proof -
  have "dropWhile ascii_space (p @ x) = p @ x" using assms(1,2) by (cases p) auto
  moreover have "dropWhile ascii_space (rev p) = rev p"
    using assms(1,3) by (cases "rev p") (auto simp: hd_rev dest: arg_cong [of _ _ hd])
  ultimately have "\<exists>y. strings_TrimSpace (p @ x) = p @ y"
    by (cases "\<forall>c\<in>set x. ascii_space c") (auto simp: strings_TrimSpace_def dropWhile_append)
  then show ?thesis by (auto simp: HasPrefix_iff_prefix)
qed

lemma sweep_reason: "isHookInducedDenyReason (''posture file tampered: '' @ x)"
proof -
  have "strings_HasPrefix (strings_TrimSpace (''posture file tampered'' @ ('': '' @ x))) ''posture file tampered''"
    by (rule trimmed_prefix) (simp_all add: ascii_space_def)
  then show ?thesis
    by (auto simp: isHookInducedDenyReason_def hookInducedDenyPrefixes_def HasPrefix_iff_prefix Let_def
        simp del: strings_HasPrefix.simps)
qed

lemma other_reasons:
  "list_all (\<lambda>r. \<not> isHookInducedDenyReason r)
     [executed_anyway, ''session.json modified outside sir'', ''lease.json modified outside approved write'']"
  by (simp add: isHookInducedDenyReason_def hookInducedDenyPrefixes_def executed_anyway_def em_dash_def
      strings_TrimSpace_def ascii_space_def Let_def)

lemma rebaselined_lock:
  "DenyAll (rebaselined env l root s) \<longleftrightarrow> DenyAll s \<and> \<not> isHookInducedDenyReason (DenyAllReason s)"
  by (auto simp: rebaselined_def Let_def split: hook_hash.split option.split)

text \<open>C40: An installation lifts more locks than it should. New baselines keep a session locked that was locked
  for another reason than changed hook files: a denial that was ignored, an edited session, an edited lease. But
  if a hook file has changed as well, the sweep at the end of a turn overwrites the reason, and the next
  installation lifts the lock.\<close>

theorem overwritten_lock_is_lifted:
  assumes "DenyAll s"
    and "DenyAllReason s \<in> {executed_anyway, ''session.json modified outside sir'', ''lease.json modified outside approved write''}"
    and "pd_HookFiles (DetectPostureIntegrityDrift (po_Hooks penv) root s l) \<noteq> []" and "\<not> ee_SaveFails (po_Eval penv)"
    and "terminal_sweep penv restored after l root s = (ok, s', log)"
  shows "DenyAll (rebaselined env l2 root2 s) \<and> DenyAll s' \<and> \<not> DenyAll (rebaselined env l2 root2 s')"
proof -
  have "\<exists>x. DenyAll s' \<and> DenyAllReason s' = ''posture file tampered: '' @ x"
    using assms(3-5) by (auto simp: terminal_sweep_def handleSessionTerminalHookTamper_def SetDenyAll_def stored_as_def
        store_def adopt_hashes_def Save_def Let_def)
  moreover have "\<not> isHookInducedDenyReason (DenyAllReason s)" using assms(2) other_reasons by auto
  ultimately show ?thesis using assms(1) sweep_reason by (auto simp: rebaselined_lock)
qed

subsection \<open>Sessions on which these apply\<close>

theorem restrictions_last_witness:
  "let s = SetDenyAll ''locked'' (NewState 1 1 ''/w''); s' = fst (snd (EvaluateUserPrompt demo_post s))
   in outlives s s' \<and> (\<exists>r s''. evaluatePayload demo_machine None ''/w'' demo_glob DefaultLease s' = (Inr r, s'', [])
        \<and> hr_Decision r = VerdictDeny)"
proof -
  let ?s = "SetDenyAll ''locked'' (NewState 1 1 ''/w'')"
  let ?s' = "fst (snd (EvaluateUserPrompt demo_post ?s))"
  have "session_step ?s ?s'"
    by (cases "EvaluateUserPrompt demo_post ?s") (auto intro: session_step.event event_step.prompted)
  then have "session_step\<^sup>*\<^sup>* ?s ?s'" by blast
  moreover have "DenyAll ?s" by (simp add: SetDenyAll_def)
  ultimately show ?thesis using restrictions_last [of ?s ?s'] unfolding Let_def by blast
qed

text \<open>A session that remembers the password of \<open>demo_leak\<close>.\<close>

definition remembering_session :: State where
  "remembering_session = (NewState 1 1 ''/w'')\<lparr>FingerprintSalt := ''6161'',
     SecretFingerprints := [(secret_digest ''hunter2-hunter2'' ''aa'', 15)]\<rparr>"

lemma demo_remembers: "remembers remembering_session ''hunter2-hunter2''"
proof -
  have salt: "FingerprintSaltBytes remembering_session = ''aa''"
    by (simp add: FingerprintSaltBytes_def remembering_session_def) code_simp
  show ?thesis unfolding remembers_pair salt by (simp add: minFingerprintLen_def remembering_session_def)
qed

theorem ignored_denial_locks_witness:
  "\<exists>resp s1 log resp2 s2 log2.
     Evaluate_hook demo_machine None ''/w'' (demo_leak\<lparr>hp_ToolUseID := ''t1''\<rparr>) (DefaultLease\<lparr>Ls_ObserveOnly := True\<rparr>)
       remembering_session = (Inr resp, s1, log)
     \<and> PostEvaluate demo_post (demo_report ''Bash'' [] []) DefaultLease ''/w'' s1 = (resp2, s2, log2)
     \<and> hr_Decision resp2 = VerdictDeny \<and> DenyAll s2"
proof -
  let ?call = "demo_leak\<lparr>hp_ToolUseID := ''t1''\<rparr>" and ?l = "DefaultLease\<lparr>Ls_ObserveOnly := True\<rparr>"
  have body: "outboundPayloadText ?call = outboundPayloadText demo_leak" by (simp add: outboundPayloadText_def)
  have intent: "intent_of demo_machine ?call ?l = intent_of demo_machine demo_leak ?l" by simp
  have "\<exists>r s log. evaluatePayload demo_machine None ''/w'' ?call ?l remembering_session = (Inr r, s, log) \<and> hr_Decision r = VerdictDeny"
    using demo_leak_laundered demo_leak_call
    by (intro laundered_secret_denied [OF demo_remembers]) (simp_all only: body intent, simp_all)
  then obtain r s1 log where e: "Evaluate_hook demo_machine None ''/w'' ?call ?l remembering_session = (Inr r, s1, log)"
    "hr_Decision r = VerdictDeny" by (auto simp: Evaluate_hook_def)
  obtain resp2 s2 log2 where p: "PostEvaluate demo_post (demo_report ''Bash'' [] []) DefaultLease ''/w'' s1 = (resp2, s2, log2)"
    by (cases "PostEvaluate demo_post (demo_report ''Bash'' [] []) DefaultLease ''/w'' s1")
  have "hr_Decision resp2 = VerdictDeny \<and> DenyAll s2"
    using ignored_denial_locks [OF e _ _ _ _ _ p, of s2] by simp
  with e p show ?thesis by blast
qed



theorem injected_answer_interrupts_witness:
  "\<exists>resp s1 log r s2 log2.
     PostEvaluate demo_post (demo_report ''mcp__docs__get'' [] hidden_injection) DefaultLease ''/w'' clean_session = (resp, s1, log)
     \<and> evaluatePayload demo_machine None ''/w'' demo_glob DefaultLease s1 = (Inr r, s2, log2)
     \<and> hr_Decision r \<noteq> VerdictAllow"
proof -
  let ?report = "demo_report ''mcp__docs__get'' [] hidden_injection"
  obtain resp s1 log where p: "PostEvaluate demo_post ?report DefaultLease ''/w'' clean_session = (resp, s1, log)"
    by (cases "PostEvaluate demo_post ?report DefaultLease ''/w'' clean_session")
  obtain a s2 log2 where "evaluatePayload demo_machine None ''/w'' demo_glob DefaultLease s1 = (a, s2, log2)"
    by (cases "evaluatePayload demo_machine None ''/w'' demo_glob DefaultLease s1")
  with payload_returns [of demo_machine None "''/w''" demo_glob DefaultLease s1]
  obtain r where e: "evaluatePayload demo_machine None ''/w'' demo_glob DefaultLease s1 = (Inr r, s2, log2)"
    by (cases a) simp_all
  have "injected (plain_pattern ''HIGH'' ''ignore all previous'') (hp_ToolOutput ?report)" using hidden_injected(1) by simp
  from injected_answer_interrupts [OF this _ _ _ p rtranclp.rtrancl_refl _ e]
  have "hr_Decision r \<noteq> VerdictAllow" by (simp add: plain_pattern_def isToolMCP_def)
  with p e show ?thesis by blast
qed

theorem prompt_accepts_edits_witness:
  "let s = NewState 1 1 ''/w''
   in (\<exists>r s'. evaluatePayload demo_machine None ''/w'' demo_glob DefaultLease s = (Inr r, s', []) \<and> hr_Decision r = VerdictDeny)
      \<and> (\<exists>s' log. EvaluateUserPrompt demo_post s = (True, s', log) \<and> VerifySessionIntegrity demo_machine s')"
proof -
  have "\<not> VerifySessionIntegrity (po_Eval demo_post) ((NewState 1 1 ''/w'')\<lparr>DecisionStartedAt := ee_Now (po_Eval demo_post)\<rparr>)"
    by (simp add: VerifySessionIntegrity_def NewState_def)
  from prompt_accepts_edits [OF this, of None "''/w''" demo_glob DefaultLease] show ?thesis unfolding Let_def by auto
qed

theorem overwritten_lock_is_lifted_witness:
  "let s = (SetDenyAll executed_anyway (NewState 1 1 ''/w''))\<lparr>PostureHashes := [(''.claude/settings.json'', ''ab'')]\<rparr>;
       l = DefaultLease\<lparr>Ls_PostureFiles := []\<rparr>;
       s' = fst (snd (terminal_sweep demo_post (\<lambda>_. False) demo_machine l ''/w'' s))
   in DenyAll (rebaselined (po_Hooks demo_post) l ''/w'' s) \<and> \<not> DenyAll (rebaselined (po_Hooks demo_post) l ''/w'' s')"
proof -
  let ?s = "(SetDenyAll executed_anyway (NewState 1 1 ''/w''))\<lparr>PostureHashes := [(''.claude/settings.json'', ''ab'')]\<rparr>"
  let ?l = "DefaultLease\<lparr>Ls_PostureFiles := []\<rparr>"
  obtain ok s' log where w: "terminal_sweep demo_post (\<lambda>_. False) demo_machine ?l ''/w'' ?s = (ok, s', log)"
    by (cases "terminal_sweep demo_post (\<lambda>_. False) demo_machine ?l ''/w'' ?s")
  have "LookupAgentHookFileByRelativePath (po_Hooks demo_post) ''.claude/settings.json'' = Some demo_hook_file"
    by (simp add: LookupAgentHookFileByRelativePath_def demo_hook_file_def)
  then have "pd_HookFiles (DetectPostureIntegrityDrift (po_Hooks demo_post) ''/w'' ?s ?l) \<noteq> []"
    by (simp add: DetectPostureIntegrityDrift_def CheckPostureIntegrity_def CompareSentinelHashes_def HashSentinelFiles_def Let_def)
  from overwritten_lock_is_lifted [OF _ _ this _ w, of "po_Hooks demo_post" ?l "''/w''"] w show ?thesis
    unfolding Let_def by (simp add: SetDenyAll_def)
qed

end
