(* ===== verification/Entropy_Real.thy ===== *)
theory Entropy_Real
  imports Complex_Main Secret_Scan Classify_Tunnel
begin

text \<open>
  The Shannon entropy as the code writes it, over the reals, and the proof that the integer tests of
  the model compare it with a multiple of one half.
\<close>

definition shannonEntropy :: "'a list \<Rightarrow> real" where
  "shannonEntropy xs =
    (let total = length xs in
     if total = 0 then 0
     else (\<Sum>c\<leftarrow>freq xs. - (real c / real total * log 2 (real c / real total))))"

lemma log_prod_powers:
  assumes "\<And>c. c \<in> set cs \<Longrightarrow> 0 < (c :: nat)"
  shows "log 2 (real_of_int (prod_list (map (\<lambda>c. int c ^ (2 * c)) cs)))
           = (\<Sum>c\<leftarrow>cs. 2 * real c * log 2 (real c))
         \<and> 0 < prod_list (map (\<lambda>c. int c ^ (2 * c)) cs)"
  using assms
proof (induction cs)
  case (Cons c cs)
  then have pos: "0 < c" and IH: "0 < prod_list (map (\<lambda>c. int c ^ (2 * c)) cs)"
    "log 2 (real_of_int (prod_list (map (\<lambda>c. int c ^ (2 * c)) cs))) = (\<Sum>c\<leftarrow>cs. 2 * real c * log 2 (real c))"
    by simp_all
  show ?case using pos IH
    by (simp add: log_mult log_nat_power)
qed simp

lemma entropy_sum:
  assumes "\<And>c. c \<in> set cs \<Longrightarrow> 0 < (c :: nat)" and "0 < n"
  shows "real n * (\<Sum>c\<leftarrow>cs. - (real c / real n * log 2 (real c / real n)))
    = real (sum_list cs) * log 2 (real n) - (\<Sum>c\<leftarrow>cs. real c * log 2 (real c))"
  using assms(1)
proof (induction cs)
  case (Cons c cs)
  then have "0 < c" and IH: "real n * (\<Sum>c\<leftarrow>cs. - (real c / real n * log 2 (real c / real n)))
    = real (sum_list cs) * log 2 (real n) - (\<Sum>c\<leftarrow>cs. real c * log 2 (real c))" by simp_all
  have "real n * (- (real c / real n * log 2 (real c / real n)))
      = real c * log 2 (real n) - real c * log 2 (real c)"
    using \<open>0 < c\<close> assms(2) by (simp add: log_divide field_simps)
  with IH show ?case by (simp add: algebra_simps)
qed simp

lemma scaled_entropy:
  assumes "xs \<noteq> []"
  defines "n \<equiv> length xs" and "P \<equiv> prod_list (map (\<lambda>c. int c ^ (2 * c)) (freq xs))"
  shows "real n * shannonEntropy xs = real n * log 2 (real n) - log 2 (real_of_int P) / 2" and "0 < P"
proof -
  have n: "0 < n" using assms(1) by (simp add: n_def)
  have P: "0 < P" "log 2 (real_of_int P) = (\<Sum>c\<leftarrow>freq xs. 2 * real c * log 2 (real c))"
    using log_prod_powers [of "freq xs"] freq_pos by (auto simp: P_def)
  have two: "(\<Sum>c\<leftarrow>cs. 2 * real c * log 2 (real c)) = 2 * (\<Sum>c\<leftarrow>cs. real c * log 2 (real c))" for cs
    by (induction cs) (simp_all add: algebra_simps)
  have H: "shannonEntropy xs = (\<Sum>c\<leftarrow>freq xs. - (real c / real n * log 2 (real c / real n)))"
    using n by (simp add: shannonEntropy_def n_def Let_def)
  have "real n * (\<Sum>c\<leftarrow>freq xs. - (real c / real n * log 2 (real c / real n)))
      = real (sum_list (freq xs)) * log 2 (real n) - (\<Sum>c\<leftarrow>freq xs. real c * log 2 (real c))"
    by (rule entropy_sum) (use freq_pos n in auto)
  then show "real n * shannonEntropy xs = real n * log 2 (real n) - log 2 (real_of_int P) / 2"
    unfolding H P(2) two by (simp only: sum_freq n_def)
  show "0 < P" by (rule P(1))
qed

text \<open>Both sides of the tests, as logarithms.\<close>

lemma entropy_logs:
  assumes "xs \<noteq> []"
  shows "shannonEntropy xs > real k / 2 \<longleftrightarrow> entropy_exceeds k xs"
    and "shannonEntropy xs \<ge> real k / 2 \<longleftrightarrow> entropy_reaches k xs"
proof -
  define n where "n = length xs"
  define P where "P = prod_list (map (\<lambda>c. int c ^ (2 * c)) (freq xs))"
  have n: "0 < n" using assms by (simp add: n_def)
  have P: "0 < P" and H: "real n * shannonEntropy xs = real n * log 2 (real n) - log 2 (real_of_int P) / 2"
    using scaled_entropy [OF assms] by (simp_all add: n_def P_def)
  have weight: "entropy_weight k (freq xs) = 2 ^ (k * n) * P"
    by (simp add: entropy_weight_def sum_freq n_def P_def)
  have left: "log 2 (real_of_int (2 ^ (k * n) * P)) = real k * real n + log 2 (real_of_int P)"
    using P by (simp add: log_mult log_nat_power)
  have right: "log 2 (real_of_int (int n ^ (2 * n))) = 2 * real n * log 2 (real n)"
    using n by (simp add: log_nat_power)
  have pos: "0 < real_of_int (2 ^ (k * n) * P)" "0 < real_of_int (int n ^ (2 * n))" using P n by simp_all
  have "shannonEntropy xs > real k / 2 \<longleftrightarrow> real n * (real k / 2) < real n * shannonEntropy xs"
    using n by (simp only: mult_less_cancel_left_pos of_nat_0_less_iff)
  also have "\<dots> \<longleftrightarrow> log 2 (real_of_int (2 ^ (k * n) * P)) < log 2 (real_of_int (int n ^ (2 * n)))"
    unfolding H left right by (auto simp: algebra_simps)
  also have "\<dots> \<longleftrightarrow> 2 ^ (k * n) * P < int n ^ (2 * n)"
    using log_less_cancel_iff [of 2, OF _ pos] by (simp del: of_int_mult of_int_power)
  finally show "shannonEntropy xs > real k / 2 \<longleftrightarrow> entropy_exceeds k xs"
    by (simp only: entropy_exceeds_def weight n_def)
  have "shannonEntropy xs \<ge> real k / 2 \<longleftrightarrow> real n * (real k / 2) \<le> real n * shannonEntropy xs"
    using n by (simp only: mult_le_cancel_left_pos of_nat_0_less_iff)
  also have "\<dots> \<longleftrightarrow> log 2 (real_of_int (2 ^ (k * n) * P)) \<le> log 2 (real_of_int (int n ^ (2 * n)))"
    unfolding H left right by (auto simp: algebra_simps)
  also have "\<dots> \<longleftrightarrow> 2 ^ (k * n) * P \<le> int n ^ (2 * n)"
    using log_le_cancel_iff [of 2, OF _ pos] by (simp del: of_int_mult of_int_power)
  finally show "shannonEntropy xs \<ge> real k / 2 \<longleftrightarrow> entropy_reaches k xs"
    by (simp only: entropy_reaches_def weight n_def)
qed

text \<open>A token counts as random, and a host name as a tunnel, by the entropy of the code over the
  reals: the integer tests decide exactly its comparison with 4.5, and with 3 or 3.5 for labels.\<close>

lemma entropy_tests_exact:
  "(IsHighEntropyString s \<longleftrightarrow>
      32 \<le> length s \<and> \<not> strings_ContainsAny s [CHR '' '', CHR 0x09, CHR 0x0A, CHR 0x0D]
      \<and> \<not> (strings_Contains s ''://'' \<or> strings_ContainsAny s (''[]()<>{}|?&=:,'' @ [CHR 0x22]))
      \<and> \<not> looksLikePathishToken s \<and> \<not> looksLikePinnedGitHubActionRef s
      \<and> shannonEntropy (runes s) > 9 / 2)
   \<and> (isHighEntropyLabel label \<longleftrightarrow>
      32 \<le> length label \<and> 9 * length label \<le> 10 * length (filter (\<lambda>c. re_lower c \<or> re_digit c) label)
      \<and> shannonEntropy label \<ge> (if 45 \<le> length label then 3 else 7 / 2))"
proof
  have exceeds: "entropy_exceeds 9 (runes s) \<longleftrightarrow> shannonEntropy (runes s) > 9 / 2" if "32 \<le> length s"
  proof -
    have "runes s \<noteq> []" using that by (cases s) (auto simp: Let_def)
    then show ?thesis using entropy_logs(1) [of "runes s" 9] by simp
  qed
  then show "IsHighEntropyString s \<longleftrightarrow>
      32 \<le> length s \<and> \<not> strings_ContainsAny s [CHR '' '', CHR 0x09, CHR 0x0A, CHR 0x0D]
      \<and> \<not> (strings_Contains s ''://'' \<or> strings_ContainsAny s (''[]()<>{}|?&=:,'' @ [CHR 0x22]))
      \<and> \<not> looksLikePathishToken s \<and> \<not> looksLikePinnedGitHubActionRef s
      \<and> shannonEntropy (runes s) > 9 / 2"
    by (auto simp: IsHighEntropyString_def not_less simp del: runes.simps)
  have "entropy_reaches 6 label \<longleftrightarrow> shannonEntropy label \<ge> 3"
    and "entropy_reaches 7 label \<longleftrightarrow> shannonEntropy label \<ge> 7 / 2" if "32 \<le> length label"
  proof -
    have "label \<noteq> []" using that by auto
    then show "entropy_reaches 6 label \<longleftrightarrow> shannonEntropy label \<ge> 3"
      and "entropy_reaches 7 label \<longleftrightarrow> shannonEntropy label \<ge> 7 / 2"
      using entropy_logs(2) [of label 6] entropy_logs(2) [of label 7] by simp_all
  qed
  then show "isHighEntropyLabel label \<longleftrightarrow>
      32 \<le> length label \<and> 9 * length label \<le> 10 * length (filter (\<lambda>c. re_lower c \<or> re_digit c) label)
      \<and> shannonEntropy label \<ge> (if 45 \<le> length label then 3 else 7 / 2)"
    by (auto simp: isHighEntropyLabel_def Let_def not_less)
qed

end
