(* ===== verification/Hooks_Self.thy ===== *)
theory Hooks_Self
  imports Hooks_Authority
begin

text \<open>
  sir's own state: which calls change it, read off the input of the call, and what the hook answers.
  The floors look at the classified intent; here the way from the tool input to the intent is
  followed as well. What is not covered is said with the property.
\<close>

subsection \<open>Writes\<close>











text \<open>Why the comma matters: this path leads into sir's directory, but none of its pieces does.\<close>

definition comma_path :: string where
  "comma_path = ''/home/dev/a,/../.sir/lease.json''"

lemma comma_path_passes:
  "ResolveTarget demo_env ''/w'' comma_path = ''/home/dev/.sir/lease.json''
   \<and> \<not> sirStateTamper demo_env (mapWrite demo_env [(''file_path'', JString comma_path)] DefaultLease) ''/w''"
  by code_simp

subsection \<open>Commands\<close>
















subsection \<open>The answer\<close>



end
