(* ===== verification/Spec2Isabelle.thy ===== *)
theory Spec2Isabelle
  imports Detect Kernel_State Session_Properties Ledger_Chain Core_Bridge Lease_Properties Hooks_Disguise Hooks_Authority Hooks_Leaks
    Hooks_Session_Properties Entropy_Real Hooks_Self
begin

text \<open>
  Verification of \<open>sir\<close>, a security layer that sits between a coding agent and the machine:
  every tool call of the agent is first handed to \<open>sir\<close>, which answers \<open>allow\<close>, \<open>ask\<close> or
  \<open>deny\<close>, and is reported to it again when it has run. Sources are named relative to \<open>src/\<close>.

  \<^bold>\<open>How the parts work together.\<close> A call arrives at the hook (\<open>pkg/hooks/evaluate.go\<close>). The
  classifier (\<open>pkg/hooks/classify\<close>) and the tool map (\<open>pkg/hooks/toolmap*.go\<close>) turn it into
  an intent: a verb and a target. Gates that look at the integrity of the session, the lease and
  the posture files, at MCP servers and their arguments, at reads of secrets, package installs and
  writes to \<open>sir\<close>'s own state run first. A call that passes them is labelled, sent to the engine
  (\<open>pkg/core\<close>, with a local fallback when the engine is absent), combined with advisory and
  policy providers (\<open>pkg/provider\<close>, \<open>pkg/signal\<close>), then relaxed by observe mode, leases and
  session approvals, and recorded in the ledger (\<open>pkg/ledger\<close>). The session (\<open>pkg/session\<close>)
  carries taint and approvals from call to call. Beside this path stands the decision kernel
  (\<open>pkg/kernel\<close>), a pure pipeline over observations of runtimes, with its own taint and its bound
  on questions.

  \<^bold>\<open>Shared base.\<close> \<open>Sir_Prelude\<close> holds strings, slices, clock readings, the strictness order
  on verdicts; \<open>Go_Strings\<close>, \<open>Go_Utf8\<close>, \<open>Go_Path\<close>, \<open>Go_Url\<close>, \<open>Go_Time\<close>, \<open>Go_Bytes\<close>
  (big-endian words, hex, SHA-256), \<open>Go_Json\<close>, \<open>Go_Json_Text\<close>, \<open>Go_Json_Round\<close> (printing and
  parsing of JSON text, with the round trip), \<open>Go_Regexp\<close> (the shapes of regular expression in use,
  matched with backtracking), \<open>Go_Encoding\<close> (base64 and hex, with round trips), \<open>Go_Entropy\<close>
  (entropy comparisons in integers): the parts of Go's standard library the sources use.
  A Go string is a byte sequence, a \<open>string\<close> here; comma-ok results are options; Go's string
  enumerations stay strings, so values outside the vocabulary are representable; a map is an
  association list whose order stands for one order of ranging over it.

  \<^bold>\<open>Components.\<close>

  \<^item> \<open>Policy_Surface\<close> (\<open>pkg/policy\<close>), \<open>Sdk_Types\<close> (\<open>pkg/sdk\<close>): vocabularies, provider types.
  \<^item> \<open>Detect\<close> (\<open>pkg/detect\<close>): the ordered rule table of behaviours, its two readings, routing.
  \<^item> \<open>Kernel_Pipeline\<close>, \<open>Kernel_Policy\<close>, \<open>Kernel_State\<close>, \<open>Kernel_Redact\<close> (\<open>pkg/kernel\<close>):
    normalisation, rule table, \<open>Evaluate\<close>, composition, \<open>Process\<close> with taint and friction, and
    redaction. Shown: the exact verdict condition; tainted egress is denied in every run; at most
    three questions per scope and window; no token survives redaction.
  \<^item> \<open>Session_Lineage\<close>, \<open>Session_State\<close>, \<open>Session_Run\<close>, \<open>Session_Properties\<close> (\<open>pkg/session\<close>):
    the state and its methods, runs as a step relation. Shown: well-formedness of every reachable
    state, taint as a high-water mark, approvals only after an observed execution, bounded grants.
  \<^item> \<open>Core_Fallback\<close>, \<open>Core_Properties\<close>, \<open>Core_Wire\<close>, \<open>Core_Bridge\<close> (\<open>pkg/core\<close>): the fallback
    as a refinement of an abstract verdict function, MSTR/1 frames, manifest, integrity check.
  \<^item> \<open>Lease\<close>, \<open>Lease_Properties\<close> (\<open>pkg/lease\<close>, \<open>cmd/sir/policy.go\<close>): leases and profiles.
  \<^item> \<open>Ledger\<close>, \<open>Ledger_Chain\<close>, \<open>Ledger_Redact\<close> (\<open>pkg/ledger\<close>): the hash chain. Its argument is
    made once in the locale \<open>hash_chain\<close>; tampering means a SHA-256 collision, stated as two
    explicit byte strings. \<open>Ledger_Content\<close> is the redaction of texts on their way into the
    ledger: reasons, previews, summaries and plain evidence keep no credential token of a fixed prefix; where
    JSON evidence can keep one is shown as well. Targets and tool names are not redacted.
  \<^item> \<open>Classify_Shell\<close>, \<open>Classify_Paths\<close>, \<open>Classify_Dangerous\<close>, \<open>Classify_Mcp\<close>,
    \<open>Classify_Bounds\<close> (\<open>pkg/hooks/classify\<close>), \<open>Hooks_Toolmap\<close>, \<open>Hooks_Shell\<close>,
    \<open>Hooks_Disguise\<close> (\<open>pkg/hooks/toolmap*.go\<close>): from a tool call to an intent. The recursion over
    compound commands, substitutions and wrappers takes the length of the command as fuel;
    \<open>shell_classifier_returns\<close> shows that this is always enough, since every command taken out of
    another is shorter.
  \<^item> \<open>Provider_Registry\<close>, \<open>Provider_Invoke\<close> (\<open>pkg/provider\<close>, \<open>cmd/sir/provider.go\<close>),
    \<open>Signal_Collect\<close> (\<open>pkg/signal\<close>): the registry as a step relation, requests and answers of
    providers from the bytes of their output.
  \<^item> \<open>Secret_Scan\<close>, \<open>Secret_Redaction\<close>, \<open>Secret_Fingerprint\<close>, \<open>Secret_Leaks\<close>, \<open>Secret_Mcp\<close>
    (\<open>pkg/secretscan\<close>, \<open>pkg/secretview\<close>): credential patterns with scan and redaction of
    output, salted fingerprints of secrets and the search for them in outgoing text, the scan of MCP
    arguments, redacted views. Shown: tokens are reported and do not survive redaction; a recorded
    secret is found verbatim, reversed, chunked, and as a hex, base64 or percent-encoded token (the
    decoding of wrapped blocks is modelled, but no theorem follows it), and only recorded secrets are reported.
  \<^item> \<open>Classify_Tunnel\<close> (\<open>classify/network.go\<close>) recognises DNS tunnels; \<open>Entropy_Real\<close> proves the
    integer entropy tests equal to the comparisons of the real Shannon entropy.
  \<^item> \<open>Posture_Hashes\<close> (\<open>pkg/posture\<close>, \<open>session_io.go\<close>): hashes of sentinel files, lease, session.
  \<^item> \<open>Hooks_Lineage\<close>, \<open>Hooks_Policy\<close>, \<open>Hooks_Floors\<close>, \<open>Hooks_Preflight\<close>, \<open>Hooks_Evaluate\<close>
    (\<open>pkg/hooks/evaluate*.go\<close> and the gates beside them): the whole PreToolUse handler.
    \<open>Hooks_Gates\<close> states what every gate promises to the ones behind it (locale
    \<open>gate_contract\<close>, interpreted on each gate); \<open>Hooks_Decision\<close>, \<open>Hooks_Properties\<close> and
    \<open>Hooks_Authority\<close> prove the handler's properties from it, and \<open>Hooks_Example\<close> holds the machine
    and sessions on which they are shown to apply. \<open>Hooks_Leaks\<close> puts the secret search behind the
    handler: a recorded secret is denied on its way out in every mode, opaque shell commands apart, which are
    asked about. \<open>Hooks_Self\<close> follows attempts on sir's own state from the input of the tool to the answer.
    Each property names its conditions: most of those about allows need the built-in engine, no
    authoritative provider and a session that can be saved, or a lease outside observe mode.
  \<^item> \<open>Hooks_Injection\<close> (\<open>pkg/hooks/evidence\<close>): the scan of MCP responses for prompt injection.
  \<^item> \<open>Posture_Files\<close> (\<open>pkg/posture/files.go\<close>, \<open>hashes.go\<close>, \<open>restore.go\<close>,
    \<open>lifecycle/tamper.go\<close>): the agents' hook files, their baselines and drift.
    \<open>Hooks_Mutation\<close> (\<open>lineage_mutation.go\<close>): labels that follow copied, moved and linked files.
    \<open>Hooks_Post\<close> (\<open>post_evaluate*.go\<close>, \<open>postflight.go\<close>): the whole PostToolUse handler, on an
    environment \<open>PostEnv\<close>. \<open>Hooks_Post_Properties\<close> shows that it only tightens the session,
    which fingerprints it can replace, and that a hook file that departs from its baseline stops the session when
    all hook files can be read, up to a SHA-256 collision of two given texts.
  \<^item> \<open>Hooks_Lifecycle\<close> (\<open>user_prompt.go\<close>, \<open>elicitation.go\<close>, \<open>subagent.go\<close>,
    \<open>config_change.go\<close>, \<open>instructions.go\<close>, \<open>session_summary.go\<close>, \<open>session_end.go\<close>,
    \<open>compact.go\<close>, \<open>evaluate_io.go\<close>, \<open>lifecycle/session.go\<close>, \<open>lifecycle/rebaseline.go\<close>): the
    handlers of the other events, over the sessions they load and store.
  \<^item> \<open>Hooks_Sessions\<close>, \<open>Hooks_Session_Properties\<close>: whole sessions, as a step relation
    \<open>session_step\<close> over all handlers of events. Shown: no event takes a restriction back
    (\<open>outlives\<close>); a secret read in one call does not leave in a later one, unless two values recognised in outputs
    of the run (\<open>session_run\<close> carries them) have the same digest; a denial that is ignored
    ends the session, an injected answer interrupts the next call; and where edits of the session
    file and locks are lost.

  \<^bold>\<open>What is not modelled.\<close> Code outside the repository and the machine enter as arguments: the
  engine process, provider processes, \<open>git\<close>, file contents and directory listings, the clock,
  the agents' settings. Left out are reading standard input, file locking and atomic
  renames, the printing of messages for the user, telemetry, the relay, the containment
  runtime, the adapters of the agents, the other subcommands of \<open>cmd/sir\<close> and the Rust engine.
  Goroutines that dispatch effects have no influence on an answer and are left out. Non-ASCII
  white space and letter case are treated as ordinary bytes, as each theory says where it matters.
  Floating point appears only as exact comparisons: entropies over the reals, shares of bytes in
  integers. Which characters outside ASCII are printable is an argument.
\<close>

end
